(* ===== verification/Prelude.thy ===== *)
theory Prelude
  imports Main
begin

text \<open>
  The vocabulary shared by every component of the development.

  \<^item> A service function of the program is an action \<open>('s, 'e, 'a) act\<close>: it takes the
    state (the database), and gives either a raised exception (\<open>Inl\<close>) or a value
    (\<open>Inr\<close>), and the state it leaves.  A raised exception does not undo what was written
    before it, exactly as outside a transaction; \<open>atomic\<close> is \<open>transaction.atomic()\<close>:
    an exception leaving the block restores the state at its start.
  \<^item> \<open>try_except\<close> is Python's \<open>try/except/else\<close>, \<open>for_each\<close>, \<open>map_m\<close> and \<open>fold_m\<close>
    are its \<open>for\<close> loops.
  \<^item> A table is the list of its rows in creation order; \<open>find_by\<close>, \<open>upd_by\<close> and
    \<open>upd_where\<close> are the ORM's \<open>get\<close>, \<open>save\<close> and \<open>filter(...).update(...)\<close>.
  \<^item> \<open>run_simps\<close> executes an action on a state, \<open>wp_simps\<close> computes weakest preconditions,
    \<open>pres_intros\<close> proves that an action keeps an invariant, \<open>errs_intros\<close> bounds the exceptions
    it can raise.
\<close>

named_theorems run_simps "execution of an action on a state"
named_theorems wp_simps "weakest preconditions of the action combinators"
named_theorems pres_intros "preservation of an invariant by an action"
named_theorems errs_intros "exceptions an action can raise"

section \<open>Actions: state and exceptions\<close>

type_synonym ('s, 'e, 'a) act = "'s \<Rightarrow> ('e + 'a) \<times> 's"

definition ret :: "'a \<Rightarrow> ('s, 'e, 'a) act" where
  "ret x = (\<lambda>s. (Inr x, s))"

definition raise :: "'e \<Rightarrow> ('s, 'e, 'a) act" where
  "raise e = (\<lambda>s. (Inl e, s))"

definition bnd :: "('s, 'e, 'a) act \<Rightarrow> ('a \<Rightarrow> ('s, 'e, 'b) act) \<Rightarrow> ('s, 'e, 'b) act" where
  "bnd m f = (\<lambda>s. case m s of (r, t) \<Rightarrow> (case r of Inl e \<Rightarrow> (Inl e, t) | Inr x \<Rightarrow> f x t))"

definition gets :: "('s \<Rightarrow> 'a) \<Rightarrow> ('s, 'e, 'a) act" where
  "gets f = (\<lambda>s. (Inr (f s), s))"

definition modify :: "('s \<Rightarrow> 's) \<Rightarrow> ('s, 'e, unit) act" where
  "modify f = (\<lambda>s. (Inr (), f s))"

definition atomic :: "('s, 'e, 'a) act \<Rightarrow> ('s, 'e, 'a) act" where
  "atomic m = (\<lambda>s. case m s of (r, t) \<Rightarrow> (case r of Inl e \<Rightarrow> (Inl e, s) | Inr x \<Rightarrow> (Inr x, t)))"

definition try_except ::
  "('s, 'e, 'a) act \<Rightarrow> ('e \<Rightarrow> bool) \<Rightarrow> ('e \<Rightarrow> ('s, 'e, 'b) act) \<Rightarrow> ('a \<Rightarrow> ('s, 'e, 'b) act)
     \<Rightarrow> ('s, 'e, 'b) act" where
  "try_except m p h k = (\<lambda>s. case m s of (r, t) \<Rightarrow>
     (case r of Inl e \<Rightarrow> (if p e then h e t else (Inl e, t)) | Inr x \<Rightarrow> k x t))"

definition check :: "bool \<Rightarrow> 'e \<Rightarrow> ('s, 'e, unit) act" where
  "check b e = (if b then ret () else raise e)"

definition when_m :: "bool \<Rightarrow> ('s, 'e, unit) act \<Rightarrow> ('s, 'e, unit) act" where
  "when_m b m = (if b then m else ret ())"

definition or_raise :: "'a option \<Rightarrow> 'e \<Rightarrow> ('s, 'e, 'a) act" where
  "or_raise v e = (case v of None \<Rightarrow> raise e | Some x \<Rightarrow> ret x)"

primrec for_each :: "('x \<Rightarrow> ('s, 'e, unit) act) \<Rightarrow> 'x list \<Rightarrow> ('s, 'e, unit) act" where
  "for_each f [] = ret ()"
| "for_each f (x # xs) = bnd (f x) (\<lambda>_. for_each f xs)"

primrec map_m :: "('x \<Rightarrow> ('s, 'e, 'y) act) \<Rightarrow> 'x list \<Rightarrow> ('s, 'e, 'y list) act" where
  "map_m f [] = ret []"
| "map_m f (x # xs) = bnd (f x) (\<lambda>y. bnd (map_m f xs) (\<lambda>ys. ret (y # ys)))"

primrec fold_m :: "('a \<Rightarrow> 'x \<Rightarrow> ('s, 'e, 'a) act) \<Rightarrow> 'a \<Rightarrow> 'x list \<Rightarrow> ('s, 'e, 'a) act" where
  "fold_m f a [] = ret a"
| "fold_m f a (x # xs) = bnd (f a x) (\<lambda>b. fold_m f b xs)"

subsection \<open>Running an action\<close>

lemma ret_run [run_simps]: "ret x s = (Inr x, s)"
  by (simp add: ret_def)

lemma raise_run [run_simps]: "raise e s = (Inl e, s)"
  by (simp add: raise_def)

lemma gets_run [run_simps]: "gets f s = (Inr (f s), s)"
  by (simp add: gets_def)

lemma modify_run [run_simps]: "modify f s = (Inr (), f s)"
  by (simp add: modify_def)

lemma bnd_run [run_simps]:
  "bnd m f s = (case m s of (r, t) \<Rightarrow> (case r of Inl e \<Rightarrow> (Inl e, t) | Inr x \<Rightarrow> f x t))"
  by (simp add: bnd_def)

lemma atomic_run [run_simps]:
  "atomic m s = (case m s of (r, t) \<Rightarrow> (case r of Inl e \<Rightarrow> (Inl e, s) | Inr x \<Rightarrow> (Inr x, t)))"
  by (simp add: atomic_def)

lemma try_except_run [run_simps]:
  "try_except m p h k s = (case m s of (r, t) \<Rightarrow>
     (case r of Inl e \<Rightarrow> (if p e then h e t else (Inl e, t)) | Inr x \<Rightarrow> k x t))"
  by (simp add: try_except_def)

lemma check_run [run_simps]: "check b e s = (if b then (Inr (), s) else (Inl e, s))"
  by (simp add: check_def ret_def raise_def)

lemma when_m_run [run_simps]: "when_m b m s = (if b then m s else (Inr (), s))"
  by (simp add: when_m_def ret_def)

lemma or_raise_run [run_simps]:
  "or_raise v e s = (case v of None \<Rightarrow> (Inl e, s) | Some x \<Rightarrow> (Inr x, s))"
  by (simp add: or_raise_def ret_def raise_def split: option.splits)

lemma bnd_ret [simp]: "bnd (ret x) f = f x"
  by (simp add: bnd_def ret_def)

lemma bnd_raise [simp]: "bnd (raise e) f = raise e"
  by (simp add: bnd_def raise_def)

lemma bnd_assoc: "bnd (bnd m f) g = bnd m (\<lambda>x. bnd (f x) g)"
  by (rule ext) (simp add: bnd_def split: prod.splits sum.splits)

subsection \<open>Weakest preconditions\<close>

definition wp ::
  "('s, 'e, 'a) act \<Rightarrow> ('a \<Rightarrow> 's \<Rightarrow> bool) \<Rightarrow> ('e \<Rightarrow> 's \<Rightarrow> bool) \<Rightarrow> 's \<Rightarrow> bool" where
  "wp m Q E s = (case m s of (r, t) \<Rightarrow> (case r of Inl e \<Rightarrow> E e t | Inr x \<Rightarrow> Q x t))"

lemma wp_ret [wp_simps]: "wp (ret x) Q E = Q x"
  by (rule ext) (simp add: wp_def ret_def)

lemma wp_raise [wp_simps]: "wp (raise e) Q E = E e"
  by (rule ext) (simp add: wp_def raise_def)

lemma wp_gets [wp_simps]: "wp (gets f) Q E s = Q (f s) s"
  by (simp add: wp_def gets_def)

lemma wp_modify [wp_simps]: "wp (modify f) Q E s = Q () (f s)"
  by (simp add: wp_def modify_def)

lemma wp_bnd [wp_simps]: "wp (bnd m f) Q E s = wp m (\<lambda>x. wp (f x) Q E) E s"
  by (simp add: wp_def bnd_def split: prod.splits sum.splits)

lemma wp_atomic [wp_simps]: "wp (atomic m) Q E s = wp m Q (\<lambda>e _. E e s) s"
  by (simp add: wp_def atomic_def split: prod.splits sum.splits)

lemma wp_try_except [wp_simps]:
  "wp (try_except m p h k) Q E s =
     wp m (\<lambda>x. wp (k x) Q E) (\<lambda>e t. if p e then wp (h e) Q E t else E e t) s"
  by (simp add: wp_def try_except_def split: prod.splits sum.splits)

lemma wp_check [wp_simps]: "wp (check b e) Q E s = (if b then Q () s else E e s)"
  by (simp add: check_def wp_ret wp_raise)

lemma wp_when_m [wp_simps]: "wp (when_m b m) Q E s = (if b then wp m Q E s else Q () s)"
  by (simp add: when_m_def wp_ret)

lemma wp_or_raise [wp_simps]:
  "wp (or_raise v e) Q E s = (case v of None \<Rightarrow> E e s | Some x \<Rightarrow> Q x s)"
  by (simp add: or_raise_def wp_ret wp_raise split: option.splits)

lemma wp_mono:
  assumes "wp m Q E s"
    and "\<And>x t. Q x t \<Longrightarrow> Q' x t"
    and "\<And>e t. E e t \<Longrightarrow> E' e t"
  shows "wp m Q' E' s"
  using assms by (auto simp: wp_def split: prod.splits sum.splits)

lemma wp_any: "(\<And>x t. Q x t) \<Longrightarrow> (\<And>e t. E e t) \<Longrightarrow> wp m Q E s"
  by (simp add: wp_def split: prod.splits sum.splits)

lemma wp_both:
  "wp m Q E s \<Longrightarrow> wp m Q' E' s \<Longrightarrow> wp m (\<lambda>x t. Q x t \<and> Q' x t) (\<lambda>e t. E e t \<and> E' e t) s"
  by (auto simp: wp_def split: prod.splits sum.splits)

lemma wp_run: "wp m Q E s \<Longrightarrow> m s = (Inr x, t) \<Longrightarrow> Q x t"
  by (simp add: wp_def)

lemma wp_run_error: "wp m Q E s \<Longrightarrow> m s = (Inl e, t) \<Longrightarrow> E e t"
  by (simp add: wp_def)

subsection \<open>Preserved invariants\<close>

text \<open>\<open>pres I m\<close>: running \<open>m\<close> keeps \<open>I\<close>, whether it returns or raises.\<close>

definition pres :: "('s \<Rightarrow> bool) \<Rightarrow> ('s, 'e, 'a) act \<Rightarrow> bool" where
  "pres I m = (\<forall>s. I s \<longrightarrow> I (snd (m s)))"

lemma presI: "(\<And>s. I s \<Longrightarrow> I (snd (m s))) \<Longrightarrow> pres I m"
  by (simp add: pres_def)

lemma presD: "pres I m \<Longrightarrow> I s \<Longrightarrow> I (snd (m s))"
  by (simp add: pres_def)

lemma pres_run: "pres I m \<Longrightarrow> I s \<Longrightarrow> m s = (r, t) \<Longrightarrow> I t"
  by (drule (1) presD) simp

lemma wp_inv: "wp m (\<lambda>_. I) (\<lambda>_. I) s = I (snd (m s))"
  by (cases "m s"; cases "fst (m s)") (simp_all add: wp_def)

lemma pres_wp: "pres I m = (\<forall>s. I s \<longrightarrow> wp m (\<lambda>_. I) (\<lambda>_. I) s)"
  by (simp add: pres_def wp_inv)

lemma pres_ret [pres_intros]: "pres I (ret x)"
  by (simp add: pres_def ret_def)

lemma pres_raise [pres_intros]: "pres I (raise e)"
  by (simp add: pres_def raise_def)

lemma pres_gets [pres_intros]: "pres I (gets f)"
  by (simp add: pres_def gets_def)

lemma pres_modify: "(\<And>s. I s \<Longrightarrow> I (f s)) \<Longrightarrow> pres I (modify f)"
  by (simp add: pres_def modify_def)

lemma pres_bnd [pres_intros]: "pres I m \<Longrightarrow> (\<And>x. pres I (f x)) \<Longrightarrow> pres I (bnd m f)"
  by (simp add: pres_wp wp_bnd) (blast intro: wp_mono)

lemma pres_atomic [pres_intros]: "pres I m \<Longrightarrow> pres I (atomic m)"
  by (simp add: pres_wp wp_atomic) (blast intro: wp_mono)

lemma pres_try_except [pres_intros]:
  "pres I m \<Longrightarrow> (\<And>e. pres I (h e)) \<Longrightarrow> (\<And>x. pres I (k x)) \<Longrightarrow> pres I (try_except m p h k)"
  by (simp add: pres_wp wp_try_except) (auto intro: wp_mono)

lemma pres_check [pres_intros]: "pres I (check b e)"
  by (simp add: check_def pres_ret pres_raise)

lemma pres_when_m [pres_intros]: "(b \<Longrightarrow> pres I m) \<Longrightarrow> pres I (when_m b m)"
  by (simp add: when_m_def pres_ret)

lemma pres_or_raise [pres_intros]: "pres I (or_raise v e)"
  by (simp add: or_raise_def pres_ret pres_raise split: option.splits)

lemma pres_if [pres_intros]:
  "(b \<Longrightarrow> pres I m) \<Longrightarrow> (\<not> b \<Longrightarrow> pres I n) \<Longrightarrow> pres I (if b then m else n)"
  by simp

lemma pres_case_option [pres_intros]:
  "(v = None \<Longrightarrow> pres I m) \<Longrightarrow> (\<And>x. v = Some x \<Longrightarrow> pres I (f x))
     \<Longrightarrow> pres I (case v of None \<Rightarrow> m | Some x \<Rightarrow> f x)"
  by (simp split: option.splits)

lemma pres_case_prod [pres_intros]:
  "(\<And>x y. v = (x, y) \<Longrightarrow> pres I (f x y)) \<Longrightarrow> pres I (case v of (x, y) \<Rightarrow> f x y)"
  by (simp split: prod.splits)

lemma pres_case_prod_app [pres_intros]:
  "(\<And>x y. v = (x, y) \<Longrightarrow> pres I (f x y z)) \<Longrightarrow> pres I ((case v of (x, y) \<Rightarrow> f x y) z)"
  by (simp split: prod.splits)

lemma pres_case_list [pres_intros]:
  "(v = [] \<Longrightarrow> pres I m) \<Longrightarrow> (\<And>x xs. v = x # xs \<Longrightarrow> pres I (f x xs))
     \<Longrightarrow> pres I (case v of [] \<Rightarrow> m | x # xs \<Rightarrow> f x xs)"
  by (simp split: list.splits)

lemma pres_let [pres_intros]: "(\<And>x. x = v \<Longrightarrow> pres I (f x)) \<Longrightarrow> pres I (let x = v in f x)"
  by (simp add: Let_def)

lemma pres_for_each [pres_intros]:
  "(\<And>x. x \<in> set xs \<Longrightarrow> pres I (f x)) \<Longrightarrow> pres I (for_each f xs)"
  by (induction xs) (auto intro: pres_intros)

lemma pres_map_m [pres_intros]:
  "(\<And>x. x \<in> set xs \<Longrightarrow> pres I (f x)) \<Longrightarrow> pres I (map_m f xs)"
  by (induction xs) (auto intro!: pres_intros)

lemma pres_fold_m [pres_intros]:
  "(\<And>a x. x \<in> set xs \<Longrightarrow> pres I (f a x)) \<Longrightarrow> pres I (fold_m f a xs)"
  by (induction xs arbitrary: a) (auto intro!: pres_intros)

subsection \<open>Exceptions an action can raise\<close>

definition errs :: "('e \<Rightarrow> bool) \<Rightarrow> ('s, 'e, 'a) act \<Rightarrow> bool" where
  "errs P m = (\<forall>s. wp m (\<lambda>_ _. True) (\<lambda>e _. P e) s)"

lemma errsI: "(\<And>s. wp m (\<lambda>_ _. True) (\<lambda>e _. P e) s) \<Longrightarrow> errs P m"
  by (simp add: errs_def)

lemma errsD: "errs P m \<Longrightarrow> wp m (\<lambda>_ _. True) (\<lambda>e _. P e) s"
  by (simp add: errs_def)

lemma errs_basic [errs_intros]:
  "errs P (ret x)" "P e \<Longrightarrow> errs P (raise e)" "errs P (gets f)" "errs P (modify g)"
  "P e \<Longrightarrow> errs P (check b e)" "P e \<Longrightarrow> errs P (or_raise v e)"
  by (simp_all add: errs_def wp_simps split: option.splits)

lemma errs_bnd [errs_intros]: "errs P m \<Longrightarrow> (\<And>x. errs P (f x)) \<Longrightarrow> errs P (bnd m f)"
  by (simp add: errs_def wp_bnd) (blast intro: wp_mono)

lemma errs_atomic [errs_intros]: "errs P m \<Longrightarrow> errs P (atomic m)"
  by (simp add: errs_def wp_atomic)

lemma errs_try [errs_intros]:
  "errs P m \<Longrightarrow> (\<And>e. errs P (h e)) \<Longrightarrow> (\<And>x. errs P (k x)) \<Longrightarrow> errs P (try_except m p h k)"
  by (simp add: errs_def wp_try_except) (auto intro: wp_mono)

lemma errs_when [errs_intros]: "errs P m \<Longrightarrow> errs P (when_m b m)"
  by (simp add: errs_def wp_when_m)

lemma errs_if [errs_intros]: "(b \<Longrightarrow> errs P m) \<Longrightarrow> (\<not> b \<Longrightarrow> errs P n) \<Longrightarrow> errs P (if b then m else n)"
  by simp

lemma errs_case_option [errs_intros]:
  "(v = None \<Longrightarrow> errs P m) \<Longrightarrow> (\<And>x. v = Some x \<Longrightarrow> errs P (f x))
     \<Longrightarrow> errs P (case v of None \<Rightarrow> m | Some x \<Rightarrow> f x)"
  by (simp split: option.splits)

lemma errs_map_m [errs_intros]: "(\<And>x. x \<in> set xs \<Longrightarrow> errs P (f x)) \<Longrightarrow> errs P (map_m f xs)"
  by (induction xs) (auto intro!: errs_intros)

subsection \<open>Loops whose body only writes the state\<close>

text \<open>
  A loop whose body returns on every state it meets is a fold of the body's effect.
\<close>

lemma for_each_fold:
  assumes "\<And>x t. x \<in> set xs \<Longrightarrow> P t \<Longrightarrow> f x t = (Inr (), g x t) \<and> P (g x t)"
    and "P s"
  shows "for_each f xs s = (Inr (), fold g xs s)"
  using assms
  by (induction xs arbitrary: s) (auto simp: run_simps)

section \<open>Tables\<close>

definition find_by :: "('r \<Rightarrow> 'k) \<Rightarrow> 'k \<Rightarrow> 'r list \<Rightarrow> 'r option" where
  "find_by key k rows = find (\<lambda>r. key r = k) rows"

definition upd_by :: "('r \<Rightarrow> 'k) \<Rightarrow> 'k \<Rightarrow> ('r \<Rightarrow> 'r) \<Rightarrow> 'r list \<Rightarrow> 'r list" where
  "upd_by key k f rows = map (\<lambda>r. if key r = k then f r else r) rows"

definition upd_where :: "('r \<Rightarrow> bool) \<Rightarrow> ('r \<Rightarrow> 'r) \<Rightarrow> 'r list \<Rightarrow> 'r list" where
  "upd_where p f rows = map (\<lambda>r. if p r then f r else r) rows"

lemma find_by_Nil [simp]: "find_by key k [] = None"
  by (simp add: find_by_def)

lemma find_by_Cons [simp]:
  "find_by key k (r # rows) = (if key r = k then Some r else find_by key k rows)"
  by (simp add: find_by_def)

lemma find_by_SomeD: "find_by key k rows = Some r \<Longrightarrow> r \<in> set rows \<and> key r = k"
  by (auto simp: find_by_def find_Some_iff)

lemma find_SomeD: "find p xs = Some x \<Longrightarrow> x \<in> set xs \<and> p x"
  by (auto simp: find_Some_iff)

lemma find_by_None_iff: "find_by key k rows = None \<longleftrightarrow> k \<notin> key ` set rows"
  by (auto simp: find_by_def find_None_iff)

lemma find_by_append:
  "find_by key k (xs @ ys) = (case find_by key k xs of None \<Rightarrow> find_by key k ys | Some r \<Rightarrow> Some r)"
  by (induction xs) auto

lemma find_by_distinct:
  "distinct (map key rows) \<Longrightarrow> r \<in> set rows \<Longrightarrow> find_by key (key r) rows = Some r"
  by (induction rows) (auto simp: image_iff)

lemma find_by_upd_by:
  "(\<And>r. key (f r) = key r) \<Longrightarrow>
   find_by key k (upd_by key j f rows) =
     (if k = j then map_option f (find_by key k rows) else find_by key k rows)"
  by (induction rows) (auto simp: upd_by_def)

lemma find_by_upd_where:
  "(\<And>r. key (f r) = key r) \<Longrightarrow>
   find_by key k (upd_where p f rows) =
     map_option (\<lambda>r. if p r then f r else r) (find_by key k rows)"
  by (induction rows) (auto simp: upd_where_def)

lemma find_by_upd_by_other:
  "(\<And>r. key2 (f r) = key2 r) \<Longrightarrow>
   find_by key2 k (upd_by key j f rows) =
     map_option (\<lambda>r. if key r = j then f r else r) (find_by key2 k rows)"
  by (induction rows) (auto simp: upd_by_def)

lemma map_upd_by [simp]:
  "(\<And>r. g (f r) = g r) \<Longrightarrow> map g (upd_by key k f rows) = map g rows"
  by (induction rows) (auto simp: upd_by_def)

lemma map_upd_where [simp]:
  "(\<And>r. g (f r) = g r) \<Longrightarrow> map g (upd_where p f rows) = map g rows"
  by (induction rows) (auto simp: upd_where_def)

lemma set_upd_by: "set (upd_by key k f rows) = (\<lambda>r. if key r = k then f r else r) ` set rows"
  by (simp add: upd_by_def)

lemma set_upd_where: "set (upd_where p f rows) = (\<lambda>r. if p r then f r else r) ` set rows"
  by (simp add: upd_where_def)

lemma length_upd_by [simp]: "length (upd_by key k f rows) = length rows"
  by (simp add: upd_by_def)

lemma length_upd_where [simp]: "length (upd_where p f rows) = length rows"
  by (simp add: upd_where_def)

lemma upd_by_Nil [simp]: "upd_by key k f [] = []"
  by (simp add: upd_by_def)

lemma upd_by_Cons [simp]:
  "upd_by key k f (r # rows) = (if key r = k then f r else r) # upd_by key k f rows"
  by (simp add: upd_by_def)

lemma upd_where_Nil [simp]: "upd_where p f [] = []"
  by (simp add: upd_where_def)

lemma upd_where_Cons [simp]:
  "upd_where p f (r # rows) = (if p r then f r else r) # upd_where p f rows"
  by (simp add: upd_where_def)

lemma upd_by_idle: "k \<notin> key ` set rows \<Longrightarrow> upd_by key k f rows = rows"
  by (induction rows) auto

lemma upd_where_idle: "(\<And>r. r \<in> set rows \<Longrightarrow> \<not> p r) \<Longrightarrow> upd_where p f rows = rows"
  by (induction rows) auto

lemma filter_upd_by_other:
  "(\<And>r. p (f r) = p r) \<Longrightarrow> (\<And>r. p r \<Longrightarrow> key r = k \<Longrightarrow> f r = r) \<Longrightarrow>
     filter p (upd_by key k f rows) = filter p rows"
  by (induction rows) (auto simp: upd_by_def)

lemma upd_own:
  assumes "\<And>r. r \<in> set xs \<Longrightarrow> p r \<Longrightarrow> key r \<noteq> k" and "\<And>r. p (f r) = p r"
  shows "filter p (upd_by key k f xs) = filter p xs"
  using assms by (induction xs) auto

lemma distinct_key: "distinct (map key xs) \<Longrightarrow> x \<in> set xs \<Longrightarrow> y \<in> set xs \<Longrightarrow> key x = key y \<Longrightarrow> x = y"
  by (simp add: distinct_map inj_on_def)

lemma sum_list_filter_append [simp]:
  "sum_list (map f (filter p (xs @ [x]))) =
     sum_list (map f (filter p xs)) + (if p x then f x else (0::int))"
  by simp

end
