(* ===== verification/Text_Formats.thy ===== *)
theory Text_Formats
  imports Prelude "HOL-Library.Char_ord"
begin

text \<open>
  The pure text functions of \<open>apps/core\<close>: \<open>formatting.format_rupiah\<close>,
  \<open>forms.clean_rupiah\<close>, \<open>validators.normalize_wa_number\<close> and \<open>validate_wa_number\<close>, and
  the pieces of Python's \<open>str\<close> the services use (decimal rendering in f-strings, \<open>strip\<close>,
  \<open>upper\<close>, \<open>lower\<close>).  A string is a list of 8-bit characters: the model covers ASCII text;
  Unicode digits and white space, which Python's \<open>\d\<close> and \<open>strip\<close> also know, are outside it.
\<close>

section \<open>Characters and decimal rendering\<close>

definition is_digit :: "char \<Rightarrow> bool" where
  "is_digit c = (c \<in> set ''0123456789'')"

definition digit_char :: "nat \<Rightarrow> char" where
  "digit_char d = ''0123456789'' ! d"

definition digit_val :: "char \<Rightarrow> nat" where
  "digit_val c = (of_char c :: nat) - 48"

fun str_nat :: "nat \<Rightarrow> string" where
  "str_nat n = (if n < 10 then [digit_char n] else str_nat (n div 10) @ [digit_char (n mod 10)])"

declare str_nat.simps [simp del]

definition str_int :: "int \<Rightarrow> string" where
  "str_int i = (if i < 0 then ''-'' @ str_nat (nat (- i)) else str_nat (nat i))"

definition parse_nat :: "string \<Rightarrow> nat" where
  "parse_nat s = foldl (\<lambda>n c. 10 * n + digit_val c) 0 s"

lemma less_ten: "(d::nat) < 10 \<Longrightarrow> d \<in> {0, 1, 2, 3, 4, 5, 6, 7, 8, 9}"
  by auto

lemma is_digit_digit_char: "d < 10 \<Longrightarrow> is_digit (digit_char d)"
  by (drule less_ten) (auto simp: is_digit_def digit_char_def)

lemma digit_val_digit_char: "d < 10 \<Longrightarrow> digit_val (digit_char d) = d"
  by (drule less_ten) (auto simp: digit_val_def digit_char_def)

lemma str_nat_digits: "c \<in> set (str_nat n) \<Longrightarrow> is_digit c"
proof (induction n rule: str_nat.induct)
  case (1 n)
  then show ?case
    by (subst (asm) (2) str_nat.simps) (auto simp: is_digit_digit_char split: if_splits)
qed

lemma str_nat_nonempty [simp]: "str_nat n \<noteq> []"
  by (subst str_nat.simps) simp

lemma parse_nat_str_nat [simp]: "parse_nat (str_nat n) = n"
proof (induction n rule: str_nat.induct)
  case (1 n)
  show ?case
  proof (cases "n < 10")
    case True
    then show ?thesis
      by (subst str_nat.simps) (simp add: parse_nat_def digit_val_digit_char)
  next
    case False
    with 1 show ?thesis
      by (subst str_nat.simps) (simp add: parse_nat_def digit_val_digit_char)
  qed
qed

lemma str_nat_inject [simp]: "str_nat m = str_nat n \<longleftrightarrow> m = n"
  by (metis parse_nat_str_nat)

lemma str_int_nonneg: "0 \<le> i \<Longrightarrow> str_int i = str_nat (nat i)"
  by (simp add: str_int_def)

lemma not_digit_colon [simp]: "\<not> is_digit (CHR '':'')"
  by (simp add: is_digit_def)

lemma not_digit_minus [simp]: "\<not> is_digit (CHR ''-'')"
  by (simp add: is_digit_def)

lemma hd_str_nat_digit: "is_digit (hd (str_nat n))"
  by (rule str_nat_digits [of _ n]) simp

lemma str_int_inject [simp]: "str_int i = str_int j \<longleftrightarrow> i = j"
proof -
  have neg: "CHR ''-'' # xs \<noteq> str_nat n" for xs n
    using hd_str_nat_digit [of n] by (metis list.sel(1) not_digit_minus)
  show ?thesis
    using neg neg [symmetric] by (auto simp: str_int_def nat_eq_iff)
qed

text \<open>
  The composite keys of the program join decimal numbers with a colon; such a key determines
  its parts.
\<close>

lemma colon_split:
  assumes "xs @ CHR '':'' # ys = xs' @ CHR '':'' # ys'"
    and "\<forall>c \<in> set xs. is_digit c" and "\<forall>c \<in> set xs'. is_digit c"
  shows "xs = xs' \<and> ys = ys'"
  using assms
proof (induction xs arbitrary: xs')
  case Nil
  then show ?case by (cases xs') auto
next
  case (Cons x xs)
  then show ?case by (cases xs') auto
qed

lemma colon_key_inject:
  "str_nat m @ CHR '':'' # xs = str_nat n @ CHR '':'' # ys \<longleftrightarrow> m = n \<and> xs = ys"
  using colon_split [of "str_nat m" xs "str_nat n" ys] by (auto dest: str_nat_digits)

section \<open>Python string methods\<close>

definition is_space :: "char \<Rightarrow> bool" where
  "is_space c = (let n = (of_char c :: nat) in n = 32 \<or> 9 \<le> n \<and> n \<le> 13 \<or> 28 \<le> n \<and> n \<le> 31)"

definition strip :: "string \<Rightarrow> string" where
  "strip s = rev (dropWhile is_space (rev (dropWhile is_space s)))"

definition upper_char :: "char \<Rightarrow> char" where
  "upper_char c = (let n = (of_char c :: nat) in if 97 \<le> n \<and> n \<le> 122 then char_of (n - 32) else c)"

definition lower_char :: "char \<Rightarrow> char" where
  "lower_char c = (let n = (of_char c :: nat) in if 65 \<le> n \<and> n \<le> 90 then char_of (n + 32) else c)"

definition upper :: "string \<Rightarrow> string" where
  "upper s = map upper_char s"

definition lower :: "string \<Rightarrow> string" where
  "lower s = map lower_char s"

definition replace_char :: "char \<Rightarrow> char \<Rightarrow> string \<Rightarrow> string" where
  "replace_char a b s = map (\<lambda>c. if c = a then b else c) s"

lemma set_strip_subset: "set (strip s) \<subseteq> set s"
  by (auto simp: strip_def dest!: set_dropWhileD)

lemma filter_dropWhile_space: "filter is_digit (dropWhile is_space s) = filter is_digit s"
proof (induction s)
  case (Cons c s)
  have "is_space c \<Longrightarrow> \<not> is_digit c"
    by (auto simp: is_space_def is_digit_def Let_def)
  with Cons show ?case by auto
qed simp

lemma filter_digits_strip: "filter is_digit (strip s) = filter is_digit s"
  by (simp add: strip_def filter_dropWhile_space rev_filter [symmetric])

section \<open>Rupiah amounts\<close>

text \<open>\<open>f"{n:,}"\<close>: digits grouped by three from the right, written on the reversed digits.\<close>

fun group_rev :: "char \<Rightarrow> string \<Rightarrow> string" where
  "group_rev sep (a # b # c # d # rest) = a # b # c # sep # group_rev sep (d # rest)"
| "group_rev sep ds = ds"

definition comma_format :: "nat \<Rightarrow> string" where
  "comma_format n = rev (group_rev (CHR '','') (rev (str_nat n)))"

definition format_rupiah :: "int option \<Rightarrow> bool \<Rightarrow> string" where
  "format_rupiah value signed =
     (let v = (case value of None \<Rightarrow> 0 | Some i \<Rightarrow> i);
          grouped = replace_char (CHR '','') (CHR ''.'') (comma_format (nat \<bar>v\<bar>));
          sign = (if v < 0 then ''-'' else if signed \<and> v > 0 then ''+'' else [])
      in sign @ ''Rp'' @ grouped)"

definition clean_rupiah :: "string option \<Rightarrow> int" where
  "clean_rupiah raw =
     (let digits = filter is_digit (case raw of None \<Rightarrow> [] | Some s \<Rightarrow> s)
      in if digits = [] then 0 else int (parse_nat digits))"

lemma filter_group_rev:
  "\<not> is_digit sep \<Longrightarrow> \<forall>c \<in> set ds. is_digit c \<Longrightarrow> filter is_digit (group_rev sep ds) = ds"
  by (induction sep ds rule: group_rev.induct) auto

lemma filter_comma_format: "filter is_digit (comma_format n) = str_nat n"
proof -
  have "filter is_digit (group_rev (CHR '','') (rev (str_nat n))) = rev (str_nat n)"
    by (rule filter_group_rev) (auto simp: is_digit_def dest: str_nat_digits)
  then show ?thesis
    by (simp add: comma_format_def rev_filter [symmetric])
qed

lemma filter_replace_char:
  "\<not> is_digit a \<Longrightarrow> \<not> is_digit b \<Longrightarrow> filter is_digit (replace_char a b s) = filter is_digit s"
  by (induction s) (auto simp: replace_char_def)

lemma filter_format_rupiah:
  "filter is_digit (format_rupiah (Some v) signed) = str_nat (nat \<bar>v\<bar>)"
proof -
  have "filter is_digit (replace_char (CHR '','') (CHR ''.'') (comma_format (nat \<bar>v\<bar>)))
        = str_nat (nat \<bar>v\<bar>)"
    using filter_comma_format [of "nat \<bar>v\<bar>"]
    by (subst filter_replace_char) (simp_all add: is_digit_def)
  then show ?thesis
    by (auto simp: format_rupiah_def Let_def is_digit_def)
qed

text \<open>
  Reading back a rendered amount: \<open>clean_rupiah\<close> (the parser every money input of the
  storefront goes through) inverts \<open>format_rupiah\<close> (the renderer of every amount) up to the
  sign, which the parser drops, for every integer, in both the plain and the signed style.
\<close>

theorem clean_format_rupiah:
  "clean_rupiah (Some (format_rupiah (Some v) signed)) = \<bar>v\<bar>"
  by (simp add: clean_rupiah_def filter_format_rupiah)

section \<open>WhatsApp numbers\<close>

definition normalize_wa_number :: "string \<Rightarrow> string" where
  "normalize_wa_number raw =
     (let digits = filter is_digit (strip raw)
      in (case digits of c # rest \<Rightarrow> (if c = CHR ''0'' then ''62'' @ rest else digits) | [] \<Rightarrow> []))"

text \<open>\<open>re.fullmatch(r"62\d{8,13}", number)\<close>\<close>

definition wa_number_matches :: "string \<Rightarrow> bool" where
  "wa_number_matches n =
     (take 2 n = ''62'' \<and> 10 \<le> length n \<and> length n \<le> 15 \<and> list_all is_digit (drop 2 n))"

text \<open>\<open>True\<close>: the validator accepts; \<open>False\<close>: it raises \<open>ValidationError\<close>.\<close>

definition validate_wa_number :: "string \<Rightarrow> bool" where
  "validate_wa_number v = (v = [] \<or> wa_number_matches (normalize_wa_number v))"

lemma normalize_wa_digits: "\<forall>c \<in> set (normalize_wa_number raw). is_digit c"
  by (auto simp: normalize_wa_number_def Let_def is_digit_def split: list.splits
      dest!: arg_cong [of _ _ set])

lemma normalize_wa_not_zero: "normalize_wa_number raw = c # rest \<Longrightarrow> c \<noteq> CHR ''0''"
  by (auto simp: normalize_wa_number_def Let_def split: list.splits if_splits)

text \<open>A run of digits that does not start with 0 is left as it is.\<close>

lemma normalize_wa_fixed:
  assumes "\<forall>c \<in> set n. is_digit c" and "\<And>c rest. n = c # rest \<Longrightarrow> c \<noteq> CHR ''0''"
  shows "normalize_wa_number n = n"
proof -
  have "filter is_digit (strip n) = n"
    using assms(1) by (simp add: filter_digits_strip)
  with assms(2) show ?thesis
    by (cases n) (simp_all add: normalize_wa_number_def)
qed

text \<open>
  Normalising a WhatsApp number is idempotent, its result consists of digits only, and
  the local form \<open>0...\<close> of a number and its international form \<open>62...\<close> (with or without
  the plus sign) normalise to the same number.  This is what makes a number typed in a form,
  stored on a customer, and sent by the provider comparable.
\<close>

theorem normalize_wa_canonical:
  "normalize_wa_number (normalize_wa_number raw) = normalize_wa_number raw
   \<and> list_all is_digit (normalize_wa_number raw)
   \<and> normalize_wa_number (CHR ''0'' # local) = normalize_wa_number (''62'' @ local)
   \<and> normalize_wa_number (''+62'' @ local) = normalize_wa_number (''62'' @ local)"
proof -
  have "normalize_wa_number (normalize_wa_number raw) = normalize_wa_number raw"
    by (rule normalize_wa_fixed) (use normalize_wa_digits normalize_wa_not_zero in blast)+
  moreover have "list_all is_digit (normalize_wa_number raw)"
    using normalize_wa_digits by (simp add: list_all_iff)
  moreover have "normalize_wa_number (CHR ''0'' # local) = normalize_wa_number (''62'' @ local)"
    by (simp add: normalize_wa_number_def filter_digits_strip) (simp add: is_digit_def)
  moreover have "normalize_wa_number (''+62'' @ local) = normalize_wa_number (''62'' @ local)"
    by (simp add: normalize_wa_number_def filter_digits_strip) (simp add: is_digit_def)
  ultimately show ?thesis by blast
qed

end
