(* ===== verification/Models.thy ===== *)
theory Models
  imports Text_Formats
begin

text \<open>
  The data model: one record per Django model of \<open>apps/*/models.py\<close> (its columns as
  fields, foreign keys as the primary key of the row they point to, nullable columns as
  options), one datatype per \<open>TextChoices\<close>, the database \<open>db\<close> as one table per model, and
  the pure methods of the models.

  Conventions: money is a whole number of rupiah (\<open>int\<close>); a \<open>DateTimeField\<close> is the number
  of microseconds since the epoch (\<open>int\<close>); primary keys are \<open>nat\<close>; a \<open>JSONField\<close> is a
  \<open>json\<close> value or an association list; \<open>t_*\<close> fields of \<open>db\<close> are the tables in creation
  order.  \<open>clock\<close> is what \<open>timezone.now()\<close> reads, \<open>seq\<close> the next primary key, \<open>rng\<close>
  the number of draws taken from \<open>secrets\<close>, \<open>event_log\<close> the events whose handlers run
  at commit, in order.  Columns that are only stored and shown (descriptions, bios, notes, icons, the theme of
  a page, image columns other than the QRIS) and the times no code compares are left out.
\<close>

section \<open>Exceptions\<close>

text \<open>The exceptions the services raise; the string is the part callers can tell apart.\<close>

datatype exn =
    ValueError string
  | TypeError string
  | KeyError string
  | RuntimeError string
  | AttributeError string
  | OverflowError
  | DoesNotExist string
  | IntegrityError string
  | DataError string
  | InsufficientBalance
  | ContactPlanError
  | CheckoutIdempotencyError
  | CouponLimitError
  | PaymentMethodRequiredError
  | QrisNotAvailableError
  | TopUpNotFoundError
  | SumopodError string
  | CartError string
  | PlanNotCartableError string
  | EmptyCartError
  | CartPaymentMethodRequiredError
  | EntitlementSigningError
  | InvalidToken
  | OtpError string
  | SendError string
  | Retry
  | MaxRetriesExceededError
  | PermissionDenied
  | Http404

fun is_integrity :: "exn \<Rightarrow> bool" where
  "is_integrity (IntegrityError _) = True"
| "is_integrity _ = False"

fun is_does_not_exist :: "exn \<Rightarrow> bool" where
  "is_does_not_exist (DoesNotExist _) = True"
| "is_does_not_exist _ = False"

fun is_value_error :: "exn \<Rightarrow> bool" where
  "is_value_error (ValueError _) = True"
| "is_value_error _ = False"

section \<open>JSON\<close>

text \<open>
  \<open>JDec m k\<close> is the decimal number \<open>m / 10 ^ k\<close>.
\<close>

datatype json =
    JNull
  | JBool bool
  | JInt int
  | JDec int nat
  | JStr string
  | JArr "json list"
  | JObj "(string \<times> json) list"

section \<open>Accounts (apps/accounts/models.py, apps/core/models.py)\<close>

datatype notification_channel = Channel_EMAIL | Channel_WHATSAPP

text \<open>A user; \<open>u_operator\<close> is membership of the group Operator, \<open>u_verified\<close> a verified address.\<close>

record user =
  u_pk :: nat
  u_email :: string
  u_superuser :: bool
  u_operator :: bool
  u_verified :: bool

record customer =
  c_pk :: nat
  c_user :: nat
  c_email :: string
  c_wa_number :: string
  c_wa_verified_at :: "int option"
  c_channel :: notification_channel
  c_notif_promo :: bool

definition wa_verified :: "customer \<Rightarrow> bool" where
  "wa_verified c = (c_wa_verified_at c \<noteq> None)"

definition resolve_channel :: "customer \<Rightarrow> notification_channel" where
  "resolve_channel c =
     (if c_channel c = Channel_WHATSAPP \<and> c_wa_number c \<noteq> [] \<and> wa_verified c
      then Channel_WHATSAPP else Channel_EMAIL)"

datatype onboarding_step = Onboarding_IDENTITY | Onboarding_PRODUCT | Onboarding_PUBLISH

record seller =
  sel_pk :: nat
  sel_user :: "nat option"
  sel_name :: string
  sel_slug :: string
  sel_active :: bool
  sel_approved :: bool
  sel_onboarded :: bool
  sel_step :: onboarding_step
  sel_commission_rate :: int
  sel_bank_name :: string
  sel_account_number :: string
  sel_account_name :: string
  sel_qris_enabled :: bool
  sel_qris_image :: "string option"

definition qris_ready :: "seller \<Rightarrow> bool" where
  "qris_ready s = (sel_qris_enabled s \<and> sel_qris_image s \<noteq> None)"

record setting =
  st_key :: string
  st_value :: string

record audit_entry =
  au_action :: string
  au_actor :: "nat option"
  au_target_type :: string
  au_target_id :: string
  au_meta :: "(string \<times> json) list"

section \<open>Catalog (apps/catalog/models.py)\<close>

datatype product_type = Product_FREE | Product_ONE_TIME | Product_RECURRING | Product_CONTACT
datatype visibility = Visibility_DRAFT | Visibility_UNLISTED | Visibility_PUBLIC
datatype interval = Interval_NONE | Interval_MONTHLY | Interval_YEARLY

record product =
  pr_pk :: nat
  pr_seller :: "nat option"
  pr_name :: string
  pr_slug :: string
  pr_type :: product_type
  pr_visibility :: visibility

record plan =
  pl_pk :: nat
  pl_product :: nat
  pl_name :: string
  pl_price :: int
  pl_interval :: interval
  pl_seat_limit :: int
  pl_active :: bool
  pl_pwyw :: bool
  pl_min_price :: int
  pl_stock :: "int option"
  pl_durations :: "(string \<times> int) list"
  pl_sort :: int
  pl_direct_pay :: bool
  pl_entitlements :: "nat list"

record question =
  q_pk :: nat
  q_product :: nat
  q_label :: string
  q_required :: bool

section \<open>Wallet (apps/wallet/models.py)\<close>

record wallet =
  w_pk :: nat
  w_customer :: nat
  w_balance :: int

record ledger_entry =
  le_pk :: nat
  le_wallet :: nat
  le_type :: string
  le_amount :: int
  le_balance_after :: int
  le_ref :: string
  le_note :: string
  le_created :: int

section \<open>Billing (apps/billing/models.py)\<close>

datatype topup_status = TopUp_PENDING | TopUp_PAID | TopUp_EXPIRED | TopUp_FAILED
datatype gateway = Gateway_SUMOPOD | Gateway_DUITKU
datatype order_status = Order_PENDING | Order_PAID | Order_FAILED | Order_REFUNDED
datatype payment_channel = Pay_WALLET | Pay_GATEWAY | Pay_QRIS_STATIC
datatype cart_checkout_status = CartCheckout_PENDING | CartCheckout_COMPLETED
datatype sub_status = Sub_ACTIVE | Sub_GRACE | Sub_SUSPENDED | Sub_CANCELLED
datatype discount_type = Discount_PERCENT | Discount_FIXED
datatype earning_status = Earning_PENDING | Earning_PAID_OUT | Earning_VOIDED
datatype payout_status = Payout_PENDING | Payout_APPROVED | Payout_REJECTED | Payout_COMPLETED

record topup =
  tu_pk :: nat
  tu_public_id :: string
  tu_customer :: nat
  tu_amount :: int
  tu_bonus :: int
  tu_gateway :: gateway
  tu_gateway_ref :: string
  tu_gateway_fee :: int
  tu_status :: topup_status
  tu_ledger_entry :: "nat option"
  tu_checkout_order :: "nat option"
  tu_cart_checkout :: "nat option"
  tu_created :: int

record order =
  o_pk :: nat
  o_public_id :: string
  o_customer :: nat
  o_plan :: nat
  o_amount :: int
  o_status :: order_status
  o_ledger_entry :: "nat option"
  o_idem :: "string option"
  o_subscription :: "nat option"
  o_coupon :: "nat option"
  o_discount :: int
  o_invoice_number :: "int option"
  o_custom_fields :: "(string \<times> string) list"
  o_multiplier :: int
  o_cart_checkout :: "nat option"
  o_channel :: payment_channel
  o_proof :: "string option"
  o_created :: int

definition awaiting_seller_confirmation :: "order \<Rightarrow> bool" where
  "awaiting_seller_confirmation ord =
     (o_status ord = Order_PENDING \<and> o_channel ord = Pay_QRIS_STATIC)"

record cart_checkout =
  cc_pk :: nat
  cc_public_id :: string
  cc_customer :: nat
  cc_status :: cart_checkout_status

record cart =
  ca_pk :: nat
  ca_customer :: "nat option"
  ca_session_key :: string

record cart_item =
  ci_pk :: nat
  ci_cart :: nat
  ci_plan :: nat
  ci_multiplier :: int
  ci_coupon_code :: string

record payment_webhook =
  wh_pk :: nat
  wh_key :: string
  wh_gateway :: string
  wh_payload :: json
  wh_processed_at :: "int option"

record subscription =
  sub_pk :: nat
  sub_customer :: nat
  sub_plan :: nat
  sub_status :: sub_status
  sub_period_end :: int
  sub_auto_renew :: bool
  sub_created :: int

record coupon =
  cp_pk :: nat
  cp_code :: string
  cp_type :: discount_type
  cp_value :: int
  cp_min_order :: int
  cp_max_discount :: int
  cp_usage_limit :: int
  cp_used_count :: int
  cp_valid_from :: "int option"
  cp_valid_until :: "int option"
  cp_active :: bool
  cp_seller :: "nat option"
  cp_plans :: "nat list"

record seller_earning =
  ea_pk :: nat
  ea_seller :: nat
  ea_order :: nat
  ea_gross :: int
  ea_commission :: int
  ea_net :: int
  ea_status :: earning_status

record seller_payout =
  po_pk :: nat
  po_seller :: nat
  po_amount :: int
  po_bank_name :: string
  po_account_number :: string
  po_account_name :: string
  po_status :: payout_status
  po_processed :: "int option"

subsection \<open>Coupons\<close>

text \<open>\<open>Coupon.compute_discount\<close>: Python's \<open>//\<close> is \<open>div\<close> on \<open>int\<close>.\<close>

definition compute_discount :: "coupon \<Rightarrow> int \<Rightarrow> int" where
  "compute_discount cp order_amount =
     (let discount =
        (case cp_type cp of
           Discount_PERCENT \<Rightarrow>
             (let d = order_amount * cp_value cp div 100
              in if cp_max_discount cp > 0 then min d (cp_max_discount cp) else d)
         | Discount_FIXED \<Rightarrow> cp_value cp)
      in min discount order_amount)"

text \<open>\<open>Coupon.is_valid_for\<close> at the time \<open>now\<close>, for the plan with key \<open>p\<close> if one is given.\<close>

definition is_valid_for :: "coupon \<Rightarrow> int \<Rightarrow> nat option \<Rightarrow> bool \<times> string" where
  "is_valid_for cp now p =
     (if \<not> cp_active cp then (False, ''Coupon is not active.'')
      else if (case cp_valid_from cp of Some t \<Rightarrow> now < t | None \<Rightarrow> False)
        then (False, ''Coupon is not yet valid.'')
      else if (case cp_valid_until cp of Some t \<Rightarrow> now > t | None \<Rightarrow> False)
        then (False, ''Coupon has expired.'')
      else if cp_usage_limit cp > 0 \<and> cp_used_count cp \<ge> cp_usage_limit cp
        then (False, ''Coupon usage limit reached.'')
      else if (case p of None \<Rightarrow> False | Some k \<Rightarrow> cp_plans cp \<noteq> [] \<and> k \<notin> set (cp_plans cp))
        then (False, ''Coupon is not valid for this plan.'')
      else (True, []))"

section \<open>Provisioning and licensing (apps/provisioning/models.py, apps/licensing/models.py)\<close>

datatype grant_status = Grant_ACTIVE | Grant_SUSPENDED | Grant_REVOKED | Grant_EXPIRED
datatype license_status = License_ACTIVE | License_SUSPENDED | License_REVOKED | License_EXPIRED
datatype installation_status = Installation_ACTIVE | Installation_DEACTIVATED

record deliverable =
  d_pk :: nat
  d_plan :: nat
  d_type :: string
  d_config :: "(string \<times> json) list"

record entitlement =
  en_pk :: nat
  en_key :: string
  en_value :: string

record grant =
  g_pk :: nat
  g_customer :: nat
  g_order :: "nat option"
  g_sub :: "nat option"
  g_deliverable :: nat
  g_type :: string
  g_status :: grant_status
  g_payload :: "(string \<times> json) list"
  g_valid_until :: "int option"

record secret =
  se_grant :: nat
  se_ciphertext :: string
  se_revealed :: bool

record license =
  li_pk :: nat
  li_key :: string
  li_customer :: nat
  li_plan :: nat
  li_sub :: "nat option"
  li_grant :: "nat option"
  li_status :: license_status
  li_seat_limit :: int

record installation =
  in_pk :: nat
  in_license :: nat
  in_fingerprint :: string
  in_name :: string
  in_status :: installation_status
  in_last_seen :: "int option"

record operation_policy =
  op_product :: nat
  op_operation :: string
  op_entitlement_key :: string
  op_required_value :: string
  op_ttl :: int
  op_active :: bool

section \<open>Refunds (apps/dashboard/models.py)\<close>

datatype refund_status = Refund_PENDING | Refund_APPROVED | Refund_REJECTED

record refund_request =
  rr_pk :: nat
  rr_customer :: nat
  rr_order :: "nat option"
  rr_reason :: string
  rr_status :: refund_status
  rr_admin_note :: string
  rr_created :: int

section \<open>Notifications (apps/notifications/models.py)\<close>

text \<open>
  The wording of a message is the event it is written for and the values put into it; the fixed
  text around them is not modelled.  \<open>dl_email\<close> is the email of a delivery (\<open>None\<close>: blank).
\<close>

type_synonym wording = "string \<times> string list"

datatype delivery_status =
  Delivery_QUEUED | Delivery_SENT | Delivery_DELIVERED | Delivery_READ | Delivery_FAILED | Delivery_FALLBACK_SENT

record delivery =
  dl_pk :: nat
  dl_customer :: "nat option"
  dl_event :: string
  dl_channel :: notification_channel
  dl_recipient :: string
  dl_wa_text :: "wording option"
  dl_email :: "wording option"
  dl_status :: delivery_status
  dl_provider :: string
  dl_msg_id :: string
  dl_error :: string

record wa_suppression =
  ws_number :: string
  ws_reason :: string
  ws_detail :: string

record otp =
  ot_pk :: nat
  ot_customer :: nat
  ot_number :: string
  ot_code_hash :: string
  ot_expires :: int
  ot_attempts :: int
  ot_consumed :: "int option"

record notification_log =
  nl_key :: string
  nl_channel :: notification_channel
  nl_recipient :: string

text \<open>A message template: name, language and parameters.\<close>

type_synonym wa_template = "string \<times> string \<times> string list"

text \<open>A task handed to the queue, with its arguments (and the countdown of \<open>apply_async\<close>).\<close>

datatype queued =
    Deliver_whatsapp string wording "nat option" "wa_template option" int
  | Deliver_email string wording
  | Deliver_order_confirmation_email string nat
  | Deliver_topup_confirmation_email string int int nat

section \<open>Storefront, affiliates and leads (apps/storefront, apps/billing, apps/crm, apps/catalog)\<close>

record store_page =
  sp_pk :: nat
  sp_slug :: string
  sp_title :: string
  sp_published :: bool
  sp_seller :: "nat option"

record block =
  bl_pk :: nat
  bl_page :: nat
  bl_position :: int
  bl_product :: "nat option"
  bl_visible :: bool

record affiliate_link =
  al_pk :: nat
  al_seller :: nat
  al_product :: "nat option"
  al_code :: string
  al_rate :: int
  al_active :: bool

record affiliate_commission =
  ac_pk :: nat
  ac_link :: nat
  ac_order :: nat
  ac_amount :: int

record lead =
  ld_pk :: nat
  ld_name :: string
  ld_contact :: string
  ld_product :: "nat option"
  ld_status :: string
  ld_notes :: string
  ld_assigned :: "nat option"
  ld_created :: int

record review =
  rv_pk :: nat
  rv_product :: nat
  rv_order :: nat
  rv_rating :: int
  rv_text :: string
  rv_published :: bool

record course_module =
  cm_pk :: nat
  cm_product :: nat
  cm_title :: string
  cm_sort :: int

record lesson =
  lm_pk :: nat
  lm_module :: nat
  lm_title :: string
  lm_type :: string
  lm_content :: string
  lm_file_url :: string
  lm_sort :: int
  lm_preview :: bool

record page_event_row =
  pe_event :: string
  pe_product :: "nat option"
  pe_plan :: "nat option"
  pe_created :: int

section \<open>Events\<close>

text \<open>The payloads of \<open>emit(...)\<close>; \<open>plan_name=str(plan)\<close> is the plan's key here.\<close>

datatype event =
    Topup_paid nat int int
  | Order_paid nat nat nat
  | Order_awaiting_confirmation nat nat "nat option"
  | Order_payment_rejected nat nat nat string
  | Subscription_renewed nat nat nat int
  | Subscription_graced nat nat nat int
  | Subscription_suspended nat nat nat
  | Subscription_cancelled nat nat nat

section \<open>The database\<close>

record db =
  clock :: int
  seq :: nat
  rng :: nat
  cache :: "(string \<times> int \<times> int) list"
  event_log :: "event list"
  t_settings :: "setting list"
  t_audit :: "audit_entry list"
  t_customers :: "customer list"
  t_sellers :: "seller list"
  t_products :: "product list"
  t_plans :: "plan list"
  t_questions :: "question list"
  t_wallets :: "wallet list"
  t_ledger :: "ledger_entry list"
  t_topups :: "topup list"
  t_orders :: "order list"
  t_cart_checkouts :: "cart_checkout list"
  t_carts :: "cart list"
  t_cart_items :: "cart_item list"
  t_webhooks :: "payment_webhook list"
  t_subs :: "subscription list"
  t_coupons :: "coupon list"
  t_earnings :: "seller_earning list"
  t_payouts :: "seller_payout list"
  t_deliverables :: "deliverable list"
  t_entitlements :: "entitlement list"
  t_grants :: "grant list"
  t_secrets :: "secret list"
  t_licenses :: "license list"
  t_installations :: "installation list"
  t_policies :: "operation_policy list"
  t_refunds :: "refund_request list"
  t_users :: "user list"
  outbox :: "queued list"
  t_deliveries :: "delivery list"
  t_wa_suppressions :: "wa_suppression list"
  t_email_suppressions :: "string list"
  t_otps :: "otp list"
  t_notification_log :: "notification_log list"
  t_pages :: "store_page list"
  t_blocks :: "block list"
  t_affiliate_links :: "affiliate_link list"
  t_commissions :: "affiliate_commission list"
  t_leads :: "lead list"
  t_reviews :: "review list"
  t_modules :: "course_module list"
  t_lessons :: "lesson list"
  t_progress :: "(nat \<times> nat) list"
  t_page_events :: "page_event_row list"

type_synonym 'a prog = "(db, exn, 'a) act"

definition empty_db :: db where
  "empty_db = \<lparr>clock = 0, seq = 1, rng = 0, cache = [], event_log = [], t_settings = [],
     t_audit = [], t_customers = [], t_sellers = [], t_products = [], t_plans = [],
     t_questions = [], t_wallets = [], t_ledger = [], t_topups = [], t_orders = [],
     t_cart_checkouts = [], t_carts = [], t_cart_items = [], t_webhooks = [], t_subs = [],
     t_coupons = [], t_earnings = [], t_payouts = [], t_deliverables = [],
     t_entitlements = [], t_grants = [], t_secrets = [], t_licenses = [],
     t_installations = [], t_policies = [], t_refunds = [],
     t_users = [], outbox = [], t_deliveries = [], t_wa_suppressions = [], t_email_suppressions = [],
     t_otps = [], t_notification_log = [], t_pages = [], t_blocks = [], t_affiliate_links = [],
     t_commissions = [], t_leads = [], t_reviews = [], t_modules = [], t_lessons = [], t_progress = [], t_page_events = []\<rparr>"

section \<open>Coupon arithmetic\<close>

text \<open>Well-formedness the columns and the seller form give: \<open>PositiveBigIntegerField\<close>s.\<close>

definition coupon_wf :: "coupon \<Rightarrow> bool" where
  "coupon_wf cp = (0 \<le> cp_value cp \<and> 0 \<le> cp_max_discount cp \<and> 0 \<le> cp_usage_limit cp
     \<and> 0 \<le> cp_used_count cp)"

text \<open>
  The discount of a coupon with non-negative columns, on a non-negative amount, lies
  between 0 and the amount: a coupon never makes a price negative.  A percent coupon with a
  positive cap never takes off more than the cap.
\<close>

theorem compute_discount_bounds:
  assumes "coupon_wf cp" and "0 \<le> amount"
  shows "0 \<le> compute_discount cp amount \<and> compute_discount cp amount \<le> amount
     \<and> (cp_type cp = Discount_PERCENT \<and> cp_max_discount cp > 0
          \<longrightarrow> compute_discount cp amount \<le> cp_max_discount cp)"
  using assms
  by (auto simp: compute_discount_def coupon_wf_def Let_def pos_imp_zdiv_nonneg_iff
      split: discount_type.splits)

definition example_coupon :: coupon where
  "example_coupon = \<lparr>cp_pk = 7, cp_code = ''HEMAT'', cp_type = Discount_PERCENT, cp_value = 50,
     cp_min_order = 0, cp_max_discount = 20000, cp_usage_limit = 2, cp_used_count = 0,
     cp_valid_from = None, cp_valid_until = None, cp_active = True, cp_seller = None,
     cp_plans = []\<rparr>"

theorem compute_discount_bounds_witness:
  "coupon_wf example_coupon \<and> 0 \<le> compute_discount example_coupon 99000
     \<and> compute_discount example_coupon 99000 \<le> 20000"
proof -
  have wf: "coupon_wf example_coupon" and amount: "(0::int) \<le> 99000"
    by (simp_all add: coupon_wf_def example_coupon_def)
  show ?thesis
    using wf compute_discount_bounds [OF wf amount] by (simp add: example_coupon_def)
qed

end
