(* ===== verification/Core_Services.thy ===== *)
theory Core_Services
  imports Models
begin

text \<open>
  The services of \<open>apps/core\<close> every other app calls: \<open>Setting.get\<close>, \<open>audit.log_action\<close>,
  \<open>events.emit\<close>, the random identifiers of \<open>utils.py\<close> (and \<open>licensing/utils.py\<close>), and the
  record \<open>env\<close> of everything the program takes from outside its repository: calendar
  arithmetic (\<open>dateutil\<close>), randomness (\<open>secrets\<close>), HTTP, cryptography, environment variables.
\<close>

section \<open>The environment\<close>

text \<open>
  \<^item> \<open>add_months t n\<close>, \<open>add_years t n\<close>: \<open>t + relativedelta(months=n)\<close>, \<open>(years=n)\<close>.
  \<^item> \<open>rand n\<close>: the \<open>n\<close>-th number drawn by \<open>secrets\<close>.
  \<^item> \<open>http_post url body\<close>: the decoded JSON answer, \<open>None\<close> on any HTTP or network error;
    \<open>json_loads\<close>: the decoded request body, \<open>None\<close> when it is not JSON.
  \<^item> \<open>fernet_encrypt\<close>, \<open>fernet_decrypt\<close>: \<open>Fernet.encrypt\<close> and \<open>decrypt\<close> (\<open>None\<close>: not a valid token); \<open>ts_sign value now\<close> and \<open>ts_unsign token\<close>:
    Django's \<open>TimestampSigner\<close>, the latter giving the value and the signing time in seconds, or
    \<open>None\<close> for \<open>BadSignature\<close>.
  \<^item> \<open>ed25519_sign\<close>: the base64 Ed25519 signature under the configured key, \<open>None\<close> when no
    valid key is configured; \<open>hmac_sha256\<close>, \<open>b64encode\<close>, \<open>b64decode\<close>: HMAC-SHA256 and the base64
    codec on byte strings, decoding \<open>None\<close> when the padding is wrong.
  \<^item> \<open>make_password\<close>, \<open>check_password\<close>: Django's password hashers; \<open>sign_dumps salt value now\<close> and
    \<open>sign_loads salt token max_age now\<close>: \<open>django.core.signing\<close>, \<open>None\<close> for a bad or expired signature.
  \<^item> \<open>render\<close>: the fixed text of a message with its values filled in; \<open>send_mail\<close>: whether the mail
    server takes a message.
  \<^item> \<open>celery_retry n e\<close>: what \<open>self.retry(exc=e)\<close> raises in a task already retried \<open>n\<close> times when
    it does not schedule another try (\<open>None\<close>: it does).
  \<^item> \<open>slugify\<close>: \<open>django.utils.text.slugify\<close>; \<open>valid_email\<close>: \<open>validate_email\<close> does not raise.
  \<^item> The other last fields are environment variables and the \<open>DEBUG\<close> setting.
\<close>

record env =
  add_months :: "int \<Rightarrow> int \<Rightarrow> int"
  add_years :: "int \<Rightarrow> int \<Rightarrow> int"
  rand :: "nat \<Rightarrow> nat"
  http_post :: "string \<Rightarrow> json \<Rightarrow> json option"
  json_loads :: "string \<Rightarrow> json option"
  fernet_encrypt :: "string \<Rightarrow> string"
  fernet_decrypt :: "string \<Rightarrow> string option"
  ts_sign :: "string \<Rightarrow> int \<Rightarrow> string"
  ts_unsign :: "string \<Rightarrow> (string \<times> int) option"
  ed25519_sign :: "string \<Rightarrow> string option"
  hmac_sha256 :: "string \<Rightarrow> string \<Rightarrow> string"
  b64encode :: "string \<Rightarrow> string"
  b64decode :: "string \<Rightarrow> string option"
  make_password :: "string \<Rightarrow> string"
  check_password :: "string \<Rightarrow> string \<Rightarrow> bool"
  sign_dumps :: "string \<Rightarrow> string \<Rightarrow> int \<Rightarrow> string"
  sign_loads :: "string \<Rightarrow> string \<Rightarrow> int option \<Rightarrow> int \<Rightarrow> string option"
  render :: "wording \<Rightarrow> string"
  send_mail :: "string \<Rightarrow> wording \<Rightarrow> bool"
  wa_token :: string
  kirimchat_secret :: string
  celery_retry :: "nat \<Rightarrow> exn \<Rightarrow> exn option"
  debug_mode :: bool
  sumopod_api_key :: string
  sumopod_webhook_secret :: string
  sumopod_webhook_token :: string
  sumopod_sandbox :: string
  slugify :: "string \<Rightarrow> string"
  valid_email :: "string \<Rightarrow> bool"

definition us_second :: int where "us_second = 1000000"
definition us_minute :: int where "us_minute = 60 * us_second"
definition us_hour :: int where "us_hour = 3600 * us_second"
definition us_day :: int where "us_day = 86400 * us_second"

lemmas time_units = us_second_def us_minute_def us_hour_def us_day_def

text \<open>A concrete environment for closed examples: months of 30 days, years of 365.\<close>

definition demo_env :: env where
  "demo_env = \<lparr>add_months = (\<lambda>t n. t + n * (30 * us_day)), add_years = (\<lambda>t n. t + n * (365 * us_day)),
     rand = (\<lambda>n. 7 * n + 3),
     http_post = (\<lambda>url body. Some (JObj [(''payment_link_url'', JStr ''https://pay''),
        (''payment_id'', JStr ''pay_1''), (''fee'', JInt 1000)])),
     json_loads = (\<lambda>b. Some (JObj [])),
     fernet_encrypt = (\<lambda>p. ''enc:'' @ p), fernet_decrypt = (\<lambda>c. Some (drop 4 c)),
     ts_sign = (\<lambda>v now. str_int now @ '':'' @ v),
     ts_unsign = (\<lambda>tok. Some (drop 1 (dropWhile is_digit tok), int (parse_nat (takeWhile is_digit tok)))),
     ed25519_sign = (\<lambda>m. Some ''sig''),
     hmac_sha256 = (\<lambda>k m. k @ m), b64encode = (\<lambda>m. m), b64decode = (\<lambda>m. Some m),
     make_password = (\<lambda>p. ''hash:'' @ p), check_password = (\<lambda>p h. h = ''hash:'' @ p),
     sign_dumps = (\<lambda>salt v at. salt @ '':'' @ v), sign_loads = (\<lambda>salt tok age at. Some (drop (length salt + 1) tok)),
     render = concat o snd, send_mail = (\<lambda>to text. True), wa_token = ''wa'', kirimchat_secret = ''kc'',
     celery_retry = (\<lambda>n e. if n < 3 then None else Some e),
     debug_mode = False, sumopod_api_key = ''key'', sumopod_webhook_secret = ''whsec_s'',
     sumopod_webhook_token = ''tok'', sumopod_sandbox = ''true'',
     slugify = map (\<lambda>c. if c = CHR '' '' then CHR ''-'' else lower_char c),
     valid_email = (\<lambda>e. CHR ''@'' \<in> set e)\<rparr>"

section \<open>Settings, audit log, events\<close>

definition now :: "int prog" where
  "now = gets clock"

text \<open>\<open>Setting.get(key, default)\<close>\<close>

definition setting_get :: "string \<Rightarrow> string \<Rightarrow> string prog" where
  "setting_get key dflt =
     gets (\<lambda>s. case find_by st_key key (t_settings s) of None \<Rightarrow> dflt | Some r \<Rightarrow> st_value r)"

text \<open>
  Python's \<open>int(str)\<close>: white space around it, a sign, and single underscores between digits are
  accepted.
\<close>

fun digit_groups :: "string \<Rightarrow> bool" where
  "digit_groups [] = False"
| "digit_groups [c] = is_digit c"
| "digit_groups (c # d # ds) = (is_digit c \<and> (if d = CHR ''_'' then digit_groups ds else digit_groups (d # ds)))"

definition py_int :: "string \<Rightarrow> int option" where
  "py_int s =
     (let t = strip s;
          neg = (take 1 t = ''-'');
          ds = (if neg \<or> take 1 t = ''+'' then drop 1 t else t);
          n = int (parse_nat (filter is_digit ds))
      in if \<not> digit_groups ds then None else Some (if neg then - n else n))"

definition int_setting :: "string \<Rightarrow> string \<Rightarrow> int prog" where
  "int_setting key dflt =
     bnd (setting_get key dflt) (\<lambda>v. or_raise (py_int v) (ValueError key))"

definition bool_setting :: "string \<Rightarrow> bool prog" where
  "bool_setting key = bnd (setting_get key ''false'') (\<lambda>v. ret (lower (strip v) = ''true''))"

definition log_action ::
  "string \<Rightarrow> nat option \<Rightarrow> (string \<times> nat) option \<Rightarrow> (string \<times> json) list \<Rightarrow> unit prog" where
  "log_action action actor target meta =
     modify (\<lambda>s. s\<lparr>t_audit := t_audit s @
       [\<lparr>au_action = action, au_actor = actor,
         au_target_type = (case target of None \<Rightarrow> [] | Some (ty, _) \<Rightarrow> ty),
         au_target_id = (case target of None \<Rightarrow> [] | Some (_, pk) \<Rightarrow> str_nat pk),
         au_meta = meta\<rparr>]\<rparr>)"

text \<open>
  \<open>emit\<close> registers the handlers with \<open>transaction.on_commit\<close>.  The log lives in the state, so
  \<open>atomic\<close> drops the events of a block that raises.
\<close>

definition emit :: "event \<Rightarrow> unit prog" where
  "emit ev = modify (\<lambda>s. s\<lparr>event_log := event_log s @ [ev]\<rparr>)"

section \<open>Primary keys and random identifiers\<close>

definition new_pk :: "nat prog" where
  "new_pk = bnd (gets seq) (\<lambda>n. bnd (modify (\<lambda>s. s\<lparr>seq := Suc n\<rparr>)) (\<lambda>_. ret n))"

text \<open>\<open>secrets.choice\<close>\<close>

definition secrets_choice :: "env \<Rightarrow> string \<Rightarrow> char prog" where
  "secrets_choice E cs =
     bnd (gets rng) (\<lambda>n. bnd (modify (\<lambda>s. s\<lparr>rng := Suc n\<rparr>)) (\<lambda>_. ret (cs ! (rand E n mod length cs))))"

definition draw_string :: "env \<Rightarrow> string \<Rightarrow> nat \<Rightarrow> string prog" where
  "draw_string E cs n = map_m (\<lambda>_. secrets_choice E cs) [0..<n]"

definition public_id_chars :: string where
  "public_id_chars = ''abcdefghijklmnopqrstuvwxyz0123456789''"

definition generate_public_id :: "env \<Rightarrow> string \<Rightarrow> string prog" where
  "generate_public_id E prefix =
     bnd (draw_string E public_id_chars 16) (\<lambda>random_part. ret (prefix @ random_part))"

definition crockford :: string where
  "crockford = ''0123456789ABCDEFGHJKMNPQRSTVWXYZ''"

definition generate_license_key :: "env \<Rightarrow> string prog" where
  "generate_license_key E =
     bnd (draw_string E crockford 4) (\<lambda>g1.
     bnd (draw_string E crockford 4) (\<lambda>g2.
     bnd (draw_string E crockford 4) (\<lambda>g3.
     ret (g1 @ ''-'' @ g2 @ ''-'' @ g3))))"

text \<open>The retry loop both \<open>assign_unique_*\<close> functions share: at most \<open>max_attempts\<close> draws.\<close>

primrec assign_unique :: "nat \<Rightarrow> string prog \<Rightarrow> (string \<Rightarrow> db \<Rightarrow> bool) \<Rightarrow> string \<Rightarrow> string prog" where
  "assign_unique 0 gen taken field = raise (RuntimeError field)"
| "assign_unique (Suc attempts) gen taken field =
     bnd gen (\<lambda>candidate.
     bnd (gets (taken candidate)) (\<lambda>exists.
     if \<not> exists then ret candidate else assign_unique attempts gen taken field))"

definition assign_unique_public_id :: "env \<Rightarrow> string \<Rightarrow> (string \<Rightarrow> db \<Rightarrow> bool) \<Rightarrow> string prog" where
  "assign_unique_public_id E prefix taken =
     assign_unique 5 (generate_public_id E prefix) taken ''public_id''"

definition assign_unique_license_key :: "env \<Rightarrow> string prog" where
  "assign_unique_license_key E =
     assign_unique 5 (generate_license_key E) (\<lambda>k s. find_by li_key k (t_licenses s) \<noteq> None)
       ''license key''"

subsection \<open>What the identifier functions do\<close>

lemma now_run [run_simps]: "now s = (Inr (clock s), s)"
  by (simp add: now_def run_simps)

lemma setting_get_run [run_simps]:
  "setting_get key d s =
     (Inr (case find_by st_key key (t_settings s) of None \<Rightarrow> d | Some r \<Rightarrow> st_value r), s)"
  by (simp add: setting_get_def run_simps)

lemma log_action_run [run_simps]:
  "log_action action actor target meta s = (Inr (), s\<lparr>t_audit := t_audit s @
       [\<lparr>au_action = action, au_actor = actor,
         au_target_type = (case target of None \<Rightarrow> [] | Some (ty, _) \<Rightarrow> ty),
         au_target_id = (case target of None \<Rightarrow> [] | Some (_, pk) \<Rightarrow> str_nat pk),
         au_meta = meta\<rparr>]\<rparr>)"
  by (simp add: log_action_def run_simps)

lemma emit_run [run_simps]: "emit ev s = (Inr (), s\<lparr>event_log := event_log s @ [ev]\<rparr>)"
  by (simp add: emit_def run_simps)

lemma new_pk_run [run_simps]: "new_pk s = (Inr (seq s), s\<lparr>seq := Suc (seq s)\<rparr>)"
  by (simp add: new_pk_def run_simps)

lemma now_wp [wp_simps]: "wp now Q E s = Q (clock s) s"
  by (simp add: wp_def run_simps)

lemma setting_get_wp [wp_simps]:
  "wp (setting_get key d) Q E s =
     Q (case find_by st_key key (t_settings s) of None \<Rightarrow> d | Some r \<Rightarrow> st_value r) s"
  by (simp add: wp_def run_simps)

lemma log_action_wp [wp_simps]:
  "wp (log_action action actor target meta) Q E s = Q () (s\<lparr>t_audit := t_audit s @
       [\<lparr>au_action = action, au_actor = actor,
         au_target_type = (case target of None \<Rightarrow> [] | Some (ty, _) \<Rightarrow> ty),
         au_target_id = (case target of None \<Rightarrow> [] | Some (_, pk) \<Rightarrow> str_nat pk),
         au_meta = meta\<rparr>]\<rparr>)"
  by (simp add: wp_def run_simps)

lemma emit_wp [wp_simps]: "wp (emit ev) Q E s = Q () (s\<lparr>event_log := event_log s @ [ev]\<rparr>)"
  by (simp add: wp_def run_simps)

lemma new_pk_wp [wp_simps]: "wp new_pk Q E s = Q (seq s) (s\<lparr>seq := Suc (seq s)\<rparr>)"
  by (simp add: wp_def run_simps)

text \<open>The effect of a generator: it only takes random draws, and its result has a shape.\<close>

definition draws :: "(string \<Rightarrow> bool) \<Rightarrow> string prog \<Rightarrow> bool" where
  "draws shape gen = (\<forall>s. \<exists>i r. gen s = (Inr i, s\<lparr>rng := r\<rparr>) \<and> shape i)"

lemma drawsD: "draws shape gen \<Longrightarrow> \<exists>i r. gen s = (Inr i, s\<lparr>rng := r\<rparr>) \<and> shape i"
  by (simp add: draws_def)

lemma secrets_choice_run [run_simps]:
  "secrets_choice E cs s = (Inr (cs ! (rand E (rng s) mod length cs)), s\<lparr>rng := Suc (rng s)\<rparr>)"
  by (simp add: secrets_choice_def run_simps)

lemma map_m_choice:
  assumes "cs \<noteq> []"
  shows "\<exists>i r. map_m (\<lambda>_. secrets_choice E cs) xs s = (Inr i, s\<lparr>rng := r\<rparr>)
     \<and> length i = length xs \<and> set i \<subseteq> set cs"
proof (induction xs arbitrary: s)
  case Nil
  show ?case
    by (rule exI [of _ "[]"], rule exI [of _ "rng s"]) (simp add: run_simps)
next
  case (Cons x xs)
  let ?c = "cs ! (rand E (rng s) mod length cs)"
  have c: "?c \<in> set cs" using assms by simp
  obtain i r where "map_m (\<lambda>_. secrets_choice E cs) xs (s\<lparr>rng := Suc (rng s)\<rparr>) =
      (Inr i, s\<lparr>rng := r\<rparr>)" "length i = length xs" "set i \<subseteq> set cs"
    using Cons.IH [of "s\<lparr>rng := Suc (rng s)\<rparr>"] by auto
  with c show ?case
    using secrets_choice_run [of E cs s]
    by (intro exI [of _ "?c # i"] exI [of _ r]) (simp add: bnd_run ret_run)
qed

lemma draws_draw_string:
  "cs \<noteq> [] \<Longrightarrow> draws (\<lambda>i. length i = n \<and> set i \<subseteq> set cs) (draw_string E cs n)"
  using map_m_choice [of cs E "[0..<n]"] by (auto simp: draws_def draw_string_def)

lemma draws_public_id:
  "draws (\<lambda>i. \<exists>r. i = prefix @ r \<and> length r = 16 \<and> set r \<subseteq> set public_id_chars)
     (generate_public_id E prefix)"
  unfolding draws_def
proof
  fix s
  show "\<exists>i r. generate_public_id E prefix s = (Inr i, s\<lparr>rng := r\<rparr>) \<and>
      (\<exists>r. i = prefix @ r \<and> length r = 16 \<and> set r \<subseteq> set public_id_chars)"
    using drawsD [OF draws_draw_string [of public_id_chars 16 E], of s]
    by (auto simp: generate_public_id_def run_simps public_id_chars_def)
qed

definition license_key_shape :: "string \<Rightarrow> bool" where
  "license_key_shape k = (\<exists>a b c. k = a @ ''-'' @ b @ ''-'' @ c
     \<and> length a = 4 \<and> length b = 4 \<and> length c = 4 \<and> set (a @ b @ c) \<subseteq> set crockford)"

lemma draws_license_key: "draws license_key_shape (generate_license_key E)"
  unfolding draws_def
proof
  fix s
  have D: "draws (\<lambda>i. length i = 4 \<and> set i \<subseteq> set crockford) (draw_string E crockford 4)"
    by (rule draws_draw_string) (simp add: crockford_def)
  obtain a r1 where a: "draw_string E crockford 4 s = (Inr a, s\<lparr>rng := r1\<rparr>)"
      "length a = 4" "set a \<subseteq> set crockford"
    using drawsD [OF D, of s] by blast
  obtain b r2 where b: "draw_string E crockford 4 (s\<lparr>rng := r1\<rparr>) = (Inr b, s\<lparr>rng := r2\<rparr>)"
      "length b = 4" "set b \<subseteq> set crockford"
    using drawsD [OF D, of "s\<lparr>rng := r1\<rparr>"] by auto
  obtain c r3 where c: "draw_string E crockford 4 (s\<lparr>rng := r2\<rparr>) = (Inr c, s\<lparr>rng := r3\<rparr>)"
      "length c = 4" "set c \<subseteq> set crockford"
    using drawsD [OF D, of "s\<lparr>rng := r2\<rparr>"] by auto
  have "license_key_shape (a @ ''-'' @ b @ ''-'' @ c)"
    unfolding license_key_shape_def using a b c by (intro exI [of _ a] exI [of _ b] exI [of _ c]) simp
  with a b c show "\<exists>i r. generate_license_key E s = (Inr i, s\<lparr>rng := r\<rparr>) \<and> license_key_shape i"
    by (intro exI [of _ "a @ ''-'' @ b @ ''-'' @ c"] exI [of _ r3])
      (simp add: generate_license_key_def run_simps)
qed

text \<open>The loop's result is not taken, has the generator's shape, and only draws were used.\<close>

lemma assign_unique_wp:
  assumes "draws shape gen" and "\<And>i r. taken i (s\<lparr>rng := r\<rparr>) = taken i s"
  shows "wp (assign_unique n gen taken field)
     (\<lambda>i t. \<not> taken i s \<and> shape i \<and> (\<exists>r. t = s\<lparr>rng := r\<rparr>))
     (\<lambda>e t. e = RuntimeError field \<and> (\<exists>r. t = s\<lparr>rng := r\<rparr>)) s"
  using assms(2)
proof (induction n arbitrary: s)
  case 0
  show ?case by (simp add: wp_simps) (metis db.surjective db.update_convs(3))
next
  case (Suc n)
  obtain i r where i: "gen s = (Inr i, s\<lparr>rng := r\<rparr>)" "shape i"
    using drawsD [OF assms(1), of s] by blast
  have "wp (assign_unique n gen taken field)
     (\<lambda>i t. \<not> taken i s \<and> shape i \<and> (\<exists>r. t = s\<lparr>rng := r\<rparr>))
     (\<lambda>e t. e = RuntimeError field \<and> (\<exists>r. t = s\<lparr>rng := r\<rparr>)) (s\<lparr>rng := r\<rparr>)"
    using Suc.IH [of "s\<lparr>rng := r\<rparr>"] Suc.prems by simp
  with i Suc.prems show ?case
    by (auto simp: wp_def run_simps)
qed

text \<open>
  Licence keys.  Whatever \<open>secrets\<close> draws, a key handed out by
  \<open>assign_unique_license_key\<close> has the form \<open>XXXX-XXXX-XXXX\<close> over the Crockford alphabet (so it
  fits the 14-character column), no licence of the database has it yet, and the search changes
  nothing but the random source; when five draws in a row are taken it raises
  \<open>RuntimeError\<close>, and it does nothing else: it always stops.
\<close>

theorem license_key_fresh:
  "wp (assign_unique_license_key E)
     (\<lambda>k t. license_key_shape k \<and> length k = 14 \<and> k \<notin> li_key ` set (t_licenses s)
        \<and> (\<exists>r. t = s\<lparr>rng := r\<rparr>))
     (\<lambda>e t. e = RuntimeError ''license key'' \<and> (\<exists>r. t = s\<lparr>rng := r\<rparr>)) s"
proof -
  have "license_key_shape k \<Longrightarrow> length k = 14" for k
    by (auto simp: license_key_shape_def)
  then show ?thesis
    unfolding assign_unique_license_key_def
    by (intro wp_mono [OF assign_unique_wp [OF draws_license_key]]) (auto simp: find_by_None_iff)
qed

lemma assign_public_id_wp:
  assumes "\<And>i r. taken i (s\<lparr>rng := r\<rparr>) = taken i s"
  shows "wp (assign_unique_public_id E prefix taken)
     (\<lambda>i t. \<not> taken i s \<and> (\<exists>r. i = prefix @ r) \<and> (\<exists>r. t = s\<lparr>rng := r\<rparr>))
     (\<lambda>e t. e = RuntimeError ''public_id'' \<and> (\<exists>r. t = s\<lparr>rng := r\<rparr>)) s"
  unfolding assign_unique_public_id_def
  by (rule wp_mono [OF assign_unique_wp [OF draws_public_id assms]]) auto

section \<open>The interface to the rest of the program\<close>

text \<open>
  What every service does besides its own writes: it appends to the audit log and the event log,
  takes primary keys and random draws.  An invariant that survives these survives all the
  helpers of this theory.
\<close>

locale core_inv =
  fixes I :: "db \<Rightarrow> bool"
  assumes log_pres [pres_intros]: "pres I (log_action action actor target meta)"
    and emit_pres [pres_intros]: "pres I (emit ev)"
    and pk_pres [pres_intros]: "pres I new_pk"
    and draw: "I s \<Longrightarrow> I (s\<lparr>rng := r\<rparr>)"
begin

lemma now_pres [pres_intros]: "pres I now"
  by (simp add: now_def pres_gets)

lemma setting_get_pres [pres_intros]: "pres I (setting_get key dflt)"
  by (simp add: setting_get_def pres_gets)

lemma int_setting_pres [pres_intros]: "pres I (int_setting key dflt)"
  by (auto simp: int_setting_def intro!: pres_intros)

lemma bool_setting_pres [pres_intros]: "pres I (bool_setting key)"
  by (auto simp: bool_setting_def intro!: pres_intros)

lemma draws_pres: "draws shape gen \<Longrightarrow> pres I gen"
  by (rule presI) (metis draw drawsD snd_conv)

lemma assign_unique_pres: "draws shape gen \<Longrightarrow> pres I (assign_unique n gen taken field)"
  by (induction n) (auto intro!: pres_intros intro: draws_pres)

lemma assign_unique_public_id_pres [pres_intros]: "pres I (assign_unique_public_id E prefix taken)"
  unfolding assign_unique_public_id_def by (rule assign_unique_pres) (rule draws_public_id)

lemma assign_unique_license_key_pres [pres_intros]: "pres I (assign_unique_license_key E)"
  unfolding assign_unique_license_key_def by (rule assign_unique_pres) (rule draws_license_key)

end

text \<open>
  Most invariants look at a few tables only.  \<open>frame_inv\<close> states this with a function \<open>view\<close>: what
  agrees on the view (and has not taken keys back) agrees on \<open>I\<close>.  Each component extends it by
  the tables its operations write: an invariant whose view leaves them out is kept.
\<close>

locale frame_inv =
  fixes I :: "db \<Rightarrow> bool" and view :: "db \<Rightarrow> 'v"
  assumes frame: "I s \<Longrightarrow> view t = view s \<Longrightarrow> seq s \<le> seq t \<Longrightarrow> I t"
    and view_core: "view (s\<lparr>seq := n\<rparr>) = view s" "view (s\<lparr>rng := n\<rparr>) = view s"
      "view (s\<lparr>t_audit := A\<rparr>) = view s" "view (s\<lparr>event_log := V\<rparr>) = view s"
      "view (s\<lparr>cache := C\<rparr>) = view s" "view (s\<lparr>clock := c\<rparr>) = view s"
begin

lemma frame_modify:
  "(\<And>s. view (f s) = view s) \<Longrightarrow> (\<And>s. seq s \<le> seq (f s)) \<Longrightarrow> pres I (modify f)"
  by (rule pres_modify) (auto intro: frame)

lemma frame_action:
  "(\<And>s. view (snd (m s)) = view s) \<Longrightarrow> (\<And>s. seq s \<le> seq (snd (m s))) \<Longrightarrow> pres I m"
  by (rule presI) (auto intro: frame)

lemma tick: "I s \<Longrightarrow> I (s\<lparr>clock := c\<rparr>)"
  by (erule frame) (simp_all add: view_core)

end

sublocale frame_inv \<subseteq> core_inv I
proof
  fix action actor target meta ev s r
  show "pres I (log_action action actor target meta)" "pres I (emit ev)" "pres I new_pk"
    by (auto intro!: frame_action simp: run_simps view_core)
  show "I s \<Longrightarrow> I (s\<lparr>rng := r\<rparr>)"
    by (erule frame) (simp_all add: view_core)
qed

text \<open>No helper writes a setting, and none takes back an audit entry or an event.\<close>

interpretation settings: frame_inv "\<lambda>s. t_settings s = S" t_settings
  by unfold_locales auto

interpretation trail: core_inv "\<lambda>s. \<exists>A V. t_audit s = A0 @ A \<and> event_log s = V0 @ V"
  by unfold_locales (auto simp: pres_def run_simps)

end
