(* ===== verification/Wallet.thy ===== *)
theory Wallet
  imports Core_Services
begin

text \<open>
  \<open>apps/wallet/services.py\<close>: \<open>credit\<close> and \<open>debit\<close>, the only functions that write a wallet's
  balance, with the ledger as an append-only list of entries and the entry's \<open>ref\<close> as the
  idempotency key.  The invariant \<open>ledger_ok\<close> is the one the models promise (balance is the
  sum of the ledger), strengthened until every operation keeps it.  The locale \<open>money_inv\<close> is
  the interface the rest of the program has to this component: whatever depends on money only,
  and is kept by \<open>credit\<close> and \<open>debit\<close>, is kept by every service built from them.
\<close>

section \<open>Operations\<close>

definition ledger_types :: "string list" where
  "ledger_types = [''topup'', ''purchase'', ''renewal'', ''refund'', ''adjustment'', ''bonus'']"

text \<open>Range of \<open>BigIntegerField\<close> and \<open>PositiveBigIntegerField\<close> columns.\<close>

definition bigint_max :: int where
  "bigint_max = 9223372036854775807"

definition validate_entry_type :: "string \<Rightarrow> unit prog" where
  "validate_entry_type ty = check (ty \<in> set ledger_types) (ValueError ''entry_type'')"

definition check_idempotent_match :: "ledger_entry \<Rightarrow> nat \<Rightarrow> string \<Rightarrow> bool \<Rightarrow> unit prog" where
  "check_idempotent_match existing w ty expected_positive =
     bnd (check (le_wallet existing = w) (ValueError ''ref wallet'')) (\<lambda>_.
     bnd (check (le_type existing = ty) (ValueError ''ref type'')) (\<lambda>_.
     check ((le_amount existing > 0) = expected_positive) (ValueError ''ref direction'')))"

definition ledger_by_ref :: "string \<Rightarrow> ledger_entry option prog" where
  "ledger_by_ref ref = gets (\<lambda>s. find_by le_ref ref (t_ledger s))"

definition wallet_get :: "nat \<Rightarrow> wallet prog" where
  "wallet_get w = bnd (gets (\<lambda>s. find_by w_pk w (t_wallets s))) (\<lambda>v. or_raise v (DoesNotExist ''Wallet''))"

text \<open>
  \<open>LedgerEntry.objects.create\<close>: the unique \<open>ref\<close>, the non-negative and the 64-bit column
  are the constraints the database enforces.
\<close>

definition ledger_create ::
  "nat \<Rightarrow> string \<Rightarrow> int \<Rightarrow> int \<Rightarrow> string \<Rightarrow> string \<Rightarrow> ledger_entry prog" where
  "ledger_create w ty amount balance_after ref note =
     bnd (check (\<bar>amount\<bar> \<le> bigint_max \<and> balance_after \<le> bigint_max) (DataError ''bigint'')) (\<lambda>_.
     bnd (check (0 \<le> balance_after) (IntegrityError ''balance_after'')) (\<lambda>_.
     bnd (ledger_by_ref ref) (\<lambda>clash.
     bnd (check (clash = None) (IntegrityError ''ref'')) (\<lambda>_.
     bnd new_pk (\<lambda>pk.
     bnd now (\<lambda>t.
     let entry = \<lparr>le_pk = pk, le_wallet = w, le_type = ty, le_amount = amount,
       le_balance_after = balance_after, le_ref = ref, le_note = note, le_created = t\<rparr>
     in bnd (modify (\<lambda>s. s\<lparr>t_ledger := t_ledger s @ [entry]\<rparr>)) (\<lambda>_. ret entry)))))))"

definition wallet_save_balance :: "nat \<Rightarrow> int \<Rightarrow> unit prog" where
  "wallet_save_balance w b =
     modify (\<lambda>s. s\<lparr>t_wallets := upd_by w_pk w (\<lambda>r. r\<lparr>w_balance := b\<rparr>) (t_wallets s)\<rparr>)"

definition credit :: "nat \<Rightarrow> int \<Rightarrow> string \<Rightarrow> string \<Rightarrow> string \<Rightarrow> ledger_entry prog" where
  "credit w amount ty ref note =
     bnd (check (0 < amount) (ValueError ''credit amount'')) (\<lambda>_.
     bnd (validate_entry_type ty) (\<lambda>_.
     bnd (ledger_by_ref ref) (\<lambda>existing.
     case existing of
       Some e \<Rightarrow> bnd (check_idempotent_match e w ty True) (\<lambda>_. ret e)
     | None \<Rightarrow>
         atomic (
           bnd (wallet_get w) (\<lambda>locked.
           bnd (ledger_by_ref ref) (\<lambda>existing.
           case existing of
             Some e \<Rightarrow> bnd (check_idempotent_match e (w_pk locked) ty True) (\<lambda>_. ret e)
           | None \<Rightarrow>
               (let new_balance = w_balance locked + amount in
                try_except (ledger_create (w_pk locked) ty amount new_balance ref note) is_integrity
                  (\<lambda>_. bnd (ledger_by_ref ref) (\<lambda>v.
                       bnd (or_raise v (DoesNotExist ''LedgerEntry'')) (\<lambda>e.
                       bnd (check_idempotent_match e (w_pk locked) ty True) (\<lambda>_. ret e))))
                  (\<lambda>entry. bnd (wallet_save_balance (w_pk locked) new_balance) (\<lambda>_. ret entry)))))))))"

definition debit :: "nat \<Rightarrow> int \<Rightarrow> string \<Rightarrow> string \<Rightarrow> string \<Rightarrow> ledger_entry prog" where
  "debit w amount ty ref note =
     bnd (check (0 < amount) (ValueError ''debit amount'')) (\<lambda>_.
     bnd (validate_entry_type ty) (\<lambda>_.
     bnd (ledger_by_ref ref) (\<lambda>existing.
     case existing of
       Some e \<Rightarrow> bnd (check_idempotent_match e w ty False) (\<lambda>_. ret e)
     | None \<Rightarrow>
         atomic (
           bnd (wallet_get w) (\<lambda>locked.
           bnd (ledger_by_ref ref) (\<lambda>existing.
           case existing of
             Some e \<Rightarrow> bnd (check_idempotent_match e (w_pk locked) ty False) (\<lambda>_. ret e)
           | None \<Rightarrow>
               bnd (check (amount \<le> w_balance locked) InsufficientBalance) (\<lambda>_.
               (let new_balance = w_balance locked - amount in
                try_except (ledger_create (w_pk locked) ty (- amount) new_balance ref note) is_integrity
                  (\<lambda>_. bnd (ledger_by_ref ref) (\<lambda>v.
                       bnd (or_raise v (DoesNotExist ''LedgerEntry'')) (\<lambda>e.
                       bnd (check_idempotent_match e (w_pk locked) ty False) (\<lambda>_. ret e))))
                  (\<lambda>entry. bnd (wallet_save_balance (w_pk locked) new_balance) (\<lambda>_. ret entry))))))))))"

text \<open>\<open>LedgerEntry.save\<close> of a stored row and \<open>LedgerEntry.delete\<close> always raise.\<close>

definition ledger_save_existing :: "ledger_entry \<Rightarrow> unit prog" where
  "ledger_save_existing e = raise (TypeError ''LedgerEntry'')"

definition ledger_delete :: "ledger_entry \<Rightarrow> unit prog" where
  "ledger_delete e = raise (TypeError ''LedgerEntry'')"

text \<open>\<open>customer.wallet\<close>, and the signal that gives every new customer a wallet.\<close>

definition customer_wallet :: "nat \<Rightarrow> wallet prog" where
  "customer_wallet c =
     bnd (gets (\<lambda>s. find_by w_customer c (t_wallets s))) (\<lambda>v. or_raise v (DoesNotExist ''Wallet''))"

definition create_wallet_for_customer :: "nat \<Rightarrow> bool \<Rightarrow> unit prog" where
  "create_wallet_for_customer c created =
     when_m created (
       bnd (gets (\<lambda>s. find_by w_customer c (t_wallets s))) (\<lambda>v.
       when_m (v = None) (
         bnd new_pk (\<lambda>pk.
         modify (\<lambda>s. s\<lparr>t_wallets := t_wallets s @ [\<lparr>w_pk = pk, w_customer = c, w_balance = 0\<rparr>]\<rparr>)))))"

section \<open>The ledger invariant\<close>

definition wallet_sum :: "nat \<Rightarrow> ledger_entry list \<Rightarrow> int" where
  "wallet_sum w L = sum_list (map le_amount (filter (\<lambda>e. le_wallet e = w) L))"

text \<open>Every entry records the balance of its wallet right after it.\<close>

definition trail_ok :: "ledger_entry list \<Rightarrow> bool" where
  "trail_ok L = (\<forall>n < length L. le_balance_after (L ! n) = wallet_sum (le_wallet (L ! n)) (take (Suc n) L))"

definition ledger_ok :: "db \<Rightarrow> bool" where
  "ledger_ok s =
     (distinct (map w_pk (t_wallets s)) \<and> distinct (map w_customer (t_wallets s))
      \<and> distinct (map le_ref (t_ledger s)) \<and> trail_ok (t_ledger s)
      \<and> (\<forall>w \<in> set (t_wallets s). w_balance w = wallet_sum (w_pk w) (t_ledger s)
            \<and> 0 \<le> w_balance w \<and> w_balance w \<le> bigint_max \<and> w_pk w < seq s)
      \<and> (\<forall>e \<in> set (t_ledger s). le_wallet e \<in> w_pk ` set (t_wallets s)
            \<and> le_type e \<in> set ledger_types \<and> le_amount e \<noteq> 0))"

lemma wallet_sum_append [simp]:
  "wallet_sum w (L @ [e]) = wallet_sum w L + (if le_wallet e = w then le_amount e else 0)"
  by (simp add: wallet_sum_def)

lemma wallet_sum_none: "w \<notin> le_wallet ` set L \<Longrightarrow> wallet_sum w L = 0"
  by (induction L) (auto simp: wallet_sum_def)

lemma trail_ok_append:
  "trail_ok (L @ [e]) = (trail_ok L \<and> le_balance_after e = wallet_sum (le_wallet e) (L @ [e]))"
  by (auto simp: trail_ok_def less_Suc_eq nth_append)

lemma ledger_ok_post:
  assumes ok: "ledger_ok s" and wal: "find_by w_pk w (t_wallets s) = Some wal"
    and fresh: "find_by le_ref (le_ref e) (t_ledger s) = None"
    and e: "le_wallet e = w" "le_balance_after e = w_balance wal + le_amount e"
      "le_type e \<in> set ledger_types" "le_amount e \<noteq> 0"
    and range: "0 \<le> w_balance wal + le_amount e" "w_balance wal + le_amount e \<le> bigint_max"
    and t: "t_wallets t = upd_by w_pk w (\<lambda>r. r\<lparr>w_balance := w_balance wal + le_amount e\<rparr>) (t_wallets s)"
      "t_ledger t = t_ledger s @ [e]" "seq s \<le> seq t"
  shows "ledger_ok t"
proof -
  have wal': "wal \<in> set (t_wallets s)" "w_pk wal = w"
    using find_by_SomeD [OF wal] by auto
  have bal: "w_balance wal = wallet_sum w (t_ledger s)"
    using ok wal' by (auto simp: ledger_ok_def)
  have "map w_pk (t_wallets t) = map w_pk (t_wallets s)"
    by (simp add: t)
  then have pks: "w_pk ` set (t_wallets t) = w_pk ` set (t_wallets s)"
    by (metis set_map)
  have keys: "w_pk r < seq t" if "r \<in> set (t_wallets t)" for r
  proof -
    have "w_pk r \<in> w_pk ` set (t_wallets s)" using that pks by blast
    then have "w_pk r < seq s" using ok by (auto simp: ledger_ok_def)
    then show ?thesis using t(3) by simp
  qed
  have wallets: "w_balance r = wallet_sum (w_pk r) (t_ledger t) \<and> 0 \<le> w_balance r
      \<and> w_balance r \<le> bigint_max" if "r \<in> set (t_wallets t)" for r
    using that ok bal e range by (auto simp: t set_upd_by ledger_ok_def)
  have mem: "le_wallet e \<in> w_pk ` set (t_wallets s)"
    using wal' e(1) by auto
  have entries: "le_wallet x \<in> w_pk ` set (t_wallets t) \<and> le_type x \<in> set ledger_types
      \<and> le_amount x \<noteq> 0" if "x \<in> set (t_ledger t)" for x
    using that ok e(3,4) mem unfolding pks by (auto simp: t ledger_ok_def)
  have "trail_ok (t_ledger t)"
    using ok bal e by (simp add: t trail_ok_append ledger_ok_def)
  moreover have "distinct (map le_ref (t_ledger t))"
    using ok fresh by (auto simp: t ledger_ok_def find_by_None_iff)
  moreover have "distinct (map w_pk (t_wallets t))" "distinct (map w_customer (t_wallets t))"
    using ok by (simp_all add: t ledger_ok_def)
  ultimately show ?thesis
    using wallets keys entries unfolding ledger_ok_def by blast
qed

subsection \<open>Exact effect of the operations\<close>

definition ledger_entry_of ::
  "db \<Rightarrow> nat \<Rightarrow> string \<Rightarrow> int \<Rightarrow> int \<Rightarrow> string \<Rightarrow> string \<Rightarrow> ledger_entry" where
  "ledger_entry_of s w ty amount b ref note =
     \<lparr>le_pk = seq s, le_wallet = w, le_type = ty, le_amount = amount, le_balance_after = b,
      le_ref = ref, le_note = note, le_created = clock s\<rparr>"

text \<open>Posting an entry: one entry appended, one balance set, one key used.\<close>

definition post_entry :: "db \<Rightarrow> ledger_entry \<Rightarrow> db" where
  "post_entry s e = s\<lparr>seq := Suc (seq s), t_ledger := t_ledger s @ [e],
     t_wallets := upd_by w_pk (le_wallet e) (\<lambda>r. r\<lparr>w_balance := le_balance_after e\<rparr>) (t_wallets s)\<rparr>"

lemmas wallet_defs = validate_entry_type_def check_idempotent_match_def ledger_by_ref_def
  wallet_get_def ledger_create_def wallet_save_balance_def

lemma credit_new:
  assumes "0 < amount" and "ty \<in> set ledger_types"
    and "find_by le_ref ref (t_ledger s) = None"
    and "find_by w_pk w (t_wallets s) = Some wal"
    and "0 \<le> w_balance wal" and "w_balance wal + amount \<le> bigint_max"
  shows "credit w amount ty ref note s =
     (Inr (ledger_entry_of s w ty amount (w_balance wal + amount) ref note),
      post_entry s (ledger_entry_of s w ty amount (w_balance wal + amount) ref note))"
  using assms find_by_SomeD [OF assms(4)]
  by (simp add: credit_def wallet_defs run_simps ledger_entry_of_def post_entry_def Let_def)

lemma debit_new:
  assumes "0 < amount" and "ty \<in> set ledger_types"
    and "find_by le_ref ref (t_ledger s) = None"
    and "find_by w_pk w (t_wallets s) = Some wal"
    and "amount \<le> w_balance wal" and "w_balance wal \<le> bigint_max"
  shows "debit w amount ty ref note s =
     (Inr (ledger_entry_of s w ty (- amount) (w_balance wal - amount) ref note),
      post_entry s (ledger_entry_of s w ty (- amount) (w_balance wal - amount) ref note))"
  using assms find_by_SomeD [OF assms(4)]
  by (simp add: debit_def wallet_defs run_simps ledger_entry_of_def post_entry_def Let_def)

lemma credit_seen:
  "0 < amount \<Longrightarrow> ty \<in> set ledger_types \<Longrightarrow> find_by le_ref ref (t_ledger s) = Some e \<Longrightarrow>
   credit w amount ty ref note s =
     (if le_wallet e \<noteq> w then (Inl (ValueError ''ref wallet''), s)
      else if le_type e \<noteq> ty then (Inl (ValueError ''ref type''), s)
      else if le_amount e \<le> 0 then (Inl (ValueError ''ref direction''), s)
      else (Inr e, s))"
  by (auto simp: credit_def wallet_defs run_simps)

lemma debit_seen:
  "0 < amount \<Longrightarrow> ty \<in> set ledger_types \<Longrightarrow> find_by le_ref ref (t_ledger s) = Some e \<Longrightarrow>
   debit w amount ty ref note s =
     (if le_wallet e \<noteq> w then (Inl (ValueError ''ref wallet''), s)
      else if le_type e \<noteq> ty then (Inl (ValueError ''ref type''), s)
      else if 0 < le_amount e then (Inl (ValueError ''ref direction''), s)
      else (Inr e, s))"
  by (auto simp: debit_def wallet_defs run_simps)

lemma debit_insufficient:
  "0 < amount \<Longrightarrow> ty \<in> set ledger_types \<Longrightarrow> find_by le_ref ref (t_ledger s) = None \<Longrightarrow>
   find_by w_pk w (t_wallets s) = Some wal \<Longrightarrow> w_balance wal < amount \<Longrightarrow>
   debit w amount ty ref note s = (Inl InsufficientBalance, s)"
  by (auto simp: debit_def wallet_defs run_simps)

lemma debit_not_positive: "amount \<le> 0 \<Longrightarrow> debit w amount ty ref note s = (Inl (ValueError ''debit amount''), s)"
  by (auto simp: debit_def run_simps)

subsection \<open>The operations keep the invariant, and an error changes nothing\<close>

text \<open>What a call leaves behind: the state it found, or that state with one entry posted.\<close>

definition posted :: "db \<Rightarrow> db \<Rightarrow> bool" where
  "posted s t = (\<exists>e wal. t = post_entry s e \<and> find_by w_pk (le_wallet e) (t_wallets s) = Some wal
     \<and> find_by le_ref (le_ref e) (t_ledger s) = None \<and> le_type e \<in> set ledger_types
     \<and> le_amount e \<noteq> 0 \<and> le_balance_after e = w_balance wal + le_amount e
     \<and> 0 \<le> le_balance_after e \<and> le_balance_after e \<le> bigint_max)"

lemma ledger_ok_posted: "ledger_ok s \<Longrightarrow> posted s t \<Longrightarrow> ledger_ok t"
  unfolding posted_def by (elim exE conjE, rule ledger_ok_post) (auto simp: post_entry_def)

lemma posted_create:
  "find_by w_pk w (t_wallets s) = Some wal \<Longrightarrow> find_by le_ref ref (t_ledger s) = None \<Longrightarrow>
   ty \<in> set ledger_types \<Longrightarrow> a \<noteq> 0 \<Longrightarrow> b = w_balance wal + a \<Longrightarrow> 0 \<le> b \<Longrightarrow> b \<le> bigint_max \<Longrightarrow>
   posted s (s\<lparr>seq := Suc (seq s), t_ledger := t_ledger s @ [\<lparr>le_pk = seq s, le_wallet = w,
       le_type = ty, le_amount = a, le_balance_after = b, le_ref = ref, le_note = note, le_created = clock s\<rparr>],
     t_wallets := upd_by w_pk w (\<lambda>r. r\<lparr>w_balance := b\<rparr>) (t_wallets s)\<rparr>)"
  unfolding posted_def
  by (rule exI [of _ "ledger_entry_of s w ty a b ref note"], rule exI [of _ wal])
    (simp add: ledger_entry_of_def post_entry_def)

lemma credit_wp: "wp (credit w amount ty ref note) (\<lambda>e t. t = s \<or> posted s t) (\<lambda>e t. t = s) s"
  unfolding credit_def wallet_defs
  by (auto simp: wp_simps Let_def split: option.splits dest: find_by_SomeD intro: posted_create)

lemma posted_create_debit:
  "find_by w_pk w (t_wallets s) = Some wal \<Longrightarrow> find_by le_ref ref (t_ledger s) = None \<Longrightarrow>
   ty \<in> set ledger_types \<Longrightarrow> 0 < a \<Longrightarrow> a \<le> w_balance wal \<Longrightarrow> w_balance wal - a \<le> bigint_max \<Longrightarrow>
   posted s (s\<lparr>seq := Suc (seq s), t_ledger := t_ledger s @ [\<lparr>le_pk = seq s, le_wallet = w_pk wal,
       le_type = ty, le_amount = - a, le_balance_after = w_balance wal - a, le_ref = ref, le_note = note, le_created = clock s\<rparr>],
     t_wallets := upd_by w_pk (w_pk wal) (\<lambda>r. r\<lparr>w_balance := w_balance wal - a\<rparr>) (t_wallets s)\<rparr>)"
  using posted_create [of "w_pk wal" s wal ref ty "- a"] find_by_SomeD [of w_pk w "t_wallets s" wal]
  by simp

lemma debit_wp: "wp (debit w amount ty ref note) (\<lambda>e t. t = s \<or> posted s t) (\<lambda>e t. t = s) s"
  unfolding debit_def wallet_defs
  by (auto simp: wp_simps Let_def split: option.splits intro: posted_create_debit)

lemma customer_wallet_wp [wp_simps]:
  "wp (customer_wallet c) Q X s =
     (case find_by w_customer c (t_wallets s) of None \<Rightarrow> X (DoesNotExist ''Wallet'') s | Some w \<Rightarrow> Q w s)"
  by (simp add: customer_wallet_def wp_simps)

lemma debit_fresh_wp:
  "find_by le_ref ref (t_ledger s) = None \<Longrightarrow>
   wp (debit w amount ty ref nt)
     (\<lambda>e t. \<exists>wal. find_by w_pk w (t_wallets s) = Some wal \<and> 0 < amount \<and> amount \<le> w_balance wal
        \<and> e = ledger_entry_of s w ty (- amount) (w_balance wal - amount) ref nt \<and> t = post_entry s e)
     (\<lambda>x t. t = s \<and> (x = InsufficientBalance \<longrightarrow>
        (\<exists>wal. find_by w_pk w (t_wallets s) = Some wal \<and> w_balance wal < amount))) s"
  unfolding debit_def wallet_defs
  by (auto simp: wp_simps Let_def ledger_entry_of_def post_entry_def split: option.splits dest: find_by_SomeD)

lemma credit_error: "credit w amount ty ref note s = (Inl e, t) \<Longrightarrow> t = s"
  using wp_run_error [OF credit_wp] .

lemma debit_error: "debit w amount ty ref note s = (Inl e, t) \<Longrightarrow> t = s"
  using wp_run_error [OF debit_wp] .

lemma posted_pres:
  assumes "\<And>s t. I s \<Longrightarrow> posted s t \<Longrightarrow> I t"
  shows "pres I (credit w amount ty ref note)" and "pres I (debit w amount ty ref note)"
  using assms unfolding pres_wp
  by (auto intro!: wp_mono [OF credit_wp] wp_mono [OF debit_wp])

section \<open>The interface to the rest of the program\<close>

text \<open>What survives spending and the opening of a wallet, and what survives a credit too.\<close>

locale spending_inv = core_inv +
  assumes debit_pres [pres_intros]: "pres I (debit w amount ty ref note)"
    and create_wallet_pres [pres_intros]: "pres I (create_wallet_for_customer c created)"
begin

lemma customer_wallet_pres [pres_intros]: "pres I (customer_wallet c)"
  by (auto simp: customer_wallet_def intro!: pres_intros)

lemma wallet_get_pres [pres_intros]: "pres I (wallet_get w)"
  by (auto simp: wallet_get_def intro!: pres_intros)

end

locale wallet_inv = spending_inv +
  assumes credit_pres [pres_intros]: "pres I (credit w amount ty ref note)"

text \<open>Invariants whose view leaves money out.\<close>

locale wallet_frame = frame_inv +
  assumes view_wallet: "view (s\<lparr>t_wallets := W\<rparr>) = view s" "view (s\<lparr>t_ledger := L\<rparr>) = view s"
begin

lemma posted_frame: "I s \<Longrightarrow> posted s t \<Longrightarrow> I t"
  by (erule frame) (auto simp: posted_def post_entry_def view_core view_wallet)

end

sublocale wallet_frame \<subseteq> wallet_inv I
proof
  fix w amount ty ref nt c created
  show "pres I (credit w amount ty ref nt)" "pres I (debit w amount ty ref nt)"
    by (rule posted_pres, erule (1) posted_frame)+
  show "pres I (create_wallet_for_customer c created)"
    unfolding create_wallet_for_customer_def
    by (auto intro!: pres_intros frame_modify simp: view_wallet)
qed

text \<open>Invariants about money: kept by posting an entry and by opening a wallet.\<close>

locale money_inv = frame_inv I "\<lambda>s. (t_wallets s, t_ledger s)" for I +
  assumes post: "I s \<Longrightarrow> posted s t \<Longrightarrow> I t"
    and open_wallet: "I s \<Longrightarrow> find_by w_customer c (t_wallets s) = None \<Longrightarrow>
      I (s\<lparr>seq := Suc (seq s), t_wallets := t_wallets s @ [\<lparr>w_pk = seq s, w_customer = c, w_balance = 0\<rparr>]\<rparr>)"

sublocale money_inv \<subseteq> wallet_inv I
proof
  fix w amount ty ref nt c created
  show "pres I (credit w amount ty ref nt)" "pres I (debit w amount ty ref nt)"
    by (rule posted_pres, erule (1) post)+
  show "pres I (create_wallet_for_customer c created)"
    by (rule presI) (auto simp: create_wallet_for_customer_def run_simps intro: open_wallet)
qed

lemma ledger_ok_frame:
  "ledger_ok s \<Longrightarrow> t_wallets t = t_wallets s \<Longrightarrow> t_ledger t = t_ledger s \<Longrightarrow> seq s \<le> seq t \<Longrightarrow> ledger_ok t"
  by (auto simp: ledger_ok_def intro: less_le_trans)

lemma ledger_ok_open:
  assumes ok: "ledger_ok s" and new: "find_by w_customer c (t_wallets s) = None"
  shows "ledger_ok (s\<lparr>seq := Suc (seq s),
      t_wallets := t_wallets s @ [\<lparr>w_pk = seq s, w_customer = c, w_balance = 0\<rparr>]\<rparr>)"
proof -
  have "seq s \<notin> le_wallet ` set (t_ledger s)"
    using ok by (fastforce simp: ledger_ok_def)
  then show ?thesis
    using ok new
    by (auto simp: ledger_ok_def find_by_None_iff wallet_sum_none bigint_max_def less_Suc_eq)
qed

text \<open>The ledger invariant is one; so is the history: entries are only ever added.\<close>

interpretation ledger: money_inv ledger_ok
  by unfold_locales (auto intro: ledger_ok_posted ledger_ok_open elim: ledger_ok_frame)

interpretation history: money_inv "\<lambda>s. \<exists>M. t_ledger s = L @ M"
  by unfold_locales (auto simp: posted_def post_entry_def)

text \<open>Income: what is only ever spent from never gains an entry that is not negative.\<close>

definition only_spent :: "ledger_entry list \<Rightarrow> db \<Rightarrow> bool" where
  "only_spent L s = (\<exists>M. t_ledger s = L @ M \<and> (\<forall>e \<in> set M. le_amount e < 0))"

interpretation spent: frame_inv "only_spent L" t_ledger
  by unfold_locales (auto simp: only_spent_def)

lemma debit_spends:
  "wp (debit w amount ty ref nt) (\<lambda>_ t. t_ledger t = t_ledger s \<or> (\<exists>e. t_ledger t = t_ledger s @ [e] \<and> le_amount e < 0)) (\<lambda>_ t. t = s) s"
  unfolding debit_def wallet_defs by (auto simp: wp_simps Let_def split: option.splits)

lemma only_spent_more: "only_spent L s \<Longrightarrow> t_ledger t = t_ledger s @ [e] \<Longrightarrow> le_amount e < 0 \<Longrightarrow> only_spent L t"
  by (auto simp: only_spent_def)

lemma only_spent_same: "only_spent L s \<Longrightarrow> t_ledger t = t_ledger s \<Longrightarrow> only_spent L t"
  by (simp add: only_spent_def)

interpretation spent: spending_inv "only_spent L"
proof
  show "pres (only_spent L) (debit w amount ty ref nt)" for w amount ty ref nt
    unfolding pres_wp by (auto intro!: wp_mono [OF debit_spends] intro: only_spent_more only_spent_same)
  show "pres (only_spent L) (create_wallet_for_customer c created)" for c created
    unfolding create_wallet_for_customer_def by (auto intro!: pres_intros spent.frame_modify)
qed

text \<open>Money as it was: what an operation that never credits or debits keeps.\<close>

interpretation no_money: frame_inv "\<lambda>s. t_wallets s = W \<and> t_ledger s = L" "\<lambda>s. (t_wallets s, t_ledger s)"
  by unfold_locales auto

section \<open>Properties\<close>

text \<open>
  Crediting is exactly-once per reference.  In a database that satisfies the ledger
  invariant, a credit with an unused reference appends one entry, adds its amount to the
  balance and changes nothing else; sending the same reference again, for the same wallet and
  type and whatever the (positive) amount and the note, returns that first entry and changes
  nothing.
\<close>

theorem credit_exactly_once:
  assumes ok: "ledger_ok s" and "0 < amount" and "ty \<in> set ledger_types"
    and fresh: "ref \<notin> le_ref ` set (t_ledger s)"
    and wal: "find_by w_pk w (t_wallets s) = Some wal"
    and "w_balance wal + amount \<le> bigint_max" and "0 < amount2"
    and e_def: "e = ledger_entry_of s w ty amount (w_balance wal + amount) ref note"
  shows "credit w amount ty ref note s = (Inr e, post_entry s e)
     \<and> map_option w_balance (find_by w_pk w (t_wallets (post_entry s e))) = Some (w_balance wal + amount)
     \<and> credit w amount2 ty ref note2 (post_entry s e) = (Inr e, post_entry s e)
     \<and> ledger_ok (post_entry s e)"
proof -
  have none: "find_by le_ref ref (t_ledger s) = None"
    using fresh by (simp add: find_by_None_iff)
  have "0 \<le> w_balance wal"
    using ok find_by_SomeD [OF wal] by (auto simp: ledger_ok_def)
  then have new: "credit w amount ty ref note s = (Inr e, post_entry s e)"
    using assms none unfolding e_def by (intro credit_new)
  have "find_by le_ref ref (t_ledger (post_entry s e)) = Some e"
    using none by (simp add: post_entry_def find_by_append e_def ledger_entry_of_def)
  then have again: "credit w amount2 ty ref note2 (post_entry s e) = (Inr e, post_entry s e)"
    using assms by (simp add: credit_seen e_def ledger_entry_of_def)
  have "ledger_ok (post_entry s e)"
    using pres_run [OF ledger.credit_pres ok new] .
  with new again wal show ?thesis
    by (simp add: post_entry_def find_by_upd_by e_def ledger_entry_of_def)
qed

text \<open>
  A debit never overdraws and never half-happens.  From a database that satisfies the ledger
  invariant, a debit that returns a new entry has taken exactly the amount from a balance that
  covered it, and leaves the ledger invariant (so a non-negative balance); a debit that returns
  an old entry or raises leaves the database as it was.
\<close>

theorem debit_safe:
  assumes "ledger_ok s"
  shows "wp (debit w amount ty ref note)
     (\<lambda>e t. ledger_ok t \<and> (t = s \<and> e \<in> set (t_ledger s) \<and> le_ref e = ref
        \<or> (\<exists>wal. find_by w_pk w (t_wallets s) = Some wal \<and> amount \<le> w_balance wal
             \<and> e = ledger_entry_of s w ty (- amount) (w_balance wal - amount) ref note
             \<and> t = post_entry s e)))
     (\<lambda>_ t. t = s) s"
proof -
  have "wp (debit w amount ty ref note) (\<lambda>_. ledger_ok) (\<lambda>_. ledger_ok) s"
    using ledger.debit_pres assms by (simp add: pres_wp)
  moreover have "wp (debit w amount ty ref note)
     (\<lambda>e t. t = s \<and> e \<in> set (t_ledger s) \<and> le_ref e = ref
        \<or> (\<exists>wal. find_by w_pk w (t_wallets s) = Some wal \<and> amount \<le> w_balance wal
             \<and> e = ledger_entry_of s w ty (- amount) (w_balance wal - amount) ref note
             \<and> t = post_entry s e))
     (\<lambda>_ t. t = s) s"
    unfolding debit_def wallet_defs
    by (auto simp: wp_simps Let_def ledger_entry_of_def post_entry_def
        split: option.splits dest: find_by_SomeD)
  ultimately show ?thesis
    by (auto simp: wp_def split: prod.splits sum.splits)
qed

text \<open>A wallet holding 100 rupiah after one top-up.\<close>

definition example_wallet_db :: db where
  "example_wallet_db = empty_db\<lparr>seq := 3,
     t_wallets := [\<lparr>w_pk = 1, w_customer = 1, w_balance = 100\<rparr>],
     t_ledger := [\<lparr>le_pk = 2, le_wallet = 1, le_type = ''topup'', le_amount = 100,
       le_balance_after = 100, le_ref = ''topup:1'', le_note = [], le_created = 0\<rparr>]\<rparr>"

lemma example_wallet_ok: "ledger_ok example_wallet_db"
  by (simp add: ledger_ok_def example_wallet_db_def empty_db_def trail_ok_def wallet_sum_def
      bigint_max_def ledger_types_def)

theorem credit_exactly_once_witness:
  "fst (credit 1 50 ''bonus'' ''topup_bonus:1'' [] example_wallet_db) =
     Inr \<lparr>le_pk = 3, le_wallet = 1, le_type = ''bonus'', le_amount = 50, le_balance_after = 150,
       le_ref = ''topup_bonus:1'', le_note = [], le_created = 0\<rparr>"
proof -
  have wal: "find_by w_pk 1 (t_wallets example_wallet_db) = Some \<lparr>w_pk = 1, w_customer = 1, w_balance = 100\<rparr>"
    and fresh: "''topup_bonus:1'' \<notin> le_ref ` set (t_ledger example_wallet_db)"
    by (simp_all add: example_wallet_db_def)
  show ?thesis
    using credit_exactly_once [OF example_wallet_ok _ _ fresh wal, of 50 "''bonus''" 1 _ "[]" "[]"]
    by (simp add: ledger_types_def bigint_max_def ledger_entry_of_def example_wallet_db_def empty_db_def)
qed

theorem debit_safe_witness:
  "fst (debit 1 101 ''purchase'' ''order:1'' [] example_wallet_db) = Inl InsufficientBalance
     \<and> wp (debit 1 30 ''purchase'' ''order:1'' []) (\<lambda>e t. le_balance_after e = 70 \<and> ledger_ok t)
         (\<lambda>_ _. False) example_wallet_db"
proof -
  have run: "debit 1 30 ''purchase'' ''order:1'' [] example_wallet_db =
      (Inr (ledger_entry_of example_wallet_db 1 ''purchase'' (- 30) 70 ''order:1'' []),
       post_entry example_wallet_db
         (ledger_entry_of example_wallet_db 1 ''purchase'' (- 30) 70 ''order:1'' []))"
    by (subst debit_new [where wal = "\<lparr>w_pk = 1, w_customer = 1, w_balance = 100\<rparr>"])
      (simp_all add: example_wallet_db_def ledger_types_def bigint_max_def)
  have "fst (debit 1 101 ''purchase'' ''order:1'' [] example_wallet_db) = Inl InsufficientBalance"
    by (subst debit_insufficient [where wal = "\<lparr>w_pk = 1, w_customer = 1, w_balance = 100\<rparr>"])
      (simp_all add: example_wallet_db_def ledger_types_def)
  with run debit_safe [OF example_wallet_ok, of 1 30 "''purchase''" "''order:1''" "[]"]
  show ?thesis
    by (simp add: wp_def ledger_entry_of_def)
qed

end
