(* ===== verification/Json_Text.thy ===== *)
theory Json_Text
  imports Core_Services "HOL-Library.Char_ord" "HOL-Library.List_Lexorder" "HOL-Library.Multiset"
begin

text \<open>
  Serialised forms: \<open>json.dumps\<close> with the two sets of options the program uses (the defaults,
  and the canonical form \<open>licensing/entitlement_signing.py\<close> signs), and \<open>datetime.isoformat()\<close>
  of a UTC time.  A character stands for its code point; code points above 255 are outside
  the model.
\<close>

section \<open>json.dumps\<close>

definition hex_digit :: "nat \<Rightarrow> char" where
  "hex_digit n = ''0123456789abcdef'' ! (n mod 16)"

text \<open>The escapes of \<open>json.encoder\<close>, with \<open>ensure_ascii\<close> as the flag.\<close>

definition json_escape_char :: "bool \<Rightarrow> char \<Rightarrow> string" where
  "json_escape_char ascii c =
     (let n = (of_char c :: nat)
      in if n = 34 then [CHR 0x5C, CHR 0x22]
         else if n = 92 then [CHR 0x5C, CHR 0x5C]
         else if n = 10 then [CHR 0x5C, CHR ''n'']
         else if n = 13 then [CHR 0x5C, CHR ''r'']
         else if n = 9 then [CHR 0x5C, CHR ''t'']
         else if n = 8 then [CHR 0x5C, CHR ''b'']
         else if n = 12 then [CHR 0x5C, CHR ''f'']
         else if n < 32 \<or> ascii \<and> 126 < n
           then CHR 0x5C # ''u00'' @ [hex_digit (n div 16), hex_digit n]
         else [c])"

definition json_string :: "bool \<Rightarrow> string \<Rightarrow> string" where
  "json_string ascii s = CHR 0x22 # concat (map (json_escape_char ascii) s) @ [CHR 0x22]"

fun join_with :: "string \<Rightarrow> string list \<Rightarrow> string" where
  "join_with sep [] = []"
| "join_with sep [x] = x"
| "join_with sep (x # y # zs) = x @ sep @ join_with sep (y # zs)"

text \<open>A decimal number \<open>m / 10 ^ k\<close> with \<open>k\<close> digits after the point.\<close>

definition decimal_text :: "int \<Rightarrow> nat \<Rightarrow> string" where
  "decimal_text m k =
     (let ds = str_nat (nat \<bar>m\<bar>);
          padded = replicate (Suc k - length ds) (CHR ''0'') @ ds;
          cut = length padded - k
      in (if m < 0 then ''-'' else []) @ take cut padded @ (if k = 0 then [] else CHR ''.'' # drop cut padded))"

fun json_dumps :: "bool \<Rightarrow> bool \<Rightarrow> string \<Rightarrow> string \<Rightarrow> json \<Rightarrow> string" where
  "json_dumps ascii sorted_keys item_sep key_sep JNull = ''null''"
| "json_dumps ascii sorted_keys item_sep key_sep (JBool b) = (if b then ''true'' else ''false'')"
| "json_dumps ascii sorted_keys item_sep key_sep (JInt i) = str_int i"
| "json_dumps ascii sorted_keys item_sep key_sep (JDec m k) = decimal_text m k"
| "json_dumps ascii sorted_keys item_sep key_sep (JStr s) = json_string ascii s"
| "json_dumps ascii sorted_keys item_sep key_sep (JArr xs) =
     ''['' @ join_with item_sep (map (json_dumps ascii sorted_keys item_sep key_sep) xs) @ '']''"
| "json_dumps ascii sorted_keys item_sep key_sep (JObj kvs) =
     (let members = map (\<lambda>(k, v). (k, json_dumps ascii sorted_keys item_sep key_sep v)) kvs;
          ordered = (if sorted_keys then sort_key fst members else members)
      in ''{'' @ join_with item_sep (map (\<lambda>(k, t). json_string ascii k @ key_sep @ t) ordered) @ ''}'')"

text \<open>\<open>json.dumps(x)\<close> and \<open>canonical_json(x)\<close>\<close>

definition json_dumps_default :: "json \<Rightarrow> string" where
  "json_dumps_default j = json_dumps True False '', '' '': '' j"

definition canonical_json :: "(string \<times> json) list \<Rightarrow> string" where
  "canonical_json entitlement = json_dumps False True '','' '':'' (JObj entitlement)"

section \<open>datetime.isoformat\<close>

text \<open>The proleptic Gregorian date of the day \<open>d\<close> days after 1970-01-01.\<close>

definition civil_date :: "int \<Rightarrow> int \<times> int \<times> int" where
  "civil_date d =
     (let z = d + 719468;
          era = z div 146097;
          doe = z mod 146097;
          yoe = (doe - doe div 1460 + doe div 36524 - doe div 146096) div 365;
          doy = doe - (365 * yoe + yoe div 4 - yoe div 100);
          mp = (5 * doy + 2) div 153;
          day = doy - (153 * mp + 2) div 5 + 1;
          month = (if mp < 10 then mp + 3 else mp - 9);
          year = yoe + era * 400 + (if month \<le> 2 then 1 else 0)
      in (year, month, day))"

definition pad_int :: "nat \<Rightarrow> int \<Rightarrow> string" where
  "pad_int n i = (let ds = str_nat (nat i) in replicate (n - length ds) (CHR ''0'') @ ds)"

definition isoformat :: "int \<Rightarrow> string" where
  "isoformat t =
     (let (y, m, d) = civil_date (t div us_day);
          us = t mod us_day
      in pad_int 4 y @ ''-'' @ pad_int 2 m @ ''-'' @ pad_int 2 d @ ''T''
         @ pad_int 2 (us div us_hour) @ '':'' @ pad_int 2 (us div us_minute mod 60) @ '':''
         @ pad_int 2 (us div us_second mod 60)
         @ (if us mod us_second = 0 then [] else ''.'' @ pad_int 6 (us mod us_second)) @ ''+00:00'')"

section \<open>Canonical form\<close>

lemma sort_key_unique_keys:
  assumes "mset xs = mset ys" and "distinct (map fst xs)"
  shows "sort_key fst xs = sort_key fst (ys :: (string \<times> 'a) list)"
proof -
  have "distinct (map fst ys)"
    using assms by (metis mset_eq_imp_distinct_iff mset_map)
  have same: "set xs = set ys"
    using assms(1) by (metis set_mset_mset)
  have keys: "map fst (sort_key fst xs) = map fst (sort_key fst ys)"
  proof (rule sorted_distinct_set_unique)
    show "distinct (map fst (sort_key fst xs))" "distinct (map fst (sort_key fst ys))"
      using assms(2) \<open>distinct (map fst ys)\<close> by (simp_all add: distinct_map)
    show "set (map fst (sort_key fst xs)) = set (map fst (sort_key fst ys))"
      using same by simp
  qed simp_all
  have "inj_on fst (set (sort_key fst xs) \<union> set (sort_key fst ys))"
    using assms(2) same by (simp add: distinct_map)
  with keys show ?thesis
    by (rule map_inj_on)
qed

text \<open>
  The signed bytes do not depend on the order in which the server builds the entitlement:
  two dictionaries with the same members serialise to the same canonical JSON, so the
  verifier can rebuild the bytes from a parsed copy.
\<close>

theorem canonical_json_order_independent:
  assumes "mset xs = mset ys" and "distinct (map fst xs)"
  shows "canonical_json xs = canonical_json ys"
proof -
  let ?f = "\<lambda>(k, v). (k, json_dumps False True '','' '':'' v)"
  have "mset (map ?f xs) = mset (map ?f ys)"
    using assms(1) by (simp add: mset_map)
  moreover have "map fst (map ?f xs) = map fst xs"
    by (simp add: comp_def case_prod_unfold)
  ultimately have "sort_key fst (map ?f xs) = sort_key fst (map ?f ys)"
    using assms(2) by (metis sort_key_unique_keys)
  then show ?thesis
    by (simp add: canonical_json_def Let_def)
qed

theorem canonical_json_order_independent_witness:
  "canonical_json [(''status'', JStr ''active''), (''license_id'', JStr ''AB'')] =
     canonical_json [(''license_id'', JStr ''AB''), (''status'', JStr ''active'')]
   \<and> canonical_json [(''b'', JInt 2), (''a'', JNull)] =
       [CHR 0x7B, CHR 0x22, CHR ''a'', CHR 0x22] @ '':null,''
         @ [CHR 0x22, CHR ''b'', CHR 0x22] @ '':2'' @ [CHR 0x7D]"
proof -
  have "canonical_json [(''status'', JStr ''active''), (''license_id'', JStr ''AB'')] =
     canonical_json [(''license_id'', JStr ''AB''), (''status'', JStr ''active'')]"
    by (rule canonical_json_order_independent) simp_all
  moreover have "canonical_json [(''b'', JInt 2), (''a'', JNull)] =
       [CHR 0x7B, CHR 0x22, CHR ''a'', CHR 0x22] @ '':null,''
         @ [CHR 0x22, CHR ''b'', CHR 0x22] @ '':2'' @ [CHR 0x7D]"
    by code_simp
  ultimately show ?thesis by blast
qed

lemma isoformat_epoch: "isoformat 1709210096000005 = ''2024-02-29T12:34:56.000005+00:00''"
  by code_simp

end
