(* ===== verification/Provisioning.thy ===== *)
theory Provisioning
  imports Wallet Json_Text
begin

text \<open>
  \<open>apps/provisioning\<close> and \<open>apps/licensing/provisioner.py\<close>: the registry of provisioners and
  the seven provisioners the two \<open>AppConfig.ready()\<close> methods register.  A provisioner class is
  a \<open>base_provisioner\<close>: one field per method of the protocol \<open>BaseProvisioner\<close>.  The locale
  \<open>lifecycle\<close> is the contract a subscription relies on when it cascades its state to its
  grants; every registered provisioner is an instance.
\<close>

section \<open>The registry\<close>

record base_provisioner =
  p_provision :: "order \<Rightarrow> deliverable \<Rightarrow> nat option \<Rightarrow> grant prog"
  p_renew :: "grant \<Rightarrow> unit prog"
  p_suspend :: "grant \<Rightarrow> unit prog"
  p_resume :: "grant \<Rightarrow> unit prog"
  p_revoke :: "grant \<Rightarrow> unit prog"

type_synonym registry = "(string \<times> base_provisioner) list"

definition registry_register :: "string \<Rightarrow> base_provisioner \<Rightarrow> registry \<Rightarrow> exn + registry" where
  "registry_register ty p reg =
     (if map_of reg ty \<noteq> None then Inl (ValueError ''Provisioner already registered'')
      else Inr (reg @ [(ty, p)]))"

definition registry_get :: "registry \<Rightarrow> string \<Rightarrow> base_provisioner prog" where
  "registry_get reg ty = or_raise (map_of reg ty) (KeyError ty)"

section \<open>Writes on grants, licences and secrets\<close>

definition grant_create ::
  "nat \<Rightarrow> nat option \<Rightarrow> nat option \<Rightarrow> nat \<Rightarrow> string \<Rightarrow> (string \<times> json) list \<Rightarrow> grant prog" where
  "grant_create cust ord sub deliv ty payload =
     bnd new_pk (\<lambda>pk.
     let g = \<lparr>g_pk = pk, g_customer = cust, g_order = ord, g_sub = sub, g_deliverable = deliv,
       g_type = ty, g_status = Grant_ACTIVE, g_payload = payload, g_valid_until = None\<rparr>
     in bnd (modify (\<lambda>s. s\<lparr>t_grants := t_grants s @ [g]\<rparr>)) (\<lambda>_. ret g))"

text \<open>\<open>Grant.objects.filter(pk=grant.pk).update(status=st)\<close>\<close>

definition grant_set_status :: "nat \<Rightarrow> grant_status \<Rightarrow> unit prog" where
  "grant_set_status g st =
     modify (\<lambda>s. s\<lparr>t_grants := upd_by g_pk g (\<lambda>r. r\<lparr>g_status := st\<rparr>) (t_grants s)\<rparr>)"

text \<open>\<open>License.objects.filter(grant=grant).update(status=st)\<close>\<close>

definition licenses_of_grant_set_status :: "nat \<Rightarrow> license_status \<Rightarrow> unit prog" where
  "licenses_of_grant_set_status g st =
     modify (\<lambda>s. s\<lparr>t_licenses := upd_by li_grant (Some g) (\<lambda>r. r\<lparr>li_status := st\<rparr>) (t_licenses s)\<rparr>)"

definition secret_create :: "nat \<Rightarrow> string \<Rightarrow> unit prog" where
  "secret_create g ciphertext =
     bnd (gets (\<lambda>s. find_by se_grant g (t_secrets s))) (\<lambda>clash.
     bnd (check (clash = None) (IntegrityError ''grant'')) (\<lambda>_.
     modify (\<lambda>s. s\<lparr>t_secrets := t_secrets s @
       [\<lparr>se_grant = g, se_ciphertext = ciphertext, se_revealed = False\<rparr>]\<rparr>)))"

text \<open>\<open>dict.get(key, dflt)\<close> on a JSON object, and Python's truth value of a JSON value.\<close>

definition json_get :: "(string \<times> json) list \<Rightarrow> string \<Rightarrow> json \<Rightarrow> json" where
  "json_get d key dflt = (case map_of d key of None \<Rightarrow> dflt | Some v \<Rightarrow> v)"

fun truthy :: "json \<Rightarrow> bool" where
  "truthy JNull = False"
| "truthy (JBool b) = b"
| "truthy (JInt i) = (i \<noteq> 0)"
| "truthy (JDec m _) = (m \<noteq> 0)"
| "truthy (JStr s) = (s \<noteq> [])"
| "truthy (JArr xs) = (xs \<noteq> [])"
| "truthy (JObj kvs) = (kvs \<noteq> [])"

text \<open>What \<open>IntegerField\<close> stores for a Python value: \<open>int(value)\<close>, truncating decimals.\<close>

fun integer_field :: "json \<Rightarrow> exn + int" where
  "integer_field (JInt i) = Inr i"
| "integer_field (JBool b) = Inr (if b then 1 else 0)"
| "integer_field (JDec m k) = Inr (if m < 0 then - (\<bar>m\<bar> div 10 ^ k) else m div 10 ^ k)"
| "integer_field (JStr s) = (case py_int s of None \<Rightarrow> Inl (ValueError ''int'') | Some i \<Rightarrow> Inr i)"
| "integer_field _ = Inl (TypeError ''int'')"

section \<open>The provisioners\<close>

text \<open>The lifecycle methods all provisioners but the licence one share word for word.\<close>

definition plain_renew :: "grant \<Rightarrow> unit prog" where "plain_renew g = ret ()"
definition plain_suspend :: "grant \<Rightarrow> unit prog" where
  "plain_suspend g = grant_set_status (g_pk g) Grant_SUSPENDED"
definition plain_resume :: "grant \<Rightarrow> unit prog" where
  "plain_resume g = grant_set_status (g_pk g) Grant_ACTIVE"
definition plain_revoke :: "grant \<Rightarrow> unit prog" where
  "plain_revoke g = grant_set_status (g_pk g) Grant_REVOKED"

definition plain_provisioner :: "(order \<Rightarrow> deliverable \<Rightarrow> nat option \<Rightarrow> grant prog) \<Rightarrow> base_provisioner" where
  "plain_provisioner prov = \<lparr>p_provision = prov, p_renew = plain_renew, p_suspend = plain_suspend,
     p_resume = plain_resume, p_revoke = plain_revoke\<rparr>"

definition manual_provision :: "order \<Rightarrow> deliverable \<Rightarrow> nat option \<Rightarrow> grant prog" where
  "manual_provision ord d sub =
     grant_create (o_customer ord) (Some (o_pk ord)) sub (d_pk d) ''manual'' []"

definition download_provision :: "order \<Rightarrow> deliverable \<Rightarrow> nat option \<Rightarrow> grant prog" where
  "download_provision ord d sub =
     grant_create (o_customer ord) (Some (o_pk ord)) sub (d_pk d) ''download''
       [(''download_url'', json_get (d_config d) ''download_url'' (JStr []))]"

definition access_link_provision :: "order \<Rightarrow> deliverable \<Rightarrow> nat option \<Rightarrow> grant prog" where
  "access_link_provision ord d sub =
     grant_create (o_customer ord) (Some (o_pk ord)) sub (d_pk d) ''access_link''
       [(''access_url'', json_get (d_config d) ''access_url'' (JStr []))]"

definition credentials_provision :: "env \<Rightarrow> order \<Rightarrow> deliverable \<Rightarrow> nat option \<Rightarrow> grant prog" where
  "credentials_provision E ord d sub =
     (let username = json_get (d_config d) ''username'' (JStr []);
          password = json_get (d_config d) ''password'' (JStr [])
      in bnd (grant_create (o_customer ord) (Some (o_pk ord)) sub (d_pk d) ''credentials''
                [(''username'', username)]) (\<lambda>g.
         bnd (secret_create (g_pk g) (fernet_encrypt E
                (json_dumps_default (JObj [(''username'', username), (''password'', password)])))) (\<lambda>_.
         ret g)))"

text \<open>\<open>encrypt\<close> calls \<open>plaintext.encode()\<close>, which only strings have.\<close>

definition api_key_provision :: "env \<Rightarrow> order \<Rightarrow> deliverable \<Rightarrow> nat option \<Rightarrow> grant prog" where
  "api_key_provision E ord d sub =
     (let api_key = json_get (d_config d) ''api_key'' (JStr [])
      in bnd (grant_create (o_customer ord) (Some (o_pk ord)) sub (d_pk d) ''api_key'' []) (\<lambda>g.
         bnd (case api_key of JStr k \<Rightarrow> secret_create (g_pk g) (fernet_encrypt E k)
              | _ \<Rightarrow> raise (TypeError ''encode'')) (\<lambda>_.
         ret g)))"

definition course_provision :: "order \<Rightarrow> deliverable \<Rightarrow> nat option \<Rightarrow> grant prog" where
  "course_provision ord d sub =
     bnd (gets (\<lambda>s. find_by pl_pk (d_plan d) (t_plans s))) (\<lambda>pl.
     bnd (or_raise pl (DoesNotExist ''Plan'')) (\<lambda>pl.
     bnd (gets (\<lambda>s. find_by pr_pk (pl_product pl) (t_products s))) (\<lambda>pr.
     bnd (or_raise pr (DoesNotExist ''Product'')) (\<lambda>pr.
     grant_create (o_customer ord) (Some (o_pk ord)) sub (d_pk d) ''course''
       [(''product_id'', JInt (int (pr_pk pr))), (''product_name'', JStr (pr_name pr))]))))"

text \<open>
  \<open>License.objects.create(...)\<close> with \<open>License.save\<close>, which draws the key.
\<close>

definition license_create :: "env \<Rightarrow> nat \<Rightarrow> nat \<Rightarrow> nat option \<Rightarrow> json \<Rightarrow> license prog" where
  "license_create E cust pl sub seats =
     bnd (assign_unique_license_key E) (\<lambda>key.
     bnd (case integer_field seats of Inl e \<Rightarrow> raise e | Inr n \<Rightarrow> ret n) (\<lambda>n.
     bnd (check (\<bar>n\<bar> \<le> 2147483647) (DataError ''integer'')) (\<lambda>_.
     bnd (check (0 \<le> n) (IntegrityError ''seat_limit'')) (\<lambda>_.
     bnd new_pk (\<lambda>pk.
     let l = \<lparr>li_pk = pk, li_key = key, li_customer = cust, li_plan = pl, li_sub = sub,
       li_grant = None, li_status = License_ACTIVE, li_seat_limit = n\<rparr>
     in bnd (modify (\<lambda>s. s\<lparr>t_licenses := t_licenses s @ [l]\<rparr>)) (\<lambda>_. ret l))))))"

definition license_link_grant :: "nat \<Rightarrow> nat \<Rightarrow> unit prog" where
  "license_link_grant l g =
     modify (\<lambda>s. s\<lparr>t_licenses := upd_by li_pk l (\<lambda>r. r\<lparr>li_grant := Some g\<rparr>) (t_licenses s)\<rparr>)"

definition license_key_provision :: "env \<Rightarrow> order \<Rightarrow> deliverable \<Rightarrow> nat option \<Rightarrow> grant prog" where
  "license_key_provision E ord d sub =
     bnd (let configured = json_get (d_config d) ''seat_limit'' JNull
          in if truthy configured then ret configured
             else bnd (gets (\<lambda>s. find_by pl_pk (o_plan ord) (t_plans s))) (\<lambda>pl.
                  bnd (or_raise pl (DoesNotExist ''Plan'')) (\<lambda>pl.
                  ret (JInt (pl_seat_limit pl))))) (\<lambda>seat_limit.
     bnd (license_create E (o_customer ord) (o_plan ord) sub seat_limit) (\<lambda>l.
     bnd (grant_create (o_customer ord) (Some (o_pk ord)) sub (d_pk d) ''license_key''
            [(''license_key'', JStr (li_key l)), (''license_id'', JInt (int (li_pk l)))]) (\<lambda>g.
     bnd (license_link_grant (li_pk l) (g_pk g)) (\<lambda>_.
     ret g))))"

definition license_key_renew :: "grant \<Rightarrow> unit prog" where
  "license_key_renew g =
     bnd (grant_set_status (g_pk g) Grant_ACTIVE) (\<lambda>_.
     licenses_of_grant_set_status (g_pk g) License_ACTIVE)"

definition license_key_suspend :: "grant \<Rightarrow> unit prog" where
  "license_key_suspend g =
     bnd (grant_set_status (g_pk g) Grant_SUSPENDED) (\<lambda>_.
     bnd (licenses_of_grant_set_status (g_pk g) License_SUSPENDED) (\<lambda>_.
     log_action ''license.suspended'' None (Some (''Grant'', g_pk g))
       [(''grant_id'', JInt (int (g_pk g))), (''provisioner'', JStr ''license_key'')]))"

definition license_key_resume :: "grant \<Rightarrow> unit prog" where
  "license_key_resume g =
     bnd (grant_set_status (g_pk g) Grant_ACTIVE) (\<lambda>_.
     licenses_of_grant_set_status (g_pk g) License_ACTIVE)"

definition license_key_revoke :: "grant \<Rightarrow> unit prog" where
  "license_key_revoke g =
     bnd (grant_set_status (g_pk g) Grant_REVOKED) (\<lambda>_.
     bnd (licenses_of_grant_set_status (g_pk g) License_REVOKED) (\<lambda>_.
     log_action ''license.revoked'' None (Some (''Grant'', g_pk g))
       [(''grant_id'', JInt (int (g_pk g))), (''provisioner'', JStr ''license_key'')]))"

definition manual_provisioner :: base_provisioner where
  "manual_provisioner = plain_provisioner manual_provision"
definition download_provisioner :: base_provisioner where
  "download_provisioner = plain_provisioner download_provision"
definition access_link_provisioner :: base_provisioner where
  "access_link_provisioner = plain_provisioner access_link_provision"
definition credentials_provisioner :: "env \<Rightarrow> base_provisioner" where
  "credentials_provisioner E = plain_provisioner (credentials_provision E)"
definition api_key_provisioner :: "env \<Rightarrow> base_provisioner" where
  "api_key_provisioner E = plain_provisioner (api_key_provision E)"
definition course_provisioner :: base_provisioner where
  "course_provisioner = plain_provisioner course_provision"
definition license_key_provisioner :: "env \<Rightarrow> base_provisioner" where
  "license_key_provisioner E = \<lparr>p_provision = license_key_provision E, p_renew = license_key_renew,
     p_suspend = license_key_suspend, p_resume = license_key_resume, p_revoke = license_key_revoke\<rparr>"

text \<open>The registrations of \<open>ProvisioningConfig.ready\<close> and \<open>LicensingConfig.ready\<close>, in app order.\<close>

definition provisioning_ready :: "env \<Rightarrow> registry \<Rightarrow> exn + registry" where
  "provisioning_ready E reg =
     fold (\<lambda>(ty, p) acc. case acc of Inl e \<Rightarrow> Inl e | Inr r \<Rightarrow> registry_register ty p r)
       [(''manual'', manual_provisioner), (''download'', download_provisioner),
        (''access_link'', access_link_provisioner), (''credentials'', credentials_provisioner E),
        (''api_key'', api_key_provisioner E), (''course'', course_provisioner)]
       (Inr reg)"

definition licensing_ready :: "env \<Rightarrow> registry \<Rightarrow> exn + registry" where
  "licensing_ready E reg = registry_register ''license_key'' (license_key_provisioner E) reg"

definition app_registry :: "env \<Rightarrow> registry" where
  "app_registry E =
     (case provisioning_ready E [] of Inl _ \<Rightarrow> []
      | Inr reg \<Rightarrow> (case licensing_ready E reg of Inl _ \<Rightarrow> [] | Inr reg \<Rightarrow> reg))"

lemma app_registry_eq:
  "app_registry E =
     [(''manual'', manual_provisioner), (''download'', download_provisioner),
      (''access_link'', access_link_provisioner), (''credentials'', credentials_provisioner E),
      (''api_key'', api_key_provisioner E), (''course'', course_provisioner),
      (''license_key'', license_key_provisioner E)]"
  by (simp add: app_registry_def provisioning_ready_def licensing_ready_def registry_register_def)

lemmas provisioner_defs = manual_provisioner_def download_provisioner_def access_link_provisioner_def
  credentials_provisioner_def api_key_provisioner_def course_provisioner_def
  license_key_provisioner_def plain_provisioner_def

lemma registered_cases:
  assumes "map_of (app_registry E) ty = Some p"
  obtains prov where "p = plain_provisioner prov" "prov \<in> {manual_provision, download_provision,
      access_link_provision, credentials_provision E, api_key_provision E, course_provision}"
    "ty \<noteq> ''license_key''"
  | "p = license_key_provisioner E" "ty = ''license_key''"
  using assms
  by (auto simp: app_registry_eq provisioner_defs split: if_splits)

section \<open>The lifecycle contract\<close>

text \<open>What a lifecycle method may write: grants, licences and the audit log.\<close>

definition only_lifecycle :: "db \<Rightarrow> db \<Rightarrow> bool" where
  "only_lifecycle s t =
     (t = s\<lparr>t_audit := t_audit t, t_grants := t_grants t, t_licenses := t_licenses t\<rparr>)"

lemma only_lifecycle_refl [simp]: "only_lifecycle s s"
  by (simp add: only_lifecycle_def)

lemma only_lifecycle_trans: "only_lifecycle s t \<Longrightarrow> only_lifecycle t u \<Longrightarrow> only_lifecycle s u"
  unfolding only_lifecycle_def by (erule ssubst) (erule ssubst, simp)

definition set_status :: "grant_status \<Rightarrow> nat set \<Rightarrow> grant list \<Rightarrow> grant list" where
  "set_status st gs rows = upd_where (\<lambda>r. g_pk r \<in> gs) (\<lambda>r. r\<lparr>g_status := st\<rparr>) rows"

lemma set_status_empty [simp]: "set_status st {} rows = rows"
  by (simp add: set_status_def upd_where_def)

lemma set_status_insert: "set_status st gs (set_status st {g} rows) = set_status st (insert g gs) rows"
  by (auto simp: set_status_def upd_where_def)

text \<open>
  The contract of a provisioner's state changes: they return, they write nothing but grants,
  licences and audit entries, and among the grants only the status of the one they are given.
\<close>

locale lifecycle =
  fixes P :: base_provisioner
  assumes suspend: "\<exists>t. p_suspend P g s = (Inr (), t) \<and> only_lifecycle s t
      \<and> t_grants t = set_status Grant_SUSPENDED {g_pk g} (t_grants s)"
    and resume: "\<exists>t. p_resume P g s = (Inr (), t) \<and> only_lifecycle s t
      \<and> t_grants t = set_status Grant_ACTIVE {g_pk g} (t_grants s)"
    and revoke: "\<exists>t. p_revoke P g s = (Inr (), t) \<and> only_lifecycle s t
      \<and> t_grants t = set_status Grant_REVOKED {g_pk g} (t_grants s)"
    and renew: "\<exists>t. p_renew P g s = (Inr (), t) \<and> only_lifecycle s t
      \<and> (t_grants t = t_grants s \<or> t_grants t = set_status Grant_ACTIVE {g_pk g} (t_grants s))"
begin

text \<open>Revocation is final: whatever came before, the grant ends up revoked.\<close>

lemma revoke_last: "\<exists>t. bnd (p_suspend P g) (\<lambda>_. p_revoke P g) s = (Inr (), t)
    \<and> t_grants t = set_status Grant_REVOKED {g_pk g} (t_grants s)"
proof -
  obtain t where t: "p_suspend P g s = (Inr (), t)"
      "t_grants t = set_status Grant_SUSPENDED {g_pk g} (t_grants s)"
    using suspend [of g s] by blast
  obtain u where "p_revoke P g t = (Inr (), u)"
      "t_grants u = set_status Grant_REVOKED {g_pk g} (t_grants t)"
    using revoke [of g t] by blast
  with t show ?thesis
    by (auto simp: bnd_run set_status_def upd_where_def)
qed

lemma suspend_resume: "\<exists>t. bnd (p_suspend P g) (\<lambda>_. p_resume P g) s = (Inr (), t)
    \<and> t_grants t = set_status Grant_ACTIVE {g_pk g} (t_grants s)"
proof -
  obtain t where t: "p_suspend P g s = (Inr (), t)"
      "t_grants t = set_status Grant_SUSPENDED {g_pk g} (t_grants s)"
    using suspend [of g s] by blast
  obtain u where "p_resume P g t = (Inr (), u)"
      "t_grants u = set_status Grant_ACTIVE {g_pk g} (t_grants t)"
    using resume [of g t] by blast
  with t show ?thesis
    by (auto simp: bnd_run set_status_def upd_where_def)
qed

end

lemma upd_by_set_status: "upd_by g_pk g (\<lambda>r. r\<lparr>g_status := st\<rparr>) rows = set_status st {g} rows"
  by (simp add: set_status_def upd_by_def upd_where_def)

lemma grant_set_status_run [run_simps]:
  "grant_set_status g st s = (Inr (), s\<lparr>t_grants := set_status st {g} (t_grants s)\<rparr>)"
  by (simp add: grant_set_status_def run_simps upd_by_set_status)

lemma licenses_of_grant_run [run_simps]:
  "licenses_of_grant_set_status g st s = (Inr (), s\<lparr>t_licenses :=
     upd_by li_grant (Some g) (\<lambda>r. r\<lparr>li_status := st\<rparr>) (t_licenses s)\<rparr>)"
  by (simp add: licenses_of_grant_set_status_def run_simps)

lemma lifecycle_plain: "lifecycle (plain_provisioner prov)"
  by unfold_locales
    (auto simp: plain_provisioner_def plain_renew_def plain_suspend_def plain_resume_def
      plain_revoke_def run_simps only_lifecycle_def)

lemma lifecycle_license: "lifecycle (license_key_provisioner E)"
  by unfold_locales
    (auto simp: license_key_provisioner_def license_key_renew_def license_key_suspend_def
      license_key_resume_def license_key_revoke_def run_simps only_lifecycle_def)

interpretation manual: lifecycle manual_provisioner
  unfolding manual_provisioner_def by (rule lifecycle_plain)
interpretation download: lifecycle download_provisioner
  unfolding download_provisioner_def by (rule lifecycle_plain)
interpretation access_link: lifecycle access_link_provisioner
  unfolding access_link_provisioner_def by (rule lifecycle_plain)
interpretation credentials: lifecycle "credentials_provisioner E"
  unfolding credentials_provisioner_def by (rule lifecycle_plain)
interpretation api_key: lifecycle "api_key_provisioner E"
  unfolding api_key_provisioner_def by (rule lifecycle_plain)
interpretation course: lifecycle course_provisioner
  unfolding course_provisioner_def by (rule lifecycle_plain)
interpretation license_key: lifecycle "license_key_provisioner E"
  by (rule lifecycle_license)

text \<open>Every registered provisioner meets the contract.\<close>

lemma registered_lifecycle: "map_of (app_registry E) ty = Some p \<Longrightarrow> lifecycle p"
  by (erule registered_cases) (auto simp: lifecycle_plain lifecycle_license)

section \<open>The interface to the rest of the program\<close>

text \<open>An invariant that survives each single write of this component survives every provisioner.\<close>

locale provision_inv = core_inv +
  assumes grant_create_pres [pres_intros]: "pres I (grant_create cust ord sub d ty payload)"
    and grant_set_status_pres [pres_intros]: "pres I (grant_set_status g st)"
    and licenses_of_grant_pres [pres_intros]: "pres I (licenses_of_grant_set_status g lst)"
    and secret_create_pres [pres_intros]: "pres I (secret_create g c)"
    and license_create_pres [pres_intros]: "pres I (license_create E cust pl sub seats)"
    and license_link_grant_pres [pres_intros]: "pres I (license_link_grant l g)"
begin

lemma registry_get_pres [pres_intros]: "pres I (registry_get reg ty)"
  by (simp add: registry_get_def pres_or_raise)

lemma provision_pres:
  assumes "map_of (app_registry E) ty = Some p"
  shows "pres I (p_provision p ord d sub)"
  using assms
proof (cases rule: registered_cases)
  case (1 prov)
  moreover have "pres I (manual_provision ord d sub)" "pres I (download_provision ord d sub)"
    "pres I (access_link_provision ord d sub)" "pres I (credentials_provision E ord d sub)"
    "pres I (course_provision ord d sub)"
    unfolding manual_provision_def download_provision_def access_link_provision_def
      credentials_provision_def course_provision_def
    by (auto intro!: pres_intros)
  moreover have "pres I (api_key_provision E ord d sub)"
    unfolding api_key_provision_def by (auto intro!: pres_intros split: json.splits)
  ultimately show ?thesis
    by (auto simp: plain_provisioner_def)
next
  case 2
  have "pres I (license_key_provision E ord d sub)"
    unfolding license_key_provision_def Let_def by (auto intro!: pres_intros)
  with 2 show ?thesis
    by (simp add: license_key_provisioner_def)
qed

lemma lifecycle_pres:
  assumes "map_of (app_registry E) ty = Some p"
  shows "pres I (p_renew p g)" and "pres I (p_suspend p g)" and "pres I (p_resume p g)"
    and "pres I (p_revoke p g)"
  using assms
  by (auto elim!: registered_cases intro!: pres_intros simp: plain_provisioner_def plain_renew_def
      plain_suspend_def plain_resume_def plain_revoke_def license_key_provisioner_def
      license_key_renew_def license_key_suspend_def license_key_resume_def license_key_revoke_def)

text \<open>Looking a provisioner up and calling it.\<close>

lemma dispatch_pres [pres_intros]:
  "(\<And>p. map_of (app_registry E) ty = Some p \<Longrightarrow> pres I (f p)) \<Longrightarrow>
   pres I (bnd (registry_get (app_registry E) ty) f)"
  by (cases "map_of (app_registry E) ty") (auto simp: registry_get_def or_raise_def pres_raise)

end

locale provision_frame = frame_inv +
  assumes view_provision: "view (s\<lparr>t_grants := G\<rparr>) = view s" "view (s\<lparr>t_licenses := Li\<rparr>) = view s"
    "view (s\<lparr>t_secrets := Se\<rparr>) = view s"

sublocale provision_frame \<subseteq> provision_inv I
proof
  fix cust ord sub d ty payload g st lst c E pl seats l
  show "pres I (grant_create cust ord sub d ty payload)" "pres I (grant_set_status g st)"
    "pres I (licenses_of_grant_set_status g lst)" "pres I (secret_create g c)"
    "pres I (license_link_grant l g)"
    unfolding grant_create_def grant_set_status_def licenses_of_grant_set_status_def
      secret_create_def license_link_grant_def Let_def
    by (auto intro!: pres_intros frame_modify simp: view_provision)
  show "pres I (license_create E cust pl sub seats)"
    unfolding license_create_def Let_def
    by (auto intro!: pres_intros frame_modify simp: view_provision split: sum.splits)
qed

text \<open>No provisioner touches money.\<close>

interpretation ledger: provision_frame ledger_ok "\<lambda>s. (t_wallets s, t_ledger s)"
  by unfold_locales auto
interpretation history: provision_frame "\<lambda>s. \<exists>M. t_ledger s = L @ M" "\<lambda>s. (t_wallets s, t_ledger s)"
  by unfold_locales auto
interpretation no_money: provision_frame "\<lambda>s. t_wallets s = W \<and> t_ledger s = L" "\<lambda>s. (t_wallets s, t_ledger s)"
  by unfold_locales auto

end
