(* ===== verification/Orders.thy ===== *)
theory Orders
  imports Provisioning
begin

text \<open>
  What \<open>billing/checkout.py\<close>, \<open>billing/cart_service.py\<close> and \<open>billing/subscription_service.py\<close>
  share: creating and saving an \<open>Order\<close>, invoice numbers, the coupon's usage counter, creating
  a \<open>Subscription\<close>, dispatching the deliverables of a paid order to their provisioners, and the
  seller's earning.
\<close>

section \<open>Reading related rows\<close>

definition plan_get :: "nat \<Rightarrow> plan prog" where
  "plan_get p = bnd (gets (\<lambda>s. find_by pl_pk p (t_plans s))) (\<lambda>v. or_raise v (DoesNotExist ''Plan''))"

definition product_get :: "nat \<Rightarrow> product prog" where
  "product_get p = bnd (gets (\<lambda>s. find_by pr_pk p (t_products s))) (\<lambda>v. or_raise v (DoesNotExist ''Product''))"

text \<open>\<open>str(plan)\<close>\<close>

definition plan_str :: "plan \<Rightarrow> string prog" where
  "plan_str pl = bnd (product_get (pl_product pl)) (\<lambda>pr. ret (pr_name pr @ '' / '' @ pl_name pl))"

definition order_get :: "nat \<Rightarrow> order prog" where
  "order_get ord = bnd (gets (\<lambda>s. find_by o_pk ord (t_orders s))) (\<lambda>v. or_raise v (DoesNotExist ''Order''))"

definition order_by_key :: "string \<Rightarrow> order option prog" where
  "order_by_key key = gets (\<lambda>s. find_by o_idem (Some key) (t_orders s))"

text \<open>\<open>Grant.objects.filter(order=order).order_by("-created_at")\<close>\<close>

definition grants_of_order :: "nat \<Rightarrow> grant list prog" where
  "grants_of_order ord = gets (\<lambda>s. rev (filter (\<lambda>g. g_order g = Some ord) (t_grants s)))"

lemma plan_get_wp [wp_simps]:
  "wp (plan_get p) Q X s =
     (case find_by pl_pk p (t_plans s) of None \<Rightarrow> X (DoesNotExist ''Plan'') s | Some r \<Rightarrow> Q r s)"
  by (simp add: plan_get_def wp_simps)

lemma product_get_wp [wp_simps]:
  "wp (product_get p) Q X s =
     (case find_by pr_pk p (t_products s) of None \<Rightarrow> X (DoesNotExist ''Product'') s | Some r \<Rightarrow> Q r s)"
  by (simp add: product_get_def wp_simps)

lemma plan_str_wp [wp_simps]:
  "wp (plan_str pl) Q X s =
     (case find_by pr_pk (pl_product pl) (t_products s) of None \<Rightarrow> X (DoesNotExist ''Product'') s
      | Some pr \<Rightarrow> Q (pr_name pr @ '' / '' @ pl_name pl) s)"
  by (simp add: plan_str_def wp_simps split: option.split)

lemma order_get_wp [wp_simps]:
  "wp (order_get k) Q X s =
     (case find_by o_pk k (t_orders s) of None \<Rightarrow> X (DoesNotExist ''Order'') s | Some r \<Rightarrow> Q r s)"
  by (simp add: order_get_def wp_simps)

lemma order_by_key_wp [wp_simps]:
  "wp (order_by_key key) Q X s = Q (find_by o_idem (Some key) (t_orders s)) s"
  by (simp add: order_by_key_def wp_simps)

lemma grants_of_order_wp [wp_simps]:
  "wp (grants_of_order k) Q X s = Q (rev (filter (\<lambda>g. g_order g = Some k) (t_grants s))) s"
  by (simp add: grants_of_order_def wp_simps)

section \<open>Orders\<close>

text \<open>The fields a caller of \<open>Order.objects.create\<close> may leave out, at their defaults.\<close>

definition new_order :: "nat \<Rightarrow> nat \<Rightarrow> int \<Rightarrow> order_status \<Rightarrow> string option \<Rightarrow> order" where
  "new_order cust pl amount st key =
     \<lparr>o_pk = 0, o_public_id = [], o_customer = cust, o_plan = pl, o_amount = amount, o_status = st,
      o_ledger_entry = None, o_idem = key, o_subscription = None, o_coupon = None, o_discount = 0,
      o_invoice_number = None, o_custom_fields = [], o_multiplier = 1, o_cart_checkout = None,
      o_channel = Pay_WALLET, o_proof = None, o_created = 0\<rparr>"

definition order_public_id_taken :: "string \<Rightarrow> db \<Rightarrow> bool" where
  "order_public_id_taken i s = (find_by o_public_id i (t_orders s) \<noteq> None)"

text \<open>A unique nullable column: two rows clash when both have the same value in it.\<close>

definition unique_clash :: "(order \<Rightarrow> 'v option) \<Rightarrow> order \<Rightarrow> order \<Rightarrow> bool" where
  "unique_clash f a b = (f a \<noteq> None \<and> f a = f b)"

text \<open>
  \<open>Order.objects.create\<close>, with \<open>Order.save\<close> drawing the public id; the column ranges and the
  unique columns are checked by the database.
\<close>

definition order_create :: "env \<Rightarrow> order \<Rightarrow> order prog" where
  "order_create E ord =
     bnd (assign_unique_public_id E ''ord_'' order_public_id_taken) (\<lambda>public_id.
     bnd (check (\<bar>o_amount ord\<bar> \<le> bigint_max \<and> \<bar>o_discount ord\<bar> \<le> bigint_max
            \<and> \<bar>o_multiplier ord\<bar> \<le> 32767) (DataError ''order'')) (\<lambda>_.
     bnd (check (0 \<le> o_amount ord \<and> 0 \<le> o_discount ord \<and> 0 \<le> o_multiplier ord)
            (IntegrityError ''order'')) (\<lambda>_.
     bnd (gets (\<lambda>s. \<exists>r \<in> set (t_orders s). unique_clash o_idem ord r
            \<or> unique_clash o_ledger_entry ord r \<or> unique_clash o_invoice_number ord r)) (\<lambda>clash.
     bnd (check (\<not> clash) (IntegrityError ''order'')) (\<lambda>_.
     bnd new_pk (\<lambda>pk.
     bnd now (\<lambda>created.
     let row = ord\<lparr>o_pk := pk, o_public_id := public_id, o_created := created\<rparr>
     in bnd (modify (\<lambda>s. s\<lparr>t_orders := t_orders s @ [row]\<rparr>)) (\<lambda>_. ret row))))))))"

text \<open>
  \<open>order.save(update_fields=["ledger_entry", "status", "subscription", "invoice_number"])\<close>;
  \<open>ledger_entry\<close> and \<open>invoice_number\<close> are unique columns.
\<close>

definition order_save :: "order \<Rightarrow> unit prog" where
  "order_save ord =
     bnd (gets (\<lambda>s. \<exists>r \<in> set (t_orders s). o_pk r \<noteq> o_pk ord
            \<and> (unique_clash o_ledger_entry ord r \<or> unique_clash o_invoice_number ord r))) (\<lambda>clash.
     bnd (check (\<not> clash) (IntegrityError ''order'')) (\<lambda>_.
     modify (\<lambda>s. s\<lparr>t_orders := upd_by o_pk (o_pk ord)
       (\<lambda>r. r\<lparr>o_ledger_entry := o_ledger_entry ord, o_status := o_status ord,
          o_subscription := o_subscription ord, o_invoice_number := o_invoice_number ord\<rparr>)
       (t_orders s)\<rparr>)))"

text \<open>\<open>order.save(update_fields=["status"])\<close>\<close>

definition order_save_status :: "nat \<Rightarrow> order_status \<Rightarrow> unit prog" where
  "order_save_status ord st =
     modify (\<lambda>s. s\<lparr>t_orders := upd_by o_pk ord (\<lambda>r. r\<lparr>o_status := st\<rparr>) (t_orders s)\<rparr>)"

text \<open>\<open>Max("invoice_number") or 0\<close> over the rows that have one.\<close>

definition last_invoice :: "order list \<Rightarrow> int" where
  "last_invoice rows = fold max (concat (map (\<lambda>r. case o_invoice_number r of None \<Rightarrow> [] | Some n \<Rightarrow> [n]) rows)) 0"

text \<open>The order with its invoice number; the row is written by the caller's \<open>save\<close>.\<close>

definition assign_invoice_number :: "order \<Rightarrow> order prog" where
  "assign_invoice_number ord =
     (if (case o_invoice_number ord of None \<Rightarrow> False | Some n \<Rightarrow> n \<noteq> 0) then ret ord
      else bnd (gets (\<lambda>s. last_invoice (t_orders s))) (\<lambda>last.
           ret (ord\<lparr>o_invoice_number := Some (last + 1)\<rparr>)))"

section \<open>Coupons\<close>

text \<open>
  The conditional update \<open>filter(Q(usage_limit=0) | Q(used_count__lt=F("usage_limit")), pk=...)\<close>
  \<open>.update(used_count=F("used_count") + 1)\<close>, with the number of rows it changed.
\<close>

definition coupon_has_room :: "coupon \<Rightarrow> bool" where
  "coupon_has_room cp = (cp_usage_limit cp = 0 \<or> cp_used_count cp < cp_usage_limit cp)"

definition coupon_use :: "nat \<Rightarrow> nat prog" where
  "coupon_use cp =
     bnd (gets (\<lambda>s. length (filter (\<lambda>r. cp_pk r = cp \<and> coupon_has_room r) (t_coupons s)))) (\<lambda>n.
     bnd (modify (\<lambda>s. s\<lparr>t_coupons := upd_where (\<lambda>r. cp_pk r = cp \<and> coupon_has_room r)
            (\<lambda>r. r\<lparr>cp_used_count := cp_used_count r + 1\<rparr>) (t_coupons s)\<rparr>)) (\<lambda>_.
     ret n))"

definition increment_coupon_usage :: "order \<Rightarrow> unit prog" where
  "increment_coupon_usage ord =
     (case o_coupon ord of
        None \<Rightarrow> ret ()
      | Some cp \<Rightarrow> (if o_discount ord = 0 then ret () else bnd (coupon_use cp) (\<lambda>_. ret ())))"

section \<open>Fulfilment\<close>

definition create_subscription :: "env \<Rightarrow> nat \<Rightarrow> plan \<Rightarrow> int \<Rightarrow> subscription prog" where
  "create_subscription E cust pl duration_multiplier =
     bnd now (\<lambda>t.
     bnd (case pl_interval pl of
            Interval_MONTHLY \<Rightarrow> ret (add_months E t duration_multiplier)
          | Interval_YEARLY \<Rightarrow> ret (add_years E t duration_multiplier)
          | Interval_NONE \<Rightarrow> raise (ValueError ''interval'')) (\<lambda>period_end.
     bnd new_pk (\<lambda>pk.
     let sub = \<lparr>sub_pk = pk, sub_customer = cust, sub_plan = pl_pk pl, sub_status = Sub_ACTIVE,
       sub_period_end = period_end, sub_auto_renew = True, sub_created = t\<rparr>
     in bnd (modify (\<lambda>s. s\<lparr>t_subs := t_subs s @ [sub]\<rparr>)) (\<lambda>_. ret sub))))"

definition provision_order :: "env \<Rightarrow> order \<Rightarrow> nat option \<Rightarrow> grant list prog" where
  "provision_order E ord sub =
     bnd (gets (\<lambda>s. filter (\<lambda>d. d_plan d = o_plan ord) (t_deliverables s))) (\<lambda>deliverables.
     map_m (\<lambda>d. bnd (registry_get (app_registry E) (d_type d)) (\<lambda>p. p_provision p ord d sub))
       deliverables)"

text \<open>
  \<open>SellerEarning.objects.get_or_create(order=order, defaults=...)\<close>: the insertion runs in a
  savepoint; a violated column constraint is re-raised, since no row is there to get.
\<close>

definition earning_create :: "nat \<Rightarrow> nat \<Rightarrow> int \<Rightarrow> int \<Rightarrow> int \<Rightarrow> unit prog" where
  "earning_create sel ord gross commission net =
     bnd (gets (\<lambda>s. find_by ea_order ord (t_earnings s))) (\<lambda>existing.
     when_m (existing = None) (
       bnd (check (\<bar>gross\<bar> \<le> bigint_max \<and> \<bar>commission\<bar> \<le> bigint_max \<and> \<bar>net\<bar> \<le> bigint_max)
              (DataError ''earning'')) (\<lambda>_.
       bnd (check (0 \<le> gross \<and> 0 \<le> commission \<and> 0 \<le> net) (IntegrityError ''earning'')) (\<lambda>_.
       bnd new_pk (\<lambda>pk.
       modify (\<lambda>s. s\<lparr>t_earnings := t_earnings s @
         [\<lparr>ea_pk = pk, ea_seller = sel, ea_order = ord, ea_gross = gross,
           ea_commission = commission, ea_net = net, ea_status = Earning_PENDING\<rparr>]\<rparr>))))))"

definition record_seller_earning :: "order \<Rightarrow> unit prog" where
  "record_seller_earning ord =
     try_except
       (bnd (plan_get (o_plan ord)) (\<lambda>pl.
        bnd (product_get (pl_product pl)) (\<lambda>pr.
        case pr_seller pr of
          None \<Rightarrow> ret ()
        | Some k \<Rightarrow>
            bnd (gets (\<lambda>s. find_by sel_pk k (t_sellers s))) (\<lambda>v.
            bnd (or_raise v (DoesNotExist ''SellerProfile'')) (\<lambda>sel.
            let gross = o_amount ord;
                commission = gross * sel_commission_rate sel div 100
            in atomic (earning_create (sel_pk sel) (o_pk ord) gross commission (gross - commission)))))))
       (\<lambda>_. True) (\<lambda>_. ret ()) (\<lambda>_. ret ())"

section \<open>The interface to the rest of the program\<close>

context provision_inv
begin

lemma provision_order_pres [pres_intros]: "pres I (provision_order E ord sub)"
  unfolding provision_order_def by (intro pres_intros provision_pres)

end

locale order_inv = provision_inv +
  assumes order_create_pres [pres_intros]: "pres I (order_create E ord)"
    and order_save_pres [pres_intros]: "pres I (order_save ord)"
    and order_save_status_pres [pres_intros]: "pres I (order_save_status k ost)"
    and coupon_use_pres [pres_intros]: "pres I (coupon_use k)"
    and create_subscription_pres [pres_intros]: "pres I (create_subscription E cust pl n)"
    and earning_create_pres [pres_intros]: "pres I (earning_create sel k gross comm (gross - comm))"
begin

lemma plan_get_pres [pres_intros]: "pres I (plan_get k)"
  by (auto simp: plan_get_def intro!: pres_intros)

lemma product_get_pres [pres_intros]: "pres I (product_get k)"
  by (auto simp: product_get_def intro!: pres_intros)

lemma plan_str_pres [pres_intros]: "pres I (plan_str pl)"
  by (auto simp: plan_str_def intro!: pres_intros)

lemma order_get_pres [pres_intros]: "pres I (order_get k)"
  by (auto simp: order_get_def intro!: pres_intros)

lemma order_by_key_pres [pres_intros]: "pres I (order_by_key key)"
  by (auto simp: order_by_key_def intro!: pres_intros)

lemma grants_of_order_pres [pres_intros]: "pres I (grants_of_order k)"
  by (auto simp: grants_of_order_def intro!: pres_intros)

lemma assign_invoice_number_pres [pres_intros]: "pres I (assign_invoice_number ord)"
  unfolding assign_invoice_number_def by (intro pres_intros)

lemma increment_coupon_usage_pres [pres_intros]: "pres I (increment_coupon_usage ord)"
  unfolding increment_coupon_usage_def by (intro pres_intros)

lemma record_seller_earning_pres [pres_intros]: "pres I (record_seller_earning ord)"
  unfolding record_seller_earning_def Let_def by (intro pres_intros)

end

locale order_frame = provision_inv I + frame_inv I view for I view +
  assumes view_order: "view (s\<lparr>t_orders := Or\<rparr>) = view s" "view (s\<lparr>t_coupons := Co\<rparr>) = view s"
    "view (s\<lparr>t_subs := Su\<rparr>) = view s" "view (s\<lparr>t_earnings := Ea\<rparr>) = view s"

sublocale order_frame \<subseteq> order_inv I
proof
  fix E ord k ost cust pl n sel gross comm
  show "pres I (order_create E ord)" "pres I (order_save ord)" "pres I (order_save_status k ost)"
    "pres I (coupon_use k)" "pres I (earning_create sel k gross comm (gross - comm))"
    unfolding order_create_def order_save_def order_save_status_def coupon_use_def
      earning_create_def Let_def
    by (auto intro!: pres_intros frame_modify simp: view_order)
  show "pres I (create_subscription E cust pl n)"
    unfolding create_subscription_def Let_def
    by (auto intro!: pres_intros frame_modify simp: view_order split: interval.splits)
qed

interpretation ledger: order_frame ledger_ok "\<lambda>s. (t_wallets s, t_ledger s)"
  by unfold_locales auto
interpretation history: order_frame "\<lambda>s. \<exists>M. t_ledger s = L @ M" "\<lambda>s. (t_wallets s, t_ledger s)"
  by unfold_locales auto
interpretation no_money: order_frame "\<lambda>s. t_wallets s = W \<and> t_ledger s = L" "\<lambda>s. (t_wallets s, t_ledger s)"
  by unfold_locales auto

section \<open>Invariants of orders, coupons and earnings\<close>

definition unique_column :: "(order \<Rightarrow> 'v option) \<Rightarrow> order list \<Rightarrow> bool" where
  "unique_column f rows =
     (\<forall>a \<in> set rows. \<forall>b \<in> set rows. o_pk a \<noteq> o_pk b \<longrightarrow> \<not> unique_clash f a b)"

text \<open>
  Orders: keys and public ids are unique, so are the idempotency keys, ledger entries and invoice
  numbers that are set; amounts are non-negative.  Coupons: a limited coupon is never used
  more often than its limit.  Earnings: at most one per order, and the gross amount splits into
  commission and net without loss.
\<close>

definition orders_ok :: "db \<Rightarrow> bool" where
  "orders_ok s =
     (distinct (map o_pk (t_orders s)) \<and> (\<forall>r \<in> set (t_orders s). o_pk r < seq s \<and> 0 \<le> o_amount r)
      \<and> distinct (map o_public_id (t_orders s)) \<and> unique_column o_idem (t_orders s)
      \<and> unique_column o_ledger_entry (t_orders s) \<and> unique_column o_invoice_number (t_orders s))"

definition coupons_ok :: "db \<Rightarrow> bool" where
  "coupons_ok s =
     (\<forall>cp \<in> set (t_coupons s). cp_usage_limit cp = 0 \<or> cp_used_count cp \<le> cp_usage_limit cp)"

definition earnings_ok :: "db \<Rightarrow> bool" where
  "earnings_ok s =
     (distinct (map ea_order (t_earnings s))
      \<and> (\<forall>e \<in> set (t_earnings s). ea_gross e = ea_commission e + ea_net e
            \<and> 0 \<le> ea_commission e \<and> 0 \<le> ea_net e))"

definition sales_ok :: "db \<Rightarrow> bool" where
  "sales_ok s = (orders_ok s \<and> coupons_ok s \<and> earnings_ok s)"

subsection \<open>Each write keeps them\<close>

lemma sales_ok_frame:
  "sales_ok s \<Longrightarrow> t_orders t = t_orders s \<Longrightarrow> t_coupons t = t_coupons s \<Longrightarrow>
   t_earnings t = t_earnings s \<Longrightarrow> seq s \<le> seq t \<Longrightarrow> sales_ok t"
  by (auto simp: sales_ok_def orders_ok_def coupons_ok_def earnings_ok_def intro: less_le_trans)

interpretation sales: wallet_frame sales_ok "\<lambda>s. (t_orders s, t_coupons s, t_earnings s)"
  by unfold_locales (auto elim: sales_ok_frame)
interpretation sales: provision_frame sales_ok "\<lambda>s. (t_orders s, t_coupons s, t_earnings s)"
  by unfold_locales auto

lemma unique_column_insert:
  "unique_column f rows \<Longrightarrow> \<forall>r \<in> set rows. \<not> unique_clash f row r \<Longrightarrow> unique_column f (rows @ [row])"
  by (auto simp: unique_column_def unique_clash_def)

lemma orders_ok_insert:
  assumes "orders_ok s" and "find_by o_public_id (o_public_id row) (t_orders s) = None"
    and "\<forall>r \<in> set (t_orders s). \<not> unique_clash o_idem row r \<and> \<not> unique_clash o_ledger_entry row r
      \<and> \<not> unique_clash o_invoice_number row r"
    and "o_pk row = seq s" and "0 \<le> o_amount row"
  shows "orders_ok (s\<lparr>seq := Suc (seq s), t_orders := t_orders s @ [row]\<rparr>)"
  using assms
  by (auto simp: orders_ok_def find_by_None_iff less_Suc_eq intro!: unique_column_insert)

lemma order_create_sales: "pres sales_ok (order_create E ord)"
  unfolding pres_wp
proof (intro allI impI)
  fix s assume ok: "sales_ok s"
  have drawn: "sales_ok (s\<lparr>rng := r\<rparr>)" for r
    using ok by (rule sales.draw)
  have row: "sales_ok (s\<lparr>rng := r, seq := Suc (seq s), t_orders := t_orders s @ [row]\<rparr>)"
    if "find_by o_public_id (o_public_id row) (t_orders s) = None"
      "\<forall>r \<in> set (t_orders s). \<not> unique_clash o_idem row r \<and> \<not> unique_clash o_ledger_entry row r
        \<and> \<not> unique_clash o_invoice_number row r" "o_pk row = seq s" "0 \<le> o_amount row" for r row
    using orders_ok_insert [of "s\<lparr>rng := r\<rparr>" row] drawn [of r] that
    by (simp add: sales_ok_def coupons_ok_def earnings_ok_def)
  show "wp (order_create E ord) (\<lambda>_. sales_ok) (\<lambda>_. sales_ok) s"
    unfolding order_create_def wp_bnd
    by (rule wp_mono [OF assign_public_id_wp])
      (auto simp: wp_simps order_public_id_taken_def Let_def drawn row unique_clash_def)
qed

lemma unique_column_update:
  assumes "unique_column f rows" and "distinct (map o_pk rows)"
    and "\<And>r. o_pk (g r) = o_pk r" and "\<And>r. f (g r) = v"
    and "\<forall>r \<in> set rows. o_pk r \<noteq> k \<longrightarrow> v = None \<or> f r \<noteq> v"
  shows "unique_column f (upd_by o_pk k g rows)"
  using assms by (auto simp: unique_column_def unique_clash_def set_upd_by) (metis option.distinct(1))+

lemma unique_column_kept:
  "(\<And>r. o_pk (g r) = o_pk r) \<Longrightarrow> (\<And>r. f (g r) = f r) \<Longrightarrow> unique_column f rows \<Longrightarrow>
   unique_column f (upd_by o_pk k g rows)"
  by (auto simp: unique_column_def unique_clash_def set_upd_by) (metis option.distinct(1))+

lemma orders_ok_update:
  assumes ok: "orders_ok s"
    and g: "\<And>r. o_pk (g r) = o_pk r" "\<And>r. o_amount (g r) = o_amount r"
      "\<And>r. o_public_id (g r) = o_public_id r" "\<And>r. o_idem (g r) = o_idem r"
    and cols: "unique_column o_ledger_entry (upd_by o_pk k g (t_orders s))"
      "unique_column o_invoice_number (upd_by o_pk k g (t_orders s))"
  shows "orders_ok (s\<lparr>t_orders := upd_by o_pk k g (t_orders s)\<rparr>)"
  using ok cols g
  by (auto simp: orders_ok_def unique_column_kept) (auto simp: set_upd_by)

lemma order_save_sales: "pres sales_ok (order_save ord)"
proof (rule presI)
  fix s assume ok: "sales_ok s"
  let ?g = "\<lambda>r. r\<lparr>o_ledger_entry := o_ledger_entry ord, o_status := o_status ord,
          o_subscription := o_subscription ord, o_invoice_number := o_invoice_number ord\<rparr>"
  let ?clash = "\<exists>r \<in> set (t_orders s). o_pk r \<noteq> o_pk ord
            \<and> (unique_clash o_ledger_entry ord r \<or> unique_clash o_invoice_number ord r)"
  show "sales_ok (snd (order_save ord s))"
  proof (cases ?clash)
    case True
    with ok show ?thesis by (auto simp: order_save_def run_simps)
  next
    case False
    have "orders_ok (s\<lparr>t_orders := upd_by o_pk (o_pk ord) ?g (t_orders s)\<rparr>)"
    proof (rule orders_ok_update)
      show "unique_column o_ledger_entry (upd_by o_pk (o_pk ord) ?g (t_orders s))"
        "unique_column o_invoice_number (upd_by o_pk (o_pk ord) ?g (t_orders s))"
        using ok False
        by (auto intro!: unique_column_update simp: sales_ok_def orders_ok_def unique_clash_def)
    qed (use ok in \<open>auto simp: sales_ok_def\<close>)
    with ok False show ?thesis
      by (auto simp: order_save_def run_simps sales_ok_def coupons_ok_def earnings_ok_def)
  qed
qed

lemma order_save_status_sales: "pres sales_ok (order_save_status k ost)"
proof (rule presI)
  fix s assume ok: "sales_ok s"
  then have "orders_ok (s\<lparr>t_orders := upd_by o_pk k (\<lambda>r. r\<lparr>o_status := ost\<rparr>) (t_orders s)\<rparr>)"
    by (intro orders_ok_update) (auto simp: sales_ok_def orders_ok_def intro!: unique_column_kept)
  with ok show "sales_ok (snd (order_save_status k ost s))"
    by (simp add: order_save_status_def run_simps sales_ok_def coupons_ok_def earnings_ok_def)
qed

lemma coupon_use_sales: "pres sales_ok (coupon_use k)"
  by (rule presI)
    (auto simp: coupon_use_def run_simps sales_ok_def orders_ok_def earnings_ok_def coupons_ok_def
      set_upd_where coupon_has_room_def)

lemma create_subscription_sales: "pres sales_ok (create_subscription E cust pl n)"
  unfolding create_subscription_def Let_def
  by (auto intro!: pres_intros sales.frame_modify split: interval.splits)

lemma earning_create_sales:
  "net = gross - comm \<Longrightarrow> pres sales_ok (earning_create sel k gross comm net)"
  by (rule presI)
    (auto simp: earning_create_def run_simps sales_ok_def orders_ok_def earnings_ok_def
      coupons_ok_def find_by_None_iff less_Suc_eq)

interpretation sales: order_inv sales_ok
  by unfold_locales
    (rule order_create_sales order_save_sales order_save_status_sales coupon_use_sales
      create_subscription_sales earning_create_sales [OF refl])+

section \<open>Invoice numbers\<close>

lemma fold_max_ge: "(a::int) \<le> fold max xs a \<and> (\<forall>x \<in> set xs. x \<le> fold max xs a)"
proof (induction xs arbitrary: a)
  case (Cons x xs)
  have "max x a \<le> fold max xs (max x a)" and "\<forall>y \<in> set xs. y \<le> fold max xs (max x a)"
    using Cons.IH [of "max x a"] by blast+
  then show ?case by simp
qed simp

lemma last_invoice_max:
  "r \<in> set rows \<Longrightarrow> o_invoice_number r = Some n \<Longrightarrow> n \<le> last_invoice rows"
  unfolding last_invoice_def by (rule fold_max_ge [THEN conjunct2, rule_format]) force

lemma last_invoice_nonneg: "0 \<le> last_invoice rows"
  unfolding last_invoice_def using fold_max_ge by blast

text \<open>The next number: one more than the largest, so free, and the saving order keeps it.\<close>

lemma assign_invoice_wp:
  "o_invoice_number ord = None \<Longrightarrow>
   wp (assign_invoice_number ord)
     (\<lambda>ord' t. t = s \<and> ord' = ord\<lparr>o_invoice_number := Some (last_invoice (t_orders s) + 1)\<rparr>
        \<and> (\<forall>r \<in> set (t_orders s). \<not> unique_clash o_invoice_number ord' r))
     (\<lambda>_ _. False) s"
  by (auto simp: assign_invoice_number_def wp_simps unique_clash_def
      dest: last_invoice_max [OF _ sym])

section \<open>Exact effects\<close>

text \<open>A new row: a fresh key and public id, no clash in a unique column, nothing else written.\<close>

definition order_row :: "db \<Rightarrow> order \<Rightarrow> order \<Rightarrow> bool" where
  "order_row s ord row =
     ((\<exists>i. row = ord\<lparr>o_pk := seq s, o_public_id := i, o_created := clock s\<rparr>)
      \<and> o_public_id row \<notin> o_public_id ` set (t_orders s) \<and> 0 \<le> o_amount ord
      \<and> (\<forall>r \<in> set (t_orders s). \<not> unique_clash o_idem ord r))"

lemma order_create_wp:
  "wp (order_create E ord)
     (\<lambda>row t. order_row s ord row \<and> (\<exists>n. t = s\<lparr>rng := n, seq := Suc (seq s), t_orders := t_orders s @ [row]\<rparr>))
     (\<lambda>e t. (e = RuntimeError ''public_id'' \<or> e = DataError ''order'' \<or> e = IntegrityError ''order'')
        \<and> (\<exists>n. t = s\<lparr>rng := n\<rparr>)) s"
  unfolding order_create_def wp_bnd
  by (rule wp_mono [OF assign_public_id_wp])
    (auto simp: wp_simps order_public_id_taken_def Let_def find_by_None_iff order_row_def)

text \<open>Saving the row that was just created changes that row and no other.\<close>

lemma upd_by_last:
  "\<forall>r \<in> set rows. key r \<noteq> key row \<Longrightarrow> upd_by key (key row) f (rows @ [row]) = rows @ [f row]"
  by (induction rows) auto

lemma orders_ok_fresh: "orders_ok s \<Longrightarrow> r \<in> set (t_orders s) \<Longrightarrow> o_pk r \<noteq> seq s"
  by (auto simp: orders_ok_def)

text \<open>References of the form \<open>order:...\<close> in the ledger belong to orders of the database.\<close>

definition order_refs_ok :: "db \<Rightarrow> bool" where
  "order_refs_ok s = (\<forall>e \<in> set (t_ledger s). take 6 (le_ref e) = ''order:'' \<longrightarrow>
     drop 6 (le_ref e) \<in> o_public_id ` set (t_orders s))"

lemma order_refs_fresh:
  "order_refs_ok s \<Longrightarrow> i \<notin> o_public_id ` set (t_orders s) \<Longrightarrow> find_by le_ref (''order:'' @ i) (t_ledger s) = None"
proof (rule ccontr)
  assume refs: "order_refs_ok s" and fresh: "i \<notin> o_public_id ` set (t_orders s)"
    and "find_by le_ref (''order:'' @ i) (t_ledger s) \<noteq> None"
  then obtain e where "e \<in> set (t_ledger s)" "le_ref e = ''order:'' @ i"
    by (auto dest: find_by_SomeD)
  with refs fresh show False
    by (auto simp: order_refs_ok_def)
qed

end
