(* ===== verification/Gateway.thy ===== *)
theory Gateway
  imports Orders
begin

text \<open>
  \<open>billing/sumopod.py\<close>, the payment gateway client (its network calls and cryptography come from
  \<open>env\<close>), and \<open>initiate_topup\<close> of \<open>billing/services.py\<close>.
\<close>

section \<open>Python conversions of JSON values\<close>

text \<open>A JSON value used as a dictionary: everything else has no \<open>.get\<close>.\<close>

fun json_dict :: "json \<Rightarrow> (string \<times> json) list prog" where
  "json_dict (JObj kvs) = ret kvs"
| "json_dict _ = raise (AttributeError ''get'')"

text \<open>
  \<open>str(value)\<close>; lists and dictionaries are only ever compared with identifiers, their text is
  taken to be the JSON one.
\<close>

fun py_str :: "json \<Rightarrow> string" where
  "py_str (JStr s) = s"
| "py_str JNull = ''None''"
| "py_str (JBool b) = (if b then ''True'' else ''False'')"
| "py_str j = json_dumps_default j"

text \<open>
  \<open>int(float(s))\<close> of a string: sign, digits, fraction and exponent; the value is truncated
  towards zero.  \<open>Inl\<close> is what Python raises (\<open>inf\<close> overflows, \<open>nan\<close> and the rest are
  \<open>ValueError\<close>s).  Doubles are exact here: amounts stay below \<open>2 ^ 53\<close>.
\<close>

definition truncate_decimal :: "int \<Rightarrow> int \<Rightarrow> int" where
  "truncate_decimal m e =
     (if 0 \<le> e then m * 10 ^ nat e
      else if m < 0 then - (\<bar>m\<bar> div 10 ^ nat (- e)) else m div 10 ^ nat (- e))"

definition int_of_float_text :: "string \<Rightarrow> exn + int" where
  "int_of_float_text text =
     (let s = lower (strip text);
          neg = (take 1 s = ''-'');
          body = (if neg \<or> take 1 s = ''+'' then drop 1 s else s);
          whole = takeWhile is_digit body;
          rest = dropWhile is_digit body;
          frac = (if take 1 rest = ''.'' then takeWhile is_digit (drop 1 rest) else []);
          rest2 = (if take 1 rest = ''.'' then dropWhile is_digit (drop 1 rest) else rest);
          exponent = (if rest2 = [] then Some 0
                      else if take 1 rest2 = ''e'' \<and> strip (drop 1 rest2) = drop 1 rest2
                        then py_int (drop 1 rest2) else None)
      in if body = ''inf'' \<or> body = ''infinity'' then Inl OverflowError
         else if whole = [] \<and> frac = [] then Inl (ValueError ''float'')
         else (case exponent of
                 None \<Rightarrow> Inl (ValueError ''float'')
               | Some e \<Rightarrow>
                   Inr (truncate_decimal ((if neg then -1 else 1) * int (parse_nat (whole @ frac)))
                          (e - int (length frac)))))"

fun int_of_float :: "json \<Rightarrow> exn + int" where
  "int_of_float (JInt i) = Inr i"
| "int_of_float (JBool b) = Inr (if b then 1 else 0)"
| "int_of_float (JDec m k) = Inr (truncate_decimal m (- int k))"
| "int_of_float (JStr s) = int_of_float_text s"
| "int_of_float _ = Inl (TypeError ''float'')"

section \<open>Webhook verification\<close>

definition webhook_tolerance_seconds :: int where
  "webhook_tolerance_seconds = 5 * 60"

text \<open>\<open>hmac.compare_digest\<close> on strings: equality, but only ASCII strings are accepted.\<close>

definition compare_digest :: "string \<Rightarrow> string \<Rightarrow> bool prog" where
  "compare_digest a b =
     (if list_all (\<lambda>c. (of_char c :: nat) < 128) (a @ b) then ret (a = b) else raise (TypeError ''compare_digest''))"

text \<open>\<open>str.split()\<close>: the maximal runs of characters that are not white space.\<close>

fun split_words_acc :: "string \<Rightarrow> string \<Rightarrow> string list" where
  "split_words_acc [] w = (if w = [] then [] else [rev w])"
| "split_words_acc (c # cs) w =
     (if is_space c then (if w = [] then split_words_acc cs [] else rev w # split_words_acc cs [])
      else split_words_acc cs (c # w))"

definition split_words :: "string \<Rightarrow> string list" where
  "split_words s = split_words_acc s []"

text \<open>The signatures of the header: \<open>part.split(",", 1)[1]\<close> for the parts with a comma.\<close>

definition svix_signatures :: "string \<Rightarrow> string list" where
  "svix_signatures header =
     map (\<lambda>part. drop 1 (dropWhile (\<lambda>c. c \<noteq> CHR '','') part))
       (filter (\<lambda>part. CHR '','' \<in> set part) (split_words header))"

text \<open>\<open>any(compare_digest(expected, sig) for sig in passed)\<close>\<close>

fun any_digest :: "string \<Rightarrow> string list \<Rightarrow> bool prog" where
  "any_digest e [] = ret False"
| "any_digest e (x # xs) = bnd (compare_digest e x) (\<lambda>ok. if ok then ret True else any_digest e xs)"

text \<open>\<open>secret.replace("whsec_", "")\<close>\<close>

fun remove_sub :: "nat \<Rightarrow> string \<Rightarrow> string \<Rightarrow> string" where
  "remove_sub 0 pat s = s"
| "remove_sub (Suc n) pat [] = []"
| "remove_sub (Suc n) pat (c # cs) =
     (if take (length pat) (c # cs) = pat then remove_sub n pat (drop (length pat) (c # cs))
      else c # remove_sub n pat cs)"

definition svix_expected :: "env \<Rightarrow> string \<Rightarrow> string \<Rightarrow> string \<Rightarrow> string \<Rightarrow> string prog" where
  "svix_expected E secret svix_id svix_timestamp raw_body =
     bnd (or_raise (b64decode E (remove_sub (length secret) ''whsec_'' secret)) (ValueError ''base64'')) (\<lambda>secret_bytes.
     ret (b64encode E (hmac_sha256 E secret_bytes (svix_id @ ''.'' @ svix_timestamp @ ''.'' @ raw_body))))"

definition verify_svix_signature ::
  "env \<Rightarrow> string \<Rightarrow> string \<Rightarrow> string \<Rightarrow> string \<Rightarrow> string \<Rightarrow> bool prog" where
  "verify_svix_signature E secret svix_id svix_timestamp svix_signature raw_body =
     (if secret = [] \<or> svix_id = [] \<or> svix_timestamp = [] \<or> svix_signature = [] then ret False
      else (case py_int svix_timestamp of
          None \<Rightarrow> ret False
        | Some ts \<Rightarrow>
            bnd now (\<lambda>t.
            if webhook_tolerance_seconds * us_second < \<bar>t - ts * us_second\<bar> then ret False
            else bnd (svix_expected E secret svix_id svix_timestamp raw_body) (\<lambda>expected.
                 any_digest expected (svix_signatures svix_signature)))))"

definition verify_webhook_token :: "string \<Rightarrow> string \<Rightarrow> bool prog" where
  "verify_webhook_token expected received =
     (if expected = [] \<or> received = [] then ret False else compare_digest expected received)"

section \<open>The client\<close>

record sumopod_client =
  sc_api_key :: string
  sc_base_url :: string
  sc_webhook_secret :: string
  sc_webhook_token :: string

definition sandbox_url :: string where "sandbox_url = ''https://api-pay-sandbox.sumopod.com''"
definition production_url :: string where "production_url = ''https://api-pay.sumopod.com''"

text \<open>\<open>SumopodClient.from_settings\<close>; \<open>Setting.get(...) or os.environ.get(..., "true")\<close>.\<close>

definition client_from_settings :: "env \<Rightarrow> sumopod_client prog" where
  "client_from_settings E =
     bnd (setting_get ''SUMOPOD_SANDBOX'' ''true'') (\<lambda>raw.
     let sandbox_raw = (if raw = [] then sumopod_sandbox E else raw);
         sandbox = (lower (strip sandbox_raw) \<noteq> ''false'')
     in bnd (check (sumopod_api_key E \<noteq> []) (SumopodError ''not configured'')) (\<lambda>_.
        ret \<lparr>sc_api_key = sumopod_api_key E,
             sc_base_url = (if sandbox then sandbox_url else production_url),
             sc_webhook_secret = sumopod_webhook_secret E,
             sc_webhook_token = sumopod_webhook_token E\<rparr>))"

definition sumopod_post :: "env \<Rightarrow> sumopod_client \<Rightarrow> string \<Rightarrow> json \<Rightarrow> json prog" where
  "sumopod_post E c path payload =
     or_raise (http_post E (sc_base_url c @ path) payload) (SumopodError ''request failed'')"

text \<open>The result as (payment_url, payment_id, fee), the fields the callers use.\<close>

definition create_payment ::
  "env \<Rightarrow> sumopod_client \<Rightarrow> string \<Rightarrow> int \<Rightarrow> string \<Rightarrow> string \<Rightarrow> string \<Rightarrow> string \<Rightarrow> int \<Rightarrow> string
     \<Rightarrow> (string \<times> string \<times> int) prog" where
  "create_payment E c order_id amount product_details email success_url cancel_url expires_in_hours
       payment_method_type_code =
     (let payload = JObj (
        [(''order_id'', JStr order_id), (''amount'', JInt amount), (''currency'', JStr ''IDR''),
         (''expires_in_hours'', JInt (min (max expires_in_hours 1) 24)),
         (''payment_method_type_code'', JStr payment_method_type_code)]
        @ (if success_url = [] then [] else [(''success_return_url'', JStr success_url)])
        @ (if cancel_url = [] then [] else [(''cancel_return_url'', JStr cancel_url)])
        @ (if product_details = [] then [] else [(''product_details'', JStr product_details)])
        @ (if email = [] then [] else [(''email'', JStr email)]))
      in bnd (sumopod_post E c ''/api/v1/payments'' payload) (\<lambda>result.
         bnd (json_dict result) (\<lambda>d.
         let payment_url = json_get d ''payment_link_url'' (JStr []);
             payment_id = json_get d ''payment_id'' (JStr []);
             fee = json_get d ''fee'' (JInt 0);
             net = json_get d ''net_amount'' (JInt 0)
         in bnd (check (truthy payment_url \<and> truthy payment_id) (SumopodError ''no link'')) (\<lambda>_.
            bnd (case integer_field (if truthy fee then fee else JInt 0) of Inl e \<Rightarrow> raise e | Inr n \<Rightarrow> ret n) (\<lambda>fee.
            bnd (case integer_field (if truthy net then net else JInt 0) of Inl e \<Rightarrow> raise e | Inr n \<Rightarrow> ret n) (\<lambda>_.
            ret (py_str payment_url, py_str payment_id, fee)))))))"

definition header_get :: "(string \<times> string) list \<Rightarrow> string \<Rightarrow> string" where
  "header_get headers name = (case map_of headers name of None \<Rightarrow> [] | Some v \<Rightarrow> v)"

definition verify_webhook ::
  "env \<Rightarrow> sumopod_client \<Rightarrow> (string \<times> string) list \<Rightarrow> string \<Rightarrow> bool prog" where
  "verify_webhook E c headers raw_body =
     bnd (check (sc_webhook_secret c \<noteq> [] \<or> sc_webhook_token c \<noteq> []) (SumopodError ''webhook not configured'')) (\<lambda>_.
     bnd (if sc_webhook_secret c \<noteq> []
          then bnd (verify_svix_signature E (sc_webhook_secret c) (header_get headers ''svix-id'')
                 (header_get headers ''svix-timestamp'') (header_get headers ''svix-signature'') raw_body)
                 (\<lambda>ok. ret (Some ok))
          else ret None) (\<lambda>svix_ok.
     bnd (if sc_webhook_token c \<noteq> []
          then bnd (verify_webhook_token (sc_webhook_token c) (header_get headers ''x-webhook-token''))
                 (\<lambda>ok. ret (Some ok))
          else ret None) (\<lambda>token_ok.
     ret (\<not> (svix_ok = Some False \<or> token_ok = Some False)))))"

section \<open>Writes on top-ups\<close>

definition topup_public_id_taken :: "string \<Rightarrow> db \<Rightarrow> bool" where
  "topup_public_id_taken i s = (find_by tu_public_id i (t_topups s) \<noteq> None)"

text \<open>\<open>TopUp.objects.create(customer=, amount=, bonus=, gateway=SUMOPOD)\<close>\<close>

definition topup_create :: "env \<Rightarrow> nat \<Rightarrow> int \<Rightarrow> int \<Rightarrow> topup prog" where
  "topup_create E cust amount bonus =
     bnd (assign_unique_public_id E ''top_'' topup_public_id_taken) (\<lambda>public_id.
     bnd (check (\<bar>amount\<bar> \<le> bigint_max \<and> \<bar>bonus\<bar> \<le> bigint_max) (DataError ''topup'')) (\<lambda>_.
     bnd (check (0 \<le> amount \<and> 0 \<le> bonus) (IntegrityError ''topup'')) (\<lambda>_.
     bnd new_pk (\<lambda>pk.
     bnd now (\<lambda>created.
     let row = \<lparr>tu_pk = pk, tu_public_id = public_id, tu_customer = cust, tu_amount = amount,
       tu_bonus = bonus, tu_gateway = Gateway_SUMOPOD, tu_gateway_ref = [], tu_gateway_fee = 0,
       tu_status = TopUp_PENDING, tu_ledger_entry = None, tu_checkout_order = None,
       tu_cart_checkout = None, tu_created = created\<rparr>
     in bnd (modify (\<lambda>s. s\<lparr>t_topups := t_topups s @ [row]\<rparr>)) (\<lambda>_. ret row))))))"

definition topup_save_gateway :: "nat \<Rightarrow> string \<Rightarrow> int \<Rightarrow> unit prog" where
  "topup_save_gateway k ref fee =
     bnd (check (length ref \<le> 200 \<and> \<bar>fee\<bar> \<le> bigint_max) (DataError ''topup'')) (\<lambda>_.
     bnd (check (0 \<le> fee) (IntegrityError ''gateway_fee'')) (\<lambda>_.
     modify (\<lambda>s. s\<lparr>t_topups := upd_by tu_pk k
       (\<lambda>r. r\<lparr>tu_gateway_ref := ref, tu_gateway_fee := fee\<rparr>) (t_topups s)\<rparr>)))"

text \<open>\<open>checkout_order\<close> is one-to-one, \<open>cart_checkout\<close> is not.\<close>

definition topup_link_order :: "nat \<Rightarrow> nat \<Rightarrow> unit prog" where
  "topup_link_order k ord =
     bnd (gets (\<lambda>s. \<exists>r \<in> set (t_topups s). tu_pk r \<noteq> k \<and> tu_checkout_order r = Some ord)) (\<lambda>clash.
     bnd (check (\<not> clash) (IntegrityError ''checkout_order'')) (\<lambda>_.
     modify (\<lambda>s. s\<lparr>t_topups := upd_by tu_pk k (\<lambda>r. r\<lparr>tu_checkout_order := Some ord\<rparr>) (t_topups s)\<rparr>)))"

definition topup_link_cart :: "nat \<Rightarrow> nat \<Rightarrow> unit prog" where
  "topup_link_cart k cc =
     modify (\<lambda>s. s\<lparr>t_topups := upd_by tu_pk k (\<lambda>r. r\<lparr>tu_cart_checkout := Some cc\<rparr>) (t_topups s)\<rparr>)"

section \<open>initiate_topup\<close>

definition initiate_topup ::
  "env \<Rightarrow> customer \<Rightarrow> int \<Rightarrow> string \<Rightarrow> int \<Rightarrow> string \<Rightarrow> (topup \<times> string) prog" where
  "initiate_topup E cust amount payment_method bonus return_url =
     bnd (check (0 < amount) (ValueError ''topup amount'')) (\<lambda>_.
     bnd (check (0 \<le> bonus) (ValueError ''bonus'')) (\<lambda>_.
     bnd (topup_create E (c_pk cust) amount bonus) (\<lambda>topup.
     bnd (client_from_settings E) (\<lambda>client.
     bnd (create_payment E client (tu_public_id topup) amount
            (''Top-up Rp'' @ comma_format (nat amount)) (c_email cust) return_url return_url 24
            (if payment_method = [] then ''QRIS'' else payment_method)) (\<lambda>(payment_url, payment_id, fee).
     bnd (topup_save_gateway (tu_pk topup) payment_id fee) (\<lambda>_.
     ret (topup\<lparr>tu_gateway_ref := payment_id, tu_gateway_fee := fee\<rparr>, payment_url)))))))"

section \<open>The interface to the rest of the program\<close>

lemma pres_json_dict [pres_intros]: "pres I (json_dict j)"
  by (cases j) (auto intro!: pres_intros)

locale topup_inv = core_inv +
  assumes topup_create_pres [pres_intros]: "pres I (topup_create E cust amount bonus)"
    and topup_save_gateway_pres [pres_intros]: "pres I (topup_save_gateway k ref fee)"
    and topup_link_order_pres [pres_intros]: "pres I (topup_link_order k ord)"
    and topup_link_cart_pres [pres_intros]: "pres I (topup_link_cart k cc)"
begin

lemma client_from_settings_pres [pres_intros]: "pres I (client_from_settings E)"
  unfolding client_from_settings_def Let_def by (intro pres_intros)

lemma create_payment_pres [pres_intros]: "pres I (create_payment E c oid amount pd em su cu h pm)"
  unfolding create_payment_def sumopod_post_def Let_def
  by (auto intro!: pres_intros split: sum.splits)

lemma initiate_topup_pres [pres_intros]: "pres I (initiate_topup E cust amount pm bonus ru)"
  unfolding initiate_topup_def by (intro pres_intros)

end

locale topup_frame = frame_inv +
  assumes view_topups: "view (s\<lparr>t_topups := Tu\<rparr>) = view s"

sublocale topup_frame \<subseteq> topup_inv I
proof
  show "pres I (topup_create E cust amount bonus)" "pres I (topup_save_gateway k ref fee)"
    "pres I (topup_link_order k ord)" "pres I (topup_link_cart k cc)" for E cust amount bonus k ref fee ord cc
    unfolding topup_create_def topup_save_gateway_def topup_link_order_def topup_link_cart_def Let_def
    by (auto intro!: pres_intros frame_modify simp: view_topups)
qed

interpretation ledger: topup_frame ledger_ok "\<lambda>s. (t_wallets s, t_ledger s)"
  by unfold_locales auto
interpretation history: topup_frame "\<lambda>s. \<exists>M. t_ledger s = L @ M" "\<lambda>s. (t_wallets s, t_ledger s)"
  by unfold_locales auto
interpretation no_money: topup_frame "\<lambda>s. t_wallets s = W \<and> t_ledger s = L" "\<lambda>s. (t_wallets s, t_ledger s)"
  by unfold_locales auto
interpretation sales: topup_frame sales_ok "\<lambda>s. (t_orders s, t_coupons s, t_earnings s)"
  by unfold_locales auto

section \<open>Properties\<close>

lemma compare_digest_wp [wp_simps]:
  "wp (compare_digest a b) Q X s =
     (if list_all (\<lambda>c. (of_char c :: nat) < 128) (a @ b) then Q (a = b) s else X (TypeError ''compare_digest'') s)"
  by (simp add: compare_digest_def wp_simps)

lemma any_digest_wp:
  "wp (any_digest e xs) (\<lambda>ok t. t = s \<and> ok = (e \<in> set xs)) (\<lambda>_ t. t = s) s"
  by (induction xs) (auto simp: wp_simps)

definition svix_accepts :: "env \<Rightarrow> string \<Rightarrow> string \<Rightarrow> string \<Rightarrow> string \<Rightarrow> string \<Rightarrow> int \<Rightarrow> bool" where
  "svix_accepts E secret svix_id svix_timestamp svix_signature body t =
     (case (py_int svix_timestamp, b64decode E (remove_sub (length secret) ''whsec_'' secret)) of
        (Some ts, Some key) \<Rightarrow>
          \<bar>t - ts * us_second\<bar> \<le> 300 * us_second
          \<and> b64encode E (hmac_sha256 E key (svix_id @ ''.'' @ svix_timestamp @ ''.'' @ body))
              \<in> set (svix_signatures svix_signature)
      | _ \<Rightarrow> False)"

lemma verify_svix_wp:
  "wp (verify_svix_signature E secret i ts sig body)
     (\<lambda>ok t. t = s \<and> (ok \<longrightarrow> svix_accepts E secret i ts sig body (clock s))) (\<lambda>_ t. t = s) s"
proof (cases "py_int ts")
  case None
  then show ?thesis by (simp add: verify_svix_signature_def wp_simps)
next
  case (Some n)
  show ?thesis
  proof (cases "b64decode E (remove_sub (length secret) ''whsec_'' secret)")
    case None
    with Some show ?thesis by (simp add: verify_svix_signature_def svix_expected_def wp_simps)
  next
    case (Some key)
    with \<open>py_int ts = Some n\<close> show ?thesis
      by (auto simp: verify_svix_signature_def svix_expected_def wp_simps svix_accepts_def
          webhook_tolerance_seconds_def intro!: wp_mono [OF any_digest_wp])
  qed
qed

lemma verify_webhook_reads:
  "wp (verify_webhook E c headers body)
     (\<lambda>ok t. t = s \<and> (sc_webhook_secret c \<noteq> [] \<or> sc_webhook_token c \<noteq> []) \<and> (ok \<longrightarrow>
        (sc_webhook_secret c \<noteq> [] \<longrightarrow>
           svix_accepts E (sc_webhook_secret c) (header_get headers ''svix-id'')
             (header_get headers ''svix-timestamp'') (header_get headers ''svix-signature'') body (clock s))
        \<and> (sc_webhook_token c \<noteq> [] \<longrightarrow> header_get headers ''x-webhook-token'' = sc_webhook_token c)))
     (\<lambda>_ t. t = s) s"
proof -
  have token: "wp (verify_webhook_token a b) (\<lambda>ok t. t = s \<and> (ok \<longrightarrow> b = a)) (\<lambda>_ t. t = s) s" for a b
    by (simp add: verify_webhook_token_def wp_simps)
  show ?thesis
    unfolding verify_webhook_def
    by (cases "sc_webhook_secret c = []"; cases "sc_webhook_token c = []")
      (auto simp: wp_simps
        intro!: wp_mono [OF verify_svix_wp] wp_mono [OF token])
qed

text \<open>
  C8.  Only an authentic delivery is accepted.  \<open>verify_webhook\<close> never writes the database;
  it raises unless a secret or a token is configured; and when it answers \<open>True\<close>, each
  configured mechanism has passed: with a secret, the delivery carries an id and an integer
  timestamp at most 300 seconds from the clock, and one of the signatures of the header is
  the HMAC of exactly this id, timestamp and body under that secret; with a token, the
  header's token is the configured one.
\<close>

theorem webhook_authentic:
  "wp (verify_webhook E c headers body)
     (\<lambda>ok t. t = s \<and> (sc_webhook_secret c \<noteq> [] \<or> sc_webhook_token c \<noteq> []) \<and> (ok \<longrightarrow>
        (sc_webhook_secret c \<noteq> [] \<longrightarrow>
           svix_accepts E (sc_webhook_secret c) (header_get headers ''svix-id'')
             (header_get headers ''svix-timestamp'') (header_get headers ''svix-signature'') body (clock s))
        \<and> (sc_webhook_token c \<noteq> [] \<longrightarrow> header_get headers ''x-webhook-token'' = sc_webhook_token c)))
     (\<lambda>_ t. t = s) s"
  by (rule verify_webhook_reads)

definition example_client :: sumopod_client where
  "example_client = \<lparr>sc_api_key = ''key'', sc_base_url = sandbox_url, sc_webhook_secret = ''whsec_s'',
     sc_webhook_token = ''tok''\<rparr>"

definition example_headers :: "(string \<times> string) list" where
  "example_headers = [(''svix-id'', ''m1''), (''svix-timestamp'', ''100''),
     (''svix-signature'', ''v1,other v1,sm1.100.body''), (''x-webhook-token'', ''tok'')]"

lemma example_accepted:
  "fst (verify_webhook demo_env example_client example_headers ''body'' (empty_db\<lparr>clock := 200000000\<rparr>)) = Inr True"
  by code_simp

theorem webhook_authentic_witness:
  "svix_accepts demo_env ''whsec_s'' ''m1'' ''100'' ''v1,other v1,sm1.100.body'' ''body'' 200000000
     \<and> header_get example_headers ''x-webhook-token'' = ''tok''"
  using webhook_authentic [of demo_env example_client example_headers "''body''" "empty_db\<lparr>clock := 200000000\<rparr>"]
    example_accepted
  by (auto simp: wp_def example_client_def header_get_def example_headers_def split: prod.splits sum.splits)

end
