(* ===== verification/Subscriptions.thy ===== *)
theory Subscriptions
  imports Orders
begin

text \<open>
  \<open>billing/subscription_service.py\<close>: renewal, suspension and cancellation of a subscription with
  their cascade to the grants, the three batch jobs, and the retry after a top-up.
\<close>

section \<open>Writes on subscriptions\<close>

definition sub_get :: "nat \<Rightarrow> subscription prog" where
  "sub_get k = bnd (gets (\<lambda>s. find_by sub_pk k (t_subs s))) (\<lambda>v. or_raise v (DoesNotExist ''Subscription''))"

definition sub_save_status :: "nat \<Rightarrow> sub_status \<Rightarrow> unit prog" where
  "sub_save_status k st =
     modify (\<lambda>s. s\<lparr>t_subs := upd_by sub_pk k (\<lambda>r. r\<lparr>sub_status := st\<rparr>) (t_subs s)\<rparr>)"

definition sub_save_renewed :: "nat \<Rightarrow> int \<Rightarrow> unit prog" where
  "sub_save_renewed k period_end =
     modify (\<lambda>s. s\<lparr>t_subs := upd_by sub_pk k
       (\<lambda>r. r\<lparr>sub_period_end := period_end, sub_status := Sub_ACTIVE\<rparr>) (t_subs s)\<rparr>)"

section \<open>Helpers\<close>

text \<open>\<open>int(datetime.timestamp())\<close>: whole seconds, truncated towards zero.\<close>

definition whole_seconds :: "int \<Rightarrow> int" where
  "whole_seconds t = (if 0 \<le> t then t div us_second else - ((- t) div us_second))"

definition renewal_idempotency_key :: "subscription \<Rightarrow> string" where
  "renewal_idempotency_key sub =
     ''renewal:'' @ str_nat (sub_pk sub) @ '':'' @ str_int (whole_seconds (sub_period_end sub))"

definition next_period_end :: "env \<Rightarrow> subscription \<Rightarrow> int prog" where
  "next_period_end E sub =
     bnd (plan_get (sub_plan sub)) (\<lambda>pl.
     case pl_interval pl of
       Interval_MONTHLY \<Rightarrow> ret (add_months E (sub_period_end sub) 1)
     | Interval_YEARLY \<Rightarrow> ret (add_years E (sub_period_end sub) 1)
     | Interval_NONE \<Rightarrow> raise (ValueError ''interval''))"

text \<open>
  The cascade of a lifecycle change to the grants of a subscription that are not revoked, newest
  first (\<open>Grant.Meta.ordering\<close>).
\<close>

definition cascade :: "env \<Rightarrow> (base_provisioner \<Rightarrow> grant \<Rightarrow> unit prog) \<Rightarrow> nat \<Rightarrow> unit prog" where
  "cascade E action sub =
     bnd (gets (\<lambda>s. rev (filter (\<lambda>g. g_sub g = Some sub \<and> g_status g \<noteq> Grant_REVOKED) (t_grants s))))
       (for_each (\<lambda>g. bnd (registry_get (app_registry E) (g_type g)) (\<lambda>p. action p g)))"

section \<open>Core lifecycle operations\<close>

fun is_insufficient_balance :: "exn \<Rightarrow> bool" where
  "is_insufficient_balance InsufficientBalance = True"
| "is_insufficient_balance _ = False"

text \<open>
  The transaction of \<open>renew_subscription\<close>: \<open>Some b\<close> is an early return of \<open>b\<close> from inside the
  block, \<open>None\<close> falls through to the audit entry and the event.
\<close>

definition renew_transaction :: "env \<Rightarrow> subscription \<Rightarrow> string \<Rightarrow> int \<Rightarrow> bool option prog" where
  "renew_transaction E sub key next_end =
     atomic (
       bnd (sub_get (sub_pk sub)) (\<lambda>locked.
       if sub_status locked = Sub_CANCELLED then ret (Some False)
       else
         bnd (order_by_key key) (\<lambda>done.
         if done \<noteq> None then ret (Some True)
         else
           bnd (plan_get (sub_plan locked)) (\<lambda>pl.
           bnd (order_create E ((new_order (sub_customer locked) (pl_pk pl) (pl_price pl) Order_PENDING
                  (Some key))\<lparr>o_subscription := Some (sub_pk locked)\<rparr>)) (\<lambda>ord.
           bnd (customer_wallet (sub_customer locked)) (\<lambda>w.
           bnd (plan_str pl) (\<lambda>plan_name.
           bnd (debit (w_pk w) (pl_price pl) ''purchase'' (''order:'' @ o_public_id ord)
                  (''Renewal: '' @ plan_name)) (\<lambda>entry.
           bnd (order_save (ord\<lparr>o_ledger_entry := Some (le_pk entry), o_status := Order_PAID\<rparr>)) (\<lambda>_.
           bnd (sub_save_renewed (sub_pk locked) next_end) (\<lambda>_.
           bnd (cascade E p_renew (sub_pk locked)) (\<lambda>_.
           ret None)))))))))))"

definition renew_subscription :: "env \<Rightarrow> subscription \<Rightarrow> bool prog" where
  "renew_subscription E sub =
     bnd (next_period_end E sub) (\<lambda>next_end.
     bnd (order_by_key (renewal_idempotency_key sub)) (\<lambda>existing.
     if existing \<noteq> None then ret True
     else
       try_except
         (bnd (renew_transaction E sub (renewal_idempotency_key sub) next_end) (\<lambda>early.
          case early of
            Some b \<Rightarrow> ret b
          | None \<Rightarrow>
              bnd (log_action ''subscription.renewed'' None (Some (''Subscription'', sub_pk sub))
                    [(''sub_id'', JInt (int (sub_pk sub))), (''new_period_end'', JStr (isoformat next_end))]) (\<lambda>_.
              bnd (emit (Subscription_renewed (sub_customer sub) (sub_pk sub) (sub_plan sub) next_end)) (\<lambda>_.
              ret True))))
         is_insufficient_balance (\<lambda>_. ret False) (\<lambda>b. ret b)))"

text \<open>
  The transaction \<open>suspend_subscription\<close> and \<open>cancel_subscription\<close> share; it says whether it
  fell through.
\<close>

definition end_transaction :: "env \<Rightarrow> sub_status \<Rightarrow> nat \<Rightarrow> bool prog" where
  "end_transaction E st k =
     atomic (
       bnd (sub_get k) (\<lambda>locked.
       if sub_status locked = st then ret False
       else
         bnd (sub_save_status (sub_pk locked) st) (\<lambda>_.
         bnd (cascade E p_suspend (sub_pk locked)) (\<lambda>_.
         ret True))))"

definition suspend_subscription :: "env \<Rightarrow> subscription \<Rightarrow> unit prog" where
  "suspend_subscription E sub =
     bnd (end_transaction E Sub_SUSPENDED (sub_pk sub)) (\<lambda>changed.
     when_m changed (
       bnd (log_action ''subscription.suspended'' None (Some (''Subscription'', sub_pk sub))
              [(''sub_id'', JInt (int (sub_pk sub)))]) (\<lambda>_.
       emit (Subscription_suspended (sub_customer sub) (sub_pk sub) (sub_plan sub)))))"

definition cancel_subscription :: "env \<Rightarrow> subscription \<Rightarrow> unit prog" where
  "cancel_subscription E sub =
     bnd (end_transaction E Sub_CANCELLED (sub_pk sub)) (\<lambda>changed.
     when_m changed (
       bnd (log_action ''subscription.cancelled'' None (Some (''Subscription'', sub_pk sub))
              [(''sub_id'', JInt (int (sub_pk sub))), (''reason'', JStr ''auto_renew_expired'')]) (\<lambda>_.
       emit (Subscription_cancelled (sub_customer sub) (sub_pk sub) (sub_plan sub)))))"

section \<open>Batch jobs\<close>

text \<open>\<open>Subscription.objects.filter(...).order_by("current_period_end")\<close>\<close>

definition due_subs :: "(subscription \<Rightarrow> bool) \<Rightarrow> subscription list prog" where
  "due_subs p = gets (\<lambda>s. sort_key sub_period_end (filter p (t_subs s)))"

text \<open>The conditional update \<open>filter(pk=..., status=ACTIVE).update(status=GRACE)\<close>: was a row changed?\<close>

definition grace_if_active :: "nat \<Rightarrow> bool prog" where
  "grace_if_active k =
     bnd (gets (\<lambda>s. \<exists>r \<in> set (t_subs s). sub_pk r = k \<and> sub_status r = Sub_ACTIVE)) (\<lambda>updated.
     bnd (modify (\<lambda>s. s\<lparr>t_subs := upd_where (\<lambda>r. sub_pk r = k \<and> sub_status r = Sub_ACTIVE)
            (\<lambda>r. r\<lparr>sub_status := Sub_GRACE\<rparr>) (t_subs s)\<rparr>)) (\<lambda>_.
     ret updated))"

text \<open>One round of the renewal job: 0 renewed, 1 graced, 2 nothing counted.\<close>

definition renew_or_grace :: "env \<Rightarrow> subscription \<Rightarrow> nat prog" where
  "renew_or_grace E sub =
     bnd (renew_subscription E sub) (\<lambda>ok.
     if ok then ret 0
     else
       bnd (grace_if_active (sub_pk sub)) (\<lambda>updated.
       if updated then
         bnd (int_setting ''SUBSCRIPTION_GRACE_DAYS'' ''3'') (\<lambda>grace_days.
         bnd (log_action ''subscription.graced'' None (Some (''Subscription'', sub_pk sub))
                [(''sub_id'', JInt (int (sub_pk sub))), (''reason'', JStr ''insufficient_balance'')]) (\<lambda>_.
         bnd (emit (Subscription_graced (sub_customer sub) (sub_pk sub) (sub_plan sub) grace_days)) (\<lambda>_.
         ret 1)))
       else ret 2))"

text \<open>\<open>except Exception\<close> around the body of each loop: the error is counted, the loop goes on.\<close>

definition process_due_renewals :: "env \<Rightarrow> (nat \<times> nat \<times> nat) prog" where
  "process_due_renewals E =
     bnd (int_setting ''RENEWAL_ADVANCE_HOURS'' ''3'') (\<lambda>advance_hours.
     bnd now (\<lambda>t.
     bnd (due_subs (\<lambda>r. sub_status r = Sub_ACTIVE \<and> sub_auto_renew r
            \<and> sub_period_end r \<le> t + advance_hours * us_hour))
       (fold_m (\<lambda>(renewed, graced, errors) sub.
          try_except (renew_or_grace E sub) (\<lambda>_. True)
            (\<lambda>_. ret (renewed, graced, errors + 1))
            (\<lambda>k. ret (if k = 0 then (renewed + 1, graced, errors)
                      else if k = 1 then (renewed, graced + 1, errors) else (renewed, graced, errors))))
         (0, 0, 0))))"

definition process_grace_expirations :: "env \<Rightarrow> (nat \<times> nat) prog" where
  "process_grace_expirations E =
     bnd (int_setting ''SUBSCRIPTION_GRACE_DAYS'' ''3'') (\<lambda>grace_days.
     bnd now (\<lambda>t.
     bnd (due_subs (\<lambda>r. sub_status r = Sub_GRACE \<and> sub_period_end r \<le> t - grace_days * us_day))
       (fold_m (\<lambda>(suspended, errors) sub.
          try_except (suspend_subscription E sub) (\<lambda>_. True)
            (\<lambda>_. ret (suspended, errors + 1)) (\<lambda>_. ret (suspended + 1, errors)))
         (0, 0))))"

definition process_expired_non_renewal_subs :: "env \<Rightarrow> (nat \<times> nat) prog" where
  "process_expired_non_renewal_subs E =
     bnd now (\<lambda>t.
     bnd (due_subs (\<lambda>r. sub_status r = Sub_ACTIVE \<and> \<not> sub_auto_renew r \<and> sub_period_end r \<le> t))
       (fold_m (\<lambda>(cancelled, errors) sub.
          try_except (cancel_subscription E sub) (\<lambda>_. True)
            (\<lambda>_. ret (cancelled, errors + 1)) (\<lambda>_. ret (cancelled + 1, errors)))
         (0, 0)))"

text \<open>Newest first: \<open>Subscription.Meta.ordering\<close>.\<close>

definition try_renew_grace_subscriptions :: "env \<Rightarrow> nat \<Rightarrow> unit prog" where
  "try_renew_grace_subscriptions E cust =
     bnd (gets (\<lambda>s. rev (filter (\<lambda>r. sub_customer r = cust
            \<and> (sub_status r = Sub_GRACE \<or> sub_status r = Sub_SUSPENDED) \<and> sub_auto_renew r) (t_subs s))))
       (for_each (\<lambda>sub. try_except (renew_subscription E sub) (\<lambda>_. True) (\<lambda>_. ret ()) (\<lambda>_. ret ())))"

section \<open>The interface to the rest of the program\<close>

locale subs_inv = spending_inv + order_inv +
  assumes sub_save_status_pres [pres_intros]: "pres I (sub_save_status k sst)"
    and sub_save_renewed_pres [pres_intros]: "pres I (sub_save_renewed k pe)"
    and grace_if_active_pres [pres_intros]: "pres I (grace_if_active k)"
begin

lemma sub_get_pres [pres_intros]: "pres I (sub_get k)"
  by (auto simp: sub_get_def intro!: pres_intros)

lemma next_period_end_pres [pres_intros]: "pres I (next_period_end E sub)"
  by (auto simp: next_period_end_def intro!: pres_intros split: interval.splits)

lemma cascade_pres:
  "(\<And>g ty p. map_of (app_registry E) ty = Some p \<Longrightarrow> pres I (action p g)) \<Longrightarrow> pres I (cascade E action k)"
  unfolding cascade_def by (intro pres_intros)

lemma renew_subscription_pres [pres_intros]: "pres I (renew_subscription E sub)"
  unfolding renew_subscription_def renew_transaction_def
  by (intro pres_intros cascade_pres lifecycle_pres)

lemma end_transaction_pres [pres_intros]: "pres I (end_transaction E st k)"
  unfolding end_transaction_def by (intro pres_intros cascade_pres lifecycle_pres)

lemma suspend_subscription_pres [pres_intros]: "pres I (suspend_subscription E sub)"
  unfolding suspend_subscription_def by (intro pres_intros)

lemma cancel_subscription_pres [pres_intros]: "pres I (cancel_subscription E sub)"
  unfolding cancel_subscription_def by (intro pres_intros)

lemma renew_or_grace_pres [pres_intros]: "pres I (renew_or_grace E sub)"
  unfolding renew_or_grace_def by (intro pres_intros)

lemma due_subs_pres [pres_intros]: "pres I (due_subs p)"
  unfolding due_subs_def by (intro pres_intros)

lemma process_due_renewals_pres [pres_intros]: "pres I (process_due_renewals E)"
  unfolding process_due_renewals_def by (intro pres_intros)

lemma process_grace_expirations_pres [pres_intros]: "pres I (process_grace_expirations E)"
  unfolding process_grace_expirations_def by (intro pres_intros)

lemma process_expired_non_renewal_subs_pres [pres_intros]: "pres I (process_expired_non_renewal_subs E)"
  unfolding process_expired_non_renewal_subs_def by (intro pres_intros)

lemma try_renew_grace_subscriptions_pres [pres_intros]: "pres I (try_renew_grace_subscriptions E cust)"
  unfolding try_renew_grace_subscriptions_def by (intro pres_intros)

end

locale subs_frame = spending_inv I + order_inv I + frame_inv I view for I view +
  assumes view_subs: "view (s\<lparr>t_subs := Su\<rparr>) = view s"

sublocale subs_frame \<subseteq> subs_inv I
proof
  fix k sst pe
  show "pres I (sub_save_status k sst)" "pres I (sub_save_renewed k pe)" "pres I (grace_if_active k)"
    unfolding sub_save_status_def sub_save_renewed_def grace_if_active_def
    by (auto intro!: pres_intros frame_modify simp: view_subs)
qed

interpretation ledger: subs_frame ledger_ok "\<lambda>s. (t_wallets s, t_ledger s)"
  by unfold_locales auto
interpretation history: subs_frame "\<lambda>s. \<exists>M. t_ledger s = L @ M" "\<lambda>s. (t_wallets s, t_ledger s)"
  by unfold_locales auto
interpretation sales: subs_frame sales_ok "\<lambda>s. (t_orders s, t_coupons s, t_earnings s)"
  by unfold_locales auto

section \<open>What the cascade does\<close>

definition live_grants :: "nat \<Rightarrow> db \<Rightarrow> nat set" where
  "live_grants k s = g_pk ` {g \<in> set (t_grants s). g_sub g = Some k \<and> g_status g \<noteq> Grant_REVOKED}"

lemma dispatch_loop_wp:
  assumes law: "\<And>ty p g s. map_of (app_registry E) ty = Some p \<Longrightarrow>
      \<exists>t. action p g s = (Inr (), t) \<and> only_lifecycle s t \<and> t_grants t = set_status st {g_pk g} (t_grants s)"
  shows "wp (for_each (\<lambda>g. bnd (registry_get (app_registry E) (g_type g)) (\<lambda>p. action p g)) gs)
     (\<lambda>_ t. only_lifecycle s t \<and> t_grants t = set_status st (g_pk ` set gs) (t_grants s))
     (\<lambda>x t. only_lifecycle s t \<and> x \<noteq> InsufficientBalance) s"
proof (induction gs arbitrary: s)
  case Nil
  show ?case by (simp add: wp_simps)
next
  case (Cons g gs)
  show ?case
  proof (cases "map_of (app_registry E) (g_type g)")
    case None
    then show ?thesis by (simp add: registry_get_def wp_simps)
  next
    case (Some p)
    obtain t where t: "action p g s = (Inr (), t)" "only_lifecycle s t"
        "t_grants t = set_status st {g_pk g} (t_grants s)"
      using law [OF Some] by blast
    have "wp (for_each (\<lambda>g. bnd (registry_get (app_registry E) (g_type g)) (\<lambda>p. action p g)) gs)
       (\<lambda>_ u. only_lifecycle s u \<and> t_grants u = set_status st (g_pk ` set (g # gs)) (t_grants s))
       (\<lambda>x u. only_lifecycle s u \<and> x \<noteq> InsufficientBalance) t"
      by (rule wp_mono [OF Cons.IH])
        (use t in \<open>auto simp: set_status_insert intro: only_lifecycle_trans\<close>)
    with Some t(1) show ?thesis
      by (simp add: wp_simps registry_get_def) (simp add: wp_def)
  qed
qed

lemma cascade_suspend_wp:
  "wp (cascade E p_suspend k)
     (\<lambda>_ t. only_lifecycle s t \<and> t_grants t = set_status Grant_SUSPENDED (live_grants k s) (t_grants s))
     (\<lambda>x t. only_lifecycle s t \<and> x \<noteq> InsufficientBalance) s"
  unfolding cascade_def wp_bnd wp_gets live_grants_def
  by (rule wp_mono [OF dispatch_loop_wp [where st = Grant_SUSPENDED]])
    (auto dest!: registered_lifecycle intro: lifecycle.suspend)

text \<open>Renewal: only licence grants come back; every other grant keeps its status.\<close>

lemma renew_grant_wp:
  "map_of (app_registry E) (g_type g) = Some p \<Longrightarrow>
   \<exists>t. p_renew p g s = (Inr (), t) \<and> only_lifecycle s t
     \<and> t_grants t = (if g_type g = ''license_key'' then set_status Grant_ACTIVE {g_pk g} (t_grants s) else t_grants s)"
  by (erule registered_cases)
    (auto simp: plain_provisioner_def plain_renew_def license_key_provisioner_def license_key_renew_def
      run_simps only_lifecycle_def)

lemma renew_loop_wp:
  "wp (for_each (\<lambda>g. bnd (registry_get (app_registry E) (g_type g)) (\<lambda>p. p_renew p g)) gs)
     (\<lambda>_ t. only_lifecycle s t
        \<and> t_grants t = set_status Grant_ACTIVE (g_pk ` {g \<in> set gs. g_type g = ''license_key''}) (t_grants s))
     (\<lambda>x t. only_lifecycle s t \<and> x \<noteq> InsufficientBalance) s"
proof (induction gs arbitrary: s)
  case Nil
  show ?case by (simp add: wp_simps)
next
  case (Cons g gs)
  show ?case
  proof (cases "map_of (app_registry E) (g_type g)")
    case None
    then show ?thesis by (simp add: registry_get_def wp_simps)
  next
    case (Some p)
    obtain t where t: "p_renew p g s = (Inr (), t)" "only_lifecycle s t"
        "t_grants t = (if g_type g = ''license_key'' then set_status Grant_ACTIVE {g_pk g} (t_grants s) else t_grants s)"
      using renew_grant_wp [OF Some] by blast
    have keys: "{h \<in> set (g # gs). g_type h = ''license_key''} =
        (if g_type g = ''license_key'' then insert g {h \<in> set gs. g_type h = ''license_key''}
         else {h \<in> set gs. g_type h = ''license_key''})"
      by auto
    have "wp (for_each (\<lambda>g. bnd (registry_get (app_registry E) (g_type g)) (\<lambda>p. p_renew p g)) gs)
       (\<lambda>_ u. only_lifecycle s u \<and> t_grants u =
          set_status Grant_ACTIVE (g_pk ` {h \<in> set (g # gs). g_type h = ''license_key''}) (t_grants s))
       (\<lambda>x u. only_lifecycle s u \<and> x \<noteq> InsufficientBalance) t"
      unfolding keys
      by (rule wp_mono [OF Cons.IH])
        (use t in \<open>auto simp: set_status_insert intro: only_lifecycle_trans\<close>)
    with Some t(1) show ?thesis
      by (simp add: wp_simps registry_get_def) (simp add: wp_def)
  qed
qed

section \<open>What a renewal does\<close>

definition renewed :: "db \<Rightarrow> nat \<Rightarrow> string \<Rightarrow> int \<Rightarrow> db \<Rightarrow> bool" where
  "renewed s k key next_end t =
     (\<exists>locked pl wal row e.
        find_by sub_pk k (t_subs s) = Some locked \<and> sub_status locked \<noteq> Sub_CANCELLED
        \<and> find_by o_idem (Some key) (t_orders s) = None
        \<and> find_by pl_pk (sub_plan locked) (t_plans s) = Some pl
        \<and> find_by w_customer (sub_customer locked) (t_wallets s) = Some wal
        \<and> 0 < pl_price pl \<and> pl_price pl \<le> w_balance wal
        \<and> t_ledger t = t_ledger s @ [e] \<and> le_wallet e = w_pk wal \<and> le_amount e = - pl_price pl
        \<and> le_ref e = ''order:'' @ o_public_id row
        \<and> t_wallets t = upd_by w_pk (w_pk wal) (\<lambda>r. r\<lparr>w_balance := w_balance wal - pl_price pl\<rparr>) (t_wallets s)
        \<and> t_orders t = t_orders s @ [row] \<and> o_status row = Order_PAID \<and> o_idem row = Some key
        \<and> o_amount row = pl_price pl \<and> o_ledger_entry row = Some (le_pk e) \<and> o_subscription row = Some k
        \<and> t_subs t = upd_by sub_pk k (\<lambda>r. r\<lparr>sub_period_end := next_end, sub_status := Sub_ACTIVE\<rparr>) (t_subs s)
        \<and> t_grants t = set_status Grant_ACTIVE
             (g_pk ` {g \<in> set (t_grants s). g_sub g = Some k \<and> g_status g \<noteq> Grant_REVOKED
                        \<and> g_type g = ''license_key''}) (t_grants s)
        \<and> t_plans t = t_plans s)"

lemma renew_cascade_wp:
  "wp (cascade E p_renew k)
     (\<lambda>_ t. only_lifecycle s t \<and> t_grants t = set_status Grant_ACTIVE
        (g_pk ` {g \<in> set (t_grants s). g_sub g = Some k \<and> g_status g \<noteq> Grant_REVOKED
                   \<and> g_type g = ''license_key''}) (t_grants s))
     (\<lambda>x t. only_lifecycle s t \<and> x \<noteq> InsufficientBalance) s"
  unfolding cascade_def wp_bnd wp_gets
  by (rule wp_mono [OF renew_loop_wp]) (simp_all add: conj_assoc)

lemma only_lifecycleD:
  assumes "only_lifecycle s t"
  shows "t_ledger t = t_ledger s \<and> t_wallets t = t_wallets s \<and> t_orders t = t_orders s
     \<and> t_subs t = t_subs s \<and> t_plans t = t_plans s"
  by (intro conjI) (subst assms [unfolded only_lifecycle_def], simp)+

lemma sub_get_wp [wp_simps]:
  "wp (sub_get k) Q X s =
     (case find_by sub_pk k (t_subs s) of None \<Rightarrow> X (DoesNotExist ''Subscription'') s | Some r \<Rightarrow> Q r s)"
  by (simp add: sub_get_def wp_simps)

definition short_of_balance :: "db \<Rightarrow> nat \<Rightarrow> bool" where
  "short_of_balance s k =
     (\<exists>sub pl wal. find_by sub_pk k (t_subs s) = Some sub \<and> find_by pl_pk (sub_plan sub) (t_plans s) = Some pl
        \<and> find_by w_customer (sub_customer sub) (t_wallets s) = Some wal \<and> w_balance wal < pl_price pl)"

lemma renew_transaction_wp:
  assumes ledger: "ledger_ok s" and orders: "orders_ok s" and refs: "order_refs_ok s"
  shows "wp (renew_transaction E sub key next_end)
     (\<lambda>early t. case early of
          Some False \<Rightarrow> t = s \<and> (\<exists>r. find_by sub_pk (sub_pk sub) (t_subs s) = Some r \<and> sub_status r = Sub_CANCELLED)
        | Some True \<Rightarrow> t = s \<and> find_by o_idem (Some key) (t_orders s) \<noteq> None
        | None \<Rightarrow> renewed s (sub_pk sub) key next_end t)
     (\<lambda>x t. t = s \<and> (x = InsufficientBalance \<longrightarrow> short_of_balance s (sub_pk sub))) s"
proof -
  define k where "k = sub_pk sub"
  have charge: "wp (bnd (debit (w_pk wal) (pl_price pl) ''purchase'' (''order:'' @ o_public_id row) nt) (\<lambda>entry.
           bnd (order_save (row\<lparr>o_ledger_entry := Some (le_pk entry), o_status := Order_PAID\<rparr>)) (\<lambda>_.
           bnd (sub_save_renewed k next_end) (\<lambda>_.
           bnd (cascade E p_renew k) (\<lambda>_.
           ret None)))))
     (\<lambda>early t. case early of Some b \<Rightarrow> False | None \<Rightarrow> renewed s k key next_end t) (\<lambda>x _. x = InsufficientBalance \<longrightarrow> short_of_balance s k) u"
    if locked: "find_by sub_pk k (t_subs s) = Some locked" "sub_status locked \<noteq> Sub_CANCELLED"
      and new: "find_by o_idem (Some key) (t_orders s) = None"
      and pl: "find_by pl_pk (sub_plan locked) (t_plans s) = Some pl"
      and wal: "find_by w_customer (sub_customer locked) (t_wallets s) = Some wal"
      and row: "order_row s ((new_order cust (pl_pk pl) (pl_price pl) Order_PENDING (Some key))
          \<lparr>o_subscription := Some k\<rparr>) row"
      and u: "u = s\<lparr>rng := n, seq := Suc (seq s), t_orders := t_orders s @ [row]\<rparr>"
    for locked pl wal row n nt cust u
  proof -
    have pk: "o_pk row = seq s" "o_idem row = Some key" "o_amount row = pl_price pl" "o_subscription row = Some k"
        and fresh: "o_public_id row \<notin> o_public_id ` set (t_orders s)"
      using row by (auto simp: order_row_def new_order_def)
    have others: "\<forall>r \<in> set (t_orders s). o_pk r \<noteq> o_pk row"
      using orders_ok_fresh [OF orders] pk by auto
    have ref: "find_by le_ref (''order:'' @ o_public_id row) (t_ledger u) = None"
      using order_refs_fresh [OF refs fresh] u by simp
    have same: "find_by w_pk (w_pk wal) (t_wallets s) = Some wal"
      using ledger find_by_SomeD [OF wal] by (auto simp: ledger_ok_def intro: find_by_distinct)
    show ?thesis
      unfolding wp_bnd
    proof (rule wp_mono [OF debit_fresh_wp [OF ref]], goal_cases)
      case (1 entry v)
      then have entry: "entry = ledger_entry_of u (w_pk wal) ''purchase'' (- pl_price pl)
            (w_balance wal - pl_price pl) (''order:'' @ o_public_id row) nt"
          and v: "v = post_entry u entry" and price: "0 < pl_price pl" "pl_price pl \<le> w_balance wal"
        using same u by auto
      define row' where "row' = row\<lparr>o_ledger_entry := Some (le_pk entry), o_status := Order_PAID\<rparr>"
      have "wp (cascade E p_renew k) (\<lambda>_ t. renewed s k key next_end t) (\<lambda>x _. x = InsufficientBalance \<longrightarrow> short_of_balance s k)
          (v\<lparr>t_orders := t_orders s @ [row'],
             t_subs := upd_by sub_pk k (\<lambda>r. r\<lparr>sub_period_end := next_end, sub_status := Sub_ACTIVE\<rparr>) (t_subs s)\<rparr>)"
        (is "wp _ _ _ ?v")
      proof (rule wp_mono [OF renew_cascade_wp], goal_cases)
        case (1 x t)
        then have "t_ledger t = t_ledger s @ [entry] \<and> t_orders t = t_orders s @ [row']
            \<and> t_wallets t = upd_by w_pk (w_pk wal) (\<lambda>r. r\<lparr>w_balance := w_balance wal - pl_price pl\<rparr>) (t_wallets s)
            \<and> t_subs t = upd_by sub_pk k (\<lambda>r. r\<lparr>sub_period_end := next_end, sub_status := Sub_ACTIVE\<rparr>) (t_subs s)
            \<and> t_plans t = t_plans s"
          using only_lifecycleD [of ?v t] by (simp add: v u entry post_entry_def ledger_entry_of_def)
        with 1 locked new pl wal price pk show ?case
          unfolding renewed_def
          by (intro exI [of _ locked] exI [of _ pl] exI [of _ wal] exI [of _ row'] exI [of _ entry])
            (simp add: row'_def entry ledger_entry_of_def v u post_entry_def)
      qed simp
      then show ?case
        by (simp add: order_save_def sub_save_renewed_def wp_simps v u post_entry_def row'_def pk(1)
            upd_by_last [OF others, unfolded pk(1)])
    next
      case (2 x v)
      then show ?case
        using locked pl wal same u by (auto simp: short_of_balance_def)
    qed
  qed
  have create: "wp (bnd (order_create E ((new_order (sub_customer locked) (pl_pk pl) (pl_price pl) Order_PENDING
                  (Some key))\<lparr>o_subscription := Some k\<rparr>)) (\<lambda>ord.
           bnd (customer_wallet (sub_customer locked)) (\<lambda>w.
           bnd (plan_str pl) (\<lambda>plan_name.
           bnd (debit (w_pk w) (pl_price pl) ''purchase'' (''order:'' @ o_public_id ord)
                  (''Renewal: '' @ plan_name)) (\<lambda>entry.
           bnd (order_save (ord\<lparr>o_ledger_entry := Some (le_pk entry), o_status := Order_PAID\<rparr>)) (\<lambda>_.
           bnd (sub_save_renewed k next_end) (\<lambda>_.
           bnd (cascade E p_renew k) (\<lambda>_.
           ret None))))))))
     (\<lambda>early t. case early of Some b \<Rightarrow> False | None \<Rightarrow> renewed s k key next_end t) (\<lambda>x _. x = InsufficientBalance \<longrightarrow> short_of_balance s k) s"
    if "find_by sub_pk k (t_subs s) = Some locked" "sub_status locked \<noteq> Sub_CANCELLED"
      "find_by o_idem (Some key) (t_orders s) = None"
      "find_by pl_pk (sub_plan locked) (t_plans s) = Some pl" for locked pl
    unfolding wp_bnd [of "order_create _ _"]
  proof (rule wp_mono [OF order_create_wp], goal_cases)
    case (1 row u)
    then obtain n where u: "u = s\<lparr>rng := n, seq := Suc (seq s), t_orders := t_orders s @ [row]\<rparr>" by blast
    have reads: "t_wallets u = t_wallets s" "t_products u = t_products s"
      by (simp_all add: u)
    show ?case
    proof (cases "find_by w_customer (sub_customer locked) (t_wallets s)")
      case (Some wal)
      show ?thesis
        using charge [OF that Some conjunct1 [OF 1] u]
        by (cases "find_by pr_pk (pl_product pl) (t_products s)")
          (simp_all only: wp_simps reads option.case Some exn.distinct simp_thms)
    qed (simp add: wp_simps reads)
  qed auto
  show ?thesis
  proof (cases "find_by sub_pk k (t_subs s)")
    case None
    then show ?thesis by (simp add: renew_transaction_def sub_get_def wp_simps k_def)
  next
    case locked: (Some locked)
    then have key: "sub_pk locked = k" by (auto dest: find_by_SomeD)
    consider (cancelled) "sub_status locked = Sub_CANCELLED"
      | (renewed) "sub_status locked \<noteq> Sub_CANCELLED" "find_by o_idem (Some key) (t_orders s) \<noteq> None"
      | (no_plan) "sub_status locked \<noteq> Sub_CANCELLED" "find_by o_idem (Some key) (t_orders s) = None"
          "find_by pl_pk (sub_plan locked) (t_plans s) = None"
      | (charge) pl where "sub_status locked \<noteq> Sub_CANCELLED" "find_by o_idem (Some key) (t_orders s) = None"
          "find_by pl_pk (sub_plan locked) (t_plans s) = Some pl"
      by fastforce
    then show ?thesis
    proof cases
      case charge
      show ?thesis
        unfolding renew_transaction_def wp_atomic k_def [symmetric] wp_bnd [of "sub_get k"] sub_get_wp
          locked option.case
        by (simp only: charge key if_False k_def [symmetric] simp_thms wp_bnd [of "order_by_key key"] order_by_key_wp
            wp_bnd [of "plan_get p" for p] plan_get_wp option.case)
          (rule wp_mono [OF create [OF locked charge]]; simp split: option.splits)
    qed (use locked key in \<open>auto simp: renew_transaction_def wp_simps k_def\<close>)
  qed
qed

section \<open>Properties\<close>

lemma renewed_seen: "renewed s k key n t \<Longrightarrow> find_by o_idem (Some key) (t_orders t) \<noteq> None"
  by (auto simp: renewed_def find_by_append split: option.splits)

lemma renewed_plans: "renewed s k key n t \<Longrightarrow> t_plans t = t_plans s"
  unfolding renewed_def by blast

lemma renewed_logged: "renewed s k key n t \<Longrightarrow> renewed s k key n (t\<lparr>t_audit := A, event_log := V\<rparr>)"
  unfolding renewed_def by simp

lemma renew_again:
  "next_period_end E sub s = (Inr n, s) \<Longrightarrow> t_plans t = t_plans s \<Longrightarrow>
   find_by o_idem (Some (renewal_idempotency_key sub)) (t_orders t) \<noteq> None \<Longrightarrow>
   renew_subscription E sub t = (Inr True, t)"
  by (auto simp: renew_subscription_def next_period_end_def plan_get_def order_by_key_def run_simps
      split: option.splits interval.splits prod.splits sum.splits)

lemma next_period_end_quiet: "snd (next_period_end E sub s) = s"
  by (auto simp: next_period_end_def plan_get_def run_simps split: option.splits interval.splits)

subsection \<open>Renewal as a whole\<close>

lemma renew_subscription_wp:
  assumes ok: "ledger_ok s" "orders_ok s" "order_refs_ok s"
    and key: "key = renewal_idempotency_key sub"
  shows "wp (renew_subscription E sub)
     (\<lambda>b t. if b then (t = s \<and> find_by o_idem (Some key) (t_orders s) \<noteq> None
                       \<or> (\<exists>n. next_period_end E sub s = (Inr n, s) \<and> renewed s (sub_pk sub) key n t))
                   \<and> renew_subscription E sub t = (Inr True, t)
            else t = s \<and> (short_of_balance s (sub_pk sub)
              \<or> (\<exists>r. find_by sub_pk (sub_pk sub) (t_subs s) = Some r \<and> sub_status r = Sub_CANCELLED)))
     (\<lambda>_ t. t = s) s"
proof (cases "next_period_end E sub s")
  case (Pair r t)
  then have t: "t = s" using next_period_end_quiet [of E sub s] by simp
  show ?thesis
  proof (cases r)
    case (Inl x)
    with Pair t show ?thesis by (simp add: wp_def renew_subscription_def run_simps)
  next
    case (Inr n)
    with Pair t have n: "next_period_end E sub s = (Inr n, s)" by simp
    show ?thesis
    proof (cases "find_by o_idem (Some key) (t_orders s)")
      case (Some ord)
      with renew_again [OF n refl] key have "renew_subscription E sub s = (Inr True, s)" by simp
      with Some show ?thesis by (simp add: wp_def)
    next
      case None
      have body: "wp (renew_transaction E sub key n)
         (\<lambda>early t. (early = Some False \<longrightarrow> t = s
              \<and> (\<exists>r. find_by sub_pk (sub_pk sub) (t_subs s) = Some r \<and> sub_status r = Sub_CANCELLED))
            \<and> early \<noteq> Some True \<and> (early = None \<longrightarrow> renewed s (sub_pk sub) key n t))
         (\<lambda>x t. t = s \<and> (x = InsufficientBalance \<longrightarrow> short_of_balance s (sub_pk sub))) s"
        by (rule wp_mono [OF renew_transaction_wp [OF ok]]) (use None in \<open>auto split: option.splits bool.splits\<close>)
      have again: "renew_subscription E sub t = (Inr True, t)"
        if "renewed s (sub_pk sub) key n t" for t
        using renew_again [OF n renewed_plans [OF that]] renewed_seen [OF that] key by blast
      have reduce: "wp (renew_subscription E sub) Q X s" if "wp (renew_transaction E sub key n)
           (\<lambda>early t. case early of Some b \<Rightarrow> Q b t
              | None \<Rightarrow> \<forall>A V. Q True (t\<lparr>t_audit := A, event_log := V\<rparr>))
           (\<lambda>x t. if x = InsufficientBalance then Q False t else X x t) s" for Q X
        using that n None key
        by (auto simp: renew_subscription_def wp_def run_simps order_by_key_def
            split: prod.splits sum.splits option.splits if_splits exn.splits
            elim!: is_insufficient_balance.elims)
      show ?thesis
        by (rule reduce, rule wp_mono [OF body]) (auto simp: again renewed_logged n split: option.splits)
    qed
  qed
qed

text \<open>
  C9.  A renewal charges once per period.  When \<open>renew_subscription\<close> returns \<open>True\<close>, either the
  period was already paid (an order with its idempotency key exists) and nothing changed, or:
  the subscription was not cancelled, the customer's balance covered the plan's price, exactly
  one ledger entry for minus that price was posted to the customer's wallet, one \<open>PAID\<close> order
  with the period's key was added, and the subscription is \<open>ACTIVE\<close> until the next period end;
  and calling it again for the same period changes nothing.  It returns \<open>False\<close> only for a
  cancelled subscription or a balance below the price, and then, as when it raises, the
  database is untouched.
\<close>

theorem renewal_charges_once:
  assumes ok: "ledger_ok s" "orders_ok s" "order_refs_ok s"
    and key: "key = renewal_idempotency_key sub"
  shows "wp (renew_subscription E sub)
     (\<lambda>b t. if b then (t = s \<and> find_by o_idem (Some key) (t_orders s) \<noteq> None
                       \<or> (\<exists>n. next_period_end E sub s = (Inr n, s) \<and> renewed s (sub_pk sub) key n t))
                   \<and> renew_subscription E sub t = (Inr True, t)
            else t = s \<and> (short_of_balance s (sub_pk sub)
              \<or> (\<exists>r. find_by sub_pk (sub_pk sub) (t_subs s) = Some r \<and> sub_status r = Sub_CANCELLED)))
     (\<lambda>_ t. t = s) s"
  by (rule renew_subscription_wp [OF ok key])

text \<open>
  A database for closed examples: one customer with 100 rupiah, a monthly plan at 40 rupiah, and
  a suspended subscription to it with a suspended download grant and a revoked one.
\<close>

definition example_sub :: subscription where
  "example_sub = \<lparr>sub_pk = 5, sub_customer = 1, sub_plan = 4, sub_status = Sub_SUSPENDED,
     sub_period_end = 1000000, sub_auto_renew = True, sub_created = 0\<rparr>"

definition example_grant :: grant where
  "example_grant = \<lparr>g_pk = 7, g_customer = 1, g_order = None, g_sub = Some 5, g_deliverable = 6,
     g_type = ''download'', g_status = Grant_SUSPENDED, g_payload = [], g_valid_until = None\<rparr>"

definition example_sub_db :: db where
  "example_sub_db = example_wallet_db\<lparr>seq := 9,
     t_products := [\<lparr>pr_pk = 3, pr_seller = None, pr_name = ''App'', pr_slug = ''app'',
       pr_type = Product_RECURRING, pr_visibility = Visibility_PUBLIC\<rparr>],
     t_plans := [\<lparr>pl_pk = 4, pl_product = 3, pl_name = ''Pro'', pl_price = 40,
       pl_interval = Interval_MONTHLY, pl_seat_limit = 2, pl_active = True, pl_pwyw = False,
       pl_min_price = 0, pl_stock = None, pl_durations = [], pl_sort = 0, pl_direct_pay = True, pl_entitlements = []\<rparr>],
     t_subs := [example_sub],
     t_grants := [example_grant, example_grant\<lparr>g_pk := 8, g_status := Grant_REVOKED\<rparr>]\<rparr>"

lemma example_sub_ok: "ledger_ok example_sub_db" "orders_ok example_sub_db" "order_refs_ok example_sub_db"
proof -
  show "ledger_ok example_sub_db"
    using example_wallet_ok by (rule ledger_ok_frame) (simp_all add: example_sub_db_def example_wallet_db_def)
  show "orders_ok example_sub_db" "order_refs_ok example_sub_db"
    by (simp_all add: orders_ok_def order_refs_ok_def unique_column_def example_sub_db_def
        example_wallet_db_def empty_db_def)
qed

theorem renewal_charges_once_witness:
  "wp (renew_subscription demo_env example_sub)
     (\<lambda>b t. b \<longrightarrow> length (t_ledger t) = 2 \<and> renew_subscription demo_env example_sub t = (Inr True, t))
     (\<lambda>_ t. t = example_sub_db) example_sub_db"
  by (rule wp_mono [OF renewal_charges_once [OF example_sub_ok refl]])
    (auto simp: renewed_def example_sub_db_def example_wallet_db_def empty_db_def)

text \<open>
  C10.  Suspending cuts every access the subscription gave.  From a database with distinct grant
  keys, when \<open>suspend_subscription\<close> or \<open>cancel_subscription\<close> returns for a subscription that
  was not yet in the target state, the subscription is in it, each of its grants is
  \<open>SUSPENDED\<close> or was already \<open>REVOKED\<close> and still is, every other grant, and all wallets,
  entries and orders, are as before.  When a provisioner is missing the call raises and nothing
  has changed.
\<close>

definition cut_off :: "nat \<Rightarrow> sub_status \<Rightarrow> db \<Rightarrow> db \<Rightarrow> bool" where
  "cut_off k st s t =
     (map_option sub_status (find_by sub_pk k (t_subs t)) = Some st
      \<and> t_grants t = map (\<lambda>g. if g_sub g = Some k \<and> g_status g \<noteq> Grant_REVOKED
                           then g\<lparr>g_status := Grant_SUSPENDED\<rparr> else g) (t_grants s)
      \<and> t_ledger t = t_ledger s \<and> t_wallets t = t_wallets s \<and> t_orders t = t_orders s)"

lemma set_status_live:
  assumes "distinct (map g_pk (t_grants s))"
  shows "set_status st (live_grants k s) (t_grants s) =
     map (\<lambda>g. if g_sub g = Some k \<and> g_status g \<noteq> Grant_REVOKED then g\<lparr>g_status := st\<rparr> else g) (t_grants s)"
proof -
  have "g_pk g \<in> live_grants k s \<longleftrightarrow> g_sub g = Some k \<and> g_status g \<noteq> Grant_REVOKED"
    if "g \<in> set (t_grants s)" for g
    using that assms by (auto simp: live_grants_def dest: eq_key_imp_eq_value)
      (metis distinct_map inj_onD)+
  then show ?thesis
    by (auto simp: set_status_def upd_where_def)
qed

lemma end_transaction_wp:
  assumes "distinct (map g_pk (t_grants s))"
  shows "wp (end_transaction E st k)
     (\<lambda>changed t. if changed then cut_off k st s t
        else t = s \<and> map_option sub_status (find_by sub_pk k (t_subs s)) = Some st)
     (\<lambda>_ t. t = s) s"
proof (cases "find_by sub_pk k (t_subs s)")
  case None
  then show ?thesis by (simp add: end_transaction_def wp_simps)
next
  case (Some r)
  then have pk: "sub_pk r = k" by (auto dest: find_by_SomeD)
  let ?u = "s\<lparr>t_subs := upd_by sub_pk k (\<lambda>r. r\<lparr>sub_status := st\<rparr>) (t_subs s)\<rparr>"
  have live: "live_grants k ?u = live_grants k s"
    by (simp add: live_grants_def)
  have "wp (cascade E p_suspend k) (\<lambda>_ t. cut_off k st s t) (\<lambda>_ _. True) ?u"
    by (rule wp_mono [OF cascade_suspend_wp])
      (use Some in \<open>auto simp: cut_off_def live set_status_live [OF assms] find_by_upd_by dest!: only_lifecycleD\<close>)
  then show ?thesis
    using Some pk
    by (auto simp: end_transaction_def wp_simps sub_save_status_def elim!: wp_mono)
qed

lemma cut_off_logged: "cut_off k st s t \<Longrightarrow> cut_off k st s (t\<lparr>t_audit := A, event_log := V\<rparr>)"
  by (simp add: cut_off_def)



text \<open>
  A renewal gives access back through licence grants only.  The docstring of
  \<open>renew_subscription\<close> promises that a renewal re-activates suspended grants; the code does
  so for \<open>license_key\<close> grants, but \<open>renew\<close> of every other provisioner is \<open>pass\<close>, so a
  grant of any other type leaves the renewal with the status it had: a download suspended with
  its subscription stays suspended after the customer pays.
\<close>

theorem renewal_leaves_plain_grants:
  assumes "ledger_ok s" "orders_ok s" "order_refs_ok s" and keys: "distinct (map g_pk (t_grants s))"
    and g: "g \<in> set (t_grants s)" "g_type g \<noteq> ''license_key''"
  shows "wp (renew_subscription E sub) (\<lambda>_ t. g \<in> set (t_grants t)) (\<lambda>_ t. g \<in> set (t_grants t)) s"
proof -
  have kept: "g \<in> set (t_grants t)" if "renewed s (sub_pk sub) key n t" for key n t
  proof -
    have "g_pk g \<notin> g_pk ` {h \<in> set (t_grants s). g_sub h = Some (sub_pk sub) \<and> g_status h \<noteq> Grant_REVOKED
        \<and> g_type h = ''license_key''}" (is "_ \<notin> ?K")
      using keys g by (auto dest!: eq_key_imp_eq_value simp: distinct_map inj_on_def)
    moreover have "t_grants t = set_status Grant_ACTIVE ?K (t_grants s)"
      using that unfolding renewed_def by blast
    ultimately show ?thesis
      using g(1) by (force simp: set_status_def set_upd_where)
  qed
  show ?thesis
    by (rule wp_mono [OF renew_subscription_wp [OF assms(1-3) refl]])
      (use g in \<open>auto simp: kept split: if_splits\<close>)
qed

theorem renewal_leaves_plain_grants_witness:
  "wp (renew_subscription demo_env example_sub) (\<lambda>_ t. example_grant \<in> set (t_grants t))
     (\<lambda>_ t. example_grant \<in> set (t_grants t)) example_sub_db"
proof -
  have "distinct (map g_pk (t_grants example_sub_db))" "example_grant \<in> set (t_grants example_sub_db)"
      "g_type example_grant \<noteq> ''license_key''"
    by (simp_all add: example_sub_db_def example_grant_def)
  then show ?thesis
    by (rule renewal_leaves_plain_grants [OF example_sub_ok])
qed

section \<open>Cancellation is final\<close>

definition sub_cancelled :: "nat \<Rightarrow> db \<Rightarrow> bool" where
  "sub_cancelled k s = (map_option sub_status (find_by sub_pk k (t_subs s)) = Some Sub_CANCELLED)"

lemma sub_cancelled_iff:
  "sub_cancelled k s \<longleftrightarrow> (\<exists>r. find_by sub_pk k (t_subs s) = Some r \<and> sub_status r = Sub_CANCELLED)"
  by (auto simp: sub_cancelled_def)

interpretation cancelled: wallet_frame "sub_cancelled k" t_subs
  by unfold_locales (auto simp: sub_cancelled_def)
interpretation cancelled: provision_frame "sub_cancelled k" t_subs
  by unfold_locales auto

lemma cancelled_append: "sub_cancelled k s \<Longrightarrow> sub_cancelled k (s\<lparr>seq := n, t_subs := t_subs s @ xs\<rparr>)"
  by (auto simp: sub_cancelled_def find_by_append split: option.splits)

interpretation cancelled: order_inv "sub_cancelled k"
proof
  show "pres (sub_cancelled k) (order_create E ord)" "pres (sub_cancelled k) (order_save ord)"
    "pres (sub_cancelled k) (order_save_status j ost)" "pres (sub_cancelled k) (coupon_use j)"
    "pres (sub_cancelled k) (earning_create sel j gross comm (gross - comm))" for E ord j ost sel gross comm
    unfolding order_create_def order_save_def order_save_status_def coupon_use_def earning_create_def Let_def
    by (auto intro!: pres_intros cancelled.frame_modify)
  show "pres (sub_cancelled k) (create_subscription E cust pl n)" for E cust pl n
    by (rule presI) (auto simp: create_subscription_def run_simps Let_def cancelled_append split: interval.splits)
qed

lemma sub_get_bind_pres: "(\<And>r. sub_pk r = j \<Longrightarrow> pres I (f r)) \<Longrightarrow> pres I (bnd (sub_get j) f)"
  by (auto simp: pres_wp wp_simps dest: find_by_SomeD split: option.split)

lemma sub_writes_other:
  "j \<noteq> k \<Longrightarrow> pres (sub_cancelled k) (sub_save_renewed j pe)"
  "j \<noteq> k \<or> st = Sub_CANCELLED \<Longrightarrow> pres (sub_cancelled k) (sub_save_status j st)"
  by (auto simp: pres_def sub_save_renewed_def sub_save_status_def run_simps sub_cancelled_def find_by_upd_by)

lemma grace_if_active_cancelled [pres_intros]: "pres (sub_cancelled k) (grace_if_active j)"
  by (rule presI) (auto simp: grace_if_active_def run_simps sub_cancelled_iff find_by_upd_where
      simp del: map_option_eq_Some)

lemma quiet_reads [pres_intros]: "pres I (next_period_end E sub)" "pres I (due_subs p)" "pres I (plan_get j)"
    "pres I (order_by_key key)" "pres I (customer_wallet c)" "pres I (plan_str pl)"
    "pres I (int_setting a b)" "pres I now"
  by (auto simp: next_period_end_def due_subs_def plan_get_def order_by_key_def customer_wallet_def
      plan_str_def product_get_def int_setting_def setting_get_def now_def intro!: pres_intros split: interval.splits)

lemma cascade_cancelled [pres_intros]:
  "pres (sub_cancelled k) (cascade E p_renew j)" "pres (sub_cancelled k) (cascade E p_suspend j)"
  unfolding cascade_def by (intro pres_intros, erule cancelled.lifecycle_pres)+

lemma renew_subscription_cancelled [pres_intros]: "pres (sub_cancelled k) (renew_subscription E sub)"
proof (cases "sub_pk sub = k")
  case False
  then show ?thesis
    unfolding renew_subscription_def renew_transaction_def
    by (intro pres_intros sub_get_bind_pres sub_writes_other) auto
next
  case True
  have "wp (renew_transaction E sub key n) (\<lambda>early t. t = s \<and> early = Some False) (\<lambda>_ _. False) s"
    if "sub_cancelled k s" for s key n
    using that True by (auto simp: renew_transaction_def wp_atomic wp_bnd [of "sub_get _"] sub_get_wp
        wp_ret sub_cancelled_iff)
  then have tr: "renew_transaction E sub key n s = (Inr (Some False), s)" if "sub_cancelled k s" for s key n
    using that by (force simp: wp_def split: prod.splits sum.splits)
  have "snd (renew_subscription E sub s) = s" if "sub_cancelled k s" for s
    using next_period_end_quiet [of E sub s]
    by (auto simp: renew_subscription_def tr [OF that] order_by_key_def run_simps
        split: prod.splits sum.splits)
  then show ?thesis by (simp add: pres_def)
qed

lemma end_transaction_cancelled:
  "sub_pk sub \<noteq> k \<Longrightarrow> pres (sub_cancelled k) (suspend_subscription E sub)"
  "pres (sub_cancelled k) (cancel_subscription E sub)"
  unfolding suspend_subscription_def cancel_subscription_def end_transaction_def
  by (intro pres_intros sub_get_bind_pres sub_writes_other; auto)+

text \<open>
  C11.  Cancellation is final.  Once a subscription is \<open>CANCELLED\<close>, none of the batch jobs
  brings it back: not the renewal job, not the grace job, not the expiry job, and not the retry
  after a top-up, whatever the other subscriptions, the balances and the clock are.
\<close>

theorem cancelled_is_final:
  assumes gone: "sub_cancelled k s" and keys: "distinct (map sub_pk (t_subs s))"
  shows "sub_cancelled k (snd (process_due_renewals E s))
    \<and> sub_cancelled k (snd (process_grace_expirations E s))
    \<and> sub_cancelled k (snd (process_expired_non_renewal_subs E s))
    \<and> sub_cancelled k (snd (try_renew_grace_subscriptions E cust s))"
proof (intro conjI)
  have "pres (sub_cancelled k) (process_due_renewals E)"
    unfolding process_due_renewals_def renew_or_grace_def by (intro pres_intros)
  then show "sub_cancelled k (snd (process_due_renewals E s))"
    using gone by (rule presD)
  have "pres (sub_cancelled k) (process_expired_non_renewal_subs E)"
    unfolding process_expired_non_renewal_subs_def by (intro pres_intros end_transaction_cancelled)
  then show "sub_cancelled k (snd (process_expired_non_renewal_subs E s))"
    using gone by (rule presD)
  have "pres (sub_cancelled k) (try_renew_grace_subscriptions E cust)"
    unfolding try_renew_grace_subscriptions_def by (intro pres_intros)
  then show "sub_cancelled k (snd (try_renew_grace_subscriptions E cust s))"
    using gone by (rule presD)
  have other: "sub_pk r \<noteq> k" if "r \<in> set (t_subs s)" "sub_status r = Sub_GRACE" for r
    using gone keys that find_by_distinct [of sub_pk "t_subs s" r] by (auto simp: sub_cancelled_iff)
  let ?loop = "fold_m (\<lambda>(suspended, errors) sub.
          try_except (suspend_subscription E sub) (\<lambda>_. True)
            (\<lambda>_. ret (suspended, errors + 1)) (\<lambda>_. ret (suspended + 1, errors)))
         (0::nat, 0::nat)"
  have loop: "pres (sub_cancelled k) (?loop subs)" if "\<forall>r \<in> set subs. sub_pk r \<noteq> k" for subs
    using that by (intro pres_intros end_transaction_cancelled) auto
  show "sub_cancelled k (snd (process_grace_expirations E s))"
    unfolding process_grace_expirations_def int_setting_def due_subs_def
    using gone other presD [OF loop gone]
    by (auto simp: run_simps split: option.splits)
qed

theorem cancelled_is_final_witness:
  "sub_cancelled 5 (snd (process_due_renewals demo_env
     (example_sub_db\<lparr>t_subs := [example_sub\<lparr>sub_status := Sub_CANCELLED\<rparr>]\<rparr>)))"
  by (rule cancelled_is_final [THEN conjunct1])
    (simp_all add: sub_cancelled_def example_sub_def)

end
