(* ===== verification/Checkout.thy ===== *)
theory Checkout
  imports Gateway Subscriptions
begin

text \<open>
  \<open>billing/checkout.py\<close>: buying one plan (free, from the balance, through the gateway, or by the
  seller's static QRIS), completing a pending order once its top-up is credited, and the
  seller's confirmation or rejection of a manual payment.
\<close>

section \<open>Cart checkouts\<close>

definition cart_checkout_set_status :: "nat \<Rightarrow> cart_checkout_status \<Rightarrow> unit prog" where
  "cart_checkout_set_status k st =
     modify (\<lambda>s. s\<lparr>t_cart_checkouts := upd_by cc_pk k (\<lambda>r. r\<lparr>cc_status := st\<rparr>) (t_cart_checkouts s)\<rparr>)"

section \<open>Completion of a pending order\<close>

text \<open>The part \<open>complete_pending_order\<close> and \<open>confirm_manual_payment\<close> share: the subscription.\<close>

definition attach_subscription :: "env \<Rightarrow> order \<Rightarrow> plan \<Rightarrow> int \<Rightarrow> order prog" where
  "attach_subscription E ord pl dm =
     (if pl_interval pl \<noteq> Interval_NONE
      then bnd (create_subscription E (o_customer ord) pl dm) (\<lambda>sub.
           ret (ord\<lparr>o_subscription := Some (sub_pk sub)\<rparr>))
      else ret ord)"

text \<open>
  \<open>_provision_order(order, subscription=subscription)\<close>: the local \<open>subscription\<close> is the new one,
  or \<open>None\<close> for a plan without interval.
\<close>

definition new_subscription_of :: "plan \<Rightarrow> order \<Rightarrow> nat option" where
  "new_subscription_of pl ord = (if pl_interval pl \<noteq> Interval_NONE then o_subscription ord else None)"

definition complete_pending_order :: "env \<Rightarrow> nat \<Rightarrow> grant list prog" where
  "complete_pending_order E k =
     try_except
       (atomic (
          bnd (order_get k) (\<lambda>locked.
          if o_status locked \<noteq> Order_PENDING then ret []
          else
            bnd (customer_wallet (o_customer locked)) (\<lambda>w.
            bnd (plan_get (o_plan locked)) (\<lambda>pl.
            bnd (plan_str pl) (\<lambda>plan_name.
            bnd (debit (w_pk w) (o_amount locked) ''purchase'' (''order:'' @ o_public_id locked)
                   (''Purchase: '' @ plan_name)) (\<lambda>entry.
            bnd (assign_invoice_number (locked\<lparr>o_ledger_entry := Some (le_pk entry), o_status := Order_PAID\<rparr>)) (\<lambda>paid.
            bnd (increment_coupon_usage paid) (\<lambda>_.
            bnd (attach_subscription E paid pl (o_multiplier paid)) (\<lambda>paid.
            bnd (order_save paid) (\<lambda>_.
            bnd (provision_order E paid (new_subscription_of pl paid)) (\<lambda>grants.
            bnd (record_seller_earning paid) (\<lambda>_.
            bnd (emit (Order_paid (o_customer paid) (o_pk paid) (o_plan paid))) (\<lambda>_.
            ret grants))))))))))))))
       is_insufficient_balance (\<lambda>_. ret []) (\<lambda>grants. ret grants)"

section \<open>Manual confirmation of a static QRIS payment\<close>

definition confirm_manual_payment :: "env \<Rightarrow> nat \<Rightarrow> grant list prog" where
  "confirm_manual_payment E k =
     atomic (
       bnd (order_get k) (\<lambda>locked.
       if \<not> awaiting_seller_confirmation locked then grants_of_order (o_pk locked)
       else
         bnd (assign_invoice_number (locked\<lparr>o_status := Order_PAID\<rparr>)) (\<lambda>paid.
         bnd (increment_coupon_usage paid) (\<lambda>_.
         bnd (plan_get (o_plan paid)) (\<lambda>pl.
         bnd (attach_subscription E paid pl (o_multiplier paid)) (\<lambda>paid.
         bnd (order_save paid) (\<lambda>_.
         bnd (provision_order E paid (new_subscription_of pl paid)) (\<lambda>grants.
         bnd (emit (Order_paid (o_customer paid) (o_pk paid) (o_plan paid))) (\<lambda>_.
         ret grants)))))))))"

definition reject_manual_payment :: "order \<Rightarrow> string \<Rightarrow> unit prog" where
  "reject_manual_payment ord reason =
     bnd (atomic (
       bnd (order_get (o_pk ord)) (\<lambda>locked.
       if \<not> awaiting_seller_confirmation locked then ret False
       else bnd (order_save_status (o_pk locked) Order_FAILED) (\<lambda>_. ret True)))) (\<lambda>rejected.
     when_m rejected (emit (Order_payment_rejected (o_customer ord) (o_pk ord) (o_plan ord) reason)))"

definition confirm_cart_manual_payment :: "env \<Rightarrow> nat \<Rightarrow> grant list prog" where
  "confirm_cart_manual_payment E cc =
     bnd (gets (\<lambda>s. rev (filter (\<lambda>r. o_cart_checkout r = Some cc \<and> o_status r = Order_PENDING) (t_orders s)))) (\<lambda>pending.
     bnd (map_m (\<lambda>r. confirm_manual_payment E (o_pk r)) pending) (\<lambda>grants.
     bnd (cart_checkout_set_status cc CartCheckout_COMPLETED) (\<lambda>_.
     ret (concat grants))))"

section \<open>Prices\<close>

record checkout_request =
  rq_customer :: customer
  rq_plan :: plan
  rq_key :: string
  rq_coupon :: "coupon option"
  rq_price_override :: "int option"
  rq_multiplier :: int
  rq_custom_fields :: "(string \<times> string) list"
  rq_return_url :: string
  rq_method :: "string option"
  rq_proof :: "string option"

text \<open>The buyer's price of a pay-what-you-want plan, 0 when it does not apply.\<close>

definition pwyw_price :: "plan \<Rightarrow> int option \<Rightarrow> int" where
  "pwyw_price pl price_override =
     (case price_override of
        None \<Rightarrow> 0
      | Some p \<Rightarrow> (if pl_pwyw pl then max p (pl_min_price pl) else 0))"

definition duration_of :: "plan \<Rightarrow> int \<Rightarrow> int" where
  "duration_of pl multiplier = (if pl_interval pl \<noteq> Interval_NONE then max 1 multiplier else 1)"

text \<open>The price before the coupon: \<open>plan.duration_discounts.get(str(dm), 0)\<close> percent off the subtotal.\<close>

definition base_price :: "plan \<Rightarrow> int \<Rightarrow> int \<Rightarrow> int" where
  "base_price pl pwyw dm =
     (let unit_price = (if pwyw \<noteq> 0 then pwyw else pl_price pl)
      in if dm > 1
         then (let subtotal = unit_price * dm;
                   disc_pct = (case map_of (pl_durations pl) (str_int dm) of None \<Rightarrow> 0 | Some d \<Rightarrow> d)
               in subtotal - (subtotal * disc_pct div 100))
         else unit_price)"

definition coupon_discount :: "coupon option \<Rightarrow> plan \<Rightarrow> int \<Rightarrow> int \<Rightarrow> int" where
  "coupon_discount cp pl t price =
     (case cp of
        None \<Rightarrow> 0
      | Some c \<Rightarrow> (if fst (is_valid_for c t (Some (pl_pk pl))) then compute_discount c price else 0))"

text \<open>The row all paid branches create.\<close>

definition checkout_order :: "checkout_request \<Rightarrow> int \<Rightarrow> int \<Rightarrow> int \<Rightarrow> order" where
  "checkout_order rq price discount dm =
     (new_order (c_pk (rq_customer rq)) (pl_pk (rq_plan rq)) price Order_PENDING (Some (rq_key rq)))
       \<lparr>o_discount := discount,
        o_coupon := (if discount > 0 then map_option cp_pk (rq_coupon rq) else None),
        o_custom_fields := rq_custom_fields rq, o_multiplier := dm\<rparr>"

section \<open>checkout\<close>

type_synonym checkout_result = "order \<times> grant list \<times> string option"

definition order_get_by_key :: "string \<Rightarrow> order prog" where
  "order_get_by_key key = bnd (order_by_key key) (\<lambda>v. or_raise v (DoesNotExist ''Order''))"

text \<open>
  \<open>try: order = Order.objects.create(...) except IntegrityError: return the existing order\<close>, and
  the rest of the branch as the \<open>else\<close> part.
\<close>

definition create_or_return ::
  "env \<Rightarrow> string \<Rightarrow> bool \<Rightarrow> order \<Rightarrow> (order \<Rightarrow> checkout_result prog) \<Rightarrow> checkout_result prog" where
  "create_or_return E key with_grants row rest =
     try_except (order_create E row) is_integrity
       (\<lambda>_. bnd (order_get_by_key key) (\<lambda>ord.
            if with_grants then bnd (grants_of_order (o_pk ord)) (\<lambda>grants. ret (ord, grants, None))
            else ret (ord, [], None)))
       rest"

definition checkout_free :: "env \<Rightarrow> checkout_request \<Rightarrow> checkout_result prog" where
  "checkout_free E rq =
     atomic (
       create_or_return E (rq_key rq) True
         (new_order (c_pk (rq_customer rq)) (pl_pk (rq_plan rq)) 0 Order_PAID (Some (rq_key rq)))
         (\<lambda>ord.
          bnd (provision_order E ord None) (\<lambda>grants.
          bnd (record_seller_earning ord) (\<lambda>_.
          bnd (emit (Order_paid (o_customer ord) (o_pk ord) (o_plan ord))) (\<lambda>_.
          ret (ord, grants, None))))))"

definition checkout_qris :: "env \<Rightarrow> checkout_request \<Rightarrow> product \<Rightarrow> int \<Rightarrow> int \<Rightarrow> int \<Rightarrow> checkout_result prog" where
  "checkout_qris E rq pr price discount dm =
     bnd (gets (\<lambda>s. case pr_seller pr of None \<Rightarrow> None | Some k \<Rightarrow> find_by sel_pk k (t_sellers s))) (\<lambda>seller.
     bnd (check (case seller of None \<Rightarrow> False | Some sel \<Rightarrow> qris_ready sel) QrisNotAvailableError) (\<lambda>_.
     bnd (atomic (create_or_return E (rq_key rq) True
            ((checkout_order rq price discount dm)\<lparr>o_channel := Pay_QRIS_STATIC, o_proof := rq_proof rq\<rparr>)
            (\<lambda>ord. ret (ord, [], Some [])))) (\<lambda>(ord, grants, created).
     if created = None then ret (ord, grants, None)
     else bnd (emit (Order_awaiting_confirmation (o_customer ord) (o_pk ord) (Some (o_plan ord)))) (\<lambda>_.
          ret (ord, [], None)))))"

definition checkout_wallet ::
  "env \<Rightarrow> checkout_request \<Rightarrow> wallet \<Rightarrow> int \<Rightarrow> int \<Rightarrow> int \<Rightarrow> checkout_result prog" where
  "checkout_wallet E rq w price discount dm =
     atomic (
       create_or_return E (rq_key rq) True (checkout_order rq price discount dm) (\<lambda>ord.
       bnd (case rq_coupon rq of
              None \<Rightarrow> ret ()
            | Some cp \<Rightarrow>
                when_m (discount > 0) (
                  bnd (coupon_use (cp_pk cp)) (\<lambda>updated.
                  check (updated \<noteq> 0 \<or> cp_usage_limit cp \<le> 0) CouponLimitError))) (\<lambda>_.
       bnd (if price > 0 then
              bnd (plan_str (rq_plan rq)) (\<lambda>plan_name.
              bnd (debit (w_pk w) price ''purchase'' (''order:'' @ o_public_id ord) (''Purchase: '' @ plan_name)) (\<lambda>entry.
              ret (ord\<lparr>o_ledger_entry := Some (le_pk entry)\<rparr>)))
            else ret ord) (\<lambda>ord.
       bnd (assign_invoice_number (ord\<lparr>o_status := Order_PAID\<rparr>)) (\<lambda>ord.
       bnd (attach_subscription E ord (rq_plan rq) dm) (\<lambda>ord.
       bnd (order_save ord) (\<lambda>_.
       bnd (provision_order E ord (new_subscription_of (rq_plan rq) ord)) (\<lambda>grants.
       bnd (record_seller_earning ord) (\<lambda>_.
       bnd (emit (Order_paid (o_customer ord) (o_pk ord) (o_plan ord))) (\<lambda>_.
       ret (ord, grants, None)))))))))))"

text \<open>The order is created in its own transaction; the gateway is called after it commits.\<close>

definition checkout_gateway ::
  "env \<Rightarrow> checkout_request \<Rightarrow> wallet \<Rightarrow> bool \<Rightarrow> int \<Rightarrow> int \<Rightarrow> int \<Rightarrow> checkout_result prog" where
  "checkout_gateway E rq w use_direct_pay price discount dm =
     bnd (check (case rq_method rq of None \<Rightarrow> False | Some m \<Rightarrow> m \<noteq> []) PaymentMethodRequiredError) (\<lambda>_.
     let delta = (if use_direct_pay then price else price - w_balance w)
     in bnd (atomic (create_or_return E (rq_key rq) False (checkout_order rq price discount dm)
               (\<lambda>ord. ret (ord, [], Some [])))) (\<lambda>(ord, grants, created).
        if created = None then ret (ord, [], None)
        else
          bnd (initiate_topup E (rq_customer rq) delta (case rq_method rq of None \<Rightarrow> [] | Some m \<Rightarrow> m) 0
                 (rq_return_url rq)) (\<lambda>(topup, payment_url).
          bnd (topup_link_order (tu_pk topup) (o_pk ord)) (\<lambda>_.
          ret (ord, [], Some payment_url)))))"

definition checkout_paid :: "env \<Rightarrow> checkout_request \<Rightarrow> product \<Rightarrow> int \<Rightarrow> checkout_result prog" where
  "checkout_paid E rq pr pwyw =
     bnd now (\<lambda>t.
     let pl = rq_plan rq;
         dm = duration_of pl (rq_multiplier rq);
         base = base_price pl pwyw dm;
         discount = coupon_discount (rq_coupon rq) pl t base;
         price = max 0 (base - discount)
     in if rq_method rq = Some ''qris_static'' then checkout_qris E rq pr price discount dm
        else
          bnd (customer_wallet (c_pk (rq_customer rq))) (\<lambda>w.
          bnd (bool_setting ''DIRECT_PAY_ENABLED'') (\<lambda>master_on.
          let use_direct_pay = (master_on \<and> pl_direct_pay pl)
          in if \<not> use_direct_pay \<and> w_balance w \<ge> price
             then checkout_wallet E rq w price discount dm
             else checkout_gateway E rq w use_direct_pay price discount dm)))"

definition checkout :: "env \<Rightarrow> checkout_request \<Rightarrow> checkout_result prog" where
  "checkout E rq =
     bnd (product_get (pl_product (rq_plan rq))) (\<lambda>pr.
     if pr_type pr = Product_CONTACT then raise ContactPlanError
     else
       bnd (order_by_key (rq_key rq)) (\<lambda>existing.
       case existing of
         Some ord \<Rightarrow>
           if o_customer ord \<noteq> c_pk (rq_customer rq) \<or> o_plan ord \<noteq> pl_pk (rq_plan rq)
           then raise CheckoutIdempotencyError
           else bnd (grants_of_order (o_pk ord)) (\<lambda>grants. ret (ord, grants, None))
       | None \<Rightarrow>
           (let pwyw = pwyw_price (rq_plan rq) (rq_price_override rq)
            in if pr_type pr = Product_FREE \<or> pl_price (rq_plan rq) = 0 \<and> pwyw = 0
               then checkout_free E rq
               else checkout_paid E rq pr pwyw)))"

section \<open>The interface to the rest of the program\<close>

locale completion_inv = subs_inv +
  assumes cart_checkout_set_status_pres [pres_intros]: "pres I (cart_checkout_set_status k ccst)"
begin

lemma attach_subscription_pres [pres_intros]: "pres I (attach_subscription E ord pl dm)"
  unfolding attach_subscription_def by (intro pres_intros)

lemma complete_pending_order_pres [pres_intros]: "pres I (complete_pending_order E k)"
  unfolding complete_pending_order_def by (intro pres_intros)

lemma confirm_manual_payment_pres [pres_intros]: "pres I (confirm_manual_payment E k)"
  unfolding confirm_manual_payment_def by (intro pres_intros)

lemma reject_manual_payment_pres [pres_intros]: "pres I (reject_manual_payment ord reason)"
  unfolding reject_manual_payment_def by (intro pres_intros)

lemma confirm_cart_manual_payment_pres [pres_intros]: "pres I (confirm_cart_manual_payment E cc)"
  unfolding confirm_cart_manual_payment_def by (intro pres_intros)

end

locale checkout_inv = completion_inv + topup_inv
begin

lemma create_or_return_pres [pres_intros]:
  "(\<And>ord. pres I (rest ord)) \<Longrightarrow> pres I (create_or_return E key b row rest)"
  unfolding create_or_return_def order_get_by_key_def by (intro pres_intros)

lemma checkout_free_pres [pres_intros]: "pres I (checkout_free E rq)"
  unfolding checkout_free_def by (intro pres_intros)

lemma checkout_qris_pres [pres_intros]: "pres I (checkout_qris E rq pr price discount dm)"
  unfolding checkout_qris_def by (intro pres_intros)

lemma checkout_wallet_pres [pres_intros]: "pres I (checkout_wallet E rq w price discount dm)"
  unfolding checkout_wallet_def by (intro pres_intros)

lemma checkout_gateway_pres [pres_intros]: "pres I (checkout_gateway E rq w dp price discount dm)"
  unfolding checkout_gateway_def Let_def by (intro pres_intros)

lemma checkout_pres [pres_intros]: "pres I (checkout E rq)"
  unfolding checkout_def checkout_paid_def Let_def by (intro pres_intros)

end

locale completion_frame = subs_inv I + frame_inv I view for I view +
  assumes view_cart_checkouts: "view (s\<lparr>t_cart_checkouts := Cc\<rparr>) = view s"

sublocale completion_frame \<subseteq> completion_inv I
proof
  show "pres I (cart_checkout_set_status k ccst)" for k ccst
    unfolding cart_checkout_set_status_def by (auto intro!: frame_modify simp: view_cart_checkouts)
qed

locale checkout_frame = completion_frame I view + topup_inv I for I view

sublocale checkout_frame \<subseteq> checkout_inv I ..

interpretation ledger: checkout_frame ledger_ok "\<lambda>s. (t_wallets s, t_ledger s)"
  by unfold_locales auto
interpretation history: checkout_frame "\<lambda>s. \<exists>M. t_ledger s = L @ M" "\<lambda>s. (t_wallets s, t_ledger s)"
  by unfold_locales auto
interpretation sales: checkout_frame sales_ok "\<lambda>s. (t_orders s, t_coupons s, t_earnings s)"
  by unfold_locales auto

section \<open>What fulfilment leaves alone\<close>

definition sale_view :: "db \<Rightarrow> wallet list \<times> ledger_entry list \<times> order list \<times> coupon list \<times> subscription list" where
  "sale_view s = (t_wallets s, t_ledger s, t_orders s, t_coupons s, t_subs s)"

interpretation sold: provision_frame "\<lambda>s. sale_view s = V" sale_view
  by unfold_locales (auto simp: sale_view_def)

lemma record_seller_earning_sold: "pres (\<lambda>s. sale_view s = V) (record_seller_earning ord)"
  unfolding record_seller_earning_def earning_create_def plan_get_def product_get_def Let_def
  by (intro pres_intros sold.frame_modify) (simp_all add: sale_view_def)

lemma sold_wp:
  assumes "pres (\<lambda>s. sale_view s = sale_view u) m"
  shows "wp m (\<lambda>_ t. sale_view t = sale_view u) (\<lambda>_ _. True) u"
proof -
  have "wp m (\<lambda>_ t. sale_view t = sale_view u) (\<lambda>_ t. sale_view t = sale_view u) u"
    using assms by (simp add: pres_wp)
  then show ?thesis by (rule wp_mono) simp_all
qed

text \<open>\<open>record_seller_earning\<close> swallows every exception.\<close>

lemma record_seller_earning_total: "wp (record_seller_earning ord) (\<lambda>_ _. True) (\<lambda>_ _. False) s"
  unfolding record_seller_earning_def wp_try_except
  by (rule wp_mono [where Q = "\<lambda>_ _. True" and E = "\<lambda>_ _. True"])
    (auto simp: wp_def wp_simps split: prod.splits sum.splits)

section \<open>Only a debit reports a short balance\<close>

abbreviation solvent :: "exn \<Rightarrow> bool" where
  "solvent e \<equiv> e \<noteq> InsufficientBalance"

lemma assign_unique_errs [errs_intros]:
  "errs solvent (assign_unique_public_id E prefix taken)" "errs solvent (assign_unique_license_key E)"
proof -
  have gen: "errs P gen" if "draws shape gen" for P :: "exn \<Rightarrow> bool" and shape gen
    using drawsD [OF that] by (auto simp: errs_def wp_def split: prod.splits sum.splits) (metis Inl_Inr_False fst_conv)
  have "errs solvent (assign_unique n gen taken field)" if "draws shape gen" for n gen taken field shape
    by (induction n) (auto intro!: errs_intros gen [OF that])
  then show "errs solvent (assign_unique_public_id E prefix taken)" "errs solvent (assign_unique_license_key E)"
    unfolding assign_unique_public_id_def assign_unique_license_key_def
    by (blast intro: draws_public_id draws_license_key)+
qed

lemma write_errs [errs_intros]:
  "errs P new_pk" "errs P now" "errs P (emit ev)" "errs P (coupon_use j)" "errs P (increment_coupon_usage ord)"
  "errs P (assign_invoice_number ord)" "errs P (grant_create c od sb d ty pay)" "errs P (license_link_grant l g)"
  by (auto simp: new_pk_def now_def emit_def coupon_use_def increment_coupon_usage_def assign_invoice_number_def
      grant_create_def license_link_grant_def Let_def intro!: errs_intros split: option.splits)

lemma provision_errs [errs_intros]:
  assumes "map_of (app_registry E) ty = Some p"
  shows "errs solvent (p_provision p ord d sub)"
proof -
  have secret: "errs solvent (secret_create g c)" for g c
    unfolding secret_create_def by (intro errs_intros) simp_all
  have "errs solvent (license_create E cust pl sb seats)" for cust pl sb seats
    unfolding license_create_def Let_def
    by (cases seats rule: integer_field.cases)
      (auto intro!: errs_intros split: sum.splits option.splits)
  with secret assms show ?thesis
    by (auto elim!: registered_cases intro!: errs_intros split: json.splits
        simp: plain_provisioner_def license_key_provisioner_def manual_provision_def download_provision_def
          access_link_provision_def credentials_provision_def api_key_provision_def course_provision_def
          license_key_provision_def Let_def)
qed

lemma provision_order_errs [errs_intros]: "errs solvent (provision_order E ord sub)"
proof -
  have "errs solvent (bnd (registry_get (app_registry E) ty) (\<lambda>p. p_provision p ord d sub))" for ty d
    by (cases "map_of (app_registry E) ty")
      (auto simp: registry_get_def or_raise_def intro!: errs_intros)
  then show ?thesis
    unfolding provision_order_def by (intro errs_bnd [OF errs_basic(3)] errs_map_m)
qed

lemma fulfil_errs [errs_intros]:
  "errs P (record_seller_earning ord)" "errs solvent (attach_subscription E ord pl dm)" "errs solvent (order_save ord)"
proof -
  show "errs P (record_seller_earning ord)"
    by (rule errsI, rule wp_mono [OF record_seller_earning_total]) simp_all
  show "errs solvent (attach_subscription E ord pl dm)" "errs solvent (order_save ord)"
    by (auto simp: attach_subscription_def create_subscription_def order_save_def Let_def intro!: errs_intros
        split: interval.splits)
qed

section \<open>Completing a pending order\<close>

text \<open>The order \<open>ord\<close> at its price, settled from the wallet \<open>w\<close>.\<close>

definition settled :: "db \<Rightarrow> order \<Rightarrow> wallet \<Rightarrow> db \<Rightarrow> bool" where
  "settled s ord w t =
     (\<exists>e sub inv. 0 < o_amount ord \<and> o_amount ord \<le> w_balance w
        \<and> t_ledger t = t_ledger s @ [e] \<and> le_wallet e = w_pk w \<and> le_amount e = - o_amount ord
        \<and> le_balance_after e = w_balance w - o_amount ord \<and> le_ref e = ''order:'' @ o_public_id ord
        \<and> t_wallets t = upd_by w_pk (w_pk w) (\<lambda>r. r\<lparr>w_balance := w_balance w - o_amount ord\<rparr>) (t_wallets s)
        \<and> (o_invoice_number ord = None \<longrightarrow> inv = Some (last_invoice (t_orders s) + 1))
        \<and> t_orders t = upd_by o_pk (o_pk ord) (\<lambda>r. r\<lparr>o_ledger_entry := Some (le_pk e), o_status := Order_PAID,
             o_subscription := sub, o_invoice_number := inv\<rparr>) (t_orders s))"

definition money_view :: "db \<Rightarrow> wallet list \<times> ledger_entry list \<times> order list" where
  "money_view s = (t_wallets s, t_ledger s, t_orders s)"

lemma attach_wp:
  "wp (attach_subscription E ord pl dm)
     (\<lambda>ord' t. ord' = ord\<lparr>o_subscription := o_subscription ord'\<rparr> \<and> money_view t = money_view s) (\<lambda>_ _. True) s"
  unfolding attach_subscription_def create_subscription_def Let_def
  by (cases "pl_interval pl") (simp_all add: wp_simps money_view_def)

lemma assign_invoice_eq:
  "wp (assign_invoice_number ord) Q X s =
     Q (if (case o_invoice_number ord of None \<Rightarrow> False | Some n \<Rightarrow> n \<noteq> 0) then ord
        else ord\<lparr>o_invoice_number := Some (last_invoice (t_orders s) + 1)\<rparr>) s"
  by (simp add: assign_invoice_number_def wp_simps)

lemma money_view_orders:
  "money_view v = money_view (post_entry s e) \<Longrightarrow> t_orders v = t_orders s"
  by (simp add: money_view_def post_entry_def)

lemma increment_coupon_usage_wp:
  "wp (increment_coupon_usage ord) (\<lambda>_ t. money_view t = money_view s) (\<lambda>_ _. False) s"
  by (auto simp: increment_coupon_usage_def coupon_use_def wp_simps money_view_def split: option.splits)

lemma sold_money: "sale_view t = sale_view u \<Longrightarrow> money_view t = money_view u"
  by (simp add: sale_view_def money_view_def)

lemma fulfil_wp:
  "wp (bnd (provision_order E ord sub) (\<lambda>grants.
       bnd (record_seller_earning ord') (\<lambda>_.
       bnd (emit ev) (\<lambda>_.
       ret (h grants)))))
     (\<lambda>_ t. money_view t = money_view s) (\<lambda>_ _. True) s"
  unfolding wp_bnd [of "provision_order _ _ _"]
proof (rule wp_mono [OF sold_wp], goal_cases)
  case 1
  show ?case by (rule sold.provision_order_pres)
next
  case (2 grants u)
  show ?case
    unfolding wp_bnd [of "record_seller_earning _"]
    by (rule wp_mono [OF sold_wp [OF record_seller_earning_sold]])
      (use 2 in \<open>auto simp: wp_simps money_view_def sale_view_def\<close>)
qed simp

lemma fulfil_wp_then:
  assumes "\<And>t. money_view t = money_view s \<Longrightarrow> Q t"
  shows "wp (provision_order E ord sub) (\<lambda>grants. wp (bnd (record_seller_earning ord') (\<lambda>_. bnd (emit ev) (\<lambda>_.
       ret (h grants)))) (\<lambda>_. Q) (\<lambda>_ _. True)) (\<lambda>_ _. True) s"
  using wp_mono [OF fulfil_wp [of E ord sub ord' ev h s], of "\<lambda>_. Q" "\<lambda>_ _. True"] assms
  by (simp add: wp_bnd [of "provision_order _ _ _"])

lemma settle_wp:
  assumes e: "e = ledger_entry_of s (w_pk w) ''purchase'' (- o_amount ord) (w_balance w - o_amount ord)
      (''order:'' @ o_public_id ord) nt"
    and price: "0 < o_amount ord" "o_amount ord \<le> w_balance w"
  shows "wp (bnd (assign_invoice_number (ord\<lparr>o_ledger_entry := Some (le_pk e), o_status := Order_PAID\<rparr>)) (\<lambda>paid.
            bnd (increment_coupon_usage paid) (\<lambda>_.
            bnd (attach_subscription E paid pl (o_multiplier paid)) (\<lambda>paid.
            bnd (order_save paid) (\<lambda>_.
            bnd (provision_order E paid (new_subscription_of pl paid)) (\<lambda>grants.
            bnd (record_seller_earning paid) (\<lambda>_.
            bnd (emit (Order_paid (o_customer paid) (o_pk paid) (o_plan paid))) (\<lambda>_.
            ret grants))))))))
     (\<lambda>_ t. settled s ord w t) (\<lambda>_ _. True) (post_entry s e)"
proof -
  define inv where "inv = (if (case o_invoice_number ord of None \<Rightarrow> False | Some n \<Rightarrow> n \<noteq> 0) then o_invoice_number ord
      else Some (last_invoice (t_orders s) + 1))"
  define paid where "paid = ord\<lparr>o_ledger_entry := Some (le_pk e), o_status := Order_PAID, o_invoice_number := inv\<rparr>"
  have numbered: "(if (case o_invoice_number (ord\<lparr>o_ledger_entry := Some (le_pk e), o_status := Order_PAID\<rparr>) of
          None \<Rightarrow> False | Some n \<Rightarrow> n \<noteq> 0) then ord\<lparr>o_ledger_entry := Some (le_pk e), o_status := Order_PAID\<rparr>
        else ord\<lparr>o_ledger_entry := Some (le_pk e), o_status := Order_PAID,
               o_invoice_number := Some (last_invoice (t_orders (post_entry s e)) + 1)\<rparr>) = paid"
    by (simp add: paid_def inv_def post_entry_def)
  have settles: "settled s ord w t" if "money_view t = money_view (u\<lparr>t_orders := upd_by o_pk (o_pk ord)
         (\<lambda>r. r\<lparr>o_ledger_entry := Some (le_pk e), o_status := Order_PAID, o_subscription := sub,
            o_invoice_number := inv\<rparr>) (t_orders s)\<rparr>)" "money_view u = money_view (post_entry s e)" for t u sub
    using that price unfolding settled_def
    by (intro exI [of _ e] exI [of _ sub] exI [of _ inv])
      (simp add: money_view_def post_entry_def e ledger_entry_of_def inv_def)
  show ?thesis
    unfolding wp_bnd [of "assign_invoice_number _"] assign_invoice_eq numbered
      wp_bnd [of "increment_coupon_usage _"]
  proof (rule wp_mono [OF increment_coupon_usage_wp], goal_cases)
    case (1 x u)
    show ?case
      unfolding wp_bnd [of "attach_subscription _ _ _ _"]
    proof (rule wp_mono [OF attach_wp], goal_cases)
      case (1 paid' v)
      then obtain sub where p: "paid' = paid\<lparr>o_subscription := sub\<rparr>" by metis
      have v: "money_view v = money_view (post_entry s e)"
        using 1 \<open>money_view u = _\<close> by simp
      show ?case
        unfolding wp_bnd [of "order_save _"] order_save_def
        by (simp add: wp_simps)
          (auto intro!: fulfil_wp_then settles [OF _ v] simp: p paid_def money_view_orders [OF v])
    qed simp
  qed simp
qed

lemma complete_pending_wp:
  assumes ord: "find_by o_pk k (t_orders s) = Some ord"
    and wallets: "distinct (map w_pk (t_wallets s))"
    and fresh: "find_by le_ref (''order:'' @ o_public_id ord) (t_ledger s) = None"
  shows "wp (complete_pending_order E k)
     (\<lambda>grants t. t = s \<and> grants = [] \<and> (o_status ord \<noteq> Order_PENDING
            \<or> (\<exists>w. find_by w_customer (o_customer ord) (t_wallets s) = Some w \<and> w_balance w < o_amount ord))
        \<or> o_status ord = Order_PENDING
            \<and> (\<exists>w. find_by w_customer (o_customer ord) (t_wallets s) = Some w \<and> settled s ord w t))
     (\<lambda>x t. t = s \<and> solvent x) s"
proof (cases "o_status ord = Order_PENDING")
  case False
  with ord show ?thesis
    by (simp add: complete_pending_order_def wp_try_except wp_atomic wp_bnd [of "order_get _"] order_get_wp wp_ret)
next
  case pending: True
  show ?thesis
  proof (cases "find_by w_customer (o_customer ord) (t_wallets s)")
    case None
    with ord pending show ?thesis
      by (simp add: complete_pending_order_def wp_simps)
  next
    case w: (Some w)
    have same: "find_by w_pk (w_pk w) (t_wallets s) = Some w"
      using wallets find_by_SomeD [OF w] by (auto intro: find_by_distinct)
    have body: "wp (bnd (debit (w_pk w) (o_amount ord) ''purchase'' (''order:'' @ o_public_id ord) nt) (\<lambda>entry.
            bnd (assign_invoice_number (ord\<lparr>o_ledger_entry := Some (le_pk entry), o_status := Order_PAID\<rparr>)) (\<lambda>paid.
            bnd (increment_coupon_usage paid) (\<lambda>_.
            bnd (attach_subscription E paid pl (o_multiplier paid)) (\<lambda>paid.
            bnd (order_save paid) (\<lambda>_.
            bnd (provision_order E paid (new_subscription_of pl paid)) (\<lambda>grants.
            bnd (record_seller_earning paid) (\<lambda>_.
            bnd (emit (Order_paid (o_customer paid) (o_pk paid) (o_plan paid))) (\<lambda>_.
            ret grants)))))))))
       (\<lambda>_ t. settled s ord w t)
       (\<lambda>x _. if is_insufficient_balance x then w_balance w < o_amount ord else True) s" for pl nt
      unfolding wp_bnd [of "debit _ _ _ _ _"]
    proof (rule wp_mono [OF debit_fresh_wp [OF fresh]], goal_cases)
      case (1 e v)
      then have v: "v = post_entry s e" and e: "e = ledger_entry_of s (w_pk w) ''purchase'' (- o_amount ord)
            (w_balance w - o_amount ord) (''order:'' @ o_public_id ord) nt"
          and price: "0 < o_amount ord" "o_amount ord \<le> w_balance w"
        using same by auto
      have "errs solvent (bnd (assign_invoice_number (ord\<lparr>o_ledger_entry := Some (le_pk e), o_status := Order_PAID\<rparr>)) (\<lambda>paid.
            bnd (increment_coupon_usage paid) (\<lambda>_.
            bnd (attach_subscription E paid pl (o_multiplier paid)) (\<lambda>paid.
            bnd (order_save paid) (\<lambda>_.
            bnd (provision_order E paid (new_subscription_of pl paid)) (\<lambda>grants.
            bnd (record_seller_earning paid) (\<lambda>_.
            bnd (emit (Order_paid (o_customer paid) (o_pk paid) (o_plan paid))) (\<lambda>_.
            ret grants))))))))"
        by (intro errs_intros)
      from wp_both [OF settle_wp [OF e price] errsD [OF this]] show ?case
        unfolding v by (rule wp_mono) (auto elim: is_insufficient_balance.elims)
    next
      case (2 x v)
      then show ?case using same by (auto elim!: is_insufficient_balance.elims)
    qed
    show ?thesis
    proof (cases "find_by pl_pk (o_plan ord) (t_plans s)")
      case None
      with ord pending w show ?thesis
        by (simp add: complete_pending_order_def wp_simps)
    next
      case pl: (Some pl)
      show ?thesis
      proof (cases "find_by pr_pk (pl_product pl) (t_products s)")
        case None
        with ord pending w pl show ?thesis
          by (simp add: complete_pending_order_def wp_simps)
      next
        case (Some pr)
        have "is_insufficient_balance x = (x = InsufficientBalance)" for x
          by (cases x) simp_all
        then show ?thesis
          unfolding complete_pending_order_def wp_try_except wp_atomic wp_bnd [of "order_get _"] order_get_wp ord
            option.case
          by (simp only: pending simp_thms if_False wp_bnd [of "customer_wallet _"] customer_wallet_wp w option.case
              wp_bnd [of "plan_get _"] plan_get_wp pl wp_bnd [of "plan_str _"] plan_str_wp Some)
            (rule wp_mono [OF body]; auto simp: wp_ret w pending)
      qed
    qed
  qed
qed

section \<open>The order of a key\<close>

definition has_order :: "string \<Rightarrow> order \<Rightarrow> product list \<Rightarrow> db \<Rightarrow> bool" where
  "has_order key ord prods s =
     (t_products s = prods \<and> (case find_by o_idem (Some key) (t_orders s) of None \<Rightarrow> False
        | Some row \<Rightarrow> o_pk row = o_pk ord \<and> o_customer row = o_customer ord \<and> o_plan row = o_plan ord))"

lemma has_order_iff:
  "has_order key ord prods s \<longleftrightarrow> t_products s = prods \<and> (\<exists>row. find_by o_idem (Some key) (t_orders s) = Some row
     \<and> o_pk row = o_pk ord \<and> o_customer row = o_customer ord \<and> o_plan row = o_plan ord)"
  by (auto simp: has_order_def split: option.splits)

interpretation keyed: wallet_frame "has_order key ord prods" "\<lambda>s. (t_orders s, t_products s)"
  by unfold_locales (auto simp: has_order_def)
interpretation keyed: provision_frame "has_order key ord prods" "\<lambda>s. (t_orders s, t_products s)"
  by unfold_locales auto

lemma has_order_append: "has_order key ord prods s \<Longrightarrow> has_order key ord prods (s\<lparr>t_orders := t_orders s @ xs\<rparr>)"
  by (auto simp: has_order_iff find_by_append)

lemma has_order_update:
  assumes "has_order key ord prods s" and g: "\<And>r. o_idem (g r) = o_idem r" "\<And>r. o_pk (g r) = o_pk r"
    "\<And>r. o_customer (g r) = o_customer r" "\<And>r. o_plan (g r) = o_plan r"
  shows "has_order key ord prods (s\<lparr>t_orders := upd_by o_pk k g (t_orders s)\<rparr>)"
  using assms find_by_upd_by_other [of o_idem g "Some key" o_pk k "t_orders s"]
  by (auto simp: has_order_iff simp del: map_option_eq_Some)

interpretation keyed: order_inv "has_order key ord prods"
proof
  let ?I = "has_order key ord prods"
  show "pres ?I (order_create E row)" for E row
    unfolding pres_wp
  proof (intro allI impI)
    fix s assume I: "?I s"
    have "?I (s\<lparr>rng := n\<rparr>)" and "?I (s\<lparr>rng := n, seq := m, t_orders := t_orders s @ xs\<rparr>)" for n m xs
      using I by (auto simp: has_order_iff find_by_append)
    then show "wp (order_create E row) (\<lambda>_. ?I) (\<lambda>_. ?I) s"
      by (intro wp_mono [OF order_create_wp]) auto
  qed
  show "pres ?I (order_save row)" "pres ?I (order_save_status k ost)" for row k ost
    unfolding order_save_def order_save_status_def
    by (auto intro!: pres_intros pres_modify has_order_update)
  show "pres ?I (coupon_use k)" "pres ?I (earning_create sel k gross comm (gross - comm))"
    "pres ?I (create_subscription E cust pl n)" for k sel gross comm E cust pl n
    unfolding coupon_use_def earning_create_def create_subscription_def Let_def
    by (auto intro!: pres_intros keyed.frame_modify split: interval.splits)
qed

interpretation keyed: subs_frame "has_order key ord prods" "\<lambda>s. (t_orders s, t_products s)"
  by unfold_locales auto
interpretation keyed: topup_frame "has_order key ord prods" "\<lambda>s. (t_orders s, t_products s)"
  by unfold_locales auto
interpretation keyed: checkout_frame "has_order key ord prods" "\<lambda>s. (t_orders s, t_products s)"
  by unfold_locales auto

text \<open>What an action returns, whatever the state.\<close>

definition gives :: "('a \<Rightarrow> bool) \<Rightarrow> 'a prog \<Rightarrow> bool" where
  "gives P m = (\<forall>s. wp m (\<lambda>x _. P x) (\<lambda>_ _. True) s)"

lemma givesD: "gives P m \<Longrightarrow> wp m (\<lambda>x _. P x) (\<lambda>_ _. True) s"
  by (simp add: gives_def)

lemma gives_ret: "P x \<Longrightarrow> gives P (ret x)"
  by (simp add: gives_def wp_simps)

lemma gives_bnd: "gives R m \<Longrightarrow> (\<And>x. R x \<Longrightarrow> gives P (f x)) \<Longrightarrow> gives P (bnd m f)"
  by (simp add: gives_def wp_bnd) (blast intro: wp_mono)

lemma gives_atomic: "gives P m \<Longrightarrow> gives P (atomic m)"
  by (simp add: gives_def wp_atomic)

lemma gives_any: "gives (\<lambda>_. True) m"
  by (simp add: gives_def wp_def split: prod.splits sum.splits)

lemma gives_then: "(\<And>x. gives P (f x)) \<Longrightarrow> gives P (bnd m f)"
  by (rule gives_bnd [OF gives_any])

lemma order_steps_give:
  "o_pk ord = k \<Longrightarrow> gives (\<lambda>x. o_pk x = k) (assign_invoice_number ord)"
  "o_pk ord = k \<Longrightarrow> gives (\<lambda>x. o_pk x = k) (attach_subscription E ord pl dm)"
  by (auto simp: assign_invoice_number_def attach_subscription_def intro!: gives_ret gives_then)

definition fresh_key :: "checkout_request \<Rightarrow> db \<Rightarrow> bool" where
  "fresh_key rq s = (find_by o_idem (Some (rq_key rq)) (t_orders s) = None)"

text \<open>The order the call returns is the one the key leads to afterwards.\<close>

definition keeps_key :: "checkout_request \<Rightarrow> product list \<Rightarrow> checkout_result \<Rightarrow> db \<Rightarrow> bool" where
  "keeps_key rq prods res t =
     has_order (rq_key rq) (new_order (c_pk (rq_customer rq)) (pl_pk (rq_plan rq)) 0 Order_PENDING None
        \<lparr>o_pk := o_pk (fst res)\<rparr>) prods t"

lemma create_or_return_keeps:
  assumes fresh: "fresh_key rq s"
    and row: "o_idem row = Some (rq_key rq)" "o_customer row = c_pk (rq_customer rq)" "o_plan row = pl_pk (rq_plan rq)"
    and rest: "\<And>ord prods. pres (has_order (rq_key rq) (new_order (c_pk (rq_customer rq)) (pl_pk (rq_plan rq)) 0 Order_PENDING None
        \<lparr>o_pk := o_pk ord\<rparr>) prods) (rest ord)"
    and res: "\<And>ord. gives (\<lambda>r. o_pk (fst r) = o_pk ord) (rest ord)"
  shows "wp (create_or_return E (rq_key rq) b row rest) (keeps_key rq (t_products s)) (\<lambda>_ _. True) s"
  unfolding create_or_return_def wp_try_except
proof (rule wp_mono [OF order_create_wp], goal_cases)
  case (1 ord t)
  let ?o = "new_order (c_pk (rq_customer rq)) (pl_pk (rq_plan rq)) 0 Order_PENDING None\<lparr>o_pk := o_pk ord\<rparr>"
  have "has_order (rq_key rq) ?o (t_products s) t"
    using 1 fresh row by (auto simp: has_order_iff order_row_def fresh_key_def find_by_append new_order_def)
  then have "wp (rest ord) (\<lambda>_. has_order (rq_key rq) ?o (t_products s)) (\<lambda>_. has_order (rq_key rq) ?o (t_products s)) t"
    using rest by (simp add: pres_wp)
  from wp_both [OF this givesD [OF res]] show ?case
    by (rule wp_mono) (auto simp: keeps_key_def)
next
  case (2 x t)
  then show ?case
    using fresh by (auto simp: order_get_by_key_def wp_simps fresh_key_def)
qed

lemma keeps_key_logged: "keeps_key rq prods res t \<Longrightarrow> fst res' = fst res \<Longrightarrow> keeps_key rq prods res' t"
  by (simp add: keeps_key_def)

lemma keeps_key_order: "keeps_key rq prods (a, x, y) t \<Longrightarrow> keeps_key rq prods (a, x', y') t"
  by (simp add: keeps_key_def)

lemma keeps_key_pres: "pres (keeps_key rq prods res) m" if "\<And>o'. pres (has_order (rq_key rq) o' prods) m" for m
  using that by (simp add: keeps_key_def [abs_def])

lemma checkout_free_keeps:
  assumes "fresh_key rq s"
  shows "wp (checkout_free E rq) (keeps_key rq (t_products s)) (\<lambda>_ _. True) s"
  unfolding checkout_free_def wp_atomic
proof (rule create_or_return_keeps [OF assms], goal_cases)
  case (4 ord prods)
  show ?case by (intro pres_intros)
next
  case (5 ord)
  show ?case by (intro gives_then gives_ret) simp
qed (simp_all add: new_order_def)

lemma checkout_order_fields [simp]:
  "o_idem (checkout_order rq p d n) = Some (rq_key rq)"
  "o_customer (checkout_order rq p d n) = c_pk (rq_customer rq)"
  "o_plan (checkout_order rq p d n) = pl_pk (rq_plan rq)"
  "o_amount (checkout_order rq p d n) = p" "o_status (checkout_order rq p d n) = Order_PENDING"
  "o_ledger_entry (checkout_order rq p d n) = None" "o_invoice_number (checkout_order rq p d n) = None"
  by (simp_all add: checkout_order_def new_order_def)

lemma checkout_qris_keeps:
  assumes "fresh_key rq s"
  shows "wp (checkout_qris E rq pr price discount dm) (keeps_key rq (t_products s)) (\<lambda>_ _. True) s"
  unfolding checkout_qris_def
  by (auto simp: wp_simps keeps_key_def has_order_def
      intro!: wp_mono [OF create_or_return_keeps [OF assms]] pres_intros gives_ret split: prod.splits)

lemma paid_rest_gives:
  assumes "o_pk ord = k"
  shows "gives (\<lambda>r. o_pk (fst r) = k) (bnd (assign_invoice_number (ord\<lparr>o_status := Order_PAID\<rparr>)) (\<lambda>ord.
       bnd (attach_subscription E ord pl dm) (\<lambda>ord.
       bnd (order_save ord) (\<lambda>_.
       bnd (provision_order E ord (new_subscription_of pl ord)) (\<lambda>grants.
       bnd (record_seller_earning ord) (\<lambda>_.
       bnd (emit (Order_paid (o_customer ord) (o_pk ord) (o_plan ord))) (\<lambda>_.
       ret (ord, grants, None))))))))"
proof (rule gives_bnd [OF order_steps_give(1)])
  show "o_pk (ord\<lparr>o_status := Order_PAID\<rparr>) = k" using assms by simp
  show "gives (\<lambda>r. o_pk (fst r) = k) (bnd (attach_subscription E x pl dm) (\<lambda>ord.
       bnd (order_save ord) (\<lambda>_.
       bnd (provision_order E ord (new_subscription_of pl ord)) (\<lambda>grants.
       bnd (record_seller_earning ord) (\<lambda>_.
       bnd (emit (Order_paid (o_customer ord) (o_pk ord) (o_plan ord))) (\<lambda>_.
       ret (ord, grants, None)))))))" if "o_pk x = k" for x
    by (rule gives_bnd [OF order_steps_give(2) [OF that]]) (intro gives_then gives_ret, simp)
qed

lemma checkout_wallet_keeps:
  assumes "fresh_key rq s"
  shows "wp (checkout_wallet E rq w price discount dm) (keeps_key rq (t_products s)) (\<lambda>_ _. True) s"
  unfolding checkout_wallet_def wp_atomic
proof (rule create_or_return_keeps [OF assms], goal_cases)
  case (4 ord prods)
  show ?case by (intro pres_intros)
next
  case (5 ord)
  show ?case
  proof (rule gives_then, rule gives_bnd [where R = "\<lambda>x. o_pk x = o_pk ord"], goal_cases)
    case 1
    show ?case by (auto intro!: gives_then gives_ret)
  next
    case (2 u x)
    then show ?case by (rule paid_rest_gives)
  qed
qed simp_all

lemma checkout_gateway_keeps:
  assumes "fresh_key rq s"
  shows "wp (checkout_gateway E rq w dp price discount dm) (keeps_key rq (t_products s)) (\<lambda>_ _. True) s"
proof -
  have link: "wp (bnd (initiate_topup E c delta m 0 ru) (\<lambda>(topup, url). bnd (topup_link_order (tu_pk topup) k) (\<lambda>_.
      ret (ord, [], Some url)))) (keeps_key rq prods) (\<lambda>_ _. True) t"
    if "keeps_key rq prods (ord, gs, cr) t" for c delta m ru k ord prods t gs cr
  proof -
    have "pres (has_order (rq_key rq) o' prods) (bnd (initiate_topup E c delta m 0 ru) (\<lambda>(topup, url).
        bnd (topup_link_order (tu_pk topup) k) (\<lambda>_. ret (ord, [], Some url))))" for o'
      by (intro pres_intros)
    then have "pres (keeps_key rq prods (ord, gs, cr)) (bnd (initiate_topup E c delta m 0 ru) (\<lambda>(topup, url).
        bnd (topup_link_order (tu_pk topup) k) (\<lambda>_. ret (ord, [], Some url))))"
      by (rule keeps_key_pres)
    then have "wp (bnd (initiate_topup E c delta m 0 ru) (\<lambda>(topup, url). bnd (topup_link_order (tu_pk topup) k) (\<lambda>_.
        ret (ord, [], Some url)))) (\<lambda>_. keeps_key rq prods (ord, gs, cr)) (\<lambda>_. keeps_key rq prods (ord, gs, cr)) t"
      using that unfolding pres_wp by blast
    moreover have "gives (\<lambda>r. fst r = ord) (bnd (initiate_topup E c delta m 0 ru) (\<lambda>(topup, url).
        bnd (topup_link_order (tu_pk topup) k) (\<lambda>_. ret (ord, [], Some url))))"
      by (rule gives_then) (auto intro!: gives_then gives_ret split: prod.splits)
    note wp_both [OF calculation(1) givesD [OF this]]
    then show ?thesis
      by (rule wp_mono) (auto intro: keeps_key_logged)
  qed
  show ?thesis
    unfolding checkout_gateway_def Let_def wp_bnd [of "check _ _"] wp_check
      wp_bnd [of "atomic _"] wp_atomic
    by (auto intro!: wp_mono [OF create_or_return_keeps [OF assms]] pres_intros gives_ret
        intro: link keeps_key_order simp: wp_ret)
qed

text \<open>
  C6.  Checkout is idempotent.  Whenever \<open>checkout\<close> returns, by whichever branch (free, wallet,
  static QRIS, gateway, or an order that was already there), a second call with the same
  request returns the order the first one returned (the row with its primary key), charges
  nothing, creates nothing, and leaves the database exactly as it found it.
\<close>

theorem checkout_idempotent:
  "wp (checkout E rq)
     (\<lambda>(ord, _, _) t. \<exists>row grants. checkout E rq t = (Inr (row, grants, None), t) \<and> o_pk row = o_pk ord)
     (\<lambda>_ _. True) s"
proof (cases "find_by pr_pk (pl_product (rq_plan rq)) (t_products s)")
  case None
  then show ?thesis by (simp add: checkout_def wp_simps)
next
  case pr: (Some pr)
  show ?thesis
  proof (cases "pr_type pr = Product_CONTACT")
    case True
    with pr show ?thesis by (simp add: checkout_def wp_simps)
  next
    case contact: False
    have replay: "\<exists>row grants. checkout E rq t = (Inr (row, grants, None), t) \<and> o_pk row = o_pk (fst res)"
      if "keeps_key rq (t_products s) res t" for res t
      using that pr contact
      by (auto simp: keeps_key_def has_order_iff checkout_def product_get_def order_by_key_def
          grants_of_order_def run_simps new_order_def)
    show ?thesis
    proof (cases "find_by o_idem (Some (rq_key rq)) (t_orders s)")
      case (Some ord)
      then show ?thesis
        using pr contact
        by (auto simp: checkout_def wp_simps product_get_def order_by_key_def grants_of_order_def run_simps)
    next
      case None
      then have fresh: "fresh_key rq s" by (simp add: fresh_key_def)
      have paid: "wp (checkout_paid E rq pr pwyw) (keeps_key rq (t_products s)) (\<lambda>_ _. True) s" for pwyw
        unfolding checkout_paid_def Let_def
        by (auto simp: wp_simps bool_setting_def split: option.split
            intro!: checkout_qris_keeps checkout_wallet_keeps checkout_gateway_keeps fresh)
      have "wp (checkout E rq) (keeps_key rq (t_products s)) (\<lambda>_ _. True) s"
        using pr contact None paid checkout_free_keeps [OF fresh]
        by (simp add: checkout_def wp_simps Let_def)
      then show ?thesis
        by (rule wp_mono) (use replay in \<open>auto split: prod.splits\<close>)
    qed
  qed
qed

section \<open>Buying from the balance\<close>

definition paid_at :: "order \<Rightarrow> db \<Rightarrow> db \<Rightarrow> bool" where
  "paid_at ord v t =
     (t_wallets t = t_wallets v \<and> t_ledger t = t_ledger v
      \<and> (\<exists>sub. t_orders t = upd_by o_pk (o_pk ord) (\<lambda>r. r\<lparr>o_ledger_entry := o_ledger_entry ord,
           o_status := Order_PAID, o_subscription := sub,
           o_invoice_number := Some (last_invoice (t_orders v) + 1)\<rparr>) (t_orders v)))"

lemma paid_rest_wp:
  assumes "o_invoice_number ord = None"
  shows "wp (bnd (assign_invoice_number (ord\<lparr>o_status := Order_PAID\<rparr>)) (\<lambda>ord.
       bnd (attach_subscription E ord pl dm) (\<lambda>ord.
       bnd (order_save ord) (\<lambda>_.
       bnd (provision_order E ord (new_subscription_of pl ord)) (\<lambda>grants.
       bnd (record_seller_earning ord) (\<lambda>_.
       bnd (emit (ev ord)) (\<lambda>_.
       ret (result ord grants)))))))) (\<lambda>_ t. paid_at ord v t) (\<lambda>_ _. True) v"
proof -
  let ?n = "Some (last_invoice (t_orders v) + 1)"
  have numbered: "(if (case o_invoice_number (ord\<lparr>o_status := Order_PAID\<rparr>) of None \<Rightarrow> False | Some n \<Rightarrow> n \<noteq> 0)
      then ord\<lparr>o_status := Order_PAID\<rparr>
      else ord\<lparr>o_status := Order_PAID, o_invoice_number := ?n\<rparr>) = ord\<lparr>o_status := Order_PAID, o_invoice_number := ?n\<rparr>"
    using assms by simp
  show ?thesis
    unfolding wp_bnd [of "assign_invoice_number _"] assign_invoice_eq numbered wp_bnd [of "attach_subscription _ _ _ _"]
  proof (rule wp_mono [OF attach_wp], goal_cases)
    case (1 paid u)
    then obtain sub where p: "paid = ord\<lparr>o_status := Order_PAID, o_invoice_number := ?n, o_subscription := sub\<rparr>"
      by metis
    have u: "t_wallets u = t_wallets v" "t_ledger u = t_ledger v" "t_orders u = t_orders v"
      using 1 by (simp_all add: money_view_def)
    have settles: "paid_at ord v t" if "money_view t = money_view (u\<lparr>t_orders := upd_by o_pk (o_pk ord)
         (\<lambda>r. r\<lparr>o_ledger_entry := o_ledger_entry ord, o_status := Order_PAID, o_subscription := sub,
            o_invoice_number := ?n\<rparr>) (t_orders v)\<rparr>)" for t
      using that u unfolding paid_at_def by (auto simp: money_view_def)
    show ?case
      unfolding wp_bnd [of "order_save _"] order_save_def
      by (simp add: wp_simps) (auto intro!: fulfil_wp_then settles simp: p u)
  qed simp
qed

definition purchased :: "db \<Rightarrow> checkout_request \<Rightarrow> wallet \<Rightarrow> int \<Rightarrow> db \<Rightarrow> bool" where
  "purchased s rq w price t =
     (\<exists>e row. price \<le> w_balance w \<and> t_ledger t = t_ledger s @ [e] \<and> le_wallet e = w_pk w
        \<and> le_amount e = - price \<and> le_balance_after e = w_balance w - price
        \<and> le_ref e = ''order:'' @ o_public_id row
        \<and> t_wallets t = upd_by w_pk (w_pk w) (\<lambda>r. r\<lparr>w_balance := w_balance w - price\<rparr>) (t_wallets s)
        \<and> t_orders t = t_orders s @ [row] \<and> o_status row = Order_PAID \<and> o_amount row = price
        \<and> o_customer row = c_pk (rq_customer rq) \<and> o_plan row = pl_pk (rq_plan rq)
        \<and> o_idem row = Some (rq_key rq) \<and> o_ledger_entry row = Some (le_pk e)
        \<and> o_invoice_number row = Some (last_invoice (t_orders s) + 1))"

lemma last_invoice_none: "o_invoice_number row = None \<Longrightarrow> last_invoice (rows @ [row]) = last_invoice rows"
  by (simp add: last_invoice_def)

lemma checkout_wallet_wp:
  assumes orders: "orders_ok s" and refs: "order_refs_ok s" and fresh: "fresh_key rq s"
    and w: "find_by w_pk (w_pk w) (t_wallets s) = Some w" and price: "0 < price"
  shows "wp (checkout_wallet E rq w price discount dm) (\<lambda>_ t. purchased s rq w price t) (\<lambda>_ t. t = s) s"
proof -
  have charge: "wp (bnd (debit (w_pk w) price ''purchase'' (''order:'' @ o_public_id ord) nt) (\<lambda>entry.
         ret (ord\<lparr>o_ledger_entry := Some (le_pk entry)\<rparr>)))
      (\<lambda>ord' v. wp (bnd (assign_invoice_number (ord'\<lparr>o_status := Order_PAID\<rparr>)) (\<lambda>ord.
         bnd (attach_subscription E ord (rq_plan rq) dm) (\<lambda>ord.
         bnd (order_save ord) (\<lambda>_.
         bnd (provision_order E ord (new_subscription_of (rq_plan rq) ord)) (\<lambda>grants.
         bnd (record_seller_earning ord) (\<lambda>_.
         bnd (emit (Order_paid (o_customer ord) (o_pk ord) (o_plan ord))) (\<lambda>_.
         ret (ord, grants, None)))))))) (\<lambda>_ t. purchased s rq w price t) (\<lambda>_ _. True) v) (\<lambda>_ _. True) u"
    if row: "order_row s (checkout_order rq price discount dm) ord"
      and u: "t_wallets u = t_wallets s" "t_ledger u = t_ledger s" "t_orders u = t_orders s @ [ord]" for ord u nt
  proof -
    have o: "o_pk ord = seq s" "o_amount ord = price" "o_idem ord = Some (rq_key rq)" "o_invoice_number ord = None"
        "o_customer ord = c_pk (rq_customer rq)" "o_plan ord = pl_pk (rq_plan rq)"
      using row by (auto simp: order_row_def)
    have others: "\<forall>r \<in> set (t_orders s). o_pk r \<noteq> o_pk ord"
      using orders_ok_fresh [OF orders] o by auto
    have ref: "find_by le_ref (''order:'' @ o_public_id ord) (t_ledger u) = None"
      using order_refs_fresh [OF refs] row u by (simp add: order_row_def)
    show ?thesis
      unfolding wp_bnd [of "debit _ _ _ _ _"]
    proof (rule wp_mono [OF debit_fresh_wp [OF ref]], goal_cases)
      case (1 e v)
      then have e: "e = ledger_entry_of u (w_pk w) ''purchase'' (- price) (w_balance w - price)
            (''order:'' @ o_public_id ord) nt" and v: "v = post_entry u e" and enough: "price \<le> w_balance w"
        using w u by auto
      have "purchased s rq w price t" if paid: "paid_at (ord\<lparr>o_ledger_entry := Some (le_pk e)\<rparr>) v t" for t
      proof -
        obtain sub where "t_orders t = upd_by o_pk (o_pk ord) (\<lambda>r. r\<lparr>o_ledger_entry := Some (le_pk e),
             o_status := Order_PAID, o_subscription := sub,
             o_invoice_number := Some (last_invoice (t_orders s) + 1)\<rparr>) (t_orders s @ [ord])"
          using paid u by (auto simp: paid_at_def v post_entry_def last_invoice_none [OF o(4)])
        then have "t_orders t = t_orders s @ [ord\<lparr>o_ledger_entry := Some (le_pk e),
             o_status := Order_PAID, o_subscription := sub,
             o_invoice_number := Some (last_invoice (t_orders s) + 1)\<rparr>]"
          by (simp add: upd_by_last [OF others])
        then show ?thesis
          using paid u o enough unfolding purchased_def
          by (intro exI [of _ e]) (simp add: paid_at_def v post_entry_def e ledger_entry_of_def)
      qed
      then show ?case
        unfolding wp_ret by (intro wp_mono [OF paid_rest_wp]) (simp_all add: o)
    qed simp
  qed
  have coupon: "wp (case rq_coupon rq of
              None \<Rightarrow> ret ()
            | Some cp \<Rightarrow>
                when_m (discount > 0) (
                  bnd (coupon_use (cp_pk cp)) (\<lambda>updated.
                  check (updated \<noteq> 0 \<or> cp_usage_limit cp \<le> 0) CouponLimitError)))
       (\<lambda>_ v. money_view v = money_view u \<and> t_products v = t_products u) (\<lambda>_ _. True) u" for u
    by (simp add: coupon_use_def wp_simps money_view_def split: option.split)
  show ?thesis
    unfolding checkout_wallet_def wp_atomic create_or_return_def wp_try_except
  proof (rule wp_mono [OF order_create_wp], goal_cases)
    case (1 ord t)
    then obtain n where row: "order_row s (checkout_order rq price discount dm) ord"
        and t: "t = s\<lparr>rng := n, seq := Suc (seq s), t_orders := t_orders s @ [ord]\<rparr>" by blast
    show ?case
      unfolding wp_bnd [of "case_option _ _ _"]
    proof (rule wp_mono [OF coupon], goal_cases)
      case (1 x u)
      then have u: "t_wallets u = t_wallets s" "t_ledger u = t_ledger s" "t_orders u = t_orders s @ [ord]"
        by (simp_all add: t money_view_def)
      show ?case
        using charge [OF row u] price
        by (cases "find_by pr_pk (pl_product (rq_plan rq)) (t_products u)")
          (simp_all only: if_True wp_bnd [of "bnd _ _"] wp_bnd [of "plan_str _"] plan_str_wp option.case simp_thms)
    qed simp
  next
    case (2 x t)
    then show ?case
      using fresh by (auto simp: order_get_by_key_def wp_simps fresh_key_def)
  qed
qed

text \<open>
  C4.  A purchase from the balance costs exactly its price.  For a request whose key is new, when
  the wallet branch of \<open>checkout\<close> returns, the balance covered the (positive) price and went
  down by it, the ledger has one new entry, for minus the price, with the new order's
  reference, and there is one new order: \<open>PAID\<close>, at that price, with the next invoice number
  and linked to the entry.  When it raises (balance too low, coupon used up, a deliverable that
  cannot be provisioned) the database is as it was.
\<close>

theorem wallet_purchase_exact:
  assumes "orders_ok s" and "order_refs_ok s" and "fresh_key rq s"
    and "find_by w_pk (w_pk w) (t_wallets s) = Some w" and "0 < price"
  shows "wp (checkout_wallet E rq w price discount dm) (\<lambda>_ t. purchased s rq w price t) (\<lambda>_ t. t = s) s"
  by (rule checkout_wallet_wp [OF assms])

text \<open>The example database with a deliverable for its plan and a pending order at 40 rupiah.\<close>

definition example_customer :: customer where
  "example_customer = \<lparr>c_pk = 1, c_user = 100, c_email = ''a@b.c'', c_wa_number = [], c_wa_verified_at = None,
     c_channel = Channel_EMAIL, c_notif_promo = False\<rparr>"

definition example_plan :: plan where
  "example_plan = \<lparr>pl_pk = 4, pl_product = 3, pl_name = ''Pro'', pl_price = 40,
       pl_interval = Interval_MONTHLY, pl_seat_limit = 2, pl_active = True, pl_pwyw = False,
       pl_min_price = 0, pl_stock = None, pl_durations = [], pl_sort = 0, pl_direct_pay = True, pl_entitlements = []\<rparr>"

definition example_order :: order where
  "example_order = (new_order 1 4 40 Order_PENDING (Some ''k1''))\<lparr>o_pk := 1, o_public_id := ''ord_1''\<rparr>"

definition example_wallet :: wallet where
  "example_wallet = \<lparr>w_pk = 1, w_customer = 1, w_balance = 100\<rparr>"

definition example_shop_db :: db where
  "example_shop_db = example_sub_db\<lparr>t_customers := [example_customer],
     t_deliverables := [\<lparr>d_pk = 6, d_plan = 4, d_type = ''download'', d_config = []\<rparr>],
     t_orders := [example_order]\<rparr>"

definition example_request :: checkout_request where
  "example_request = \<lparr>rq_customer = example_customer, rq_plan = example_plan, rq_key = ''k2'', rq_coupon = None,
     rq_price_override = None, rq_multiplier = 1, rq_custom_fields = [], rq_return_url = ''u'',
     rq_method = None, rq_proof = None\<rparr>"

lemmas example_defs = example_shop_db_def example_sub_db_def example_wallet_db_def empty_db_def
  example_order_def new_order_def example_wallet_def

lemma example_shop_ok: "ledger_ok example_shop_db" "orders_ok example_shop_db" "order_refs_ok example_shop_db"
    "find_by w_pk 1 (t_wallets example_shop_db) = Some example_wallet"
proof -
  show "ledger_ok example_shop_db"
    using example_sub_ok(1) by (rule ledger_ok_frame) (simp_all add: example_shop_db_def)
qed (simp_all add: orders_ok_def order_refs_ok_def unique_column_def unique_clash_def example_defs)

theorem wallet_purchase_exact_witness:
  "wp (checkout_wallet demo_env example_request example_wallet 40 0 1)
     (\<lambda>_ t. map le_amount (t_ledger t) = [100, -40] \<and> map w_balance (t_wallets t) = [60])
     (\<lambda>_ t. t = example_shop_db) example_shop_db"
proof -
  have "fresh_key example_request example_shop_db" "find_by w_pk (w_pk example_wallet) (t_wallets example_shop_db) = Some example_wallet"
      "(0::int) < 40"
    by (simp_all add: fresh_key_def example_request_def example_defs)
  from wallet_purchase_exact [OF example_shop_ok(2,3) this, of demo_env 0 1] show ?thesis
    by (rule wp_mono) (auto simp: purchased_def example_defs)
qed

text \<open>
  C5.  A pending order is settled once, exactly, or not at all.  \<open>complete_pending_order\<close> on an
  order that is not \<open>PENDING\<close> changes nothing and returns no grant; on a pending order
  whose customer's balance is too low it changes nothing and the order stays \<open>PENDING\<close>;
  otherwise it takes exactly the order's amount from the customer's wallet with one ledger entry
  under the order's reference, and marks the order \<open>PAID\<close> with the next invoice number and
  that entry.  Any other failure leaves the database as it was.
\<close>

theorem pending_order_settled_exactly:
  assumes "find_by o_pk k (t_orders s) = Some ord" and "distinct (map w_pk (t_wallets s))"
    and "find_by le_ref (''order:'' @ o_public_id ord) (t_ledger s) = None"
  shows "wp (complete_pending_order E k)
     (\<lambda>grants t. t = s \<and> grants = [] \<and> (o_status ord \<noteq> Order_PENDING
            \<or> (\<exists>w. find_by w_customer (o_customer ord) (t_wallets s) = Some w \<and> w_balance w < o_amount ord))
        \<or> o_status ord = Order_PENDING
            \<and> (\<exists>w. find_by w_customer (o_customer ord) (t_wallets s) = Some w \<and> settled s ord w t))
     (\<lambda>x t. t = s \<and> x \<noteq> InsufficientBalance) s"
  by (rule complete_pending_wp [OF assms])

theorem pending_order_settled_exactly_witness:
  "wp (complete_pending_order demo_env 1)
     (\<lambda>grants t. map le_amount (t_ledger t) = [100, -40] \<and> map o_status (t_orders t) = [Order_PAID])
     (\<lambda>x t. t = example_shop_db) example_shop_db"
proof -
  have "find_by o_pk 1 (t_orders example_shop_db) = Some example_order" "distinct (map w_pk (t_wallets example_shop_db))"
      "find_by le_ref (''order:'' @ o_public_id example_order) (t_ledger example_shop_db) = None"
    by (simp_all add: example_defs)
  from pending_order_settled_exactly [OF this, of demo_env] show ?thesis
    by (rule wp_mono) (auto simp: settled_def example_defs)
qed

text \<open>
  A pending order of amount 0 can never be completed: \<open>debit\<close> refuses a zero amount with
  \<open>ValueError\<close>, which \<open>complete_pending_order\<close> does not catch (it only catches
  \<open>InsufficientBalance\<close>), so a line made free by its coupon leaves its order, and the cart
  it belongs to, pending forever.
\<close>

theorem zero_order_never_completes:
  assumes "find_by o_pk k (t_orders s) = Some ord" and "o_status ord = Order_PENDING" and "o_amount ord = 0"
    and "find_by w_customer (o_customer ord) (t_wallets s) = Some w"
    and "find_by pl_pk (o_plan ord) (t_plans s) = Some pl" and "find_by pr_pk (pl_product pl) (t_products s) = Some pr"
  shows "complete_pending_order E k s = (Inl (ValueError ''debit amount''), s)"
proof -
  have "wp (complete_pending_order E k) (\<lambda>_ _. False) (\<lambda>x t. x = ValueError ''debit amount'' \<and> t = s) s"
    using assms
    by (simp add: complete_pending_order_def wp_simps) (simp add: wp_def debit_def run_simps)
  then show ?thesis
    by (cases "complete_pending_order E k s") (auto simp: wp_def split: sum.splits)
qed

theorem zero_order_never_completes_witness:
  "fst (complete_pending_order demo_env 1 (example_shop_db\<lparr>t_orders := [example_order\<lparr>o_amount := 0\<rparr>]\<rparr>))
     = Inl (ValueError ''debit amount'')"
  by (subst zero_order_never_completes [where ord = "example_order\<lparr>o_amount := 0\<rparr>" and w = example_wallet
        and pl = example_plan and pr = "\<lparr>pr_pk = 3, pr_seller = None, pr_name = ''App'', pr_slug = ''app'',
          pr_type = Product_RECURRING, pr_visibility = Visibility_PUBLIC\<rparr>"])
    (simp_all add: example_defs example_plan_def)

section \<open>Static QRIS\<close>

definition pay_view :: "db \<Rightarrow> wallet list \<times> ledger_entry list \<times> seller_earning list" where
  "pay_view s = (t_wallets s, t_ledger s, t_earnings s)"

interpretation manual_pay: provision_frame "\<lambda>s. pay_view s = V" pay_view
  by unfold_locales (auto simp: pay_view_def)

lemma order_writes_pay:
  "pres (\<lambda>s. pay_view s = V) (increment_coupon_usage ord)" "pres (\<lambda>s. pay_view s = V) (attach_subscription E ord pl dm)"
  "pres (\<lambda>s. pay_view s = V) (order_save ord)" "pres (\<lambda>s. pay_view s = V) (order_save_status k ost)"
  "pres (\<lambda>s. pay_view s = V) (order_create E ord)" "pres (\<lambda>s. pay_view s = V) (assign_invoice_number ord)"
  "pres I (order_get k)" "pres I (grants_of_order k)" "pres I (order_get_by_key key)"
  unfolding increment_coupon_usage_def attach_subscription_def order_save_def order_save_status_def order_create_def
    coupon_use_def create_subscription_def assign_invoice_number_def order_get_def grants_of_order_def Let_def
    order_get_by_key_def
  by (auto intro!: pres_intros manual_pay.frame_modify split: interval.splits) (simp_all add: pay_view_def)

lemma confirm_manual_payment_pay: "pres (\<lambda>s. pay_view s = V) (confirm_manual_payment E k)"
  unfolding confirm_manual_payment_def by (intro pres_intros order_writes_pay)

text \<open>
  A static QRIS sale never moves platform money.  Neither placing such an order, nor the
  seller's confirmation (of an order or of a whole cart), nor the rejection touches a wallet,
  the ledger or the sellers' earnings; confirming or rejecting an order that is not awaiting
  confirmation changes nothing; and a confirmation that fails leaves the database as it was.
\<close>

theorem manual_payment_moves_no_money:
  "wp (confirm_manual_payment E k) (\<lambda>_ t. pay_view t = pay_view s) (\<lambda>_ t. t = s) s
   \<and> pay_view (snd (reject_manual_payment ord reason s)) = pay_view s
   \<and> pay_view (snd (confirm_cart_manual_payment E cc s)) = pay_view s
   \<and> pay_view (snd (checkout_qris E rq pr price discount dm s)) = pay_view s
   \<and> (if map_option awaiting_seller_confirmation (find_by o_pk k (t_orders s)) = Some False
      then snd (confirm_manual_payment E k s) = s else True)"
proof (intro conjI)
  show "wp (confirm_manual_payment E k) (\<lambda>_ t. pay_view t = pay_view s) (\<lambda>_ t. t = s) s"
  proof -
    have "wp (confirm_manual_payment E k) (\<lambda>_ t. pay_view t = pay_view s) (\<lambda>_ t. pay_view t = pay_view s) s"
      using confirm_manual_payment_pay by (simp add: pres_wp)
    then show ?thesis
      by (auto simp: confirm_manual_payment_def wp_atomic elim!: wp_mono)
  qed
  have reject: "pres (\<lambda>t. pay_view t = pay_view s) (reject_manual_payment ord reason)"
    unfolding reject_manual_payment_def by (intro pres_intros order_writes_pay)
  show "pay_view (snd (reject_manual_payment ord reason s)) = pay_view s"
    by (rule presD [OF reject]) simp
  have cart: "pres (\<lambda>t. pay_view t = pay_view s) (confirm_cart_manual_payment E cc)"
    unfolding confirm_cart_manual_payment_def cart_checkout_set_status_def
    by (intro pres_intros confirm_manual_payment_pay manual_pay.frame_modify) (simp_all add: pay_view_def)
  show "pay_view (snd (confirm_cart_manual_payment E cc s)) = pay_view s"
    by (rule presD [OF cart]) simp
  have qris: "pres (\<lambda>t. pay_view t = pay_view s) (checkout_qris E rq pr price discount dm)"
    unfolding checkout_qris_def create_or_return_def by (intro pres_intros order_writes_pay)
  show "pay_view (snd (checkout_qris E rq pr price discount dm s)) = pay_view s"
    by (rule presD [OF qris]) simp
  show "if map_option awaiting_seller_confirmation (find_by o_pk k (t_orders s)) = Some False
      then snd (confirm_manual_payment E k s) = s else True"
    by (auto simp: confirm_manual_payment_def order_get_def grants_of_order_def run_simps)
qed

section \<open>Deliverables without a provisioner\<close>

definition undeliverable :: "env \<Rightarrow> nat \<Rightarrow> db \<Rightarrow> bool" where
  "undeliverable E pl s =
     (\<exists>d \<in> set (t_deliverables s). d_plan d = pl \<and> map_of (app_registry E) (d_type d) = None)"

lemma account_unregistered: "map_of (app_registry E) ''account'' = None"
  by (simp add: app_registry_eq)

lemma map_m_fails:
  assumes fails: "\<And>u. wp (f d) (\<lambda>_ _. False) (\<lambda>_ _. True) u"
  shows "d \<in> set xs \<Longrightarrow> wp (map_m f xs) (\<lambda>_ _. False) (\<lambda>_ _. True) s"
proof (induction xs arbitrary: s)
  case (Cons y ys)
  then consider "d = y" | "d \<in> set ys" by auto
  then show ?case
  proof cases
    case 1
    then show ?thesis
      using wp_mono [OF fails] by (simp add: wp_bnd)
  next
    case 2
    then have "wp (map_m f ys) Q (\<lambda>_ _. True) t" for t Q
      by (intro wp_mono [OF Cons.IH]) auto
    then show ?thesis
      by (simp add: wp_bnd wp_any)
  qed
qed simp

lemma provision_order_fails:
  "undeliverable E (o_plan ord) s \<Longrightarrow> wp (provision_order E ord sub) (\<lambda>_ _. False) (\<lambda>_ _. True) s"
  by (auto simp: undeliverable_def provision_order_def wp_bnd [of "gets _"] wp_gets registry_get_def or_raise_def
      wp_raise intro!: map_m_fails)

lemma order_steps_keep_plan:
  "gives (\<lambda>x. o_plan x = o_plan ord) (assign_invoice_number (ord\<lparr>o_status := Order_PAID\<rparr>))"
  "gives (\<lambda>x. o_plan x = o_plan ord) (attach_subscription E ord pl dm)"
  by (auto simp: assign_invoice_number_def attach_subscription_def intro!: gives_ret gives_then)

definition hopeless :: "(db \<Rightarrow> bool) \<Rightarrow> 'a prog \<Rightarrow> bool" where
  "hopeless P m = (\<forall>s. P s \<longrightarrow> wp m (\<lambda>_ _. False) (\<lambda>_ _. True) s)"

lemma hopeless_now: "hopeless P m \<Longrightarrow> hopeless P (bnd m f)"
  by (auto simp: hopeless_def wp_bnd intro: wp_mono)

lemma hopeless_later:
  assumes "pres P m" and "gives R m" and "\<And>x. R x \<Longrightarrow> hopeless P (f x)"
  shows "hopeless P (bnd m f)"
  unfolding hopeless_def wp_bnd
proof (intro allI impI)
  fix s assume "P s"
  then have "wp m (\<lambda>_. P) (\<lambda>_. P) s" using assms(1) by (simp add: pres_wp)
  from wp_both [OF this givesD [OF assms(2)]]
  show "wp m (\<lambda>x. wp (f x) (\<lambda>_ _. False) (\<lambda>_ _. True)) (\<lambda>_ _. True) s"
    by (rule wp_mono) (use assms(3) in \<open>auto simp: hopeless_def\<close>)
qed

text \<open>Nothing in a purchase writes the deliverables.\<close>

interpretation catalogue: wallet_frame "\<lambda>s. t_deliverables s = D" t_deliverables by unfold_locales auto
interpretation catalogue: provision_frame "\<lambda>s. t_deliverables s = D" t_deliverables by unfold_locales auto
interpretation catalogue: order_frame "\<lambda>s. t_deliverables s = D" t_deliverables by unfold_locales auto
interpretation catalogue: subs_frame "\<lambda>s. t_deliverables s = D" t_deliverables by unfold_locales auto

lemma paid_rest_hopeless:
  assumes "\<exists>d \<in> set D. d_plan d = o_plan ord \<and> map_of (app_registry E) (d_type d) = None"
  shows "hopeless (\<lambda>s. t_deliverables s = D) (bnd (assign_invoice_number (ord\<lparr>o_status := Order_PAID\<rparr>)) (\<lambda>ord.
       bnd (attach_subscription E ord pl dm) (\<lambda>ord.
       bnd (order_save ord) (\<lambda>_.
       bnd (provision_order E ord (new_subscription_of pl ord)) (\<lambda>grants.
       bnd (record_seller_earning ord) (\<lambda>_.
       bnd (emit (Order_paid (o_customer ord) (o_pk ord) (o_plan ord))) (\<lambda>_.
       ret (ord, grants, None))))))))" (is "hopeless ?I _")
proof (rule hopeless_later [OF catalogue.assign_invoice_number_pres order_steps_keep_plan(1)],
    rule hopeless_later [OF _ order_steps_keep_plan(2)],
    goal_cases)
  case (1 x)
  show ?case unfolding attach_subscription_def by (intro pres_intros)
next
  case (2 x y)
  have "hopeless ?I (provision_order E y (new_subscription_of pl y))"
    using assms 2 unfolding hopeless_def
    by (auto simp: undeliverable_def intro!: provision_order_fails)
  then show ?case
    by (intro hopeless_later [OF catalogue.order_save_pres gives_any] hopeless_now)
qed

text \<open>
  Nothing is sold that cannot be delivered.  When one of the plan's deliverables has a
  type no provisioner is registered for (as \<open>Deliverable.Type.ACCOUNT\<close>), a purchase from the
  balance under a new key always raises, and everything it did before that (order, debit,
  invoice number, subscription, coupon use) is rolled back.
\<close>

theorem undeliverable_never_sold:
  assumes "undeliverable E (pl_pk (rq_plan rq)) s" and fresh: "fresh_key rq s"
  shows "wp (checkout_wallet E rq w price discount dm) (\<lambda>_ _. False) (\<lambda>_ t. t = s) s"
  unfolding checkout_wallet_def wp_atomic create_or_return_def wp_try_except
proof (rule wp_mono [OF order_create_wp], goal_cases)
  case (1 ord t)
  let ?I = "\<lambda>u. t_deliverables u = t_deliverables s"
  have plan: "o_plan ord = pl_pk (rq_plan rq)" and t: "?I t"
    using 1 by (auto simp: order_row_def)
  have bad: "\<exists>d \<in> set (t_deliverables s). d_plan d = o_plan ord \<and> map_of (app_registry E) (d_type d) = None"
    using assms(1) plan by (simp add: undeliverable_def)
  have "hopeless ?I (bnd (case rq_coupon rq of None \<Rightarrow> ret ()
            | Some cp \<Rightarrow> when_m (discount > 0) (bnd (coupon_use (cp_pk cp)) (\<lambda>updated.
                  check (updated \<noteq> 0 \<or> cp_usage_limit cp \<le> 0) CouponLimitError))) (\<lambda>_.
       bnd (if price > 0 then
              bnd (plan_str (rq_plan rq)) (\<lambda>plan_name.
              bnd (debit (w_pk w) price ''purchase'' (''order:'' @ o_public_id ord) (''Purchase: '' @ plan_name)) (\<lambda>entry.
              ret (ord\<lparr>o_ledger_entry := Some (le_pk entry)\<rparr>)))
            else ret ord) (\<lambda>ord.
       bnd (assign_invoice_number (ord\<lparr>o_status := Order_PAID\<rparr>)) (\<lambda>ord.
       bnd (attach_subscription E ord (rq_plan rq) dm) (\<lambda>ord.
       bnd (order_save ord) (\<lambda>_.
       bnd (provision_order E ord (new_subscription_of (rq_plan rq) ord)) (\<lambda>grants.
       bnd (record_seller_earning ord) (\<lambda>_.
       bnd (emit (Order_paid (o_customer ord) (o_pk ord) (o_plan ord))) (\<lambda>_.
       ret (ord, grants, None)))))))))) "
  proof (rule hopeless_later [OF _ gives_any], intro pres_intros,
      rule hopeless_later [where R = "\<lambda>x. o_plan x = o_plan ord"], intro pres_intros, goal_cases)
    case 1
    show ?case by (auto intro!: gives_then gives_ret)
  next
    case (2 x y)
    then show ?case using bad by (intro paid_rest_hopeless) simp
  qed
  then show ?case
    using t unfolding hopeless_def by (blast intro: wp_mono)
next
  case (2 x t)
  then show ?case
    using fresh by (auto simp: order_get_by_key_def wp_simps fresh_key_def)
qed

theorem undeliverable_never_sold_witness:
  "wp (checkout_wallet demo_env example_request example_wallet 40 0 1) (\<lambda>_ _. False)
     (\<lambda>_ t. map o_status (t_orders t) = [Order_PENDING] \<and> map w_balance (t_wallets t) = [100])
     (example_shop_db\<lparr>t_deliverables := [\<lparr>d_pk = 6, d_plan = 4, d_type = ''account'', d_config = []\<rparr>]\<rparr>)"
proof -
  have "undeliverable demo_env (pl_pk (rq_plan example_request))
      (example_shop_db\<lparr>t_deliverables := [\<lparr>d_pk = 6, d_plan = 4, d_type = ''account'', d_config = []\<rparr>]\<rparr>)"
    "fresh_key example_request
      (example_shop_db\<lparr>t_deliverables := [\<lparr>d_pk = 6, d_plan = 4, d_type = ''account'', d_config = []\<rparr>]\<rparr>)"
    by (simp_all add: undeliverable_def account_unregistered fresh_key_def example_request_def example_plan_def
        example_defs)
  from undeliverable_never_sold [OF this] show ?thesis
    by (rule wp_mono) (auto simp: example_defs)
qed

end
