(* ===== verification/Cart.thy ===== *)
theory Cart
  imports Checkout
begin

text \<open>
  \<open>billing/cart_service.py\<close>: the cart of a session or customer, its lines, the price of a line,
  and the checkout of a cart with one order per line under one \<open>CartCheckout\<close>.
\<close>

section \<open>Rows\<close>

text \<open>What the service reads and writes of \<open>request.session\<close>.\<close>

record cart_session =
  ss_key :: "string option"
  ss_cart_id :: "nat option"

definition cart_by_pk :: "nat \<Rightarrow> cart option prog" where
  "cart_by_pk k = gets (\<lambda>s. find_by ca_pk k (t_carts s))"

definition cart_create :: "nat option \<Rightarrow> string \<Rightarrow> cart prog" where
  "cart_create cust key =
     bnd (check (length key \<le> 64) (DataError ''cart'')) (\<lambda>_.
     bnd (gets (\<lambda>s. cust \<noteq> None \<and> find_by ca_customer cust (t_carts s) \<noteq> None)) (\<lambda>clash.
     bnd (check (\<not> clash) (IntegrityError ''cart'')) (\<lambda>_.
     bnd new_pk (\<lambda>pk.
     let row = \<lparr>ca_pk = pk, ca_customer = cust, ca_session_key = key\<rparr>
     in bnd (modify (\<lambda>s. s\<lparr>t_carts := t_carts s @ [row]\<rparr>)) (\<lambda>_. ret row)))))"

text \<open>\<open>cart.items.all()\<close>, in creation order.\<close>

definition cart_items_of :: "nat \<Rightarrow> cart_item list prog" where
  "cart_items_of k = gets (\<lambda>s. filter (\<lambda>i. ci_cart i = k) (t_cart_items s))"

text \<open>A new line; \<open>unique_cart_plan\<close> and the column ranges are checked by the database.\<close>

definition cart_item_create :: "nat \<Rightarrow> nat \<Rightarrow> int \<Rightarrow> string \<Rightarrow> cart_item prog" where
  "cart_item_create k pl multiplier code =
     bnd (check (\<bar>multiplier\<bar> \<le> 32767 \<and> length code \<le> 50) (DataError ''cart item'')) (\<lambda>_.
     bnd (check (0 \<le> multiplier) (IntegrityError ''cart item'')) (\<lambda>_.
     bnd (gets (\<lambda>s. \<exists>i \<in> set (t_cart_items s). ci_cart i = k \<and> ci_plan i = pl)) (\<lambda>clash.
     bnd (check (\<not> clash) (IntegrityError ''unique_cart_plan'')) (\<lambda>_.
     bnd new_pk (\<lambda>pk.
     let row = \<lparr>ci_pk = pk, ci_cart = k, ci_plan = pl, ci_multiplier = multiplier, ci_coupon_code = code\<rparr>
     in bnd (modify (\<lambda>s. s\<lparr>t_cart_items := t_cart_items s @ [row]\<rparr>)) (\<lambda>_. ret row))))))"

text \<open>\<open>item.save(update_fields=[...])\<close> and \<open>.update(duration_multiplier=...)\<close>, on the lines of one cart.\<close>

definition cart_item_save :: "nat \<Rightarrow> int \<Rightarrow> string \<Rightarrow> unit prog" where
  "cart_item_save i multiplier code =
     bnd (check (\<bar>multiplier\<bar> \<le> 32767 \<and> length code \<le> 50) (DataError ''cart item'')) (\<lambda>_.
     bnd (check (0 \<le> multiplier) (IntegrityError ''cart item'')) (\<lambda>_.
     modify (\<lambda>s. s\<lparr>t_cart_items := upd_by ci_pk i
       (\<lambda>r. r\<lparr>ci_multiplier := multiplier, ci_coupon_code := code\<rparr>) (t_cart_items s)\<rparr>)))"

definition cart_items_delete :: "(cart_item \<Rightarrow> bool) \<Rightarrow> unit prog" where
  "cart_items_delete p = modify (\<lambda>s. s\<lparr>t_cart_items := filter (\<lambda>i. \<not> p i) (t_cart_items s)\<rparr>)"

text \<open>\<open>source.delete()\<close>: the lines go with their cart.\<close>

definition cart_delete :: "nat \<Rightarrow> unit prog" where
  "cart_delete k =
     bnd (cart_items_delete (\<lambda>i. ci_cart i = k)) (\<lambda>_.
     modify (\<lambda>s. s\<lparr>t_carts := filter (\<lambda>c. ca_pk c \<noteq> k) (t_carts s)\<rparr>))"

section \<open>Resolving the cart of a request\<close>

definition merge_cart :: "nat \<Rightarrow> nat \<Rightarrow> unit prog" where
  "merge_cart source_id target =
     bnd (cart_by_pk source_id) (\<lambda>v.
     case v of
       None \<Rightarrow> ret ()
     | Some source \<Rightarrow>
         if ca_customer source \<noteq> None then ret ()
         else
           bnd (cart_items_of target) (\<lambda>existing.
           let existing_plan_ids = map ci_plan existing
           in bnd (cart_items_of source_id) (\<lambda>items.
              bnd (for_each (\<lambda>item.
                     if ci_plan item \<notin> set existing_plan_ids
                     then bnd (cart_item_create target (ci_plan item) (ci_multiplier item) (ci_coupon_code item)) (\<lambda>_. ret ())
                     else ret ()) items) (\<lambda>_.
              cart_delete source_id))))"

text \<open>
  \<open>who\<close> is the customer of an authenticated request; \<open>fresh_session_key\<close> is what
  \<open>request.session.create()\<close> makes.
\<close>

definition get_or_create_cart :: "string \<Rightarrow> nat option \<Rightarrow> cart_session \<Rightarrow> (cart \<times> cart_session) prog" where
  "get_or_create_cart fresh_session_key who ss =
     (case who of
        Some cust \<Rightarrow>
          bnd (gets (\<lambda>s. find_by ca_customer (Some cust) (t_carts s))) (\<lambda>v.
          bnd (case v of Some cart \<Rightarrow> ret cart | None \<Rightarrow> cart_create (Some cust) []) (\<lambda>cart.
          case ss_cart_id ss of
            Some k \<Rightarrow>
              if k \<noteq> 0 \<and> k \<noteq> ca_pk cart
              then bnd (merge_cart k (ca_pk cart)) (\<lambda>_. ret (cart, ss\<lparr>ss_cart_id := None\<rparr>))
              else ret (cart, ss)
          | None \<Rightarrow> ret (cart, ss)))
      | None \<Rightarrow>
          let ss1 = (if ss_key ss = None \<or> ss_key ss = Some [] then ss\<lparr>ss_key := Some fresh_session_key\<rparr> else ss)
          in bnd (case ss_cart_id ss1 of
                    None \<Rightarrow> ret None
                  | Some k \<Rightarrow>
                      bnd (cart_by_pk k) (\<lambda>v. ret (case v of None \<Rightarrow> None
                        | Some cart \<Rightarrow> (if k \<noteq> 0 \<and> ca_customer cart = None then Some cart else None)))) (\<lambda>found.
             case found of
               Some cart \<Rightarrow> ret (cart, ss1)
             | None \<Rightarrow>
                 bnd (cart_create None (case ss_key ss1 of None \<Rightarrow> [] | Some key \<Rightarrow> key)) (\<lambda>cart.
                 ret (cart, ss1\<lparr>ss_cart_id := Some (ca_pk cart)\<rparr>))))"

section \<open>Lines\<close>

definition add_to_cart :: "nat \<Rightarrow> plan \<Rightarrow> int \<Rightarrow> string \<Rightarrow> cart_item prog" where
  "add_to_cart cart pl duration_multiplier coupon_code =
     bnd (check (\<not> pl_pwyw pl) (PlanNotCartableError ''pwyw'')) (\<lambda>_.
     bnd (gets (\<lambda>s. \<exists>q \<in> set (t_questions s). q_product q = pl_product pl)) (\<lambda>asks.
     bnd (check (\<not> asks) (PlanNotCartableError ''questions'')) (\<lambda>_.
     let dm = max 1 duration_multiplier;
         code = upper (strip coupon_code);
         lookup = gets (\<lambda>s. find (\<lambda>i. ci_cart i = cart \<and> ci_plan i = pl_pk pl) (t_cart_items s))
     in bnd (try_except
               (atomic (
                  bnd lookup (\<lambda>v.
                  case v of
                    Some item \<Rightarrow> ret (item, False)
                  | None \<Rightarrow> bnd (cart_item_create cart (pl_pk pl) dm code) (\<lambda>item. ret (item, True)))))
               is_integrity
               (\<lambda>_. bnd lookup (\<lambda>v. bnd (or_raise v (DoesNotExist ''CartItem'')) (\<lambda>item. ret (item, False))))
               ret) (\<lambda>(item, created).
        if created then ret item
        else bnd (cart_item_save (ci_pk item) dm code) (\<lambda>_.
             ret (item\<lparr>ci_multiplier := dm, ci_coupon_code := code\<rparr>))))))"

definition remove_from_cart :: "nat \<Rightarrow> nat \<Rightarrow> unit prog" where
  "remove_from_cart cart item_pk = cart_items_delete (\<lambda>i. ci_cart i = cart \<and> ci_pk i = item_pk)"

definition update_cart_item :: "nat \<Rightarrow> nat \<Rightarrow> int \<Rightarrow> unit prog" where
  "update_cart_item cart item_pk duration_multiplier =
     bnd (gets (\<lambda>s. \<exists>i \<in> set (t_cart_items s). ci_cart i = cart \<and> ci_pk i = item_pk)) (\<lambda>found.
     bnd (check (found \<longrightarrow> max 1 duration_multiplier \<le> 32767) (DataError ''cart item'')) (\<lambda>_.
     modify (\<lambda>s. s\<lparr>t_cart_items := upd_where (\<lambda>i. ci_cart i = cart \<and> ci_pk i = item_pk)
       (\<lambda>r. r\<lparr>ci_multiplier := max 1 duration_multiplier\<rparr>) (t_cart_items s)\<rparr>)))"

section \<open>Prices\<close>

text \<open>A priced line: the item, its price, the discount, the coupon that gave it, and the price before it.\<close>

record cart_line =
  ln_item :: cart_item
  ln_price :: int
  ln_discount :: int
  ln_coupon :: "coupon option"
  ln_base :: int

definition compute_cart_line :: "cart_item \<Rightarrow> cart_line prog" where
  "compute_cart_line item =
     bnd (plan_get (ci_plan item)) (\<lambda>pl.
     let dm = (if pl_interval pl \<noteq> Interval_NONE then max 1 (ci_multiplier item) else 1);
         base = (if dm > 1
                 then (let subtotal = pl_price pl * dm;
                           disc_pct = (case map_of (pl_durations pl) (str_int dm) of None \<Rightarrow> 0 | Some d \<Rightarrow> d)
                       in subtotal - (subtotal * disc_pct div 100))
                 else pl_price pl)
     in bnd (if ci_coupon_code item = [] then ret (None, 0)
             else
               bnd (gets (\<lambda>s. find_by cp_code (ci_coupon_code item) (t_coupons s))) (\<lambda>v.
               bnd now (\<lambda>t.
               ret (case v of
                      None \<Rightarrow> (None, 0)
                    | Some cp \<Rightarrow> (if fst (is_valid_for cp t (Some (pl_pk pl))) then (Some cp, compute_discount cp base)
                                else (None, 0)))))) (\<lambda>(cp, discount).
        ret \<lparr>ln_item = item, ln_price = max 0 (base - discount), ln_discount = discount, ln_coupon = cp, ln_base = base\<rparr>))"

definition sum_prices :: "cart_line list \<Rightarrow> int" where
  "sum_prices lines = sum_list (map ln_price lines)"

definition cart_total :: "nat \<Rightarrow> int prog" where
  "cart_total cart =
     bnd (cart_items_of cart) (\<lambda>items. bnd (map_m compute_cart_line items) (\<lambda>lines. ret (sum_prices lines)))"

section \<open>Checkout\<close>

definition cart_checkout_public_id_taken :: "string \<Rightarrow> db \<Rightarrow> bool" where
  "cart_checkout_public_id_taken i s = (find_by cc_public_id i (t_cart_checkouts s) \<noteq> None)"

definition cart_checkout_create :: "env \<Rightarrow> nat \<Rightarrow> cart_checkout_status \<Rightarrow> cart_checkout prog" where
  "cart_checkout_create E cust st =
     bnd (assign_unique_public_id E ''cco_'' cart_checkout_public_id_taken) (\<lambda>public_id.
     bnd new_pk (\<lambda>pk.
     let row = \<lparr>cc_pk = pk, cc_public_id = public_id, cc_customer = cust, cc_status = st\<rparr>
     in bnd (modify (\<lambda>s. s\<lparr>t_cart_checkouts := t_cart_checkouts s @ [row]\<rparr>)) (\<lambda>_. ret row)))"

text \<open>The pending order of a line; \<open>order_create\<close> gives it its keys.\<close>

definition line_order :: "nat \<Rightarrow> nat \<Rightarrow> nat \<Rightarrow> cart_line \<Rightarrow> order" where
  "line_order cust cart cc line =
     (new_order cust (ci_plan (ln_item line)) (ln_price line) Order_PENDING
        (Some (''cart:'' @ str_nat cart @ '':item:'' @ str_nat (ci_pk (ln_item line)))))
       \<lparr>o_discount := ln_discount line,
        o_coupon := (if ln_discount line > 0 then map_option cp_pk (ln_coupon line) else None),
        o_multiplier := ci_multiplier (ln_item line), o_cart_checkout := Some cc\<rparr>"

text \<open>\<open>cart_service._increment_coupon_usage\<close>: a used-up coupon is only logged.\<close>

definition cart_increment_coupon_usage :: "coupon \<Rightarrow> unit prog" where
  "cart_increment_coupon_usage cp = bnd (coupon_use (cp_pk cp)) (\<lambda>_. ret ())"

text \<open>The body of the loop over the lines when the balance covers the cart.\<close>

definition pay_line :: "env \<Rightarrow> nat \<Rightarrow> nat \<Rightarrow> nat \<Rightarrow> wallet \<Rightarrow> cart_line \<Rightarrow> grant list prog" where
  "pay_line E cust cart cc w line =
     bnd (plan_get (ci_plan (ln_item line))) (\<lambda>pl.
     bnd (order_create E (line_order cust cart cc line)) (\<lambda>ord.
     bnd (case ln_coupon line of
            None \<Rightarrow> ret ()
          | Some cp \<Rightarrow> when_m (ln_discount line > 0) (cart_increment_coupon_usage cp)) (\<lambda>_.
     bnd (if ln_price line > 0 then
            bnd (plan_str pl) (\<lambda>plan_name.
            bnd (debit (w_pk w) (ln_price line) ''purchase'' (''order:'' @ o_public_id ord) (''Purchase: '' @ plan_name)) (\<lambda>entry.
            ret (ord\<lparr>o_ledger_entry := Some (le_pk entry)\<rparr>)))
          else ret ord) (\<lambda>ord.
     bnd (assign_invoice_number (ord\<lparr>o_status := Order_PAID\<rparr>)) (\<lambda>ord.
     bnd (attach_subscription E ord pl (ci_multiplier (ln_item line))) (\<lambda>ord.
     bnd (order_save ord) (\<lambda>_.
     bnd (provision_order E ord (new_subscription_of pl ord)) (\<lambda>grants.
     bnd (record_seller_earning ord) (\<lambda>_.
     bnd (emit (Order_paid cust (o_pk ord) (o_plan ord))) (\<lambda>_.
     ret grants))))))))))"

type_synonym cart_result = "cart_checkout \<times> grant list \<times> string option"

definition clear_lines :: "nat \<Rightarrow> cart_line list \<Rightarrow> unit prog" where
  "clear_lines cart lines =
     cart_items_delete (\<lambda>i. ci_cart i = cart \<and> ci_pk i \<in> set (map (\<lambda>l. ci_pk (ln_item l)) lines))"

text \<open>The seller of a line's product: its row, or none.\<close>

definition line_seller :: "cart_line \<Rightarrow> nat option prog" where
  "line_seller line =
     bnd (plan_get (ci_plan (ln_item line))) (\<lambda>pl.
     bnd (product_get (pl_product pl)) (\<lambda>pr. ret (pr_seller pr)))"

definition cart_qris ::
  "env \<Rightarrow> nat \<Rightarrow> nat \<Rightarrow> string option \<Rightarrow> cart_line list \<Rightarrow> cart_result prog" where
  "cart_qris E cust cart payment_proof lines =
     bnd (map_m line_seller lines) (\<lambda>seller_ids.
     bnd (gets (\<lambda>s. case seller_ids of Some k # _ \<Rightarrow> find_by sel_pk k (t_sellers s) | _ \<Rightarrow> None)) (\<lambda>seller.
     bnd (check (length (remdups seller_ids) = 1
            \<and> (case seller of None \<Rightarrow> False | Some sel \<Rightarrow> qris_ready sel)) (CartError ''Static QRIS'')) (\<lambda>_.
     bnd (atomic (
       bnd (cart_checkout_create E cust CartCheckout_PENDING) (\<lambda>cc.
       bnd (map_m (\<lambda>(n, line). order_create E ((line_order cust cart (cc_pk cc) line)
              \<lparr>o_channel := Pay_QRIS_STATIC, o_proof := (if n = 0 then payment_proof else None)\<rparr>))
              (enumerate 0 lines)) (\<lambda>_.
       bnd (clear_lines cart lines) (\<lambda>_.
       ret cc))))) (\<lambda>cc.
     bnd (gets (\<lambda>s. find (\<lambda>r. o_cart_checkout r = Some (cc_pk cc)) (rev (t_orders s)))) (\<lambda>v.
     bnd (or_raise v (AttributeError ''pk'')) (\<lambda>first_order.
     bnd (emit (Order_awaiting_confirmation cust (o_pk first_order) None)) (\<lambda>_.
     ret (cc, [], None))))))))"

definition cart_wallet ::
  "env \<Rightarrow> nat \<Rightarrow> nat \<Rightarrow> wallet \<Rightarrow> cart_line list \<Rightarrow> cart_result prog" where
  "cart_wallet E cust cart w lines =
     bnd (cart_checkout_create E cust CartCheckout_COMPLETED) (\<lambda>cc.
     bnd (atomic (
       bnd (map_m (pay_line E cust cart (cc_pk cc) w) lines) (\<lambda>grants.
       bnd (clear_lines cart lines) (\<lambda>_.
       ret (concat grants))))) (\<lambda>grants_all.
     ret (cc, grants_all, None)))"

definition cart_gateway ::
  "env \<Rightarrow> customer \<Rightarrow> nat \<Rightarrow> wallet \<Rightarrow> string option \<Rightarrow> string \<Rightarrow> int \<Rightarrow> cart_line list \<Rightarrow> cart_result prog" where
  "cart_gateway E cust cart w payment_method return_url amount_due lines =
     bnd (check (case payment_method of None \<Rightarrow> False | Some m \<Rightarrow> m \<noteq> []) CartPaymentMethodRequiredError) (\<lambda>_.
     let shortfall = amount_due - w_balance w
     in atomic (
       bnd (cart_checkout_create E (c_pk cust) CartCheckout_PENDING) (\<lambda>cc.
       bnd (map_m (\<lambda>line. order_create E (line_order (c_pk cust) cart (cc_pk cc) line)) lines) (\<lambda>_.
       bnd (initiate_topup E cust shortfall (case payment_method of None \<Rightarrow> [] | Some m \<Rightarrow> m) 0 return_url) (\<lambda>(topup, payment_url).
       bnd (topup_link_cart (tu_pk topup) (cc_pk cc)) (\<lambda>_.
       bnd (clear_lines cart lines) (\<lambda>_.
       ret (cc, [], Some payment_url))))))))"

definition checkout_cart ::
  "env \<Rightarrow> customer \<Rightarrow> nat \<Rightarrow> string \<Rightarrow> string option \<Rightarrow> string option \<Rightarrow> nat list option \<Rightarrow> cart_result prog" where
  "checkout_cart E cust cart return_url payment_method payment_proof selected_item_ids =
     bnd (cart_items_of cart) (\<lambda>all_items.
     let items = (case selected_item_ids of
                    None \<Rightarrow> all_items
                  | Some wanted \<Rightarrow> filter (\<lambda>i. ci_pk i \<in> set wanted) all_items)
     in bnd (check (items \<noteq> []) EmptyCartError) (\<lambda>_.
        bnd (map_m compute_cart_line items) (\<lambda>lines.
        let amount_due = sum_prices lines
        in if payment_method = Some ''qris_static''
           then cart_qris E (c_pk cust) cart payment_proof lines
           else
             bnd (customer_wallet (c_pk cust)) (\<lambda>w.
             if w_balance w \<ge> amount_due then cart_wallet E (c_pk cust) cart w lines
             else cart_gateway E cust cart w payment_method return_url amount_due lines))))"

text \<open>The orders are listed newest first, as the model's ordering says.\<close>

definition complete_cart_checkout :: "env \<Rightarrow> nat \<Rightarrow> grant list prog" where
  "complete_cart_checkout E cc =
     bnd (gets (\<lambda>s. rev (filter (\<lambda>r. o_cart_checkout r = Some cc \<and> o_status r = Order_PENDING) (t_orders s)))) (\<lambda>pending.
     bnd (map_m (\<lambda>ord. complete_pending_order E (o_pk ord)) pending) (\<lambda>grants.
     bnd (cart_checkout_set_status cc CartCheckout_COMPLETED) (\<lambda>_.
     ret (concat grants))))"

section \<open>The interface to the rest of the program\<close>

context completion_inv
begin

lemma complete_cart_checkout_pres [pres_intros]: "pres I (complete_cart_checkout E cc)"
  unfolding complete_cart_checkout_def by (intro pres_intros)

end

context checkout_inv
begin

lemma compute_cart_line_pres [pres_intros]: "pres I (compute_cart_line item)"
  unfolding compute_cart_line_def Let_def by (intro pres_intros)

lemma pay_line_pres [pres_intros]: "pres I (pay_line E cust k cc w line)"
  unfolding pay_line_def cart_increment_coupon_usage_def by (intro pres_intros)

end

locale cart_inv = checkout_inv +
  assumes cart_create_pres [pres_intros]: "pres I (cart_create cust key)"
    and cart_item_create_pres [pres_intros]: "1 \<le> m \<Longrightarrow> pres I (cart_item_create k pl m code)"
    and cart_item_save_pres [pres_intros]: "1 \<le> m \<Longrightarrow> pres I (cart_item_save i m code)"
    and cart_items_delete_pres [pres_intros]: "pres I (cart_items_delete p)"
    and cart_delete_pres [pres_intros]: "pres I (cart_delete k)"
    and update_cart_item_pres [pres_intros]: "pres I (update_cart_item k i m)"
    and merge_cart_pres [pres_intros]: "pres I (merge_cart k j)"
    and cart_checkout_create_pres [pres_intros]: "pres I (cart_checkout_create E owner ccst)"
begin

lemma cart_by_pk_pres [pres_intros]: "pres I (cart_by_pk k)"
  unfolding cart_by_pk_def by (intro pres_intros)

lemma cart_items_of_pres [pres_intros]: "pres I (cart_items_of k)"
  unfolding cart_items_of_def by (intro pres_intros)

lemma get_or_create_cart_pres [pres_intros]: "pres I (get_or_create_cart fresh who ss)"
  unfolding get_or_create_cart_def Let_def by (intro pres_intros)

lemma add_to_cart_pres [pres_intros]: "pres I (add_to_cart k pl m code)"
  unfolding add_to_cart_def Let_def by (intro pres_intros) simp_all

lemma remove_from_cart_pres [pres_intros]: "pres I (remove_from_cart k i)"
  unfolding remove_from_cart_def by (intro pres_intros)

lemma cart_total_pres [pres_intros]: "pres I (cart_total k)"
  unfolding cart_total_def by (intro pres_intros)

lemma clear_lines_pres [pres_intros]: "pres I (clear_lines k lines)"
  unfolding clear_lines_def by (intro pres_intros)

lemma cart_qris_pres [pres_intros]: "pres I (cart_qris E cust k pp lines)"
  unfolding cart_qris_def line_seller_def by (intro pres_intros)

lemma cart_wallet_pres [pres_intros]: "pres I (cart_wallet E cust k w lines)"
  unfolding cart_wallet_def by (intro pres_intros)

lemma cart_gateway_pres [pres_intros]: "pres I (cart_gateway E cust k w pm ru n lines)"
  unfolding cart_gateway_def Let_def by (intro pres_intros)

lemma checkout_cart_pres [pres_intros]: "pres I (checkout_cart E cust k ru pm pp sel)"
  unfolding checkout_cart_def Let_def by (intro pres_intros)

end

locale cart_frame = checkout_inv I + frame_inv I view for I view +
  assumes view_cart: "view (s\<lparr>t_carts := Ca\<rparr>) = view s" "view (s\<lparr>t_cart_items := It\<rparr>) = view s"
    "view (s\<lparr>t_cart_checkouts := Cc\<rparr>) = view s"

sublocale cart_frame \<subseteq> cart_inv I
proof
  fix cust key k pl m code i p j E owner ccst
  show create: "pres I (cart_create cust key)" "pres I (cart_item_create k pl m code)" for m code k pl cust key
    unfolding cart_create_def cart_item_create_def Let_def
    by (auto intro!: pres_intros frame_modify simp: view_cart)
  show "pres I (cart_item_save i m code)" "pres I (cart_items_delete p)"
    "pres I (update_cart_item k i m)" "pres I (cart_checkout_create E owner ccst)"
    unfolding cart_item_save_def cart_items_delete_def update_cart_item_def cart_checkout_create_def Let_def
    by (auto intro!: pres_intros frame_modify simp: view_cart)
  show delete: "pres I (cart_delete k)" for k
    unfolding cart_delete_def cart_items_delete_def by (auto intro!: pres_intros frame_modify simp: view_cart)
  show "pres I (merge_cart k j)"
    unfolding merge_cart_def cart_by_pk_def cart_items_of_def Let_def
    by (intro pres_intros create delete)
qed

interpretation ledger: cart_frame ledger_ok "\<lambda>s. (t_wallets s, t_ledger s)"
  by unfold_locales auto
interpretation history: cart_frame "\<lambda>s. \<exists>M. t_ledger s = L @ M" "\<lambda>s. (t_wallets s, t_ledger s)"
  by unfold_locales auto
interpretation sales: cart_frame sales_ok "\<lambda>s. (t_orders s, t_coupons s, t_earnings s)"
  by unfold_locales auto

section \<open>Carts keep one line per plan\<close>

text \<open>
  Keys are unique and used up, a customer has one cart, a cart has one line per plan, and every line
  is within its columns' ranges, with a multiplier of at least 1.
\<close>

definition line_ok :: "cart_item \<Rightarrow> bool" where
  "line_ok i = (1 \<le> ci_multiplier i \<and> ci_multiplier i \<le> 32767 \<and> length (ci_coupon_code i) \<le> 50)"

definition carts_ok :: "db \<Rightarrow> bool" where
  "carts_ok s =
     (distinct (map ca_pk (t_carts s)) \<and> (\<forall>c \<in> set (t_carts s). ca_pk c < seq s)
      \<and> distinct (filter (\<lambda>c. c \<noteq> None) (map ca_customer (t_carts s)))
      \<and> distinct (map ci_pk (t_cart_items s)) \<and> distinct (map (\<lambda>i. (ci_cart i, ci_plan i)) (t_cart_items s))
      \<and> (\<forall>i \<in> set (t_cart_items s). ci_pk i < seq s \<and> line_ok i))"

lemma carts_ok_frame:
  "carts_ok s \<Longrightarrow> t_carts t = t_carts s \<Longrightarrow> t_cart_items t = t_cart_items s \<Longrightarrow> seq s \<le> seq t \<Longrightarrow> carts_ok t"
  by (auto simp: carts_ok_def intro: less_le_trans)

interpretation lines: wallet_frame carts_ok "\<lambda>s. (t_carts s, t_cart_items s)"
  by unfold_locales (auto elim: carts_ok_frame)
interpretation lines: provision_frame carts_ok "\<lambda>s. (t_carts s, t_cart_items s)" by unfold_locales auto
interpretation lines: order_frame carts_ok "\<lambda>s. (t_carts s, t_cart_items s)" by unfold_locales auto
interpretation lines: subs_frame carts_ok "\<lambda>s. (t_carts s, t_cart_items s)" by unfold_locales auto
interpretation lines: topup_frame carts_ok "\<lambda>s. (t_carts s, t_cart_items s)" by unfold_locales auto
interpretation lines: checkout_frame carts_ok "\<lambda>s. (t_carts s, t_cart_items s)" by unfold_locales auto

lemma distinct_map_filter: "distinct (map f xs) \<Longrightarrow> distinct (map f (filter p xs))"
  by (induction xs) auto

lemma distinct_some_filter:
  "distinct (filter (\<lambda>c. \<exists>y. c = Some y) (map f xs)) \<Longrightarrow>
   distinct (filter (\<lambda>c. \<exists>y. c = Some y) (map f (filter p xs)))"
  by (induction xs) (auto simp: image_iff, metis)

lemma carts_ok_insert_item:
  assumes "carts_ok s" "line_ok i" "ci_pk i = seq s"
    and "\<forall>j \<in> set (t_cart_items s). ci_cart j = ci_cart i \<longrightarrow> ci_plan j \<noteq> ci_plan i"
  shows "carts_ok (s\<lparr>seq := Suc (seq s), t_cart_items := t_cart_items s @ [i]\<rparr>)"
  using assms by (auto simp: carts_ok_def less_Suc_eq)

lemma cart_item_create_lines: "1 \<le> m \<Longrightarrow> pres carts_ok (cart_item_create k pl m code)"
  by (rule presI) (auto simp: cart_item_create_def run_simps Let_def line_ok_def intro!: carts_ok_insert_item)

lemma cart_create_lines: "pres carts_ok (cart_create cust key)"
  by (rule presI)
    (auto simp: cart_create_def run_simps Let_def carts_ok_def less_Suc_eq find_by_None_iff)

lemma carts_ok_delete:
  "carts_ok s \<Longrightarrow> carts_ok (s\<lparr>t_carts := filter q (t_carts s), t_cart_items := filter p (t_cart_items s)\<rparr>)"
  by (auto simp: carts_ok_def distinct_map_filter intro: distinct_some_filter)

lemma carts_ok_edit:
  assumes "carts_ok s" and "\<And>r. ci_pk (f r) = ci_pk r \<and> ci_cart (f r) = ci_cart r \<and> ci_plan (f r) = ci_plan r"
    and "\<And>r. r \<in> set (t_cart_items s) \<Longrightarrow> p r \<Longrightarrow> line_ok (f r)"
  shows "carts_ok (s\<lparr>t_cart_items := upd_where p f (t_cart_items s)\<rparr>)"
  using assms by (auto simp: carts_ok_def set_upd_where)

lemma upd_by_where: "upd_by key k f rows = upd_where (\<lambda>r. key r = k) f rows"
  by (simp add: upd_by_def upd_where_def)

interpretation lines: cart_inv carts_ok
proof
  fix E k j m i cust key code pl p ccst
  show create: "1 \<le> m \<Longrightarrow> pres carts_ok (cart_item_create k pl m code)" for k pl m code
    by (rule cart_item_create_lines)
  show "pres carts_ok (cart_create cust key)"
    by (rule cart_create_lines)
  show "1 \<le> m \<Longrightarrow> pres carts_ok (cart_item_save i m code)"
    by (rule presI) (auto simp: cart_item_save_def run_simps upd_by_where line_ok_def intro!: carts_ok_edit)
  show "pres carts_ok (cart_items_delete p)"
    using carts_ok_delete [where q = "\<lambda>_. True"] by (auto intro!: presI simp: cart_items_delete_def run_simps)
  show delete: "pres carts_ok (cart_delete k)" for k
    by (rule presI) (use carts_ok_delete [where p = "\<lambda>i. ci_cart i \<noteq> k" and q = "\<lambda>c. ca_pk c \<noteq> k"] in
        \<open>simp add: cart_delete_def cart_items_delete_def run_simps carts_ok_def\<close>)
  show "pres carts_ok (update_cart_item k j m)"
    by (rule presI) (auto simp: update_cart_item_def run_simps carts_ok_def set_upd_where line_ok_def)
  show "pres carts_ok (merge_cart k j)"
  proof -
    have loop: "wp (for_each (\<lambda>item. if ci_plan item \<notin> P
              then bnd (cart_item_create j (ci_plan item) (ci_multiplier item) (ci_coupon_code item)) (\<lambda>_. ret ())
              else ret ()) items) (\<lambda>_. carts_ok) (\<lambda>_. carts_ok) s"
      if "\<forall>i \<in> set items. line_ok i" "carts_ok s" for P items s
    proof -
      have "pres carts_ok (for_each (\<lambda>item. if ci_plan item \<notin> P
              then bnd (cart_item_create j (ci_plan item) (ci_multiplier item) (ci_coupon_code item)) (\<lambda>_. ret ())
              else ret ()) items)"
        using that(1) by (intro pres_for_each) (auto intro!: pres_intros create simp: line_ok_def)
      then show ?thesis using that(2) by (simp add: pres_wp)
    qed
    have remove: "carts_ok s \<Longrightarrow> wp (cart_delete k) (\<lambda>_. carts_ok) (\<lambda>_. carts_ok) s" for s
      using delete [of k] by (simp add: pres_wp)
    have rows: "carts_ok s \<Longrightarrow> \<forall>i \<in> set (filter (\<lambda>i. ci_cart i = k) (t_cart_items s)). line_ok i" for s
      by (simp add: carts_ok_def)
    show ?thesis
      unfolding pres_wp
      by (auto simp: merge_cart_def cart_by_pk_def cart_items_of_def Let_def wp_simps split: option.split
          intro!: wp_mono [OF loop [OF rows]] remove)
  qed
  show "pres carts_ok (cart_checkout_create E j ccst)"
    unfolding cart_checkout_create_def Let_def by (auto intro!: pres_intros lines.frame_modify)
qed

section \<open>An example\<close>

text \<open>The example shop with the customer's cart 20 and a guest cart 21, sharing one plan.\<close>

definition example_item :: cart_item where
  "example_item = \<lparr>ci_pk = 22, ci_cart = 20, ci_plan = 4, ci_multiplier = 2, ci_coupon_code = []\<rparr>"

definition example_cart_db :: db where
  "example_cart_db = example_shop_db\<lparr>seq := 50,
     t_carts := [\<lparr>ca_pk = 20, ca_customer = Some 1, ca_session_key = []\<rparr>,
                 \<lparr>ca_pk = 21, ca_customer = None, ca_session_key = ''s''\<rparr>],
     t_cart_items := [example_item, \<lparr>ci_pk = 23, ci_cart = 21, ci_plan = 4, ci_multiplier = 1, ci_coupon_code = []\<rparr>,
                      \<lparr>ci_pk = 24, ci_cart = 21, ci_plan = 5, ci_multiplier = 3, ci_coupon_code = []\<rparr>]\<rparr>"

definition example_line :: cart_line where
  "example_line = \<lparr>ln_item = example_item, ln_price = 80, ln_discount = 0, ln_coupon = None, ln_base = 80\<rparr>"

lemma example_cart_ok: "carts_ok example_cart_db" "sales_ok example_cart_db" "order_refs_ok example_cart_db"
  by (simp_all add: carts_ok_def line_ok_def example_cart_db_def example_item_def sales_ok_def orders_ok_def coupons_ok_def
      earnings_ok_def order_refs_ok_def unique_column_def unique_clash_def example_defs)

section \<open>The price of a line\<close>

text \<open>The price before the coupon, in the shape \<open>compute_cart_line\<close> has it.\<close>

lemma base_price_line:
  "(if dm > 1 then (let subtotal = pl_price pl * dm;
                        disc_pct = (case map_of (pl_durations pl) (str_int dm) of None \<Rightarrow> 0 | Some d \<Rightarrow> d)
                    in subtotal - (subtotal * disc_pct div 100))
    else pl_price pl) = base_price pl 0 dm"
  by (simp add: base_price_def)

lemma compute_cart_line_priced:
  assumes "find_by pl_pk (ci_plan item) (t_plans s) = Some pl"
  shows "compute_cart_line item s =
     (let base = base_price pl 0 (duration_of pl (ci_multiplier item));
          found = (if ci_coupon_code item = [] then None else find_by cp_code (ci_coupon_code item) (t_coupons s));
          discount = coupon_discount found pl (clock s) base;
          cp = (case found of None \<Rightarrow> None
                | Some c \<Rightarrow> (if fst (is_valid_for c (clock s) (Some (pl_pk pl))) then Some c else None))
      in (Inr \<lparr>ln_item = item, ln_price = max 0 (base - discount), ln_discount = discount, ln_coupon = cp,
             ln_base = base\<rparr>, s))"
  unfolding compute_cart_line_def base_price_line duration_of_def [symmetric]
  unfolding Let_def
  using assms
  by (simp add: run_simps plan_get_def now_def coupon_discount_def split: option.split)

text \<open>
  A line costs in the cart what it costs at the single-plan checkout: the price before the
  coupon, the discount and the amount charged are those \<open>checkout\<close> computes for the same plan,
  multiplier and coupon (the coupon with the line's code, if there is one).
\<close>

theorem cart_line_price_agrees:
  assumes "find_by pl_pk (ci_plan item) (t_plans s) = Some pl"
  shows "\<exists>line. compute_cart_line item s = (Inr line, s) \<and> ln_item line = item \<and>
        (let base = base_price pl 0 (duration_of pl (ci_multiplier item));
             cp = (if ci_coupon_code item = [] then None else find_by cp_code (ci_coupon_code item) (t_coupons s));
             discount = coupon_discount cp pl (clock s) base
         in ln_base line = base \<and> ln_discount line = discount \<and> ln_price line = max 0 (base - discount)
            \<and> (discount \<noteq> 0 \<longrightarrow> ln_coupon line = cp))"
  using compute_cart_line_priced [OF assms]
  by (auto simp: Let_def coupon_discount_def split: option.splits)

theorem cart_line_price_agrees_witness:
  "\<exists>line. compute_cart_line example_item example_cart_db = (Inr line, example_cart_db) \<and> ln_price line = 80"
proof -
  have "find_by pl_pk (ci_plan example_item) (t_plans example_cart_db) = Some example_plan"
    by (simp add: example_item_def example_cart_db_def example_plan_def example_defs)
  from cart_line_price_agrees [OF this] show ?thesis
    by (auto simp: Let_def example_item_def example_plan_def base_price_def duration_of_def coupon_discount_def)
qed

section \<open>Merging a guest cart\<close>

lemma cart_item_create_wp:
  assumes "line_ok i" and "\<forall>j \<in> set (t_cart_items s). ci_cart j = k \<longrightarrow> ci_plan j \<noteq> ci_plan i"
  shows "cart_item_create k (ci_plan i) (ci_multiplier i) (ci_coupon_code i) s =
     (let row = i\<lparr>ci_pk := seq s, ci_cart := k\<rparr>
      in (Inr row, s\<lparr>seq := Suc (seq s), t_cart_items := t_cart_items s @ [row]\<rparr>))"
  using assms by (cases i) (auto simp: cart_item_create_def run_simps Let_def line_ok_def)

definition line_content :: "cart_item \<Rightarrow> nat \<times> int \<times> string" where
  "line_content i = (ci_plan i, ci_multiplier i, ci_coupon_code i)"

text \<open>The copying loop: the lines for plans the target lacks are appended to it, in order.\<close>

lemma merge_loop:
  assumes "\<forall>i \<in> set items. line_ok i" and "distinct (map ci_plan items)"
    and "\<forall>i \<in> set items. ci_plan i \<notin> P \<longrightarrow> (\<forall>j \<in> set (t_cart_items s). ci_cart j = k \<longrightarrow> ci_plan j \<noteq> ci_plan i)"
  shows "\<exists>n rows. for_each (\<lambda>item. if ci_plan item \<notin> P
              then bnd (cart_item_create k (ci_plan item) (ci_multiplier item) (ci_coupon_code item)) (\<lambda>_. ret ())
              else ret ()) items s
         = (Inr (), s\<lparr>seq := n, t_cart_items := t_cart_items s @ rows\<rparr>)
       \<and> (\<forall>r \<in> set rows. ci_cart r = k)
       \<and> map line_content rows = map line_content (filter (\<lambda>i. ci_plan i \<notin> P) items)"
  using assms
proof (induction items arbitrary: s)
  case Nil
  show ?case by (rule exI [of _ "seq s"], rule exI [of _ "[]"]) (simp add: run_simps)
next
  case (Cons i items)
  show ?case
  proof (cases "ci_plan i \<in> P")
    case True
    with Cons.IH [of s] Cons.prems show ?thesis by (simp add: run_simps)
  next
    case False
    let ?row = "i\<lparr>ci_pk := seq s, ci_cart := k\<rparr>"
    let ?t = "s\<lparr>seq := Suc (seq s), t_cart_items := t_cart_items s @ [?row]\<rparr>"
    have step: "cart_item_create k (ci_plan i) (ci_multiplier i) (ci_coupon_code i) s = (Inr ?row, ?t)"
      using cart_item_create_wp [of i s k] Cons.prems False by (simp add: Let_def)
    have "\<forall>x \<in> set items. ci_plan x \<notin> P \<longrightarrow>
        (\<forall>j \<in> set (t_cart_items ?t). ci_cart j = k \<longrightarrow> ci_plan j \<noteq> ci_plan x)"
      using Cons.prems by auto
    from Cons.IH [OF _ _ this] Cons.prems obtain n rows where
        "for_each (\<lambda>item. if ci_plan item \<notin> P
              then bnd (cart_item_create k (ci_plan item) (ci_multiplier item) (ci_coupon_code item)) (\<lambda>_. ret ())
              else ret ()) items ?t = (Inr (), ?t\<lparr>seq := n, t_cart_items := t_cart_items ?t @ rows\<rparr>)"
        "\<forall>r \<in> set rows. ci_cart r = k"
        "map line_content rows = map line_content (filter (\<lambda>i. ci_plan i \<notin> P) items)"
      by auto
    with step False show ?thesis
      by (intro exI [of _ n] exI [of _ "?row # rows"]) (simp add: run_simps line_content_def [of "_\<lparr>ci_pk := _, ci_cart := _\<rparr>"]
          line_content_def [of i])
  qed
qed

definition lines_of :: "nat \<Rightarrow> db \<Rightarrow> (nat \<times> int \<times> string) list" where
  "lines_of k s = map line_content (filter (\<lambda>i. ci_cart i = k) (t_cart_items s))"

text \<open>
  Signing in never loses or doubles a line.  When a guest cart is merged into the
  customer's, the customer's cart holds its own lines, unchanged, followed by those guest lines
  whose plan it did not have yet; the guest cart and its lines are gone; every other cart is
  as it was; and the merge always succeeds.
\<close>

theorem merge_keeps_every_plan:
  assumes "carts_ok s" and "find_by ca_pk src (t_carts s) = Some source" and "ca_customer source = None"
    and "src \<noteq> tgt"
  shows "\<exists>t. merge_cart src tgt s = (Inr (), t)
     \<and> lines_of tgt t = lines_of tgt s @ filter (\<lambda>l. fst l \<notin> fst ` set (lines_of tgt s)) (lines_of src s)
     \<and> lines_of src t = [] \<and> find_by ca_pk src (t_carts t) = None
     \<and> (\<forall>k. k \<noteq> src \<and> k \<noteq> tgt \<longrightarrow> lines_of k t = lines_of k s)"
proof -
  let ?items = "filter (\<lambda>i. ci_cart i = src) (t_cart_items s)"
  let ?P = "set (map ci_plan (filter (\<lambda>i. ci_cart i = tgt) (t_cart_items s)))"
  have "distinct (map ci_plan ?items)"
    using assms(1) unfolding carts_ok_def
    by (auto simp: distinct_map inj_on_def)
  moreover have "\<forall>i \<in> set ?items. line_ok i"
    using assms(1) by (simp add: carts_ok_def)
  moreover have "\<forall>i \<in> set ?items. ci_plan i \<notin> ?P \<longrightarrow>
      (\<forall>j \<in> set (t_cart_items s). ci_cart j = tgt \<longrightarrow> ci_plan j \<noteq> ci_plan i)"
    by (auto simp: image_iff)
  ultimately obtain n rows where loop: "for_each (\<lambda>item. if ci_plan item \<notin> ?P
              then bnd (cart_item_create tgt (ci_plan item) (ci_multiplier item) (ci_coupon_code item)) (\<lambda>_. ret ())
              else ret ()) ?items s = (Inr (), s\<lparr>seq := n, t_cart_items := t_cart_items s @ rows\<rparr>)"
      and rows: "\<forall>r \<in> set rows. ci_cart r = tgt"
      and content: "map line_content rows = map line_content (filter (\<lambda>i. ci_plan i \<notin> ?P) ?items)"
    using merge_loop [of ?items ?P s tgt] by blast
  have none: "filter (\<lambda>i. ci_cart i = k) rows = []" if "k \<noteq> tgt" for k
    using rows that by (auto simp: filter_empty_conv)
  have all: "filter (\<lambda>i. ci_cart i = tgt) rows = rows"
    using rows by simp
  have new: "map line_content (filter (\<lambda>i. ci_plan i \<notin> ?P) ?items)
      = filter (\<lambda>l. fst l \<notin> fst ` set (lines_of tgt s)) (lines_of src s)"
    by (simp add: lines_of_def filter_map o_def line_content_def image_image conj_commute)
  let ?t = "s\<lparr>seq := n, t_carts := filter (\<lambda>c. ca_pk c \<noteq> src) (t_carts s),
     t_cart_items := filter (\<lambda>i. ci_cart i \<noteq> src) (t_cart_items s @ rows)\<rparr>"
  have "merge_cart src tgt s = (Inr (), ?t)"
    using assms loop
    by (simp add: merge_cart_def cart_by_pk_def cart_items_of_def cart_delete_def cart_items_delete_def run_simps Let_def)
  moreover have "lines_of k ?t = lines_of k s @ (if k = tgt then map line_content rows else [])"
    if "k \<noteq> src" for k
    using that none all rows assms(4)
    by (auto simp: lines_of_def intro!: arg_cong [where f = "map line_content"] filter_cong)
  moreover have "lines_of src ?t = []" "find_by ca_pk src (t_carts ?t) = None"
    by (auto simp: lines_of_def find_by_None_iff)
  ultimately show ?thesis
    using assms(4) content new by (intro exI [of _ ?t]) simp
qed

theorem merge_keeps_every_plan_witness:
  "\<exists>t. merge_cart 21 20 example_cart_db = (Inr (), t) \<and> lines_of 20 t = [(4, 2, []), (5, 3, [])] \<and> lines_of 21 t = []"
proof -
  have "find_by ca_pk 21 (t_carts example_cart_db) = Some \<lparr>ca_pk = 21, ca_customer = None, ca_session_key = ''s''\<rparr>"
    "(21::nat) \<noteq> 20"
    by (simp_all add: example_cart_db_def)
  from merge_keeps_every_plan [OF example_cart_ok(1) this(1) _ this(2)] show ?thesis
    by (auto simp: lines_of_def line_content_def example_cart_db_def example_item_def)
qed

section \<open>Paying a cart from the balance\<close>

text \<open>What paying the lines of a cart adds to the database.\<close>

definition balance_of :: "nat \<Rightarrow> db \<Rightarrow> int option" where
  "balance_of k s = map_option w_balance (find_by w_pk k (t_wallets s))"

definition lines_paid :: "nat \<Rightarrow> nat \<Rightarrow> cart_line list \<Rightarrow> db \<Rightarrow> db \<Rightarrow> bool" where
  "lines_paid k cc lines s t =
     (\<exists>rows es. t_orders t = t_orders s @ rows \<and> t_ledger t = t_ledger s @ es
        \<and> map o_amount rows = map ln_price lines \<and> map o_plan rows = map (\<lambda>l. ci_plan (ln_item l)) lines
        \<and> (\<forall>r \<in> set rows. o_status r = Order_PAID \<and> o_cart_checkout r = Some cc)
        \<and> map le_amount es = map (\<lambda>r. - o_amount r) (filter (\<lambda>r. 0 < o_amount r) rows)
        \<and> map le_ref es = map (\<lambda>r. ''order:'' @ o_public_id r) (filter (\<lambda>r. 0 < o_amount r) rows)
        \<and> (\<forall>e \<in> set es. le_wallet e = k)
        \<and> balance_of k t = map_option (\<lambda>b. b - sum_prices lines) (balance_of k s)
        \<and> (\<forall>j. j \<noteq> k \<longrightarrow> balance_of j t = balance_of j s))"

lemma lines_paid_Nil: "lines_paid k cc [] s s"
  by (auto simp: lines_paid_def sum_prices_def option.map_ident intro!: exI [of _ "[]"])

lemma lines_paid_step:
  assumes "lines_paid k cc [l] s u" and "lines_paid k cc ls u t"
  shows "lines_paid k cc (l # ls) s t"
proof -
  from assms(1) obtain rows1 es1 where 1: "t_orders u = t_orders s @ rows1" "t_ledger u = t_ledger s @ es1"
      "map o_amount rows1 = [ln_price l]" "map o_plan rows1 = [ci_plan (ln_item l)]"
      "\<forall>r \<in> set rows1. o_status r = Order_PAID \<and> o_cart_checkout r = Some cc"
      "map le_amount es1 = map (\<lambda>r. - o_amount r) (filter (\<lambda>r. 0 < o_amount r) rows1)"
      "map le_ref es1 = map (\<lambda>r. ''order:'' @ o_public_id r) (filter (\<lambda>r. 0 < o_amount r) rows1)"
      "\<forall>e \<in> set es1. le_wallet e = k"
      "balance_of k u = map_option (\<lambda>b. b - ln_price l) (balance_of k s)" "\<forall>j. j \<noteq> k \<longrightarrow> balance_of j u = balance_of j s"
    by (auto simp: lines_paid_def sum_prices_def)
  from assms(2) obtain rows2 es2 where 2: "t_orders t = t_orders u @ rows2" "t_ledger t = t_ledger u @ es2"
      "map o_amount rows2 = map ln_price ls" "map o_plan rows2 = map (\<lambda>l. ci_plan (ln_item l)) ls"
      "\<forall>r \<in> set rows2. o_status r = Order_PAID \<and> o_cart_checkout r = Some cc"
      "map le_amount es2 = map (\<lambda>r. - o_amount r) (filter (\<lambda>r. 0 < o_amount r) rows2)"
      "map le_ref es2 = map (\<lambda>r. ''order:'' @ o_public_id r) (filter (\<lambda>r. 0 < o_amount r) rows2)"
      "\<forall>e \<in> set es2. le_wallet e = k"
      "balance_of k t = map_option (\<lambda>b. b - sum_prices ls) (balance_of k u)" "\<forall>j. j \<noteq> k \<longrightarrow> balance_of j t = balance_of j u"
    unfolding lines_paid_def by blast
  show ?thesis
    unfolding lines_paid_def
    by (intro exI [of _ "rows1 @ rows2"] exI [of _ "es1 @ es2"] conjI)
      (use 1 2 in \<open>auto simp: option.map_comp o_def sum_prices_def algebra_simps intro!: option.map_cong\<close>)
qed

text \<open>One line: its order is created, charged if it costs something, and paid.\<close>

lemma lines_paid_one:
  assumes orders: "sales_ok s" and refs: "order_refs_ok s"
    and row: "order_row s (line_order cust cart cc line) ord" and es: "t_ledger v = t_ledger s @ es"
    and price_es: "if ln_price line > 0 then \<exists>e. es = [e] \<and> le_amount e = - ln_price line
           \<and> le_ref e = ''order:'' @ o_public_id ord \<and> le_wallet e = k else es = []"
    and bal: "balance_of k v = map_option (\<lambda>b. b - ln_price line) (balance_of k s)"
        "\<forall>j. j \<noteq> k \<longrightarrow> balance_of j v = balance_of j s"
    and v: "t_orders v = t_orders s @ [ord]" and paid: "paid_at (ord\<lparr>o_ledger_entry := le\<rparr>) v t"
  shows "lines_paid k cc [line] s t \<and> order_refs_ok t"
proof -
  have o: "o_pk ord = seq s" "o_amount ord = ln_price line" "o_plan ord = ci_plan (ln_item line)"
      "o_cart_checkout ord = Some cc"
    using row by (auto simp: order_row_def line_order_def new_order_def)
  have others: "\<forall>r \<in> set (t_orders s). o_pk r \<noteq> o_pk ord"
    using orders orders_ok_fresh o by (auto simp: sales_ok_def)
  from paid obtain sub where "t_orders t = upd_by o_pk (o_pk ord) (\<lambda>r. r\<lparr>o_ledger_entry := le,
         o_status := Order_PAID, o_subscription := sub,
         o_invoice_number := Some (last_invoice (t_orders v) + 1)\<rparr>) (t_orders s @ [ord])"
    and money: "t_wallets t = t_wallets v" "t_ledger t = t_ledger v"
    by (auto simp: paid_at_def v)
  then have t: "t_orders t = t_orders s @ [ord\<lparr>o_ledger_entry := le, o_status := Order_PAID,
        o_subscription := sub, o_invoice_number := Some (last_invoice (t_orders v) + 1)\<rparr>]" (is "_ = _ @ [?row]")
    by (simp add: upd_by_last [OF others])
  have "lines_paid k cc [line] s t"
    unfolding lines_paid_def
    by (intro exI [of _ "[?row]"] exI [of _ es])
      (use o t money bal es price_es in \<open>auto simp: sum_prices_def balance_of_def split: if_splits\<close>)
  moreover have "order_refs_ok t"
    using refs price_es unfolding order_refs_ok_def t money es by (auto split: if_splits)
  ultimately show ?thesis ..
qed

lemma charge_line_wp:
  assumes orders: "sales_ok s" and refs: "order_refs_ok s" and price: "ln_price line > 0"
    and row: "order_row s (line_order cust cart cc line) ord"
    and v: "t_wallets v = t_wallets s" "t_ledger v = t_ledger s" "t_orders v = t_orders s @ [ord]"
  shows "wp (debit k (ln_price line) ''purchase'' (''order:'' @ o_public_id ord) nt)
     (\<lambda>e z. \<forall>t. paid_at (ord\<lparr>o_ledger_entry := Some (le_pk e)\<rparr>) z t
        \<longrightarrow> lines_paid k cc [line] s t \<and> order_refs_ok t) (\<lambda>_ _. True) v"
proof -
  have ref: "find_by le_ref (''order:'' @ o_public_id ord) (t_ledger v) = None"
    using order_refs_fresh [OF refs] row v by (simp add: order_row_def)
  show ?thesis
    proof (rule wp_mono [OF debit_fresh_wp [OF ref]], goal_cases)
      case (1 e z)
      then obtain wal where wal: "find_by w_pk k (t_wallets s) = Some wal"
          and e: "e = ledger_entry_of v k ''purchase'' (- ln_price line) (w_balance wal - ln_price line)
            (''order:'' @ o_public_id ord) nt" and z: "z = post_entry v e"
        using v by auto
      have "balance_of k z = map_option (\<lambda>b. b - ln_price line) (balance_of k s)"
          "\<forall>j. j \<noteq> k \<longrightarrow> balance_of j z = balance_of j s"
        using wal v by (auto simp: z balance_of_def post_entry_def e ledger_entry_of_def find_by_upd_by)
      moreover have "t_ledger z = t_ledger s @ [e]" "t_orders z = t_orders s @ [ord]"
        using v by (simp_all add: z post_entry_def)
      moreover have "le_amount e = - ln_price line" "le_ref e = ''order:'' @ o_public_id ord" "le_wallet e = k"
        by (simp_all add: e ledger_entry_of_def)
      ultimately show ?case
        using price by (intro allI impI, intro lines_paid_one [OF orders refs row, where es = "[e]" and v = z]) simp_all
    qed simp
qed

lemma pay_line_wp:
  assumes orders: "sales_ok s" and refs: "order_refs_ok s" and price: "0 \<le> ln_price line"
  shows "wp (pay_line E cust cart cc w line)
     (\<lambda>_ t. lines_paid (w_pk w) cc [line] s t \<and> order_refs_ok t) (\<lambda>_ _. True) s"
proof -
  let ?new = "line_order cust cart cc line"
  have coupon: "wp (case ln_coupon line of None \<Rightarrow> ret ()
          | Some cp \<Rightarrow> when_m (ln_discount line > 0) (cart_increment_coupon_usage cp))
       (\<lambda>_ v. money_view v = money_view u) (\<lambda>_ _. True) u" for u
    by (simp add: cart_increment_coupon_usage_def coupon_use_def wp_simps money_view_def split: option.split)
  show ?thesis
    unfolding pay_line_def wp_bnd [of "plan_get _"] plan_get_wp
  proof (cases "find_by pl_pk (ci_plan (ln_item line)) (t_plans s)", simp, simp only: option.case, goal_cases)
    case (1 pl)
    show ?case
      unfolding wp_bnd [of "order_create _ _"]
    proof (rule wp_mono [OF order_create_wp], goal_cases)
      case (1 ord u)
      then obtain n where row: "order_row s ?new ord"
          and u: "u = s\<lparr>rng := n, seq := Suc (seq s), t_orders := t_orders s @ [ord]\<rparr>" by blast
      have inv: "o_invoice_number ord = None" "o_ledger_entry ord = None"
        using row by (auto simp: order_row_def line_order_def new_order_def)
      show ?case
        unfolding wp_bnd [of "case_option _ _ _"]
      proof (rule wp_mono [OF coupon], goal_cases)
        case (1 x v)
        then have v: "t_wallets v = t_wallets s" "t_ledger v = t_ledger s" "t_orders v = t_orders s @ [ord]"
          by (simp_all add: u money_view_def)
        show ?case
        proof (cases "ln_price line > 0")
          case False
          then have free: "ln_price line = 0" using price by simp
          have same: "ord\<lparr>o_ledger_entry := None\<rparr> = ord" using inv by simp
          have free_goal: "lines_paid (w_pk w) cc [line] s t \<and> order_refs_ok t" if "paid_at ord v t" for t
            using that v free same
            by (intro lines_paid_one [OF orders refs row, where es = "[]" and v = v and le = None]) (simp_all add: balance_of_def option.map_ident)
          show ?thesis
            using False unfolding wp_bnd [of "if _ then _ else _"]
            by (simp only: if_False wp_ret) (rule wp_mono [OF paid_rest_wp [OF inv(1)] free_goal], simp_all)
        next
          case True
          have "wp (bnd (debit (w_pk w) (ln_price line) ''purchase'' (''order:'' @ o_public_id ord) nt) (\<lambda>entry.
               ret (ord\<lparr>o_ledger_entry := Some (le_pk entry)\<rparr>)))
             (\<lambda>ord z. wp (bnd (assign_invoice_number (ord\<lparr>o_status := Order_PAID\<rparr>)) (\<lambda>ord.
                bnd (attach_subscription E ord pl (ci_multiplier (ln_item line))) (\<lambda>ord.
                bnd (order_save ord) (\<lambda>_.
                bnd (provision_order E ord (new_subscription_of pl ord)) (\<lambda>grants.
                bnd (record_seller_earning ord) (\<lambda>_.
                bnd (emit (Order_paid cust (o_pk ord) (o_plan ord))) (\<lambda>_.
                ret grants)))))))
                (\<lambda>_ t. lines_paid (w_pk w) cc [line] s t \<and> order_refs_ok t) (\<lambda>_ _. True) z) (\<lambda>_ _. True) v" for nt
            unfolding wp_bnd [of "debit _ _ _ _ _"] wp_ret
            by (rule wp_mono [OF charge_line_wp [OF orders refs True row v]], rule wp_mono [OF paid_rest_wp]) (simp_all add: inv)
          then show ?thesis
            using True
            by (cases "find_by pr_pk (pl_product pl) (t_products v)")
              (simp_all only: if_True wp_bnd [of "bnd _ _"] wp_bnd [of "plan_str _"] plan_str_wp option.case simp_thms)
        qed
      qed simp
    qed simp
  qed
qed

text \<open>No step of the payment touches the cart's lines.\<close>

interpretation kept: wallet_frame "\<lambda>s. t_cart_items s = C" t_cart_items by unfold_locales auto
interpretation kept: provision_frame "\<lambda>s. t_cart_items s = C" t_cart_items by unfold_locales auto
interpretation kept: order_frame "\<lambda>s. t_cart_items s = C" t_cart_items by unfold_locales auto
interpretation kept: subs_frame "\<lambda>s. t_cart_items s = C" t_cart_items by unfold_locales auto
interpretation kept: topup_frame "\<lambda>s. t_cart_items s = C" t_cart_items by unfold_locales auto
interpretation kept: checkout_frame "\<lambda>s. t_cart_items s = C" t_cart_items by unfold_locales auto

lemma pay_lines_wp:
  assumes "sales_ok s" and "order_refs_ok s" and "\<forall>line \<in> set lines. 0 \<le> ln_price line" and "t_cart_items s = C"
  shows "wp (map_m (pay_line E cust cart cc w) lines)
     (\<lambda>_ t. lines_paid (w_pk w) cc lines s t \<and> t_cart_items t = C) (\<lambda>_ _. True) s"
  using assms
proof (induction lines arbitrary: s)
  case Nil
  then show ?case by (simp add: wp_simps lines_paid_Nil)
next
  case (Cons line lines)
  have sales: "wp (pay_line E cust cart cc w line) (\<lambda>_. sales_ok) (\<lambda>_. sales_ok) s"
    using sales.pay_line_pres Cons.prems by (simp add: pres_wp)
  have items: "wp (pay_line E cust cart cc w line) (\<lambda>_ t. t_cart_items t = C) (\<lambda>_ t. t_cart_items t = C) s"
    using kept.pay_line_pres Cons.prems by (simp add: pres_wp)
  have paid: "wp (pay_line E cust cart cc w line)
      (\<lambda>_ t. lines_paid (w_pk w) cc [line] s t \<and> order_refs_ok t) (\<lambda>_ _. True) s"
    using Cons.prems by (intro pay_line_wp) simp_all
  show ?case
    unfolding map_m.simps wp_bnd [of "pay_line _ _ _ _ _ _"]
  proof (rule wp_mono [OF wp_both [OF wp_both [OF sales items] paid]], goal_cases)
    case (1 grants u)
    then have step: "lines_paid (w_pk w) cc [line] s u" by blast
    from 1 Cons.prems Cons.IH [of u] have
      "wp (map_m (pay_line E cust cart cc w) lines) (\<lambda>_ t. lines_paid (w_pk w) cc lines u t \<and> t_cart_items t = C)
         (\<lambda>_ _. True) u" by simp
    then show ?case
      unfolding wp_bnd [of "map_m _ _"] wp_ret
      by (rule wp_mono) (use lines_paid_step [OF step] in auto)
  qed simp
qed

definition opened :: "db \<Rightarrow> db \<Rightarrow> bool" where
  "opened s t = (\<exists>n q C. t = s\<lparr>rng := n, seq := q, t_cart_checkouts := C\<rparr>)"

lemma cart_checkout_create_wp:
  "wp (cart_checkout_create E cust st)
     (\<lambda>cc t. cc_status cc = st \<and> cc_customer cc = cust \<and> cc_pk cc = seq s
        \<and> (\<exists>n. t = s\<lparr>rng := n, seq := Suc (seq s), t_cart_checkouts := t_cart_checkouts s @ [cc]\<rparr>))
     (\<lambda>x t. x = RuntimeError ''public_id'' \<and> (\<exists>n. t = s\<lparr>rng := n\<rparr>)) s"
  unfolding cart_checkout_create_def wp_bnd
  by (rule wp_mono [OF assign_public_id_wp]) (auto simp: wp_simps Let_def cart_checkout_public_id_taken_def)

lemma opened_ok:
  assumes "t = s\<lparr>rng := n, seq := Suc (seq s), t_cart_checkouts := C\<rparr>"
  shows "sales_ok s \<Longrightarrow> sales_ok t" "order_refs_ok s \<Longrightarrow> order_refs_ok t" "opened s t"
    "lines_paid k cc lines t u \<Longrightarrow> lines_paid k cc lines s u"
  by (simp_all add: assms sales_ok_frame [of s] order_refs_ok_def lines_paid_def balance_of_def)
    (auto simp: opened_def)

text \<open>
  C13.  A cart paid from the balance is charged exactly, all lines or none.  When the wallet branch
  of \<open>checkout_cart\<close> returns, every line has its own order, \<open>PAID\<close> at the line's price and under
  the returned \<open>CartCheckout\<close>; the ledger has one new entry per order that costs something, for
  minus its amount and with its reference; the wallet went down by exactly the sum of the
  prices and no other wallet moved; and exactly the paid lines left the cart.  When it raises
  (any line), nothing remains of it but the \<open>CartCheckout\<close> row.
\<close>

theorem cart_paid_exactly:
  assumes "sales_ok s" and "order_refs_ok s" and "\<forall>line \<in> set lines. 0 \<le> ln_price line"
  shows "wp (cart_wallet E cust cart w lines)
     (\<lambda>(cc, grants, payment_url) t. payment_url = None \<and> cc_status cc = CartCheckout_COMPLETED
        \<and> lines_paid (w_pk w) (cc_pk cc) lines s t
        \<and> t_cart_items t = filter (\<lambda>i. \<not> (ci_cart i = cart \<and> ci_pk i \<in> (\<lambda>l. ci_pk (ln_item l)) ` set lines)) (t_cart_items s))
     (\<lambda>_ t. opened s t) s"
  unfolding cart_wallet_def wp_bnd [of "cart_checkout_create _ _ _"]
proof (rule wp_mono [OF cart_checkout_create_wp], goal_cases)
  case (1 cc u)
  then obtain n where u: "u = s\<lparr>rng := n, seq := Suc (seq s), t_cart_checkouts := t_cart_checkouts s @ [cc]\<rparr>" by blast
  have items: "t_cart_items u = t_cart_items s" by (simp add: u)
  have cleared: "lines_paid k j lines s (v\<lparr>t_cart_items := I\<rparr>) = lines_paid k j lines s v" for k j v I
    by (simp add: lines_paid_def balance_of_def)
  have status: "cc_status cc = CartCheckout_COMPLETED" using 1 by simp
  have paid: "lines_paid k j lines u v \<Longrightarrow> lines_paid k j lines s v" for k j v
    using opened_ok(4) [OF u] .
  show ?case
    unfolding wp_bnd [of "atomic _"] wp_atomic wp_bnd [of "map_m _ _"]
    by (rule wp_mono [OF pay_lines_wp [OF opened_ok(1) [OF u assms(1)] opened_ok(2) [OF u assms(2)] assms(3) items]])
      (simp_all add: clear_lines_def cart_items_delete_def wp_bnd wp_modify wp_ret cleared paid status opened_ok(3) [OF u])
next
  case (2 x t)
  then obtain n where "t = s\<lparr>rng := n, seq := seq s, t_cart_checkouts := t_cart_checkouts s\<rparr>" by auto
  then show ?case unfolding opened_def by blast
qed

theorem cart_paid_exactly_witness:
  "wp (cart_wallet demo_env 1 20 example_wallet [example_line])
     (\<lambda>_ t. balance_of 1 t = Some 20 \<and> map ci_pk (t_cart_items t) = [23, 24])
     (\<lambda>_ t. t_ledger t = t_ledger example_cart_db) example_cart_db"
proof -
  have "\<forall>line \<in> set [example_line]. 0 \<le> ln_price line"
    by (simp add: example_line_def)
  from cart_paid_exactly [OF example_cart_ok(2,3) this, of demo_env 1 20 example_wallet] show ?thesis
    by (rule wp_mono)
      (auto simp: lines_paid_def opened_def balance_of_def sum_prices_def example_line_def example_item_def
        example_cart_db_def example_defs)
qed

section \<open>Failure of the gateway, and completion\<close>

lemma cart_gateway_gives: "gives (\<lambda>(cc, grants, payment_url). grants = [] \<and> payment_url \<noteq> None)
    (cart_gateway E cust cart w payment_method return_url amount_due lines)"
  unfolding cart_gateway_def Let_def
  by (auto intro!: gives_then gives_atomic gives_ret split: prod.split)

lemma cart_gateway_no_money: "pres (\<lambda>s. t_wallets s = W \<and> t_ledger s = L)
    (cart_gateway E cust cart w payment_method return_url amount_due lines)"
  unfolding cart_gateway_def cart_checkout_create_def clear_lines_def cart_items_delete_def Let_def
  by (intro pres_intros no_money.order_create_pres no_money.initiate_topup_pres no_money.topup_link_cart_pres
      no_money.assign_unique_pres no_money.pk_pres no_money.frame_modify) simp_all

text \<open>
  A cart checkout through the gateway is all or nothing, and moves no money.  When it returns
  there is a payment link, no grant yet, and wallets and ledger are as they were; whatever
  goes wrong (no payment method, an order that cannot be created, the gateway being down or
  refusing) leaves the database exactly as it was: the cart is kept, and no half-made order or
  top-up remains.
\<close>

theorem cart_gateway_all_or_nothing:
  "wp (cart_gateway E cust cart w payment_method return_url amount_due lines)
     (\<lambda>(cc, grants, payment_url) t. grants = [] \<and> payment_url \<noteq> None
        \<and> t_wallets t = t_wallets s \<and> t_ledger t = t_ledger s) (\<lambda>_ t. t = s) s"
proof -
  let ?m = "cart_gateway E cust cart w payment_method return_url amount_due lines"
  have rolled_back: "wp ?m (\<lambda>_ _. True) (\<lambda>_ t. t = s) s"
    unfolding cart_gateway_def Let_def wp_bnd [of "check _ _"] wp_check wp_atomic
    by (simp add: wp_any)
  have "wp ?m (\<lambda>_ t. t_wallets t = t_wallets s \<and> t_ledger t = t_ledger s)
       (\<lambda>_ t. t_wallets t = t_wallets s \<and> t_ledger t = t_ledger s) s"
    using cart_gateway_no_money by (simp add: pres_wp)
  from wp_both [OF wp_both [OF rolled_back this] givesD [OF cart_gateway_gives]] show ?thesis
    by (rule wp_mono) auto
qed

text \<open>
  \<open>complete_cart_checkout\<close> reports a cart as completed even when nothing could be paid: if
  the balance no longer covers any of its pending orders (it was spent between the top-up and
  its webhook), the \<open>CartCheckout\<close> becomes \<open>COMPLETED\<close>, every order stays \<open>PENDING\<close>, no
  money moves and no error is raised.
\<close>

theorem cart_completed_unpaid:
  assumes "distinct (map o_pk (t_orders s))" and "distinct (map w_pk (t_wallets s))"
    and "\<forall>r \<in> set (t_orders s). o_status r = Order_PENDING \<longrightarrow> find_by le_ref (''order:'' @ o_public_id r) (t_ledger s) = None"
    and "\<forall>r \<in> set (t_orders s). o_cart_checkout r = Some cc \<and> o_status r = Order_PENDING \<longrightarrow>
       (\<exists>w. find_by w_customer (o_customer r) (t_wallets s) = Some w \<and> w_balance w < o_amount r)"
  shows "wp (complete_cart_checkout E cc)
     (\<lambda>grants t. grants = [] \<and> t = s\<lparr>t_cart_checkouts :=
         upd_by cc_pk cc (\<lambda>r. r\<lparr>cc_status := CartCheckout_COMPLETED\<rparr>) (t_cart_checkouts s)\<rparr>)
     (\<lambda>_ t. t = s) s"
proof -
  have loop: "wp (map_m (\<lambda>ord. complete_pending_order E (o_pk ord)) rows)
      (\<lambda>grants t. concat grants = [] \<and> t = s) (\<lambda>_ t. t = s) s"
    if "set rows \<subseteq> {r \<in> set (t_orders s). o_cart_checkout r = Some cc \<and> o_status r = Order_PENDING}" for rows
    using that
  proof (induction rows)
    case Nil
    show ?case by (simp add: wp_simps)
  next
    case (Cons ord rows)
    have ord: "find_by o_pk (o_pk ord) (t_orders s) = Some ord"
      using assms(1) Cons.prems by (intro find_by_distinct) auto
    have fresh: "find_by le_ref (''order:'' @ o_public_id ord) (t_ledger s) = None"
      using assms(3) Cons.prems by simp
    obtain w where w: "find_by w_customer (o_customer ord) (t_wallets s) = Some w" "w_balance w < o_amount ord"
      using assms(4) Cons.prems by auto
    have unpaid: "\<not> settled s ord w t" for t
      using w(2) by (auto simp: settled_def)
    show ?case
      unfolding map_m.simps wp_bnd [of "complete_pending_order _ _"]
    proof (rule wp_mono [OF complete_pending_wp [OF ord assms(2) fresh]], goal_cases)
      case (1 grants t)
      then have "t = s" "grants = []" using w(1) unpaid by auto
      with Cons show ?case
        by (auto simp: wp_bnd wp_ret intro!: wp_mono [OF Cons.IH])
    qed simp
  qed
  show ?thesis
    unfolding complete_cart_checkout_def cart_checkout_set_status_def wp_bnd wp_gets
    by (rule wp_mono [OF loop]) (auto simp: wp_simps)
qed

theorem cart_completed_unpaid_witness:
  "wp (complete_cart_checkout demo_env 30)
     (\<lambda>grants t. grants = [] \<and> map o_status (t_orders t) = [Order_PENDING] \<and> map w_balance (t_wallets t) = [100])
     (\<lambda>_ t. map o_status (t_orders t) = [Order_PENDING])
     (example_cart_db\<lparr>t_orders := [example_order\<lparr>o_amount := 400, o_cart_checkout := Some 30\<rparr>]\<rparr>)"
  by (rule wp_mono [OF cart_completed_unpaid]) (simp_all add: example_cart_db_def example_defs)

end
