(* ===== verification/Web.thy ===== *)
theory Web
  imports Cart
begin

text \<open>
  What the views share: the response, the form of a request, the signed-in user and the customer and
  rows they may see.  A view is an action that returns a response; \<open>Http404\<close> and \<open>PermissionDenied\<close>
  are exceptions.  Flash messages, templates and the session framework are not modelled: a page is
  the name of its template, a redirect the name of its URL.
\<close>

section \<open>Requests and responses\<close>

text \<open>\<open>Content\<close> is a page that shows one value.\<close>

datatype response = Redirect string | Page string | Content string | Http_status nat

type_synonym form = "(string \<times> string) list"

text \<open>\<open>request.POST.get(key, default)\<close>\<close>

definition post_get :: "form \<Rightarrow> string \<Rightarrow> string \<Rightarrow> string" where
  "post_get f key dflt = (case map_of f key of None \<Rightarrow> dflt | Some v \<Rightarrow> v)"

text \<open>\<open>int(request.POST.get(key, default))\<close>, and \<open>fallback\<close> where it raises \<open>ValueError\<close>.\<close>

definition post_int :: "form \<Rightarrow> string \<Rightarrow> int \<Rightarrow> int \<Rightarrow> int" where
  "post_int f key dflt fallback =
     (case map_of f key of None \<Rightarrow> dflt | Some v \<Rightarrow> (case py_int v of None \<Rightarrow> fallback | Some i \<Rightarrow> i))"

text \<open>\<open>get_object_or_404\<close>\<close>

definition or_404 :: "(db \<Rightarrow> 'a option) \<Rightarrow> 'a prog" where
  "or_404 look = bnd (gets look) (\<lambda>v. or_raise v Http404)"

lemma or_404_run [run_simps]:
  "or_404 look s = (case look s of None \<Rightarrow> (Inl Http404, s) | Some x \<Rightarrow> (Inr x, s))"
  by (simp add: or_404_def run_simps split: option.split)

lemma or_404_wp [wp_simps]:
  "wp (or_404 look) Q X s = (case look s of None \<Rightarrow> X Http404 s | Some x \<Rightarrow> Q x s)"
  by (simp add: or_404_def wp_simps split: option.split)

lemma or_404_pres [pres_intros]: "pres I (or_404 look)"
  unfolding or_404_def by (intro pres_intros)

section \<open>Who is asking\<close>

definition login_required :: "user option \<Rightarrow> (user \<Rightarrow> response prog) \<Rightarrow> response prog" where
  "login_required u view = (case u of None \<Rightarrow> ret (Redirect ''account_login'') | Some x \<Rightarrow> view x)"

lemma login_required_pres [pres_intros]: "(\<And>x. pres I (view x)) \<Longrightarrow> pres I (login_required u view)"
  unfolding login_required_def by (intro pres_intros)

text \<open>
  \<open>Customer.objects.get_or_create(user=...)\<close>, with the signal that opens the wallet of a new
  customer.
\<close>

definition get_or_create_customer :: "user \<Rightarrow> customer prog" where
  "get_or_create_customer u =
     bnd (gets (\<lambda>s. find_by c_user (u_pk u) (t_customers s))) (\<lambda>v.
     case v of
       Some c \<Rightarrow> ret c
     | None \<Rightarrow>
         bnd new_pk (\<lambda>pk.
         let c = \<lparr>c_pk = pk, c_user = u_pk u, c_email = u_email u, c_wa_number = [], c_wa_verified_at = None,
                  c_channel = Channel_EMAIL, c_notif_promo = False\<rparr>
         in bnd (modify (\<lambda>s. s\<lparr>t_customers := t_customers s @ [c]\<rparr>)) (\<lambda>_.
            bnd (create_wallet_for_customer pk True) (\<lambda>_. ret c))))"

end
