(* ===== verification/Payments.thy ===== *)
theory Payments
  imports Cart
begin

text \<open>
  The rest of \<open>billing/services.py\<close> (crediting a top-up, webhook processing, the expiry of stale
  top-ups), the webhook view of \<open>billing/views.py\<close> and the polling task of \<open>billing/tasks.py\<close>.
\<close>

section \<open>Top-ups\<close>

definition topup_get :: "nat \<Rightarrow> topup prog" where
  "topup_get k = bnd (gets (\<lambda>s. find_by tu_pk k (t_topups s))) (\<lambda>v. or_raise v (DoesNotExist ''TopUp''))"

text \<open>\<open>locked.save(update_fields=["status", "ledger_entry"])\<close>; \<open>ledger_entry\<close> is one-to-one.\<close>

definition topup_save_paid :: "nat \<Rightarrow> nat \<Rightarrow> unit prog" where
  "topup_save_paid k entry =
     bnd (gets (\<lambda>s. \<exists>r \<in> set (t_topups s). tu_pk r \<noteq> k \<and> tu_ledger_entry r = Some entry)) (\<lambda>clash.
     bnd (check (\<not> clash) (IntegrityError ''ledger_entry'')) (\<lambda>_.
     modify (\<lambda>s. s\<lparr>t_topups := upd_by tu_pk k
       (\<lambda>r. r\<lparr>tu_status := TopUp_PAID, tu_ledger_entry := Some entry\<rparr>) (t_topups s)\<rparr>)))"

text \<open>\<open>TopUp.objects.filter(pk=k, status=PENDING).update(status=...)\<close>\<close>

definition topup_close_pending :: "nat \<Rightarrow> topup_status \<Rightarrow> unit prog" where
  "topup_close_pending k st =
     modify (\<lambda>s. s\<lparr>t_topups := upd_where (\<lambda>r. tu_pk r = k \<and> tu_status r = TopUp_PENDING)
       (\<lambda>r. r\<lparr>tu_status := st\<rparr>) (t_topups s)\<rparr>)"

text \<open>
  The first transaction of \<open>_apply_topup_success\<close>: \<open>None\<close> when the top-up was paid already,
  otherwise its customer and the order and cart checkout it funds.
\<close>

definition topup_transaction :: "nat \<Rightarrow> (nat \<times> nat option \<times> nat option) option prog" where
  "topup_transaction k =
     atomic (
       bnd (topup_get k) (\<lambda>locked.
       if tu_status locked = TopUp_PAID then ret None
       else
         bnd (customer_wallet (tu_customer locked)) (\<lambda>w.
         bnd (credit (w_pk w) (tu_amount locked) ''topup'' (''topup:'' @ tu_public_id locked)
                (''Sumopod top-up '' @ (if tu_gateway_ref locked = [] then tu_public_id locked else tu_gateway_ref locked))) (\<lambda>entry.
         bnd (if tu_bonus locked > 0
              then bnd (credit (w_pk w) (tu_bonus locked) ''bonus'' (''bonus:'' @ tu_public_id locked)
                     (''Top-up promotional bonus for '' @ tu_public_id locked)) (\<lambda>_. ret ())
              else ret ()) (\<lambda>_.
         bnd (topup_save_paid k (le_pk entry)) (\<lambda>_.
         bnd (emit (Topup_paid (tu_customer locked) (tu_amount locked) (tu_bonus locked))) (\<lambda>_.
         ret (Some (tu_customer locked, tu_checkout_order locked, tu_cart_checkout locked)))))))))"

definition apply_topup_success :: "env \<Rightarrow> nat \<Rightarrow> bool prog" where
  "apply_topup_success E k =
     bnd (topup_transaction k) (\<lambda>r.
     case r of
       None \<Rightarrow> ret False
     | Some (cust, funded_order, funded_cart) \<Rightarrow>
         bnd (case funded_order of
                None \<Rightarrow> ret ()
              | Some ord \<Rightarrow> bnd (complete_pending_order E ord) (\<lambda>_. ret ())) (\<lambda>_.
         bnd (case funded_cart of
                None \<Rightarrow> ret ()
              | Some cc \<Rightarrow> bnd (complete_cart_checkout E cc) (\<lambda>_. ret ())) (\<lambda>_.
         bnd (try_renew_grace_subscriptions E cust) (\<lambda>_.
         ret True))))"

section \<open>Webhook processing\<close>

definition webhook_create :: "string \<Rightarrow> string \<Rightarrow> json \<Rightarrow> payment_webhook prog" where
  "webhook_create gw key payload =
     bnd (check (length key \<le> 200 \<and> length gw \<le> 20) (DataError ''webhook'')) (\<lambda>_.
     bnd (gets (\<lambda>s. find_by wh_key key (t_webhooks s))) (\<lambda>existing.
     bnd (check (existing = None) (IntegrityError ''webhook'')) (\<lambda>_.
     bnd new_pk (\<lambda>pk.
     let row = \<lparr>wh_pk = pk, wh_key = key, wh_gateway = gw, wh_payload = payload, wh_processed_at = None\<rparr>
     in bnd (modify (\<lambda>s. s\<lparr>t_webhooks := t_webhooks s @ [row]\<rparr>)) (\<lambda>_. ret row)))))"

text \<open>\<open>filter(pk=webhook.pk).update(processed_at=timezone.now())\<close>, then \<open>refresh_from_db\<close>.\<close>

definition webhook_processed :: "payment_webhook \<Rightarrow> payment_webhook prog" where
  "webhook_processed wh =
     bnd now (\<lambda>t.
     bnd (modify (\<lambda>s. s\<lparr>t_webhooks := upd_by wh_pk (wh_pk wh) (\<lambda>r. r\<lparr>wh_processed_at := Some t\<rparr>) (t_webhooks s)\<rparr>)) (\<lambda>_.
     bnd (gets (\<lambda>s. find_by wh_pk (wh_pk wh) (t_webhooks s))) (\<lambda>v. or_raise v (DoesNotExist ''PaymentWebhook''))))"

definition completed_event :: string where
  "completed_event = ''payment.completed''"

definition failed_events :: "(string \<times> topup_status) list" where
  "failed_events = [(''payment.failed'', TopUp_FAILED), (''payment.expired'', TopUp_EXPIRED)]"

text \<open>\<open>int(float(...))\<close> with the two \<open>except (ValueError, TypeError)\<close> of the function.\<close>

fun amount_or_value_error :: "exn + int \<Rightarrow> int prog" where
  "amount_or_value_error (Inr n) = ret n"
| "amount_or_value_error (Inl (ValueError _)) = raise (ValueError ''amount'')"
| "amount_or_value_error (Inl (TypeError _)) = raise (ValueError ''amount'')"
| "amount_or_value_error (Inl e) = raise e"

fun amount_or_zero :: "exn + int \<Rightarrow> int prog" where
  "amount_or_zero (Inr n) = ret n"
| "amount_or_zero (Inl (ValueError _)) = ret 0"
| "amount_or_zero (Inl (TypeError _)) = ret 0"
| "amount_or_zero (Inl e) = raise e"

text \<open>The payload's fields: event type, order id, amount and net amount.\<close>

definition webhook_fields :: "(string \<times> json) list \<Rightarrow> (string \<times> string \<times> int \<times> int) prog" where
  "webhook_fields payload =
     (let event_type = py_str (json_get payload ''event_type'' (JStr []));
          raw = json_get payload ''data'' JNull
      in bnd (json_dict (if truthy raw then raw else JObj [])) (\<lambda>d.
         let order_id = py_str (json_get d ''order_id'' (JStr []))
         in bnd (amount_or_value_error (int_of_float (json_get d ''amount'' (JInt 0)))) (\<lambda>amount.
            bnd (amount_or_zero (int_of_float (json_get d ''net_amount'' (JInt 0)))) (\<lambda>net_amount.
            ret (event_type, order_id, amount, net_amount)))))"

text \<open>Everything after the idempotency gate, for a webhook seen for the first time.\<close>

definition handle_webhook :: "env \<Rightarrow> payment_webhook \<Rightarrow> string \<times> string \<times> int \<times> int \<Rightarrow> payment_webhook prog" where
  "handle_webhook E webhook fs =
     (case fs of (event_type, order_id, amount, net_amount) \<Rightarrow>
        if event_type = ''payment.test'' then webhook_processed webhook
        else if map_of failed_events event_type = None \<and> event_type \<noteq> completed_event then ret webhook
        else
          bnd (gets (\<lambda>s. find_by tu_public_id order_id (t_topups s))) (\<lambda>v.
          bnd (or_raise v TopUpNotFoundError) (\<lambda>topup.
          case map_of failed_events event_type of
            Some new_status \<Rightarrow>
              bnd (topup_close_pending (tu_pk topup) new_status) (\<lambda>_. webhook_processed webhook)
          | None \<Rightarrow>
              if tu_amount topup \<noteq> amount \<and> tu_amount topup \<noteq> net_amount then ret webhook
              else bnd (apply_topup_success E (tu_pk topup)) (\<lambda>_. webhook_processed webhook))))"

definition process_webhook_payload ::
  "env \<Rightarrow> string \<Rightarrow> string \<Rightarrow> (string \<times> json) list \<Rightarrow> payment_webhook prog" where
  "process_webhook_payload E gw key payload =
     bnd (webhook_fields payload) (\<lambda>fs.
     try_except (atomic (webhook_create gw key (JObj payload))) is_integrity
       (\<lambda>_. bnd (gets (\<lambda>s. find_by wh_key key (t_webhooks s))) (\<lambda>v. or_raise v (DoesNotExist ''PaymentWebhook'')))
       (\<lambda>webhook. handle_webhook E webhook fs))"

section \<open>The webhook view\<close>

text \<open>The HTTP status of the response; an exception the view does not catch is Django's 500.\<close>

fun is_sumopod_error :: "exn \<Rightarrow> bool" where
  "is_sumopod_error (SumopodError _) = True"
| "is_sumopod_error _ = False"

definition webhook_key :: "(string \<times> string) list \<Rightarrow> (string \<times> json) list \<Rightarrow> string prog" where
  "webhook_key headers payload =
     (let event_type = py_str (json_get payload ''event_type'' (JStr []));
          raw = json_get payload ''data'' JNull;
          svix_id = header_get headers ''svix-id''
      in if svix_id \<noteq> [] then ret (''sumopod:'' @ svix_id)
         else bnd (json_dict (if truthy raw then raw else JObj [])) (\<lambda>d.
              ret (''sumopod:'' @ py_str (json_get d ''payment_id'' (JStr [])) @ '':'' @ event_type)))"

definition sumopod_webhook :: "env \<Rightarrow> (string \<times> string) list \<Rightarrow> string \<Rightarrow> nat prog" where
  "sumopod_webhook E headers raw_body =
     try_except (client_from_settings E) is_sumopod_error (\<lambda>_. ret 500) (\<lambda>client.
     try_except (verify_webhook E client headers raw_body) is_sumopod_error (\<lambda>_. ret 500) (\<lambda>verified.
     if \<not> verified then ret 401
     else
       case json_loads E raw_body of
         None \<Rightarrow> ret 400
       | Some body \<Rightarrow>
           bnd (json_dict body) (\<lambda>payload.
           bnd (webhook_key headers payload) (\<lambda>key.
           try_except (process_webhook_payload E ''sumopod'' key payload) (\<lambda>_. True)
             (\<lambda>e. if is_value_error e then ret 400 else ret 500)
             (\<lambda>_. ret 200)))))"

section \<open>The safety net\<close>

definition topup_expiry_minutes :: int where
  "topup_expiry_minutes = 1440"

definition recheck_topup_status :: "nat \<Rightarrow> unit prog" where
  "recheck_topup_status k =
     bnd (topup_get k) (\<lambda>topup.
     if tu_status topup \<noteq> TopUp_PENDING then ret ()
     else
       bnd now (\<lambda>t.
       when_m (tu_created topup + topup_expiry_minutes * us_minute < t) (topup_close_pending k TopUp_EXPIRED)))"

definition pending_threshold_minutes :: int where
  "pending_threshold_minutes = 10"

text \<open>The task and its loop body; the number resolved is what it logs.\<close>

definition poll_step :: "nat \<Rightarrow> topup \<Rightarrow> nat prog" where
  "poll_step resolved topup =
     try_except
       (bnd (recheck_topup_status (tu_pk topup)) (\<lambda>_.
        gets (\<lambda>s. \<exists>r \<in> set (t_topups s). tu_pk r = tu_pk topup \<and> tu_status r = TopUp_PENDING)))
       (\<lambda>_. True) (\<lambda>_. ret resolved)
       (\<lambda>still_pending. ret (if still_pending then resolved else Suc resolved))"

definition poll_pending_topups :: "nat prog" where
  "poll_pending_topups =
     bnd now (\<lambda>t.
     bnd (gets (\<lambda>s. rev (filter (\<lambda>r. tu_status r = TopUp_PENDING
            \<and> tu_created r < t - pending_threshold_minutes * us_minute) (t_topups s)))) (\<lambda>pending.
     fold_m poll_step 0 pending))"

section \<open>The interface to the rest of the program\<close>

locale payments_inv = cart_inv + wallet_inv +
  assumes topup_save_paid_pres [pres_intros]: "pres I (topup_save_paid k e)"
    and topup_close_pending_pres [pres_intros]: "pres I (topup_close_pending k tst)"
    and webhook_create_pres [pres_intros]: "pres I (webhook_create gw key payload)"
    and webhook_processed_pres [pres_intros]: "pres I (webhook_processed wh)"
begin

lemma topup_get_pres [pres_intros]: "pres I (topup_get k)"
  unfolding topup_get_def by (intro pres_intros)

lemma topup_transaction_pres [pres_intros]: "pres I (topup_transaction k)"
  unfolding topup_transaction_def by (intro pres_intros)

lemma apply_topup_success_pres [pres_intros]: "pres I (apply_topup_success E k)"
  unfolding apply_topup_success_def by (intro pres_intros)

lemma amount_pres [pres_intros]: "pres I (amount_or_value_error r)" "pres I (amount_or_zero r)"
  by (cases r rule: amount_or_value_error.cases; auto intro!: pres_intros)
    (cases r rule: amount_or_zero.cases; auto intro!: pres_intros)

lemma webhook_fields_pres [pres_intros]: "pres I (webhook_fields payload)"
  unfolding webhook_fields_def Let_def by (intro pres_intros)

lemma handle_webhook_pres [pres_intros]: "pres I (handle_webhook E wh fs)"
  unfolding handle_webhook_def by (intro pres_intros)

lemma process_webhook_payload_pres [pres_intros]: "pres I (process_webhook_payload E gw key payload)"
  unfolding process_webhook_payload_def by (intro pres_intros)

lemma verify_webhook_pres [pres_intros]: "pres I (verify_webhook E c headers body)"
proof (rule presI)
  fix s assume "I s"
  have "wp (verify_webhook E c headers body) (\<lambda>_ t. t = s) (\<lambda>_ t. t = s) s"
    by (rule wp_mono [OF verify_webhook_reads]) simp_all
  then have "snd (verify_webhook E c headers body s) = s"
    by (simp add: wp_def split: prod.splits sum.splits)
  with \<open>I s\<close> show "I (snd (verify_webhook E c headers body s))" by simp
qed

lemma sumopod_webhook_pres [pres_intros]: "pres I (sumopod_webhook E headers body)"
  unfolding sumopod_webhook_def webhook_key_def Let_def by (intro pres_intros)

lemma recheck_topup_status_pres [pres_intros]: "pres I (recheck_topup_status k)"
  unfolding recheck_topup_status_def by (intro pres_intros)

lemma poll_pending_topups_pres [pres_intros]: "pres I poll_pending_topups"
  unfolding poll_pending_topups_def poll_step_def by (intro pres_intros)

end

locale payments_frame = cart_inv I + wallet_inv I + frame_inv I view for I view +
  assumes view_payments: "view (s\<lparr>t_topups := Tu\<rparr>) = view s" "view (s\<lparr>t_webhooks := Wh\<rparr>) = view s"

sublocale payments_frame \<subseteq> payments_inv I
proof
  show "pres I (topup_save_paid k e)" "pres I (topup_close_pending k tst)" "pres I (webhook_create gw key payload)"
    "pres I (webhook_processed wh)" for k e tst gw key payload wh
    unfolding topup_save_paid_def topup_close_pending_def webhook_create_def webhook_processed_def Let_def
    by (auto intro!: pres_intros frame_modify simp: view_payments)
qed

interpretation ledger: payments_frame ledger_ok "\<lambda>s. (t_wallets s, t_ledger s)"
  by unfold_locales auto
interpretation history: payments_frame "\<lambda>s. \<exists>M. t_ledger s = L @ M" "\<lambda>s. (t_wallets s, t_ledger s)"
  by unfold_locales auto
interpretation sales: payments_frame sales_ok "\<lambda>s. (t_orders s, t_coupons s, t_earnings s)"
  by unfold_locales auto
interpretation lines: payments_frame carts_ok "\<lambda>s. (t_carts s, t_cart_items s)"
  by unfold_locales auto

section \<open>Crediting a top-up\<close>

text \<open>The money of top-up \<open>tu\<close> in the wallet \<open>w\<close>: one entry for the amount, one for a bonus.\<close>

definition topup_parts :: "topup \<Rightarrow> (int \<times> string) list" where
  "topup_parts tu = (tu_amount tu, ''topup:'' @ tu_public_id tu)
     # (if tu_bonus tu > 0 then [(tu_bonus tu, ''bonus:'' @ tu_public_id tu)] else [])"

definition credited :: "topup \<Rightarrow> wallet \<Rightarrow> db \<Rightarrow> db \<Rightarrow> bool" where
  "credited tu w s t =
     (\<exists>es. t_ledger t = t_ledger s @ es \<and> map (\<lambda>e. (le_amount e, le_ref e)) es = topup_parts tu
        \<and> (\<forall>e \<in> set es. le_wallet e = w_pk w)
        \<and> balance_of (w_pk w) t = Some (w_balance w + sum_list (map fst (topup_parts tu)))
        \<and> (\<forall>j. j \<noteq> w_pk w \<longrightarrow> balance_of j t = balance_of j s)
        \<and> t_topups t = upd_by tu_pk (tu_pk tu)
             (\<lambda>r. r\<lparr>tu_status := TopUp_PAID, tu_ledger_entry := Some (le_pk (hd es))\<rparr>) (t_topups s))"

lemma credit_fresh_wp:
  "find_by le_ref ref (t_ledger s) = None \<Longrightarrow>
   wp (credit w amount ty ref nt)
     (\<lambda>e t. \<exists>wal. find_by w_pk w (t_wallets s) = Some wal
        \<and> e = ledger_entry_of s w ty amount (w_balance wal + amount) ref nt \<and> t = post_entry s e)
     (\<lambda>_ t. t = s) s"
  unfolding credit_def wallet_defs
  by (auto simp: wp_simps Let_def ledger_entry_of_def post_entry_def split: option.splits dest: find_by_SomeD)

lemma balance_post_entry:
  "balance_of j (post_entry s (ledger_entry_of s k ty a b ref nt)) =
     (if j = k then map_option (\<lambda>_. b) (balance_of k s) else balance_of j s)"
  by (auto simp: balance_of_def post_entry_def ledger_entry_of_def find_by_upd_by option.map_comp o_def)

text \<open>One credit, seen from the balances.\<close>

lemma credit_into_wp:
  assumes "find_by le_ref ref (t_ledger s) = None" and "balance_of k s = Some b"
  shows "wp (credit k a ty ref nt)
     (\<lambda>e t. le_amount e = a \<and> le_ref e = ref \<and> le_wallet e = k \<and> t_ledger t = t_ledger s @ [e]
        \<and> balance_of k t = Some (b + a) \<and> (\<forall>j. j \<noteq> k \<longrightarrow> balance_of j t = balance_of j s)
        \<and> t_topups t = t_topups s) (\<lambda>_ t. t = s) s"
proof (rule wp_mono [OF credit_fresh_wp [OF assms(1)]], goal_cases)
  case (1 e t)
  then obtain wal where "find_by w_pk k (t_wallets s) = Some wal"
      and e: "e = ledger_entry_of s k ty a (w_balance wal + a) ref nt" and t: "t = post_entry s e" by blast
  then have "w_balance wal = b" using assms(2) by (simp add: balance_of_def)
  moreover have "t_ledger t = t_ledger s @ [e]" "t_topups t = t_topups s"
    by (simp_all add: t post_entry_def)
  moreover have "le_amount e = a" "le_ref e = ref" "le_wallet e = k"
    by (simp_all add: e ledger_entry_of_def)
  moreover have "\<forall>j. balance_of j t = (if j = k then map_option (\<lambda>_. w_balance wal + a) (balance_of k s) else balance_of j s)"
    by (simp only: t e balance_post_entry simp_thms)
  ultimately show ?case using assms(2) by auto
qed

text \<open>The optional second credit.\<close>

lemma bonus_wp:
  assumes fresh: "find_by le_ref (''bonus:'' @ i) (t_ledger s) = None" and bal: "balance_of k s = Some b"
  shows "wp (if n > 0 then bnd (credit k n ''bonus'' (''bonus:'' @ i) nt) (\<lambda>_. ret ()) else ret ())
     (\<lambda>_ t. t_topups t = t_topups s \<and> balance_of k t = Some (b + max 0 n) \<and> (\<forall>j. j \<noteq> k \<longrightarrow> balance_of j t = balance_of j s)
        \<and> (\<exists>es. t_ledger t = t_ledger s @ es \<and> (\<forall>e \<in> set es. le_wallet e = k)
             \<and> map (\<lambda>e. (le_amount e, le_ref e)) es = (if n > 0 then [(n, ''bonus:'' @ i)] else [])))
     (\<lambda>_ _. True) s"
proof (cases "n > 0")
  case True
  then show ?thesis
    unfolding if_P [OF True] wp_bnd wp_ret
    by (intro wp_mono [OF credit_into_wp [OF fresh bal]]) (auto intro: exI [of _ "[_]"])
next
  case False
  with bal show ?thesis by (simp add: wp_simps)
qed

lemma topup_save_paid_wp:
  "wp (topup_save_paid k e) (\<lambda>_ t. t = u\<lparr>t_topups := upd_by tu_pk k
     (\<lambda>r. r\<lparr>tu_status := TopUp_PAID, tu_ledger_entry := Some e\<rparr>) (t_topups u)\<rparr>) (\<lambda>_ _. True) u"
  by (simp add: topup_save_paid_def wp_simps)

lemma topup_body_wp:
  assumes bal: "balance_of (w_pk w) s = Some (w_balance w)"
    and fresh: "find_by le_ref (''topup:'' @ tu_public_id tu) (t_ledger s) = None"
      "find_by le_ref (''bonus:'' @ tu_public_id tu) (t_ledger s) = None"
  shows "wp (bnd (credit (w_pk w) (tu_amount tu) ''topup'' (''topup:'' @ tu_public_id tu) nt) (\<lambda>entry.
         bnd (if tu_bonus tu > 0
              then bnd (credit (w_pk w) (tu_bonus tu) ''bonus'' (''bonus:'' @ tu_public_id tu) nt2) (\<lambda>_. ret ())
              else ret ()) (\<lambda>_.
         bnd (topup_save_paid (tu_pk tu) (le_pk entry)) (\<lambda>_.
         bnd (emit ev) (\<lambda>_. ret x)))))
       (\<lambda>r t. r = x \<and> credited tu w s t) (\<lambda>_ _. True) s"
  unfolding wp_bnd [of "credit _ (tu_amount tu) _ _ _"]
proof (rule wp_mono [OF credit_into_wp [OF fresh(1) bal]], goal_cases)
  case (1 e u)
  then have fresh_u: "find_by le_ref (''bonus:'' @ tu_public_id tu) (t_ledger u) = None"
    using fresh(2) by (simp add: find_by_append)
  have bal_u: "balance_of (w_pk w) u = Some (w_balance w + tu_amount tu)" using 1 by simp
  show ?case
    unfolding wp_bnd [of "if _ then _ else _"]
  proof (rule wp_mono [OF bonus_wp [OF fresh_u bal_u]], goal_cases)
    case (1 y v)
    then obtain es where "t_ledger v = t_ledger s @ e # es" "\<forall>x \<in> set es. le_wallet x = w_pk w"
        "map (\<lambda>e. (le_amount e, le_ref e)) es = (if tu_bonus tu > 0 then [(tu_bonus tu, ''bonus:'' @ tu_public_id tu)] else [])"
      using \<open>le_amount e = _ \<and> _\<close> by auto
    moreover have "balance_of (w_pk w) v = Some (w_balance w + sum_list (map fst (topup_parts tu)))"
      using 1 by (simp add: topup_parts_def)
    ultimately have "credited tu w s t" if "t_ledger t = t_ledger v" "t_wallets t = t_wallets v"
        "t_topups t = upd_by tu_pk (tu_pk tu) (\<lambda>r. r\<lparr>tu_status := TopUp_PAID, tu_ledger_entry := Some (le_pk e)\<rparr>) (t_topups v)" for t
      unfolding credited_def using that 1 \<open>le_amount e = _ \<and> _\<close>
      by (intro exI [of _ "e # es"]) (simp add: balance_of_def topup_parts_def)
    then show ?case
      unfolding wp_bnd [of "topup_save_paid _ _"]
      by (intro wp_mono [OF topup_save_paid_wp]) (simp_all add: wp_simps)
  qed simp
qed simp

lemma topup_transaction_wp:
  assumes tu: "find_by tu_pk k (t_topups s) = Some tu"
    and w: "find_by w_customer (tu_customer tu) (t_wallets s) = Some w" "distinct (map w_pk (t_wallets s))"
    and fresh: "find_by le_ref (''topup:'' @ tu_public_id tu) (t_ledger s) = None"
      "find_by le_ref (''bonus:'' @ tu_public_id tu) (t_ledger s) = None"
  shows "wp (topup_transaction k)
     (\<lambda>r t. if tu_status tu = TopUp_PAID then r = None \<and> t = s
        else r = Some (tu_customer tu, tu_checkout_order tu, tu_cart_checkout tu) \<and> credited tu w s t)
     (\<lambda>_ t. t = s) s"
proof (cases "tu_status tu = TopUp_PAID")
  case True
  with tu show ?thesis by (simp add: topup_transaction_def topup_get_def wp_simps)
next
  case unpaid: False
  have pk: "k = tu_pk tu" using find_by_SomeD [OF tu] by simp
  have "find_by w_pk (w_pk w) (t_wallets s) = Some w"
    using w(2) find_by_SomeD [OF w(1)] by (auto intro: find_by_distinct)
  then have bal: "balance_of (w_pk w) s = Some (w_balance w)" by (simp add: balance_of_def)
  show ?thesis
    unfolding topup_transaction_def topup_get_def wp_atomic wp_bnd [of "bnd _ _"] wp_bnd [of "gets _"] wp_gets wp_or_raise
      tu option.case wp_bnd [of "customer_wallet _"] if_not_P [OF unpaid] customer_wallet_wp w(1)
    unfolding pk by (rule wp_mono [OF topup_body_wp [OF bal fresh]]) simp_all
qed

text \<open>What runs after the top-up is paid never touches a top-up.\<close>

interpretation paid: wallet_frame "\<lambda>s. t_topups s = T" t_topups by unfold_locales auto
interpretation paid: provision_frame "\<lambda>s. t_topups s = T" t_topups by unfold_locales auto
interpretation paid: order_frame "\<lambda>s. t_topups s = T" t_topups by unfold_locales auto
interpretation paid: subs_frame "\<lambda>s. t_topups s = T" t_topups by unfold_locales auto
interpretation paid: completion_frame "\<lambda>s. t_topups s = T" t_topups by unfold_locales auto

text \<open>\<open>t\<close> is reached from \<open>u\<close> by adding ledger entries at most, with the same top-ups.\<close>

definition then_spent :: "db \<Rightarrow> db \<Rightarrow> bool" where
  "then_spent u t = (t_topups t = t_topups u \<and> (\<exists>M. t_ledger t = t_ledger u @ M))"

lemma follow_up_wp:
  "wp (bnd (case funded_order of None \<Rightarrow> ret () | Some ord \<Rightarrow> bnd (complete_pending_order E ord) (\<lambda>_. ret ())) (\<lambda>_.
       bnd (case funded_cart of None \<Rightarrow> ret () | Some cc \<Rightarrow> bnd (complete_cart_checkout E cc) (\<lambda>_. ret ())) (\<lambda>_.
       bnd (try_renew_grace_subscriptions E cust) (\<lambda>_. ret True))))
     (\<lambda>r t. r \<and> then_spent u t) (\<lambda>_ t. then_spent u t) u"
    (is "wp ?m _ _ _")
proof -
  have "pres (\<lambda>s. t_topups s = t_topups u) ?m" "pres (\<lambda>s. \<exists>M. t_ledger s = t_ledger u @ M) ?m"
    by (intro pres_intros)+
  then have "wp ?m (\<lambda>_ t. t_topups t = t_topups u) (\<lambda>_ t. t_topups t = t_topups u) u"
      "wp ?m (\<lambda>_ t. \<exists>M. t_ledger t = t_ledger u @ M) (\<lambda>_ t. \<exists>M. t_ledger t = t_ledger u @ M) u"
    by (simp_all add: pres_wp)
  moreover have "wp ?m (\<lambda>r _. r) (\<lambda>_ _. True) u"
    by (rule givesD) (intro gives_then gives_ret, simp)
  ultimately have "wp ?m (\<lambda>r t. (t_topups t = t_topups u \<and> (\<exists>M. t_ledger t = t_ledger u @ M)) \<and> r)
      (\<lambda>_ t. (t_topups t = t_topups u \<and> (\<exists>M. t_ledger t = t_ledger u @ M)) \<and> True) u"
    by (intro wp_both)
  then show ?thesis by (rule wp_mono) (auto simp: then_spent_def)
qed

lemma apply_topup_wp:
  assumes "find_by tu_pk k (t_topups s) = Some tu"
    and "find_by w_customer (tu_customer tu) (t_wallets s) = Some w" and "distinct (map w_pk (t_wallets s))"
    and "find_by le_ref (''topup:'' @ tu_public_id tu) (t_ledger s) = None"
    and "find_by le_ref (''bonus:'' @ tu_public_id tu) (t_ledger s) = None"
  shows "wp (apply_topup_success E k)
     (\<lambda>applied t. if tu_status tu = TopUp_PAID then \<not> applied \<and> t = s
        else applied \<and> (\<exists>u. credited tu w s u \<and> then_spent u t))
     (\<lambda>_ t. t = s \<or> (tu_status tu \<noteq> TopUp_PAID \<and> (\<exists>u. credited tu w s u \<and> then_spent u t))) s"
  unfolding apply_topup_success_def wp_bnd [of "topup_transaction _"]
proof (rule wp_mono [OF topup_transaction_wp [OF assms]], goal_cases)
  case (1 r t)
  then show ?case
    by (cases "tu_status tu = TopUp_PAID") (auto simp: wp_ret intro!: wp_mono [OF follow_up_wp])
qed simp


definition example_topup :: topup where
  "example_topup = \<lparr>tu_pk = 40, tu_public_id = ''top_1'', tu_customer = 1, tu_amount = 50, tu_bonus = 5,
     tu_gateway = Gateway_SUMOPOD, tu_gateway_ref = ''pay_1'', tu_gateway_fee = 1, tu_status = TopUp_PENDING,
     tu_ledger_entry = None, tu_checkout_order = None, tu_cart_checkout = None, tu_created = 0\<rparr>"

definition example_pay_db :: db where
  "example_pay_db = example_cart_db\<lparr>t_topups := [example_topup]\<rparr>"

lemmas example_pay_defs = example_pay_db_def example_topup_def example_cart_db_def example_defs


section \<open>The idempotency gate\<close>

lemma amount_wp:
  "wp (amount_or_value_error r) (\<lambda>_ t. t = s) (\<lambda>_ t. t = s) s" "wp (amount_or_zero r) (\<lambda>_ t. t = s) (\<lambda>_ t. t = s) s"
  by (cases r rule: amount_or_value_error.cases; simp add: wp_simps)
    (cases r rule: amount_or_zero.cases; simp add: wp_simps)

lemma json_dict_wp: "wp (json_dict j) (\<lambda>_ t. t = s) (\<lambda>_ t. t = s) s"
  by (cases j) (simp_all add: wp_simps)

lemma webhook_fields_wp: "wp (webhook_fields payload) (\<lambda>_ t. t = s) (\<lambda>_ t. t = s) s"
  unfolding webhook_fields_def Let_def wp_bnd
  by (rule wp_mono [OF json_dict_wp])
    (auto simp: wp_ret intro!: wp_mono [OF amount_wp(1)] wp_mono [OF amount_wp(2)])

lemma gate_seen:
  "find_by wh_key key (t_webhooks s) = Some wh \<Longrightarrow>
   wp (atomic (webhook_create gw key payload)) (\<lambda>_ _. False) (\<lambda>_ t. t = s) s"
  by (simp add: webhook_create_def wp_simps)

lemma gate_new:
  "find_by wh_key key (t_webhooks s) = None \<Longrightarrow>
   wp (atomic (webhook_create gw key payload))
     (\<lambda>wh t. wh_processed_at wh = None \<and> wh_key wh = key
        \<and> t = s\<lparr>seq := Suc (seq s), t_webhooks := t_webhooks s @ [wh]\<rparr>)
     (\<lambda>e t. e = DataError ''webhook'' \<and> t = s \<and> \<not> (length key \<le> 200 \<and> length gw \<le> 20)) s"
  by (simp add: webhook_create_def wp_simps Let_def)

lemma replay_wp:
  assumes "find_by wh_key key (t_webhooks s) = Some wh"
  shows "wp (process_webhook_payload E gw key payload) (\<lambda>r t. r = wh \<and> t = s) (\<lambda>_ t. t = s) s"
  unfolding process_webhook_payload_def wp_bnd [of "webhook_fields _"]
proof (rule wp_mono [OF webhook_fields_wp], goal_cases)
  case (1 fs t)
  show ?case
    unfolding wp_try_except 1
    by (rule wp_mono [OF gate_seen [OF assms]]) (simp_all add: assms wp_simps)
qed

text \<open>
  C15.  A delivery seen before changes nothing.  Whatever its payload says, processing a webhook
  whose idempotency key is recorded leaves the database as it is, and answers with the
  recorded row when it answers at all.
\<close>

theorem webhook_replay_ignored:
  assumes "find_by wh_key key (t_webhooks s) = Some wh"
  shows "wp (process_webhook_payload E gw key payload) (\<lambda>r t. r = wh \<and> t = s) (\<lambda>_ t. t = s) s"
  by (rule replay_wp [OF assms])

definition example_payload :: "string \<Rightarrow> int \<Rightarrow> (string \<times> json) list" where
  "example_payload oid n = [(''event_type'', JStr ''payment.completed''),
     (''data'', JObj [(''order_id'', JStr oid), (''amount'', JInt n)])]"

lemma example_fields: "webhook_fields (example_payload oid n) s = (Inr (''payment.completed'', oid, n, 0), s)"
  by (simp add: webhook_fields_def example_payload_def json_get_def run_simps Let_def)

theorem webhook_replay_ignored_witness:
  "let wh = \<lparr>wh_pk = 7, wh_key = ''sumopod:m1'', wh_gateway = ''sumopod'', wh_payload = JNull, wh_processed_at = None\<rparr>;
       s = example_pay_db\<lparr>t_webhooks := [wh]\<rparr>
   in wp (process_webhook_payload demo_env ''sumopod'' ''sumopod:m1'' (example_payload ''top_1'' 50))
        (\<lambda>r t. r = wh \<and> t = s) (\<lambda>_ t. t = s) s"
  unfolding Let_def by (rule webhook_replay_ignored) simp

text \<open>
  A payment of the wrong amount is recorded and not credited: when neither the amount nor the
  net amount of a \<open>payment.completed\<close> delivery is the top-up's amount, processing it leaves only
  the unprocessed webhook row (no credit, no status change, no fulfilment).
\<close>

theorem webhook_mismatch_not_credited:
  assumes "webhook_fields payload s = (Inr (''payment.completed'', order_id, amount, net_amount), s)"
    and "find_by tu_public_id order_id (t_topups s) = Some tu" and "tu_amount tu \<notin> {amount, net_amount}"
    and "find_by wh_key key (t_webhooks s) = None"
  shows "wp (process_webhook_payload E gw key payload)
     (\<lambda>r t. wh_processed_at r = None \<and> t = s\<lparr>seq := Suc (seq s), t_webhooks := t_webhooks s @ [r]\<rparr>) (\<lambda>_ t. t = s) s"
proof -
  have "wp (webhook_fields payload) (\<lambda>fs t. fs = (''payment.completed'', order_id, amount, net_amount) \<and> t = s) (\<lambda>_ _. False) s"
    using assms(1) by (simp add: wp_def)
  then show ?thesis
    unfolding process_webhook_payload_def wp_bnd [of "webhook_fields _"]
  proof (rule wp_mono, goal_cases)
    case (1 fs t)
    then have fs: "fs = (''payment.completed'', order_id, amount, net_amount)" and t: "t = s" by simp_all
    show ?case
      unfolding wp_try_except t fs
      by (rule wp_mono [OF gate_new [OF assms(4)]])
        (use assms(2,3) in \<open>auto simp: handle_webhook_def wp_simps failed_events_def completed_event_def\<close>)
  qed simp
qed

theorem webhook_mismatch_not_credited_witness:
  "wp (process_webhook_payload demo_env ''sumopod'' ''sumopod:m1'' (example_payload ''top_1'' 49))
     (\<lambda>r t. map tu_status (t_topups t) = [TopUp_PENDING] \<and> length (t_ledger t) = 1) (\<lambda>_ t. t = example_pay_db) example_pay_db"
  by (rule wp_mono [OF webhook_mismatch_not_credited [OF example_fields, where tu = example_topup]])
    (simp_all add: example_pay_defs)

text \<open>
  A payment reported before its top-up can be found is lost.  The delivery is answered with
  \<open>TopUpNotFoundError\<close> so that the gateway retries, but the row of the idempotency gate has been
  committed by then: every retry of the same delivery, in any later state that still has the
  row, is taken for a duplicate and changes nothing, also once the top-up is there.
\<close>

theorem early_webhook_is_lost:
  assumes "webhook_fields payload s = (Inr (''payment.completed'', order_id, amount, net_amount), s)"
    and "find_by tu_public_id order_id (t_topups s) = None" and "find_by wh_key key (t_webhooks s) = None"
    and "length key \<le> 200" and "length gw \<le> 20"
  shows "wp (process_webhook_payload E gw key payload) (\<lambda>_ _. False)
     (\<lambda>e t. e = TopUpNotFoundError \<and> (\<forall>u. t_webhooks u = t_webhooks t \<longrightarrow>
        wp (process_webhook_payload E gw key payload) (\<lambda>_ v. v = u) (\<lambda>_ v. v = u) u)) s"
proof -
  define ignored where "ignored u = wp (process_webhook_payload E gw key payload) (\<lambda>_ v. v = u) (\<lambda>_ v. v = u) u" for u
  have retry: "ignored u" if "t_webhooks u = t_webhooks s @ [wh]" "wh_key wh = key" for u wh
    unfolding ignored_def
    using that assms(3) by (intro wp_mono [OF replay_wp [where wh = wh]]) (simp_all add: find_by_append)
  have "wp (webhook_fields payload) (\<lambda>fs t. fs = (''payment.completed'', order_id, amount, net_amount) \<and> t = s) (\<lambda>_ _. False) s"
    using assms(1) by (simp add: wp_def)
  then have "wp (process_webhook_payload E gw key payload) (\<lambda>_ _. False)
     (\<lambda>e t. e = TopUpNotFoundError \<and> (\<forall>u. t_webhooks u = t_webhooks t \<longrightarrow> ignored u)) s"
    unfolding process_webhook_payload_def wp_bnd [of "webhook_fields _"]
  proof (rule wp_mono, goal_cases)
    case (1 fs t)
    then have fs: "fs = (''payment.completed'', order_id, amount, net_amount)" and t: "t = s" by simp_all
    show ?case
      unfolding wp_try_except t fs
      by (rule wp_mono [OF gate_new [OF assms(3)]])
        (use retry assms(2,4,5) in \<open>auto simp: handle_webhook_def wp_simps failed_events_def completed_event_def\<close>)
  qed simp
  then show ?thesis by (simp only: ignored_def)
qed

theorem early_webhook_is_lost_witness:
  "let p = process_webhook_payload demo_env ''sumopod'' ''sumopod:m1'' (example_payload ''top_9'' 50)
   in wp p (\<lambda>_ _. False) (\<lambda>e t. e = TopUpNotFoundError \<and>
        wp p (\<lambda>_ v. v = t\<lparr>t_topups := [example_topup\<lparr>tu_public_id := ''top_9''\<rparr>]\<rparr>) (\<lambda>_ _. True)
          (t\<lparr>t_topups := [example_topup\<lparr>tu_public_id := ''top_9''\<rparr>]\<rparr>)) example_pay_db"
  unfolding Let_def
proof (rule wp_mono [OF early_webhook_is_lost [OF example_fields]], goal_cases)
  case (6 e t)
  let ?u = "t\<lparr>t_topups := [example_topup\<lparr>tu_public_id := ''top_9''\<rparr>]\<rparr>"
  have "t_webhooks ?u = t_webhooks t" by simp
  with 6 show ?case by (blast intro: wp_mono)
qed (simp_all add: example_pay_defs)

section \<open>The expiry of stale top-ups\<close>

definition stale :: "int \<Rightarrow> topup \<Rightarrow> bool" where
  "stale t r = (tu_status r = TopUp_PENDING \<and> tu_created r + topup_expiry_minutes * us_minute < t)"

definition expire :: "int \<Rightarrow> nat set \<Rightarrow> topup \<Rightarrow> topup" where
  "expire t K r = (if tu_pk r \<in> K \<and> stale t r then r\<lparr>tu_status := TopUp_EXPIRED\<rparr> else r)"

lemma expire_pk [simp]: "tu_pk (expire t K r) = tu_pk r"
  by (simp add: expire_def)

lemma expire_expire: "expire t K (expire t J r) = expire t (J \<union> K) r"
  by (auto simp: expire_def stale_def)

lemma recheck_effect:
  assumes "distinct (map tu_pk (t_topups s))" and "k \<in> tu_pk ` set (t_topups s)"
  shows "recheck_topup_status k s = (Inr (), s\<lparr>t_topups := map (expire (clock s) {k}) (t_topups s)\<rparr>)"
proof -
  obtain r where r: "r \<in> set (t_topups s)" "tu_pk r = k" using assms(2) by blast
  then have found: "find_by tu_pk k (t_topups s) = Some r"
    using find_by_distinct [OF assms(1)] by blast
  have only: "x = r" if "x \<in> set (t_topups s)" "tu_pk x = k" for x
    using assms(1) r that by (auto simp: distinct_map dest: inj_onD)
  have closed: "upd_where (\<lambda>r. tu_pk r = k \<and> tu_status r = TopUp_PENDING) (\<lambda>r. r\<lparr>tu_status := TopUp_EXPIRED\<rparr>) (t_topups s)
      = map (expire (clock s) {k}) (t_topups s)" if "stale (clock s) r"
    using that only unfolding upd_where_def
    by (intro map_cong) (auto simp: expire_def stale_def)
  have kept: "map (expire (clock s) {k}) (t_topups s) = t_topups s" if "\<not> stale (clock s) r"
    using that only by (intro map_idI) (auto simp: expire_def)
  show ?thesis
    using found closed kept
    by (cases "stale (clock s) r")
      (auto simp: recheck_topup_status_def topup_get_def topup_close_pending_def now_def run_simps stale_def)
qed

lemma poll_step_effect:
  assumes "distinct (map tu_pk (t_topups s))" and "tu_pk row \<in> tu_pk ` set (t_topups s)"
  shows "\<exists>b. poll_step a row s = (Inr b, s\<lparr>t_topups := map (expire (clock s) {tu_pk row}) (t_topups s)\<rparr>)"
  using recheck_effect [OF assms] by (simp add: poll_step_def run_simps)

lemma poll_loop:
  assumes "distinct (map tu_pk (t_topups s))" and "tu_pk ` set rows \<subseteq> tu_pk ` set (t_topups s)"
  shows "\<exists>n. fold_m poll_step a rows s
     = (Inr n, s\<lparr>t_topups := map (expire (clock s) (tu_pk ` set rows)) (t_topups s)\<rparr>)"
  using assms
proof (induction rows arbitrary: s a)
  case Nil
  have "map (expire (clock s) {}) (t_topups s) = t_topups s" by (intro map_idI) (simp add: expire_def)
  then show ?case by (simp add: run_simps)
next
  case (Cons row rows)
  let ?t = "s\<lparr>t_topups := map (expire (clock s) {tu_pk row}) (t_topups s)\<rparr>"
  obtain b where step: "poll_step a row s = (Inr b, ?t)"
    using poll_step_effect [of s row a] Cons.prems by auto
  have pks: "map tu_pk (t_topups ?t) = map tu_pk (t_topups s)" by simp
  have "distinct (map tu_pk (t_topups ?t))" unfolding pks by (rule Cons.prems(1))
  moreover have "tu_pk ` set rows \<subseteq> tu_pk ` set (t_topups ?t)"
    using Cons.prems(2) unfolding set_map [symmetric] pks by simp
  ultimately obtain n where "fold_m poll_step b rows ?t =
      (Inr n, ?t\<lparr>t_topups := map (expire (clock ?t) (tu_pk ` set rows)) (t_topups ?t)\<rparr>)"
    using Cons.IH [of ?t b] by blast
  then show ?case by (simp add: run_simps step expire_expire)
qed

text \<open>
  C16.  The safety net expires every stale top-up and nothing else.  One run of
  \<open>poll_pending_topups\<close> always returns; afterwards each top-up that was \<open>PENDING\<close> for more than 24
  hours is \<open>EXPIRED\<close>, every other top-up is as it was, and so is the rest of the database: no
  paid top-up is ever touched and no money moves.
\<close>

theorem poll_expires_stale_exactly:
  assumes "distinct (map tu_pk (t_topups s))"
  shows "\<exists>n. poll_pending_topups s =
     (Inr n, s\<lparr>t_topups := map (\<lambda>r. if tu_status r = TopUp_PENDING \<and> tu_created r + 24 * us_hour < clock s
         then r\<lparr>tu_status := TopUp_EXPIRED\<rparr> else r) (t_topups s)\<rparr>)"
proof -
  let ?rows = "rev (filter (\<lambda>r. tu_status r = TopUp_PENDING
            \<and> tu_created r < clock s - pending_threshold_minutes * us_minute) (t_topups s))"
  have day: "topup_expiry_minutes * us_minute = 24 * us_hour"
    by (simp add: topup_expiry_minutes_def us_minute_def us_hour_def)
  have in_rows: "r \<in> set ?rows" if "r \<in> set (t_topups s)" "stale (clock s) r" for r
    using that by (simp add: stale_def topup_expiry_minutes_def pending_threshold_minutes_def us_minute_def us_second_def)
  have "map (expire (clock s) (tu_pk ` set ?rows)) (t_topups s) = map (\<lambda>r. if tu_status r = TopUp_PENDING \<and> tu_created r + 24 * us_hour < clock s
         then r\<lparr>tu_status := TopUp_EXPIRED\<rparr> else r) (t_topups s)"
    using in_rows by (intro map_cong refl) (auto simp: expire_def stale_def day)
  moreover have "tu_pk ` set ?rows \<subseteq> tu_pk ` set (t_topups s)" by auto
  from poll_loop [OF assms this, of 0] obtain n where "fold_m poll_step 0 ?rows s
     = (Inr n, s\<lparr>t_topups := map (expire (clock s) (tu_pk ` set ?rows)) (t_topups s)\<rparr>)" by blast
  ultimately show ?thesis
    by (intro exI [of _ n]) (simp add: poll_pending_topups_def now_def run_simps)
qed

theorem poll_expires_stale_exactly_witness:
  "\<exists>n t. poll_pending_topups (example_pay_db\<lparr>clock := 100000000000\<rparr>) = (Inr n, t) \<and> map tu_status (t_topups t) = [TopUp_EXPIRED]"
  using poll_expires_stale_exactly [of "example_pay_db\<lparr>clock := 100000000000\<rparr>"]
  by (auto simp: example_pay_defs us_hour_def us_second_def)

section \<open>The webhook endpoint as a whole\<close>

definition accepted :: "env \<Rightarrow> (string \<times> string) list \<Rightarrow> string \<Rightarrow> int \<Rightarrow> bool" where
  "accepted E headers body t =
     ((sumopod_webhook_secret E \<noteq> [] \<or> sumopod_webhook_token E \<noteq> [])
      \<and> (sumopod_webhook_secret E \<noteq> [] \<longrightarrow>
           svix_accepts E (sumopod_webhook_secret E) (header_get headers ''svix-id'')
             (header_get headers ''svix-timestamp'') (header_get headers ''svix-signature'') body t)
      \<and> (sumopod_webhook_token E \<noteq> [] \<longrightarrow> header_get headers ''x-webhook-token'' = sumopod_webhook_token E))"

lemma client_from_settings_wp:
  "wp (client_from_settings E)
     (\<lambda>c t. t = s \<and> sc_webhook_secret c = sumopod_webhook_secret E \<and> sc_webhook_token c = sumopod_webhook_token E)
     (\<lambda>e t. t = s \<and> is_sumopod_error e) s"
  by (simp add: client_from_settings_def setting_get_def wp_simps Let_def)

lemma sumopod_webhook_wp:
  "wp (sumopod_webhook E headers body)
     (\<lambda>code t. t \<noteq> s \<or> code = 200 \<longrightarrow> accepted E headers body (clock s))
     (\<lambda>_ t. t \<noteq> s \<longrightarrow> accepted E headers body (clock s)) s"
  unfolding sumopod_webhook_def wp_try_except [of "client_from_settings _"]
proof (rule wp_mono [OF client_from_settings_wp], goal_cases)
  case (1 c u)
  show ?case
    unfolding wp_try_except [of "verify_webhook _ _ _ _"]
  proof (rule wp_mono [OF verify_webhook_reads], goal_cases)
    case (1 ok v)
    then show ?case
      using \<open>u = s \<and> _\<close> by (cases ok) (auto simp: accepted_def wp_ret intro: wp_any)
  next
    case (2 e v)
    then show ?case using 1 by (auto simp: wp_ret)
  qed
next
  case (2 e u)
  then show ?case by (auto simp: wp_ret)
qed



end
