(* ===== verification/Storefront.thy ===== *)
theory Storefront
  imports Web Payments
begin

text \<open>
  The public shop (\<open>storefront/views.py\<close>): checkout of a plan with the account it opens for a guest,
  the receipt of an order, top-ups, contact requests, affiliate commissions, store and product pages,
  and the views of the cart.  A view takes the visitor and returns the response with the visitor
  afterwards, since it writes the session and may sign a guest in.  Templates, flash messages and
  the answers to \<open>fetch\<close> are not modelled.
\<close>

section \<open>The visitor\<close>

text \<open>
  \<open>request.user\<close> and what the views keep in \<open>request.session\<close>: the cart, the affiliate code and the
  checkout tokens; \<open>vs_fresh\<close> is the random text a request draws (\<open>uuid4().hex\<close>, a session key).
\<close>

record visitor =
  vs_user :: "user option"
  vs_cart :: cart_session
  vs_ref :: "string option"
  vs_tokens :: "(nat \<times> string) list"
  vs_fresh :: string

type_synonym reply = "response \<times> visitor"

text \<open>The views that work for guests and customers alike: \<open>None\<close> is an anonymous visitor.\<close>

definition visitor_customer :: "visitor \<Rightarrow> customer option prog" where
  "visitor_customer v =
     (case vs_user v of None \<Rightarrow> ret None | Some u \<Rightarrow> bnd (get_or_create_customer u) (\<lambda>c. ret (Some c)))"

definition wallet_balance :: "customer option \<Rightarrow> int prog" where
  "wallet_balance c = (case c of None \<Rightarrow> ret 0 | Some x \<Rightarrow> bnd (customer_wallet (c_pk x)) (\<lambda>w. ret (w_balance w)))"

definition page_event :: "string \<Rightarrow> nat option \<Rightarrow> nat option \<Rightarrow> unit prog" where
  "page_event name pr pl = modify (\<lambda>s. s\<lparr>t_page_events := t_page_events s @ 
     [\<lparr>pe_event = name, pe_product = pr, pe_plan = pl, pe_created = clock s\<rparr>]\<rparr>)"

section \<open>Affiliate commissions\<close>

definition commission_get_or_create :: "nat \<Rightarrow> nat \<Rightarrow> int \<Rightarrow> unit prog" where
  "commission_get_or_create ord link amount =
     bnd (gets (\<lambda>s. find_by ac_order ord (t_commissions s))) (\<lambda>found.
     case found of
       Some _ \<Rightarrow> ret ()
     | None \<Rightarrow>
         bnd new_pk (\<lambda>pk.
         modify (\<lambda>s. s\<lparr>t_commissions := t_commissions s @ [\<lparr>ac_pk = pk, ac_link = link, ac_order = ord, ac_amount = amount\<rparr>]\<rparr>)))"

text \<open>The code is the one popped from the session.\<close>

definition record_affiliate_commission :: "string option \<Rightarrow> order \<Rightarrow> unit prog" where
  "record_affiliate_commission ref_code ord =
     try_except
       (case ref_code of
          None \<Rightarrow> ret ()
        | Some code \<Rightarrow>
            if code = [] then ret ()
            else
              bnd (gets (\<lambda>s. find (\<lambda>l. al_code l = code \<and> al_active l) (t_affiliate_links s))) (\<lambda>found.
              case found of
                None \<Rightarrow> ret ()
              | Some link \<Rightarrow>
                  bnd (plan_get (o_plan ord)) (\<lambda>pl.
                  bnd (product_get (pl_product pl)) (\<lambda>pr.
                  if al_product link \<noteq> None \<and> al_product link \<noteq> Some (pr_pk pr) then ret ()
                  else if pr_seller pr \<noteq> None \<and> pr_seller pr \<noteq> Some (al_seller link) then ret ()
                  else commission_get_or_create (o_pk ord) (al_pk link) (o_amount ord * al_rate link div 100)))))
       (\<lambda>_. True) (\<lambda>_. ret ()) ret"

section \<open>Store and product pages\<close>

text \<open>\<open>page\<close>: an unpublished page is only shown as a preview to its owner.\<close>

definition store_page_view :: "visitor \<Rightarrow> string \<Rightarrow> bool \<Rightarrow> reply prog" where
  "store_page_view v slug preview =
     bnd (case vs_user v of
            Some u \<Rightarrow>
              if preview then
                bnd (or_404 (\<lambda>s. find_by sp_slug slug (t_pages s))) (\<lambda>p.
                bnd (gets (\<lambda>s. case sp_seller p of None \<Rightarrow> None | Some k \<Rightarrow> find_by sel_pk k (t_sellers s))) (\<lambda>owner.
                check (sp_published p \<or> (case owner of None \<Rightarrow> False | Some x \<Rightarrow> sel_user x = Some (u_pk u))) Http404))
              else bnd (or_404 (\<lambda>s. find (\<lambda>p. sp_slug p = slug \<and> sp_published p) (t_pages s))) (\<lambda>_. ret ())
          | None \<Rightarrow> bnd (or_404 (\<lambda>s. find (\<lambda>p. sp_slug p = slug \<and> sp_published p) (t_pages s))) (\<lambda>_. ret ())) (\<lambda>_.
     bnd (page_event ''page_view'' None None) (\<lambda>_.
     ret (Page ''storefront/page.html'', v)))"

definition visible_product :: "string \<Rightarrow> product prog" where
  "visible_product slug = or_404 (\<lambda>s. find (\<lambda>p. pr_slug p = slug \<and> pr_visibility p \<in> {Visibility_PUBLIC, Visibility_UNLISTED}) (t_products s))"

definition product_detail :: "visitor \<Rightarrow> string \<Rightarrow> form \<Rightarrow> reply prog" where
  "product_detail v slug params =
     bnd (visible_product slug) (\<lambda>pr.
     bnd (page_event ''product_view'' (Some (pr_pk pr)) None) (\<lambda>_.
     let ref_code = strip (post_get params ''ref'' [])
     in ret (Page ''storefront/product.html'', if ref_code = [] then v else v\<lparr>vs_ref := Some ref_code\<rparr>)))"

section \<open>Guest checkout\<close>

text \<open>
  \<open>_intercept_guest_checkout\<close>: the response that ends the request, or the visitor signed in as a
  new, unverified user.
\<close>

definition intercept_guest_checkout :: "env \<Rightarrow> visitor \<Rightarrow> form \<Rightarrow> string \<Rightarrow> (response option \<times> visitor) prog" where
  "intercept_guest_checkout E v f path =
     (let email = lower (strip (post_get f ''guest_email'' []))
      in if email = [] \<or> \<not> valid_email E email then ret (Some (Redirect path), v)
         else
           bnd (gets (\<lambda>s. \<exists>u \<in> set (t_users s). lower (u_email u) = email)) (\<lambda>taken.
           if taken then ret (Some (Redirect ''account_login''), v)
           else
             bnd new_pk (\<lambda>pk.
             let u = \<lparr>u_pk = pk, u_email = email, u_superuser = False, u_operator = False, u_verified = False\<rparr>
             in bnd (modify (\<lambda>s. s\<lparr>t_users := t_users s @ [u]\<rparr>)) (\<lambda>_. ret (None, v\<lparr>vs_user := Some u\<rparr>)))))"

text \<open>The start of both checkout views: a POST of an anonymous visitor is intercepted.\<close>

definition with_guest :: "env \<Rightarrow> visitor \<Rightarrow> form option \<Rightarrow> string \<Rightarrow> (visitor \<Rightarrow> reply prog) \<Rightarrow> reply prog" where
  "with_guest E v post path view =
     (case post of
        None \<Rightarrow> view v
      | Some f \<Rightarrow>
          if vs_user v \<noteq> None then view v
          else bnd (intercept_guest_checkout E v f path) (\<lambda>(answer, v).
               case answer of Some r \<Rightarrow> ret (r, v) | None \<Rightarrow> view v))"

section \<open>Checkout of a plan\<close>

text \<open>\<open>max(1, int(... .get("duration", 1)))\<close>, for plans with an interval\<close>

definition posted_duration :: "plan \<Rightarrow> form \<Rightarrow> int" where
  "posted_duration pl f = (if pl_interval pl \<noteq> Interval_NONE then max 1 (post_int f ''duration'' 1 1) else 1)"

text \<open>The coupon a code names, when it is valid for the plan.\<close>

definition valid_coupon :: "plan \<Rightarrow> form \<Rightarrow> coupon option prog" where
  "valid_coupon pl f =
     (let code = upper (strip (post_get f ''coupon_code'' []))
      in if code = [] then ret None
         else
           bnd (gets (\<lambda>s. find_by cp_code code (t_coupons s))) (\<lambda>found.
           bnd now (\<lambda>t.
           ret (case found of None \<Rightarrow> None | Some c \<Rightarrow> (if fst (is_valid_for c t (Some (pl_pk pl))) then Some c else None)))))"

text \<open>The context of the checkout page; the estimate of the gateway's fee (floats) is left out.\<close>

record checkout_preview =
  pv_multiplier :: int
  pv_discount_pct :: int
  pv_discount :: int
  pv_effective_price :: int
  pv_shortfall :: int
  pv_balance_after :: int
  pv_direct_pay :: bool
  pv_charge_amount :: int
  pv_gateway_charge :: bool
  pv_gateway_unavailable :: bool
  pv_qris :: bool
  pv_wallet_covers :: bool
  pv_no_payment_method :: bool

definition duration_pct :: "plan \<Rightarrow> int \<Rightarrow> int" where
  "duration_pct pl dm = (if pl_interval pl \<noteq> Interval_NONE then (case map_of (pl_durations pl) (str_int dm) of None \<Rightarrow> 0 | Some d \<Rightarrow> d) else 0)"

definition preview :: "env \<Rightarrow> plan \<Rightarrow> product \<Rightarrow> int \<Rightarrow> form \<Rightarrow> checkout_preview prog" where
  "preview E pl pr balance params =
     (let dm = posted_duration pl params;
          pct = duration_pct pl dm;
          base = (if pl_interval pl \<noteq> Interval_NONE \<and> dm > 1
                  then (let subtotal = pl_price pl * dm in subtotal - subtotal * pct div 100) else pl_price pl)
      in bnd (valid_coupon pl params) (\<lambda>cp.
         let discount = (case cp of None \<Rightarrow> 0 | Some c \<Rightarrow> compute_discount c base);
             effective = max 0 (base - discount);
             shortfall = max 0 (effective - balance)
         in bnd (bool_setting ''DIRECT_PAY_ENABLED'') (\<lambda>master.
            bnd (gets (\<lambda>s. case pr_seller pr of None \<Rightarrow> None | Some k \<Rightarrow> find_by sel_pk k (t_sellers s))) (\<lambda>seller.
            let direct = (master \<and> pl_direct_pay pl);
                charge = (if direct then effective else shortfall);
                online = (sumopod_api_key E \<noteq> []);
                qris = (case seller of None \<Rightarrow> False | Some x \<Rightarrow> qris_ready x);
                covers = (\<not> direct \<and> shortfall = 0 \<and> effective > 0)
            in ret \<lparr>pv_multiplier = dm, pv_discount_pct = pct, pv_discount = discount, pv_effective_price = effective,
                 pv_shortfall = shortfall, pv_balance_after = (if shortfall = 0 then balance - effective else 0),
                 pv_direct_pay = direct, pv_charge_amount = charge, pv_gateway_charge = (charge > 0 \<and> online),
                 pv_gateway_unavailable = (charge > 0 \<and> \<not> online), pv_qris = qris, pv_wallet_covers = covers,
                 pv_no_payment_method = (effective > 0 \<and> \<not> covers \<and> \<not> (charge > 0 \<and> online) \<and> \<not> qris)\<rparr>))))"

definition checkout_page :: "env \<Rightarrow> visitor \<Rightarrow> plan \<Rightarrow> product \<Rightarrow> int \<Rightarrow> form \<Rightarrow> reply prog" where
  "checkout_page E v pl pr balance params =
     bnd (preview E pl pr balance params) (\<lambda>pv.
     bnd (page_event ''checkout_start'' (Some (pr_pk pr)) (Some (pl_pk pl))) (\<lambda>_.
     ret (Page ''storefront/checkout.html'', v\<lparr>vs_tokens := (pl_pk pl, vs_fresh v) # filter (\<lambda>e. fst e \<noteq> pl_pk pl) (vs_tokens v)\<rparr>)))"

definition checkout_token :: "visitor \<Rightarrow> nat \<Rightarrow> form \<Rightarrow> string" where
  "checkout_token v k f =
     (case map_of f ''checkout_token'' of
        Some (c # cs) \<Rightarrow> c # cs
      | _ \<Rightarrow> (case map_of (vs_tokens v) k of None \<Rightarrow> vs_fresh v | Some tok \<Rightarrow> tok))"

definition price_override :: "plan \<Rightarrow> form \<Rightarrow> int option" where
  "price_override pl f =
     (if pl_pwyw pl
      then (let amount = clean_rupiah (Some (post_get f ''pwyw_price'' []))
            in if amount \<noteq> 0 then Some (max amount (pl_min_price pl))
               else Some (if pl_min_price pl \<noteq> 0 then pl_min_price pl else pl_price pl))
      else None)"

text \<open>The answers to the questions of the product; a label is stored with each.\<close>

definition custom_answers :: "question list \<Rightarrow> form \<Rightarrow> (question \<times> string) list" where
  "custom_answers qs f = map (\<lambda>q. (q, strip (post_get f (''q_'' @ str_nat (q_pk q)) []))) qs"

definition sold :: "nat \<Rightarrow> db \<Rightarrow> nat" where
  "sold k s = length (filter (\<lambda>r. o_plan r = k \<and> o_status r = Order_PAID) (t_orders s))"

definition posted_method :: "form \<Rightarrow> string option" where
  "posted_method f = (let m = strip (post_get f ''payment_method'' []) in if m = [] then None else Some m)"

text \<open>The exceptions of \<open>checkout\<close> the view answers.\<close>

fun checkout_answer :: "exn \<Rightarrow> response option" where
  "checkout_answer QrisNotAvailableError = Some (Redirect ''storefront:checkout'')"
| "checkout_answer CheckoutIdempotencyError = Some (Redirect ''storefront:product'')"
| "checkout_answer CouponLimitError = Some (Redirect ''storefront:checkout'')"
| "checkout_answer PaymentMethodRequiredError = Some (Redirect ''storefront:checkout'')"
| "checkout_answer (SumopodError _) = Some (Redirect ''storefront:checkout'')"
| "checkout_answer _ = None"

definition checkout_done :: "visitor \<Rightarrow> product \<Rightarrow> checkout_result \<Rightarrow> reply prog" where
  "checkout_done v pr = (\<lambda>(ord, grants, payment_url).
     case payment_url of
       Some (c # url) \<Rightarrow> ret (Redirect (c # url), v)
     | _ \<Rightarrow>
         if o_status ord = Order_PAID
         then bnd (page_event ''order_paid'' (Some (pr_pk pr)) (Some (o_plan ord))) (\<lambda>_.
              bnd (record_affiliate_commission (vs_ref v) ord) (\<lambda>_.
              ret (Redirect ''storefront:order_status'', v\<lparr>vs_ref := None\<rparr>)))
         else ret (Redirect ''storefront:order_status'', v))"

definition checkout_submit ::
  "env \<Rightarrow> visitor \<Rightarrow> user \<Rightarrow> customer \<Rightarrow> bool \<Rightarrow> plan \<Rightarrow> product \<Rightarrow> question list \<Rightarrow> form \<Rightarrow> string option \<Rightarrow> string \<Rightarrow> reply prog" where
  "checkout_submit E v u c was_authenticated pl pr questions f proof path =
     (let answers = custom_answers questions f;
          method = posted_method f;
          qris = (method = Some ''qris_static'')
      in if \<exists>(q, a) \<in> set answers. q_required q \<and> a = [] then ret (Redirect path, v)
         else
           bnd (gets (\<lambda>s. case pl_stock pl of None \<Rightarrow> False | Some n \<Rightarrow> n \<le> int (sold (pl_pk pl) s))) (\<lambda>out_of_stock.
           if out_of_stock then ret (Redirect ''storefront:product'', v)
           else
             bnd (valid_coupon pl f) (\<lambda>cp.
             if method \<noteq> None \<and> \<not> qris \<and> was_authenticated \<and> \<not> u_verified u then ret (Redirect ''account_email'', v)
             else
               try_except
                 (checkout E \<lparr>rq_customer = c, rq_plan = pl,
                    rq_key = ''ck:'' @ str_nat (u_pk u) @ '':'' @ str_nat (pl_pk pl) @ '':'' @ checkout_token v (pl_pk pl) f,
                    rq_coupon = cp, rq_price_override = price_override pl f, rq_multiplier = posted_duration pl f,
                    rq_custom_fields = map (\<lambda>(q, a). (str_nat (q_pk q), a)) answers, rq_return_url = ''/orders/pending/'',
                    rq_method = method, rq_proof = (if qris then proof else None)\<rparr>)
                 (\<lambda>e. checkout_answer e \<noteq> None)
                 (\<lambda>e. ret (case checkout_answer e of None \<Rightarrow> Page [] | Some r \<Rightarrow> r, v))
                 (checkout_done v pr))))"

text \<open>\<open>post\<close>: the form of a POST with the uploaded proof of payment; \<open>params\<close>: those of a GET.\<close>

definition checkout_plan ::
  "env \<Rightarrow> visitor \<Rightarrow> nat \<Rightarrow> form option \<Rightarrow> string option \<Rightarrow> form \<Rightarrow> string \<Rightarrow> reply prog" where
  "checkout_plan E v plan_pk post proof params path =
     bnd (or_404 (\<lambda>s. find (\<lambda>r. pl_pk r = plan_pk \<and> pl_active r) (t_plans s))) (\<lambda>pl.
     bnd (product_get (pl_product pl)) (\<lambda>pr.
     if pr_visibility pr = Visibility_DRAFT then ret (Redirect ''storefront:page'', v)
     else
       with_guest E v post path (\<lambda>v'.
         bnd (visitor_customer v') (\<lambda>customer.
         bnd (wallet_balance customer) (\<lambda>balance.
         bnd (gets (\<lambda>s. filter (\<lambda>q. q_product q = pr_pk pr) (t_questions s))) (\<lambda>questions.
         case (post, vs_user v', customer) of
           (Some f, Some u, Some c) \<Rightarrow> checkout_submit E v' u c (vs_user v \<noteq> None) pl pr questions f proof path
         | _ \<Rightarrow> checkout_page E v' pl pr balance params))))))"

section \<open>Receipts\<close>

text \<open>The payload of a receipt token is the public id of the order; it never expires.\<close>

definition order_receipt_salt :: string where "order_receipt_salt = ''order-receipt''"

definition build_order_receipt_token :: "env \<Rightarrow> order \<Rightarrow> string prog" where
  "build_order_receipt_token E ord = bnd now (\<lambda>t. ret (sign_dumps E order_receipt_salt (o_public_id ord) (t div us_second)))"

definition resolve_receipt_order :: "env \<Rightarrow> user option \<Rightarrow> string \<Rightarrow> string \<Rightarrow> order option prog" where
  "resolve_receipt_order E who token public_id =
     bnd now (\<lambda>t.
     if token \<noteq> [] \<and> sign_loads E order_receipt_salt token None (t div us_second) = Some public_id
     then bnd (or_404 (\<lambda>s. find_by o_public_id public_id (t_orders s))) (\<lambda>ord. ret (Some ord))
     else
       case who of
         None \<Rightarrow> ret None
       | Some u \<Rightarrow>
           bnd (get_or_create_customer u) (\<lambda>c.
           bnd (or_404 (\<lambda>s. find (\<lambda>r. o_public_id r = public_id \<and> o_customer r = c_pk c) (t_orders s))) (\<lambda>ord. ret (Some ord))))"

text \<open>The receipt and the invoice show one order, here by its public id; \<open>pdf\<close> is the PDF renderer.\<close>

definition order_status_view :: "env \<Rightarrow> user option \<Rightarrow> string \<Rightarrow> string \<Rightarrow> response prog" where
  "order_status_view E who token public_id =
     bnd (resolve_receipt_order E who token public_id) (\<lambda>v.
     ret (case v of None \<Rightarrow> Redirect ''account_login'' | Some ord \<Rightarrow> Content (o_public_id ord)))"

definition order_invoice_pdf :: "env \<Rightarrow> (order \<Rightarrow> string option) \<Rightarrow> user option \<Rightarrow> string \<Rightarrow> string \<Rightarrow> response prog" where
  "order_invoice_pdf E pdf who token public_id =
     bnd (resolve_receipt_order E who token public_id) (\<lambda>v.
     case v of
       None \<Rightarrow> ret (Redirect ''account_login'')
     | Some ord \<Rightarrow>
         bnd (check (o_status ord = Order_PAID) Http404) (\<lambda>_.
         bnd (check (pdf ord \<noteq> None \<and> pdf ord \<noteq> Some []) Http404) (\<lambda>_. ret (Content (o_public_id ord)))))"

text \<open>Where the gateway sends the buyer back to.\<close>

definition order_pending :: "user option \<Rightarrow> form \<Rightarrow> response prog" where
  "order_pending who params =
     (let first = post_get params ''ref'' [];
          ref = (if first \<noteq> [] then first else post_get params ''merchantOrderId'' [])
      in bnd (gets (\<lambda>s. if ref = [] then None else find_by tu_public_id ref (t_topups s))) (\<lambda>named.
         bnd (gets (\<lambda>s. case (named, who) of
                (None, Some u) \<Rightarrow>
                  (case find_by c_user (u_pk u) (t_customers s) of None \<Rightarrow> None
                   | Some c \<Rightarrow> find_by tu_customer (c_pk c) (rev (t_topups s)))
              | _ \<Rightarrow> named)) (\<lambda>found.
         ret (case found of
                None \<Rightarrow> Redirect ''storefront:page''
              | Some tu \<Rightarrow>
                  if tu_checkout_order tu \<noteq> None then Redirect ''storefront:order_status''
                  else if tu_cart_checkout tu \<noteq> None then Redirect ''storefront:cart_checkout_receipt''
                  else Redirect ''dashboard:wallet''))))"

section \<open>Top-ups\<close>

definition topup_form :: "env \<Rightarrow> user \<Rightarrow> customer \<Rightarrow> int \<Rightarrow> int \<Rightarrow> form \<Rightarrow> response prog" where
  "topup_form E u c min_topup max_topup f =
     (let amount = clean_rupiah (Some (post_get f ''amount'' []));
          method = (case posted_method f of None \<Rightarrow> ''QRIS'' | Some m \<Rightarrow> m);
          again = Page ''storefront/topup.html''
      in if amount < min_topup \<or> max_topup < amount then ret again
         else
           try_except
             (bnd (int_setting ''TOPUP_BONUS_PERCENT'' ''0'') (\<lambda>bonus_pct.
              initiate_topup E c amount method (amount * bonus_pct div 100) ''/dashboard/wallet/''))
             (\<lambda>_. True) (\<lambda>_. ret again) (\<lambda>(tu, payment_url). ret (Redirect payment_url)))"

definition topup_view :: "env \<Rightarrow> user option \<Rightarrow> form option \<Rightarrow> response prog" where
  "topup_view E who post = login_required who (\<lambda>u.
     bnd (get_or_create_customer u) (\<lambda>c.
     bnd (int_setting ''MIN_TOPUP'' ''10000'') (\<lambda>min_topup.
     bnd (int_setting ''MAX_TOPUP'' ''50000000'') (\<lambda>max_topup.
     case post of
       None \<Rightarrow> ret (Page ''storefront/topup.html'')
     | Some f \<Rightarrow> if \<not> u_verified u then ret (Redirect ''account_email'') else topup_form E u c min_topup max_topup f))))"

section \<open>Contact requests\<close>

text \<open>\<open>wa_column\<close>: the WhatsApp number of a product, a column only this view reads.\<close>

definition contact :: "(nat \<Rightarrow> string) \<Rightarrow> nat \<Rightarrow> form option \<Rightarrow> response prog" where
  "contact wa_column product_pk post =
     bnd (or_404 (\<lambda>s. find (\<lambda>p. pr_pk p = product_pk \<and> pr_type p = Product_CONTACT \<and> pr_visibility p = Visibility_PUBLIC) (t_products s))) (\<lambda>pr.
     case post of
       None \<Rightarrow> ret (Page ''storefront/contact.html'')
     | Some f \<Rightarrow>
         let name = strip (post_get f ''name'' []); contact_val = strip (post_get f ''contact'' [])
         in if name = [] \<or> contact_val = [] then ret (Page ''storefront/contact.html'')
            else
              bnd new_pk (\<lambda>pk.
              bnd (modify (\<lambda>s. s\<lparr>t_leads := t_leads s @ [\<lparr>ld_pk = pk, ld_name = name, ld_contact = contact_val,
                     ld_product = Some product_pk, ld_status = ''new'', ld_notes = [], ld_assigned = None, ld_created = clock s\<rparr>]\<rparr>)) (\<lambda>_.
              bnd (setting_get ''SUPPORT_WA_NUMBER'' []) (\<lambda>support.
              let wa = (if wa_column product_pk \<noteq> [] then wa_column product_pk else support)
              in ret (if wa = [] then Redirect ''storefront:page''
                      else Redirect (''https://wa.me/'' @ normalize_wa_number wa @ ''?text=Hi%2C+I'' @ [CHR 0x27] @ ''m+interested+in+'' @ pr_name pr))))))"

section \<open>The cart\<close>

fun is_cart_error :: "exn \<Rightarrow> bool" where
  "is_cart_error (CartError _) = True"
| "is_cart_error (PlanNotCartableError _) = True"
| "is_cart_error EmptyCartError = True"
| "is_cart_error CartPaymentMethodRequiredError = True"
| "is_cart_error _ = False"

text \<open>\<open>get_or_create_cart(request)\<close>: the customer of a signed-in visitor, and the session.\<close>

definition visitor_cart :: "visitor \<Rightarrow> (cart \<times> visitor) prog" where
  "visitor_cart v =
     bnd (visitor_customer v) (\<lambda>c.
     bnd (get_or_create_cart (vs_fresh v) (map_option c_pk c) (vs_cart v)) (\<lambda>(cart, ss). ret (cart, v\<lparr>vs_cart := ss\<rparr>)))"

definition cart_lines :: "nat \<Rightarrow> nat list option \<Rightarrow> cart_line list prog" where
  "cart_lines cart only_ids =
     bnd (cart_items_of cart) (\<lambda>items.
     map_m compute_cart_line (case only_ids of None \<Rightarrow> items | Some wanted \<Rightarrow> filter (\<lambda>i. ci_pk i \<in> set wanted) items))"

definition cart_view :: "visitor \<Rightarrow> reply prog" where
  "cart_view v =
     bnd (visitor_cart v) (\<lambda>(cart, v).
     bnd (cart_lines (ca_pk cart) None) (\<lambda>_. ret (Page ''storefront/cart.html'', v)))"

definition cart_add :: "visitor \<Rightarrow> nat \<Rightarrow> form \<Rightarrow> reply prog" where
  "cart_add v plan_pk f =
     bnd (or_404 (\<lambda>s. find (\<lambda>r. pl_pk r = plan_pk \<and> pl_active r) (t_plans s))) (\<lambda>pl.
     bnd (visitor_cart v) (\<lambda>(cart, v).
     try_except (add_to_cart (ca_pk cart) pl (post_int f ''duration'' 1 1) []) is_cart_error
       (\<lambda>_. ret (Redirect ''storefront:product'', v)) (\<lambda>_. ret (Redirect ''storefront:cart'', v))))"

definition cart_remove :: "visitor \<Rightarrow> nat \<Rightarrow> reply prog" where
  "cart_remove v item_pk =
     bnd (visitor_cart v) (\<lambda>(cart, v).
     bnd (remove_from_cart (ca_pk cart) item_pk) (\<lambda>_. ret (Redirect ''storefront:cart'', v)))"

definition cart_update :: "visitor \<Rightarrow> nat \<Rightarrow> form \<Rightarrow> reply prog" where
  "cart_update v item_pk f =
     bnd (visitor_cart v) (\<lambda>(cart, v).
     bnd (update_cart_item (ca_pk cart) item_pk (post_int f ''duration'' 1 1)) (\<lambda>_. ret (Redirect ''storefront:cart'', v)))"

text \<open>\<open>getlist("item")\<close>, and the numbers among them that are lines of the cart; \<open>None\<close>: no choice was made.\<close>

definition post_getlist :: "form \<Rightarrow> string \<Rightarrow> string list" where
  "post_getlist f key = map snd (filter (\<lambda>e. fst e = key) f)"

definition selected_items :: "form \<Rightarrow> nat list \<Rightarrow> nat list option" where
  "selected_items f all_ids =
     (let ids = post_getlist f ''item''
      in if ids = [] then None
         else Some (filter (\<lambda>k. k \<in> set all_ids) (map parse_nat (filter (\<lambda>i. i \<noteq> [] \<and> list_all is_digit i) ids))))"

fun cart_checkout_answer :: "exn \<Rightarrow> response option" where
  "cart_checkout_answer EmptyCartError = Some (Redirect ''storefront:cart'')"
| "cart_checkout_answer (SumopodError _) = Some (Redirect ''storefront:cart_checkout'')"
| "cart_checkout_answer e = (if is_cart_error e then Some (Redirect ''storefront:cart_checkout'') else None)"

definition cart_checkout_submit ::
  "env \<Rightarrow> visitor \<Rightarrow> user \<Rightarrow> customer \<Rightarrow> bool \<Rightarrow> nat \<Rightarrow> int \<Rightarrow> nat list option \<Rightarrow> form \<Rightarrow> string option \<Rightarrow> reply prog" where
  "cart_checkout_submit E v u c was_authenticated cart shortfall selected f proof =
     (let method = posted_method f; qris = (method = Some ''qris_static'')
      in if method \<noteq> None \<and> \<not> qris \<and> 0 < shortfall \<and> was_authenticated \<and> \<not> u_verified u then ret (Redirect ''account_email'', v)
         else
           try_except
             (checkout_cart E c cart ''/orders/pending/'' method (if qris then proof else None) selected)
             (\<lambda>e. cart_checkout_answer e \<noteq> None)
             (\<lambda>e. ret (case cart_checkout_answer e of None \<Rightarrow> Page [] | Some r \<Rightarrow> r, v))
             (\<lambda>(cc, grants, payment_url). ret (case payment_url of
                Some (a # url) \<Rightarrow> Redirect (a # url) | _ \<Rightarrow> Redirect ''storefront:cart_checkout_receipt'', v)))"

definition cart_checkout_view :: "env \<Rightarrow> visitor \<Rightarrow> form option \<Rightarrow> string option \<Rightarrow> form \<Rightarrow> string \<Rightarrow> reply prog" where
  "cart_checkout_view E v post proof params path =
     with_guest E v post path (\<lambda>v'.
       bnd (visitor_cart v') (\<lambda>(cart, v').
       bnd (cart_items_of (ca_pk cart)) (\<lambda>items.
       let f = (case post of None \<Rightarrow> [] | Some p \<Rightarrow> p);
           chosen = (if post_getlist f ''item'' \<noteq> [] then f else params);
           selected = selected_items chosen (map ci_pk items)
       in bnd (cart_lines (ca_pk cart) selected) (\<lambda>lines.
          if lines = [] then ret (Redirect ''storefront:cart'', v')
          else
            bnd (visitor_customer v') (\<lambda>customer.
            bnd (wallet_balance customer) (\<lambda>balance.
            let shortfall = max 0 (sum_prices lines - balance)
            in case (post, vs_user v', customer) of
                 (Some f, Some u, Some c) \<Rightarrow> cart_checkout_submit E v' u c (vs_user v \<noteq> None) (ca_pk cart) shortfall selected f proof
               | _ \<Rightarrow> ret (Page ''storefront/cart_checkout.html'', v')))))))"

text \<open>The receipt of a cart shows the sum of its orders.\<close>

definition cart_checkout_receipt :: "user option \<Rightarrow> string \<Rightarrow> response prog" where
  "cart_checkout_receipt who public_id = login_required who (\<lambda>u.
     bnd (get_or_create_customer u) (\<lambda>c.
     bnd (or_404 (\<lambda>s. find (\<lambda>r. cc_public_id r = public_id \<and> cc_customer r = c_pk c) (t_cart_checkouts s))) (\<lambda>cc.
     bnd (gets (\<lambda>s. filter (\<lambda>r. o_cart_checkout r = Some (cc_pk cc)) (t_orders s))) (\<lambda>orders.
     ret (Content (str_int (sum_list (map o_amount orders))))))))"

end
