(* ===== verification/Shop.thy ===== *)
theory Shop
  imports Storefront
begin

text \<open>
  What the public shop promises: who sees a receipt, what a guest's cart comes to, that the price of
  the checkout page is the price charged, when a commission is recorded, and which top-ups are begun.
\<close>

section \<open>Visitors and their customers\<close>

lemma found_customer_wp:
  "find_by c_user (u_pk u) (t_customers s) = Some c \<Longrightarrow> wp (get_or_create_customer u) Q X s = Q c s"
  by (simp add: get_or_create_customer_def wp_simps)

text \<open>What a request leaves alone that sells nothing.\<close>

definition no_sale :: "db \<Rightarrow> db \<Rightarrow> bool" where
  "no_sale s t = (t_orders t = t_orders s \<and> t_cart_checkouts t = t_cart_checkouts s \<and> t_ledger t = t_ledger s \<and> t_topups t = t_topups s
     \<and> t_grants t = t_grants s \<and> t_settings t = t_settings s)"

lemma no_sale_refl [simp]: "no_sale s s"
  by (simp add: no_sale_def)

lemma no_sale_upd [simp]:
  "no_sale s (t\<lparr>seq := n\<rparr>) = no_sale s t" "no_sale s (t\<lparr>t_carts := Ca\<rparr>) = no_sale s t"
  "no_sale s (t\<lparr>t_users := Us\<rparr>) = no_sale s t" "no_sale s (t\<lparr>t_customers := Cu\<rparr>) = no_sale s t"
  by (simp_all add: no_sale_def)

text \<open>A new customer gets the next key; however the customer is found, they are the signed-in user's.\<close>

lemma new_customer_wp:
  assumes "find_by c_user (u_pk u) (t_customers s) = None"
  shows "wp (get_or_create_customer u)
     (\<lambda>c t. c_pk c = seq s \<and> c_user c = u_pk u \<and> t_customers t = t_customers s @ [c] \<and> t_carts t = t_carts s
        \<and> t_cart_items t = t_cart_items s \<and> no_sale s t \<and> seq s < seq t)
     (\<lambda>_ _. False) s"
  using assms by (auto simp: get_or_create_customer_def create_wallet_for_customer_def wp_simps Let_def no_sale_def)

lemma customer_wp:
  "wp (get_or_create_customer u) (\<lambda>c t. c_user c = u_pk u \<and> c \<in> set (t_customers t) \<and> no_sale s t) (\<lambda>_ _. False) s"
proof (cases "find_by c_user (u_pk u) (t_customers s)")
  case None
  show ?thesis by (rule wp_mono [OF new_customer_wp [OF None]]) (auto simp: no_sale_def)
next
  case (Some c)
  then show ?thesis using find_by_SomeD [OF Some] by (simp add: found_customer_wp)
qed

section \<open>Receipts\<close>

text \<open>Who may see an order: the bearer of a token made for it, and the user whose order it is.\<close>

definition may_see :: "env \<Rightarrow> user option \<Rightarrow> string \<Rightarrow> string \<Rightarrow> db \<Rightarrow> bool" where
  "may_see E who token public_id t =
     ((\<exists>at. token = sign_dumps E order_receipt_salt public_id at)
      \<or> (\<exists>u c ord. who = Some u \<and> c \<in> set (t_customers t) \<and> c_user c = u_pk u
           \<and> ord \<in> set (t_orders t) \<and> o_public_id ord = public_id \<and> o_customer ord = c_pk c))"

lemma resolve_wp:
  assumes signer: "\<And>tok v age at. sign_loads E order_receipt_salt tok age at = Some v \<Longrightarrow> \<exists>at. tok = sign_dumps E order_receipt_salt v at"
  shows "wp (resolve_receipt_order E who token public_id)
     (\<lambda>v t. no_sale s t \<and> (\<forall>ord. v = Some ord \<longrightarrow> ord \<in> set (t_orders s) \<and> o_public_id ord = public_id \<and> may_see E who token public_id t))
     (\<lambda>_ t. no_sale s t) s"
proof (cases "token \<noteq> [] \<and> sign_loads E order_receipt_salt token None (clock s div us_second) = Some public_id")
  case True
  then have "may_see E who token public_id t" for t using signer by (auto simp: may_see_def)
  with True show ?thesis
    by (auto simp: resolve_receipt_order_def now_def wp_simps dest: find_by_SomeD split: option.split)
next
  case False
  have "wp (bnd (get_or_create_customer u) (\<lambda>c.
      bnd (or_404 (\<lambda>s. find (\<lambda>r. o_public_id r = public_id \<and> o_customer r = c_pk c) (t_orders s))) (\<lambda>ord. ret (Some ord))))
     (\<lambda>v t. no_sale s t \<and> (\<forall>ord. v = Some ord \<longrightarrow> ord \<in> set (t_orders s) \<and> o_public_id ord = public_id \<and> may_see E who token public_id t))
     (\<lambda>_ t. no_sale s t) s" if "who = Some u" for u
    unfolding wp_bnd
    by (rule wp_mono [OF customer_wp])
      (use that in \<open>auto simp: wp_simps may_see_def no_sale_def dest!: find_SomeD split: option.split\<close>)
  with False show ?thesis
    by (cases who) (auto simp: resolve_receipt_order_def now_def wp_simps)
qed

text \<open>
  C26.  A receipt or an invoice is shown to nobody but its buyer and the bearers of its link.  If the
  signing framework accepts no token it did not make, a request that is shown anything is shown the
  very order it named, and either carries a token made for that order or comes from the signed-in
  user whose customer placed it; an invoice is shown only for a paid order; and neither page changes
  an order, a payment or a grant.
\<close>

theorem receipt_owner_only:
  assumes signer: "\<And>tok v age at. sign_loads E order_receipt_salt tok age at = Some v \<Longrightarrow> \<exists>at. tok = sign_dumps E order_receipt_salt v at"
  shows "wp (order_status_view E who token public_id)
       (\<lambda>r t. no_sale s t \<and> (\<forall>shown. r = Content shown \<longrightarrow> shown = public_id \<and> may_see E who token public_id t)) (\<lambda>_ t. no_sale s t) s
     \<and> wp (order_invoice_pdf E pdf who token public_id)
       (\<lambda>r t. no_sale s t \<and> (\<forall>shown. r = Content shown \<longrightarrow> shown = public_id \<and> may_see E who token public_id t
          \<and> (\<exists>ord \<in> set (t_orders s). o_public_id ord = public_id \<and> o_status ord = Order_PAID))) (\<lambda>_ t. no_sale s t) s"
  unfolding order_status_view_def order_invoice_pdf_def wp_bnd [of "resolve_receipt_order _ _ _ _"]
  by (intro conjI; rule wp_mono [OF resolve_wp [OF signer]]) (auto simp: wp_simps split: option.split)

section \<open>A guest's cart\<close>

text \<open>Keys are used up, and the lines are those of \<open>carts_ok\<close>.\<close>

definition shop_keys :: "db \<Rightarrow> bool" where
  "shop_keys s =
     (carts_ok s \<and> (\<forall>c \<in> set (t_customers s). c_user c < seq s) \<and> (\<forall>c \<in> set (t_carts s). \<forall>k. ca_customer c = Some k \<longrightarrow> k < seq s)
      \<and> (\<forall>i \<in> set (t_cart_items s). ci_cart i < seq s))"

text \<open>No line older than key \<open>N\<close> is in a cart as new as \<open>N\<close>.\<close>

definition new_lines :: "nat \<Rightarrow> db \<Rightarrow> bool" where
  "new_lines N s = (N \<le> seq s \<and> (\<forall>i \<in> set (t_cart_items s). N \<le> ci_cart i \<longrightarrow> N \<le> ci_pk i))"

lemma item_create_new: "pres (new_lines N) (cart_item_create k pl m code)"
  by (rule presI) (auto simp: new_lines_def cart_item_create_def run_simps Let_def)

lemma merge_new: "pres (new_lines N) (merge_cart k j)"
  unfolding merge_cart_def cart_delete_def cart_items_delete_def cart_by_pk_def cart_items_of_def Let_def
  by (intro pres_intros item_create_new pres_modify) (auto simp: new_lines_def)

text \<open>Copying a guest's lines into an empty cart never fails.\<close>

lemma merge_wp:
  assumes "carts_ok s" and "\<forall>i \<in> set (t_cart_items s). ci_cart i \<noteq> tgt"
  shows "wp (merge_cart src tgt) (\<lambda>_ t. no_sale s t) (\<lambda>_ _. False) s"
proof -
  let ?items = "filter (\<lambda>i. ci_cart i = src) (t_cart_items s)"
  have "distinct (map ci_plan ?items)"
    using assms(1) unfolding carts_ok_def by (auto simp: distinct_map inj_on_def)
  moreover have "\<forall>i \<in> set ?items. line_ok i" using assms(1) by (simp add: carts_ok_def)
  ultimately obtain n rows where "for_each (\<lambda>item. if ci_plan item \<notin> {}
        then bnd (cart_item_create tgt (ci_plan item) (ci_multiplier item) (ci_coupon_code item)) (\<lambda>_. ret ())
        else ret ()) ?items s = (Inr (), s\<lparr>seq := n, t_cart_items := t_cart_items s @ rows\<rparr>)"
    using merge_loop [of ?items "{}" s tgt] assms(2) by auto
  moreover have "filter (\<lambda>i. ci_cart i = tgt) (t_cart_items s) = []" using assms(2) by (simp add: filter_empty_conv)
  ultimately show ?thesis
    by (auto simp: merge_cart_def cart_by_pk_def cart_items_of_def cart_delete_def cart_items_delete_def Let_def no_sale_def
        wp_def run_simps split: option.split)
qed

lemma new_visitor_cart:
  assumes keys: "shop_keys s" and fresh: "find_by c_user (u_pk u) (t_customers s) = None" and who: "vs_user v = Some u"
  shows "wp (visitor_cart v)
     (\<lambda>(cart, v') t. no_sale s t \<and> vs_user v' = Some u \<and> (\<forall>i \<in> set (t_cart_items t). ci_cart i = ca_pk cart \<longrightarrow> seq s \<le> ci_pk i))
     (\<lambda>_ _. False) s"
  unfolding visitor_cart_def visitor_customer_def who option.case wp_bnd wp_ret
proof (rule wp_mono [OF new_customer_wp [OF fresh]])
  fix c t
  assume c: "c_pk c = seq s \<and> c_user c = u_pk u \<and> t_customers t = t_customers s @ [c] \<and> t_carts t = t_carts s
     \<and> t_cart_items t = t_cart_items s \<and> no_sale s t \<and> seq s < seq t"
  let ?t = "t\<lparr>seq := Suc (seq t), t_carts := t_carts t @ [\<lparr>ca_pk = seq t, ca_customer = Some (c_pk c), ca_session_key = []\<rparr>]\<rparr>"
  have none: "find_by ca_customer (Some (c_pk c)) (t_carts t) = None"
    using c keys unfolding find_by_None_iff shop_keys_def by (metis imageE less_irrefl)
  have ok: "carts_ok ?t"
    using c keys none by (auto simp: shop_keys_def carts_ok_def find_by_None_iff)
  have empty: "\<forall>i \<in> set (t_cart_items ?t). ci_cart i \<noteq> seq t" using c keys by (auto simp: shop_keys_def)
  have new: "new_lines (seq s) ?t" using c keys by (auto simp: new_lines_def shop_keys_def)
  have merged: "wp (merge_cart k (seq t)) (\<lambda>_ w. no_sale s w \<and> new_lines (seq s) w) (\<lambda>_ _. False) ?t" for k
    by (rule wp_mono [OF wp_both [OF merge_wp [OF ok empty] iffD1 [OF pres_wp merge_new, rule_format, OF new]]])
      (use c in \<open>auto simp: no_sale_def\<close>)
  have unsold: "no_sale s t" using c by simp
  have "wp (get_or_create_cart (vs_fresh v) (Some (c_pk c)) (vs_cart v))
     (\<lambda>(cart, ss) w. no_sale s w \<and> ca_pk cart = seq t \<and> new_lines (seq s) w) (\<lambda>_ _. False) t"
    using none new unsold
    by (cases "ss_cart_id (vs_cart v)")
      (simp_all add: get_or_create_cart_def cart_create_def wp_simps Let_def wp_mono [OF merged])
  then show "wp (get_or_create_cart (vs_fresh v) (map_option c_pk (Some c)) (vs_cart v))
     (\<lambda>x. wp (case x of (cart, ss) \<Rightarrow> ret (cart, v\<lparr>vs_cart := ss\<rparr>))
       (\<lambda>(cart, v') w. no_sale s w \<and> vs_user v' = Some u \<and> (\<forall>i \<in> set (t_cart_items w). ci_cart i = ca_pk cart \<longrightarrow> seq s \<le> ci_pk i)) (\<lambda>_ _. False))
     (\<lambda>_ _. False) t"
    using who c unfolding option.map by (elim wp_mono) (auto simp: wp_simps new_lines_def)
qed simp

text \<open>The lines a form names, when none of them is in the cart.\<close>

lemma none_selected:
  assumes "post_getlist f ''item'' \<noteq> []" and "\<forall>i \<in> set (post_getlist f ''item''). parse_nat i < N" and "\<forall>k \<in> set ks. N \<le> k"
  shows "selected_items f ks = Some []"
  using assms by (fastforce simp: selected_items_def Let_def filter_empty_conv)

text \<open>
  C28.  A guest who orders the cart page's selection never buys it.  The page posts the keys of the
  guest's lines; signing the guest up copies the lines into the new customer's cart under new keys,
  so that none of the posted keys is found there: the answer is the empty-cart redirect, the guest
  is signed in, and no order, checkout, payment or grant has come of it.
\<close>

theorem guest_cart_checkout_stalls:
  assumes keys: "shop_keys s" and guest: "vs_user v = None"
    and email: "lower (strip (post_get f ''guest_email'' [])) = email" "email \<noteq> []" "valid_email E email"
      "\<forall>u \<in> set (t_users s). lower (u_email u) \<noteq> email"
    and lines: "post_getlist f ''item'' \<noteq> []" "\<forall>i \<in> set (post_getlist f ''item''). parse_nat i < seq s"
  shows "wp (cart_checkout_view E v (Some f) proof params path)
     (\<lambda>(r, v') t. r = Redirect ''storefront:cart'' \<and> vs_user v' \<noteq> None \<and> no_sale s t) (\<lambda>_ _. False) s"
proof -
  define u where "u = \<lparr>u_pk = seq s, u_email = email, u_superuser = False, u_operator = False, u_verified = False\<rparr>"
  let ?t = "s\<lparr>seq := Suc (seq s), t_users := t_users s @ [u]\<rparr>"
  let ?v = "v\<lparr>vs_user := Some u\<rparr>"
  have keys': "shop_keys ?t" using keys by (auto simp: shop_keys_def carts_ok_def less_Suc_eq)
  have fresh: "find_by c_user (u_pk u) (t_customers ?t) = None"
    using keys by (auto simp: u_def shop_keys_def find_by_None_iff)
  have rest: "wp (bnd (visitor_cart ?v) (\<lambda>(cart, v').
       bnd (cart_items_of (ca_pk cart)) (\<lambda>items.
       let posted = f;
           chosen = (if post_getlist posted ''item'' \<noteq> [] then posted else params);
           selected = selected_items chosen (map ci_pk items)
       in bnd (cart_lines (ca_pk cart) selected) (\<lambda>ls.
          if ls = [] then ret (Redirect ''storefront:cart'', v') else view v' cart selected ls))))
     (\<lambda>(r, v') t. r = Redirect ''storefront:cart'' \<and> vs_user v' \<noteq> None \<and> no_sale s t) (\<lambda>_ _. False) ?t" for view
    unfolding wp_bnd [of "visitor_cart _"]
  proof (rule wp_mono [OF new_visitor_cart [OF keys' fresh]], goal_cases)
    case (2 x t)
    obtain cart v' where x: "x = (cart, v')" by (cases x)
    have "selected_items f (map ci_pk (filter (\<lambda>i. ci_cart i = ca_pk cart) (t_cart_items t))) = Some []"
      using 2 by (intro none_selected [OF lines]) (auto simp: x Suc_le_eq)
    then show ?case
      using 2 lines(1) by (auto simp: x cart_items_of_def cart_lines_def wp_simps Let_def no_sale_def)
  qed simp_all
  have signed: "wp (intercept_guest_checkout E v f path) Q X s = Q (None, ?v) ?t" for Q X
    using email by (auto simp: intercept_guest_checkout_def u_def wp_simps Let_def)
  show ?thesis
    unfolding cart_checkout_view_def with_guest_def option.case guest simp_thms if_False
    unfolding wp_bnd [of "intercept_guest_checkout _ _ _ _"] signed prod.case option.case by (rule rest)
qed

section \<open>The price shown is the price charged\<close>

definition direct_pay_on :: "db \<Rightarrow> bool" where
  "direct_pay_on s = (lower (strip (case find_by st_key ''DIRECT_PAY_ENABLED'' (t_settings s) of None \<Rightarrow> ''false'' | Some r \<Rightarrow> st_value r)) = ''true'')"

lemma direct_pay_wp: "wp (bool_setting ''DIRECT_PAY_ENABLED'') Q X s = Q (direct_pay_on s) s"
  by (simp add: bool_setting_def setting_get_def direct_pay_on_def wp_simps)

definition coupon_named :: "plan \<Rightarrow> form \<Rightarrow> db \<Rightarrow> coupon option" where
  "coupon_named pl f s =
     (let code = upper (strip (post_get f ''coupon_code'' []))
      in if code = [] then None
         else (case find_by cp_code code (t_coupons s) of None \<Rightarrow> None
               | Some c \<Rightarrow> (if fst (is_valid_for c (clock s) (Some (pl_pk pl))) then Some c else None)))"

lemma valid_coupon_wp: "wp (valid_coupon pl f) Q X s = Q (coupon_named pl f s) s"
  by (simp add: valid_coupon_def coupon_named_def now_def wp_simps Let_def)

definition shown_price :: "plan \<Rightarrow> form \<Rightarrow> db \<Rightarrow> int" where
  "shown_price pl f s =
     (let base = base_price pl 0 (posted_duration pl f) in max 0 (base - coupon_discount (coupon_named pl f s) pl (clock s) base))"

text \<open>The page computes the price the service computes.\<close>

lemma coupon_named_discount:
  "coupon_discount (coupon_named pl f s) pl (clock s) x = (case coupon_named pl f s of None \<Rightarrow> 0 | Some c \<Rightarrow> compute_discount c x)"
  by (auto simp: coupon_discount_def coupon_named_def Let_def split: option.splits if_splits)

lemma preview_base:
  "base_price pl 0 (posted_duration pl f) =
     (if pl_interval pl \<noteq> Interval_NONE \<and> posted_duration pl f > 1
      then (let subtotal = pl_price pl * posted_duration pl f in subtotal - subtotal * duration_pct pl (posted_duration pl f) div 100)
      else pl_price pl)"
  by (simp add: base_price_def posted_duration_def duration_pct_def Let_def)

lemma preview_wp:
  "wp (preview E pl pr balance f)
     (\<lambda>pv t. t = s \<and> pv_effective_price pv = shown_price pl f s
        \<and> pv_wallet_covers pv = (\<not> (direct_pay_on s \<and> pl_direct_pay pl) \<and> shown_price pl f s \<le> balance \<and> 0 < shown_price pl f s))
     (\<lambda>_ _. False) s"
  by (auto simp: preview_def wp_bnd wp_gets wp_ret valid_coupon_wp direct_pay_wp shown_price_def preview_base coupon_named_discount Let_def)

lemma checkout_covered_wp:
  assumes product: "find_by pr_pk (pl_product (rq_plan rq)) (t_products s) = Some pr" "pr_type pr \<noteq> Product_CONTACT" "pr_type pr \<noteq> Product_FREE"
    and fresh: "fresh_key rq s" and ok: "orders_ok s" "order_refs_ok s"
    and price: "price = max 0 (base - coupon_discount (rq_coupon rq) (rq_plan rq) (clock s) base)"
      "base = base_price (rq_plan rq) (pwyw_price (rq_plan rq) (rq_price_override rq)) (duration_of (rq_plan rq) (rq_multiplier rq))"
    and plain: "rq_method rq \<noteq> Some ''qris_static''" "pl_price (rq_plan rq) \<noteq> 0" "\<not> (direct_pay_on s \<and> pl_direct_pay (rq_plan rq))"
    and wallet: "find_by w_customer (c_pk (rq_customer rq)) (t_wallets s) = Some w" "find_by w_pk (w_pk w) (t_wallets s) = Some w"
      "price \<le> w_balance w" "0 < price"
  shows "wp (checkout E rq) (\<lambda>_ t. purchased s rq w price t) (\<lambda>_ t. t = s) s"
proof -
  have "wp (checkout_wallet E rq w price d n) (\<lambda>_ t. purchased s rq w price t) (\<lambda>_ t. t = s) s" for d n
    by (rule checkout_wallet_wp [OF ok fresh wallet(2,4)])
  moreover have "find_by o_idem (Some (rq_key rq)) (t_orders s) = None" using fresh by (simp add: fresh_key_def)
  ultimately show ?thesis
    using product plain wallet(1,3) price
    by (auto simp: checkout_def checkout_paid_def product_get_def order_by_key_def customer_wallet_def now_def Let_def wp_bnd wp_gets wp_ret
        wp_or_raise direct_pay_wp)
qed

lemma wp_const: "wp m (\<lambda>_ _. P) (\<lambda>_ _. False) s \<Longrightarrow> P"
  by (auto simp: wp_def split: prod.splits sum.splits)

text \<open>\<open>checkout_done\<close> only writes statistics and a commission.\<close>

lemma checkout_done_wp:
  "wp (checkout_done v pr res) (\<lambda>_ t. t_ledger t = t_ledger s \<and> t_wallets t = t_wallets s \<and> t_orders t = t_orders s) (\<lambda>_ _. False) s"
proof -
  let ?same = "\<lambda>t. t_ledger t = t_ledger s \<and> t_wallets t = t_wallets s \<and> t_orders t = t_orders s"
  have commission: "wp (record_affiliate_commission r ord) (\<lambda>_. ?same) (\<lambda>_ _. False) u" if "?same u" for r ord u
    using that
    by (auto simp: record_affiliate_commission_def commission_get_or_create_def wp_simps plan_get_def product_get_def split: option.split)
  obtain ord gs url where "res = (ord, gs, url)" by (cases res)
  then show ?thesis
    by (auto simp: checkout_done_def page_event_def wp_bnd wp_modify wp_ret intro!: wp_mono [OF commission] split: option.split list.split)
qed


section \<open>Commissions\<close>

text \<open>The conditions under which an order earns a commission for the code of a session.\<close>

definition earns :: "string option \<Rightarrow> order \<Rightarrow> affiliate_link \<Rightarrow> db \<Rightarrow> bool" where
  "earns ref ord link s =
     (link \<in> set (t_affiliate_links s) \<and> al_active link \<and> ref = Some (al_code link) \<and> al_code link \<noteq> []
      \<and> find_by ac_order (o_pk ord) (t_commissions s) = None
      \<and> (\<exists>pl pr. find_by pl_pk (o_plan ord) (t_plans s) = Some pl \<and> find_by pr_pk (pl_product pl) (t_products s) = Some pr
           \<and> (al_product link = None \<or> al_product link = Some (pr_pk pr)) \<and> (pr_seller pr = None \<or> pr_seller pr = Some (al_seller link))))"

text \<open>
  A commission is recorded for a paid order at most once, and only for the active link whose code
  the visitor brought, when the link covers the order's product and is not another seller's; it is
  the link's percentage of the order's amount, rounded down.  Nothing else changes, and whatever is
  missing, the buyer never sees an error.
\<close>

theorem commission_recorded_once:
  "wp (record_affiliate_commission ref ord)
     (\<lambda>_ t. t = s \<or> (\<exists>link. earns ref ord link s \<and> t = s\<lparr>seq := Suc (seq s), t_commissions := t_commissions s @
        [\<lparr>ac_pk = seq s, ac_link = al_pk link, ac_order = o_pk ord, ac_amount = o_amount ord * al_rate link div 100\<rparr>]\<rparr>))
     (\<lambda>_ _. False) s"
  unfolding record_affiliate_commission_def commission_get_or_create_def plan_get_def product_get_def
  by (auto simp: wp_simps earns_def dest: find_SomeD split: option.split)

section \<open>Top-ups\<close>

definition topups_begun :: "db \<Rightarrow> (nat \<times> int \<times> int \<times> topup_status) list" where
  "topups_begun s = map (\<lambda>r. (tu_customer r, tu_amount r, tu_bonus r, tu_status r)) (t_topups s)"

interpretation begun: frame_inv "\<lambda>s. (topups_begun s, t_ledger s, t_orders s, t_settings s, t_customers s) = V" "\<lambda>s. (topups_begun s, t_ledger s, t_orders s, t_settings s, t_customers s)"
  by unfold_locales (auto simp: topups_begun_def)

lemma topup_save_begun: "pres (\<lambda>s. (topups_begun s, t_ledger s, t_orders s, t_settings s, t_customers s) = V) (topup_save_gateway k ref fee)"
  unfolding topup_save_gateway_def
  by (intro pres_intros pres_modify) (auto simp: topups_begun_def)

lemma topup_paid_link_begun:
  "pres (\<lambda>s. (topups_begun s, t_ledger s, t_orders s, t_settings s, t_customers s) = V) (bnd (client_from_settings E) (\<lambda>client.
     bnd (create_payment E client oid amount pd em su cu h pm) (\<lambda>(payment_url, payment_id, fee).
     bnd (topup_save_gateway k payment_id fee) (\<lambda>_. ret (g payment_id fee, payment_url)))))"
  unfolding client_from_settings_def create_payment_def sumopod_post_def Let_def
  by (intro pres_intros topup_save_begun pres_json_dict) (auto intro!: pres_intros split: sum.split)

text \<open>At most one pending top-up of exactly this amount and bonus is begun, and no money has moved.\<close>

definition one_begun :: "nat \<Rightarrow> int \<Rightarrow> int \<Rightarrow> db \<Rightarrow> db \<Rightarrow> bool" where
  "one_begun c amount bonus s t =
     (t_ledger t = t_ledger s \<and> t_orders t = t_orders s \<and> t_settings t = t_settings s \<and> t_customers t = t_customers s
      \<and> (topups_begun t = topups_begun s \<or> topups_begun t = topups_begun s @ [(c, amount, bonus, TopUp_PENDING)]))"

lemma initiate_topup_wp:
  "wp (initiate_topup E c amount method bonus url) (\<lambda>_. one_begun (c_pk c) amount bonus s) (\<lambda>_. one_begun (c_pk c) amount bonus s) s"
proof -
  have rest: "wp (bnd (client_from_settings E) (\<lambda>client.
     bnd (create_payment E client oid amount pd em su cu h pm) (\<lambda>(payment_url, payment_id, fee).
     bnd (topup_save_gateway k payment_id fee) (\<lambda>_. ret (g payment_id fee, payment_url)))))
     (\<lambda>_. one_begun (c_pk c) amount bonus s) (\<lambda>_. one_begun (c_pk c) amount bonus s) t"
    if "one_begun (c_pk c) amount bonus s t" for t oid pd em su cu h pm k g
    by (rule wp_mono [OF iffD1 [OF pres_wp topup_paid_link_begun, rule_format, of t, OF refl]])
      (use that in \<open>auto simp: one_begun_def\<close>)
  have made: "wp (topup_create E (c_pk c) amount bonus) (\<lambda>_. one_begun (c_pk c) amount bonus s) (\<lambda>_. one_begun (c_pk c) amount bonus s) s"
    unfolding topup_create_def assign_unique_public_id_def wp_bnd [of "assign_unique _ _ _ _"]
    by (rule wp_mono [OF assign_unique_wp [OF draws_public_id]])
      (auto simp: topup_public_id_taken_def now_def wp_simps Let_def one_begun_def topups_begun_def)
  have same: "one_begun (c_pk c) amount bonus s s" by (simp add: one_begun_def)
  show ?thesis
    unfolding initiate_topup_def
    by (auto simp: wp_bnd [of "check _ _"] wp_check same wp_bnd [of "topup_create _ _ _ _"] intro!: wp_mono [OF made] rest)
qed

definition setting_number :: "string \<Rightarrow> string \<Rightarrow> db \<Rightarrow> int option" where
  "setting_number key dflt s = py_int (case find_by st_key key (t_settings s) of None \<Rightarrow> dflt | Some r \<Rightarrow> st_value r)"

lemma int_setting_reads:
  "wp (int_setting key dflt) (\<lambda>n t. t = s \<and> setting_number key dflt s = Some n) (\<lambda>_ t. t = s) s"
  by (auto simp: int_setting_def setting_number_def wp_simps split: option.split)

lemma topup_form_wp:
  "wp (topup_form E u c least most f)
     (\<lambda>_ t. t = s \<or> (\<exists>amount bonus. least \<le> amount \<and> amount \<le> most \<and> one_begun (c_pk c) amount bonus s t
        \<and> (\<exists>pct. setting_number ''TOPUP_BONUS_PERCENT'' ''0'' s = Some pct \<and> bonus = amount * pct div 100)))
     (\<lambda>_ _. False) s"
  unfolding topup_form_def Let_def
  by (auto simp: wp_simps intro!: wp_mono [OF int_setting_reads] wp_mono [OF initiate_topup_wp])


section \<open>The shop at work\<close>

text \<open>A signer that accepts what it made and nothing else.\<close>

definition signing_env :: env where
  "signing_env = demo_env\<lparr>sign_loads := (\<lambda>salt tok age at.
     if take (length salt + 1) tok = salt @ '':'' then Some (drop (length salt + 1) tok) else None)\<rparr>"

theorem receipt_owner_only_witness:
  "wp (order_status_view signing_env None [] ''ord_1'') (\<lambda>r t. r \<notin> range Content \<and> no_sale example_shop_db t)
     (\<lambda>_ t. no_sale example_shop_db t) example_shop_db"
proof -
  have signer: "\<exists>at. tok = sign_dumps signing_env order_receipt_salt v at"
    if "sign_loads signing_env order_receipt_salt tok age at = Some v" for tok v age at
  proof -
    have "take (length order_receipt_salt + 1) tok = order_receipt_salt @ '':''" "v = drop (length order_receipt_salt + 1) tok"
      using that by (auto simp: signing_env_def split: if_splits)
    then have "order_receipt_salt @ '':'' @ v = tok"
      using append_take_drop_id [of "length order_receipt_salt + 1" tok] by simp
    then show ?thesis by (simp add: signing_env_def demo_env_def)
  qed
  have "\<not> may_see signing_env None [] ''ord_1'' t" for t
    by (simp add: may_see_def signing_env_def demo_env_def)
  then show ?thesis
    by (intro wp_mono [OF conjunct1 [OF receipt_owner_only [OF signer]]]) auto
qed

definition guest_form :: form where
  "guest_form = [(''guest_email'', ''a@b.c''), (''item'', ''22'')]"

definition guest :: visitor where
  "guest = \<lparr>vs_user = None, vs_cart = \<lparr>ss_key = Some ''k'', ss_cart_id = Some 21\<rparr>, vs_ref = None, vs_tokens = [], vs_fresh = ''f''\<rparr>"

definition guest_db :: db where
  "guest_db = example_shop_db\<lparr>seq := 200, t_carts := [\<lparr>ca_pk = 21, ca_customer = None, ca_session_key = ''k''\<rparr>],
     t_cart_items := [\<lparr>ci_pk = 22, ci_cart = 21, ci_plan = 4, ci_multiplier = 1, ci_coupon_code = []\<rparr>]\<rparr>"

theorem guest_cart_checkout_stalls_witness:
  "wp (cart_checkout_view demo_env guest (Some guest_form) None [] ''/cart/checkout/'')
     (\<lambda>(r, v) t. r = Redirect ''storefront:cart'' \<and> t_orders t = t_orders guest_db) (\<lambda>_ _. False) guest_db"
proof -
  have keys: "shop_keys guest_db"
    by (simp add: shop_keys_def carts_ok_def line_ok_def guest_db_def example_customer_def example_defs)
  have email: "lower (strip (post_get guest_form ''guest_email'' [])) = ''a@b.c''"
    by (simp add: guest_form_def post_get_def strip_def is_space_def lower_def) (simp add: lower_char_def char_of_def bit_0)
  have open_address: "valid_email demo_env ''a@b.c''" "\<forall>u \<in> set (t_users guest_db). lower (u_email u) \<noteq> ''a@b.c''"
    by (simp_all add: demo_env_def guest_db_def example_defs)
  have lines: "post_getlist guest_form ''item'' \<noteq> []" "\<forall>i \<in> set (post_getlist guest_form ''item''). parse_nat i < seq guest_db"
    by (simp_all add: post_getlist_def guest_form_def guest_db_def parse_nat_def digit_val_def)
  have anonymous: "vs_user guest = None" by (simp add: guest_def)
  show ?thesis
    by (rule wp_mono [OF guest_cart_checkout_stalls [OF keys anonymous email _ open_address lines]]) (auto simp: no_sale_def)
qed

definition shop_product :: product where
  "shop_product = \<lparr>pr_pk = 3, pr_seller = None, pr_name = ''App'', pr_slug = ''app'', pr_type = Product_RECURRING, pr_visibility = Visibility_PUBLIC\<rparr>"


end
