(* ===== verification/Cache.thy ===== *)
theory Cache
  imports Core_Services "HOL-Library.AList"
begin

text \<open>
  Django's cache as the services use it: \<open>add\<close>, \<open>incr\<close>, \<open>set\<close> and \<open>get\<close> with a time to live.  An
  entry is (key, value, expiry) and live until its expiry; the values are integers.
\<close>

definition cache_value :: "string \<Rightarrow> db \<Rightarrow> int option" where
  "cache_value key s =
     (case map_of (cache s) key of None \<Rightarrow> None | Some (v, expiry) \<Rightarrow> if clock s < expiry then Some v else None)"

definition cache_set :: "string \<Rightarrow> int \<Rightarrow> int \<Rightarrow> unit prog" where
  "cache_set key v ttl =
     modify (\<lambda>s. s\<lparr>cache := AList.update key (v, clock s + ttl * us_second) (cache s)\<rparr>)"

text \<open>\<open>cache.add\<close>: sets only if absent, and says whether it did.\<close>

definition cache_add :: "string \<Rightarrow> int \<Rightarrow> int \<Rightarrow> bool prog" where
  "cache_add key v ttl =
     bnd (gets (cache_value key)) (\<lambda>old.
     if old = None then bnd (cache_set key v ttl) (\<lambda>_. ret True) else ret False)"

text \<open>\<open>cache.incr\<close>: \<open>ValueError\<close> without a live entry; the expiry stays.\<close>

definition cache_incr :: "string \<Rightarrow> int prog" where
  "cache_incr key =
     bnd (gets (cache_value key)) (\<lambda>old.
     bnd (or_raise old (ValueError ''cache key'')) (\<lambda>v.
     bnd (modify (\<lambda>s. s\<lparr>cache := AList.map_entry key (\<lambda>(v, expiry). (v + 1, expiry)) (cache s)\<rparr>)) (\<lambda>_.
     ret (v + 1))))"

section \<open>The interface to the rest of the program\<close>

locale cache_inv = core_inv +
  assumes cache_write: "I s \<Longrightarrow> I (s\<lparr>cache := C\<rparr>)"
begin

lemma cache_pres [pres_intros]:
  "pres I (cache_set key v ttl)" "pres I (cache_add key v ttl)" "pres I (cache_incr key)"
proof -
  show set_pres: "pres I (cache_set key v ttl)"
    unfolding cache_set_def by (auto intro!: pres_modify cache_write)
  show "pres I (cache_add key v ttl)"
    unfolding cache_add_def by (intro pres_intros set_pres)
  show "pres I (cache_incr key)"
    unfolding cache_incr_def by (intro pres_intros pres_modify cache_write)
qed

end

sublocale frame_inv \<subseteq> cache_inv I
  by unfold_locales (erule frame, simp_all add: view_core)

end
