(* ===== verification/Messaging.thy ===== *)
theory Messaging
  imports Cache Gateway
begin

text \<open>
  The notification layer: the WhatsApp gateways (\<open>notifications/whatsapp.py\<close>), the template registry
  (\<open>templates_registry.py\<close>), the dispatcher with its outbox of deliveries (\<open>dispatch.py\<close>), the queue
  tasks that send (\<open>tasks.py\<close>), the provider's webhook (\<open>webhooks.py\<close>, \<open>views.py\<close>) and the unsubscribe
  links (\<open>unsubscribe.py\<close>).  The queue is the list \<open>outbox\<close> of the tasks handed to Celery; logging
  is not modelled, and a message is its event with the values put into the fixed text.
\<close>

section \<open>Gateways (whatsapp.py)\<close>

text \<open>\<open>(x or "")\<close> where a string method follows.\<close>

fun json_text :: "json \<Rightarrow> string prog" where
  "json_text (JStr t) = ret t"
| "json_text j = (if truthy j then raise (AttributeError ''strip'') else ret [])"

definition wa_suppressed :: "string \<Rightarrow> bool prog" where
  "wa_suppressed number =
     (if number = [] then ret False
      else gets (\<lambda>s. \<exists>r \<in> set (t_wa_suppressions s). ws_number r = normalize_wa_number number))"

text \<open>A backend sends a message to a number and gives the provider's message id if it reports one.\<close>

type_synonym wa_backend = "string \<Rightarrow> wording \<Rightarrow> wa_template option \<Rightarrow> string option prog"

definition console_send :: wa_backend where
  "console_send number message template = ret None"

definition fonnte_url :: string where
  "fonnte_url = ''https://api.fonnte.com/send''"

definition fonnte_send :: "env \<Rightarrow> wa_backend" where
  "fonnte_send E number message template =
     (if wa_token E = [] then ret None
      else
        bnd (or_raise (http_post E fonnte_url (JObj [(''target'', JStr number), (''message'', JStr (render E message))]))
               (SendError ''fonnte'')) (\<lambda>answer.
        ret (case answer of
               JObj fs \<Rightarrow> (case json_get fs ''id'' JNull of JArr (i # _) \<Rightarrow> Some (py_str i) | _ \<Rightarrow> None)
             | _ \<Rightarrow> None)))"

definition kirimchat_url :: string where
  "kirimchat_url = ''https://api-prod.kirim.chat/api/v1/public/messages/send''"

definition kirimchat_body :: "env \<Rightarrow> string \<Rightarrow> wording \<Rightarrow> wa_template option \<Rightarrow> json" where
  "kirimchat_body E number message template =
     (case template of
        Some (name, language, params) \<Rightarrow>
          JObj [(''phone_number'', JStr number), (''channel'', JStr ''whatsapp''), (''message_type'', JStr ''template''),
                (''template'', JObj [(''name'', JStr name), (''language'', JStr language),
                   (''parameters'', JArr (map (\<lambda>p. JObj [(''type'', JStr ''text''), (''text'', JStr p)]) params))])]
      | None \<Rightarrow>
          JObj [(''phone_number'', JStr number), (''channel'', JStr ''whatsapp''), (''message_type'', JStr ''text''),
                (''content'', JStr (render E message))])"

definition kirimchat_send :: "env \<Rightarrow> wa_backend" where
  "kirimchat_send E number message template =
     (if wa_token E = [] then ret None
      else
        bnd (or_raise (http_post E kirimchat_url (kirimchat_body E number message template)) (SendError ''kirimchat'')) (\<lambda>answer.
        bnd (json_dict answer) (\<lambda>fs.
        let raw = json_get fs ''data'' JNull
        in bnd (json_dict (if truthy raw then raw else JObj [])) (\<lambda>d.
           let i = json_get d ''message_id'' JNull in ret (if truthy i then Some (py_str i) else None)))))"

definition backends :: "env \<Rightarrow> (string \<times> wa_backend) list" where
  "backends E = [(''console'', console_send), (''fonnte'', fonnte_send E), (''kirimchat'', kirimchat_send E)]"

definition get_backend :: "env \<Rightarrow> wa_backend prog" where
  "get_backend E =
     bnd (setting_get ''WA_BACKEND'' ''console'') (\<lambda>key.
     ret (case map_of (backends E) key of None \<Rightarrow> console_send | Some b \<Rightarrow> b))"

definition send_whatsapp :: "env \<Rightarrow> string \<Rightarrow> wording \<Rightarrow> wa_template option \<Rightarrow> string option prog" where
  "send_whatsapp E number message template =
     (if number = [] then ret None
      else bnd (get_backend E) (\<lambda>send. send (normalize_wa_number number) message template))"

section \<open>Templates (templates_registry.py)\<close>

text \<open>The registered templates by event key, each with its name and category; the language is English.\<close>

definition templates :: "(string \<times> string \<times> string) list" where
  "templates =
     [(''otp'', ''wa_otp_verification'', ''authentication''),
      (''topup.paid'', ''topup_success'', ''utility''),
      (''order.paid'', ''order_success'', ''utility''),
      (''order.awaiting_confirmation'', ''order_pending_payment'', ''utility''),
      (''order.payment_rejected'', ''payment_rejected'', ''utility''),
      (''order_pending:h2'', ''order_pending_nudge'', ''utility''),
      (''subscription.renewed'', ''subscription_renewed'', ''utility''),
      (''subscription.graced'', ''subscription_grace'', ''utility''),
      (''subscription.suspended'', ''subscription_suspended'', ''utility''),
      (''subscription.cancelled'', ''subscription_ended'', ''utility''),
      (''reminder:h3'', ''renewal_reminder'', ''utility''),
      (''expiry:d7'', ''expiry_reminder'', ''utility''),
      (''grace:g2'', ''grace_countdown'', ''utility''),
      (''low_balance'', ''low_balance_alert'', ''utility''),
      (''welcome'', ''welcome'', ''utility'')]"

definition template_aliases :: "(string \<times> string) list" where
  "template_aliases =
     [(''reminder:h1'', ''reminder:h3''), (''expiry:d3'', ''expiry:d7''), (''expiry:d1'', ''expiry:d7''),
      (''grace:g1'', ''grace:g2''), (''order_pending:h24'', ''order_pending:h2'')]"

definition get_template :: "string \<Rightarrow> (string \<times> string) option" where
  "get_template event_key =
     (let key = (case map_of template_aliases event_key of None \<Rightarrow> event_key | Some k \<Rightarrow> k)
      in map_option (\<lambda>(name, _). (name, ''en'')) (map_of templates key))"

datatype template_mode = Mode_OFF | Mode_ON | Mode_STRICT

definition template_mode :: "template_mode prog" where
  "template_mode =
     bnd (setting_get ''WA_TEMPLATE_MODE'' ''off'') (\<lambda>v.
     let mode = lower (strip v)
     in ret (if mode = ''on'' then Mode_ON else if mode = ''strict'' then Mode_STRICT else Mode_OFF))"

text \<open>One template per name, the last registered, by category and name.\<close>

definition all_templates_for_submission :: "(string \<times> string) list" where
  "all_templates_for_submission =
     sort_key (\<lambda>(name, category). category @ [CHR 0x00] @ name)
       (fold (\<lambda>(_, name, category) seen. AList.update name category seen) templates [])"

section \<open>Dispatch (dispatch.py)\<close>

definition urgent_events :: "string list" where
  "urgent_events = [''subscription.suspended'', ''order.payment_rejected'']"

text \<open>
  Seconds to hold a message in the quiet hours.  \<open>wib\<close> is the local time (UTC+7) in microseconds; the
  comparison of \<open>hour + minute / 60\<close> with whole hours is one of minutes of the day.
\<close>

definition in_quiet_hours :: "int \<Rightarrow> int \<Rightarrow> int \<Rightarrow> bool" where
  "in_quiet_hours wib start end_hour =
     (let minutes = wib mod us_day div us_minute
      in if start < end_hour then start * 60 \<le> minutes \<and> minutes < end_hour * 60
         else start * 60 \<le> minutes \<or> minutes < end_hour * 60)"

definition hold_seconds :: "int \<Rightarrow> int \<Rightarrow> int \<Rightarrow> int" where
  "hold_seconds wib start end_hour =
     (if \<not> in_quiet_hours wib start end_hour then 0
      else
        let midnight = wib - wib mod us_day;
            target = midnight + end_hour mod 24 * us_hour;
            target = (if target \<le> wib then target + us_day else target)
        in (target - wib) div us_second)"

definition quiet_hours_delay :: "string \<Rightarrow> int prog" where
  "quiet_hours_delay ev =
     (if ev \<in> set urgent_events then ret 0
      else
        try_except
          (bnd (int_setting ''WA_QUIET_START'' ''0'') (\<lambda>start.
           bnd (int_setting ''WA_QUIET_END'' ''0'') (\<lambda>end_hour. ret (start, end_hour))))
          (\<lambda>_. True) (\<lambda>_. ret 0)
          (\<lambda>(start, end_hour).
             if start = end_hour then ret 0
             else bnd now (\<lambda>t. ret (hold_seconds (t + 7 * us_hour) start end_hour))))"

definition queue :: "queued \<Rightarrow> unit prog" where
  "queue task = modify (\<lambda>s. s\<lparr>outbox := outbox s @ [task]\<rparr>)"

definition dispatch_wa :: "string \<Rightarrow> wording \<Rightarrow> nat \<Rightarrow> wa_template option \<Rightarrow> string \<Rightarrow> unit prog" where
  "dispatch_wa number wa_text delivery_id template ev =
     bnd (quiet_hours_delay ev) (\<lambda>countdown.
     queue (Deliver_whatsapp number wa_text (Some delivery_id) template countdown))"

definition effective_channel :: "customer \<Rightarrow> notification_channel prog" where
  "effective_channel c =
     (if resolve_channel c = Channel_WHATSAPP
      then bnd (wa_suppressed (c_wa_number c)) (\<lambda>suppressed. ret (if suppressed then Channel_EMAIL else Channel_WHATSAPP))
      else ret (resolve_channel c))"

definition record_delivery ::
  "nat \<Rightarrow> string \<Rightarrow> notification_channel \<Rightarrow> string \<Rightarrow> wording option \<Rightarrow> wording option \<Rightarrow> delivery prog" where
  "record_delivery cust ev channel recipient wa_text email =
     bnd new_pk (\<lambda>pk.
     let row = \<lparr>dl_pk = pk, dl_customer = Some cust, dl_event = ev, dl_channel = channel, dl_recipient = recipient,
                dl_wa_text = wa_text, dl_email = email, dl_status = Delivery_QUEUED, dl_provider = [],
                dl_msg_id = [], dl_error = []\<rparr>
     in bnd (modify (\<lambda>s. s\<lparr>t_deliveries := t_deliveries s @ [row]\<rparr>)) (\<lambda>_. ret row))"

text \<open>The template to use, and whether the WhatsApp message must be skipped.\<close>

definition resolve_wa_template :: "string \<Rightarrow> string list option \<Rightarrow> (wa_template option \<times> bool) prog" where
  "resolve_wa_template ev wa_params =
     bnd template_mode (\<lambda>mode.
     ret (if mode = Mode_OFF then (None, False)
          else case (get_template ev, wa_params) of
                 (Some (name, language), Some params) \<Rightarrow> (Some (name, language, params), False)
               | _ \<Rightarrow> (None, mode = Mode_STRICT)))"

section \<open>Unsubscribe links (unsubscribe.py)\<close>

definition unsubscribe_salt :: string where
  "unsubscribe_salt = ''notifications.unsubscribe''"

definition unsubscribe_max_age :: int where
  "unsubscribe_max_age = 60 * 60 * 24 * 90"

definition make_token :: "env \<Rightarrow> nat \<Rightarrow> string prog" where
  "make_token E customer_id = bnd now (\<lambda>t. ret (sign_dumps E unsubscribe_salt (str_nat customer_id) (t div us_second)))"

definition read_token :: "env \<Rightarrow> string \<Rightarrow> int option prog" where
  "read_token E token =
     bnd now (\<lambda>t.
     ret (case sign_loads E unsubscribe_salt token (Some unsubscribe_max_age) (t div us_second) of
            None \<Rightarrow> None | Some v \<Rightarrow> py_int v))"

text \<open>\<open>body + email_footer(customer)\<close>: the link is one more value of the message.\<close>

definition with_footer :: "env \<Rightarrow> nat \<Rightarrow> wording \<Rightarrow> wording prog" where
  "with_footer E cust w = bnd (make_token E cust) (\<lambda>token. ret (fst w, snd w @ [token]))"

section \<open>Notifying a customer (dispatch.py)\<close>

definition notify_email_address :: "customer \<Rightarrow> string" where
  "notify_email_address c = c_email c"

definition customer_get :: "nat \<Rightarrow> customer prog" where
  "customer_get k = bnd (gets (\<lambda>s. find_by c_pk k (t_customers s))) (\<lambda>v. or_raise v (DoesNotExist ''Customer''))"

definition notify :: "env \<Rightarrow> customer \<Rightarrow> string \<Rightarrow> wording \<Rightarrow> wording \<Rightarrow> string list option \<Rightarrow> delivery prog" where
  "notify E c ev wa_text email wa_params =
     (let by_email =
        bnd (record_delivery (c_pk c) ev Channel_EMAIL (notify_email_address c) None (Some email)) (\<lambda>row.
        bnd (with_footer E (c_pk c) email) (\<lambda>body.
        bnd (queue (Deliver_email (notify_email_address c) body)) (\<lambda>_. ret row)))
      in bnd (effective_channel c) (\<lambda>channel.
         if channel = Channel_WHATSAPP
         then bnd (resolve_wa_template ev wa_params) (\<lambda>(template, skip_wa).
              if skip_wa then by_email
              else
                let number = normalize_wa_number (c_wa_number c)
                in bnd (record_delivery (c_pk c) ev channel number (Some wa_text) (Some email)) (\<lambda>row.
                   bnd (dispatch_wa number wa_text (dl_pk row) template ev) (\<lambda>_. ret row)))
         else by_email))"

definition notify_wa_copy :: "customer \<Rightarrow> string \<Rightarrow> wording \<Rightarrow> string list option \<Rightarrow> delivery option prog" where
  "notify_wa_copy c ev wa_text wa_params =
     bnd (effective_channel c) (\<lambda>channel.
     if channel \<noteq> Channel_WHATSAPP then ret None
     else
       bnd (resolve_wa_template ev wa_params) (\<lambda>(template, skip_wa).
       if skip_wa then ret None
       else
         let number = normalize_wa_number (c_wa_number c)
         in bnd (record_delivery (c_pk c) ev Channel_WHATSAPP number (Some wa_text) None) (\<lambda>row.
            bnd (dispatch_wa number wa_text (dl_pk row) template ev) (\<lambda>_. ret (Some row)))))"

definition notify_promo :: "env \<Rightarrow> customer \<Rightarrow> wording \<Rightarrow> bool prog" where
  "notify_promo E c promo =
     (if \<not> c_notif_promo c then ret False
      else
        bnd (record_delivery (c_pk c) ''promo'' Channel_EMAIL (notify_email_address c) None (Some promo)) (\<lambda>_.
        bnd (with_footer E (c_pk c) promo) (\<lambda>body.
        bnd (queue (Deliver_email (notify_email_address c) body)) (\<lambda>_. ret True))))"

text \<open>\<open>delivery.save(update_fields=...)\<close>\<close>

definition delivery_save :: "nat \<Rightarrow> (delivery \<Rightarrow> delivery) \<Rightarrow> unit prog" where
  "delivery_save k f = modify (\<lambda>s. s\<lparr>t_deliveries := upd_by dl_pk k f (t_deliveries s)\<rparr>)"

definition fallback_delivery_to_email :: "delivery \<Rightarrow> bool prog" where
  "fallback_delivery_to_email d =
     (if dl_channel d \<noteq> Channel_WHATSAPP then ret False
      else if dl_status d = Delivery_FALLBACK_SENT then ret False
      else case (dl_email d, dl_customer d) of
             (Some email, Some cust) \<Rightarrow>
               bnd (customer_get cust) (\<lambda>c.
               bnd (queue (Deliver_email (notify_email_address c) email)) (\<lambda>_.
               bnd (delivery_save (dl_pk d) (\<lambda>r. r\<lparr>dl_status := Delivery_FALLBACK_SENT\<rparr>)) (\<lambda>_.
               ret True)))
           | _ \<Rightarrow> ret False)"


section \<open>Queue tasks (tasks.py)\<close>

definition is_suppressed :: "string \<Rightarrow> bool prog" where
  "is_suppressed to_email = gets (\<lambda>s. lower to_email \<in> lower ` set (t_email_suppressions s))"

text \<open>\<open>raise self.retry(exc=exc)\<close> in a task that was retried \<open>n\<close> times before.\<close>

definition retry :: "env \<Rightarrow> nat \<Rightarrow> exn \<Rightarrow> 'a prog" where
  "retry E n e = (case celery_retry E n e of None \<Rightarrow> raise Retry | Some x \<Rightarrow> raise x)"

definition finish_wa_delivery :: "nat \<Rightarrow> bool \<Rightarrow> string \<Rightarrow> string \<Rightarrow> unit prog" where
  "finish_wa_delivery k ok msg_id error =
     bnd (gets (\<lambda>s. find_by dl_pk k (t_deliveries s))) (\<lambda>v.
     case v of
       None \<Rightarrow> ret ()
     | Some d \<Rightarrow>
         bnd (setting_get ''WA_BACKEND'' ''console'') (\<lambda>provider.
         if ok
         then delivery_save k (\<lambda>r. r\<lparr>dl_status := Delivery_SENT, dl_provider := provider, dl_msg_id := msg_id\<rparr>)
         else
           bnd (delivery_save k (\<lambda>r. r\<lparr>dl_status := Delivery_FAILED, dl_provider := provider, dl_error := error\<rparr>)) (\<lambda>_.
           bnd (fallback_delivery_to_email
                  (d\<lparr>dl_status := Delivery_FAILED, dl_provider := provider, dl_error := error\<rparr>)) (\<lambda>_. ret ()))))"

definition is_max_retries :: "exn \<Rightarrow> bool" where
  "is_max_retries e = (e = MaxRetriesExceededError)"

text \<open>\<open>str(exc)\<close> is kept as a fixed text.\<close>

definition deliver_whatsapp :: "env \<Rightarrow> nat \<Rightarrow> string \<Rightarrow> wording \<Rightarrow> nat option \<Rightarrow> wa_template option \<Rightarrow> unit prog" where
  "deliver_whatsapp E n to_number message delivery_id template =
     try_except (send_whatsapp E to_number message template) (\<lambda>_. True)
       (\<lambda>e. try_except (retry E n e) is_max_retries
              (\<lambda>m. bnd (case delivery_id of None \<Rightarrow> ret () | Some k \<Rightarrow> finish_wa_delivery k False [] ''send failed'') (\<lambda>_. raise m))
              ret)
       (\<lambda>msg_id. case delivery_id of
                   None \<Rightarrow> ret ()
                 | Some k \<Rightarrow> finish_wa_delivery k True (case msg_id of None \<Rightarrow> [] | Some i \<Rightarrow> i) [])"

definition deliver_email :: "env \<Rightarrow> nat \<Rightarrow> string \<Rightarrow> wording \<Rightarrow> unit prog" where
  "deliver_email E n to_email text =
     bnd (is_suppressed to_email) (\<lambda>suppressed.
     if suppressed then ret ()
     else if send_mail E to_email text then ret ()
     else retry E n (SendError ''smtp''))"

definition broadcast_promo :: "env \<Rightarrow> wording \<Rightarrow> nat prog" where
  "broadcast_promo E promo =
     bnd (gets (\<lambda>s. filter c_notif_promo (t_customers s))) (\<lambda>customers.
     fold_m (\<lambda>sent c. try_except (notify_promo E c promo) (\<lambda>_. True) (\<lambda>_. ret sent)
                 (\<lambda>queued. ret (if queued then Suc sent else sent))) 0 customers)"

section \<open>The provider's webhook (webhooks.py)\<close>

definition stop_words :: "string list" where
  "stop_words = [''stop'', ''berhenti'', ''unsub'', ''unsubscribe'', ''batal'', ''keluar'']"

definition start_words :: "string list" where
  "start_words = [''mulai'', ''start'', ''lanjut'', ''subscribe'']"

definition status_map :: "(string \<times> delivery_status) list" where
  "status_map =
     [(''message.sent'', Delivery_SENT), (''message.delivered'', Delivery_DELIVERED),
      (''message.read'', Delivery_READ), (''message.failed'', Delivery_FAILED)]"

definition hex_digit :: "nat \<Rightarrow> char" where
  "hex_digit n = (if n < 10 then digit_char n else char_of (87 + n))"

definition hexdigest :: "string \<Rightarrow> string" where
  "hexdigest bytes = concat (map (\<lambda>c. let n = of_char c in [hex_digit (n div 16), hex_digit (n mod 16)]) bytes)"

definition verify_signature :: "env \<Rightarrow> string \<Rightarrow> string \<Rightarrow> string \<Rightarrow> bool prog" where
  "verify_signature E raw_body header_value secret =
     (if secret = [] \<or> header_value = [] then ret False
      else
        let stripped = strip header_value;
            provided = (if take 7 stripped = ''sha256='' then drop 7 stripped else stripped)
        in compare_digest (hexdigest (hmac_sha256 E secret raw_body)) provided)"

text \<open>\<open>{"queued": 0, "sent": 1, "delivered": 2, "read": 3}.get(status, 0)\<close>\<close>

fun provider_rank :: "delivery_status \<Rightarrow> nat" where
  "provider_rank Delivery_QUEUED = 0"
| "provider_rank Delivery_SENT = 1"
| "provider_rank Delivery_DELIVERED = 2"
| "provider_rank Delivery_READ = 3"
| "provider_rank _ = 0"

definition handle_status :: "delivery_status \<Rightarrow> (string \<times> json) list \<Rightarrow> unit prog" where
  "handle_status status d =
     (let msg_id = json_get d ''message_id'' JNull
      in if \<not> truthy msg_id then ret ()
         else
           bnd (gets (\<lambda>s. find_by dl_msg_id (py_str msg_id) (rev (t_deliveries s)))) (\<lambda>v.
           case v of
             None \<Rightarrow> ret ()
           | Some delivery \<Rightarrow>
               if dl_status delivery \<in> {Delivery_FAILED, Delivery_FALLBACK_SENT} then ret ()
               else if status = Delivery_FAILED
               then
                 let raw = json_get d ''error'' JNull;
                     raw = (if truthy raw then raw else json_get d ''reason'' JNull);
                     error = (if truthy raw then py_str raw else ''provider reported failure'')
                 in bnd (delivery_save (dl_pk delivery) (\<lambda>r. r\<lparr>dl_status := Delivery_FAILED, dl_error := error\<rparr>)) (\<lambda>_.
                    bnd (fallback_delivery_to_email (delivery\<lparr>dl_status := Delivery_FAILED, dl_error := error\<rparr>)) (\<lambda>_. ret ()))
               else if provider_rank status \<le> provider_rank (dl_status delivery) then ret ()
               else delivery_save (dl_pk delivery) (\<lambda>r. r\<lparr>dl_status := status\<rparr>)))"

definition handle_inbound :: "(string \<times> json) list \<Rightarrow> unit prog" where
  "handle_inbound d =
     bnd (json_text (json_get d ''customer_phone'' JNull)) (\<lambda>phone.
     bnd (json_text (json_get d ''content'' JNull)) (\<lambda>content.
     let number = normalize_wa_number phone; word = lower (strip content)
     in if number = [] then ret ()
        else if word \<in> set start_words
        then
          bnd (gets (\<lambda>s. \<exists>r \<in> set (t_wa_suppressions s). ws_number r = number)) (\<lambda>deleted.
          bnd (modify (\<lambda>s. s\<lparr>t_wa_suppressions := filter (\<lambda>r. ws_number r \<noteq> number) (t_wa_suppressions s)\<rparr>)) (\<lambda>_.
          when_m deleted (queue (Deliver_whatsapp number (''inbound.start'', []) None None 0))))
        else if word \<notin> set stop_words then ret ()
        else
          bnd (gets (\<lambda>s. \<forall>r \<in> set (t_wa_suppressions s). ws_number r \<noteq> number)) (\<lambda>created.
          bnd (when_m created (modify (\<lambda>s. s\<lparr>t_wa_suppressions := t_wa_suppressions s @
                 [\<lparr>ws_number = number, ws_reason = ''opt_out'', ws_detail = ''inbound: '' @ word\<rparr>]\<rparr>))) (\<lambda>_.
          bnd (modify (\<lambda>s. s\<lparr>t_customers := upd_where
                 (\<lambda>c. c_wa_number c \<in> {number, ''0'' @ drop 2 number} \<and> c_channel c = Channel_WHATSAPP)
                 (\<lambda>c. c\<lparr>c_channel := Channel_EMAIL\<rparr>) (t_customers s)\<rparr>)) (\<lambda>_.
          when_m created (queue (Deliver_whatsapp number (''inbound.stop'', []) None None 0)))))))"

text \<open>The event type may be any JSON value; lists and objects cannot be looked up.\<close>

definition process_event :: "json \<Rightarrow> json \<Rightarrow> unit prog" where
  "process_event event_type payload_data =
     (case event_type of
        JStr t \<Rightarrow>
          (case map_of status_map t of
             Some status \<Rightarrow> bnd (json_dict payload_data) (handle_status status)
           | None \<Rightarrow> if t = ''message.received'' then bnd (json_dict payload_data) handle_inbound else ret ())
      | JArr _ \<Rightarrow> raise (TypeError ''unhashable'')
      | JObj _ \<Rightarrow> raise (TypeError ''unhashable'')
      | _ \<Rightarrow> ret ())"

section \<open>Views (views.py)\<close>

definition idempotency_ttl :: int where
  "idempotency_ttl = 60 * 60 * 24"

text \<open>\<open>(x or default)\<close>\<close>

definition json_or :: "json \<Rightarrow> json \<Rightarrow> json" where
  "json_or v dflt = (if truthy v then v else dflt)"

text \<open>The HTTP status of the answer; 200 also for a duplicate.\<close>

definition kirimchat_webhook :: "env \<Rightarrow> (string \<times> string) list \<Rightarrow> string \<Rightarrow> nat prog" where
  "kirimchat_webhook E headers raw =
     (if kirimchat_secret E = [] then ret 500
      else
        bnd (verify_signature E raw (header_get headers ''X-KirimChat-Signature'') (kirimchat_secret E)) (\<lambda>ok.
        if \<not> ok then ret 401
        else
          case json_loads E raw of
            None \<Rightarrow> ret 400
          | Some body \<Rightarrow>
              bnd (json_dict body) (\<lambda>payload.
              let event_type = json_or (json_get payload ''event_type'' JNull) (JStr []);
                  event_id = json_or (json_get payload ''event_id'' JNull) (JStr []);
                  payload_data = json_or (json_get payload ''data'' JNull) (JObj [])
              in bnd (if truthy event_id
                      then cache_add (''kirimchat:webhook:'' @ py_str event_id) 1 idempotency_ttl
                      else ret True) (\<lambda>fresh.
                 if \<not> fresh then ret 200
                 else try_except (process_event event_type payload_data) (\<lambda>_. True) (\<lambda>_. ret 500) (\<lambda>_. ret 200)))))"

text \<open>A POST to the unsubscribe page: \<open>None\<close> for a link that is not valid (400).\<close>

definition unsubscribe :: "env \<Rightarrow> string \<Rightarrow> string option \<Rightarrow> unit option prog" where
  "unsubscribe E token scope_field =
     bnd (read_token E token) (\<lambda>customer_id.
     bnd (gets (\<lambda>s. case customer_id of
                      None \<Rightarrow> None
                    | Some i \<Rightarrow> if i \<le> 0 then None else find_by c_pk (nat i) (t_customers s))) (\<lambda>customer.
     case customer of
       None \<Rightarrow> ret None
     | Some c \<Rightarrow>
         bnd (modify (\<lambda>s. s\<lparr>t_customers := upd_by c_pk (c_pk c)
                (if (case scope_field of None \<Rightarrow> ''promo'' | Some x \<Rightarrow> x) = ''all''
                 then (\<lambda>r. r\<lparr>c_channel := Channel_EMAIL, c_notif_promo := False\<rparr>)
                 else (\<lambda>r. r\<lparr>c_notif_promo := False\<rparr>)) (t_customers s)\<rparr>)) (\<lambda>_. ret (Some ()))))"


section \<open>The interface to the rest of the program\<close>

text \<open>The notification layer writes its own tables, the queue and the customers' preferences.\<close>

locale messaging_inv = cache_inv +
  assumes queue_pres [pres_intros]: "pres I (queue task)"
    and record_delivery_pres [pres_intros]: "pres I (record_delivery cust ev channel recipient wa_text email)"
    and delivery_save_pres [pres_intros]: "pres I (delivery_save k f)"
begin

lemma message_reads_pres [pres_intros]:
  "pres I (quiet_hours_delay ev)" "pres I (effective_channel c)" "pres I (resolve_wa_template ev ps)"
  "pres I (with_footer E k w)" "pres I (customer_get k)" "pres I (is_suppressed a)" "pres I (wa_suppressed nr)"
  unfolding quiet_hours_delay_def effective_channel_def resolve_wa_template_def with_footer_def make_token_def
    customer_get_def is_suppressed_def template_mode_def wa_suppressed_def Let_def
  by (intro pres_intros)+

lemma notify_pres [pres_intros]:
  "pres I (dispatch_wa nr w k tpl ev)" "pres I (notify E c ev w em ps)" "pres I (notify_wa_copy c ev w ps)"
  "pres I (notify_promo E c em)" "pres I (fallback_delivery_to_email d)"
  unfolding dispatch_wa_def notify_def notify_wa_copy_def notify_promo_def fallback_delivery_to_email_def Let_def
  by (intro pres_intros)+

end

locale messaging_frame = frame_inv +
  assumes view_messages: "view (s\<lparr>outbox := Ob\<rparr>) = view s" "view (s\<lparr>t_deliveries := De\<rparr>) = view s"

sublocale messaging_frame \<subseteq> messaging_inv I
proof
  show "pres I (queue task)" "pres I (record_delivery cust ev channel recipient wa_text email)" "pres I (delivery_save k f)"
    for task cust ev channel recipient wa_text email k f
    unfolding queue_def record_delivery_def delivery_save_def Let_def
    by (auto intro!: pres_intros frame_modify simp: view_messages)
qed

interpretation ledger: messaging_frame ledger_ok "\<lambda>s. (t_wallets s, t_ledger s)"
  by unfold_locales auto
interpretation history: messaging_frame "\<lambda>s. \<exists>M. t_ledger s = L @ M" "\<lambda>s. (t_wallets s, t_ledger s)"
  by unfold_locales auto
interpretation sales: messaging_frame sales_ok "\<lambda>s. (t_orders s, t_coupons s, t_earnings s)"
  by unfold_locales auto

section \<open>The life of a delivery\<close>

text \<open>The statuses in the order a delivery goes through them.\<close>

fun delivery_rank :: "delivery_status \<Rightarrow> nat" where
  "delivery_rank Delivery_QUEUED = 0"
| "delivery_rank Delivery_SENT = 1"
| "delivery_rank Delivery_DELIVERED = 2"
| "delivery_rank Delivery_READ = 3"
| "delivery_rank Delivery_FAILED = 4"
| "delivery_rank Delivery_FALLBACK_SENT = 5"

lemma delivery_rank_inj: "delivery_rank a = delivery_rank b \<longleftrightarrow> a = b"
  by (cases a; cases b) simp_all

instantiation delivery_status :: linorder
begin

definition less_eq_delivery_status :: "delivery_status \<Rightarrow> delivery_status \<Rightarrow> bool" where
  "less_eq_delivery_status a b = (delivery_rank a \<le> delivery_rank b)"

definition less_delivery_status :: "delivery_status \<Rightarrow> delivery_status \<Rightarrow> bool" where
  "less_delivery_status a b = (delivery_rank a < delivery_rank b)"

instance
  by standard (auto simp: less_eq_delivery_status_def less_delivery_status_def delivery_rank_inj)

end

lemma FALLBACK_SENT_top: "(d :: delivery_status) \<le> Delivery_FALLBACK_SENT"
  by (cases d) (simp_all add: less_eq_delivery_status_def)

text \<open>On the statuses the provider can report, the code's ranks are this order.\<close>

lemma provider_rank_order:
  "a \<noteq> Delivery_FAILED \<Longrightarrow> a \<noteq> Delivery_FALLBACK_SENT \<Longrightarrow> b \<noteq> Delivery_FAILED \<Longrightarrow> b \<noteq> Delivery_FALLBACK_SENT
     \<Longrightarrow> provider_rank a \<le> provider_rank b \<longleftrightarrow> a \<le> b"
  by (cases a; cases b) (simp_all add: less_eq_delivery_status_def)

definition is_email :: "queued \<Rightarrow> bool" where
  "is_email task = (case task of Deliver_email _ _ \<Rightarrow> True | _ \<Rightarrow> False)"

definition fallen_back :: "db \<Rightarrow> nat" where
  "fallen_back s = length (filter (\<lambda>d. dl_status d = Delivery_FALLBACK_SENT) (t_deliveries s))"

text \<open>
  The deliveries have distinct keys; the one with key \<open>k\<close> has got as far as \<open>st\<close> at least; the
  emails in the queue are \<open>n\<close> more than the deliveries that fell back to email.
\<close>

definition reached :: "nat \<Rightarrow> delivery_status \<Rightarrow> int \<Rightarrow> db \<Rightarrow> bool" where
  "reached k st n s =
     (distinct (map dl_pk (t_deliveries s))
      \<and> (\<exists>d. find_by dl_pk k (t_deliveries s) = Some d \<and> st \<le> dl_status d)
      \<and> int (length (filter is_email (outbox s))) = n + int (fallen_back s))"


lemma length_filter_upd_one:
  assumes "distinct (map key rows)" and "find_by key j rows = Some r"
  shows "int (length (filter p (upd_by key j f rows))) = int (length (filter p rows)) - of_bool (p r) + of_bool (p (f r))"
  using assms
proof (induction rows)
  case (Cons x rows)
  show ?case
  proof (cases "key x = j")
    case True
    with Cons.prems have "j \<notin> key ` set rows" "r = x" by auto
    with True show ?thesis by (simp add: upd_by_idle)
  next
    case False
    with Cons show ?thesis by simp
  qed
qed simp

lemma reached_save:
  assumes inv: "reached k st n s" and r: "find_by dl_pk j (t_deliveries s) = Some r"
    and f: "\<And>x. dl_pk (f x) = dl_pk x" "dl_status r \<le> dl_status (f r)"
    and emails: "int (length (filter is_email Ob)) - of_bool (dl_status (f r) = Delivery_FALLBACK_SENT)
       = int (length (filter is_email (outbox s))) - of_bool (dl_status r = Delivery_FALLBACK_SENT)"
  shows "reached k st n (s\<lparr>outbox := Ob, t_deliveries := upd_by dl_pk j f (t_deliveries s)\<rparr>)" (is "reached k st n ?t")
proof -
  have dist: "distinct (map dl_pk (t_deliveries s))" using inv by (simp add: reached_def)
  obtain d where d: "find_by dl_pk k (t_deliveries s) = Some d" "st \<le> dl_status d" using inv by (auto simp: reached_def)
  have "find_by dl_pk k (t_deliveries ?t) = Some (if k = j then f d else d)"
    using d(1) by (auto simp: find_by_upd_by f(1))
  moreover have "st \<le> dl_status (if k = j then f d else d)"
    using d r f(2) by (auto intro: order_trans)
  moreover have "int (fallen_back ?t) = int (fallen_back s) - of_bool (dl_status r = Delivery_FALLBACK_SENT)
      + of_bool (dl_status (f r) = Delivery_FALLBACK_SENT)"
    using length_filter_upd_one [OF dist r, of "\<lambda>d. dl_status d = Delivery_FALLBACK_SENT" f] by (simp add: fallen_back_def)
  ultimately show ?thesis
    using inv dist emails f(1) by (auto simp: reached_def)
qed

lemma fallback_reached:
  assumes "reached k st n s" and "find_by dl_pk (dl_pk d) (t_deliveries s) = Some r" and "dl_status r = dl_status d"
  shows "wp (fallback_delivery_to_email d) (\<lambda>_. reached k st n) (\<lambda>_. reached k st n) s"
proof -
  have "reached k st n (s\<lparr>outbox := outbox s @ [Deliver_email a e],
      t_deliveries := upd_by dl_pk (dl_pk d) (\<lambda>r. r\<lparr>dl_status := Delivery_FALLBACK_SENT\<rparr>) (t_deliveries s)\<rparr>)"
    if "dl_status d \<noteq> Delivery_FALLBACK_SENT" for a e
    using reached_save [OF assms(1,2), of "\<lambda>r. r\<lparr>dl_status := Delivery_FALLBACK_SENT\<rparr>" "outbox s @ [Deliver_email a e]"]
      that assms(3) by (simp add: is_email_def FALLBACK_SENT_top)
  then show ?thesis
    using assms(1)
    by (auto simp: fallback_delivery_to_email_def wp_simps queue_def delivery_save_def customer_get_def split: option.split)
qed

lemma gets_step: "wp (bnd (gets f) g) Q X s = wp (g (f s)) Q X s"
  by (simp add: wp_bnd wp_gets)

lemma handle_status_reached:
  assumes inv: "reached k st n s" and status: "status \<noteq> Delivery_FALLBACK_SENT" "status \<noteq> Delivery_QUEUED"
  shows "wp (handle_status status d) (\<lambda>_. reached k st n) (\<lambda>_. reached k st n) s"
proof (cases "truthy (json_get d ''message_id'' JNull)")
  case True
  have dist: "distinct (map dl_pk (t_deliveries s))" using inv by (simp add: reached_def)
  have row: "find_by dl_pk (dl_pk r) (t_deliveries s) = Some r"
    if "find_by dl_msg_id m (rev (t_deliveries s)) = Some r" for m r
    using that dist by (auto dest!: find_by_SomeD intro: find_by_distinct)
  have failed: "wp (bnd (delivery_save (dl_pk r) (\<lambda>x. x\<lparr>dl_status := Delivery_FAILED, dl_error := e\<rparr>)) (\<lambda>_.
          bnd (fallback_delivery_to_email (r\<lparr>dl_status := Delivery_FAILED, dl_error := e\<rparr>)) (\<lambda>_. ret ())))
      (\<lambda>_. reached k st n) (\<lambda>_. reached k st n) s"
    if r: "find_by dl_pk (dl_pk r) (t_deliveries s) = Some r" and open_row: "dl_status r \<notin> {Delivery_FAILED, Delivery_FALLBACK_SENT}" for r e
  proof -
    let ?f = "\<lambda>x. x\<lparr>dl_status := Delivery_FAILED, dl_error := e\<rparr>"
    let ?t = "s\<lparr>t_deliveries := upd_by dl_pk (dl_pk r) ?f (t_deliveries s)\<rparr>"
    have "dl_status r \<le> Delivery_FAILED" using open_row by (cases "dl_status r") (simp_all add: less_eq_delivery_status_def)
    then have "reached k st n ?t"
      using reached_save [OF inv r, of ?f "outbox s"] open_row by simp
    moreover have "find_by dl_pk (dl_pk r) (t_deliveries ?t) = Some (?f r)" using r by (simp add: find_by_upd_by)
    ultimately have "wp (fallback_delivery_to_email (?f r)) (\<lambda>_. reached k st n) (\<lambda>_. reached k st n) ?t"
      by - (rule fallback_reached [where r = "?f r"], simp_all)
    then show ?thesis by (simp add: delivery_save_def wp_bnd wp_modify wp_ret)
  qed
  have moved: "reached k st n (s\<lparr>t_deliveries := upd_by dl_pk (dl_pk r) (\<lambda>x. x\<lparr>dl_status := status\<rparr>) (t_deliveries s)\<rparr>)"
    if "find_by dl_pk (dl_pk r) (t_deliveries s) = Some r" "dl_status r \<notin> {Delivery_FAILED, Delivery_FALLBACK_SENT}"
      "\<not> provider_rank status \<le> provider_rank (dl_status r)" for r
    using reached_save [OF inv that(1), of "\<lambda>x. x\<lparr>dl_status := status\<rparr>" "outbox s"] that status
    by (cases status; cases "dl_status r") (simp_all add: less_eq_delivery_status_def)
  show ?thesis
    unfolding handle_status_def Let_def
    using inv True row failed moved
    by (auto simp: gets_step wp_ret delivery_save_def [of _ "\<lambda>x. x\<lparr>dl_status := status\<rparr>"] wp_modify split: option.split)
qed (use inv in \<open>simp add: handle_status_def wp_ret\<close>)


lemma handle_inbound_reached: "pres (reached k st n) (handle_inbound d)"
proof -
  have quiet: "reached k st n (s\<lparr>t_wa_suppressions := W\<rparr>) = reached k st n s" "reached k st n (s\<lparr>t_customers := C\<rparr>) = reached k st n s"
    "reached k st n (s\<lparr>outbox := outbox s @ [Deliver_whatsapp nr w i tpl delay]\<rparr>) = reached k st n s"
    for s W C nr w i tpl delay
    by (simp_all add: reached_def fallen_back_def is_email_def)
  have "pres (reached k st n) (json_text j)" for j
    by (cases j rule: json_text.cases) (auto intro!: pres_intros)
  then show ?thesis
    unfolding handle_inbound_def Let_def queue_def
    by (intro pres_intros pres_modify) (simp_all add: quiet)
qed

lemma status_map_values: "map_of status_map t = Some status \<Longrightarrow> status \<noteq> Delivery_FALLBACK_SENT \<and> status \<noteq> Delivery_QUEUED"
  by (auto simp: status_map_def split: if_splits)

lemma process_event_reached: "pres (reached k st n) (process_event ev d)"
proof -
  have dict: "pres (reached k st n) (json_dict j)" for j
    by (cases j) (auto intro!: pres_intros)
  have "pres (reached k st n) (handle_status status x)" if "status \<noteq> Delivery_FALLBACK_SENT \<and> status \<noteq> Delivery_QUEUED" for status x
    unfolding pres_wp using handle_status_reached that by blast
  then show ?thesis
    unfolding process_event_def
    by (cases ev) (auto intro!: pres_intros dict handle_inbound_reached dest: status_map_values split: option.split)
qed

text \<open>The provider's events one after the other; each is handled or fails on its own.\<close>

definition process_events :: "(json \<times> json) list \<Rightarrow> db \<Rightarrow> db" where
  "process_events evs s = fold (\<lambda>(ev, d) s. snd (process_event ev d s)) evs s"

lemma process_events_reached: "reached k st n s \<Longrightarrow> reached k st n (process_events evs s)"
  by (induction evs arbitrary: s) (auto simp: process_events_def intro: presD [OF process_event_reached])

text \<open>
  C25.  Provider events never take a delivery back.  Whatever events arrive, in whatever order and
  however often, the status of a delivery never decreases in the order queued, sent, delivered,
  read, failed, fallen back to email; and the queue gets exactly one email per delivery that falls
  back, so no failure report makes a customer receive the same message twice by email.
\<close>

theorem delivery_never_regresses:
  assumes "distinct (map dl_pk (t_deliveries s))" and "find_by dl_pk k (t_deliveries s) = Some d"
  shows "(\<exists>d'. find_by dl_pk k (t_deliveries (process_events evs s)) = Some d' \<and> dl_status d \<le> dl_status d')
     \<and> int (length (filter is_email (outbox (process_events evs s)))) - int (length (filter is_email (outbox s)))
       = int (fallen_back (process_events evs s)) - int (fallen_back s)"
proof -
  have "reached k (dl_status d) (int (length (filter is_email (outbox s))) - int (fallen_back s)) s"
    using assms by (simp add: reached_def)
  from process_events_reached [OF this, of evs] show ?thesis
    by (auto simp: reached_def)
qed

definition example_delivery :: delivery where
  "example_delivery = \<lparr>dl_pk = 5, dl_customer = Some 1, dl_event = ''welcome'', dl_channel = Channel_WHATSAPP,
     dl_recipient = ''62811'', dl_wa_text = Some (''welcome'', []), dl_email = Some (''welcome'', []),
     dl_status = Delivery_READ, dl_provider = ''kirimchat'', dl_msg_id = ''m1'', dl_error = []\<rparr>"

theorem delivery_never_regresses_witness:
  "\<exists>d'. find_by dl_pk 5 (t_deliveries (process_events
       [(JStr ''message.sent'', JObj [(''message_id'', JStr ''m1'')])] (empty_db\<lparr>t_deliveries := [example_delivery]\<rparr>))) = Some d'
     \<and> Delivery_READ \<le> dl_status d'"
  using delivery_never_regresses [of "empty_db\<lparr>t_deliveries := [example_delivery]\<rparr>" 5 example_delivery]
  by (simp add: example_delivery_def)

section \<open>A failed message\<close>

text \<open>
  A WhatsApp message that cannot be sent is given up silently.  The docstring of
  \<open>deliver_whatsapp\<close> says that the delivery is marked failed, and the message falls back to email,
  once the retries are exhausted; but \<open>self.retry(exc=exc)\<close> then raises \<open>exc\<close> itself, as Celery
  documents, and never the \<open>MaxRetriesExceededError\<close> the code waits for.  So however often the
  task has been tried, a send that raises leaves the database and the queue as they were: the
  delivery stays queued and no email is sent.
\<close>

theorem failed_send_never_falls_back:
  assumes celery: "\<And>e. celery_retry E n e = (if n < 3 then None else Some e)"
    and fails: "send_whatsapp E to_number message template s = (Inl e, s)" "e \<noteq> MaxRetriesExceededError"
  shows "snd (deliver_whatsapp E n to_number message (Some k) template s) = s"
  using celery [of e] fails
  by (simp add: deliver_whatsapp_def retry_def run_simps is_max_retries_def)

theorem failed_send_never_falls_back_witness:
  "snd (deliver_whatsapp (demo_env\<lparr>http_post := (\<lambda>url body. None)\<rparr>) 3 ''62811'' (''welcome'', []) (Some 5) None
     (empty_db\<lparr>t_deliveries := [example_delivery], t_settings := [\<lparr>st_key = ''WA_BACKEND'', st_value = ''fonnte''\<rparr>]\<rparr>))
   = empty_db\<lparr>t_deliveries := [example_delivery], t_settings := [\<lparr>st_key = ''WA_BACKEND'', st_value = ''fonnte''\<rparr>]\<rparr>"
  by (rule failed_send_never_falls_back [where e = "SendError ''fonnte''"])
    (simp_all add: demo_env_def send_whatsapp_def get_backend_def backends_def fonnte_send_def run_simps empty_db_def)


section \<open>A failed webhook\<close>

lemma process_event_quiet: "pres (\<lambda>s. cache s = C \<and> clock s = T) (process_event ev d)"
proof -
  let ?I = "\<lambda>s :: db. cache s = C \<and> clock s = T"
  have dict: "pres ?I (json_dict j)" "pres ?I (json_text j)" for j
    by (cases j; auto intro!: pres_intros)+
  have fallback: "pres ?I (fallback_delivery_to_email r)" for r
    unfolding fallback_delivery_to_email_def customer_get_def queue_def delivery_save_def
    by (intro pres_intros pres_modify) simp_all
  have "pres ?I (handle_status status x)" for status x
    unfolding handle_status_def Let_def delivery_save_def by (intro pres_intros pres_modify fallback) simp_all
  moreover have "pres ?I (handle_inbound x)" for x
    unfolding handle_inbound_def Let_def queue_def by (intro pres_intros pres_modify dict) simp_all
  ultimately show ?thesis
    unfolding process_event_def by (cases ev) (auto intro!: pres_intros dict split: option.split)
qed

text \<open>
  A provider event that fails once is lost.  The view answers 500 "will retry" when processing
  raises, but it has marked the event id as seen before processing it: every retry within a day is
  answered 200 as a duplicate and changes nothing.
\<close>

theorem failed_event_is_lost:
  assumes request: "kirimchat_secret E \<noteq> []"
      "verify_signature E raw (header_get headers ''X-KirimChat-Signature'') (kirimchat_secret E) = ret True"
      "json_loads E raw = Some (JObj payload)" "truthy (json_get payload ''event_id'' JNull)"
    and failed: "kirimchat_webhook E headers raw s = (Inr 500, t)"
    and within_a_day: "c < clock s + idempotency_ttl * us_second"
  shows "kirimchat_webhook E headers raw (t\<lparr>clock := c\<rparr>) = (Inr 200, t\<lparr>clock := c\<rparr>)"
proof -
  define key where "key = ''kirimchat:webhook:'' @ py_str (json_get payload ''event_id'' JNull)"
  define ev d where "ev = json_or (json_get payload ''event_type'' JNull) (JStr [])" and "d = json_or (json_get payload ''data'' JNull) (JObj [])"
  have run: "kirimchat_webhook E headers raw u =
      bnd (cache_add key 1 idempotency_ttl) (\<lambda>fresh.
        if \<not> fresh then ret 200 else try_except (process_event ev d) (\<lambda>_. True) (\<lambda>_. ret 500) (\<lambda>_. ret 200)) u" for u
    using request by (simp add: kirimchat_webhook_def key_def ev_def d_def json_or_def cong: if_cong)
  have fresh: "cache_value key s = None"
    using failed by (auto simp: run run_simps cache_add_def split: if_splits)
  define u where "u = s\<lparr>cache := AList.update key (1, clock s + idempotency_ttl * us_second) (cache s)\<rparr>"
  have "t = snd (process_event ev d u)"
    using failed fresh by (auto simp: run run_simps cache_add_def cache_set_def u_def split: prod.splits sum.splits)
  then have "cache t = cache u"
    using presD [OF process_event_quiet [of "cache u" "clock u" ev d], of u] by simp
  then have "cache_value key (t\<lparr>clock := c\<rparr>) = Some 1"
    using within_a_day by (simp add: cache_value_def u_def update_conv')
  then show ?thesis
    by (simp add: run run_simps cache_add_def)
qed

definition bad_event_env :: env where
  "bad_event_env = demo_env\<lparr>hmac_sha256 := (\<lambda>k m. []),
     json_loads := (\<lambda>raw. Some (JObj [(''event_type'', JStr ''message.received''), (''event_id'', JStr ''e1''),
       (''data'', JObj [(''customer_phone'', JInt 62811)])]))\<rparr>"

theorem failed_event_is_lost_witness:
  "kirimchat_webhook bad_event_env [(''X-KirimChat-Signature'', ''sha256='')] ''body''
     (empty_db\<lparr>cache := [(''kirimchat:webhook:e1'', 1, idempotency_ttl * us_second)], clock := 5\<rparr>)
   = (Inr 200, empty_db\<lparr>cache := [(''kirimchat:webhook:e1'', 1, idempotency_ttl * us_second)], clock := 5\<rparr>)"
proof -
  have sig: "verify_signature bad_event_env ''body'' ''sha256='' ''kc'' = ret True"
    by (simp add: verify_signature_def bad_event_env_def hexdigest_def strip_def is_space_def compare_digest_def)
  have loads: "json_loads bad_event_env ''body'' = Some (JObj [(''event_type'', JStr ''message.received''), (''event_id'', JStr ''e1''),
       (''data'', JObj [(''customer_phone'', JInt 62811)])])"
    by (simp add: bad_event_env_def)
  have secret: "kirimchat_secret bad_event_env = ''kc''" by (simp add: bad_event_env_def demo_env_def)
  have failed: "kirimchat_webhook bad_event_env [(''X-KirimChat-Signature'', ''sha256='')] ''body'' empty_db
      = (Inr 500, empty_db\<lparr>cache := [(''kirimchat:webhook:e1'', 1, idempotency_ttl * us_second)]\<rparr>)"
    unfolding kirimchat_webhook_def secret loads
    by (simp add: sig header_get_def json_get_def json_or_def run_simps cache_add_def cache_set_def cache_value_def
        process_event_def status_map_def handle_inbound_def empty_db_def cong: if_cong)
  show ?thesis
    using failed_event_is_lost [OF _ _ loads _ failed, of 5] sig secret
    by (simp add: header_get_def json_get_def idempotency_ttl_def us_second_def empty_db_def)
qed


section \<open>One channel per notification\<close>

definition suppressed :: "string \<Rightarrow> db \<Rightarrow> bool" where
  "suppressed number s = (\<exists>r \<in> set (t_wa_suppressions s). ws_number r = normalize_wa_number number)"

text \<open>The task goes to the customer over the one channel the customer may be reached on.\<close>

fun rightly_addressed :: "customer \<Rightarrow> db \<Rightarrow> queued \<Rightarrow> bool" where
  "rightly_addressed c s (Deliver_whatsapp number _ _ _ delay) =
     (c_channel c = Channel_WHATSAPP \<and> wa_verified c \<and> \<not> suppressed (c_wa_number c) s
      \<and> number = normalize_wa_number (c_wa_number c))"
| "rightly_addressed c s (Deliver_email address _) = (address = notify_email_address c)"
| "rightly_addressed c s _ = False"

lemma effective_channel_wp:
  "wp (effective_channel c)
     (\<lambda>ch t. t = s \<and> (ch = Channel_WHATSAPP \<longrightarrow> c_channel c = Channel_WHATSAPP \<and> wa_verified c \<and> \<not> suppressed (c_wa_number c) s))
     (\<lambda>_ _. False) s"
  by (auto simp: effective_channel_def resolve_channel_def wa_suppressed_def suppressed_def wp_simps split: if_splits)

lemma quiet_hours_delay_wp: "wp (quiet_hours_delay ev) (\<lambda>_ t. t = s) (\<lambda>_ _. False) s"
  by (auto simp: quiet_hours_delay_def int_setting_def wp_simps split: option.split)

lemma dispatch_wa_wp:
  "wp (dispatch_wa nr w k tpl ev) (\<lambda>_ t. \<exists>delay. t = s\<lparr>outbox := outbox s @ [Deliver_whatsapp nr w (Some k) tpl delay]\<rparr>) (\<lambda>_ _. False) s"
  unfolding dispatch_wa_def wp_bnd by (rule wp_mono [OF quiet_hours_delay_wp]) (auto simp: queue_def wp_simps)

lemma notify_wp:
  "wp (notify E c ev w em ps)
     (\<lambda>d t. \<exists>task. outbox t = outbox s @ [task] \<and> rightly_addressed c s task \<and> t_deliveries t = t_deliveries s @ [d]
        \<and> dl_customer d = Some (c_pk c) \<and> dl_status d = Delivery_QUEUED
        \<and> dl_channel d = (case task of Deliver_whatsapp _ _ _ _ _ \<Rightarrow> Channel_WHATSAPP | _ \<Rightarrow> Channel_EMAIL))
     (\<lambda>_ _. False) s"
  (is "wp _ ?Q _ s")
proof -
  have email: "wp (bnd (record_delivery (c_pk c) ev Channel_EMAIL (notify_email_address c) None (Some em)) (\<lambda>row.
        bnd (with_footer E (c_pk c) em) (\<lambda>body.
        bnd (queue (Deliver_email (notify_email_address c) body)) (\<lambda>_. ret row)))) ?Q (\<lambda>_ _. False) s"
    by (simp add: record_delivery_def with_footer_def make_token_def queue_def wp_simps Let_def)
  have whatsapp: "wp (bnd (record_delivery (c_pk c) ev Channel_WHATSAPP number (Some w) (Some em)) (\<lambda>row.
        bnd (dispatch_wa number w (dl_pk row) tpl ev) (\<lambda>_. ret row))) ?Q (\<lambda>_ _. False) s"
    if "c_channel c = Channel_WHATSAPP" "wa_verified c" "\<not> suppressed (c_wa_number c) s" "number = normalize_wa_number (c_wa_number c)"
    for number tpl
    using that by (auto simp: record_delivery_def wp_simps Let_def intro!: wp_mono [OF dispatch_wa_wp])
  have template: "wp (resolve_wa_template ev ps) (\<lambda>_ t. t = s) (\<lambda>_ _. False) s"
    by (simp add: resolve_wa_template_def template_mode_def setting_get_def wp_simps Let_def)
  show ?thesis
    unfolding notify_def Let_def wp_bnd [of "effective_channel c"]
  proof (rule wp_mono [OF effective_channel_wp], goal_cases)
    case (1 ch t)
    show ?case
    proof (cases "ch = Channel_WHATSAPP")
      case True
      then show ?thesis
        using 1 email whatsapp by (auto simp: wp_bnd [of "resolve_wa_template ev ps"] intro!: wp_mono [OF template])
    qed (use 1 email in simp)
  qed simp
qed

text \<open>
  C24.  A notification goes out exactly once and never to a number that did not agree to it.  \<open>notify\<close>
  never raises; it records one delivery and hands exactly one task to the queue: either a WhatsApp
  message, to the customer's normalised number, and then only if the customer chose WhatsApp, has
  verified the number and has not opted out; or an email to the customer's address.
\<close>

theorem one_channel_per_notification:
  "wp (notify E c ev w em ps)
     (\<lambda>d t. \<exists>task. outbox t = outbox s @ [task] \<and> rightly_addressed c s task \<and> t_deliveries t = t_deliveries s @ [d]
        \<and> dl_customer d = Some (c_pk c) \<and> dl_status d = Delivery_QUEUED
        \<and> dl_channel d = (case task of Deliver_whatsapp _ _ _ _ _ \<Rightarrow> Channel_WHATSAPP | _ \<Rightarrow> Channel_EMAIL))
     (\<lambda>_ _. False) s"
  by (rule notify_wp)

section \<open>Quiet hours\<close>

text \<open>
  A message held in the quiet hours leaves when they end.  When the local time is in the window,
  the countdown is at most a day and ends, to the second it was rounded down to, at the full hour
  \<open>WA_QUIET_END\<close>; outside the window nothing is held.
\<close>

theorem quiet_hours_end:
  "let delay = hold_seconds wib start end_hour in 0 \<le> delay \<and> delay \<le> 86400
     \<and> (if in_quiet_hours wib start end_hour then \<exists>rest. 0 \<le> rest \<and> rest < us_second
          \<and> (wib + delay * us_second + rest) mod us_day = end_hour mod 24 * us_hour
        else delay = 0)"
proof (cases "in_quiet_hours wib start end_hour")
  case False
  then show ?thesis by (simp add: hold_seconds_def)
next
  case True
  define delay where "delay = hold_seconds wib start end_hour"
  define midnight where "midnight = wib - wib mod us_day"
  define first where "first = midnight + end_hour mod 24 * us_hour"
  define target where "target = (if first \<le> wib then first + us_day else first)"
  have delay: "delay = (target - wib) div us_second"
    using True by (simp add: delay_def hold_seconds_def Let_def target_def first_def midnight_def)
  have hour: "0 \<le> end_hour mod 24" "end_hour mod 24 \<le> 23" by simp_all
  have wib: "midnight \<le> wib" "wib < midnight + us_day"
    by (simp_all add: midnight_def us_day_def us_second_def)
  have span: "0 < target - wib" "target - wib \<le> us_day"
    using wib hour by (auto simp: target_def first_def us_hour_def us_day_def us_second_def split: if_splits)
  have "midnight mod us_day = 0"
    by (simp add: midnight_def minus_mod_eq_mult_div)
  then have target: "target mod us_day = end_hour mod 24 * us_hour"
    using hour by (auto simp: target_def first_def mod_add_left_eq [symmetric, of midnight] us_hour_def us_day_def us_second_def)
  have "wib + delay * us_second + (target - wib) mod us_second = target"
    by (simp add: delay)
  with target have "\<exists>rest. 0 \<le> rest \<and> rest < us_second \<and> (wib + delay * us_second + rest) mod us_day = end_hour mod 24 * us_hour"
    by (intro exI [of _ "(target - wib) mod us_second"]) (simp add: us_second_def)
  moreover have "0 \<le> delay" "delay \<le> 86400"
    using span by (simp_all add: delay us_second_def us_day_def pos_imp_zdiv_nonneg_iff)
  ultimately show ?thesis using True by (simp add: Let_def delay_def)
qed

end
