(* ===== verification/Sellers.thy ===== *)
theory Sellers
  imports Web Messaging
begin

text \<open>
  Sellers (\<open>seller/decorators.py\<close>, \<open>storefront/signals.py\<close>, and of \<open>seller/views.py\<close> the application, the
  onboarding wizard and the store page with its blocks): who counts as a seller, how one becomes one,
  and what a store shows.  A form Django validates is its cleaned data, \<open>None\<close> when it is rejected
  or the request is a GET; file uploads, themes and texts only shown are not modelled.
\<close>

section \<open>Store pages\<close>

definition page_create :: "seller \<Rightarrow> store_page prog" where
  "page_create sel =
     bnd (gets (\<lambda>s. find_by sp_seller (Some (sel_pk sel)) (t_pages s) = None)) (\<lambda>free.
     bnd (check free (IntegrityError ''StorePage.seller'')) (\<lambda>_.
     bnd new_pk (\<lambda>pk.
     let page = \<lparr>sp_pk = pk, sp_slug = sel_slug sel, sp_title = sel_name sel, sp_published = False, sp_seller = Some (sel_pk sel)\<rparr>
     in bnd (modify (\<lambda>s. s\<lparr>t_pages := t_pages s @ [page]\<rparr>)) (\<lambda>_. ret page))))"

definition page_save :: "nat \<Rightarrow> (store_page \<Rightarrow> store_page) \<Rightarrow> unit prog" where
  "page_save k f = modify (\<lambda>s. s\<lparr>t_pages := upd_by sp_pk k f (t_pages s)\<rparr>)"

text \<open>\<open>_get_or_create_store_page\<close>; a page without a seller is handed to this one.\<close>

definition get_or_create_store_page :: "seller \<Rightarrow> store_page prog" where
  "get_or_create_store_page sel =
     bnd (gets (\<lambda>s. find_by sp_slug (sel_slug sel) (t_pages s))) (\<lambda>v.
     bnd (case v of Some p \<Rightarrow> ret p | None \<Rightarrow> page_create sel) (\<lambda>page.
     if sp_seller page = None
     then bnd (gets (\<lambda>s. find_by sp_seller (Some (sel_pk sel)) (t_pages s) = None)) (\<lambda>free.
          bnd (check free (IntegrityError ''StorePage.seller'')) (\<lambda>_.
          bnd (page_save (sp_pk page) (\<lambda>r. r\<lparr>sp_seller := Some (sel_pk sel)\<rparr>)) (\<lambda>_.
          ret (page\<lparr>sp_seller := Some (sel_pk sel)\<rparr>))))
     else ret page))"

text \<open>The signal runs after every save of a \<open>SellerProfile\<close> and does the same.\<close>

definition create_store_page_for_seller :: "seller \<Rightarrow> unit prog" where
  "create_store_page_for_seller sel = bnd (get_or_create_store_page sel) (\<lambda>_. ret ())"

section \<open>Seller profiles\<close>

definition seller_save :: "seller \<Rightarrow> (seller \<Rightarrow> seller) \<Rightarrow> unit prog" where
  "seller_save sel f =
     bnd (modify (\<lambda>s. s\<lparr>t_sellers := upd_by sel_pk (sel_pk sel) f (t_sellers s)\<rparr>)) (\<lambda>_. create_store_page_for_seller (f sel))"

definition seller_create :: "user \<Rightarrow> string \<Rightarrow> string \<Rightarrow> bool \<Rightarrow> seller prog" where
  "seller_create u name slug onboarded =
     bnd (gets (\<lambda>s. find_by sel_slug slug (t_sellers s) = None \<and> find_by sel_user (Some (u_pk u)) (t_sellers s) = None)) (\<lambda>free.
     bnd (check free (IntegrityError ''SellerProfile'')) (\<lambda>_.
     bnd new_pk (\<lambda>pk.
     let sel = \<lparr>sel_pk = pk, sel_user = Some (u_pk u), sel_name = name, sel_slug = slug, sel_active = True, sel_approved = True, sel_onboarded = onboarded,
                sel_step = Onboarding_IDENTITY, sel_commission_rate = 0, sel_bank_name = [], sel_account_number = [],
                sel_account_name = [], sel_qris_enabled = False, sel_qris_image = None\<rparr>
     in bnd (modify (\<lambda>s. s\<lparr>t_sellers := t_sellers s @ [sel]\<rparr>)) (\<lambda>_.
        bnd (create_store_page_for_seller sel) (\<lambda>_. ret sel)))))"

section \<open>seller_required (decorators.py)\<close>

text \<open>The slugs tried one after the other for a superuser: \<open>store\<close>, \<open>store-1\<close>, \<open>store-2\<close>, ...\<close>

definition slug_at :: "string \<Rightarrow> nat \<Rightarrow> string" where
  "slug_at base n = (if n = 0 then base else base @ ''-'' @ str_nat n)"

lemma slug_at_inject: "slug_at base m = slug_at base n \<longleftrightarrow> m = n"
  by (auto simp: slug_at_def)

lemma finite_slugs_taken: "finite {m. slug_at base m \<in> set taken}"
  by (rule finite_imageD [of "slug_at base"]) (auto simp: inj_on_def slug_at_inject intro: finite_subset [of _ "set taken"])

function free_slug :: "string list \<Rightarrow> string \<Rightarrow> nat \<Rightarrow> string" where
  "free_slug taken base n = (if slug_at base n \<in> set taken then free_slug taken base (Suc n) else slug_at base n)"
  by auto
termination
proof (relation "measure (\<lambda>(taken, base, n). card {m. n \<le> m \<and> slug_at base m \<in> set taken})", simp)
  fix taken :: "string list" and base n
  assume "slug_at base n \<in> set taken"
  then have "{m. Suc n \<le> m \<and> slug_at base m \<in> set taken} \<subset> {m. n \<le> m \<and> slug_at base m \<in> set taken}"
    by (auto simp: Suc_le_eq)
  moreover have "finite {m. n \<le> m \<and> slug_at base m \<in> set taken}"
    by (rule finite_subset [OF _ finite_slugs_taken]) auto
  ultimately show "((taken, base, Suc n), (taken, base, n)) \<in> measure (\<lambda>(taken, base, n). card {m. n \<le> m \<and> slug_at base m \<in> set taken})"
    by (simp add: psubset_card_mono)
qed

declare free_slug.simps [simp del]

definition auto_create_seller :: "env \<Rightarrow> user \<Rightarrow> seller prog" where
  "auto_create_seller E u =
     (let local_part = slugify E (takeWhile (\<lambda>x. x \<noteq> CHR ''@'') (u_email u));
          base_slug = (if local_part = [] then ''store'' else local_part)
      in bnd (gets (\<lambda>s. free_slug (map sel_slug (t_sellers s)) base_slug 0)) (\<lambda>slug.
         seller_create u ''My Store'' slug True))"

text \<open>A superuser is the first seller, claims the unclaimed one or is made one.\<close>

definition superuser_seller :: "env \<Rightarrow> user \<Rightarrow> seller prog" where
  "superuser_seller E u =
     bnd (gets (\<lambda>s. find_by sel_user (Some (u_pk u)) (t_sellers s))) (\<lambda>own.
     case own of
       Some sel \<Rightarrow> ret sel
     | None \<Rightarrow>
         bnd (gets (\<lambda>s. find_by sel_user None (t_sellers s))) (\<lambda>unclaimed.
         case unclaimed of
           Some sel \<Rightarrow>
             bnd (seller_save sel (\<lambda>r. r\<lparr>sel_user := Some (u_pk u)\<rparr>)) (\<lambda>_. ret (sel\<lparr>sel_user := Some (u_pk u)\<rparr>))
         | None \<Rightarrow> auto_create_seller E u))"

definition seller_required :: "env \<Rightarrow> user option \<Rightarrow> (seller \<Rightarrow> response prog) \<Rightarrow> response prog" where
  "seller_required E request_user view =
     (case request_user of
        None \<Rightarrow> ret (Redirect ''/accounts/login/'')
      | Some u \<Rightarrow>
          if u_superuser u then bnd (superuser_seller E u) view
          else
            bnd (gets (\<lambda>s. find_by sel_user (Some (u_pk u)) (t_sellers s))) (\<lambda>v.
            case v of
              None \<Rightarrow> ret (Redirect ''seller:apply'')
            | Some sel \<Rightarrow>
                if \<not> sel_approved sel then ret (Redirect ''seller:apply'')
                else if \<not> sel_onboarded sel then ret (Redirect ''seller:onboarding'')
                else view sel))"

section \<open>What a seller sells\<close>

definition superuser_of :: "seller \<Rightarrow> db \<Rightarrow> bool" where
  "superuser_of sel s =
     (case sel_user sel of
        None \<Rightarrow> False
      | Some k \<Rightarrow> (case find_by u_pk k (t_users s) of None \<Rightarrow> False | Some u \<Rightarrow> u_superuser u))"

definition seller_products :: "seller \<Rightarrow> db \<Rightarrow> product list" where
  "seller_products sel s =
     (if superuser_of sel s then t_products s else filter (\<lambda>r. pr_seller r = Some (sel_pk sel)) (t_products s))"

definition seller_product :: "seller \<Rightarrow> nat \<Rightarrow> product prog" where
  "seller_product sel k = or_404 (\<lambda>s. find_by pr_pk k (seller_products sel s))"

text \<open>\<open>Product.save\<close>: a product without a slug is given the one of its name, which must be free.\<close>

definition product_create_row :: "env \<Rightarrow> nat option \<Rightarrow> string \<Rightarrow> product_type \<Rightarrow> visibility \<Rightarrow> product prog" where
  "product_create_row E sel name ty vis =
     bnd (gets (\<lambda>s. find_by pr_slug (slugify E name) (t_products s) = None)) (\<lambda>free.
     bnd (check free (IntegrityError ''Product.slug'')) (\<lambda>_.
     bnd new_pk (\<lambda>pk.
     let pr = \<lparr>pr_pk = pk, pr_seller = sel, pr_name = name, pr_slug = slugify E name, pr_type = ty, pr_visibility = vis\<rparr>
     in bnd (modify (\<lambda>s. s\<lparr>t_products := t_products s @ [pr]\<rparr>)) (\<lambda>_. ret pr))))"

definition plan_create_row :: "plan \<Rightarrow> plan prog" where
  "plan_create_row pl =
     bnd new_pk (\<lambda>pk. bnd (modify (\<lambda>s. s\<lparr>t_plans := t_plans s @ [pl\<lparr>pl_pk := pk\<rparr>]\<rparr>)) (\<lambda>_. ret (pl\<lparr>pl_pk := pk\<rparr>)))"

section \<open>Blocks of a store page\<close>

text \<open>\<open>blocks.aggregate(m=Count("pk"))["m"] + 1\<close>\<close>

definition next_position :: "nat \<Rightarrow> int prog" where
  "next_position page = gets (\<lambda>s. int (length (filter (\<lambda>b. bl_page b = page) (t_blocks s))) + 1)"

definition block_create :: "nat \<Rightarrow> nat \<Rightarrow> int \<Rightarrow> unit prog" where
  "block_create page pr position =
     bnd new_pk (\<lambda>pk.
     modify (\<lambda>s. s\<lparr>t_blocks := t_blocks s @ [\<lparr>bl_pk = pk, bl_page = page, bl_position = position, bl_product = Some pr, bl_visible = True\<rparr>]\<rparr>))"

definition own_block :: "store_page \<Rightarrow> nat \<Rightarrow> block prog" where
  "own_block page k = or_404 (\<lambda>s. find (\<lambda>b. bl_pk b = k \<and> bl_page b = sp_pk page) (t_blocks s))"

definition block_save :: "nat \<Rightarrow> (block \<Rightarrow> block) \<Rightarrow> unit prog" where
  "block_save k f = modify (\<lambda>s. s\<lparr>t_blocks := upd_by bl_pk k f (t_blocks s)\<rparr>)"

definition block_add :: "env \<Rightarrow> user option \<Rightarrow> form \<Rightarrow> response prog" where
  "block_add E who f = seller_required E who (\<lambda>sel.
     bnd (get_or_create_store_page sel) (\<lambda>page.
     let product_pk = post_get f ''product_pk'' []
     in if product_pk = [] then ret (Redirect ''seller:store'')
        else
          bnd (or_raise (py_int product_pk) (ValueError ''product_pk'')) (\<lambda>k.
          bnd (check (0 \<le> k) Http404) (\<lambda>_.
          bnd (seller_product sel (nat k)) (\<lambda>pr.
          bnd (next_position (sp_pk page)) (\<lambda>position.
          bnd (gets (\<lambda>s. find (\<lambda>b. bl_page b = sp_pk page \<and> bl_product b = Some (pr_pk pr)) (t_blocks s) = None)) (\<lambda>missing.
          bnd (when_m missing (block_create (sp_pk page) (pr_pk pr) position)) (\<lambda>_.
          ret (Redirect ''seller:store'')))))))))"

definition block_remove :: "env \<Rightarrow> user option \<Rightarrow> nat \<Rightarrow> response prog" where
  "block_remove E who k = seller_required E who (\<lambda>sel.
     bnd (get_or_create_store_page sel) (\<lambda>page.
     bnd (own_block page k) (\<lambda>_.
     bnd (modify (\<lambda>s. s\<lparr>t_blocks := filter (\<lambda>b. bl_pk b \<noteq> k) (t_blocks s)\<rparr>)) (\<lambda>_.
     ret (Redirect ''seller:store'')))))"

definition block_toggle_visibility :: "env \<Rightarrow> user option \<Rightarrow> nat \<Rightarrow> response prog" where
  "block_toggle_visibility E who k = seller_required E who (\<lambda>sel.
     bnd (get_or_create_store_page sel) (\<lambda>page.
     bnd (own_block page k) (\<lambda>b.
     bnd (block_save k (\<lambda>r. r\<lparr>bl_visible := \<not> bl_visible b\<rparr>)) (\<lambda>_.
     ret (Redirect ''seller:store'')))))"

fun split_on :: "char \<Rightarrow> string \<Rightarrow> string list" where
  "split_on sep [] = [[]]"
| "split_on sep (c # cs) =
     (if c = sep then [] # split_on sep cs
      else case split_on sep cs of [] \<Rightarrow> [[c]] | w # ws \<Rightarrow> (c # w) # ws)"

text \<open>\<open>enumerate(xs, start=n)\<close>\<close>

fun enumerate_from :: "int \<Rightarrow> 'a list \<Rightarrow> (int \<times> 'a) list" where
  "enumerate_from n [] = []"
| "enumerate_from n (x # xs) = (n, x) # enumerate_from (n + 1) xs"

text \<open>\<open>[int(x) for x in raw.split(",") if x.strip()]\<close>; \<open>None\<close>: \<open>ValueError\<close>.\<close>

definition parse_ids :: "string \<Rightarrow> int list option" where
  "parse_ids raw =
     (let ids = map py_int (filter (\<lambda>x. strip x \<noteq> []) (split_on (CHR '','') raw))
      in if None \<in> set ids then None else Some (map the ids))"

definition owned_blocks :: "nat \<Rightarrow> db \<Rightarrow> int set" where
  "owned_blocks page s = set (map (\<lambda>b. int (bl_pk b)) (filter (\<lambda>b. bl_page b = page) (t_blocks s)))"

text \<open>\<open>Block.objects.filter(pk=pk, store_page=store_page).update(position=position)\<close>\<close>

definition block_set_position :: "nat \<Rightarrow> int \<times> int \<Rightarrow> unit prog" where
  "block_set_position page = (\<lambda>(position, k).
     modify (\<lambda>s. s\<lparr>t_blocks := upd_where (\<lambda>b. int (bl_pk b) = k \<and> bl_page b = page) (\<lambda>b. b\<lparr>bl_position := position\<rparr>) (t_blocks s)\<rparr>))"

definition block_reorder :: "env \<Rightarrow> user option \<Rightarrow> form \<Rightarrow> response prog" where
  "block_reorder E who f = seller_required E who (\<lambda>sel.
     bnd (get_or_create_store_page sel) (\<lambda>page.
     case parse_ids (post_get f ''order'' []) of
       None \<Rightarrow> ret (Http_status 400)
     | Some ids \<Rightarrow>
         bnd (gets (owned_blocks (sp_pk page))) (\<lambda>owned.
         if set ids \<noteq> owned then ret (Http_status 400)
         else
           bnd (for_each (block_set_position (sp_pk page)) (enumerate_from 1 ids)) (\<lambda>_.
           ret (Redirect ''seller:store'')))))"

section \<open>The store\<close>

text \<open>\<open>StorePageForm\<close> is its title; the theme and the images are not modelled.\<close>

definition store :: "env \<Rightarrow> user option \<Rightarrow> string option \<Rightarrow> response prog" where
  "store E who title = seller_required E who (\<lambda>sel.
     bnd (get_or_create_store_page sel) (\<lambda>page.
     case title of
       None \<Rightarrow> ret (Page ''seller/store.html'')
     | Some t \<Rightarrow> bnd (page_save (sp_pk page) (\<lambda>r. r\<lparr>sp_title := t\<rparr>)) (\<lambda>_. ret (Redirect ''seller:store''))))"

definition store_publish_toggle :: "env \<Rightarrow> user option \<Rightarrow> response prog" where
  "store_publish_toggle E who = seller_required E who (\<lambda>sel.
     bnd (get_or_create_store_page sel) (\<lambda>page.
     bnd (page_save (sp_pk page) (\<lambda>r. r\<lparr>sp_published := \<not> sp_published page\<rparr>)) (\<lambda>_.
     ret (Redirect ''seller:store''))))"

section \<open>Becoming a seller\<close>

definition profile_of :: "user \<Rightarrow> seller option prog" where
  "profile_of u = gets (\<lambda>s. find_by sel_user (Some (u_pk u)) (t_sellers s))"

definition apply_view :: "env \<Rightarrow> user option \<Rightarrow> form option \<Rightarrow> response prog" where
  "apply_view E request_user post =
     (case request_user of
        None \<Rightarrow> ret (Redirect ''/accounts/login/?next=/seller/apply/'')
      | Some u \<Rightarrow>
          bnd (profile_of u) (\<lambda>v.
          case v of
            Some sel \<Rightarrow>
              if \<not> sel_approved sel then ret (Page ''seller/apply.html'')
              else if \<not> sel_onboarded sel then ret (Redirect ''seller:onboarding'')
              else ret (Redirect ''seller:home'')
          | None \<Rightarrow>
              (case post of
                 None \<Rightarrow> ret (Page ''seller/apply.html'')
               | Some f \<Rightarrow>
                   if \<not> u_verified u then ret (Redirect ''account_email'')
                   else
                     let name = strip (post_get f ''store_name'' []); slug = slugify E name
                     in bnd (gets (\<lambda>s. find_by sel_slug slug (t_sellers s) \<noteq> None)) (\<lambda>taken.
                        if name = [] \<or> taken then ret (Page ''seller/apply.html'')
                        else bnd (seller_create u name slug False) (\<lambda>_. ret (Redirect ''seller:onboarding''))))))"

text \<open>What a step of the wizard posts, once its form is valid.\<close>

datatype wizard_form = Wizard_identity string | Wizard_product string int | Wizard_publish

definition wizard_page :: "response prog" where
  "wizard_page = ret (Page ''seller/onboarding.html'')"

text \<open>\<open>OnboardingProductForm\<close>: a name and a price of at least 0.\<close>

definition onboarding_product :: "env \<Rightarrow> seller \<Rightarrow> store_page \<Rightarrow> string \<Rightarrow> int \<Rightarrow> response prog" where
  "onboarding_product E sel page name price =
     bnd (gets (superuser_of sel)) (\<lambda>super.
     bnd (product_create_row E (if super then None else Some (sel_pk sel)) name (if price = 0 then Product_FREE else Product_ONE_TIME)
            Visibility_PUBLIC) (\<lambda>pr.
     bnd (plan_create_row \<lparr>pl_pk = 0, pl_product = pr_pk pr, pl_name = ''Standard'', pl_price = price, pl_interval = Interval_NONE,
            pl_seat_limit = 1, pl_active = True, pl_pwyw = False, pl_min_price = 0, pl_stock = None, pl_durations = [],
            pl_sort = 0, pl_direct_pay = True, pl_entitlements = []\<rparr>) (\<lambda>_.
     bnd (next_position (sp_pk page)) (\<lambda>position.
     bnd (block_create (sp_pk page) (pr_pk pr) position) (\<lambda>_.
     bnd (seller_save sel (\<lambda>r. r\<lparr>sel_step := Onboarding_PUBLISH\<rparr>)) (\<lambda>_.
     ret (Redirect ''seller:onboarding'')))))))"

definition onboarding :: "env \<Rightarrow> user option \<Rightarrow> wizard_form option \<Rightarrow> response prog" where
  "onboarding E request_user post =
     (case request_user of
        None \<Rightarrow> ret (Redirect ''/accounts/login/?next=/seller/onboarding/'')
      | Some u \<Rightarrow>
          bnd (profile_of u) (\<lambda>v.
          case v of
            None \<Rightarrow> ret (Redirect ''seller:apply'')
          | Some sel \<Rightarrow>
              if \<not> sel_approved sel then ret (Redirect ''seller:apply'')
              else if sel_onboarded sel then ret (Redirect ''seller:home'')
              else
                bnd (get_or_create_store_page sel) (\<lambda>page.
                case sel_step sel of
                  Onboarding_IDENTITY \<Rightarrow>
                    (case post of
                       Some (Wizard_identity title) \<Rightarrow>
                         bnd (page_save (sp_pk page) (\<lambda>r. r\<lparr>sp_title := title\<rparr>)) (\<lambda>_.
                         bnd (seller_save sel (\<lambda>r. r\<lparr>sel_step := Onboarding_PRODUCT\<rparr>)) (\<lambda>_.
                         ret (Redirect ''seller:onboarding'')))
                     | _ \<Rightarrow> wizard_page)
                | Onboarding_PRODUCT \<Rightarrow>
                    (case post of
                       Some (Wizard_product name price) \<Rightarrow>
                         if name \<noteq> [] \<and> 0 \<le> price then onboarding_product E sel page name price else wizard_page
                     | _ \<Rightarrow> wizard_page)
                | Onboarding_PUBLISH \<Rightarrow>
                    (case post of
                       None \<Rightarrow> wizard_page
                     | Some _ \<Rightarrow>
                         bnd (page_save (sp_pk page) (\<lambda>r. r\<lparr>sp_published := True\<rparr>)) (\<lambda>_.
                         bnd (seller_save sel (\<lambda>r. r\<lparr>sel_onboarded := True\<rparr>)) (\<lambda>_.
                         ret (Redirect ''seller:home'')))))))"

section \<open>Every seller has a store page of their own\<close>

definition stores_ok :: "db \<Rightarrow> bool" where
  "stores_ok s =
     (distinct (map sel_pk (t_sellers s)) \<and> distinct (map sel_slug (t_sellers s))
      \<and> distinct (map sp_pk (t_pages s)) \<and> distinct (map sp_slug (t_pages s))
      \<and> (\<forall>x \<in> set (t_sellers s). sel_pk x < seq s) \<and> (\<forall>p \<in> set (t_pages s). sp_pk p < seq s)
      \<and> (\<forall>p \<in> set (t_pages s). \<forall>k. sp_seller p = Some k \<longrightarrow> (\<exists>x \<in> set (t_sellers s). sel_pk x = k \<and> sel_slug x = sp_slug p)))"

lemma stores_ok_frame:
  "stores_ok s \<Longrightarrow> t_sellers t = t_sellers s \<Longrightarrow> t_pages t = t_pages s \<Longrightarrow> seq s \<le> seq t \<Longrightarrow> stores_ok t"
  by (auto simp: stores_ok_def intro: less_le_trans)

lemma stores_okD:
  assumes "stores_ok s"
  shows "x \<in> set (t_sellers s) \<Longrightarrow> y \<in> set (t_sellers s) \<Longrightarrow> sel_pk x = sel_pk y \<Longrightarrow> x = y"
    "x \<in> set (t_sellers s) \<Longrightarrow> y \<in> set (t_sellers s) \<Longrightarrow> sel_slug x = sel_slug y \<Longrightarrow> x = y"
    "p \<in> set (t_pages s) \<Longrightarrow> q \<in> set (t_pages s) \<Longrightarrow> sp_pk p = sp_pk q \<Longrightarrow> p = q"
    "p \<in> set (t_pages s) \<Longrightarrow> q \<in> set (t_pages s) \<Longrightarrow> sp_slug p = sp_slug q \<Longrightarrow> p = q"
    "p \<in> set (t_pages s) \<Longrightarrow> sp_seller p = Some k \<Longrightarrow> \<exists>x \<in> set (t_sellers s). sel_pk x = k \<and> sel_slug x = sp_slug p"
  using assms by (auto simp: stores_ok_def dest: distinct_key)

lemma stores_ok_page:
  assumes ok: "stores_ok s" and f: "\<And>r. sp_pk (f r) = sp_pk r \<and> sp_slug (f r) = sp_slug r"
    and own: "\<And>r j. r \<in> set (t_pages s) \<Longrightarrow> sp_pk r = k \<Longrightarrow> sp_seller (f r) = Some j \<Longrightarrow>
      \<exists>x \<in> set (t_sellers s). sel_pk x = j \<and> sel_slug x = sp_slug r"
  shows "stores_ok (s\<lparr>t_pages := upd_by sp_pk k f (t_pages s)\<rparr>)"
proof -
  have "\<exists>x \<in> set (t_sellers s). sel_pk x = j \<and> sel_slug x = sp_slug r"
    if "r \<in> set (t_pages s)" "sp_seller (if sp_pk r = k then f r else r) = Some j" for r j
    using that own [of r j] stores_okD(5) [OF ok that(1), of j] by (auto split: if_splits)
  then show ?thesis
    using ok f by (auto simp: stores_ok_def set_upd_by)
qed

lemma stores_ok_new_page:
  assumes "stores_ok s" and "x \<in> set (t_sellers s)" and "find_by sp_slug (sel_slug x) (t_pages s) = None"
  shows "stores_ok (s\<lparr>seq := Suc (seq s), t_pages := t_pages s @
    [\<lparr>sp_pk = seq s, sp_slug = sel_slug x, sp_title = t, sp_published = p, sp_seller = Some (sel_pk x)\<rparr>]\<rparr>)"
  using assms by (auto simp: stores_ok_def find_by_None_iff less_Suc_eq)

text \<open>The page of a seller, and what stays when a request gives the seller their page.\<close>

definition page_of :: "seller \<Rightarrow> db \<Rightarrow> store_page option" where
  "page_of x s = find_by sp_slug (sel_slug x) (t_pages s)"

definition page_given :: "seller \<Rightarrow> db \<Rightarrow> db \<Rightarrow> bool" where
  "page_given x s t =
     ((\<exists>n P. t = s\<lparr>seq := n, t_pages := P\<rparr>) \<and> seq s \<le> seq t \<and> stores_ok t
      \<and> filter (\<lambda>p. sp_slug p \<noteq> sel_slug x) (t_pages t) = filter (\<lambda>p. sp_slug p \<noteq> sel_slug x) (t_pages s)
      \<and> (\<forall>p. page_of x s = Some p \<longrightarrow> (\<exists>q. page_of x t = Some q \<and> sp_published q = sp_published p \<and> sp_pk q = sp_pk p))
      \<and> (\<forall>q. page_of x s = None \<longrightarrow> page_of x t = Some q \<longrightarrow> seq s \<le> sp_pk q))"

lemma page_ofD: "page_of x s = Some p \<Longrightarrow> p \<in> set (t_pages s) \<and> sp_slug p = sel_slug x"
  by (auto simp: page_of_def dest: find_by_SomeD)

lemma page_by_seller:
  assumes "stores_ok s" and "x \<in> set (t_sellers s)" and "find_by sp_seller (Some (sel_pk x)) (t_pages s) = Some q"
  shows "page_of x s = Some q"
proof -
  have q: "q \<in> set (t_pages s)" "sp_seller q = Some (sel_pk x)" using find_by_SomeD [OF assms(3)] by auto
  from stores_okD(5) [OF assms(1) q] have "sel_slug x = sp_slug q"
    using stores_okD(1) [OF assms(1,2)] by metis
  then show ?thesis
    using assms(1) q(1) by (simp add: page_of_def stores_ok_def find_by_distinct)
qed

lemma own_page:
  assumes "stores_ok s" and "x \<in> set (t_sellers s)" and "page_of x s = Some p"
  shows "sp_seller p = None \<and> find_by sp_seller (Some (sel_pk x)) (t_pages s) = None \<or> sp_seller p = Some (sel_pk x)"
proof (cases "sp_seller p")
  case (Some k)
  from stores_okD(5) [OF assms(1) _ Some] page_ofD [OF assms(3)] have "k = sel_pk x"
    using stores_okD(2) [OF assms(1,2)] by metis
  with Some show ?thesis by simp
next
  case None
  then show ?thesis
    using page_by_seller [OF assms(1,2)] assms(3)
    by (cases "find_by sp_seller (Some (sel_pk x)) (t_pages s)") (auto dest!: find_by_SomeD)
qed

lemma get_or_create_store_page_wp:
  assumes ok: "stores_ok s" and x: "x \<in> set (t_sellers s)"
  shows "wp (get_or_create_store_page x)
     (\<lambda>p t. page_given x s t \<and> page_of x t = Some p \<and> sp_seller p = Some (sel_pk x)) (\<lambda>_ _. False) s"
proof (cases "page_of x s")
  case None
  then have missing: "find_by sp_slug (sel_slug x) (t_pages s) = None" by (simp add: page_of_def)
  have "find_by sp_seller (Some (sel_pk x)) (t_pages s) = None"
    using page_by_seller [OF ok x] None by (cases "find_by sp_seller (Some (sel_pk x)) (t_pages s)") auto
  moreover note stores_ok_new_page [OF ok x missing, of "sel_name x" False]
  ultimately show ?thesis
    using missing
    by (auto simp: get_or_create_store_page_def page_create_def wp_simps Let_def page_given_def page_of_def find_by_append)
next
  case (Some p)
  note p = page_ofD [OF Some]
  let ?f = "\<lambda>r. r\<lparr>sp_seller := Some (sel_pk x)\<rparr>"
  have "stores_ok (s\<lparr>t_pages := upd_by sp_pk (sp_pk p) ?f (t_pages s)\<rparr>)"
  proof (rule stores_ok_page [OF ok])
    show "\<exists>y \<in> set (t_sellers s). sel_pk y = j \<and> sel_slug y = sp_slug r"
      if "r \<in> set (t_pages s)" "sp_pk r = sp_pk p" "sp_seller (?f r) = Some j" for r j
      using that x p stores_okD(3) [OF ok, of r p] by auto
  qed simp
  moreover have "filter (\<lambda>r. sp_slug r \<noteq> sel_slug x) (upd_by sp_pk (sp_pk p) ?f (t_pages s)) = filter (\<lambda>r. sp_slug r \<noteq> sel_slug x) (t_pages s)"
    using p stores_okD(3) [OF ok, of _ p] by (intro upd_own) auto
  moreover have "page_of x (s\<lparr>t_pages := upd_by sp_pk (sp_pk p) ?f (t_pages s)\<rparr>) = Some (?f p)"
    using Some by (simp add: page_of_def find_by_upd_by_other)
  moreover have "\<exists>n Q. s\<lparr>t_pages := P\<rparr> = s\<lparr>seq := n, t_pages := Q\<rparr>" for P
    by (intro exI [of _ "seq s"] exI [of _ P]) simp
  moreover have "page_given x s s"
    using ok Some by (simp add: page_given_def) (intro exI [of _ "seq s"] exI [of _ "t_pages s"], simp)
  ultimately show ?thesis
    using own_page [OF ok x Some] Some ok
    by (auto simp: get_or_create_store_page_def page_save_def wp_simps page_given_def page_of_def)
qed

lemma stores_ok_seller:
  assumes ok: "stores_ok s" and f: "\<And>r. sel_pk (f r) = sel_pk r \<and> sel_slug (f r) = sel_slug r"
  shows "stores_ok (s\<lparr>t_sellers := upd_by sel_pk k f (t_sellers s)\<rparr>)"
proof -
  have "\<exists>y \<in> set (upd_by sel_pk k f (t_sellers s)). sel_pk y = j \<and> sel_slug y = sp_slug p"
    if p: "p \<in> set (t_pages s)" "sp_seller p = Some j" for p j
  proof -
    obtain y where "y \<in> set (t_sellers s)" "sel_pk y = j" "sel_slug y = sp_slug p"
      using stores_okD(5) [OF ok p] by auto
    then show ?thesis
      using f by (intro bexI [of _ "if sel_pk y = k then f y else y"]) (auto simp: set_upd_by)
  qed
  with ok f show ?thesis
    by (auto simp: stores_ok_def set_upd_by)
qed

lemma seller_save_wp:
  assumes ok: "stores_ok s" and x: "x \<in> set (t_sellers s)" and f: "\<And>r. sel_pk (f r) = sel_pk r \<and> sel_slug (f r) = sel_slug r"
  shows "wp (seller_save x f)
     (\<lambda>_. page_given (f x) (s\<lparr>t_sellers := upd_by sel_pk (sel_pk x) f (t_sellers s)\<rparr>)) (\<lambda>_ _. False) s"
proof -
  let ?t = "s\<lparr>t_sellers := upd_by sel_pk (sel_pk x) f (t_sellers s)\<rparr>"
  have "stores_ok ?t"
    using ok f by (rule stores_ok_seller)
  moreover have "f x \<in> set (t_sellers ?t)"
    using x by (auto simp: set_upd_by)
  ultimately show ?thesis
    by (auto simp: seller_save_def create_store_page_for_seller_def wp_simps intro: wp_mono [OF get_or_create_store_page_wp])
qed

section \<open>The wizard\<close>

text \<open>The requests by which user \<open>u\<close> becomes a seller, one at a time.\<close>

inductive wizard_step :: "env \<Rightarrow> user \<Rightarrow> db \<Rightarrow> db \<Rightarrow> bool" for E u where
  applied: "wizard_step E u s (snd (apply_view E (Some u) post s))"
| posted: "wizard_step E u s (snd (onboarding E (Some u) form s))"

inductive wizard_run :: "env \<Rightarrow> user \<Rightarrow> db \<Rightarrow> db \<Rightarrow> bool" for E u s where
  here: "wizard_run E u s s"
| further: "wizard_run E u s t \<Longrightarrow> wizard_step E u t v \<Longrightarrow> wizard_run E u s v"

inductive_cases wizard_stepE: "wizard_step E u s t"

text \<open>A product of the seller that is shown and sold in the store, and delivers nothing.\<close>

definition hollow_offer :: "seller \<Rightarrow> db \<Rightarrow> bool" where
  "hollow_offer x s =
     (\<exists>pr \<in> set (t_products s). \<exists>pl \<in> set (t_plans s). \<exists>b \<in> set (t_blocks s).
        pr_seller pr = Some (sel_pk x) \<and> pr_visibility pr = Visibility_PUBLIC \<and> pl_product pl = pr_pk pr \<and> pl_active pl
        \<and> map_option sp_pk (page_of x s) = Some (bl_page b) \<and> bl_product b = Some (pr_pk pr) \<and> bl_visible b
        \<and> (\<forall>d \<in> set (t_deliverables s). d_plan d \<noteq> pl_pk pl))"

definition wizard_phase :: "seller \<Rightarrow> db \<Rightarrow> bool" where
  "wizard_phase x s =
     ((sel_step x = Onboarding_PUBLISH \<longrightarrow> hollow_offer x s)
      \<and> (sel_onboarded x \<longrightarrow> sel_step x = Onboarding_PUBLISH \<and> map_option sp_published (page_of x s) = Some True))"

definition wizard_ok :: "user \<Rightarrow> db \<Rightarrow> bool" where
  "wizard_ok u s =
     (stores_ok s \<and> (\<forall>d \<in> set (t_deliverables s). d_plan d < seq s) \<and> (\<forall>r \<in> set (t_users s). u_pk r = u_pk u \<longrightarrow> \<not> u_superuser r)
      \<and> (\<forall>x. find_by sel_user (Some (u_pk u)) (t_sellers s) = Some x \<longrightarrow> wizard_phase x s))"

lemma page_given_tables:
  assumes "page_given x s t"
  shows "stores_ok t" "seq s \<le> seq t" "t_sellers t = t_sellers s" "t_users t = t_users s" "t_products t = t_products s" "t_plans t = t_plans s"
    "t_blocks t = t_blocks s" "t_deliverables t = t_deliverables s"
  using assms by (auto simp: page_given_def)

lemma wizard_phase_given:
  assumes "wizard_phase x s" and "page_given x s t"
  shows "wizard_phase x t"
proof -
  have "page_of x s \<noteq> None \<Longrightarrow> map_option sp_pk (page_of x t) = map_option sp_pk (page_of x s)
      \<and> map_option sp_published (page_of x t) = map_option sp_published (page_of x s)"
    using assms(2) by (auto simp: page_given_def)
  moreover have "hollow_offer x s \<Longrightarrow> page_of x s \<noteq> None" by (auto simp: hollow_offer_def)
  ultimately show ?thesis
    using assms(1) page_given_tables(5-8) [OF assms(2)] by (auto simp: wizard_phase_def hollow_offer_def)
qed

lemma wizard_ok_given: "wizard_ok u s \<Longrightarrow> find_by sel_user (Some (u_pk u)) (t_sellers s) = Some x \<Longrightarrow> page_given x s t \<Longrightarrow> wizard_ok u t"
  using page_given_tables [of x s t] by (auto simp: wizard_ok_def intro: wizard_phase_given less_le_trans)

lemma saved_profile:
  "find_by sel_user k rows = Some x \<Longrightarrow> (\<And>r. sel_user (f r) = sel_user r) \<Longrightarrow>
   find_by sel_user k (upd_by sel_pk (sel_pk x) f rows) = Some (f x)"
  by (simp add: find_by_upd_by_other)

text \<open>Saving the profile \<open>x\<close> as \<open>f x\<close> keeps the invariant if \<open>f x\<close> is in a proper phase.\<close>

lemma seller_save_ok:
  assumes ok: "wizard_ok u s" and x: "find_by sel_user (Some (u_pk u)) (t_sellers s) = Some x"
    and f: "\<And>r. sel_pk (f r) = sel_pk r \<and> sel_slug (f r) = sel_slug r \<and> sel_user (f r) = sel_user r" and phase: "wizard_phase (f x) s"
  shows "wp (seller_save x f) (\<lambda>_. wizard_ok u) (\<lambda>_. wizard_ok u) s"
proof -
  let ?t = "s\<lparr>t_sellers := upd_by sel_pk (sel_pk x) f (t_sellers s)\<rparr>"
  have found: "find_by sel_user (Some (u_pk u)) (t_sellers ?t) = Some (f x)"
    using saved_profile [OF x, of f] f by simp
  have "stores_ok ?t"
    using ok f by (auto simp: wizard_ok_def intro: stores_ok_seller)
  then have "wizard_ok u ?t"
    using ok found phase by (auto simp: wizard_ok_def wizard_phase_def hollow_offer_def page_of_def)
  from wizard_ok_given [OF this found] show ?thesis
    using ok find_by_SomeD [OF x] f
    by (intro wp_mono [OF seller_save_wp]) (auto simp: wizard_ok_def)
qed

lemma apply_view_ok: "wizard_ok u s \<Longrightarrow> wp (apply_view E (Some u) post) (\<lambda>_. wizard_ok u) (\<lambda>_. wizard_ok u) s"
proof -
  assume ok: "wizard_ok u s"
  have "wp (seller_create u name slug False) (\<lambda>_. wizard_ok u) (\<lambda>_. wizard_ok u) s"
    if none: "find_by sel_user (Some (u_pk u)) (t_sellers s) = None" for name slug
  proof (cases "find_by sel_slug slug (t_sellers s) = None")
    case True
    let ?x = "\<lparr>sel_pk = seq s, sel_user = Some (u_pk u), sel_name = name, sel_slug = slug, sel_active = True, sel_approved = True, sel_onboarded = False,
                sel_step = Onboarding_IDENTITY, sel_commission_rate = 0, sel_bank_name = [], sel_account_number = [],
                sel_account_name = [], sel_qris_enabled = False, sel_qris_image = None\<rparr>"
    let ?t = "s\<lparr>seq := Suc (seq s), t_sellers := t_sellers s @ [?x]\<rparr>"
    have found: "find_by sel_user (Some (u_pk u)) (t_sellers ?t) = Some ?x"
      using none by (simp add: find_by_append)
    have "stores_ok ?t"
      using ok True by (auto simp: wizard_ok_def stores_ok_def find_by_None_iff less_Suc_eq)
    then have t: "wizard_ok u ?t" "stores_ok ?t"
      using ok found by (auto simp: wizard_ok_def wizard_phase_def less_Suc_eq)
    have "wp (get_or_create_store_page ?x) (\<lambda>_. wizard_ok u) (\<lambda>_. wizard_ok u) ?t"
      by (rule wp_mono [OF get_or_create_store_page_wp [OF t(2)]]) (auto intro: wizard_ok_given [OF t(1) found])
    with True none show ?thesis
      by (simp add: seller_create_def create_store_page_for_seller_def wp_simps Let_def)
  next
    case False
    with ok show ?thesis by (auto simp: seller_create_def wp_simps)
  qed
  with ok show ?thesis
    by (auto simp: apply_view_def profile_of_def wp_simps Let_def split: option.split)
qed

lemma wizard_ok_page:
  assumes ok: "wizard_ok u s" and x: "find_by sel_user (Some (u_pk u)) (t_sellers s) = Some x" and "page_of x s = Some p"
    and f: "\<And>r. sp_pk (f r) = sp_pk r \<and> sp_slug (f r) = sp_slug r \<and> sp_seller (f r) = sp_seller r \<and> (sp_published r \<longrightarrow> sp_published (f r))"
  shows "wizard_ok u (s\<lparr>t_pages := upd_by sp_pk k f (t_pages s)\<rparr>)"
proof -
  let ?t = "s\<lparr>t_pages := upd_by sp_pk k f (t_pages s)\<rparr>"
  have "stores_ok ?t"
    using ok f stores_okD(5) by (intro stores_ok_page) (auto simp: wizard_ok_def)
  moreover have "page_of x ?t = map_option (\<lambda>r. if sp_pk r = k then f r else r) (page_of x s)"
    using f by (simp add: page_of_def find_by_upd_by_other)
  ultimately show ?thesis
    using ok x f assms(3) by (auto simp: wizard_ok_def wizard_phase_def hollow_offer_def)
qed

lemma offer_rows_ok:
  assumes ok: "wizard_ok u s" and x: "find_by sel_user (Some (u_pk u)) (t_sellers s) = Some x" "\<not> sel_onboarded x" "sel_step x = Onboarding_PRODUCT"
    and page: "page_of x s = Some page"
  shows "wp (onboarding_product E x page name price) (\<lambda>_. wizard_ok u) (\<lambda>_. wizard_ok u) s"
proof -
  have super: "\<not> superuser_of x s"
    using ok find_by_SomeD [OF x(1)] by (auto simp: superuser_of_def wizard_ok_def split: option.split dest: find_by_SomeD)
  have rows: "wizard_ok u (s\<lparr>t_products := Pr, t_plans := Pl, seq := n, t_blocks := B\<rparr>)" if "seq s \<le> n" for n Pr Pl B
    using ok x that by (auto simp: wizard_ok_def wizard_phase_def stores_ok_def intro: less_le_trans)
  let ?pr = "\<lparr>pr_pk = seq s, pr_seller = Some (sel_pk x), pr_name = name, pr_slug = slugify E name,
     pr_type = (if price = 0 then Product_FREE else Product_ONE_TIME), pr_visibility = Visibility_PUBLIC\<rparr>"
  let ?pl = "\<lparr>pl_pk = Suc (seq s), pl_product = seq s, pl_name = ''Standard'', pl_price = price, pl_interval = Interval_NONE,
            pl_seat_limit = 1, pl_active = True, pl_pwyw = False, pl_min_price = 0, pl_stock = None, pl_durations = [],
            pl_sort = 0, pl_direct_pay = True, pl_entitlements = []\<rparr>"
  let ?b = "\<lparr>bl_pk = Suc (Suc (seq s)), bl_page = sp_pk page, bl_position = int (length (filter (\<lambda>b. bl_page b = sp_pk page) (t_blocks s))) + 1,
     bl_product = Some (seq s), bl_visible = True\<rparr>"
  let ?t = "s\<lparr>t_products := t_products s @ [?pr], t_plans := t_plans s @ [?pl], seq := Suc (Suc (Suc (seq s))), t_blocks := t_blocks s @ [?b]\<rparr>"
  let ?f = "\<lambda>r. r\<lparr>sel_step := Onboarding_PUBLISH\<rparr>"
  have "\<forall>d \<in> set (t_deliverables s). d_plan d \<noteq> Suc (seq s)"
    using ok by (auto simp: wizard_ok_def)
  then have "wizard_phase (?f x) ?t"
    using x(2) page by (auto simp: wizard_phase_def hollow_offer_def page_of_def)
  then have "wp (seller_save x ?f) (\<lambda>_. wizard_ok u) (\<lambda>_. wizard_ok u) ?t"
    using x(1) by (intro seller_save_ok rows) auto
  moreover have "wizard_ok u s" by (rule ok)
  ultimately show ?thesis
    using super by (simp add: onboarding_product_def product_create_row_def plan_create_row_def next_position_def block_create_def wp_simps Let_def)
qed

lemma onboarding_ok: "wizard_ok u s \<Longrightarrow> wp (onboarding E (Some u) form) (\<lambda>_. wizard_ok u) (\<lambda>_. wizard_ok u) s"
proof (cases "find_by sel_user (Some (u_pk u)) (t_sellers s)")
  case None
  then show "wizard_ok u s \<Longrightarrow> ?thesis" by (simp add: onboarding_def profile_of_def wp_simps)
next
  case (Some x)
  assume ok: "wizard_ok u s"
  have stores: "stores_ok s" "x \<in> set (t_sellers s)" using ok find_by_SomeD [OF Some] by (auto simp: wizard_ok_def)
  show ?thesis
  proof (cases "sel_approved x \<and> \<not> sel_onboarded x")
    case True
    have "wp (case sel_step x of
                  Onboarding_IDENTITY \<Rightarrow>
                    (case form of
                       Some (Wizard_identity title) \<Rightarrow>
                         bnd (page_save (sp_pk page) (\<lambda>r. r\<lparr>sp_title := title\<rparr>)) (\<lambda>_.
                         bnd (seller_save x (\<lambda>r. r\<lparr>sel_step := Onboarding_PRODUCT\<rparr>)) (\<lambda>_.
                         ret (Redirect ''seller:onboarding'')))
                     | _ \<Rightarrow> wizard_page)
                | Onboarding_PRODUCT \<Rightarrow>
                    (case form of
                       Some (Wizard_product name price) \<Rightarrow>
                         if name \<noteq> [] \<and> 0 \<le> price then onboarding_product E x page name price else wizard_page
                     | _ \<Rightarrow> wizard_page)
                | Onboarding_PUBLISH \<Rightarrow>
                    (case form of
                       None \<Rightarrow> wizard_page
                     | Some _ \<Rightarrow>
                         bnd (page_save (sp_pk page) (\<lambda>r. r\<lparr>sp_published := True\<rparr>)) (\<lambda>_.
                         bnd (seller_save x (\<lambda>r. r\<lparr>sel_onboarded := True\<rparr>)) (\<lambda>_.
                         ret (Redirect ''seller:home''))))) (\<lambda>_. wizard_ok u) (\<lambda>_. wizard_ok u) t"
      if given: "page_given x s t" and page: "page_of x t = Some page" for page t
    proof -
      have t: "wizard_ok u t" "find_by sel_user (Some (u_pk u)) (t_sellers t) = Some x" "wizard_phase x t"
        using wizard_ok_given [OF ok Some given] page_given_tables(3) [OF given] Some by (auto simp: wizard_ok_def)
      have titled: "wizard_ok u (t\<lparr>t_pages := upd_by sp_pk k (\<lambda>r. r\<lparr>sp_title := title\<rparr>) (t_pages t)\<rparr>)" for k title
        using t page by (intro wizard_ok_page) auto
      let ?v = "t\<lparr>t_pages := upd_by sp_pk (sp_pk page) (\<lambda>r. r\<lparr>sp_published := True\<rparr>) (t_pages t)\<rparr>"
      have published: "wizard_ok u ?v" "page_of x ?v = Some (page\<lparr>sp_published := True\<rparr>)"
        using t page by (auto intro!: wizard_ok_page simp: page_of_def find_by_upd_by_other)
      show ?thesis
      proof (cases "sel_step x")
        case Onboarding_IDENTITY
        then show ?thesis
          using t titled True
          by (auto simp: wizard_page_def page_save_def wp_simps wizard_phase_def split: option.split wizard_form.split intro!: seller_save_ok)
      next
        case Onboarding_PRODUCT
        then show ?thesis
          using t offer_rows_ok [OF t(1,2) _ _ page] True
          by (auto simp: wizard_page_def wp_simps split: option.split wizard_form.split)
      next
        case Onboarding_PUBLISH
        then have "wizard_phase (x\<lparr>sel_onboarded := True\<rparr>) ?v"
          using published t(1,2) by (auto simp: wizard_ok_def wizard_phase_def hollow_offer_def page_of_def)
        with Onboarding_PUBLISH show ?thesis
          using t published(1)
          by (auto simp: wizard_page_def page_save_def wp_simps split: option.split intro!: seller_save_ok)
      qed
    qed
    with True Some show ?thesis
      by (auto simp: onboarding_def profile_of_def wp_bnd wp_gets intro!: wp_mono [OF get_or_create_store_page_wp [OF stores]])
  next
    case False
    with ok Some show ?thesis by (auto simp: onboarding_def profile_of_def wp_simps)
  qed
qed

lemma wizard_run_ok: "wizard_run E u s t \<Longrightarrow> wizard_ok u s \<Longrightarrow> wizard_ok u t"
proof (induction rule: wizard_run.induct)
  case (further t v)
  from further.hyps(2) further.IH [OF further.prems] show ?case
    using apply_view_ok onboarding_ok by (auto elim!: wizard_stepE simp: wp_inv)
qed

text \<open>
  A store opens with an offer, and the offer is hollow.  Whatever a user without a profile sends
  to the application and to the wizard, in any order, once they count as an onboarded seller their
  page is published and shows a public product of theirs with an active plan; but no deliverable
  belongs to that plan, so an order of it is provisioned with no grant at all.
\<close>

theorem store_opens_hollow:
  assumes "wizard_run E u s t" and "stores_ok s" and "find_by sel_user (Some (u_pk u)) (t_sellers s) = None"
    and "\<forall>d \<in> set (t_deliverables s). d_plan d < seq s" and "\<forall>r \<in> set (t_users s). u_pk r = u_pk u \<longrightarrow> \<not> u_superuser r"
    and "find_by sel_user (Some (u_pk u)) (t_sellers t) = Some x" and "sel_onboarded x"
  shows "\<exists>page pr pl b. page_of x t = Some page \<and> sp_published page \<and> b \<in> set (t_blocks t) \<and> bl_page b = sp_pk page \<and> bl_visible b
     \<and> bl_product b = Some (pr_pk pr) \<and> pr \<in> set (t_products t) \<and> pr_seller pr = Some (sel_pk x) \<and> pr_visibility pr = Visibility_PUBLIC
     \<and> pl \<in> set (t_plans t) \<and> pl_product pl = pr_pk pr \<and> pl_active pl
     \<and> (\<forall>ord sub. o_plan ord = pl_pk pl \<longrightarrow> provision_order E ord sub t = (Inr [], t))"
proof -
  have "wizard_ok u t"
    using wizard_run_ok [OF assms(1)] assms(2-5) by (simp add: wizard_ok_def)
  then have phase: "wizard_phase x t" using assms(6) by (simp add: wizard_ok_def)
  then obtain pr pl b page where "pr \<in> set (t_products t)" "pl \<in> set (t_plans t)" "b \<in> set (t_blocks t)" "page_of x t = Some page"
      "sp_published page" "pr_seller pr = Some (sel_pk x)" "pr_visibility pr = Visibility_PUBLIC" "pl_product pl = pr_pk pr" "pl_active pl"
      "bl_page b = sp_pk page" "bl_product b = Some (pr_pk pr)" "bl_visible b" "\<forall>d \<in> set (t_deliverables t). d_plan d \<noteq> pl_pk pl"
    using assms(7) by (auto simp: wizard_phase_def hollow_offer_def)
  then show ?thesis
    by (intro exI [of _ page] exI [of _ pr] exI [of _ pl] exI [of _ b])
      (auto simp: provision_order_def run_simps filter_empty_conv [THEN iffD2])
qed

text \<open>
  The wizard stops at a product name that is taken.  A seller at the product step whose product
  name yields the slug of a product of any other store gets \<open>IntegrityError\<close> and stays at that step.
\<close>

theorem taken_name_stops_wizard:
  assumes ok: "stores_ok s" and x: "find_by sel_user (Some (u_pk u)) (t_sellers s) = Some x"
    and step: "sel_approved x" "\<not> sel_onboarded x" "sel_step x = Onboarding_PRODUCT"
    and form: "name \<noteq> []" "0 \<le> price" and taken: "find_by pr_slug (slugify E name) (t_products s) = Some pr"
  shows "wp (onboarding E (Some u) (Some (Wizard_product name price)))
     (\<lambda>_ _. False)
     (\<lambda>e t. e = IntegrityError ''Product.slug'' \<and> t_products t = t_products s \<and> t_sellers t = t_sellers s) s"
proof -
  have "wp (onboarding_product E x page name price) (\<lambda>_ _. False)
     (\<lambda>e t. e = IntegrityError ''Product.slug'' \<and> t_products t = t_products s \<and> t_sellers t = t_sellers s) t"
    if "page_given x s t" for page t
    using page_given_tables [OF that] taken by (simp add: onboarding_product_def product_create_row_def wp_simps)
  moreover have "x \<in> set (t_sellers s)" using find_by_SomeD [OF x] by simp
  ultimately show ?thesis
    using x step form
    by (auto simp: onboarding_def profile_of_def wp_bnd wp_gets intro!: wp_mono [OF get_or_create_store_page_wp [OF ok]])
qed

section \<open>The superuser's store\<close>

lemma free_slug_free: "free_slug taken base n \<notin> set taken"
  by (induction taken base n rule: free_slug.induct) (subst free_slug.simps, simp)

lemma seller_create_wp:
  assumes ok: "stores_ok s" and none: "find_by sel_user (Some (u_pk u)) (t_sellers s) = None"
    and free: "find_by sel_slug slug (t_sellers s) = None"
  shows "wp (seller_create u name slug onboarded)
     (\<lambda>x t. sel_user x = Some (u_pk u) \<and> stores_ok t \<and> t_sellers t = t_sellers s @ [x]) (\<lambda>_ _. False) s"
proof -
  have "wp (get_or_create_store_page y) (\<lambda>_ t. stores_ok t \<and> t_sellers t = t_sellers s @ [y]) (\<lambda>_ _. False)
      (s\<lparr>seq := Suc (seq s), t_sellers := t_sellers s @ [y]\<rparr>)"
    if "sel_pk y = seq s" "sel_slug y = slug" for y
  proof -
    have "stores_ok (s\<lparr>seq := Suc (seq s), t_sellers := t_sellers s @ [y]\<rparr>)"
      using ok free that by (auto simp: stores_ok_def find_by_None_iff less_Suc_eq)
    then show ?thesis
      by (rule wp_mono [OF get_or_create_store_page_wp]) (auto dest: page_given_tables)
  qed
  then show ?thesis
    using none free
    by (auto simp: seller_create_def create_store_page_for_seller_def wp_simps Let_def intro!: wp_mono [of "get_or_create_store_page _"])
qed

text \<open>
  A superuser always has a store.  The search for a free slug ends, whatever slugs are taken,
  and \<open>superuser_seller\<close> returns, without an exception, a stored profile that belongs to the
  superuser; every store still has one page of its own.
\<close>

theorem superuser_gets_store:
  assumes ok: "stores_ok s"
  shows "wp (superuser_seller E u)
     (\<lambda>x t. x \<in> set (t_sellers t) \<and> sel_user x = Some (u_pk u) \<and> stores_ok t
        \<and> (\<forall>y \<in> set (t_sellers s). \<exists>z \<in> set (t_sellers t). sel_pk z = sel_pk y \<and> sel_slug z = sel_slug y))
     (\<lambda>_ _. False) s"
proof -
  have free: "find_by sel_slug (free_slug (map sel_slug (t_sellers s)) base 0) (t_sellers s) = None" for base
    using free_slug_free [of "map sel_slug (t_sellers s)" base 0] by (simp add: find_by_None_iff)
  show ?thesis
  proof (cases "find_by sel_user (Some (u_pk u)) (t_sellers s)")
    case (Some x)
    with ok show ?thesis by (auto simp: superuser_seller_def wp_simps dest!: find_by_SomeD)
  next
    case none: None
    show ?thesis
    proof (cases "find_by sel_user None (t_sellers s)")
      case (Some x)
      have x: "x \<in> set (t_sellers s)" using find_by_SomeD [OF Some] by simp
      have kept: "\<exists>z \<in> set (upd_by sel_pk (sel_pk x) (\<lambda>r. r\<lparr>sel_user := k\<rparr>) (t_sellers s)). sel_pk z = sel_pk y \<and> sel_slug z = sel_slug y"
        if "y \<in> set (t_sellers s)" for y k
        using that by (intro bexI [of _ "if sel_pk y = sel_pk x then y\<lparr>sel_user := k\<rparr>  else y"]) (auto simp: set_upd_by)
      have "x\<lparr>sel_user := Some (u_pk u)\<rparr> \<in> set (upd_by sel_pk (sel_pk x) (\<lambda>r. r\<lparr>sel_user := Some (u_pk u)\<rparr>) (t_sellers s))"
        using x by (auto simp: set_upd_by)
      with none Some kept show ?thesis
        by (auto simp: superuser_seller_def wp_simps dest: page_given_tables intro!: wp_mono [OF seller_save_wp [OF ok x]])
    next
      case None
      with none show ?thesis
        by (auto simp: superuser_seller_def auto_create_seller_def wp_bnd wp_gets Let_def intro!: wp_mono [OF seller_create_wp [OF ok none free]])
    qed
  qed
qed

section \<open>The order of the blocks\<close>

definition place :: "int \<Rightarrow> int list \<Rightarrow> int \<Rightarrow> int option" where
  "place n ids = map_of (zip ids (map (\<lambda>i. n + int i) [0..<length ids]))"

lemma place_Nil [simp]: "place n [] k = None"
  by (simp add: place_def)

lemma place_Cons [simp]: "place n (j # ids) k = (if k = j then Some n else place (n + 1) ids k)"
proof -
  have "map (\<lambda>i. n + int i) [0..<Suc m] = n # map (\<lambda>i. (n + 1) + int i) [0..<m]" for m
    by (simp add: upt_conv_Cons map_Suc_upt [symmetric] algebra_simps del: upt_Suc)
  then show ?thesis by (simp add: place_def)
qed

lemma place_None: "place n ids k = None \<longleftrightarrow> k \<notin> set ids"
  by (induction ids arbitrary: n) auto

definition placed :: "nat \<Rightarrow> int \<Rightarrow> int list \<Rightarrow> block \<Rightarrow> block" where
  "placed page n ids b =
     (if bl_page b = page then (case place n ids (int (bl_pk b)) of None \<Rightarrow> b | Some q \<Rightarrow> b\<lparr>bl_position := q\<rparr>) else b)"

lemma placed_fields [simp]: "bl_pk (placed page n ids b) = bl_pk b" "bl_page (placed page n ids b) = bl_page b"
  by (simp_all add: placed_def split: option.split)

lemma reorder_loop:
  "distinct ids \<Longrightarrow>
   for_each (block_set_position page) (enumerate_from n ids) s = (Inr (), s\<lparr>t_blocks := map (placed page n ids) (t_blocks s)\<rparr>)"
proof (induction ids arbitrary: n s)
  case Nil
  have "map (placed page n []) B = B" for B by (rule map_idI) (simp add: placed_def)
  then show ?case by (simp add: run_simps)
next
  case (Cons j ids)
  have "placed page (n + 1) ids (if int (bl_pk b) = j \<and> bl_page b = page then b\<lparr>bl_position := n\<rparr> else b) = placed page n (j # ids) b" for b
    using Cons.prems place_None [of "n + 1" ids j] by (auto simp: placed_def)
  with Cons show ?case
    by (simp add: run_simps block_set_position_def upd_where_def comp_def)
qed

lemma reorder_loop_wp:
  "distinct ids \<Longrightarrow> wp (for_each (block_set_position page) (enumerate_from n ids)) Q X s
     = Q () (s\<lparr>t_blocks := map (placed page n ids) (t_blocks s)\<rparr>)"
  by (simp add: wp_def reorder_loop)

lemma place_order: "distinct ids \<Longrightarrow> map (\<lambda>k. the (place n ids k)) ids = map (\<lambda>i. n + int i) [0..<length ids]"
proof (induction ids arbitrary: n)
  case (Cons j ids)
  have "map (\<lambda>k. the (place n (j # ids) k)) ids = map (\<lambda>k. the (place (n + 1) ids k)) ids"
    using Cons.prems by auto
  also have "\<dots> = map (\<lambda>i. n + int (Suc i)) [0..<length ids]"
    using Cons by (simp add: algebra_simps)
  finally show ?case by (simp add: upt_conv_Cons map_Suc_upt [symmetric] comp_def del: upt_Suc)
qed simp

lemma sorted_by_key_unique:
  fixes g :: "'a \<Rightarrow> int"
  assumes "inj_on g (set ys)" and "distinct ys" and "set xs = set ys" and "distinct xs" and "sorted (map g xs)" and "sorted (map g ys)"
  shows "xs = ys"
proof -
  have "map g xs = map g ys"
    using assms by (intro sorted_distinct_set_unique) (simp_all add: distinct_map)
  then show ?thesis
    using assms(1,3) by (auto intro: map_inj_on)
qed

lemma placed_sorted:
  assumes "distinct ids" and "set ids = set (map (\<lambda>b. int (bl_pk b)) B)" and "distinct (map bl_pk B)" and "\<forall>b \<in> set B. bl_page b = page"
  shows "map (\<lambda>b. int (bl_pk b)) (sort_key bl_position (map (placed page n ids) B)) = ids"
proof -
  define S where "S = sort_key bl_position (map (placed page n ids) B)"
  define g where "g = (\<lambda>k. the (place n ids k))"
  have S: "mset S = mset (map (placed page n ids) B)" "sorted (map bl_position S)"
    by (simp_all add: S_def)
  have keys: "mset (map (\<lambda>b. int (bl_pk b)) S) = mset (map (\<lambda>b. int (bl_pk b)) B)"
    by (simp add: S(1) image_mset.compositionality comp_def)
  have order: "map g ids = map (\<lambda>i. n + int i) [0..<length ids]"
    using place_order [OF assms(1)] by (simp add: g_def)
  then have "distinct (map g ids)" by (simp add: distinct_map inj_on_def)
  then have inj: "inj_on g (set ids)" by (simp add: distinct_map)
  have "bl_position b = g (int (bl_pk b))" if b: "b \<in> set S" for b
  proof -
    have "set S = placed page n ids ` set B" using mset_eq_setD [OF S(1)] by simp
    then obtain c where c: "c \<in> set B" "b = placed page n ids c" using b by auto
    then have "int (bl_pk c) \<in> set ids" using assms(2) by simp
    then obtain q where "place n ids (int (bl_pk c)) = Some q"
      using place_None [of n ids "int (bl_pk c)"] by auto
    with c assms(4) show ?thesis by (simp add: placed_def g_def)
  qed
  then have positions: "map g (map (\<lambda>b. int (bl_pk b)) S) = map bl_position S" by simp
  have "distinct (map (\<lambda>b. int (bl_pk b)) B)" using assms(3) by (simp add: distinct_map inj_on_def)
  then have "distinct (map (\<lambda>b. int (bl_pk b)) S)" using mset_eq_imp_distinct_iff [OF keys] by simp
  moreover have "set (map (\<lambda>b. int (bl_pk b)) S) = set ids" using mset_eq_setD [OF keys] assms(2) by simp
  moreover have "sorted (map g (map (\<lambda>b. int (bl_pk b)) S))" unfolding positions by (rule S(2))
  moreover have "sorted (map g ids)" unfolding order by (simp add: sorted_map sorted_wrt_iff_nth_less)
  ultimately have "map (\<lambda>b. int (bl_pk b)) S = ids"
    using sorted_by_key_unique [OF inj assms(1)] by simp
  then show ?thesis by (simp add: S_def)
qed

text \<open>The blocks of a page in the order the store shows them.\<close>

definition shown_blocks :: "nat \<Rightarrow> db \<Rightarrow> block list" where
  "shown_blocks page s = sort_key bl_position (filter (\<lambda>b. bl_page b = page) (t_blocks s))"

lemma seller_required_wp:
  assumes "find_by sel_user (Some (u_pk u)) (t_sellers s) = Some x" and "sel_approved x" and "sel_onboarded x" and "\<not> u_superuser u"
  shows "wp (seller_required E (Some u) view) Q X s = wp (view x) Q X s"
  using assms by (simp add: seller_required_def wp_simps)

text \<open>
  The order a seller drags the blocks into is the order the store shows.  A request that lists
  every block of the seller's page once stores positions under which the page shows exactly the
  listed order, and moves no block of another page; a request that names a foreign block or leaves
  one out is answered with 400 and moves nothing.
\<close>

theorem block_order_saved:
  assumes ok: "stores_ok s" and x: "find_by sel_user (Some (u_pk u)) (t_sellers s) = Some x" "sel_approved x" "sel_onboarded x" "\<not> u_superuser u"
    and page: "page_of x s = Some p" and keys: "distinct (map bl_pk (t_blocks s))"
    and ids: "parse_ids (post_get f ''order'' []) = Some ids" "distinct ids"
  shows "wp (block_reorder E (Some u) f)
     (\<lambda>r t. if set ids = owned_blocks (sp_pk p) s
        then r = Redirect ''seller:store'' \<and> map (\<lambda>b. int (bl_pk b)) (shown_blocks (sp_pk p) t) = ids
          \<and> filter (\<lambda>b. bl_page b \<noteq> sp_pk p) (t_blocks t) = filter (\<lambda>b. bl_page b \<noteq> sp_pk p) (t_blocks s)
        else r = Http_status 400 \<and> t_blocks t = t_blocks s)
     (\<lambda>_ _. False) s"
proof -
  let ?B = "filter (\<lambda>b. bl_page b = sp_pk p) (t_blocks s)"
  have mine: "filter (\<lambda>b. bl_page b = sp_pk p) (map (placed (sp_pk p) 1 ids) (t_blocks s)) = map (placed (sp_pk p) 1 ids) ?B"
    by (simp add: filter_map comp_def)
  have others: "filter (\<lambda>b. bl_page b \<noteq> sp_pk p) (map (placed (sp_pk p) 1 ids) (t_blocks s)) = filter (\<lambda>b. bl_page b \<noteq> sp_pk p) (t_blocks s)"
    unfolding filter_map comp_def placed_fields by (rule map_idI) (simp add: placed_def)
  have "distinct (map bl_pk ?B)" using keys by (rule distinct_map_filter)
  then have order: "map (\<lambda>b. int (bl_pk b)) (sort_key bl_position (map (placed (sp_pk p) 1 ids) ?B)) = ids"
    if "set ids = owned_blocks (sp_pk p) s"
    using that ids(2) by (intro placed_sorted) (auto simp: owned_blocks_def)
  have body: "wp (bnd (gets (owned_blocks (sp_pk q))) (\<lambda>owned. if set ids \<noteq> owned then ret (Http_status 400)
       else bnd (for_each (block_set_position (sp_pk q)) (enumerate_from 1 ids)) (\<lambda>_. ret (Redirect ''seller:store''))))
     (\<lambda>r t. if set ids = owned_blocks (sp_pk p) s
        then r = Redirect ''seller:store'' \<and> map (\<lambda>b. int (bl_pk b)) (shown_blocks (sp_pk p) t) = ids
          \<and> filter (\<lambda>b. bl_page b \<noteq> sp_pk p) (t_blocks t) = filter (\<lambda>b. bl_page b \<noteq> sp_pk p) (t_blocks s)
        else r = Http_status 400 \<and> t_blocks t = t_blocks s) (\<lambda>_ _. False) t"
    if "page_given x s t" "page_of x t = Some q" for q t
  proof -
    have t: "t_blocks t = t_blocks s" "sp_pk q = sp_pk p" using that page by (auto simp: page_given_def)
    then have "owned_blocks (sp_pk q) t = owned_blocks (sp_pk p) s" by (simp add: owned_blocks_def)
    then show ?thesis
      using order mine others by (simp add: t wp_bnd wp_ret wp_gets reorder_loop_wp [OF ids(2)] shown_blocks_def)
  qed
  have "x \<in> set (t_sellers s)" using find_by_SomeD [OF x(1)] by simp
  then show ?thesis
    unfolding block_reorder_def seller_required_wp [OF x] wp_bnd [of "get_or_create_store_page x"]
    using body by (intro wp_mono [OF get_or_create_store_page_wp [OF ok]]) (simp_all add: ids(1))
qed

section \<open>A store, step by step\<close>

definition example_seller_user :: user where
  "example_seller_user = \<lparr>u_pk = 3, u_email = ''s@b.c'', u_superuser = False, u_operator = False, u_verified = True\<rparr>"

definition example_seller :: seller where
  "example_seller = \<lparr>sel_pk = 1, sel_user = Some 3, sel_name = ''Toko'', sel_slug = ''toko'', sel_active = True, sel_approved = True, sel_onboarded = False,
     sel_step = Onboarding_IDENTITY, sel_commission_rate = 0, sel_bank_name = [], sel_account_number = [],
     sel_account_name = [], sel_qris_enabled = False, sel_qris_image = None\<rparr>"

definition example_page :: store_page where
  "example_page = \<lparr>sp_pk = 2, sp_slug = ''toko'', sp_title = ''Toko'', sp_published = False, sp_seller = Some 1\<rparr>"

definition wizard_db :: "nat \<Rightarrow> db" where
  "wizard_db n =
     (let applied = empty_db\<lparr>seq := 3, t_sellers := [example_seller], t_pages := [example_page]\<rparr>;
          offered = applied\<lparr>seq := 6,
            t_products := [\<lparr>pr_pk = 3, pr_seller = Some 1, pr_name = ''Buku'', pr_slug = ''buku'', pr_type = Product_ONE_TIME,
              pr_visibility = Visibility_PUBLIC\<rparr>],
            t_plans := [\<lparr>pl_pk = 4, pl_product = 3, pl_name = ''Standard'', pl_price = 50000, pl_interval = Interval_NONE,
              pl_seat_limit = 1, pl_active = True, pl_pwyw = False, pl_min_price = 0, pl_stock = None, pl_durations = [],
              pl_sort = 0, pl_direct_pay = True, pl_entitlements = []\<rparr>],
            t_blocks := [\<lparr>bl_pk = 5, bl_page = 2, bl_position = 1, bl_product = Some 3, bl_visible = True\<rparr>]\<rparr>
      in if n = 0 then empty_db
         else if n = 1 then applied
         else if n = 2 then applied\<lparr>t_sellers := [example_seller\<lparr>sel_step := Onboarding_PRODUCT\<rparr>]\<rparr>
         else if n = 3 then offered\<lparr>t_sellers := [example_seller\<lparr>sel_step := Onboarding_PUBLISH\<rparr>]\<rparr>
         else offered\<lparr>t_sellers := [example_seller\<lparr>sel_step := Onboarding_PUBLISH, sel_onboarded := True\<rparr>],
                       t_pages := [example_page\<lparr>sp_published := True\<rparr>]\<rparr>)"

lemmas example_store_simps = wizard_db_def example_seller_user_def example_seller_def example_page_def empty_db_def Let_def
lemmas store_run_simps = run_simps profile_of_def get_or_create_store_page_def page_save_def page_create_def seller_save_def
  create_store_page_for_seller_def seller_create_def Let_def

lemma example_slugs: "slugify demo_env ''Toko'' = ''toko''" "slugify demo_env ''Buku'' = ''buku''"
  by (simp_all add: demo_env_def) (simp_all add: lower_char_def char_of_def bit_0)

lemma wizard_db_apply:
  "snd (apply_view demo_env (Some example_seller_user) (Some [(''store_name'', ''Toko'')]) (wizard_db 0)) = wizard_db 1"
  by (simp add: apply_view_def store_run_simps example_store_simps post_get_def strip_def is_space_def example_slugs)

lemma wizard_db_identity:
  "snd (onboarding demo_env (Some example_seller_user) (Some (Wizard_identity ''Toko'')) (wizard_db 1)) = wizard_db 2"
  by (simp add: onboarding_def store_run_simps example_store_simps)

lemma wizard_db_product:
  "snd (onboarding demo_env (Some example_seller_user) (Some (Wizard_product ''Buku'' 50000)) (wizard_db 2)) = wizard_db 3"
  by (simp add: onboarding_def onboarding_product_def product_create_row_def plan_create_row_def next_position_def block_create_def
      superuser_of_def store_run_simps example_store_simps example_slugs)

lemma wizard_db_publish:
  "snd (onboarding demo_env (Some example_seller_user) (Some Wizard_publish) (wizard_db 3)) = wizard_db 4"
  by (simp add: onboarding_def store_run_simps example_store_simps)

lemma example_wizard_run: "wizard_run demo_env example_seller_user (wizard_db 0) (wizard_db 4)"
proof -
  note step = wizard_step.posted [of demo_env example_seller_user]
  have "wizard_run demo_env example_seller_user (wizard_db 0) (wizard_db 1)"
    using wizard_run.further [OF wizard_run.here wizard_step.applied] wizard_db_apply by metis
  from wizard_run.further [OF this step] wizard_db_identity
  have "wizard_run demo_env example_seller_user (wizard_db 0) (wizard_db 2)" by metis
  from wizard_run.further [OF this step] wizard_db_product
  have "wizard_run demo_env example_seller_user (wizard_db 0) (wizard_db 3)" by metis
  from wizard_run.further [OF this step] wizard_db_publish show ?thesis by metis
qed

lemma example_stores: "stores_ok (wizard_db n)"
  by (simp add: stores_ok_def example_store_simps)

lemma example_profile: "find_by sel_user (Some (u_pk example_seller_user)) (t_sellers (wizard_db 4))
   = Some (example_seller\<lparr>sel_step := Onboarding_PUBLISH, sel_onboarded := True\<rparr>)"
  by (simp add: example_store_simps)

theorem store_opens_hollow_witness:
  "\<exists>pr \<in> set (t_products (wizard_db 4)). pr_visibility pr = Visibility_PUBLIC
     \<and> (\<exists>pl \<in> set (t_plans (wizard_db 4)). pl_product pl = pr_pk pr \<and> (\<forall>ord sub. o_plan ord = pl_pk pl \<longrightarrow> provision_order demo_env ord sub (wizard_db 4) = (Inr [], wizard_db 4)))"
proof -
  have none: "find_by sel_user (Some (u_pk example_seller_user)) (t_sellers (wizard_db 0)) = None" by (simp add: example_store_simps)
  have fresh: "\<forall>d \<in> set (t_deliverables (wizard_db 0)). d_plan d < seq (wizard_db 0)" by (simp add: example_store_simps)
  have plain: "\<forall>r \<in> set (t_users (wizard_db 0)). u_pk r = u_pk example_seller_user \<longrightarrow> \<not> u_superuser r" by (simp add: example_store_simps)
  have finished: "sel_onboarded (example_seller\<lparr>sel_step := Onboarding_PUBLISH, sel_onboarded := True\<rparr>)" by simp
  show ?thesis
    using store_opens_hollow [OF example_wizard_run example_stores none fresh plain example_profile finished] by blast
qed

theorem taken_name_stops_wizard_witness:
  "wp (onboarding demo_env (Some example_seller_user) (Some (Wizard_product ''Buku'' 1)))
     (\<lambda>_ _. False) (\<lambda>e t. e = IntegrityError ''Product.slug'' \<and> t_sellers t = t_sellers (wizard_db 2))
     ((wizard_db 2)\<lparr>t_products := t_products (wizard_db 3)\<rparr>)"
proof -
  have "stores_ok ((wizard_db 2)\<lparr>t_products := t_products (wizard_db 3)\<rparr>)"
    by (rule stores_ok_frame [OF example_stores [of 2]]) simp_all
  then show ?thesis
    by (rule wp_mono [OF taken_name_stops_wizard [where x = "example_seller\<lparr>sel_step := Onboarding_PRODUCT\<rparr>"]]) (simp_all add: example_store_simps example_slugs)
qed

theorem superuser_gets_store_witness:
  "wp (superuser_seller demo_env (example_seller_user\<lparr>u_pk := 8, u_email := ''toko@b.c''\<rparr>))
     (\<lambda>x t. x \<in> set (t_sellers t) \<and> sel_user x = Some 8) (\<lambda>_ _. False) (wizard_db 4)"
  by (rule wp_mono [OF superuser_gets_store [OF example_stores]]) simp_all

theorem block_order_saved_witness:
  "wp (block_reorder demo_env (Some example_seller_user) [(''order'', ''7,5'')])
     (\<lambda>r t. map bl_pk (shown_blocks 2 t) = [7, 5]) (\<lambda>_ _. False)
     ((wizard_db 4)\<lparr>t_blocks := [\<lparr>bl_pk = 5, bl_page = 2, bl_position = 1, bl_product = Some 3, bl_visible = True\<rparr>,
        \<lparr>bl_pk = 7, bl_page = 2, bl_position = 2, bl_product = None, bl_visible = True\<rparr>]\<rparr>)"
  (is "wp _ _ _ ?s")
proof -
  have ok: "stores_ok ?s" by (rule stores_ok_frame [OF example_stores [of 4]]) simp_all
  have ids: "parse_ids (post_get [(''order'', ''7,5'')] ''order'' []) = Some [7, 5]"
    by (simp add: parse_ids_def post_get_def strip_def is_space_def py_int_def is_digit_def parse_nat_def digit_val_def Let_def)
  have owned: "set [7, 5] = owned_blocks (sp_pk (example_page\<lparr>sp_published := True\<rparr>)) ?s"
    by (auto simp: owned_blocks_def example_store_simps)
  show ?thesis
    using owned
    by (intro wp_mono [OF block_order_saved [OF ok _ _ _ _ _ _ ids,
          of example_seller_user "example_seller\<lparr>sel_step := Onboarding_PUBLISH, sel_onboarded := True\<rparr>" "example_page\<lparr>sp_published := True\<rparr>"]])
      (auto simp: page_of_def example_store_simps map_eq_Cons_conv)
qed

end
