(* ===== verification/Licensing.thy ===== *)
theory Licensing
  imports Payments Cache
begin

text \<open>
  \<open>licensing/services.py\<close>, the activation service (activate, validate, deactivate, authorise an
  operation), with the rate limiter, the activation tokens and the signed entitlements
  (\<open>licensing/entitlement_signing.py\<close>), and the HTTP layer of \<open>licensing/api.py\<close>.
  \<open>TimestampSigner\<close> and the Ed25519 key are parameters (\<open>ts_sign\<close>, \<open>ts_unsign\<close>, \<open>ed25519_sign\<close>);
  dates stay within the range of \<open>datetime\<close>.
\<close>

section \<open>The rate limiter\<close>

definition rate_window :: int where "rate_window = 60"
definition rate_limit_activate :: int where "rate_limit_activate = 10"
definition rate_limit_validate :: int where "rate_limit_validate = 60"
definition rate_limit_ip :: int where "rate_limit_ip = 120"
definition rate_limit_operation :: int where "rate_limit_operation = 30"

text \<open>\<open>True\<close> when the caller has exceeded the limit.\<close>

definition check_rate_limit :: "string \<Rightarrow> int \<Rightarrow> bool prog" where
  "check_rate_limit identifier limit =
     (let key = ''rate:activation:'' @ identifier
      in bnd (cache_add key 0 rate_window) (\<lambda>_.
         bnd (try_except (cache_incr key) is_value_error
                (\<lambda>_. bnd (cache_set key 1 rate_window) (\<lambda>_. ret 1)) ret) (\<lambda>count.
         ret (limit < count))))"

section \<open>Activation tokens\<close>

definition ttl_seconds :: "int prog" where
  "ttl_seconds = bnd (int_setting ''ACTIVATION_TOKEN_TTL_DAYS'' ''1'') (\<lambda>days. ret (days * 86400))"

definition grace_seconds :: "int prog" where
  "grace_seconds =
     bnd (int_setting ''ACTIVATION_GRACE_DAYS'' ''3'') (\<lambda>days.
     bnd (int_setting ''GLOBAL_GRACE_EXTENSION_DAYS'' ''0'') (\<lambda>extension.
     ret ((days + extension) * 86400)))"

definition token_value :: "string \<Rightarrow> string \<Rightarrow> string" where
  "token_value license_key fingerprint = license_key @ '':'' @ fingerprint"

definition issue_token :: "env \<Rightarrow> string \<Rightarrow> string \<Rightarrow> (string \<times> string) prog" where
  "issue_token E license_key fingerprint =
     bnd ttl_seconds (\<lambda>ttl.
     bnd now (\<lambda>t.
     ret (ts_sign E (token_value license_key fingerprint) (t div us_second), isoformat (t + ttl * us_second))))"

text \<open>\<open>unsign(token, max_age=...)\<close> raises \<open>SignatureExpired\<close> when the age exceeds \<open>max_age\<close> seconds.\<close>

definition verify_token :: "env \<Rightarrow> string \<Rightarrow> string \<Rightarrow> string \<Rightarrow> string prog" where
  "verify_token E token license_key fingerprint =
     (case ts_unsign E token of
        None \<Rightarrow> ret ''invalid''
      | Some (v, signed_at) \<Rightarrow>
          if v \<noteq> token_value license_key fingerprint then ret ''invalid''
          else
            bnd ttl_seconds (\<lambda>ttl.
            bnd grace_seconds (\<lambda>grace.
            bnd now (\<lambda>t.
            let age = t - signed_at * us_second
            in ret (if age \<le> ttl * us_second then ''active''
                    else if age \<le> (ttl + grace) * us_second then ''grace''
                    else ''expired'')))))"

section \<open>What a license gives\<close>

text \<open>\<open>dict(deliverable.plan.entitlements.values_list("key", "value"))\<close>, ordered by key.\<close>

definition entitlements_of_plan :: "nat \<Rightarrow> (string \<times> json) list prog" where
  "entitlements_of_plan p =
     bnd (plan_get p) (\<lambda>pl.
     gets (\<lambda>s. fold (\<lambda>(k, v). AList.update k v)
       (map (\<lambda>e. (en_key e, JStr (en_value e)))
          (sort_key en_key (filter (\<lambda>e. en_pk e \<in> set (pl_entitlements pl)) (t_entitlements s)))) []))"

text \<open>Every exception is swallowed: a license without a grant has no entitlements.\<close>

definition get_entitlements :: "license \<Rightarrow> (string \<times> json) list prog" where
  "get_entitlements l =
     try_except
       (bnd (or_raise (li_grant l) (AttributeError ''get_entitlements'')) (\<lambda>g.
        bnd (gets (\<lambda>s. find_by g_pk g (t_grants s))) (\<lambda>v.
        bnd (or_raise v (DoesNotExist ''Grant'')) (\<lambda>gr.
        bnd (gets (\<lambda>s. find_by d_pk (g_deliverable gr) (t_deliverables s))) (\<lambda>v.
        bnd (or_raise v (DoesNotExist ''Deliverable'')) (\<lambda>d.
        entitlements_of_plan (d_plan d)))))))
       (\<lambda>_. True) (\<lambda>_. ret []) ret"

definition license_grant :: "license \<Rightarrow> grant option prog" where
  "license_grant l =
     (case li_grant l of
        None \<Rightarrow> ret None
      | Some g \<Rightarrow> bnd (gets (\<lambda>s. find_by g_pk g (t_grants s))) (\<lambda>v. bnd (or_raise v (DoesNotExist ''Grant'')) (\<lambda>gr. ret (Some gr))))"

definition license_subscription :: "license \<Rightarrow> subscription option prog" where
  "license_subscription l =
     (case li_sub l of None \<Rightarrow> ret None | Some k \<Rightarrow> bnd (sub_get k) (\<lambda>sub. ret (Some sub)))"

definition license_expires_at :: "license \<Rightarrow> string option prog" where
  "license_expires_at l =
     bnd (license_subscription l) (\<lambda>sub.
     case sub of
       Some r \<Rightarrow> ret (Some (isoformat (sub_period_end r)))
     | None \<Rightarrow> bnd (license_grant l) (\<lambda>gr.
         ret (case gr of None \<Rightarrow> None | Some g \<Rightarrow> map_option isoformat (g_valid_until g))))"

text \<open>The status the API reports, from the rows the license points to.\<close>

definition access_status :: "license_status \<Rightarrow> grant_status option \<Rightarrow> sub_status option \<Rightarrow> string" where
  "access_status ls gs ss =
     (if ls = License_REVOKED then ''revoked''
      else if ls = License_EXPIRED then ''expired''
      else if ls = License_SUSPENDED then ''suspended''
      else if gs = Some Grant_REVOKED then ''revoked''
      else if gs = Some Grant_EXPIRED then ''expired''
      else if gs = Some Grant_SUSPENDED then ''suspended''
      else if ss = Some Sub_GRACE then ''grace''
      else if ss = Some Sub_SUSPENDED \<or> ss = Some Sub_CANCELLED then ''suspended''
      else ''active'')"

definition effective_access_status :: "license \<Rightarrow> string prog" where
  "effective_access_status l =
     bnd (license_grant l) (\<lambda>gr.
     bnd (license_subscription l) (\<lambda>sub.
     ret (access_status (li_status l) (map_option g_status gr) (map_option sub_status sub))))"

section \<open>Signed entitlements\<close>

definition sign_entitlement :: "env \<Rightarrow> (string \<times> json) list \<Rightarrow> string prog" where
  "sign_entitlement E entitlement = or_raise (ed25519_sign E (canonical_json entitlement)) EntitlementSigningError"

definition json_optional :: "string option \<Rightarrow> json" where
  "json_optional v = (case v of None \<Rightarrow> JNull | Some t \<Rightarrow> JStr t)"

fun is_signing_error :: "exn \<Rightarrow> bool" where
  "is_signing_error EntitlementSigningError = True"
| "is_signing_error _ = False"

definition product_slug_of_plan :: "nat \<Rightarrow> string prog" where
  "product_slug_of_plan p = bnd (plan_get p) (\<lambda>pl. bnd (product_get (pl_product pl)) (\<lambda>pr. ret (pr_slug pr)))"

definition build_signed_entitlement ::
  "env \<Rightarrow> license \<Rightarrow> string \<Rightarrow> string \<Rightarrow> string \<Rightarrow> string option \<Rightarrow> (string \<times> json) list
     \<Rightarrow> ((string \<times> json) list \<times> string) prog" where
  "build_signed_entitlement E l fingerprint status token_expires_at license_expires entitlements =
     bnd (product_slug_of_plan (li_plan l)) (\<lambda>slug.
     bnd now (\<lambda>t.
     let entitlement =
       [(''license_id'', JStr (li_key l)), (''fingerprint'', JStr fingerprint), (''product_id'', JStr slug),
        (''status'', JStr status), (''issued_at'', JStr (isoformat t)),
        (''expires_at'', json_optional license_expires), (''license_expires_at'', json_optional license_expires),
        (''token_expires_at'', JStr token_expires_at), (''entitlements'', JObj entitlements)]
     in try_except (sign_entitlement E entitlement) is_signing_error
          (\<lambda>e. if debug_mode E then ret (entitlement, []) else raise e)
          (\<lambda>signature. ret (entitlement, signature))))"

section \<open>Installations\<close>

definition active_installation :: "nat \<Rightarrow> string \<Rightarrow> installation \<Rightarrow> bool" where
  "active_installation l fp r = (in_license r = l \<and> in_fingerprint r = fp \<and> in_status r = Installation_ACTIVE)"

definition active_seat_count :: "nat \<Rightarrow> db \<Rightarrow> nat" where
  "active_seat_count l s =
     length (filter (\<lambda>r. in_license r = l \<and> in_status r = Installation_ACTIVE) (t_installations s))"

definition seats_available :: "license \<Rightarrow> db \<Rightarrow> bool" where
  "seats_available l s = (int (active_seat_count (li_pk l) s) < li_seat_limit l)"

text \<open>\<open>.first()\<close> of the newest-first ordering.\<close>

definition find_active :: "nat \<Rightarrow> string \<Rightarrow> installation option prog" where
  "find_active l fp = gets (\<lambda>s. find (active_installation l fp) (rev (t_installations s)))"

definition installation_seen :: "nat \<Rightarrow> unit prog" where
  "installation_seen k =
     bnd now (\<lambda>t.
     modify (\<lambda>s. s\<lparr>t_installations := upd_by in_pk k (\<lambda>r. r\<lparr>in_last_seen := Some t\<rparr>) (t_installations s)\<rparr>))"

definition installation_create :: "nat \<Rightarrow> string \<Rightarrow> string \<Rightarrow> unit prog" where
  "installation_create l fp name =
     bnd (check (length fp \<le> 200 \<and> length name \<le> 200) (DataError ''installation'')) (\<lambda>_.
     bnd (gets (\<lambda>s. \<exists>r \<in> set (t_installations s). active_installation l fp r)) (\<lambda>clash.
     bnd (check (\<not> clash) (IntegrityError ''unique_active_fingerprint_per_license'')) (\<lambda>_.
     bnd new_pk (\<lambda>pk.
     bnd now (\<lambda>t.
     modify (\<lambda>s. s\<lparr>t_installations := t_installations s @
       [\<lparr>in_pk = pk, in_license = l, in_fingerprint = fp, in_name = name,
         in_status = Installation_ACTIVE, in_last_seen = Some t\<rparr>]\<rparr>))))))"

definition installations_deactivate :: "nat \<Rightarrow> string \<Rightarrow> unit prog" where
  "installations_deactivate l fp =
     modify (\<lambda>s. s\<lparr>t_installations := upd_where (active_installation l fp)
       (\<lambda>r. r\<lparr>in_status := Installation_DEACTIVATED\<rparr>) (t_installations s)\<rparr>)"

section \<open>The activation service\<close>

text \<open>A response; the keys a branch leaves out have the defaults of \<open>ActivationResponse\<close>.\<close>

record activation_response =
  ar_status :: string
  ar_token :: string
  ar_token_expires_at :: string
  ar_license_expires_at :: "string option"
  ar_grace_days :: int
  ar_entitlements :: "(string \<times> json) list"
  ar_entitlement :: "(string \<times> json) list"
  ar_signature :: string

definition refused :: "string \<Rightarrow> activation_response" where
  "refused status =
     \<lparr>ar_status = status, ar_token = [], ar_token_expires_at = [], ar_license_expires_at = None, ar_grace_days = 0,
      ar_entitlements = [], ar_entitlement = [], ar_signature = []\<rparr>"

definition license_by_key :: "string \<Rightarrow> license option prog" where
  "license_by_key key = gets (\<lambda>s. find_by li_key key (t_licenses s))"

definition license_get :: "nat \<Rightarrow> license prog" where
  "license_get k = bnd (gets (\<lambda>s. find_by li_pk k (t_licenses s))) (\<lambda>v. or_raise v (DoesNotExist ''License''))"

text \<open>The two rate limits of a request: \<open>True\<close> when one is exceeded.  An empty address is not limited.\<close>

definition rate_limited :: "string \<Rightarrow> int \<Rightarrow> string \<Rightarrow> string \<Rightarrow> bool prog" where
  "rate_limited identifier limit ip_prefix ip =
     bnd (check_rate_limit identifier limit) (\<lambda>limited.
     if limited then ret True
     else if ip = [] then ret False
     else check_rate_limit (ip_prefix @ ip) rate_limit_ip)"

text \<open>The signed answer with a fresh token that \<open>activate\<close> and \<open>validate\<close> end with.\<close>

definition access_granted ::
  "env \<Rightarrow> license \<Rightarrow> string \<Rightarrow> string \<Rightarrow> string \<Rightarrow> int prog \<Rightarrow> activation_response prog" where
  "access_granted E l key fingerprint status grace_days =
     bnd (issue_token E key fingerprint) (\<lambda>(token, token_expires_at).
     bnd (license_expires_at l) (\<lambda>license_expires.
     bnd grace_days (\<lambda>grace.
     bnd (get_entitlements l) (\<lambda>entitlements.
     bnd (build_signed_entitlement E l fingerprint status token_expires_at license_expires entitlements)
       (\<lambda>(entitlement, signature).
     ret \<lparr>ar_status = status, ar_token = token, ar_token_expires_at = token_expires_at,
          ar_license_expires_at = license_expires, ar_grace_days = grace, ar_entitlements = entitlements,
          ar_entitlement = entitlement, ar_signature = signature\<rparr>)))))"

text \<open>The seat of a device, under the lock on its license: \<open>False\<close> when none is free.\<close>

definition claim_seat :: "license \<Rightarrow> string \<Rightarrow> string \<Rightarrow> bool prog" where
  "claim_seat l fingerprint machine_name =
     atomic (
       bnd (license_get (li_pk l)) (\<lambda>locked.
       bnd (find_active (li_pk locked) fingerprint) (\<lambda>existing.
       case existing of
         Some r \<Rightarrow> bnd (installation_seen (in_pk r)) (\<lambda>_. ret True)
       | None \<Rightarrow>
           bnd (gets (seats_available locked)) (\<lambda>available.
           if \<not> available then ret False
           else bnd (installation_create (li_pk locked) fingerprint machine_name) (\<lambda>_. ret True)))))"

definition activate :: "env \<Rightarrow> string \<Rightarrow> string \<Rightarrow> string \<Rightarrow> string \<Rightarrow> activation_response prog" where
  "activate E key fingerprint machine_name ip =
     bnd (rate_limited (''key:'' @ key) rate_limit_activate ''ip:'' ip) (\<lambda>limited.
     if limited then ret (refused ''rate_limited'')
     else
       bnd (license_by_key key) (\<lambda>v.
       case v of
         None \<Rightarrow> ret (refused ''invalid'')
       | Some l \<Rightarrow>
           bnd (effective_access_status l) (\<lambda>status.
           if status \<notin> {''active'', ''grace''} then ret (refused status)
           else
             bnd (claim_seat l fingerprint machine_name) (\<lambda>seated.
             if \<not> seated then ret (refused ''seat_full'')
             else access_granted E l key fingerprint status (int_setting ''ACTIVATION_GRACE_DAYS'' ''3'')))))"

text \<open>\<open>validate\<close> under \<open>MAINTENANCE_MODE\<close>: a token for any key, signed if the license exists.\<close>

definition validate_in_maintenance :: "env \<Rightarrow> string \<Rightarrow> string \<Rightarrow> activation_response prog" where
  "validate_in_maintenance E key fingerprint =
     bnd (issue_token E key fingerprint) (\<lambda>(token, token_expires_at).
     bnd (license_by_key key) (\<lambda>v.
     case v of
       None \<Rightarrow> ret ((refused ''active'')\<lparr>ar_token := token, ar_token_expires_at := token_expires_at\<rparr>)
     | Some l \<Rightarrow>
         bnd (get_entitlements l) (\<lambda>entitlements.
         bnd (license_expires_at l) (\<lambda>license_expires.
         bnd (build_signed_entitlement E l fingerprint ''active'' token_expires_at license_expires entitlements)
           (\<lambda>(entitlement, signature).
         ret \<lparr>ar_status = ''active'', ar_token = token, ar_token_expires_at = token_expires_at,
              ar_license_expires_at = license_expires, ar_grace_days = 0, ar_entitlements = entitlements,
              ar_entitlement = entitlement, ar_signature = signature\<rparr>)))))"

definition validate :: "env \<Rightarrow> string \<Rightarrow> string \<Rightarrow> string \<Rightarrow> string \<Rightarrow> activation_response prog" where
  "validate E key fingerprint token ip =
     bnd (bool_setting ''MAINTENANCE_MODE'') (\<lambda>maintenance.
     if maintenance then validate_in_maintenance E key fingerprint
     else
       bnd (rate_limited (''key:'' @ key) rate_limit_validate ''ip:'' ip) (\<lambda>limited.
       if limited then ret (refused ''rate_limited'')
       else
         bnd (verify_token E token key fingerprint) (\<lambda>token_status.
         if token_status = ''invalid'' then ret (refused ''invalid'')
         else
           bnd (license_by_key key) (\<lambda>v.
           case v of
             None \<Rightarrow> ret (refused ''invalid'')
           | Some l \<Rightarrow>
               bnd (effective_access_status l) (\<lambda>status.
               if status \<notin> {''active'', ''grace''} then ret (refused status)
               else if token_status \<in> {''active'', ''grace''} then
                 bnd (find_active (li_pk l) fingerprint) (\<lambda>installation.
                 case installation of
                   None \<Rightarrow> ret (refused ''deactivated'')
                 | Some r \<Rightarrow>
                     bnd (installation_seen (in_pk r)) (\<lambda>_.
                     access_granted E l key fingerprint status (ret 0)))
               else ret (refused ''expired''))))))"

definition deactivate :: "string \<Rightarrow> string \<Rightarrow> activation_response prog" where
  "deactivate key fingerprint =
     bnd (check_rate_limit (''key:'' @ key) rate_limit_activate) (\<lambda>limited.
     if limited then ret (refused ''rate_limited'')
     else
       bnd (license_by_key key) (\<lambda>v.
       case v of
         None \<Rightarrow> ret (refused ''invalid'')
       | Some l \<Rightarrow> bnd (installations_deactivate (li_pk l) fingerprint) (\<lambda>_. ret (refused ''deactivated''))))"

section \<open>Authorising an operation\<close>

text \<open>A status with the authorization and its signature (empty in every refusal).\<close>

type_synonym authorization_response = "string \<times> (string \<times> json) list \<times> string"

definition find_policy :: "nat \<Rightarrow> string \<Rightarrow> operation_policy option prog" where
  "find_policy product operation =
     gets (\<lambda>s. find (\<lambda>p. op_product p = product \<and> op_operation p = operation \<and> op_active p) (t_policies s))"

text \<open>\<open>str(entitlements.get(key, ""))\<close>; the values are strings.\<close>

definition entitlement_text :: "(string \<times> json) list \<Rightarrow> string \<Rightarrow> string" where
  "entitlement_text entitlements key = py_str (json_get entitlements key (JStr []))"

definition grant_operation ::
  "env \<Rightarrow> license \<Rightarrow> product \<Rightarrow> string \<Rightarrow> string \<Rightarrow> string \<Rightarrow> operation_policy \<Rightarrow> nat \<Rightarrow> authorization_response prog" where
  "grant_operation E l pr fingerprint operation request_hash policy installation =
     bnd now (\<lambda>t.
     let authorization =
       [(''license_id'', JStr (li_key l)), (''product_id'', JStr (pr_slug pr)), (''fingerprint'', JStr fingerprint),
        (''operation'', JStr operation), (''request_hash'', JStr request_hash), (''issued_at'', JStr (isoformat t)),
        (''expires_at'', JStr (isoformat (t + op_ttl policy * us_second)))]
     in try_except (sign_entitlement E authorization) is_signing_error
          (\<lambda>_. ret (''service_unavailable'', [], []))
          (\<lambda>signature.
             bnd (installation_seen installation) (\<lambda>_.
             bnd (log_action ''license.operation_authorized'' None (Some (''License'', li_pk l))
                    [(''operation'', JStr operation), (''fingerprint'', JStr (take 12 fingerprint)),
                     (''request_hash'', JStr request_hash)]) (\<lambda>_.
             ret (''authorized'', authorization, signature)))))"

definition authorize_operation ::
  "env \<Rightarrow> string \<Rightarrow> string \<Rightarrow> string \<Rightarrow> string \<Rightarrow> string \<Rightarrow> string \<Rightarrow> authorization_response prog" where
  "authorize_operation E key fingerprint token raw_operation raw_hash ip =
     (let operation = lower (strip raw_operation); request_hash = strip raw_hash
      in if operation = [] \<or> 100 < length operation \<or> 128 < length request_hash
         then ret (''invalid_request'', [], [])
         else
           bnd (rate_limited (''operation:'' @ key) rate_limit_operation ''operation-ip:'' ip) (\<lambda>limited.
           if limited then ret (''rate_limited'', [], [])
           else
             bnd (bool_setting ''MAINTENANCE_MODE'') (\<lambda>maintenance.
             if maintenance then ret (''service_unavailable'', [], [])
             else
               bnd (verify_token E token key fingerprint) (\<lambda>token_status.
               if token_status \<notin> {''active'', ''grace''} then ret (''invalid'', [], [])
               else
                 bnd (license_by_key key) (\<lambda>v.
                 case v of
                   None \<Rightarrow> ret (''invalid'', [], [])
                 | Some l \<Rightarrow>
                     bnd (effective_access_status l) (\<lambda>status.
                     if status \<notin> {''active'', ''grace''} then ret (status, [], [])
                     else
                       bnd (find_active (li_pk l) fingerprint) (\<lambda>installation.
                       case installation of
                         None \<Rightarrow> ret (''deactivated'', [], [])
                       | Some r \<Rightarrow>
                           bnd (plan_get (li_plan l)) (\<lambda>pl.
                           bnd (product_get (pl_product pl)) (\<lambda>pr.
                           bnd (find_policy (pr_pk pr) operation) (\<lambda>p.
                           case p of
                             None \<Rightarrow> ret (''operation_unavailable'', [], [])
                           | Some policy \<Rightarrow>
                               bnd (get_entitlements l) (\<lambda>entitlements.
                               if lower (entitlement_text entitlements (op_entitlement_key policy))
                                    \<noteq> lower (op_required_value policy)
                               then ret (''not_entitled'', [], [])
                               else grant_operation E l pr fingerprint operation request_hash policy (in_pk r))))))))))))"

section \<open>The HTTP layer\<close>

text \<open>\<open>ProductSecretAuth.authenticate\<close>: may the request with this header pass?\<close>

definition authenticate :: "string option \<Rightarrow> bool prog" where
  "authenticate key =
     bnd (setting_get ''ACTIVATION_API_SECRET'' []) (\<lambda>required. ret (required = [] \<or> key = Some required))"

text \<open>\<open>_get_ip\<close>: the first address of \<open>X-Forwarded-For\<close>, else the peer's.\<close>

definition get_ip :: "(string \<times> string) list \<Rightarrow> string" where
  "get_ip meta =
     (let forwarded = header_get meta ''HTTP_X_FORWARDED_FOR''
      in if forwarded \<noteq> [] then strip (takeWhile (\<lambda>c. c \<noteq> CHR '','') forwarded)
         else header_get meta ''REMOTE_ADDR'')"

text \<open>An endpoint: \<open>None\<close> is the framework's 401.\<close>

definition endpoint :: "string option \<Rightarrow> 'r prog \<Rightarrow> 'r option prog" where
  "endpoint secret handler =
     bnd (authenticate secret) (\<lambda>ok. if ok then bnd handler (\<lambda>r. ret (Some r)) else ret None)"

definition api_activate :: "env \<Rightarrow> string option \<Rightarrow> (string \<times> string) list \<Rightarrow> string \<Rightarrow> string \<Rightarrow> string \<Rightarrow> activation_response option prog" where
  "api_activate E secret meta key fingerprint machine_name =
     endpoint secret (activate E key fingerprint machine_name (get_ip meta))"

definition api_validate :: "env \<Rightarrow> string option \<Rightarrow> (string \<times> string) list \<Rightarrow> string \<Rightarrow> string \<Rightarrow> string \<Rightarrow> activation_response option prog" where
  "api_validate E secret meta key fingerprint token =
     endpoint secret (validate E key fingerprint token (get_ip meta))"

definition api_deactivate :: "string option \<Rightarrow> string \<Rightarrow> string \<Rightarrow> activation_response option prog" where
  "api_deactivate secret key fingerprint = endpoint secret (deactivate key fingerprint)"

definition api_operation_authorize ::
  "env \<Rightarrow> string option \<Rightarrow> (string \<times> string) list \<Rightarrow> string \<Rightarrow> string \<Rightarrow> string \<Rightarrow> string \<Rightarrow> string
     \<Rightarrow> authorization_response option prog" where
  "api_operation_authorize E secret meta key fingerprint token operation request_hash =
     endpoint secret (authorize_operation E key fingerprint token operation request_hash (get_ip meta))"

section \<open>The interface to the rest of the program\<close>

locale licensing_inv = cache_inv +
  assumes claim_seat_pres [pres_intros]: "pres I (claim_seat l fp name)"
    and installation_seen_pres [pres_intros]: "pres I (installation_seen k)"
    and installations_deactivate_pres [pres_intros]: "pres I (installations_deactivate lk fp)"
begin

lemma check_rate_limit_pres [pres_intros]: "pres I (check_rate_limit i n)" "pres I (rate_limited i n pre ip)"
  unfolding check_rate_limit_def rate_limited_def Let_def by (intro pres_intros)+

lemma license_reads_pres [pres_intros]:
  "pres I (license_by_key key)" "pres I (license_get k)" "pres I (license_grant l)" "pres I (license_subscription l)"
  "pres I (effective_access_status l)" "pres I (license_expires_at l)" "pres I (get_entitlements l)"
  "pres I (find_active k fp)" "pres I (find_policy k opn)"
  unfolding license_by_key_def license_get_def license_grant_def license_subscription_def sub_get_def
    effective_access_status_def license_expires_at_def get_entitlements_def entitlements_of_plan_def plan_get_def
    find_active_def find_policy_def
  by (intro pres_intros)+

lemma token_pres [pres_intros]:
  "pres I (issue_token E key fp)" "pres I (verify_token E tok key fp)" "pres I (sign_entitlement E ent)"
  "pres I (build_signed_entitlement E l fp st te le ent)"
  unfolding issue_token_def verify_token_def sign_entitlement_def ttl_seconds_def grace_seconds_def Let_def
    build_signed_entitlement_def product_slug_of_plan_def plan_get_def product_get_def
  by (intro pres_intros)+

lemma access_granted_pres [pres_intros]: "pres I m \<Longrightarrow> pres I (access_granted E l key fp st m)"
  unfolding access_granted_def by (intro pres_intros)

lemma activate_pres [pres_intros]: "pres I (activate E key fp name ip)"
  unfolding activate_def by (intro pres_intros)

lemma validate_pres [pres_intros]: "pres I (validate E key fp tok ip)"
  unfolding validate_def validate_in_maintenance_def by (intro pres_intros)

lemma deactivate_pres [pres_intros]: "pres I (deactivate key fp)"
  unfolding deactivate_def by (intro pres_intros)

lemma authorize_operation_pres [pres_intros]: "pres I (authorize_operation E key fp tok opn h ip)"
  unfolding authorize_operation_def grant_operation_def plan_get_def product_get_def Let_def by (intro pres_intros)

lemma endpoint_pres [pres_intros]: "pres I m \<Longrightarrow> pres I (endpoint secret m)"
  unfolding endpoint_def authenticate_def by (intro pres_intros)

lemma api_pres [pres_intros]:
  "pres I (api_activate E secret meta key fp name)" "pres I (api_validate E secret meta key fp tok)"
  "pres I (api_deactivate secret key fp)" "pres I (api_operation_authorize E secret meta key fp tok opn h)"
  unfolding api_activate_def api_validate_def api_deactivate_def api_operation_authorize_def by (intro pres_intros)+

end

locale licensing_frame = frame_inv +
  assumes view_installations: "view (s\<lparr>t_installations := In\<rparr>) = view s"

sublocale licensing_frame \<subseteq> licensing_inv I
proof
  show "pres I (installation_seen k)" "pres I (installations_deactivate l fp)" for k l fp
    unfolding installation_seen_def installations_deactivate_def
    by (auto intro!: pres_intros frame_modify simp: view_installations)
  show "pres I (claim_seat l fp name)" for l fp name
    unfolding claim_seat_def license_get_def find_active_def installation_seen_def installation_create_def
    by (intro pres_intros frame_modify) (simp_all add: view_installations)
qed

text \<open>The activation service moves no money and changes no sale.\<close>

interpretation ledger: licensing_frame ledger_ok "\<lambda>s. (t_wallets s, t_ledger s)"
  by unfold_locales auto
interpretation history: licensing_frame "\<lambda>s. \<exists>M. t_ledger s = L @ M" "\<lambda>s. (t_wallets s, t_ledger s)"
  by unfold_locales auto
interpretation no_money: licensing_frame "\<lambda>s. t_wallets s = W \<and> t_ledger s = L" "\<lambda>s. (t_wallets s, t_ledger s)"
  by unfold_locales auto
interpretation sales: licensing_frame sales_ok "\<lambda>s. (t_orders s, t_coupons s, t_earnings s)"
  by unfold_locales auto
interpretation lines: licensing_frame carts_ok "\<lambda>s. (t_carts s, t_cart_items s)"
  by unfold_locales auto

section \<open>Seats\<close>

text \<open>
  No license has more active installations than seats, a device holds at most one active seat of
  a license, and installations belong to licenses of the database.
\<close>

definition seats_ok :: "db \<Rightarrow> bool" where
  "seats_ok s =
     (distinct (map li_pk (t_licenses s)) \<and> distinct (map in_pk (t_installations s))
      \<and> (\<forall>l \<in> set (t_licenses s). li_pk l < seq s \<and> int (active_seat_count (li_pk l) s) \<le> li_seat_limit l)
      \<and> (\<forall>r \<in> set (t_installations s). in_pk r < seq s \<and> in_license r \<in> li_pk ` set (t_licenses s))
      \<and> (\<forall>l fp. length (filter (active_installation l fp) (t_installations s)) \<le> 1))"

lemma seats_ok_frame:
  "seats_ok s \<Longrightarrow> t_licenses t = t_licenses s \<Longrightarrow> t_installations t = t_installations s \<Longrightarrow> seq s \<le> seq t \<Longrightarrow> seats_ok t"
  by (auto simp: seats_ok_def active_seat_count_def intro: less_le_trans)

text \<open>Edits of single columns.\<close>

lemma length_filter_upd_by:
  "(\<And>r. p (f r) = p r) \<Longrightarrow> length (filter p (upd_by key k f rows)) = length (filter p rows)"
  by (induction rows) (auto simp: upd_by_def)

lemma seats_ok_seen:
  assumes ok: "seats_ok s"
  shows "seats_ok (s\<lparr>t_installations := upd_by in_pk k (\<lambda>r. r\<lparr>in_last_seen := v\<rparr>) (t_installations s)\<rparr>)"
    (is "seats_ok ?t")
proof -
  have seats: "active_seat_count l ?t = active_seat_count l s" for l
    unfolding active_seat_count_def by (simp, rule length_filter_upd_by, simp)
  have singles: "length (filter (active_installation l fp) (t_installations ?t))
      = length (filter (active_installation l fp) (t_installations s))" for l fp
    by (simp, rule length_filter_upd_by, simp add: active_installation_def)
  have rows: "\<forall>r \<in> set (t_installations ?t). in_pk r < seq ?t \<and> in_license r \<in> li_pk ` set (t_licenses ?t)"
    using ok by (auto simp: seats_ok_def set_upd_by)
  have keys: "distinct (map in_pk (t_installations ?t))" "t_licenses ?t = t_licenses s" "seq ?t = seq s"
    using ok by (simp_all add: seats_ok_def)
  from ok rows keys(1) show ?thesis
    unfolding seats_ok_def seats singles keys(2,3) by blast
qed

lemma length_filter_le:
  "(\<And>r. p (f r) \<Longrightarrow> p r) \<Longrightarrow> length (filter p (upd_where q f rows)) \<le> length (filter p rows)"
  by (induction rows) (auto simp: upd_where_def)

lemma seats_ok_deactivate:
  assumes ok: "seats_ok s"
  shows "seats_ok (s\<lparr>t_installations := upd_where p
     (\<lambda>r. r\<lparr>in_status := Installation_DEACTIVATED\<rparr>) (t_installations s)\<rparr>)" (is "seats_ok ?t")
proof -
  have counts: "active_seat_count k ?t \<le> active_seat_count k s" for k
    unfolding active_seat_count_def by (simp, rule length_filter_le, simp)
  have singles: "length (filter (active_installation k f) (t_installations ?t)) \<le> 1" for k f
  proof -
    have "length (filter (active_installation k f) (t_installations ?t)) \<le> length (filter (active_installation k f) (t_installations s))"
      by (simp, rule length_filter_le, simp add: active_installation_def)
    also have "\<dots> \<le> 1" using ok by (simp add: seats_ok_def)
    finally show ?thesis .
  qed
  have "int (active_seat_count (li_pk x) ?t) \<le> li_seat_limit x" if "x \<in> set (t_licenses s)" for x
    using ok that counts [of "li_pk x"] by (force simp: seats_ok_def)
  with ok singles show ?thesis
    by (auto simp: seats_ok_def set_upd_where)
qed

lemma seats_ok_insert:
  assumes ok: "seats_ok s" and l: "l \<in> set (t_licenses s)" "seats_available l s"
    and none: "\<forall>r \<in> set (t_installations s). \<not> active_installation (li_pk l) fp r"
    and row: "in_license row = li_pk l" "in_fingerprint row = fp" "in_pk row = seq s"
  shows "seats_ok (s\<lparr>seq := Suc (seq s), t_installations := t_installations s @ [row]\<rparr>)" (is "seats_ok ?t")
proof -
  have counts: "int (active_seat_count (li_pk x) ?t) \<le> li_seat_limit x" if x: "x \<in> set (t_licenses s)" for x
  proof (cases "li_pk x = li_pk l")
    case True
    then have "x = l" using ok l(1) x by (auto simp: seats_ok_def distinct_map dest: inj_onD)
    then show ?thesis using l(2) by (auto simp: seats_available_def active_seat_count_def)
  next
    case False
    then have "active_seat_count (li_pk x) ?t = active_seat_count (li_pk x) s"
      using row(1) by (simp add: active_seat_count_def)
    then show ?thesis using ok x by (simp add: seats_ok_def)
  qed
  have "length (filter (active_installation k f) (t_installations ?t)) \<le> 1" for k f
  proof (cases "k = li_pk l \<and> f = fp")
    case True
    then have "filter (active_installation k f) (t_installations s) = []"
      using none by (auto simp: filter_empty_conv)
    then show ?thesis by simp
  next
    case False
    then have "\<not> active_installation k f row" using row by (auto simp: active_installation_def)
    then show ?thesis using ok by (simp add: seats_ok_def)
  qed
  with ok counts l(1) row show ?thesis
    by (auto simp: seats_ok_def less_Suc_eq)
qed

lemma claim_seat_seats: "pres seats_ok (claim_seat l fp name)"
proof -
  have "wp (installation_create (li_pk r) fp name) (\<lambda>_. seats_ok) (\<lambda>_ _. True) s"
    if "seats_ok s" "find_by li_pk k (t_licenses s) = Some r" "seats_available r s" for k r s
    using that find_by_SomeD [OF that(2)]
    by (auto simp: installation_create_def wp_simps now_def intro!: seats_ok_insert)
  moreover have "wp (installation_seen k) (\<lambda>_. seats_ok) (\<lambda>_ _. True) s" if "seats_ok s" for k s
    using that by (simp add: installation_seen_def wp_simps now_def seats_ok_seen)
  ultimately show ?thesis
    unfolding pres_wp claim_seat_def wp_atomic license_get_def find_active_def
    by (auto simp: wp_bnd wp_gets wp_or_raise wp_ret split: option.split)
qed

interpretation seats: wallet_frame seats_ok "\<lambda>s. (t_licenses s, t_installations s)"
  by unfold_locales (auto elim: seats_ok_frame)

interpretation seats: licensing_inv seats_ok
proof
  show "pres seats_ok (claim_seat l fp name)" for l fp name
    by (rule claim_seat_seats)
  show "pres seats_ok (installation_seen k)" for k
    by (rule presI) (simp add: installation_seen_def now_def run_simps seats_ok_seen)
  show "pres seats_ok (installations_deactivate l fp)" for l fp
    by (rule presI) (simp add: installations_deactivate_def run_simps seats_ok_deactivate)
qed

text \<open>Provisioning adds licenses without installations, and lifecycle calls leave the seats alone.\<close>

lemma seats_ok_license:
  assumes ok: "seats_ok s" and l: "li_pk l = seq s" "0 \<le> li_seat_limit l"
  shows "seats_ok (s\<lparr>rng := n, seq := Suc (seq s), t_licenses := t_licenses s @ [l]\<rparr>)"
proof -
  have "in_license r \<noteq> seq s" if "r \<in> set (t_installations s)" for r
    using ok that by (fastforce simp: seats_ok_def)
  then have "active_seat_count (seq s) s = 0"
    by (auto simp: active_seat_count_def filter_empty_conv)
  with ok l show ?thesis
    by (auto simp: seats_ok_def less_Suc_eq active_seat_count_def)
qed

lemma seats_ok_licenses_edit:
  assumes "seats_ok s" and "\<And>r. li_pk (f r) = li_pk r \<and> li_seat_limit (f r) = li_seat_limit r"
  shows "seats_ok (s\<lparr>t_licenses := upd_where p f (t_licenses s)\<rparr>)"
proof -
  let ?t = "s\<lparr>t_licenses := upd_where p f (t_licenses s)\<rparr>"
  have pks: "map li_pk (t_licenses ?t) = map li_pk (t_licenses s)" using assms(2) by simp
  then have "li_pk ` set (t_licenses ?t) = li_pk ` set (t_licenses s)" by (metis set_map)
  with pks assms show ?thesis
    by (auto simp: seats_ok_def active_seat_count_def set_upd_where)
qed

lemma drawn_key:
  "wp (assign_unique_license_key E) (\<lambda>_ t. \<exists>r. t = s\<lparr>rng := r\<rparr>) (\<lambda>_ t. \<exists>r. t = s\<lparr>rng := r\<rparr>) s"
  unfolding assign_unique_license_key_def
  by (rule wp_mono [OF assign_unique_wp [OF draws_license_key]]) auto

interpretation seats: provision_inv seats_ok
proof
  fix cust pl seats E l g st lst c ord sub d ty payload
  show "pres seats_ok (grant_create cust ord sub d ty payload)" "pres seats_ok (grant_set_status g st)"
    "pres seats_ok (secret_create g c)"
    unfolding grant_create_def grant_set_status_def secret_create_def Let_def
    by (auto intro!: pres_intros seats.frame_modify)
  show "pres seats_ok (licenses_of_grant_set_status g lst)" "pres seats_ok (license_link_grant l g)"
    unfolding licenses_of_grant_set_status_def license_link_grant_def
    by (auto intro!: pres_modify seats_ok_licenses_edit simp: upd_by_where)
  show "pres seats_ok (license_create E cust pl sub seats)"
    unfolding pres_wp license_create_def wp_bnd [of "assign_unique_license_key _"]
    by (cases seats rule: integer_field.cases)
      (auto simp: wp_simps Let_def seats.draw intro!: wp_mono [OF drawn_key] seats_ok_license split: option.split)
qed

end
