(* ===== verification/Otp.thy ===== *)
theory Otp
  imports Messaging
begin

text \<open>
  Verification of a WhatsApp number by a one-time code (\<open>notifications/otp.py\<close>): \<open>request_code\<close> with
  its cooldown and its count of sends, \<open>verify_code\<close> with its limit of guesses.  The password hasher
  is a parameter; two requests for one number do not interleave.
\<close>

definition code_ttl :: int where "code_ttl = 60 * 5"
definition send_cooldown :: int where "send_cooldown = 60"
definition max_sends_per_hour :: int where "max_sends_per_hour = 3"
definition rl_window :: int where "rl_window = 60 * 60"
definition max_attempts :: int where "max_attempts = 5"

definition cooldown_key :: "string \<Rightarrow> string" where
  "cooldown_key number = ''waotp:cd:'' @ number"

definition count_key :: "string \<Rightarrow> string" where
  "count_key number = ''waotp:cnt:'' @ number"

section \<open>Sending a code\<close>

text \<open>\<open>f"{secrets.randbelow(1_000_000):06d}"\<close>\<close>

definition draw_code :: "env \<Rightarrow> string prog" where
  "draw_code E =
     bnd (gets rng) (\<lambda>n. bnd (modify (\<lambda>s. s\<lparr>rng := Suc n\<rparr>)) (\<lambda>_.
     let digits = str_nat (rand E n mod 1000000) in ret (replicate (6 - length digits) CHR ''0'' @ digits)))"

definition otp_create :: "nat \<Rightarrow> string \<Rightarrow> string \<Rightarrow> unit prog" where
  "otp_create cust number code_hash =
     bnd new_pk (\<lambda>pk. bnd now (\<lambda>t.
     modify (\<lambda>s. s\<lparr>t_otps := t_otps s @
       [\<lparr>ot_pk = pk, ot_customer = cust, ot_number = number, ot_code_hash = code_hash,
         ot_expires = t + code_ttl * us_second, ot_attempts = 0, ot_consumed = None\<rparr>]\<rparr>)))"

text \<open>How many codes have been requested in this window, this request included.\<close>

definition count_send :: "string \<Rightarrow> int prog" where
  "count_send number =
     bnd (cache_add (count_key number) 0 rl_window) (\<lambda>_.
     try_except (cache_incr (count_key number)) is_value_error
       (\<lambda>_. bnd (cache_set (count_key number) 1 rl_window) (\<lambda>_. ret 1)) ret)"

definition request_code :: "env \<Rightarrow> nat \<Rightarrow> string \<Rightarrow> unit prog" where
  "request_code E cust raw =
     (let number = normalize_wa_number raw
      in bnd (check (number \<noteq> []) (OtpError ''Enter a WhatsApp number first.'')) (\<lambda>_.
         bnd (check (validate_wa_number number) (OtpError ''Not a valid WhatsApp number.'')) (\<lambda>_.
         bnd (wa_suppressed number) (\<lambda>suppressed.
         bnd (check (\<not> suppressed) (OtpError ''This number has opted out of WhatsApp messages.'')) (\<lambda>_.
         bnd (gets (cache_value (cooldown_key number))) (\<lambda>cooling.
         bnd (check (cooling \<in> {None, Some 0}) (OtpError ''Please wait a minute before requesting another code.'')) (\<lambda>_.
         bnd (count_send number) (\<lambda>sends.
         bnd (check (sends \<le> max_sends_per_hour) (OtpError ''Too many codes requested. Try again later.'')) (\<lambda>_.
         bnd (draw_code E) (\<lambda>code.
         bnd (otp_create cust number (make_password E code)) (\<lambda>_.
         bnd (cache_set (cooldown_key number) 1 send_cooldown) (\<lambda>_.
         bnd template_mode (\<lambda>mode.
         let template = (if mode \<noteq> Mode_OFF
                         then map_option (\<lambda>(name, language). (name, language, [code])) (get_template ''otp'') else None)
         in queue (Deliver_whatsapp number (''otp'', [code]) None template 0))))))))))))))"

section \<open>Checking a code\<close>

definition open_code :: "nat \<Rightarrow> string \<Rightarrow> otp \<Rightarrow> bool" where
  "open_code cust number r = (ot_customer r = cust \<and> ot_number r = number \<and> ot_consumed r = None)"

text \<open>The newest code of the customer for the number that is not consumed.\<close>

definition newest_code :: "nat \<Rightarrow> string \<Rightarrow> db \<Rightarrow> otp option" where
  "newest_code cust number s = find (open_code cust number) (rev (t_otps s))"

definition otp_save :: "nat \<Rightarrow> (otp \<Rightarrow> otp) \<Rightarrow> unit prog" where
  "otp_save k f = modify (\<lambda>s. s\<lparr>t_otps := upd_by ot_pk k f (t_otps s)\<rparr>)"

definition verify_code :: "env \<Rightarrow> nat \<Rightarrow> string \<Rightarrow> string \<Rightarrow> unit prog" where
  "verify_code E cust raw code_field =
     (let number = normalize_wa_number raw; code = strip code_field
      in bnd (gets (newest_code cust number)) (\<lambda>v.
         bnd (or_raise v (OtpError ''Request a code first.'')) (\<lambda>r.
         bnd now (\<lambda>t.
         bnd (check (t < ot_expires r) (OtpError ''That code has expired. Request a new one.'')) (\<lambda>_.
         bnd (check (ot_attempts r < max_attempts) (OtpError ''Too many incorrect attempts. Request a new code.'')) (\<lambda>_.
         if \<not> check_password E code (ot_code_hash r)
         then bnd (otp_save (ot_pk r) (\<lambda>x. x\<lparr>ot_attempts := ot_attempts r + 1\<rparr>)) (\<lambda>_. raise (OtpError ''Incorrect code.''))
         else
           bnd (otp_save (ot_pk r) (\<lambda>x. x\<lparr>ot_attempts := ot_attempts r + 1, ot_consumed := Some t\<rparr>)) (\<lambda>_.
           modify (\<lambda>s. s\<lparr>t_customers := upd_by c_pk cust
             (\<lambda>c. c\<lparr>c_wa_number := number, c_wa_verified_at := Some t\<rparr>) (t_customers s)\<rparr>))))))))"

section \<open>Who gets verified\<close>

lemma open_code_number: "newest_code cust number s = Some r \<Longrightarrow> r \<in> set (t_otps s) \<and> open_code cust number r"
  by (auto simp: newest_code_def find_Some_iff in_set_conv_nth) (metis length_rev nth_mem set_rev in_set_conv_nth)

text \<open>
  A call of \<open>verify_code\<close>: it accepts exactly the newest code that is open, in time, within its
  guesses and right, and then marks the number as verified; otherwise no customer changes, and at
  most the code's count of guesses goes up.
\<close>

lemma verify_code_wp:
  "wp (verify_code E cust raw code)
     (\<lambda>_ t. \<exists>r. newest_code cust (normalize_wa_number raw) s = Some r \<and> clock s < ot_expires r
        \<and> ot_attempts r < max_attempts \<and> check_password E (strip code) (ot_code_hash r)
        \<and> t = s\<lparr>t_customers := upd_by c_pk cust (\<lambda>c. c\<lparr>c_wa_number := normalize_wa_number raw, c_wa_verified_at := Some (clock s)\<rparr>) (t_customers s),
                t_otps := upd_by ot_pk (ot_pk r) (\<lambda>x. x\<lparr>ot_attempts := ot_attempts r + 1, ot_consumed := Some (clock s)\<rparr>) (t_otps s)\<rparr>)
     (\<lambda>e t. (\<exists>m. e = OtpError m) \<and> (t = s \<or> (\<exists>r. newest_code cust (normalize_wa_number raw) s = Some r
        \<and> ot_attempts r < max_attempts \<and> \<not> check_password E (strip code) (ot_code_hash r)
        \<and> t = s\<lparr>t_otps := upd_by ot_pk (ot_pk r) (\<lambda>x. x\<lparr>ot_attempts := ot_attempts r + 1\<rparr>) (t_otps s)\<rparr>))) s"
  by (auto simp: verify_code_def otp_save_def wp_simps Let_def split: option.split)

text \<open>The customers guess codes at any times; \<open>later\<close> is how long after the one before.\<close>

definition guess :: "env \<Rightarrow> nat \<Rightarrow> string \<Rightarrow> int \<times> string \<Rightarrow> db \<Rightarrow> db" where
  "guess E cust raw = (\<lambda>(later, code) s. snd (verify_code E cust raw code (s\<lparr>clock := clock s + later\<rparr>)))"

text \<open>
  The open code with hash \<open>h\<close> has been tried \<open>n\<close> times, or its time is over, and nobody has been
  verified: the customers are still \<open>C\<close>.
\<close>

definition tried :: "nat \<Rightarrow> string \<Rightarrow> string \<Rightarrow> customer list \<Rightarrow> int \<Rightarrow> db \<Rightarrow> bool" where
  "tried cust number h C n s =
     (distinct (map ot_pk (t_otps s)) \<and> t_customers s = C
      \<and> (\<exists>r. newest_code cust number s = Some r \<and> ot_code_hash r = h \<and> (n \<le> ot_attempts r \<or> ot_expires r \<le> clock s)))"

lemma newest_code_attempt:
  assumes "distinct (map ot_pk (t_otps s))" and "newest_code cust number s = Some r"
  shows "newest_code cust number (s\<lparr>t_otps := upd_by ot_pk (ot_pk r) (\<lambda>x. x\<lparr>ot_attempts := a\<rparr>) (t_otps s)\<rparr>) = Some (r\<lparr>ot_attempts := a\<rparr>)"
proof -
  have "find p (map f xs) = map_option f (find p xs)" if "\<And>x. p (f x) = p x" for p f and xs :: "otp list"
    using that by (induction xs) auto
  moreover have "open_code cust number (if ot_pk x = ot_pk r then x\<lparr>ot_attempts := a\<rparr> else x) = open_code cust number x" for x
    by (simp add: open_code_def)
  ultimately show ?thesis
    using assms(2) by (simp add: newest_code_def upd_by_def rev_map)
qed

lemma guess_tried:
  assumes tried: "tried cust (normalize_wa_number raw) h C n s" and later: "0 \<le> later"
    and wrong: "n < max_attempts \<Longrightarrow> \<not> check_password E (strip code) h"
  shows "tried cust (normalize_wa_number raw) h C (min max_attempts (n + 1)) (guess E cust raw (later, code) s)"
proof -
  let ?n = "normalize_wa_number raw"
  define u where "u = s\<lparr>clock := clock s + later\<rparr>"
  obtain r where r: "newest_code cust ?n u = Some r" "ot_code_hash r = h" "n \<le> ot_attempts r \<or> ot_expires r \<le> clock u"
      "distinct (map ot_pk (t_otps u))" "t_customers u = C"
    using tried later by (auto simp: tried_def u_def newest_code_def)
  have counted: "tried cust ?n h C (min max_attempts (n + 1)) (u\<lparr>t_otps := upd_by ot_pk (ot_pk r) (\<lambda>x. x\<lparr>ot_attempts := ot_attempts r + 1\<rparr>) (t_otps u)\<rparr>)"
    using r newest_code_attempt [OF r(4,1)] by (auto simp: tried_def)
  have closed: "tried cust ?n h C (min max_attempts (n + 1)) u" if "ot_expires r \<le> clock u \<or> max_attempts \<le> ot_attempts r"
    using that r by (auto simp: tried_def)
  have "tried cust ?n h C (min max_attempts (n + 1)) (snd (verify_code E cust raw code u))"
    unfolding wp_inv [symmetric]
    using r wrong counted closed
    by (auto simp: verify_code_def otp_save_def wp_simps Let_def not_less)
  then show ?thesis
    by (simp add: guess_def u_def)
qed

lemma guesses_tried:
  assumes "tried cust (normalize_wa_number raw) h C n s" and "0 \<le> n" "n \<le> max_attempts"
    and "\<forall>(later, code) \<in> set gs. 0 \<le> later"
    and "\<forall>(later, code) \<in> set (take (nat (max_attempts - n)) gs). \<not> check_password E (strip code) h"
  shows "tried cust (normalize_wa_number raw) h C (min max_attempts (n + int (length gs))) (fold (guess E cust raw) gs s)"
  using assms
proof (induction gs arbitrary: n s)
  case Nil
  then show ?case by simp
next
  case (Cons g gs)
  obtain later code where g: "g = (later, code)" by (cases g)
  have step: "tried cust (normalize_wa_number raw) h C (min max_attempts (n + 1)) (guess E cust raw g s)"
    unfolding g using Cons.prems g by (intro guess_tried) (auto simp: take_Cons' split: if_splits)
  have rest: "nat (max_attempts - n) - Suc 0 = nat (max_attempts - (n + 1))" by simp
  have "\<forall>(later, code) \<in> set (take (nat (max_attempts - min max_attempts (n + 1))) gs). \<not> check_password E (strip code) h"
    using Cons.prems(5) rest by (cases "n < max_attempts") (auto simp: take_Cons' min_def split: if_splits)
  then have "tried cust (normalize_wa_number raw) h C (min max_attempts (min max_attempts (n + 1) + int (length gs)))
      (fold (guess E cust raw) gs (guess E cust raw g s))"
    using Cons.prems step by (intro Cons.IH) auto
  then show ?case
    by (simp add: min_def algebra_simps split: if_splits)
qed

text \<open>
  C29.  Five guesses per code.  Whatever a customer enters, and whenever, unless one of the first
  five guesses is right the code they were sent never verifies the number: after any number of
  guesses no customer's number or verification has changed, and the next guess is refused even if
  it is right.
\<close>

theorem otp_guess_limit:
  assumes code: "distinct (map ot_pk (t_otps s))" "newest_code cust (normalize_wa_number raw) s = Some r" "0 \<le> ot_attempts r"
    and forward: "\<forall>(later, code) \<in> set gs. 0 \<le> later"
    and wrong: "\<forall>(later, code) \<in> set (take 5 gs). \<not> check_password E (strip code) (ot_code_hash r)"
  shows "t_customers (fold (guess E cust raw) gs s) = t_customers s
     \<and> (5 \<le> length gs \<longrightarrow> (\<exists>m. fst (verify_code E cust raw any (fold (guess E cust raw) gs s)) = Inl (OtpError m)))"
proof -
  have "tried cust (normalize_wa_number raw) (ot_code_hash r) (t_customers s) 0 s"
    using code by (auto simp: tried_def)
  then have end_state: "tried cust (normalize_wa_number raw) (ot_code_hash r) (t_customers s) (min max_attempts (int (length gs)))
      (fold (guess E cust raw) gs s)"
    using guesses_tried [of cust raw "ot_code_hash r" "t_customers s" 0 s gs E] forward wrong by (simp add: max_attempts_def)
  let ?t = "fold (guess E cust raw) gs s"
  obtain q where q: "newest_code cust (normalize_wa_number raw) ?t = Some q"
      "min max_attempts (int (length gs)) \<le> ot_attempts q \<or> ot_expires q \<le> clock ?t"
    using end_state by (auto simp: tried_def)
  have "\<exists>m. fst (verify_code E cust raw any ?t) = Inl (OtpError m)" if "5 \<le> length gs"
    using q that by (auto simp: verify_code_def run_simps Let_def max_attempts_def)
  with end_state show ?thesis by (auto simp: tried_def)
qed

definition example_otp_db :: db where
  "example_otp_db = empty_db\<lparr>t_otps := [\<lparr>ot_pk = 1, ot_customer = 1, ot_number = ''62811'', ot_code_hash = ''hash:000003'',
     ot_expires = code_ttl * us_second, ot_attempts = 0, ot_consumed = None\<rparr>]\<rparr>"

theorem otp_guess_limit_witness:
  "\<exists>m. fst (verify_code demo_env 1 ''0811'' ''000003'' (fold (guess demo_env 1 ''0811'') (replicate 5 (1, ''123456'')) example_otp_db))
     = Inl (OtpError m)"
proof -
  have number: "normalize_wa_number ''0811'' = ''62811''"
    by (simp add: normalize_wa_number_def strip_def is_space_def is_digit_def)
  show ?thesis
    using otp_guess_limit [of example_otp_db 1 "''0811''" _ "replicate 5 (1, ''123456'')" demo_env "''000003''"]
    by (simp add: number example_otp_db_def newest_code_def open_code_def demo_env_def strip_def is_space_def)
qed

section \<open>How many codes are sent\<close>

definition codes_sent :: "string \<Rightarrow> db \<Rightarrow> nat" where
  "codes_sent number s = length (filter (\<lambda>r. ot_number r = number) (t_otps s))"

text \<open>Requests for codes for a number, each \<open>later\<close> than the one before.\<close>

definition ask :: "env \<Rightarrow> string \<Rightarrow> int \<times> nat \<Rightarrow> db \<Rightarrow> db" where
  "ask E raw = (\<lambda>(later, cust) s. snd (request_code E cust raw (s\<lparr>clock := clock s + later\<rparr>)))"

definition send_window :: "string \<Rightarrow> int \<Rightarrow> int \<Rightarrow> db \<Rightarrow> bool" where
  "send_window number n e s =
     (\<exists>v. map_of (cache s) (count_key number) = Some (v, e) \<and> int (codes_sent number s) \<le> n + min v max_sends_per_hour)"

lemma ask_window:
  assumes window: "send_window (normalize_wa_number raw) n e s" and time: "clock s + later < e"
  shows "send_window (normalize_wa_number raw) n e (ask E raw (later, cust) s) \<and> clock (ask E raw (later, cust) s) = clock s + later"
proof -
  let ?n = "normalize_wa_number raw"
  let ?I = "\<lambda>t. send_window ?n n e t \<and> clock t = clock s + later"
  define u where "u = s\<lparr>clock := clock s + later\<rparr>"
  obtain v where v: "cache_value (count_key ?n) u = Some v" "map_of (cache u) (count_key ?n) = Some (v, e)"
      "int (codes_sent ?n u) \<le> n + min v max_sends_per_hour"
    using window time by (auto simp: send_window_def cache_value_def u_def codes_sent_def)
  have other: "cooldown_key ?n \<noteq> count_key ?n" by (simp add: cooldown_key_def count_key_def)
  have u: "?I u" using window by (simp add: u_def send_window_def codes_sent_def)
  have "wp (request_code E cust raw) (\<lambda>_. ?I) (\<lambda>_. ?I) u"
    using v other u
    by (auto simp: request_code_def count_send_def cache_add_def cache_incr_def cache_set_def wa_suppressed_def draw_code_def
        otp_create_def template_mode_def queue_def wp_simps Let_def send_window_def codes_sent_def map_of_map_entry update_conv'
        max_sends_per_hour_def)
  then show ?thesis
    by (simp add: ask_def u_def wp_inv)
qed

lemma asks_window:
  assumes "send_window (normalize_wa_number raw) n e s" and "\<forall>(later, cust) \<in> set rs. 0 \<le> later"
    and "clock s + sum_list (map fst rs) < e"
  shows "send_window (normalize_wa_number raw) n e (fold (ask E raw) rs s)"
  using assms
proof (induction rs arbitrary: s)
  case (Cons r rs)
  obtain later cust where r: "r = (later, cust)" by (cases r)
  have "0 \<le> sum_list (map fst rs)"
    using Cons.prems(2) by (intro sum_list_nonneg) fastforce
  with Cons.prems r have "send_window (normalize_wa_number raw) n e (ask E raw r s) \<and> clock (ask E raw r s) = clock s + later"
    unfolding r by (intro ask_window) auto
  with Cons show ?case by (auto simp: r)
qed simp

text \<open>
  The limit of sends: while the hour that the first request opened is not over, at most three codes
  are sent to a number, whoever asks for them and whenever.  The window is one of fixed hours (where
  the docstring says "rolling hour"): the next request after it opens a new one.
\<close>

theorem otp_sends_limited:
  assumes "map_of (cache s) (count_key (normalize_wa_number raw)) = Some (v, e)" 
    and "\<forall>(later, cust) \<in> set rs. 0 \<le> later" and "clock s + sum_list (map fst rs) < e"
  shows "int (codes_sent (normalize_wa_number raw) (fold (ask E raw) rs s))
     \<le> int (codes_sent (normalize_wa_number raw) s) + (max_sends_per_hour - min v max_sends_per_hour)"
proof -
  let ?n = "normalize_wa_number raw"
  have "send_window ?n (int (codes_sent ?n s) - min v max_sends_per_hour) e s"
    using assms(1) by (simp add: send_window_def)
  from asks_window [OF this assms(2,3), of E] show ?thesis
    by (auto simp: send_window_def)
qed

end
