(* ===== verification/Dashboard.thy ===== *)
theory Dashboard
  imports Web Licensing Otp
begin

text \<open>
  The customer dashboard (\<open>dashboard/views.py\<close>): the views that write (devices, renewal, preferences,
  number verification, secrets, refunds, lessons, reviews) and the checks of the views that hand out
  something (downloads, courses).  The pages that only read are in \<open>Account_Pages\<close>.
\<close>

section \<open>Helpers\<close>

definition my_customer :: "user option \<Rightarrow> (customer \<Rightarrow> response prog) \<Rightarrow> response prog" where
  "my_customer request_user view = login_required request_user (\<lambda>u. bnd (get_or_create_customer u) view)"

text \<open>\<open>_renewal_forecast\<close>: the next subscription to renew, the time until then and the missing balance.\<close>

definition renewal_forecast :: "nat \<Rightarrow> (subscription \<times> int \<times> int) option prog" where
  "renewal_forecast cust =
     bnd (gets (\<lambda>s. sort_key sub_period_end (filter (\<lambda>r. sub_customer r = cust \<and> sub_status r = Sub_ACTIVE \<and> sub_auto_renew r) (t_subs s)))) (\<lambda>subs.
     case subs of
       [] \<Rightarrow> ret None
     | next_sub # _ \<Rightarrow>
         bnd now (\<lambda>t.
         bnd (customer_wallet cust) (\<lambda>w.
         bnd (plan_get (sub_plan next_sub)) (\<lambda>pl.
         ret (Some (next_sub, sub_period_end next_sub - t, max 0 (pl_price pl - w_balance w)))))))"

section \<open>Devices and subscriptions\<close>

definition license_owner :: "nat \<Rightarrow> db \<Rightarrow> nat option" where
  "license_owner l s = map_option li_customer (find_by li_pk l (t_licenses s))"

definition deactivate_device :: "user option \<Rightarrow> nat \<Rightarrow> response prog" where
  "deactivate_device request_user k = my_customer request_user (\<lambda>c.
     bnd (or_404 (\<lambda>s. find (\<lambda>r. in_pk r = k \<and> license_owner (in_license r) s = Some (c_pk c) \<and> in_status r = Installation_ACTIVE)
                        (t_installations s))) (\<lambda>installation.
     bnd (modify (\<lambda>s. s\<lparr>t_installations := upd_by in_pk k (\<lambda>r. r\<lparr>in_status := Installation_DEACTIVATED\<rparr>) (t_installations s)\<rparr>)) (\<lambda>_.
     bnd (log_action ''device.deactivated'' None (Some (''Installation'', k)) [(''customer_id'', JInt (int (c_pk c)))]) (\<lambda>_.
     ret (Redirect ''dashboard:devices'')))))"

definition toggle_auto_renew :: "user option \<Rightarrow> nat \<Rightarrow> response prog" where
  "toggle_auto_renew request_user k = my_customer request_user (\<lambda>c.
     bnd (or_404 (\<lambda>s. find (\<lambda>r. sub_pk r = k \<and> sub_customer r = c_pk c) (t_subs s))) (\<lambda>sub.
     bnd (modify (\<lambda>s. s\<lparr>t_subs := upd_by sub_pk k (\<lambda>r. r\<lparr>sub_auto_renew := \<not> sub_auto_renew sub\<rparr>) (t_subs s)\<rparr>)) (\<lambda>_.
     ret (Redirect ''dashboard:subscriptions''))))"

section \<open>Profile and number verification\<close>

definition profile :: "user option \<Rightarrow> form option \<Rightarrow> response prog" where
  "profile request_user post = my_customer request_user (\<lambda>c.
     case post of
       None \<Rightarrow> ret (Page ''dashboard/profile.html'')
     | Some f \<Rightarrow>
         let channel = (if post_get f ''notification_channel'' ''email'' = ''whatsapp'' \<and> wa_verified c
                        then Channel_WHATSAPP else Channel_EMAIL);
             promo = (post_get f ''notif_promo'' [] \<noteq> [])
         in bnd (modify (\<lambda>s. s\<lparr>t_customers := upd_by c_pk (c_pk c) (\<lambda>r. r\<lparr>c_channel := channel, c_notif_promo := promo\<rparr>) (t_customers s)\<rparr>)) (\<lambda>_.
            ret (Redirect ''dashboard:profile'')))"

fun is_otp_error :: "exn \<Rightarrow> bool" where
  "is_otp_error (OtpError _) = True"
| "is_otp_error _ = False"

definition posted_number :: "form \<Rightarrow> customer \<Rightarrow> string" where
  "posted_number f c = (let n = strip (post_get f ''wa_number'' []) in if n = [] then c_wa_number c else n)"

definition wa_send_otp :: "env \<Rightarrow> user option \<Rightarrow> form \<Rightarrow> response prog" where
  "wa_send_otp E request_user f = my_customer request_user (\<lambda>c.
     try_except (request_code E (c_pk c) (posted_number f c)) is_otp_error
       (\<lambda>_. ret (Redirect ''dashboard:profile'')) (\<lambda>_. ret (Redirect ''dashboard:profile'')))"

definition wa_verify_otp :: "env \<Rightarrow> user option \<Rightarrow> form \<Rightarrow> response prog" where
  "wa_verify_otp E request_user f = my_customer request_user (\<lambda>c.
     try_except (verify_code E (c_pk c) (posted_number f c) (post_get f ''code'' [])) is_otp_error
       (\<lambda>_. ret (Redirect ''dashboard:profile'')) (\<lambda>_. ret (Redirect ''dashboard:profile'')))"

section \<open>What was bought\<close>

definition my_grant :: "nat \<Rightarrow> customer \<Rightarrow> grant prog" where
  "my_grant k c = or_404 (\<lambda>s. find (\<lambda>g. g_pk g = k \<and> g_customer g = c_pk c) (t_grants s))"

text \<open>The secret is decrypted and shown; \<open>is_revealed\<close> records that it was.\<close>

definition reveal_secret :: "env \<Rightarrow> user option \<Rightarrow> nat \<Rightarrow> response prog" where
  "reveal_secret E request_user k = my_customer request_user (\<lambda>c.
     bnd (my_grant k c) (\<lambda>g.
     bnd (gets (\<lambda>s. find_by se_grant k (t_secrets s))) (\<lambda>v.
     case v of
       None \<Rightarrow> ret (Content ''No secret available.'')
     | Some secret \<Rightarrow>
         bnd (or_raise (fernet_decrypt E (se_ciphertext secret)) InvalidToken) (\<lambda>plaintext.
         bnd (when_m (\<not> se_revealed secret)
                (modify (\<lambda>s. s\<lparr>t_secrets := upd_by se_grant k (\<lambda>r. r\<lparr>se_revealed := True\<rparr>) (t_secrets s)\<rparr>))) (\<lambda>_.
         ret (Content plaintext))))))"

definition gated_download :: "user option \<Rightarrow> nat \<Rightarrow> response prog" where
  "gated_download request_user k = my_customer request_user (\<lambda>c.
     bnd (or_404 (\<lambda>s. find (\<lambda>g. g_pk g = k \<and> g_customer g = c_pk c \<and> g_type g = ''download'') (t_grants s))) (\<lambda>g.
     let url = json_get (g_payload g) ''download_url'' (JStr [])
     in if g_status g \<noteq> Grant_ACTIVE then ret (Redirect ''dashboard:products'')
        else if \<not> truthy url then ret (Redirect ''dashboard:products'')
        else ret (Redirect (py_str url))))"

definition course_player :: "user option \<Rightarrow> nat \<Rightarrow> response prog" where
  "course_player request_user product_pk = my_customer request_user (\<lambda>c.
     bnd (or_404 (\<lambda>s. find_by pr_pk product_pk (t_products s))) (\<lambda>pr.
     bnd (gets (\<lambda>s. \<exists>g \<in> set (t_grants s). g_customer g = c_pk c \<and> g_type g = ''course'' \<and> g_status g = Grant_ACTIVE
            \<and> json_get (g_payload g) ''product_id'' JNull = JInt (int product_pk))) (\<lambda>has_access.
     if \<not> has_access then ret (Redirect ''dashboard:products'') else ret (Page ''dashboard/course_player.html''))))"

text \<open>A lesson of a module of the product\<close>

definition course_lesson :: "nat \<Rightarrow> nat \<Rightarrow> db \<Rightarrow> lesson option" where
  "course_lesson product_pk lesson_pk s =
     find (\<lambda>l. lm_pk l = lesson_pk \<and> (\<exists>m \<in> set (t_modules s). cm_pk m = lm_module l \<and> cm_product m = product_pk)) (t_lessons s)"

definition lesson_complete :: "user option \<Rightarrow> nat \<Rightarrow> nat \<Rightarrow> response prog" where
  "lesson_complete request_user product_pk lesson_pk = my_customer request_user (\<lambda>c.
     bnd (or_404 (course_lesson product_pk lesson_pk)) (\<lambda>lesson.
     bnd (modify (\<lambda>s. if (c_pk c, lesson_pk) \<in> set (t_progress s) then s
                      else s\<lparr>t_progress := t_progress s @ [(c_pk c, lesson_pk)]\<rparr>)) (\<lambda>_.
     ret (Redirect ''dashboard:course_player''))))"

section \<open>Refund requests and reviews\<close>

definition my_paid_order :: "string \<Rightarrow> customer \<Rightarrow> order prog" where
  "my_paid_order public_id c =
     or_404 (\<lambda>s. find (\<lambda>r. o_public_id r = public_id \<and> o_customer r = c_pk c \<and> o_status r = Order_PAID) (t_orders s))"

definition refund_create :: "nat \<Rightarrow> nat \<Rightarrow> string \<Rightarrow> unit prog" where
  "refund_create cust ord reason =
     bnd new_pk (\<lambda>pk.
     modify (\<lambda>s. s\<lparr>t_refunds := t_refunds s @ [\<lparr>rr_pk = pk, rr_customer = cust, rr_order = Some ord, rr_reason = reason,
       rr_status = Refund_PENDING, rr_admin_note = [], rr_created = clock s\<rparr>]\<rparr>))"

definition refund_request_view :: "user option \<Rightarrow> string \<Rightarrow> form option \<Rightarrow> response prog" where
  "refund_request_view request_user public_id post = my_customer request_user (\<lambda>c.
     bnd (my_paid_order public_id c) (\<lambda>ord.
     bnd (gets (\<lambda>s. \<exists>r \<in> set (t_refunds s). rr_customer r = c_pk c \<and> rr_order r = Some (o_pk ord))) (\<lambda>existing.
     case post of
       None \<Rightarrow> ret (Page ''dashboard/refund_request.html'')
     | Some f \<Rightarrow>
         if existing then ret (Redirect ''dashboard:invoices'')
         else
           let reason = strip (post_get f ''reason'' [])
           in if reason = [] then ret (Page ''dashboard/refund_request.html'')
              else bnd (refund_create (c_pk c) (o_pk ord) reason) (\<lambda>_. ret (Redirect ''dashboard:invoices'')))))"

definition review_create :: "nat \<Rightarrow> nat \<Rightarrow> int \<Rightarrow> string \<Rightarrow> unit prog" where
  "review_create pr ord rating text =
     bnd new_pk (\<lambda>pk.
     modify (\<lambda>s. s\<lparr>t_reviews := t_reviews s @ [\<lparr>rv_pk = pk, rv_product = pr, rv_order = ord, rv_rating = rating,
       rv_text = text, rv_published = False\<rparr>]\<rparr>))"

definition review_submit :: "user option \<Rightarrow> string \<Rightarrow> form \<Rightarrow> response prog" where
  "review_submit request_user public_id f = my_customer request_user (\<lambda>c.
     bnd (my_paid_order public_id c) (\<lambda>ord.
     bnd (gets (\<lambda>s. find_by rv_order (o_pk ord) (t_reviews s) \<noteq> None)) (\<lambda>reviewed.
     let rating = post_int f ''rating'' 0 0
     in if reviewed then ret (Redirect ''storefront:order_status'')
        else if rating < 1 \<or> 5 < rating then ret (Redirect ''storefront:order_status'')
        else
          bnd (plan_get (o_plan ord)) (\<lambda>pl.
          bnd (review_create (pl_product pl) (o_pk ord) rating (strip (post_get f ''text'' []))) (\<lambda>_.
          ret (Redirect ''storefront:order_status''))))))"


section \<open>The dashboard as a whole\<close>

datatype dash_request =
    Req_deactivate nat
  | Req_toggle_renewal nat
  | Req_profile "form option"
  | Req_send_otp form
  | Req_verify_otp form
  | Req_reveal nat
  | Req_download nat
  | Req_course nat
  | Req_lesson nat nat
  | Req_refund string "form option"
  | Req_review string form

fun dashboard :: "env \<Rightarrow> user option \<Rightarrow> dash_request \<Rightarrow> response prog" where
  "dashboard E who (Req_deactivate k) = deactivate_device who k"
| "dashboard E who (Req_toggle_renewal k) = toggle_auto_renew who k"
| "dashboard E who (Req_profile post) = profile who post"
| "dashboard E who (Req_send_otp f) = wa_send_otp E who f"
| "dashboard E who (Req_verify_otp f) = wa_verify_otp E who f"
| "dashboard E who (Req_reveal k) = reveal_secret E who k"
| "dashboard E who (Req_download k) = gated_download who k"
| "dashboard E who (Req_course k) = course_player who k"
| "dashboard E who (Req_lesson k l) = lesson_complete who k l"
| "dashboard E who (Req_refund k post) = refund_request_view who k post"
| "dashboard E who (Req_review k f) = review_submit who k f"

lemma my_customer_wp:
  "find_by c_user (u_pk u) (t_customers s) = Some c \<Longrightarrow> wp (my_customer (Some u) view) Q X s = wp (view c) Q X s"
  by (simp add: my_customer_def login_required_def get_or_create_customer_def wp_simps)

section \<open>A customer only reaches what is theirs\<close>

definition grant_owner :: "nat \<Rightarrow> db \<Rightarrow> nat option" where
  "grant_owner k s = map_option g_customer (find_by g_pk k (t_grants s))"

definition order_owner :: "nat \<Rightarrow> db \<Rightarrow> nat option" where
  "order_owner k s = map_option o_customer (find_by o_pk k (t_orders s))"

text \<open>The rows of the tables the dashboard writes that do not belong to customer \<open>c\<close>.\<close>

definition foreign :: "nat \<Rightarrow> db \<Rightarrow> _" where
  "foreign c s =
     (filter (\<lambda>r. c_pk r \<noteq> c) (t_customers s), filter (\<lambda>r. sub_customer r \<noteq> c) (t_subs s),
      filter (\<lambda>r. license_owner (in_license r) s \<noteq> Some c) (t_installations s), filter (\<lambda>r. grant_owner (se_grant r) s \<noteq> Some c) (t_secrets s),
      filter (\<lambda>r. ot_customer r \<noteq> c) (t_otps s), filter (\<lambda>r. fst r \<noteq> c) (t_progress s), filter (\<lambda>r. rr_customer r \<noteq> c) (t_refunds s),
      filter (\<lambda>r. order_owner (rv_order r) s \<noteq> Some c) (t_reviews s))"

text \<open>The tables it must not write at all.\<close>

definition shared :: "db \<Rightarrow> _" where
  "shared s = (t_wallets s, t_ledger s, t_orders s, t_grants s, t_licenses s, t_topups s, t_coupons s, t_earnings s, t_payouts s, t_settings s,
     t_users s, t_sellers s, t_products s, t_plans s)"

definition kept :: "nat \<Rightarrow> db \<Rightarrow> db \<Rightarrow> bool" where
  "kept c s t = (foreign c t = foreign c s \<and> shared t = shared s)"

lemma kept_refl [simp]: "kept c s s"
  by (simp add: kept_def)

text \<open>The primary keys and one-to-one columns of the database.\<close>

definition keys_ok :: "db \<Rightarrow> bool" where
  "keys_ok s = (distinct (map sub_pk (t_subs s)) \<and> distinct (map in_pk (t_installations s)) \<and> distinct (map g_pk (t_grants s))
     \<and> distinct (map ot_pk (t_otps s)) \<and> distinct (map o_pk (t_orders s)))"

interpretation mine: messaging_frame "\<lambda>s. (foreign c s, shared s) = V" "\<lambda>s. (foreign c s, shared s)"
  by unfold_locales (auto simp: foreign_def shared_def license_owner_def grant_owner_def order_owner_def)

lemma request_code_mine: "pres (\<lambda>s. (foreign c s, shared s) = V) (request_code E c raw)"
proof -
  have "pres (\<lambda>s. (foreign c s, shared s) = V) (otp_create c number h)" for number h
    unfolding otp_create_def
    by (intro pres_intros pres_modify)
      (auto simp: foreign_def shared_def license_owner_def grant_owner_def order_owner_def)
  moreover have "pres (\<lambda>s. (foreign c s, shared s) = V) (draw_code E)"
    unfolding draw_code_def Let_def by (intro pres_intros mine.frame_modify)
      (auto simp: foreign_def shared_def license_owner_def grant_owner_def order_owner_def)
  ultimately show ?thesis
    unfolding request_code_def count_send_def template_mode_def Let_def by (intro pres_intros)
qed

lemma wa_send_otp_kept:
  assumes "find_by c_user (u_pk u) (t_customers s) = Some c"
  shows "wp (wa_send_otp E (Some u) f) (\<lambda>_ t. kept (c_pk c) s t) (\<lambda>_ t. kept (c_pk c) s t) s"
proof -
  have "wp (request_code E (c_pk c) raw) (\<lambda>_ t. kept (c_pk c) s t) (\<lambda>_ t. kept (c_pk c) s t) s" for raw
    using presD [OF request_code_mine [of "c_pk c" "(foreign (c_pk c) s, shared s)" E raw], of s] by (simp add: kept_def wp_inv)
  then show ?thesis
    using assms by (simp add: wa_send_otp_def my_customer_wp wp_simps)
qed

lemma wa_verify_otp_kept:
  assumes "find_by c_user (u_pk u) (t_customers s) = Some c" and "keys_ok s"
  shows "wp (wa_verify_otp E (Some u) f) (\<lambda>_ t. kept (c_pk c) s t) (\<lambda>_ t. kept (c_pk c) s t) s"
proof -
  have other: "ot_pk x \<noteq> ot_pk r" if "newest_code (c_pk c) number s = Some r" "x \<in> set (t_otps s)" "ot_customer x \<noteq> c_pk c" for number r x
    using that assms(2) open_code_number [OF that(1)] by (auto simp: keys_ok_def open_code_def dest: distinct_key)
  have "wp (verify_code E (c_pk c) raw code) (\<lambda>_ t. kept (c_pk c) s t) (\<lambda>_ t. kept (c_pk c) s t) s" for raw code
    by (rule wp_mono [OF verify_code_wp])
      (auto simp: kept_def foreign_def shared_def license_owner_def grant_owner_def order_owner_def upd_own other intro!: upd_own dest: other)
  then show ?thesis
    using assms(1) by (simp add: wa_verify_otp_def my_customer_wp wp_simps)
qed

lemma own_secret:
  assumes "keys_ok s" and "find (\<lambda>g. g_pk g = k \<and> g_customer g = c) (t_grants s) = Some g"
  shows "grant_owner k s = Some c"
  using assms find_by_distinct [of g_pk "t_grants s" g] by (auto simp: keys_ok_def grant_owner_def dest!: find_SomeD)

lemma own_order:
  assumes "keys_ok s" and "find (\<lambda>r. o_public_id r = p \<and> o_customer r = c \<and> o_status r = Order_PAID) (t_orders s) = Some ord"
  shows "order_owner (o_pk ord) s = Some c"
  using assms find_by_distinct [of o_pk "t_orders s" ord] by (auto simp: keys_ok_def order_owner_def dest!: find_SomeD)

lemmas dashboard_defs = deactivate_device_def toggle_auto_renew_def profile_def reveal_secret_def my_grant_def gated_download_def
  course_player_def lesson_complete_def refund_request_view_def my_paid_order_def refund_create_def review_submit_def review_create_def
  plan_get_def

lemmas kept_defs = kept_def foreign_def shared_def license_owner_def grant_owner_def order_owner_def

lemma dashboard_kept:
  assumes c: "find_by c_user (u_pk u) (t_customers s) = Some c" and keys: "keys_ok s"
  shows "wp (dashboard E (Some u) req) (\<lambda>_ t. kept (c_pk c) s t) (\<lambda>_ t. kept (c_pk c) s t) s"
proof (cases req)
  case (Req_deactivate k)
  have "in_pk x \<noteq> k" if "find (\<lambda>r. in_pk r = k \<and> license_owner (in_license r) s = Some (c_pk c) \<and> in_status r = Installation_ACTIVE)
      (t_installations s) = Some r" "x \<in> set (t_installations s)" "license_owner (in_license x) s \<noteq> Some (c_pk c)" for x r
    using that keys find_SomeD [OF that(1)] by (auto simp: keys_ok_def dest: distinct_key)
  then show ?thesis
    using c by (auto simp: Req_deactivate deactivate_device_def my_customer_wp wp_simps kept_defs split: option.split intro!: upd_own)
next
  case (Req_toggle_renewal k)
  have "sub_pk x \<noteq> k" if "find (\<lambda>r. sub_pk r = k \<and> sub_customer r = c_pk c) (t_subs s) = Some r" "x \<in> set (t_subs s)"
      "sub_customer x \<noteq> c_pk c" for x r
    using that keys find_SomeD [OF that(1)] by (auto simp: keys_ok_def dest: distinct_key)
  then show ?thesis
    using c by (auto simp: Req_toggle_renewal toggle_auto_renew_def my_customer_wp wp_simps kept_defs split: option.split intro!: upd_own)
next
  case (Req_reveal k)
  then show ?thesis
    using c own_secret [OF keys, of k "c_pk c"]
    by (auto simp: reveal_secret_def my_grant_def my_customer_wp wp_simps kept_defs split: option.split intro!: upd_own)
next
  case (Req_review p f)
  then show ?thesis
    using c own_order [OF keys, of p "c_pk c"]
    by (auto simp: review_submit_def my_paid_order_def review_create_def plan_get_def my_customer_wp wp_simps kept_defs Let_def split: option.split)
next
  case (Req_send_otp f)
  then show ?thesis using wa_send_otp_kept [OF c] by simp
next
  case (Req_verify_otp f)
  then show ?thesis using wa_verify_otp_kept [OF c keys] by simp
qed (use c in \<open>auto simp: dashboard_defs my_customer_wp wp_simps kept_defs Let_def split: option.split intro!: upd_own\<close>)


text \<open>A customer who tries to deactivate the device of another.\<close>

definition example_dash_user :: user where
  "example_dash_user = \<lparr>u_pk = 3, u_email = ''a@b.c'', u_superuser = False, u_operator = False, u_verified = True\<rparr>"

definition example_dash_customer :: customer where
  "example_dash_customer = \<lparr>c_pk = 1, c_user = 3, c_email = ''a@b.c'', c_wa_number = [], c_wa_verified_at = None,
     c_channel = Channel_EMAIL, c_notif_promo = False\<rparr>"

definition example_dash_db :: db where
  "example_dash_db = empty_db\<lparr>t_customers := [example_dash_customer],
     t_licenses := [\<lparr>li_pk = 5, li_key = ''OSS-A'', li_customer = 2, li_plan = 2, li_sub = None, li_grant = None,
       li_status = License_ACTIVE, li_seat_limit = 1\<rparr>],
     t_installations := [\<lparr>in_pk = 6, in_license = 5, in_fingerprint = ''pc'', in_name = ''pc'', in_status = Installation_ACTIVE,
       in_last_seen = None\<rparr>]\<rparr>"


section \<open>The interface to the rest of the program\<close>

text \<open>
  An invariant that looks at none of the tables below is kept by every request, if a refund request
  and the deactivation of a device keep it.
\<close>

locale dashboard_base = messaging_frame I view + spending_inv I for I view +
  assumes view_dashboard: "view (s\<lparr>t_customers := Cu\<rparr>) = view s" "view (s\<lparr>t_subs := Su\<rparr>) = view s"
      "view (s\<lparr>t_secrets := Se\<rparr>) = view s" "view (s\<lparr>t_otps := Ot\<rparr>) = view s" "view (s\<lparr>t_progress := Pr\<rparr>) = view s"
      "view (s\<lparr>t_reviews := Rv\<rparr>) = view s"
begin

lemma edit_pres [pres_intros]:
  "pres I (modify (\<lambda>s. s\<lparr>t_customers := Cw s\<rparr>))" "pres I (modify (\<lambda>s. s\<lparr>t_subs := Sw s\<rparr>))"
  "pres I (modify (\<lambda>s. s\<lparr>t_secrets := Ew s\<rparr>))" "pres I (modify (\<lambda>s. s\<lparr>t_otps := Ow s\<rparr>))" "pres I (modify (\<lambda>s. s\<lparr>t_reviews := Rw s\<rparr>))"
  "pres I (modify (\<lambda>s. if b s then s else s\<lparr>t_progress := Pw s\<rparr>))"
  by (auto intro!: frame_modify simp: view_dashboard)

lemma my_customer_pres [pres_intros]: "(\<And>c. pres I (body c)) \<Longrightarrow> pres I (my_customer who body)"
  unfolding my_customer_def get_or_create_customer_def Let_def by (intro pres_intros)

lemma deactivate_keeps:
  "(\<And>s In. view (s\<lparr>t_installations := In\<rparr>) = view s) \<Longrightarrow> pres I (deactivate_device who k)"
  unfolding deactivate_device_def by (intro pres_intros frame_modify) simp_all

lemma codes_pres [pres_intros]: "pres I (request_code E c raw)" "pres I (verify_code E c raw code)"
proof -
  have "pres I (draw_code E)"
    unfolding draw_code_def Let_def by (intro pres_intros frame_modify) (simp_all add: view_core)
  then show "pres I (request_code E c raw)"
    unfolding request_code_def count_send_def template_mode_def otp_create_def Let_def by (intro pres_intros)
  show "pres I (verify_code E c raw code)"
    unfolding verify_code_def otp_save_def Let_def by (intro pres_intros)
qed

end

locale dashboard_frame = dashboard_base +
  assumes refund_request_pres: "pres I (refund_request_view who p post)"
    and deactivate_device_pres: "pres I (deactivate_device who k)"
begin

lemma views_pres:
  "pres I (toggle_auto_renew who k)" "pres I (profile who post)" "pres I (wa_send_otp E who f)"
  "pres I (wa_verify_otp E who f)" "pres I (reveal_secret E who k)" "pres I (gated_download who k)" "pres I (course_player who k)"
  "pres I (lesson_complete who k l)" "pres I (review_submit who p f)"
  unfolding toggle_auto_renew_def profile_def wa_send_otp_def wa_verify_otp_def reveal_secret_def my_grant_def
    gated_download_def course_player_def lesson_complete_def my_paid_order_def review_submit_def review_create_def
    plan_get_def Let_def
  by (intro pres_intros)+

lemma dashboard_pres [pres_intros]: "pres I (dashboard E who req)"
  by (cases req) (simp_all add: views_pres refund_request_pres deactivate_device_pres)

end

interpretation ledger: dashboard_base ledger_ok "\<lambda>s. (t_wallets s, t_ledger s)"
  by unfold_locales auto
interpretation sales: dashboard_base sales_ok "\<lambda>s. (t_orders s, t_coupons s, t_earnings s)"
  by unfold_locales auto

lemma refund_request_money: "pres ledger_ok (refund_request_view who p post)" "pres sales_ok (refund_request_view who p post)"
  unfolding refund_request_view_def my_paid_order_def refund_create_def Let_def
  by (intro pres_intros ledger.frame_modify sales.frame_modify; simp)+

interpretation ledger: dashboard_frame ledger_ok "\<lambda>s. (t_wallets s, t_ledger s)"
  by unfold_locales (simp_all add: refund_request_money ledger.deactivate_keeps)
interpretation sales: dashboard_frame sales_ok "\<lambda>s. (t_orders s, t_coupons s, t_earnings s)"
  by unfold_locales (simp_all add: refund_request_money sales.deactivate_keeps)

section \<open>Refund requests\<close>

text \<open>The requests of any customers, in the order they are served.\<close>

definition visits :: "env \<Rightarrow> (user option \<times> dash_request) list \<Rightarrow> db \<Rightarrow> db" where
  "visits E reqs s = fold (\<lambda>(who, req) t. snd (dashboard E who req t)) reqs s"

definition refunds_ok :: "db \<Rightarrow> bool" where
  "refunds_ok s = distinct (map (\<lambda>r. (rr_customer r, rr_order r)) (filter (\<lambda>r. rr_order r \<noteq> None) (t_refunds s)))"

definition asked_for :: "order list \<Rightarrow> refund_request \<Rightarrow> bool" where
  "asked_for orders r = (rr_status r = Refund_PENDING \<and> rr_reason r \<noteq> []
     \<and> (\<exists>ord \<in> set orders. rr_order r = Some (o_pk ord) \<and> o_customer ord = rr_customer r \<and> o_status ord = Order_PAID))"

definition refunds_from :: "order list \<Rightarrow> refund_request list \<Rightarrow> db \<Rightarrow> bool" where
  "refunds_from Ord R s = (t_orders s = Ord \<and> refunds_ok s \<and> (\<exists>N. t_refunds s = R @ N \<and> (\<forall>r \<in> set N. asked_for Ord r)))"

interpretation requests: wallet_frame "refunds_from Ord R" "\<lambda>s. (t_orders s, t_refunds s)"
  by unfold_locales (auto simp: refunds_from_def refunds_ok_def)
interpretation requests: dashboard_base "refunds_from Ord R" "\<lambda>s. (t_orders s, t_refunds s)"
  by unfold_locales auto

lemma refund_request_asked: "pres (refunds_from Ord R) (refund_request_view who p post)"
  unfolding refund_request_view_def
proof (rule requests.my_customer_pres)
  fix c
  show "pres (refunds_from Ord R) (bnd (my_paid_order p c) (\<lambda>ord.
     bnd (gets (\<lambda>s. \<exists>r \<in> set (t_refunds s). rr_customer r = c_pk c \<and> rr_order r = Some (o_pk ord))) (\<lambda>existing.
     case post of
       None \<Rightarrow> ret (Page ''dashboard/refund_request.html'')
     | Some f \<Rightarrow>
         if existing then ret (Redirect ''dashboard:invoices'')
         else
           let reason = strip (post_get f ''reason'' [])
           in if reason = [] then ret (Page ''dashboard/refund_request.html'')
              else bnd (refund_create (c_pk c) (o_pk ord) reason) (\<lambda>_. ret (Redirect ''dashboard:invoices'')))))"
    by (auto simp: pres_wp my_paid_order_def refund_create_def wp_simps Let_def refunds_from_def refunds_ok_def asked_for_def
        dest!: find_SomeD split: option.split)
qed

interpretation requests: dashboard_frame "refunds_from Ord R" "\<lambda>s. (t_orders s, t_refunds s)"
  by unfold_locales (simp_all add: refund_request_asked requests.deactivate_keeps)

text \<open>
  An order is asked back at most once, and only by who paid it.  However customers use the
  dashboard, no customer ever has two refund requests for one order, and every request they added
  is pending, gives a reason and names an order that is paid and theirs; earlier requests stay.
\<close>

theorem refund_requested_once:
  assumes "refunds_ok s"
  shows "refunds_ok (visits E reqs s)
     \<and> (\<exists>N. t_refunds (visits E reqs s) = t_refunds s @ N \<and> (\<forall>r \<in> set N. asked_for (t_orders s) r))"
proof -
  have "refunds_from (t_orders s) (t_refunds s) (visits E reqs t)" if "refunds_from (t_orders s) (t_refunds s) t" for t
    using that
    by (induction reqs arbitrary: t) (auto simp: visits_def intro: presD [OF requests.dashboard_pres])
  moreover have "refunds_from (t_orders s) (t_refunds s) s"
    using assms by (simp add: refunds_from_def)
  ultimately show ?thesis
    by (auto simp: refunds_from_def)
qed

theorem refund_requested_once_witness:
  "refunds_ok (visits demo_env [(Some example_dash_user, Req_refund ''ord_1'' (Some [(''reason'', ''late'')]))] example_dash_db)"
proof -
  have "refunds_ok example_dash_db"
    by (simp add: refunds_ok_def example_dash_db_def empty_db_def)
  from conjunct1 [OF refund_requested_once [OF this]] show ?thesis .
qed

section \<open>Access that outlives the grant\<close>

text \<open>
  The secret of a grant is handed out whatever the status of the grant: a suspended or revoked
  subscription still shows its API keys and credentials, and it shows them on every request.
\<close>

theorem revoked_secret_revealed:
  assumes "find_by c_user (u_pk u) (t_customers s) = Some c" and "find (\<lambda>g. g_pk g = k \<and> g_customer g = c_pk c) (t_grants s) = Some g"
    and "g_status g = Grant_REVOKED" and "find_by se_grant k (t_secrets s) = Some v" and "fernet_decrypt E (se_ciphertext v) = Some p"
  shows "fst (reveal_secret E (Some u) k s) = Inr (Content p) \<and> fst (reveal_secret E (Some u) k (snd (reveal_secret E (Some u) k s))) = Inr (Content p)"
proof -
  have "find_by se_grant k (upd_by se_grant k (\<lambda>r. r\<lparr>se_revealed := True\<rparr>) (t_secrets s)) = Some (v\<lparr>se_revealed := True\<rparr>)"
    using assms(4) by (simp add: find_by_upd_by)
  with assms show ?thesis
    by (simp add: reveal_secret_def my_customer_def login_required_def get_or_create_customer_def my_grant_def run_simps)
qed

text \<open>A lesson of a product the customer never bought can be marked as done.\<close>

theorem lesson_needs_no_purchase:
  assumes "find_by c_user (u_pk u) (t_customers s) = Some c" and "course_lesson p k s = Some l"
    and "t_grants s = []"
  shows "(c_pk c, k) \<in> set (t_progress (snd (lesson_complete (Some u) p k s)))"
  using assms by (simp add: lesson_complete_def my_customer_def login_required_def get_or_create_customer_def run_simps)

end
