(* ===== verification/Reminders.thy ===== *)
theory Reminders
  imports Messaging Json_Text Subscriptions
begin

text \<open>
  The reminders of \<open>notifications/reminders.py\<close>: five jobs that an hourly task runs, each over the
  rows whose date lies in a window around a distance from now, each message guarded by a row of the
  notification log with a unique key.  The values put into the messages are kept, the fixed text
  around them is not.
\<close>

section \<open>Once per key\<close>

definition log_create :: "string \<Rightarrow> notification_channel \<Rightarrow> string \<Rightarrow> unit prog" where
  "log_create key channel recipient =
     bnd (gets (\<lambda>s. key \<in> nl_key ` set (t_notification_log s))) (\<lambda>taken.
     bnd (check (\<not> taken) (IntegrityError ''dedup_key'')) (\<lambda>_.
     modify (\<lambda>s. s\<lparr>t_notification_log := t_notification_log s @
       [\<lparr>nl_key = key, nl_channel = channel, nl_recipient = recipient\<rparr>]\<rparr>)))"

definition try_log :: "string \<Rightarrow> notification_channel \<Rightarrow> string \<Rightarrow> bool prog" where
  "try_log key channel recipient =
     try_except (atomic (log_create key channel recipient)) is_integrity (\<lambda>_. ret False) (\<lambda>_. ret True)"

definition send_once :: "env \<Rightarrow> customer \<Rightarrow> string \<Rightarrow> string \<Rightarrow> string list \<Rightarrow> string list \<Rightarrow> bool prog" where
  "send_once E c key ev body wa_params =
     bnd (effective_channel c) (\<lambda>channel.
     bnd (try_log key channel (if channel = Channel_WHATSAPP then normalize_wa_number (c_wa_number c) else c_email c)) (\<lambda>fresh.
     if \<not> fresh then ret False
     else bnd (notify E c ev (ev, body) (ev, body) (Some wa_params)) (\<lambda>_. ret True)))"

text \<open>A window of 30 minutes around \<open>center\<close>.\<close>

definition window_around :: "int \<Rightarrow> int \<times> int" where
  "window_around center = (center - 30 * us_minute, center + 30 * us_minute)"

definition in_window :: "int \<times> int \<Rightarrow> int \<Rightarrow> bool" where
  "in_window w t = (fst w \<le> t \<and> t < snd w)"

text \<open>One loop of a job: an exception skips the row; the result counts the messages sent.\<close>

definition remind :: "('r \<Rightarrow> bool prog) \<Rightarrow> (db \<Rightarrow> 'r list) \<Rightarrow> nat prog" where
  "remind body query =
     bnd (gets query) (fold_m (\<lambda>n r. try_except (body r) (\<lambda>_. True) (\<lambda>_. ret n) (\<lambda>sent. ret (if sent then n + 1 else n))) 0)"

text \<open>Querysets come newest first.\<close>

definition subs_where :: "(subscription \<Rightarrow> bool) \<Rightarrow> int \<times> int \<Rightarrow> db \<Rightarrow> subscription list" where
  "subs_where p w s = rev (filter (\<lambda>r. p r \<and> in_window w (sub_period_end r)) (t_subs s))"

section \<open>Values in the messages\<close>

text \<open>\<open>f"{v:,}"\<close> and \<open>.date().isoformat()\<close>\<close>

definition thousands :: "int \<Rightarrow> string" where
  "thousands v = (if v < 0 then ''-'' else []) @ comma_format (nat \<bar>v\<bar>)"

definition iso_date :: "int \<Rightarrow> string" where
  "iso_date t = (let (y, m, d) = civil_date (t div us_day) in pad_int 4 y @ ''-'' @ pad_int 2 m @ ''-'' @ pad_int 2 d)"

text \<open>The key of a reminder of a subscription's period, e.g. \<open>reminder:7:2025-01-31:h3\<close>.\<close>

definition sub_key :: "string \<Rightarrow> subscription \<Rightarrow> string \<Rightarrow> string" where
  "sub_key kind sub slug = kind @ '':'' @ str_nat (sub_pk sub) @ '':'' @ iso_date (sub_period_end sub) @ slug"

section \<open>The five jobs\<close>

definition renewal_reminder :: "env \<Rightarrow> string \<Rightarrow> string \<Rightarrow> subscription \<Rightarrow> bool prog" where
  "renewal_reminder E slug label sub =
     bnd (customer_get (sub_customer sub)) (\<lambda>c.
     bnd (customer_wallet (sub_customer sub)) (\<lambda>w.
     bnd (plan_get (sub_plan sub)) (\<lambda>pl.
     let shortfall = max 0 (pl_price pl - w_balance w);
         values = [pl_name pl, label, thousands (pl_price pl), thousands (w_balance w), thousands shortfall]
     in if shortfall = 0 then ret False
        else send_once E c (sub_key ''reminder'' sub ('':'' @ slug)) (''reminder:'' @ slug) values values)))"

definition dispatch_renewal_reminders :: "env \<Rightarrow> (nat \<times> nat) prog" where
  "dispatch_renewal_reminders E =
     bnd now (\<lambda>t.
     let due = (\<lambda>hours. subs_where (\<lambda>r. sub_status r = Sub_ACTIVE \<and> sub_auto_renew r) (window_around (t + hours * us_hour)))
     in bnd (remind (renewal_reminder E ''h3'' ''H-3'') (due 3)) (\<lambda>h3.
        bnd (remind (renewal_reminder E ''h1'' ''H-1'') (due 1)) (\<lambda>h1. ret (h3, h1))))"

definition low_balance_alert :: "env \<Rightarrow> subscription \<Rightarrow> bool prog" where
  "low_balance_alert E sub =
     bnd (customer_get (sub_customer sub)) (\<lambda>c.
     bnd (customer_wallet (sub_customer sub)) (\<lambda>w.
     bnd (plan_get (sub_plan sub)) (\<lambda>pl.
     let values = [thousands (w_balance w), pl_name pl, thousands (pl_price pl), iso_date (sub_period_end sub)]
     in if pl_price pl \<le> w_balance w then ret False
        else send_once E c (sub_key ''lowbal'' sub []) ''low_balance'' values values)))"

definition dispatch_low_balance_alerts :: "env \<Rightarrow> nat prog" where
  "dispatch_low_balance_alerts E =
     bnd now (\<lambda>t. remind (low_balance_alert E)
       (subs_where (\<lambda>r. sub_status r = Sub_ACTIVE \<and> sub_auto_renew r) (t + 5 * us_day, t + 7 * us_day)))"

definition days_left :: "int \<Rightarrow> string" where
  "days_left days = (if days = 1 then ''1 day'' else str_int days @ '' days'')"

definition expiry_reminder :: "env \<Rightarrow> string \<Rightarrow> int \<Rightarrow> subscription \<Rightarrow> bool prog" where
  "expiry_reminder E slug days sub =
     bnd (plan_get (sub_plan sub)) (\<lambda>pl.
     bnd (customer_get (sub_customer sub)) (\<lambda>c.
     let values = [pl_name pl, iso_date (sub_period_end sub), days_left days]
     in send_once E c (sub_key ''expiry'' sub ('':'' @ slug)) (''expiry:'' @ slug) values values))"

definition expiry_due :: "int \<Rightarrow> db \<Rightarrow> subscription list" where
  "expiry_due center = subs_where (\<lambda>r. sub_status r = Sub_ACTIVE \<and> \<not> sub_auto_renew r) (window_around center)"

definition dispatch_expiry_reminders :: "env \<Rightarrow> (nat \<times> nat \<times> nat) prog" where
  "dispatch_expiry_reminders E =
     bnd now (\<lambda>t.
     bnd (remind (expiry_reminder E ''d7'' 7) (expiry_due (t + 7 * us_day))) (\<lambda>d7.
     bnd (remind (expiry_reminder E ''d3'' 3) (expiry_due (t + 3 * us_day))) (\<lambda>d3.
     bnd (remind (expiry_reminder E ''d1'' 1) (expiry_due (t + 1 * us_day))) (\<lambda>d1.
     ret (d7, d3, d1)))))"

definition grace_reminder :: "env \<Rightarrow> string \<Rightarrow> int \<Rightarrow> subscription \<Rightarrow> bool prog" where
  "grace_reminder E slug days sub =
     bnd (customer_get (sub_customer sub)) (\<lambda>c.
     bnd (customer_wallet (sub_customer sub)) (\<lambda>w.
     bnd (plan_get (sub_plan sub)) (\<lambda>pl.
     send_once E c (sub_key ''grace'' sub ('':'' @ slug)) (''grace:'' @ slug)
       [pl_name pl, days_left days, thousands (pl_price pl), thousands (w_balance w)]
       [pl_name pl, days_left days, thousands (w_balance w)])))"

definition dispatch_grace_countdown :: "env \<Rightarrow> (nat \<times> nat) prog" where
  "dispatch_grace_countdown E =
     bnd (int_setting ''SUBSCRIPTION_GRACE_DAYS'' ''3'') (\<lambda>grace_days.
     bnd now (\<lambda>t.
     let due = (\<lambda>days. subs_where (\<lambda>r. sub_status r = Sub_GRACE) (window_around (t + (days - grace_days) * us_day)))
     in bnd (remind (grace_reminder E ''g2'' 2) (due 2)) (\<lambda>g2.
        bnd (remind (grace_reminder E ''g1'' 1) (due 1)) (\<lambda>g1. ret (g2, g1)))))"

definition pending_order_reminder :: "env \<Rightarrow> string \<Rightarrow> order \<Rightarrow> bool prog" where
  "pending_order_reminder E slug ord =
     bnd (plan_get (o_plan ord)) (\<lambda>pl.
     bnd (plan_str pl) (\<lambda>plan_name.
     bnd (customer_get (o_customer ord)) (\<lambda>c.
     let values = [plan_name, thousands (o_amount ord)]
     in send_once E c (''order_pending:'' @ str_nat (o_pk ord) @ '':'' @ slug) (''order_pending:'' @ slug) values values)))"

definition dispatch_pending_order_reminders :: "env \<Rightarrow> (nat \<times> nat) prog" where
  "dispatch_pending_order_reminders E =
     bnd now (\<lambda>t.
     let due = (\<lambda>age_hours s. rev (filter (\<lambda>r. o_status r = Order_PENDING \<and> o_channel r = Pay_QRIS_STATIC
                  \<and> in_window (window_around (t - age_hours * us_hour)) (o_created r)) (t_orders s)))
     in bnd (remind (pending_order_reminder E ''h2'') (due 2)) (\<lambda>h2.
        bnd (remind (pending_order_reminder E ''h24'') (due 24)) (\<lambda>h24. ret (h2, h24))))"

definition dispatch_all_reminders :: "env \<Rightarrow> unit prog" where
  "dispatch_all_reminders E =
     bnd (dispatch_low_balance_alerts E) (\<lambda>_.
     bnd (dispatch_renewal_reminders E) (\<lambda>_.
     bnd (dispatch_expiry_reminders E) (\<lambda>_.
     bnd (dispatch_grace_countdown E) (\<lambda>_.
     bnd (dispatch_pending_order_reminders E) (\<lambda>_. ret ())))))"

text \<open>The Celery task, retried \<open>n\<close> times before.\<close>

definition send_renewal_reminders :: "env \<Rightarrow> nat \<Rightarrow> unit prog" where
  "send_renewal_reminders E n = try_except (dispatch_all_reminders E) (\<lambda>_. True) (retry E n) ret"

section \<open>The interface to the rest of the program\<close>

locale reminders_inv = core_inv +
  assumes send_once_pres [pres_intros]: "pres I (send_once E c key ev body ps)"
begin

lemma remind_pres [pres_intros]: "(\<And>r. pres I (body r)) \<Longrightarrow> pres I (remind body query)"
  unfolding remind_def by (intro pres_intros)

lemma reminder_pres [pres_intros]:
  "pres I (renewal_reminder E slug label sub)" "pres I (low_balance_alert E sub)" "pres I (expiry_reminder E slug days sub)"
  "pres I (grace_reminder E slug days sub)" "pres I (pending_order_reminder E slug ord)"
  unfolding renewal_reminder_def low_balance_alert_def expiry_reminder_def grace_reminder_def pending_order_reminder_def
    customer_get_def customer_wallet_def plan_get_def plan_str_def product_get_def Let_def
  by (intro pres_intros)+

lemma dispatch_pres [pres_intros]:
  "pres I (dispatch_renewal_reminders E)" "pres I (dispatch_low_balance_alerts E)" "pres I (dispatch_expiry_reminders E)"
  "pres I (dispatch_grace_countdown E)" "pres I (dispatch_pending_order_reminders E)"
  unfolding dispatch_renewal_reminders_def dispatch_low_balance_alerts_def dispatch_expiry_reminders_def
    dispatch_grace_countdown_def dispatch_pending_order_reminders_def Let_def
  by (intro pres_intros)+

lemma reminders_pres [pres_intros]: "pres I (dispatch_all_reminders E)" "pres I (send_renewal_reminders E n)"
proof -
  show all: "pres I (dispatch_all_reminders E)"
    unfolding dispatch_all_reminders_def by (intro pres_intros)
  have "pres I (retry E n e)" for e
    unfolding retry_def by (intro pres_intros)
  then show "pres I (send_renewal_reminders E n)"
    unfolding send_renewal_reminders_def by (intro pres_intros all)
qed

end

locale reminders_frame = messaging_frame +
  assumes view_log: "view (s\<lparr>t_notification_log := N\<rparr>) = view s"

sublocale reminders_frame \<subseteq> reminders_inv I
proof
  have "pres I (log_create key channel recipient)" for key channel recipient
    unfolding log_create_def by (intro pres_intros frame_modify) (simp_all add: view_log)
  then show "pres I (send_once E c key ev body ps)" for E c key ev body ps
    unfolding send_once_def try_log_def by (intro pres_intros)
qed

interpretation ledger: reminders_frame ledger_ok "\<lambda>s. (t_wallets s, t_ledger s)"
  by unfold_locales auto
interpretation history: reminders_frame "\<lambda>s. \<exists>M. t_ledger s = L @ M" "\<lambda>s. (t_wallets s, t_ledger s)"
  by unfold_locales auto
interpretation sales: reminders_frame sales_ok "\<lambda>s. (t_orders s, t_coupons s, t_earnings s)"
  by unfold_locales auto

text \<open>The jobs read these tables, and neither they nor the clock change.\<close>

interpretation reads: messaging_inv "\<lambda>s. clock s = T \<and> t_customers s = Cu \<and> t_plans s = Pl \<and> t_subs s = Su"
  by unfold_locales (auto intro!: pres_intros pres_modify simp: log_action_def emit_def new_pk_def queue_def record_delivery_def
      delivery_save_def Let_def)

interpretation reads: reminders_inv "\<lambda>s. clock s = T \<and> t_customers s = Cu \<and> t_plans s = Pl \<and> t_subs s = Su"
  by unfold_locales (auto intro!: pres_intros pres_modify reads.notify_pres reads.message_reads_pres simp: send_once_def try_log_def log_create_def)

section \<open>Each reminder once\<close>

interpretation quiet_log: messaging_frame "\<lambda>s. t_notification_log s = N" t_notification_log
  by unfold_locales auto

lemma effective_channel_reads: "wp (effective_channel c) (\<lambda>_ t. t = s) (\<lambda>_ _. False) s"
  by (rule wp_mono [OF effective_channel_wp]) simp_all

lemma try_log_wp:
  "wp (try_log key channel recipient)
     (\<lambda>fresh t. if fresh then key \<notin> nl_key ` set (t_notification_log s)
         \<and> t = s\<lparr>t_notification_log := t_notification_log s @ [\<lparr>nl_key = key, nl_channel = channel, nl_recipient = recipient\<rparr>]\<rparr>
       else key \<in> nl_key ` set (t_notification_log s) \<and> t = s)
     (\<lambda>_ _. False) s"
  by (simp add: try_log_def log_create_def wp_simps)

lemma send_once_wp:
  "wp (send_once E c key ev body ps)
     (\<lambda>sent t. if sent then key \<notin> nl_key ` set (t_notification_log s)
         \<and> (\<exists>row d task. nl_key row = key \<and> t_notification_log t = t_notification_log s @ [row]
              \<and> t_deliveries t = t_deliveries s @ [d] \<and> dl_customer d = Some (c_pk c) \<and> outbox t = outbox s @ [task])
       else key \<in> nl_key ` set (t_notification_log s) \<and> t = s)
     (\<lambda>_ _. False) s"
  unfolding send_once_def wp_bnd [of "effective_channel c"]
proof (rule wp_mono [OF effective_channel_reads], goal_cases)
  case (1 channel t)
  then have t: "t = s" by simp
  show ?case
    unfolding t wp_bnd [of "try_log _ _ _"]
  proof (rule wp_mono [OF try_log_wp], goal_cases)
    case (1 fresh u)
    show ?case
    proof (cases fresh)
      case True
      have "wp (notify E c ev (ev, body) (ev, body) (Some ps)) (\<lambda>_ v. t_notification_log v = t_notification_log u)
          (\<lambda>_ v. t_notification_log v = t_notification_log u) u"
        using quiet_log.notify_pres(2) [of "t_notification_log u"] unfolding pres_wp by blast
      from wp_both [OF notify_wp this] show ?thesis
        using 1 True by (auto simp: wp_simps elim!: wp_mono)
    qed (use 1 in \<open>simp add: wp_ret\<close>)
  qed simp
qed simp

text \<open>As many messages have been recorded and queued as there are keys in the log, up to \<open>K\<close>.\<close>

definition balanced :: "int \<Rightarrow> int \<Rightarrow> db \<Rightarrow> bool" where
  "balanced K J s =
     (distinct (map nl_key (t_notification_log s))
      \<and> int (length (t_deliveries s)) = K + int (length (t_notification_log s))
      \<and> int (length (outbox s)) = J + int (length (t_notification_log s)))"

interpretation once: reminders_inv "balanced K J"
proof
  show "pres (balanced K J) (log_action a b c d)" "pres (balanced K J) (emit ev)" "pres (balanced K J) new_pk" for a b c d ev
    by (auto simp: pres_def run_simps balanced_def)
  show "balanced K J (s\<lparr>rng := r\<rparr>)" if "balanced K J s" for s r
    using that by (simp add: balanced_def)
  show "pres (balanced K J) (send_once E c key ev body ps)" for E c key ev body ps
    unfolding pres_wp
    by (intro allI impI wp_mono [OF send_once_wp]) (auto simp: balanced_def split: if_splits)
qed

interpretation logged: reminders_inv "\<lambda>s. \<exists>L. t_notification_log s = N @ L"
proof
  show "pres (\<lambda>s. \<exists>L. t_notification_log s = N @ L) (log_action a b c d)" "pres (\<lambda>s. \<exists>L. t_notification_log s = N @ L) (emit ev)"
      "pres (\<lambda>s. \<exists>L. t_notification_log s = N @ L) new_pk" for a b c d ev
    by (auto simp: pres_def run_simps)
  show "pres (\<lambda>s. \<exists>L. t_notification_log s = N @ L) (send_once E c key ev body ps)" for E c key ev body ps
    unfolding pres_wp
    by (intro allI impI wp_mono [OF send_once_wp]) (auto split: if_splits)
qed simp

text \<open>The hourly task, run again and again.\<close>

definition hourly_runs :: "env \<Rightarrow> (int \<times> nat) list \<Rightarrow> db \<Rightarrow> db" where
  "hourly_runs E runs s = fold (\<lambda>(later, n) s. snd (send_renewal_reminders E n (s\<lparr>clock := clock s + later\<rparr>))) runs s"

lemma hourly_runs_keep:
  assumes "\<And>n. pres I (send_renewal_reminders E n)" and "\<And>s c. I s \<Longrightarrow> I (s\<lparr>clock := c\<rparr>)" and "I s"
  shows "I (hourly_runs E runs s)"
  unfolding hourly_runs_def using assms(3)
  by (induction runs arbitrary: s) (auto intro: presD [OF assms(1)] assms(2))

text \<open>
  C30.  Every reminder goes out at most once.  However often the hourly task runs, however late and
  however often Celery retries it, the keys of the log stay distinct and only grow, and the messages
  recorded and handed to the queue are as many as the keys added: one per subscription, period and
  window.
\<close>

theorem reminder_sent_once:
  assumes "distinct (map nl_key (t_notification_log s))"
  shows "\<exists>L. t_notification_log (hourly_runs E runs s) = t_notification_log s @ L
     \<and> distinct (map nl_key (t_notification_log s @ L))
     \<and> length (t_deliveries (hourly_runs E runs s)) = length (t_deliveries s) + length L
     \<and> length (outbox (hourly_runs E runs s)) = length (outbox s) + length L"
proof -
  let ?K = "int (length (t_deliveries s)) - int (length (t_notification_log s))"
  let ?J = "int (length (outbox s)) - int (length (t_notification_log s))"
  have "balanced ?K ?J (hourly_runs E runs s)"
    by (rule hourly_runs_keep [OF once.reminders_pres(2)]) (use assms in \<open>auto simp: balanced_def\<close>)
  moreover have "\<exists>L. t_notification_log (hourly_runs E runs s) = t_notification_log s @ L"
    by (rule hourly_runs_keep [OF logged.reminders_pres(2)]) auto
  ultimately show ?thesis
    by (auto simp: balanced_def)
qed

definition example_reminder_sub :: subscription where
  "example_reminder_sub = \<lparr>sub_pk = 3, sub_customer = 1, sub_plan = 2, sub_status = Sub_ACTIVE,
     sub_period_end = 8 * us_day, sub_auto_renew = False, sub_created = 0\<rparr>"

definition example_reminder_db :: db where
  "example_reminder_db = empty_db\<lparr>t_subs := [example_reminder_sub],
     t_plans := [\<lparr>pl_pk = 2, pl_product = 4, pl_name = ''Pro'', pl_price = 99000, pl_interval = Interval_MONTHLY, pl_seat_limit = 1,
       pl_active = True, pl_pwyw = False, pl_min_price = 0, pl_stock = None, pl_durations = [], pl_sort = 0, pl_direct_pay = False,
       pl_entitlements = []\<rparr>],
     t_customers := [\<lparr>c_pk = 1, c_user = 1, c_email = ''a@b.c'', c_wa_number = [], c_wa_verified_at = None,
       c_channel = Channel_EMAIL, c_notif_promo = False\<rparr>]\<rparr>"

theorem reminder_sent_once_witness:
  "\<exists>L. t_notification_log (hourly_runs demo_env [(us_day, 0), (60, 1)] example_reminder_db) = L \<and> distinct (map nl_key L)"
proof -
  have "distinct (map nl_key (t_notification_log example_reminder_db))"
    by (simp add: example_reminder_db_def empty_db_def)
  from reminder_sent_once [OF this, of demo_env "[(us_day, 0), (60, 1)]"] show ?thesis by auto
qed

section \<open>Each reminder in time\<close>

definition key_logged :: "string \<Rightarrow> db \<Rightarrow> bool" where
  "key_logged key s = (key \<in> nl_key ` set (t_notification_log s))"

interpretation stays: reminders_inv "key_logged key"
proof
  show "pres (key_logged key) (log_action a b c d)" "pres (key_logged key) (emit ev)" "pres (key_logged key) new_pk" for a b c d ev
    by (auto simp: pres_def run_simps key_logged_def)
  show "pres (key_logged key) (send_once E c k ev body ps)" for E c k ev body ps
    unfolding pres_wp by (intro allI impI wp_mono [OF send_once_wp]) (auto simp: key_logged_def split: if_splits)
qed (simp add: key_logged_def)

lemma send_once_logs: "wp (send_once E c key ev body ps) (\<lambda>_. key_logged key) (\<lambda>_ _. False) s"
  by (rule wp_mono [OF send_once_wp]) (auto simp: key_logged_def split: if_splits)

text \<open>A loop never raises, and reaches each of its rows, as the loop before it leaves them.\<close>

lemma remind_returns: "errs (\<lambda>_. False) (remind body query)"
proof -
  have "errs (\<lambda>_. False) (fold_m (\<lambda>n r. try_except (body r) (\<lambda>_. True) (\<lambda>_. ret n) (\<lambda>sent. ret (if sent then n + 1 else n))) k rows)" for k rows
    by (induction rows arbitrary: k)
      (auto intro!: errs_intros simp: errs_def wp_simps intro: wp_any elim!: wp_mono)
  then show ?thesis
    unfolding remind_def by (intro errs_intros)
qed

lemma remind_reaches:
  assumes row: "r \<in> set (query s)" and start: "I s"
    and keep: "\<And>r. pres I (body r)" "\<And>r. pres G (body r)"
    and reach: "\<And>u. I u \<Longrightarrow> G (snd (body r u))"
  shows "G (snd (remind body query s))"
proof -
  let ?f = "\<lambda>(n :: nat) r. try_except (body r) (\<lambda>_. True) (\<lambda>_. ret n) (\<lambda>sent. ret (if sent then n + 1 else n))"
  have step: "snd (?f n x u) = snd (body x u)" for n x u
    by (simp add: run_simps split: prod.split sum.split)
  have returns: "\<exists>m. fst (?f n x u) = Inr m" for n x u
    by (simp add: run_simps split: prod.split sum.split)
  have run: "fold_m ?f n (x # xs) u = fold_m ?f (projr (fst (?f n x u))) xs (snd (body x u))" for n x xs u
    using step [where n = n and x = x and u = u] returns [where n = n and x = x and u = u]
    by (cases "?f n x u"; cases "fst (?f n x u)") (simp_all add: bnd_run)
  have held: "G u \<Longrightarrow> G (snd (fold_m ?f n xs u))" for n xs u
    by (rule presD [of G]) (intro pres_intros keep)
  have "r \<in> set xs \<Longrightarrow> I u \<Longrightarrow> G (snd (fold_m ?f n xs u))" for n xs u
  proof (induction xs arbitrary: n u)
    case (Cons x xs)
    show ?case
    proof (cases "x = r")
      case True
      then show ?thesis using reach [OF Cons.prems(2)] held unfolding run by simp
    next
      case False
      then show ?thesis
        unfolding run using Cons.prems Cons.IH presD [OF keep(1) Cons.prems(2), of x] by simp
    qed
  qed simp
  from this [OF row start] show ?thesis
    by (simp add: remind_def run_simps)
qed

lemma expiry_reminder_logs:
  assumes "t_customers u = Cu" "t_plans u = Pl"
    and "find_by c_pk (sub_customer sub) Cu = Some c" "find_by pl_pk (sub_plan sub) Pl = Some pl"
  shows "key_logged (sub_key ''expiry'' sub ('':'' @ slug)) (snd (expiry_reminder E slug days sub u))"
  unfolding wp_inv [symmetric] expiry_reminder_def Let_def plan_get_def customer_get_def
  using assms by (simp add: wp_simps) (rule wp_mono [OF send_once_logs], simp_all)

text \<open>The times at which the job started: hourly, the first before \<open>a\<close> and the last after it.\<close>

lemma hourly_hits:
  assumes "ts \<noteq> []" "hd ts \<le> a" "a < last ts"
    and "\<And>i. Suc i < length ts \<Longrightarrow> ts ! Suc i \<le> ts ! i + (h :: int)"
  shows "\<exists>t \<in> set ts. a < t \<and> t \<le> a + h"
  using assms
proof (induction ts)
  case (Cons t ts)
  show ?case
  proof (cases "ts = []")
    case False
    have next_run: "hd ts \<le> t + h"
      using Cons.prems(4) [of 0] False by (simp add: hd_conv_nth)
    show ?thesis
    proof (cases "hd ts \<le> a")
      case True
      have "\<exists>t \<in> set ts. a < t \<and> t \<le> a + h"
        using Cons.prems Cons.prems(4) [of "Suc _"] False True by (intro Cons.IH) auto
      then show ?thesis by simp
    next
      case late: False
      then show ?thesis
        using Cons.prems(2) next_run False by (intro bexI [of _ "hd ts"]) auto
    qed
  qed (use Cons.prems in simp)
qed simp

text \<open>A run that starts inside the window around a week before the end writes the reminder.\<close>

lemma expiry_run_logs:
  assumes run: "sub_period_end sub - 7 * us_day - 30 * us_minute < clock s" "clock s \<le> sub_period_end sub - 7 * us_day + 30 * us_minute"
    and sub: "sub \<in> set (t_subs s)" "sub_status sub = Sub_ACTIVE" "\<not> sub_auto_renew sub"
    and rows: "find_by c_pk (sub_customer sub) (t_customers s) = Some c" "find_by pl_pk (sub_plan sub) (t_plans s) = Some pl"
  shows "key_logged (sub_key ''expiry'' sub '':d7'') (snd (dispatch_all_reminders E s))"
proof -
  let ?I = "\<lambda>u. clock u = clock s \<and> t_customers u = t_customers s \<and> t_plans u = t_plans s \<and> t_subs u = t_subs s"
  let ?G = "key_logged (sub_key ''expiry'' sub '':d7'')"
  have due: "sub \<in> set (expiry_due (clock u + 7 * us_day) u)" if "?I u" for u
    using that sub run by (auto simp: expiry_due_def subs_where_def in_window_def window_around_def)
  have rest: "wp m (\<lambda>_. ?G) (\<lambda>_. ?G) v" if "pres ?G m" "?G v" for m :: "'r prog" and v
    using that by (simp add: pres_wp)
  have expiry: "wp (dispatch_expiry_reminders E) (\<lambda>_. ?G) (\<lambda>_. ?G) u" if "?I u" for u
  proof -
    have "?G (snd (remind (expiry_reminder E ''d7'' 7) (expiry_due (clock u + 7 * us_day)) u))"
      by (rule remind_reaches [where I = ?I and r = sub])
        (use that due rows in \<open>auto intro: reads.reminder_pres stays.reminder_pres expiry_reminder_logs [of _ _ _ _ _ _ "''d7''", simplified]\<close>)
    then have "wp (remind (expiry_reminder E ''d7'' 7) (expiry_due (clock u + 7 * us_day))) (\<lambda>_. ?G) (\<lambda>_. ?G) u"
      by (simp add: wp_inv)
    then show ?thesis
      unfolding dispatch_expiry_reminders_def wp_bnd [of now] now_wp wp_bnd [of "remind (expiry_reminder E ''d7'' 7) _"]
      by (rule wp_mono, intro rest) (auto intro!: pres_intros stays.remind_pres stays.reminder_pres)
  qed
  have early: "wp m (\<lambda>_. ?I) (\<lambda>_ _. False) u" if "pres ?I m" "errs (\<lambda>_. False) m" "?I u" for m :: "'r prog" and u
    using wp_both [OF _ errsD [OF that(2)], of _ _ u] that(1,3) unfolding pres_wp by (auto elim!: wp_mono)
  have returns: "errs (\<lambda>_. False) (dispatch_low_balance_alerts E)" "errs (\<lambda>_. False) (dispatch_renewal_reminders E)"
    unfolding dispatch_low_balance_alerts_def dispatch_renewal_reminders_def now_def Let_def by (intro errs_intros remind_returns)+
  let ?tail = "bnd (dispatch_expiry_reminders E) (\<lambda>_. bnd (dispatch_grace_countdown E) (\<lambda>_. bnd (dispatch_pending_order_reminders E) (\<lambda>_. ret ())))"
  have tail: "wp ?tail (\<lambda>_. ?G) (\<lambda>_. ?G) u" if "?I u" for u
    unfolding wp_bnd [of "dispatch_expiry_reminders E"]
    by (rule wp_mono [OF expiry [OF that]], rule rest) (auto intro!: pres_intros stays.dispatch_pres)
  have "wp (bnd (dispatch_renewal_reminders E) (\<lambda>_. ?tail)) (\<lambda>_. ?G) (\<lambda>_. ?G) u" if "?I u" for u
    unfolding wp_bnd [of "dispatch_renewal_reminders E"]
    by (rule wp_mono [OF early [OF reads.dispatch_pres(1) returns(2) that]]) (use tail in auto)
  then have "wp (dispatch_all_reminders E) (\<lambda>_. ?G) (\<lambda>_. ?G) s"
    unfolding dispatch_all_reminders_def wp_bnd [of "dispatch_low_balance_alerts E"]
    by (intro wp_mono [OF early [OF reads.dispatch_pres(2) returns(1)]]) auto
  then show ?thesis
    by (simp add: wp_inv)
qed



text \<open>
  The windows are exactly an hour wide, where the docstring says that they are wider so that a late
  run still sends the reminder: a run more than an hour after the one before it leaves a gap, and a
  subscription that ends in it gets no week-ahead reminder from either.
\<close>

theorem late_run_misses_reminder:
  assumes "t_subs s = [sub]" and "first + 7 * us_day + 30 * us_minute \<le> sub_period_end sub"
    and "sub_period_end sub < second + 7 * us_day - 30 * us_minute" and "second \<le> first + us_day" and "run \<in> {first, second}"
  shows "dispatch_expiry_reminders E (s\<lparr>clock := run\<rparr>) = (Inr (0, 0, 0), s\<lparr>clock := run\<rparr>)"
proof -
  have "expiry_due (run + d * us_day) (s\<lparr>clock := run\<rparr>) = []" if "d \<in> {7, 3, 1}" for d
    using that assms by (auto simp: expiry_due_def subs_where_def in_window_def window_around_def time_units)
  from this [of 7] this [of 3] this [of 1] show ?thesis
    by (simp add: dispatch_expiry_reminders_def remind_def run_simps)
qed

end
