(* ===== verification/Handlers.thy ===== *)
theory Handlers
  imports Reminders
begin

text \<open>
  The event handlers of \<open>notifications/handlers.py\<close>.  \<open>emit\<close> hands an event to its handler once the
  transaction has committed; a handler only notifies, and no exception leaves it.  The values put
  into a message are kept, the fixed text around them is not.
\<close>

section \<open>The handlers\<close>

text \<open>\<open>plan_name\<close> is \<open>str(plan)\<close>, which \<open>emit\<close> was given.\<close>

definition plan_name_of :: "nat \<Rightarrow> string prog" where
  "plan_name_of p =
     gets (\<lambda>s. case find_by pl_pk p (t_plans s) of
                 None \<Rightarrow> []
               | Some pl \<Rightarrow> (case find_by pr_pk (pl_product pl) (t_products s) of
                              None \<Rightarrow> [] | Some pr \<Rightarrow> pr_name pr @ '' / '' @ pl_name pl))"

definition get_short_name :: "customer \<Rightarrow> string" where
  "get_short_name c = takeWhile (\<lambda>x. x \<noteq> CHR ''@'') (c_email c)"

definition notify_only :: "env \<Rightarrow> customer \<Rightarrow> string \<Rightarrow> string list \<Rightarrow> string list \<Rightarrow> unit prog" where
  "notify_only E c ev body wa_params = bnd (notify E c ev (ev, body) (ev, body) (Some wa_params)) (\<lambda>_. ret ())"

definition wa_copy :: "customer \<Rightarrow> string \<Rightarrow> string list \<Rightarrow> string list \<Rightarrow> unit prog" where
  "wa_copy c ev body wa_params = bnd (notify_wa_copy c ev (ev, body) (Some wa_params)) (\<lambda>_. ret ())"

definition handle_topup_paid :: "env \<Rightarrow> nat \<Rightarrow> int \<Rightarrow> int \<Rightarrow> unit prog" where
  "handle_topup_paid E cust amount bonus =
     bnd (customer_get cust) (\<lambda>c.
     let bonus_text = (if bonus \<noteq> 0 then '' + Rp'' @ thousands bonus @ '' bonus'' else []);
         credited = ''Rp'' @ thousands amount @ bonus_text
     in bnd (queue (Deliver_topup_confirmation_email (c_email c) amount bonus cust)) (\<lambda>_.
        wa_copy c ''topup.paid'' [credited] [credited]))"

text \<open>What the buyer is told about a grant; \<open>None\<close>: nothing.\<close>

definition delivery_line :: "grant \<Rightarrow> string option" where
  "delivery_line g =
     (let field = (\<lambda>key. json_get (g_payload g) key JNull)
      in if g_type g = ''license_key'' \<and> truthy (field ''license_key'') then Some (''License Key: `'' @ py_str (field ''license_key'') @ ''`'')
         else if g_type g = ''download'' \<and> truthy (field ''download_url'') then Some (''Download: '' @ py_str (field ''download_url''))
         else if g_type g = ''access_link'' \<and> truthy (field ''access_url'') then Some (''Access: '' @ py_str (field ''access_url''))
         else if g_type g \<in> {''credentials'', ''api_key''} then Some ''Credentials / API key are available in your product dashboard.''
         else None)"

definition delivery_text :: "grant list \<Rightarrow> string" where
  "delivery_text grants =
     (let lines = List.map_filter delivery_line grants
      in join_with [CHR 0x0A] (if lines = [] then [''Your product is ready: check your dashboard for access details.''] else lines))"

definition paid_orders :: "nat \<Rightarrow> db \<Rightarrow> order list" where
  "paid_orders cust s = filter (\<lambda>r. o_customer r = cust \<and> o_status r = Order_PAID) (t_orders s)"

definition handle_order_paid :: "env \<Rightarrow> nat \<Rightarrow> nat \<Rightarrow> nat \<Rightarrow> unit prog" where
  "handle_order_paid E cust order_id plan =
     bnd (customer_get cust) (\<lambda>c.
     bnd (order_get order_id) (\<lambda>ord.
     bnd (grants_of_order (o_pk ord)) (\<lambda>grants.
     bnd (plan_name_of plan) (\<lambda>plan_name.
     bnd (queue (Deliver_order_confirmation_email (c_email c) (o_pk ord))) (\<lambda>_.
     bnd (wa_copy c ''order.paid'' [plan_name, delivery_text grants] [plan_name, delivery_text grants]) (\<lambda>_.
     bnd (gets (\<lambda>s. length (paid_orders cust s))) (\<lambda>count.
     if count = 1 then notify_only E c ''welcome'' [get_short_name c] [get_short_name c] else ret ())))))))"

definition seller_of_plan :: "nat \<Rightarrow> seller option prog" where
  "seller_of_plan p =
     bnd (plan_get p) (\<lambda>pl. bnd (product_get (pl_product pl)) (\<lambda>pr.
     gets (\<lambda>s. case pr_seller pr of None \<Rightarrow> None | Some k \<Rightarrow> find_by sel_pk k (t_sellers s))))"

definition user_email :: "nat option \<Rightarrow> string option prog" where
  "user_email k = gets (\<lambda>s. case k of None \<Rightarrow> None | Some u \<Rightarrow> map_option u_email (find_by u_pk u (t_users s)))"

text \<open>The plan is \<open>None\<close> for a cart, whose event carries the text "cart checkout".\<close>

definition handle_order_awaiting_confirmation :: "env \<Rightarrow> nat \<Rightarrow> nat \<Rightarrow> nat option \<Rightarrow> unit prog" where
  "handle_order_awaiting_confirmation E cust order_id plan =
     bnd (order_get order_id) (\<lambda>ord.
     bnd (customer_get cust) (\<lambda>c.
     bnd (case plan of None \<Rightarrow> ret ''cart checkout'' | Some p \<Rightarrow> plan_name_of p) (\<lambda>plan_name.
     let values = [plan_name, thousands (o_amount ord)]
     in bnd (notify_only E c ''order.awaiting_confirmation'' values values) (\<lambda>_.
        bnd (seller_of_plan (o_plan ord)) (\<lambda>seller.
        bnd (user_email (Option.bind seller sel_user)) (\<lambda>address.
        case address of
          None \<Rightarrow> ret ()
        | Some a \<Rightarrow> queue (Deliver_email a (''seller.new_order'', values))))))))"

definition handle_order_payment_rejected :: "env \<Rightarrow> nat \<Rightarrow> nat \<Rightarrow> string \<Rightarrow> unit prog" where
  "handle_order_payment_rejected E cust plan reason =
     bnd (customer_get cust) (\<lambda>c. bnd (plan_name_of plan) (\<lambda>plan_name.
     notify_only E c ''order.payment_rejected'' [plan_name, reason] [plan_name]))"

definition handle_subscription_renewed :: "env \<Rightarrow> nat \<Rightarrow> nat \<Rightarrow> int \<Rightarrow> unit prog" where
  "handle_subscription_renewed E cust plan new_period_end =
     bnd (customer_get cust) (\<lambda>c. bnd (plan_name_of plan) (\<lambda>plan_name.
     let values = [plan_name, iso_date new_period_end]
     in notify_only E c ''subscription.renewed'' values values))"

definition handle_subscription_graced :: "env \<Rightarrow> nat \<Rightarrow> nat \<Rightarrow> int \<Rightarrow> unit prog" where
  "handle_subscription_graced E cust plan grace_days =
     bnd (customer_get cust) (\<lambda>c. bnd (plan_name_of plan) (\<lambda>plan_name.
     let values = [plan_name, str_int grace_days]
     in notify_only E c ''subscription.graced'' values values))"

definition handle_subscription_suspended :: "env \<Rightarrow> nat \<Rightarrow> nat \<Rightarrow> unit prog" where
  "handle_subscription_suspended E cust plan =
     bnd (customer_get cust) (\<lambda>c. bnd (plan_name_of plan) (\<lambda>plan_name.
     notify_only E c ''subscription.suspended'' [plan_name] [plan_name]))"

definition handle_subscription_cancelled :: "env \<Rightarrow> nat \<Rightarrow> nat \<Rightarrow> unit prog" where
  "handle_subscription_cancelled E cust plan =
     bnd (customer_get cust) (\<lambda>c. bnd (plan_name_of plan) (\<lambda>plan_name.
     notify_only E c ''subscription.cancelled'' [plan_name] [plan_name]))"

section \<open>The event bus\<close>

fun handler :: "env \<Rightarrow> event \<Rightarrow> unit prog" where
  "handler E (Topup_paid cust amount bonus) = handle_topup_paid E cust amount bonus"
| "handler E (Order_paid cust order_id plan) = handle_order_paid E cust order_id plan"
| "handler E (Order_awaiting_confirmation cust order_id plan) = handle_order_awaiting_confirmation E cust order_id plan"
| "handler E (Order_payment_rejected cust order_id plan reason) = handle_order_payment_rejected E cust plan reason"
| "handler E (Subscription_renewed cust k plan new_period_end) = handle_subscription_renewed E cust plan new_period_end"
| "handler E (Subscription_graced cust k plan grace_days) = handle_subscription_graced E cust plan grace_days"
| "handler E (Subscription_suspended cust k plan) = handle_subscription_suspended E cust plan"
| "handler E (Subscription_cancelled cust k plan) = handle_subscription_cancelled E cust plan"

text \<open>Every handler's body stands in \<open>try: ... except Exception\<close>.\<close>

definition call_handler :: "env \<Rightarrow> event \<Rightarrow> unit prog" where
  "call_handler E ev = try_except (handler E ev) (\<lambda>_. True) (\<lambda>_. ret ()) ret"

definition run_handlers :: "env \<Rightarrow> event list \<Rightarrow> unit prog" where
  "run_handlers E evs = for_each (call_handler E) evs"

section \<open>Notifications do not touch the business\<close>

context messaging_inv
begin

lemma handler_pres [pres_intros]: "pres I (handler E ev)"
  by (cases ev) (auto simp: handle_topup_paid_def handle_order_paid_def handle_order_awaiting_confirmation_def handle_order_payment_rejected_def
      handle_subscription_renewed_def handle_subscription_graced_def handle_subscription_suspended_def handle_subscription_cancelled_def
      notify_only_def wa_copy_def plan_name_of_def order_get_def grants_of_order_def seller_of_plan_def plan_get_def product_get_def
      user_email_def Let_def intro!: pres_intros)

lemma run_handlers_pres [pres_intros]: "pres I (run_handlers E evs)"
  unfolding run_handlers_def call_handler_def by (intro pres_intros)

end

lemma run_handlers_returns: "errs (\<lambda>_. False) (run_handlers E evs)"
proof (induction evs)
  case Nil
  show ?case by (simp add: run_handlers_def errs_def wp_simps)
next
  case (Cons ev evs)
  have "errs (\<lambda>_. False) (call_handler E ev)"
    unfolding call_handler_def by (auto simp: errs_def wp_simps intro: wp_any)
  with Cons show ?case by (auto simp: run_handlers_def intro: errs_bnd)
qed

text \<open>The tables of the business, which handlers only read.\<close>

definition business :: "db \<Rightarrow> _" where
  "business s = (t_wallets s, t_ledger s, t_orders s, t_subs s, t_grants s, t_licenses s, t_topups s, t_earnings s, t_coupons s)"

interpretation business: messaging_frame "\<lambda>s. business s = B" business
  by unfold_locales (auto simp: business_def)

text \<open>
  A notification never fails or changes the sale it reports.  Whatever events a transaction
  emitted, the handlers that run after its commit return normally, whatever is missing or broken,
  and leave wallets, ledger, orders, subscriptions, grants, licences, top-ups, earnings and coupons
  exactly as they were.
\<close>

theorem handlers_harmless:
  "wp (run_handlers E evs) (\<lambda>_ t. business t = business s) (\<lambda>_ _. False) s"
proof -
  have "wp (run_handlers E evs) (\<lambda>_ t. business t = business s) (\<lambda>_ t. business t = business s) s"
    using business.run_handlers_pres [of "business s"] unfolding pres_wp by blast
  from wp_both [OF this errsD [OF run_handlers_returns]] show ?thesis
    by (rule wp_mono) auto
qed

section \<open>Who is welcomed\<close>

definition welcomes :: "db \<Rightarrow> nat" where
  "welcomes s = length (filter (\<lambda>d. dl_event d = ''welcome'') (t_deliveries s))"

lemma wa_copy_events:
  "wp (wa_copy c ev body ps) (\<lambda>_ t. \<exists>D. t_deliveries t = t_deliveries s @ D \<and> (\<forall>d \<in> set D. dl_event d = ev)) (\<lambda>_ _. False) s"
proof -
  have "wp (resolve_wa_template ev q) (\<lambda>_ t. t = s) (\<lambda>_ _. False) s" for q
    by (simp add: resolve_wa_template_def template_mode_def wp_simps Let_def)
  then show ?thesis
    unfolding wa_copy_def notify_wa_copy_def bnd_assoc wp_bnd [of "effective_channel c"]
    by (intro wp_mono [OF effective_channel_reads])
      (auto simp: wp_simps record_delivery_def Let_def intro!: wp_mono [OF \<open>\<And>q. wp (resolve_wa_template ev q) _ _ s\<close>] wp_mono [OF dispatch_wa_wp]
        split: prod.split)
qed

lemma no_second_welcome:
  assumes "2 \<le> length (paid_orders cust s)"
  shows "t_orders (snd (call_handler E (Order_paid cust k p) s)) = t_orders s
     \<and> welcomes (snd (call_handler E (Order_paid cust k p) s)) = welcomes s"
proof -
  let ?I = "\<lambda>t. t_orders t = t_orders s \<and> welcomes t = welcomes s"
  have copy: "wp (wa_copy c ''order.paid'' b q) (\<lambda>_. ?I) (\<lambda>_ _. False) t" if "?I t" for c b q t
  proof -
    have "wp (wa_copy c ''order.paid'' b q) (\<lambda>_ u. business u = business t) (\<lambda>_ u. business u = business t) t"
      using business.notify_pres(3) [of "business t"] unfolding wa_copy_def pres_wp wp_bnd wp_ret by blast
    from wp_both [OF this wa_copy_events] show ?thesis
      by (rule wp_mono) (use that in \<open>auto simp: business_def welcomes_def filter_empty_conv\<close>)
  qed
  have "wp (call_handler E (Order_paid cust k p)) (\<lambda>_. ?I) (\<lambda>_. ?I) s"
    using assms copy
    by (auto simp: call_handler_def handle_order_paid_def customer_get_def order_get_def grants_of_order_def plan_name_of_def queue_def
        wp_simps welcomes_def paid_orders_def split: option.split intro!: wp_mono [OF copy])
  then show ?thesis by (simp add: wp_inv)
qed

text \<open>
  The welcome message is for the "first paid order", but the handlers run after the commit: a
  customer whose first purchase is a cart of two or more plans has two paid orders by then, and
  is never welcomed.
\<close>

theorem first_cart_not_welcomed:
  assumes "2 \<le> length (paid_orders cust s)" and "\<forall>ev \<in> set evs. \<exists>k p. ev = Order_paid cust k p"
  shows "welcomes (snd (run_handlers E evs s)) = welcomes s"
  using assms
proof (induction evs arbitrary: s)
  case Nil
  show ?case by (simp add: run_handlers_def run_simps)
next
  case (Cons ev evs)
  obtain k p where ev: "ev = Order_paid cust k p" using Cons.prems(2) by auto
  let ?t = "snd (call_handler E ev s)"
  have t: "t_orders ?t = t_orders s" "welcomes ?t = welcomes s"
    using no_second_welcome [OF Cons.prems(1)] by (simp_all add: ev)
  have "fst (call_handler E ev s) = Inr ()"
    by (simp add: call_handler_def run_simps split: prod.split sum.split)
  then have "run_handlers E (ev # evs) s = run_handlers E evs ?t"
    by (cases "call_handler E ev s") (simp add: run_handlers_def bnd_run)
  moreover have "2 \<le> length (paid_orders cust ?t)"
    using Cons.prems(1) t(1) by (simp add: paid_orders_def)
  ultimately show ?case
    using Cons.IH [of ?t] Cons.prems(2) t(2) by simp
qed

end
