(* ===== verification/Seller_Desk.thy ===== *)
theory Seller_Desk
  imports Sellers Dashboard Handlers
begin

text \<open>
  The daily work of a seller (the rest of \<open>seller/views.py\<close> and \<open>seller/forms.py\<close>): products, plans and
  what they deliver, vouchers, orders paid by static QRIS, subscriptions, broadcasts, settings, payouts
  and affiliate links.  The data of a form is its cleaned data; what the forms of the repository check
  themselves is written out, what Django checks for a field (that it is there, a number, not negative)
  is not.  Course content, statistics and the listing pages are not modelled.
\<close>

section \<open>Products and plans\<close>

text \<open>\<open>ProductForm\<close>\<close>

record product_form =
  pf_name :: string
  pf_type :: product_type
  pf_visibility :: visibility

definition product_save :: "nat \<Rightarrow> (product \<Rightarrow> product) \<Rightarrow> unit prog" where
  "product_save k f = modify (\<lambda>s. s\<lparr>t_products := upd_by pr_pk k f (t_products s)\<rparr>)"

definition product_create :: "env \<Rightarrow> user option \<Rightarrow> product_form option \<Rightarrow> response prog" where
  "product_create E who post = seller_required E who (\<lambda>sel.
     case post of
       None \<Rightarrow> ret (Page ''seller/product_form.html'')
     | Some f \<Rightarrow>
         bnd (gets (superuser_of sel)) (\<lambda>super.
         bnd (product_create_row E (if super then None else Some (sel_pk sel)) (pf_name f) (pf_type f) (pf_visibility f)) (\<lambda>_.
         ret (Redirect ''seller:product_edit''))))"

definition product_edit :: "env \<Rightarrow> user option \<Rightarrow> nat \<Rightarrow> product_form option \<Rightarrow> response prog" where
  "product_edit E who k post = seller_required E who (\<lambda>sel.
     bnd (seller_product sel k) (\<lambda>pr.
     case post of
       None \<Rightarrow> ret (Page ''seller/product_form.html'')
     | Some f \<Rightarrow>
         bnd (product_save k (\<lambda>r. r\<lparr>pr_name := pf_name f, pr_type := pf_type f, pr_visibility := pf_visibility f\<rparr>)) (\<lambda>_.
         ret (Redirect ''seller:product_edit''))))"

text \<open>Deleting only hides; \<open>post\<close>: the confirmation was posted.\<close>

definition product_delete :: "env \<Rightarrow> user option \<Rightarrow> nat \<Rightarrow> bool \<Rightarrow> response prog" where
  "product_delete E who k post = seller_required E who (\<lambda>sel.
     bnd (seller_product sel k) (\<lambda>pr.
     if post then bnd (product_save k (\<lambda>r. r\<lparr>pr_visibility := Visibility_DRAFT\<rparr>)) (\<lambda>_. ret (Redirect ''seller:products''))
     else ret (Page ''seller/product_confirm_delete.html'')))"

text \<open>\<open>PlanForm\<close> and \<open>DeliverableForm\<close>\<close>

record plan_form =
  lf_name :: string
  lf_price :: int
  lf_interval :: interval
  lf_seat_limit :: int
  lf_active :: bool
  lf_pwyw :: bool
  lf_min_price :: int
  lf_stock :: "int option"
  lf_durations :: "(string \<times> int) list"
  lf_direct_pay :: bool

type_synonym deliverable_form = "string \<times> (string \<times> json) list"

definition fill_plan :: "plan_form \<Rightarrow> plan \<Rightarrow> plan" where
  "fill_plan f r = r\<lparr>pl_name := lf_name f, pl_price := lf_price f, pl_interval := lf_interval f, pl_seat_limit := lf_seat_limit f,
     pl_active := lf_active f, pl_pwyw := lf_pwyw f, pl_min_price := lf_min_price f, pl_stock := lf_stock f,
     pl_durations := lf_durations f, pl_direct_pay := lf_direct_pay f\<rparr>"

definition new_plan :: "nat \<Rightarrow> plan_form \<Rightarrow> plan" where
  "new_plan product f = fill_plan f \<lparr>pl_pk = 0, pl_product = product, pl_name = [], pl_price = 0, pl_interval = Interval_NONE,
     pl_seat_limit = 1, pl_active = True, pl_pwyw = False, pl_min_price = 0, pl_stock = None, pl_durations = [],
     pl_sort = 0, pl_direct_pay = True, pl_entitlements = []\<rparr>"

definition deliverable_create :: "nat \<Rightarrow> deliverable_form \<Rightarrow> unit prog" where
  "deliverable_create pl = (\<lambda>(ty, config).
     bnd new_pk (\<lambda>pk.
     modify (\<lambda>s. s\<lparr>t_deliverables := t_deliverables s @ [\<lparr>d_pk = pk, d_plan = pl, d_type = ty, d_config = config\<rparr>]\<rparr>)))"

definition plan_save :: "nat \<Rightarrow> (plan \<Rightarrow> plan) \<Rightarrow> unit prog" where
  "plan_save k f = modify (\<lambda>s. s\<lparr>t_plans := upd_by pl_pk k f (t_plans s)\<rparr>)"

definition plan_create :: "env \<Rightarrow> user option \<Rightarrow> nat \<Rightarrow> (plan_form \<times> deliverable_form) option \<Rightarrow> response prog" where
  "plan_create E who product_pk post = seller_required E who (\<lambda>sel.
     bnd (seller_product sel product_pk) (\<lambda>pr.
     case post of
       None \<Rightarrow> ret (Page ''seller/plan_form.html'')
     | Some (f, d) \<Rightarrow>
         bnd (plan_create_row (new_plan product_pk f)) (\<lambda>pl.
         bnd (deliverable_create (pl_pk pl) d) (\<lambda>_. ret (Redirect ''seller:product_edit'')))))"

definition own_plan :: "nat \<Rightarrow> nat \<Rightarrow> plan prog" where
  "own_plan product_pk plan_pk = or_404 (\<lambda>s. find (\<lambda>r. pl_pk r = plan_pk \<and> pl_product r = product_pk) (t_plans s))"

definition plan_edit :: "env \<Rightarrow> user option \<Rightarrow> nat \<Rightarrow> nat \<Rightarrow> (plan_form \<times> deliverable_form) option \<Rightarrow> response prog" where
  "plan_edit E who product_pk plan_pk post = seller_required E who (\<lambda>sel.
     bnd (seller_product sel product_pk) (\<lambda>pr.
     bnd (own_plan product_pk plan_pk) (\<lambda>pl.
     bnd (gets (\<lambda>s. find_by d_plan plan_pk (t_deliverables s))) (\<lambda>deliverable.
     case post of
       None \<Rightarrow> ret (Page ''seller/plan_form.html'')
     | Some (f, (ty, config)) \<Rightarrow>
         bnd (plan_save plan_pk (fill_plan f)) (\<lambda>_.
         bnd (case deliverable of
                None \<Rightarrow> deliverable_create plan_pk (ty, config)
              | Some d \<Rightarrow> modify (\<lambda>s. s\<lparr>t_deliverables := upd_by d_pk (d_pk d) (\<lambda>r. r\<lparr>d_type := ty, d_config := config\<rparr>) (t_deliverables s)\<rparr>)) (\<lambda>_.
         ret (Redirect ''seller:product_edit'')))))))"

text \<open>\<open>Entitlement.objects.filter(key=key).first()\<close> looks at the entitlements of every seller.\<close>

definition entitlement_get_or_create :: "string \<Rightarrow> string \<Rightarrow> entitlement prog" where
  "entitlement_get_or_create key v =
     bnd (gets (\<lambda>s. find_by en_key key (t_entitlements s))) (\<lambda>found.
     case found of
       Some ent \<Rightarrow> ret ent
     | None \<Rightarrow>
         bnd new_pk (\<lambda>pk.
         let ent = \<lparr>en_pk = pk, en_key = key, en_value = v\<rparr>
         in bnd (modify (\<lambda>s. s\<lparr>t_entitlements := t_entitlements s @ [ent]\<rparr>)) (\<lambda>_. ret ent)))"

definition entitlement_add :: "env \<Rightarrow> user option \<Rightarrow> nat \<Rightarrow> nat \<Rightarrow> (string \<times> string) option \<Rightarrow> response prog" where
  "entitlement_add E who product_pk plan_pk post = seller_required E who (\<lambda>sel.
     bnd (seller_product sel product_pk) (\<lambda>pr.
     bnd (own_plan product_pk plan_pk) (\<lambda>pl.
     case post of
       None \<Rightarrow> ret (Redirect ''seller:plan_edit'')
     | Some (key, v) \<Rightarrow>
         bnd (entitlement_get_or_create (strip (upper key)) v) (\<lambda>ent.
         bnd (plan_save plan_pk (\<lambda>r. if en_pk ent \<in> set (pl_entitlements r) then r
                                      else r\<lparr>pl_entitlements := pl_entitlements r @ [en_pk ent]\<rparr>)) (\<lambda>_.
         ret (Redirect ''seller:plan_edit''))))))"

definition entitlement_remove :: "env \<Rightarrow> user option \<Rightarrow> nat \<Rightarrow> nat \<Rightarrow> nat \<Rightarrow> response prog" where
  "entitlement_remove E who product_pk plan_pk ent_pk = seller_required E who (\<lambda>sel.
     bnd (seller_product sel product_pk) (\<lambda>pr.
     bnd (own_plan product_pk plan_pk) (\<lambda>pl.
     bnd (or_404 (\<lambda>s. find_by en_pk ent_pk (t_entitlements s))) (\<lambda>ent.
     bnd (plan_save plan_pk (\<lambda>r. r\<lparr>pl_entitlements := filter (\<lambda>e. e \<noteq> ent_pk) (pl_entitlements r)\<rparr>)) (\<lambda>_.
     ret (Redirect ''seller:plan_edit''))))))"

text \<open>\<open>ProductQuestionForm\<close>: the label and whether an answer is required.\<close>

definition question_add :: "env \<Rightarrow> user option \<Rightarrow> nat \<Rightarrow> (string \<times> bool) option \<Rightarrow> response prog" where
  "question_add E who product_pk post = seller_required E who (\<lambda>sel.
     bnd (seller_product sel product_pk) (\<lambda>pr.
     case post of
       None \<Rightarrow> ret (Redirect ''seller:product_edit'')
     | Some (label, required) \<Rightarrow>
         bnd new_pk (\<lambda>pk.
         bnd (modify (\<lambda>s. s\<lparr>t_questions := t_questions s @ [\<lparr>q_pk = pk, q_product = product_pk, q_label = label, q_required = required\<rparr>]\<rparr>)) (\<lambda>_.
         ret (Redirect ''seller:product_edit'')))))"

definition question_remove :: "env \<Rightarrow> user option \<Rightarrow> nat \<Rightarrow> nat \<Rightarrow> response prog" where
  "question_remove E who product_pk question_pk = seller_required E who (\<lambda>sel.
     bnd (seller_product sel product_pk) (\<lambda>pr.
     bnd (or_404 (\<lambda>s. find (\<lambda>r. q_pk r = question_pk \<and> q_product r = product_pk) (t_questions s))) (\<lambda>_.
     bnd (modify (\<lambda>s. s\<lparr>t_questions := filter (\<lambda>r. q_pk r \<noteq> question_pk) (t_questions s)\<rparr>)) (\<lambda>_.
     ret (Redirect ''seller:product_edit'')))))"

section \<open>Orders paid by static QRIS\<close>

text \<open>\<open>plan__product__in=_seller_products(seller)\<close>\<close>

definition sells :: "seller \<Rightarrow> db \<Rightarrow> nat \<Rightarrow> bool" where
  "sells sel s p = (case find_by pl_pk p (t_plans s) of None \<Rightarrow> False | Some pl \<Rightarrow> pl_product pl \<in> set (map pr_pk (seller_products sel s)))"

definition seller_manual_order :: "seller \<Rightarrow> nat \<Rightarrow> order prog" where
  "seller_manual_order sel k =
     bnd (or_404 (\<lambda>s. find (\<lambda>r. o_pk r = k \<and> sells sel s (o_plan r)) (t_orders s))) (\<lambda>ord.
     bnd (check (awaiting_seller_confirmation ord) Http404) (\<lambda>_. ret ord))"

definition order_confirm_payment :: "env \<Rightarrow> user option \<Rightarrow> nat \<Rightarrow> response prog" where
  "order_confirm_payment E who k = seller_required E who (\<lambda>sel.
     bnd (seller_manual_order sel k) (\<lambda>ord.
     bnd (case o_cart_checkout ord of
            Some cc \<Rightarrow> confirm_cart_manual_payment E cc
          | None \<Rightarrow> confirm_manual_payment E (o_pk ord)) (\<lambda>_.
     ret (Redirect ''seller:order_detail''))))"

definition order_reject_payment :: "env \<Rightarrow> user option \<Rightarrow> nat \<Rightarrow> form \<Rightarrow> response prog" where
  "order_reject_payment E who k f = seller_required E who (\<lambda>sel.
     bnd (seller_manual_order sel k) (\<lambda>ord.
     let reason = strip (post_get f ''reason'' [])
     in bnd (case o_cart_checkout ord of
               Some cc \<Rightarrow>
                 bnd (gets (\<lambda>s. rev (filter (\<lambda>r. o_cart_checkout r = Some cc \<and> o_status r = Order_PENDING) (t_orders s))))
                   (for_each (\<lambda>line. reject_manual_payment line reason))
             | None \<Rightarrow> reject_manual_payment ord reason) (\<lambda>_.
        ret (Redirect ''seller:order_detail''))))"

section \<open>Vouchers\<close>

text \<open>\<open>CouponForm\<close>\<close>

record coupon_form =
  cf_code :: string
  cf_type :: discount_type
  cf_value :: int
  cf_min_order :: int
  cf_max_discount :: int
  cf_usage_limit :: int
  cf_valid_from :: "int option"
  cf_valid_until :: "int option"
  cf_active :: bool
  cf_plans :: "nat list"

text \<open>The model form rejects a code that another coupon has, as it was typed; \<open>None\<close>: a new coupon.\<close>

definition code_free :: "string \<Rightarrow> nat option \<Rightarrow> db \<Rightarrow> bool" where
  "code_free code own s = (\<forall>r \<in> set (t_coupons s). cp_code r = code \<longrightarrow> Some (cp_pk r) = own)"

definition fill_coupon :: "coupon_form \<Rightarrow> coupon \<Rightarrow> coupon" where
  "fill_coupon f r = r\<lparr>cp_code := upper (cf_code f), cp_type := cf_type f, cp_value := cf_value f, cp_min_order := cf_min_order f,
     cp_max_discount := cf_max_discount f, cp_usage_limit := cf_usage_limit f, cp_valid_from := cf_valid_from f,
     cp_valid_until := cf_valid_until f, cp_active := cf_active f, cp_plans := cf_plans f\<rparr>"

definition voucher_create :: "env \<Rightarrow> user option \<Rightarrow> coupon_form option \<Rightarrow> response prog" where
  "voucher_create E who post = seller_required E who (\<lambda>sel.
     case post of
       None \<Rightarrow> ret (Page ''seller/voucher_form.html'')
     | Some f \<Rightarrow>
         bnd (gets (code_free (cf_code f) None)) (\<lambda>valid.
         if \<not> valid then ret (Page ''seller/voucher_form.html'')
         else
           bnd (gets (code_free (upper (cf_code f)) None)) (\<lambda>free.
           bnd (check free (IntegrityError ''Coupon.code'')) (\<lambda>_.
           bnd new_pk (\<lambda>pk.
           let c = fill_coupon f \<lparr>cp_pk = pk, cp_code = [], cp_type = Discount_PERCENT, cp_value = 0, cp_min_order = 0,
                 cp_max_discount = 0, cp_usage_limit = 0, cp_used_count = 0, cp_valid_from = None, cp_valid_until = None,
                 cp_active = True, cp_seller = Some (sel_pk sel), cp_plans = []\<rparr>
           in bnd (modify (\<lambda>s. s\<lparr>t_coupons := t_coupons s @ [c]\<rparr>)) (\<lambda>_.
              ret (Redirect ''seller:vouchers'')))))))"

definition own_coupon :: "seller \<Rightarrow> nat \<Rightarrow> coupon prog" where
  "own_coupon sel k = or_404 (\<lambda>s. find (\<lambda>r. cp_pk r = k \<and> cp_seller r = Some (sel_pk sel)) (t_coupons s))"

definition coupon_save :: "nat \<Rightarrow> (coupon \<Rightarrow> coupon) \<Rightarrow> unit prog" where
  "coupon_save k f = modify (\<lambda>s. s\<lparr>t_coupons := upd_by cp_pk k f (t_coupons s)\<rparr>)"

definition voucher_edit :: "env \<Rightarrow> user option \<Rightarrow> nat \<Rightarrow> coupon_form option \<Rightarrow> response prog" where
  "voucher_edit E who k post = seller_required E who (\<lambda>sel.
     bnd (own_coupon sel k) (\<lambda>_.
     case post of
       None \<Rightarrow> ret (Page ''seller/voucher_form.html'')
     | Some f \<Rightarrow>
         bnd (gets (code_free (cf_code f) (Some k))) (\<lambda>valid.
         if \<not> valid then ret (Page ''seller/voucher_form.html'')
         else
           bnd (gets (code_free (upper (cf_code f)) (Some k))) (\<lambda>free.
           bnd (check free (IntegrityError ''Coupon.code'')) (\<lambda>_.
           bnd (coupon_save k (fill_coupon f)) (\<lambda>_.
           ret (Redirect ''seller:vouchers'')))))))"

definition voucher_toggle :: "env \<Rightarrow> user option \<Rightarrow> nat \<Rightarrow> bool \<Rightarrow> response prog" where
  "voucher_toggle E who k post = seller_required E who (\<lambda>sel.
     bnd (own_coupon sel k) (\<lambda>c.
     bnd (when_m post (coupon_save k (\<lambda>r. r\<lparr>cp_active := \<not> cp_active c\<rparr>))) (\<lambda>_.
     ret (Redirect ''seller:vouchers''))))"

section \<open>Broadcasts\<close>

definition segment_choices :: "string list" where
  "segment_choices = [''all'', ''active_sub'', ''no_sub'']"

text \<open>\<open>BroadcastForm\<close>: the segment, the message and the product, which must be public.\<close>

definition broadcast_valid :: "string \<Rightarrow> string \<Rightarrow> nat option \<Rightarrow> db \<Rightarrow> bool" where
  "broadcast_valid segment message product s =
     (segment \<in> set segment_choices \<and> strip message \<noteq> []
      \<and> (case product of None \<Rightarrow> True
           | Some k \<Rightarrow> (case find_by pr_pk k (t_products s) of None \<Rightarrow> False | Some pr \<Rightarrow> pr_visibility pr = Visibility_PUBLIC)))"

definition seller_plans :: "seller \<Rightarrow> db \<Rightarrow> nat list" where
  "seller_plans sel s = map pl_pk (filter (\<lambda>r. pl_product r \<in> set (map pr_pk (seller_products sel s))) (t_plans s))"

text \<open>
  \<open>filter\<close> over a relation needs one subscription that meets both conditions; \<open>exclude\<close> drops
  whoever meets each of them with any subscription.
\<close>

definition in_segment :: "seller \<Rightarrow> string \<Rightarrow> db \<Rightarrow> customer \<Rightarrow> bool" where
  "in_segment sel segment s c =
     (let subs = filter (\<lambda>r. sub_customer r = c_pk c) (t_subs s); plans = seller_plans sel s
      in if segment = ''active_sub'' then list_ex (\<lambda>r. sub_plan r \<in> set plans \<and> sub_status r = Sub_ACTIVE) subs
         else if segment = ''no_sub''
           then \<not> (list_ex (\<lambda>r. sub_plan r \<in> set plans) subs \<and> list_ex (\<lambda>r. sub_status r = Sub_ACTIVE) subs)
         else True)"

definition bought :: "nat \<Rightarrow> db \<Rightarrow> customer \<Rightarrow> bool" where
  "bought product s c =
     list_ex (\<lambda>r. o_customer r = c_pk c \<and> o_status r = Order_PAID
        \<and> (case find_by pl_pk (o_plan r) (t_plans s) of None \<Rightarrow> False | Some pl \<Rightarrow> pl_product pl = product)) (t_orders s)"

definition get_segment_customers :: "seller \<Rightarrow> string \<Rightarrow> nat option \<Rightarrow> db \<Rightarrow> customer list" where
  "get_segment_customers sel segment product s =
     filter (\<lambda>c. in_segment sel segment s c \<and> (case product of None \<Rightarrow> True | Some k \<Rightarrow> bought k s c)) (t_customers s)"

text \<open>\<open>str.replace(old, new)\<close>, for a non-empty \<open>old\<close>.\<close>

function str_replace :: "string \<Rightarrow> string \<Rightarrow> string \<Rightarrow> string" where
  "str_replace old new [] = []"
| "str_replace old new (c # cs) =
     (if old \<noteq> [] \<and> take (length old) (c # cs) = old then new @ str_replace old new (drop (length old) (c # cs))
      else c # str_replace old new cs)"
  by pat_completeness auto
termination
  by (relation "measure (\<lambda>(old, new, s). length s)") auto

definition broadcast :: "env \<Rightarrow> user option \<Rightarrow> (string \<times> string \<times> nat option) option \<Rightarrow> response prog" where
  "broadcast E who post = seller_required E who (\<lambda>sel.
     case post of
       None \<Rightarrow> ret (Page ''seller/broadcast.html'')
     | Some (segment, message, product) \<Rightarrow>
         bnd (gets (broadcast_valid segment message product)) (\<lambda>valid.
         if \<not> valid then ret (Page ''seller/broadcast.html'')
         else
           bnd (gets (get_segment_customers sel segment product)) (\<lambda>customers.
           bnd (for_each (\<lambda>c.
                  let wa = (if c_wa_number c = [] then c_email c else c_wa_number c)
                  in queue (Deliver_whatsapp wa (''broadcast'', [str_replace ''{name}'' (get_short_name c) (strip message)]) None None 0))
                customers) (\<lambda>_.
           ret (Redirect ''seller:broadcast'')))))"

section \<open>Settings and payouts\<close>

text \<open>\<open>SellerProfileForm\<close>: QRIS can only be enabled with an image, new or stored.\<close>

record settings_form =
  sf_name :: string
  sf_bank_name :: string
  sf_account_number :: string
  sf_account_name :: string
  sf_qris_enabled :: bool
  sf_qris_image :: "string option"

definition stored_image :: "settings_form \<Rightarrow> seller \<Rightarrow> string option" where
  "stored_image f sel = (case sf_qris_image f of None \<Rightarrow> sel_qris_image sel | Some i \<Rightarrow> Some i)"

definition seller_settings :: "env \<Rightarrow> user option \<Rightarrow> settings_form option \<Rightarrow> response prog" where
  "seller_settings E who post = seller_required E who (\<lambda>sel.
     case post of
       None \<Rightarrow> ret (Page ''seller/settings.html'')
     | Some f \<Rightarrow>
         if sf_qris_enabled f \<and> stored_image f sel = None then ret (Page ''seller/settings.html'')
         else
           bnd (seller_save sel (\<lambda>r. r\<lparr>sel_name := sf_name f, sel_bank_name := sf_bank_name f, sel_account_number := sf_account_number f,
                  sel_account_name := sf_account_name f, sel_qris_enabled := sf_qris_enabled f, sel_qris_image := stored_image f sel\<rparr>)) (\<lambda>_.
           ret (Redirect ''seller:settings'')))"

text \<open>\<open>PayoutRequestForm\<close>: the digits of the field, at least 50000.\<close>

definition payout_amount :: "form \<Rightarrow> int option" where
  "payout_amount f =
     (let digits = filter is_digit (post_get f ''amount'' [])
      in if digits = [] then None
         else let amount = int (parse_nat digits) in if amount < 50000 then None else Some amount)"

definition pending_net :: "nat \<Rightarrow> db \<Rightarrow> int" where
  "pending_net sel s = sum_list (map ea_net (filter (\<lambda>r. ea_seller r = sel \<and> ea_status r = Earning_PENDING) (t_earnings s)))"

definition payout_create :: "seller \<Rightarrow> int \<Rightarrow> unit prog" where
  "payout_create sel amount =
     bnd new_pk (\<lambda>pk.
     modify (\<lambda>s. s\<lparr>t_payouts := t_payouts s @ [\<lparr>po_pk = pk, po_seller = sel_pk sel, po_amount = amount, po_bank_name = sel_bank_name sel,
       po_account_number = sel_account_number sel, po_account_name = sel_account_name sel, po_status = Payout_PENDING, po_processed = None\<rparr>]\<rparr>))"

definition payout_request :: "env \<Rightarrow> user option \<Rightarrow> form \<Rightarrow> response prog" where
  "payout_request E who f = seller_required E who (\<lambda>sel.
     if sel_bank_name sel = [] \<or> sel_account_number sel = [] then ret (Redirect ''seller:settings'')
     else
       case payout_amount f of
         None \<Rightarrow> ret (Redirect ''seller:earnings'')
       | Some amount \<Rightarrow>
           bnd (gets (pending_net (sel_pk sel))) (\<lambda>available.
           bnd (when_m (\<not> available < amount) (payout_create sel amount)) (\<lambda>_.
           ret (Redirect ''seller:earnings''))))"

section \<open>Affiliate links\<close>

text \<open>\<open>AffiliateLinkForm\<close>: code, rate, product and whether it is active; the product is one of the seller's.\<close>

definition link_valid :: "seller \<Rightarrow> string \<Rightarrow> nat option \<Rightarrow> db \<Rightarrow> bool" where
  "link_valid sel code product s =
     (find_by al_code code (t_affiliate_links s) = None
      \<and> (case product of None \<Rightarrow> True
           | Some k \<Rightarrow> (case find_by pr_pk k (t_products s) of None \<Rightarrow> False | Some pr \<Rightarrow> pr_seller pr = Some (sel_pk sel))))"

definition affiliates :: "env \<Rightarrow> user option \<Rightarrow> (string \<times> int \<times> nat option \<times> bool) option \<Rightarrow> response prog" where
  "affiliates E who post = seller_required E who (\<lambda>sel.
     case post of
       None \<Rightarrow> ret (Page ''seller/affiliates.html'')
     | Some (code, rate, product, active) \<Rightarrow>
         bnd (gets (link_valid sel code product)) (\<lambda>valid.
         if \<not> valid then ret (Page ''seller/affiliates.html'')
         else
           bnd (gets (\<lambda>s. find_by al_code (upper code) (t_affiliate_links s) = None)) (\<lambda>free.
           bnd (check free (IntegrityError ''AffiliateLink.code'')) (\<lambda>_.
           bnd new_pk (\<lambda>pk.
           bnd (modify (\<lambda>s. s\<lparr>t_affiliate_links := t_affiliate_links s @ [\<lparr>al_pk = pk, al_seller = sel_pk sel, al_product = product,
                  al_code = upper code, al_rate = rate, al_active = active\<rparr>]\<rparr>)) (\<lambda>_.
           ret (Redirect ''seller:affiliates'')))))))"

definition affiliate_toggle :: "env \<Rightarrow> user option \<Rightarrow> nat \<Rightarrow> response prog" where
  "affiliate_toggle E who k = seller_required E who (\<lambda>sel.
     bnd (or_404 (\<lambda>s. find (\<lambda>r. al_pk r = k \<and> al_seller r = sel_pk sel) (t_affiliate_links s))) (\<lambda>link.
     bnd (modify (\<lambda>s. s\<lparr>t_affiliate_links := upd_by al_pk k (\<lambda>r. r\<lparr>al_active := \<not> al_active link\<rparr>) (t_affiliate_links s)\<rparr>)) (\<lambda>_.
     ret (Redirect ''seller:affiliates''))))"

section \<open>Subscriptions\<close>

definition seller_subscription :: "seller \<Rightarrow> nat \<Rightarrow> subscription prog" where
  "seller_subscription sel k = or_404 (\<lambda>s. find (\<lambda>r. sub_pk r = k \<and> sells sel s (sub_plan r)) (t_subs s))"

definition sub_write :: "nat \<Rightarrow> (subscription \<Rightarrow> subscription) \<Rightarrow> unit prog" where
  "sub_write k f = modify (\<lambda>s. s\<lparr>t_subs := upd_by sub_pk k f (t_subs s)\<rparr>)"

definition subscription_cancel :: "env \<Rightarrow> user option \<Rightarrow> nat \<Rightarrow> response prog" where
  "subscription_cancel E who k = seller_required E who (\<lambda>sel.
     bnd (seller_subscription sel k) (\<lambda>sub.
     bnd (when_m (sub_status sub \<in> {Sub_ACTIVE, Sub_GRACE}) (sub_write k (\<lambda>r. r\<lparr>sub_status := Sub_CANCELLED, sub_auto_renew := False\<rparr>))) (\<lambda>_.
     ret (Redirect ''seller:subscriptions''))))"

definition subscription_toggle_suspend :: "env \<Rightarrow> user option \<Rightarrow> nat \<Rightarrow> response prog" where
  "subscription_toggle_suspend E who k = seller_required E who (\<lambda>sel.
     bnd (seller_subscription sel k) (\<lambda>sub.
     bnd (if sub_status sub = Sub_SUSPENDED then sub_write k (\<lambda>r. r\<lparr>sub_status := Sub_ACTIVE\<rparr>)
          else when_m (sub_status sub \<in> {Sub_ACTIVE, Sub_GRACE}) (sub_write k (\<lambda>r. r\<lparr>sub_status := Sub_SUSPENDED\<rparr>))) (\<lambda>_.
     ret (Redirect ''seller:subscription_detail''))))"

definition subscription_toggle_renew :: "env \<Rightarrow> user option \<Rightarrow> nat \<Rightarrow> response prog" where
  "subscription_toggle_renew E who k = seller_required E who (\<lambda>sel.
     bnd (seller_subscription sel k) (\<lambda>sub.
     bnd (sub_write k (\<lambda>r. r\<lparr>sub_auto_renew := \<not> sub_auto_renew sub\<rparr>)) (\<lambda>_.
     ret (Redirect ''seller:subscription_detail''))))"

end
