(* ===== verification/Courses.thy ===== *)
theory Courses
  imports Seller_Desk
begin

text \<open>
  The modules and lessons of a course at the seller desk (\<open>seller/views.py\<close>).  A posted form is the
  cleaned data of a valid \<open>CourseModuleForm\<close> or \<open>CourseLessonForm\<close>, \<open>None\<close> stands for a GET or an invalid one.
\<close>

record lesson_form =
  lf_title :: string
  lf_type :: string
  lf_content :: string
  lf_file_url :: string
  lf_sort :: int
  lf_preview :: bool

definition own_module :: "nat \<Rightarrow> nat \<Rightarrow> course_module prog" where
  "own_module product_pk module_pk = or_404 (\<lambda>s. find (\<lambda>m. cm_pk m = module_pk \<and> cm_product m = product_pk) (t_modules s))"

definition course_modules :: "env \<Rightarrow> user option \<Rightarrow> nat \<Rightarrow> (string \<times> int) option \<Rightarrow> response prog" where
  "course_modules E who product_pk post = seller_required E who (\<lambda>sel.
     bnd (seller_product sel product_pk) (\<lambda>pr.
     case post of
       None \<Rightarrow> ret (Page ''seller/course_modules.html'')
     | Some (title, position) \<Rightarrow>
         bnd new_pk (\<lambda>pk.
         bnd (modify (\<lambda>s. s\<lparr>t_modules := t_modules s @
           [\<lparr>cm_pk = pk, cm_product = product_pk, cm_title = title, cm_sort = position\<rparr>]\<rparr>)) (\<lambda>_.
         ret (Redirect ''seller:course_modules'')))))"

definition lesson_add :: "env \<Rightarrow> user option \<Rightarrow> nat \<Rightarrow> nat \<Rightarrow> lesson_form option \<Rightarrow> response prog" where
  "lesson_add E who product_pk module_pk post = seller_required E who (\<lambda>sel.
     bnd (seller_product sel product_pk) (\<lambda>pr.
     bnd (own_module product_pk module_pk) (\<lambda>_.
     case post of
       None \<Rightarrow> ret (Redirect ''seller:course_modules'')
     | Some f \<Rightarrow>
         bnd new_pk (\<lambda>pk.
         bnd (modify (\<lambda>s. s\<lparr>t_lessons := t_lessons s @
           [\<lparr>lm_pk = pk, lm_module = module_pk, lm_title = lf_title f, lm_type = lf_type f, lm_content = lf_content f,
             lm_file_url = lf_file_url f, lm_sort = lf_sort f, lm_preview = lf_preview f\<rparr>]\<rparr>)) (\<lambda>_.
         ret (Redirect ''seller:course_modules''))))))"

text \<open>Deleting a row deletes the rows that refer to it: \<open>on_delete=CASCADE\<close> of lessons and progress.\<close>

definition lessons_delete :: "(lesson \<Rightarrow> bool) \<Rightarrow> db \<Rightarrow> db" where
  "lessons_delete doomed s =
     s\<lparr>t_lessons := filter (\<lambda>l. \<not> doomed l) (t_lessons s),
       t_progress := filter (\<lambda>(c, k). \<not> (\<exists>l \<in> set (t_lessons s). lm_pk l = k \<and> doomed l)) (t_progress s)\<rparr>"

definition module_delete :: "env \<Rightarrow> user option \<Rightarrow> nat \<Rightarrow> nat \<Rightarrow> response prog" where
  "module_delete E who product_pk module_pk = seller_required E who (\<lambda>sel.
     bnd (seller_product sel product_pk) (\<lambda>pr.
     bnd (own_module product_pk module_pk) (\<lambda>_.
     bnd (modify (\<lambda>s. (lessons_delete (\<lambda>l. lm_module l = module_pk) s)\<lparr>t_modules := filter (\<lambda>m. cm_pk m \<noteq> module_pk) (t_modules s)\<rparr>)) (\<lambda>_.
     ret (Redirect ''seller:course_modules'')))))"

definition lesson_delete :: "env \<Rightarrow> user option \<Rightarrow> nat \<Rightarrow> nat \<Rightarrow> nat \<Rightarrow> response prog" where
  "lesson_delete E who product_pk module_pk lesson_pk = seller_required E who (\<lambda>sel.
     bnd (seller_product sel product_pk) (\<lambda>pr.
     bnd (own_module product_pk module_pk) (\<lambda>_.
     bnd (or_404 (\<lambda>s. find (\<lambda>l. lm_pk l = lesson_pk \<and> lm_module l = module_pk) (t_lessons s))) (\<lambda>_.
     bnd (modify (lessons_delete (\<lambda>l. lm_pk l = lesson_pk))) (\<lambda>_.
     ret (Redirect ''seller:course_modules''))))))"

end
