(* ===== verification/Seller_Isolation.thy ===== *)
theory Seller_Isolation
  imports Courses
begin

text \<open>
  What a seller can reach: every request a seller can send but the two that settle a payment, and the
  rows of other sellers that none of them changes.
\<close>

section \<open>The requests of a seller\<close>

datatype desk_request =
    Desk_product_create "product_form option"
  | Desk_product_edit nat "product_form option"
  | Desk_product_delete nat bool
  | Desk_plan_create nat "(plan_form \<times> deliverable_form) option"
  | Desk_plan_edit nat nat "(plan_form \<times> deliverable_form) option"
  | Desk_entitlement_add nat nat "(string \<times> string) option"
  | Desk_entitlement_remove nat nat nat
  | Desk_question_add nat "(string \<times> bool) option"
  | Desk_question_remove nat nat
  | Desk_store "string option"
  | Desk_publish
  | Desk_block_add form
  | Desk_block_remove nat
  | Desk_block_toggle nat
  | Desk_block_reorder form
  | Desk_voucher_create "coupon_form option"
  | Desk_voucher_edit nat "coupon_form option"
  | Desk_voucher_toggle nat bool
  | Desk_broadcast "(string \<times> string \<times> nat option) option"
  | Desk_settings "settings_form option"
  | Desk_payout form
  | Desk_affiliates "(string \<times> int \<times> nat option \<times> bool) option"
  | Desk_affiliate_toggle nat
  | Desk_sub_cancel nat
  | Desk_sub_suspend nat
  | Desk_sub_renew nat
  | Desk_module_add nat "(string \<times> int) option"
  | Desk_lesson_add nat nat "lesson_form option"
  | Desk_module_delete nat nat
  | Desk_lesson_delete nat nat nat

fun desk :: "env \<Rightarrow> user option \<Rightarrow> desk_request \<Rightarrow> response prog" where
  "desk E who (Desk_product_create f) = product_create E who f"
| "desk E who (Desk_product_edit k f) = product_edit E who k f"
| "desk E who (Desk_product_delete k b) = product_delete E who k b"
| "desk E who (Desk_plan_create k f) = plan_create E who k f"
| "desk E who (Desk_plan_edit k p f) = plan_edit E who k p f"
| "desk E who (Desk_entitlement_add k p f) = entitlement_add E who k p f"
| "desk E who (Desk_entitlement_remove k p e) = entitlement_remove E who k p e"
| "desk E who (Desk_question_add k f) = question_add E who k f"
| "desk E who (Desk_question_remove k q) = question_remove E who k q"
| "desk E who (Desk_store f) = store E who f"
| "desk E who Desk_publish = store_publish_toggle E who"
| "desk E who (Desk_block_add f) = block_add E who f"
| "desk E who (Desk_block_remove k) = block_remove E who k"
| "desk E who (Desk_block_toggle k) = block_toggle_visibility E who k"
| "desk E who (Desk_block_reorder f) = block_reorder E who f"
| "desk E who (Desk_voucher_create f) = voucher_create E who f"
| "desk E who (Desk_voucher_edit k f) = voucher_edit E who k f"
| "desk E who (Desk_voucher_toggle k b) = voucher_toggle E who k b"
| "desk E who (Desk_broadcast f) = broadcast E who f"
| "desk E who (Desk_settings f) = seller_settings E who f"
| "desk E who (Desk_payout f) = payout_request E who f"
| "desk E who (Desk_affiliates f) = affiliates E who f"
| "desk E who (Desk_affiliate_toggle k) = affiliate_toggle E who k"
| "desk E who (Desk_sub_cancel k) = subscription_cancel E who k"
| "desk E who (Desk_sub_suspend k) = subscription_toggle_suspend E who k"
| "desk E who (Desk_sub_renew k) = subscription_toggle_renew E who k"
| "desk E who (Desk_module_add k f) = course_modules E who k f"
| "desk E who (Desk_lesson_add k m f) = lesson_add E who k m f"
| "desk E who (Desk_module_delete k m) = module_delete E who k m"
| "desk E who (Desk_lesson_delete k m l) = lesson_delete E who k m l"

section \<open>Whose row is it\<close>

definition product_seller :: "product list \<Rightarrow> nat \<Rightarrow> nat option" where
  "product_seller prods k = (case find_by pr_pk k prods of None \<Rightarrow> None | Some pr \<Rightarrow> pr_seller pr)"

definition plan_seller :: "plan list \<Rightarrow> product list \<Rightarrow> nat \<Rightarrow> nat option" where
  "plan_seller plans prods k = (case find_by pl_pk k plans of None \<Rightarrow> None | Some pl \<Rightarrow> product_seller prods (pl_product pl))"

definition module_seller :: "course_module list \<Rightarrow> product list \<Rightarrow> nat \<Rightarrow> nat option" where
  "module_seller mods prods k = (case find_by cm_pk k mods of None \<Rightarrow> None | Some m \<Rightarrow> product_seller prods (cm_product m))"

definition lesson_seller :: "lesson list \<Rightarrow> course_module list \<Rightarrow> product list \<Rightarrow> nat \<Rightarrow> nat option" where
  "lesson_seller lessons mods prods k = (case find_by lm_pk k lessons of None \<Rightarrow> None | Some l \<Rightarrow> module_seller mods prods (lm_module l))"

definition page_key :: "seller \<Rightarrow> db \<Rightarrow> nat option" where
  "page_key x s = map_option sp_pk (page_of x s)"

text \<open>The rows of the tables a seller writes that are not the seller's.\<close>

definition others_catalog :: "seller \<Rightarrow> db \<Rightarrow> _" where
  "others_catalog x s =
     (filter (\<lambda>r. pr_seller r \<noteq> Some (sel_pk x)) (t_products s), filter (\<lambda>r. product_seller (t_products s) (pl_product r) \<noteq> Some (sel_pk x)) (t_plans s),
      filter (\<lambda>r. plan_seller (t_plans s) (t_products s) (d_plan r) \<noteq> Some (sel_pk x)) (t_deliverables s),
      filter (\<lambda>r. product_seller (t_products s) (q_product r) \<noteq> Some (sel_pk x)) (t_questions s),
      filter (\<lambda>r. plan_seller (t_plans s) (t_products s) (sub_plan r) \<noteq> Some (sel_pk x)) (t_subs s))"

definition others_store :: "seller \<Rightarrow> db \<Rightarrow> _" where
  "others_store x s =
     (filter (\<lambda>r. sel_pk r \<noteq> sel_pk x) (t_sellers s), filter (\<lambda>r. sp_slug r \<noteq> sel_slug x) (t_pages s),
      filter (\<lambda>r. Some (bl_page r) \<noteq> page_key x s) (t_blocks s), filter (\<lambda>r. cp_seller r \<noteq> Some (sel_pk x)) (t_coupons s),
      filter (\<lambda>r. al_seller r \<noteq> sel_pk x) (t_affiliate_links s), filter (\<lambda>r. po_seller r \<noteq> sel_pk x) (t_payouts s))"

definition others_courses :: "seller \<Rightarrow> db \<Rightarrow> _" where
  "others_courses x s =
     (filter (\<lambda>r. product_seller (t_products s) (cm_product r) \<noteq> Some (sel_pk x)) (t_modules s),
      filter (\<lambda>r. module_seller (t_modules s) (t_products s) (lm_module r) \<noteq> Some (sel_pk x)) (t_lessons s),
      filter (\<lambda>(c, l). lesson_seller (t_lessons s) (t_modules s) (t_products s) l \<noteq> Some (sel_pk x)) (t_progress s))"

text \<open>The tables a seller's request must not write.\<close>

definition sealed :: "db \<Rightarrow> _" where
  "sealed s = (t_wallets s, t_ledger s, t_orders s, t_topups s, t_grants s, t_licenses s, t_earnings s, t_customers s, t_users s, t_settings s)"

definition store_kept :: "seller \<Rightarrow> db \<Rightarrow> db \<Rightarrow> bool" where
  "store_kept x s t =
     (others_catalog x t = others_catalog x s \<and> others_courses x t = others_courses x s \<and> others_store x t = others_store x s \<and> sealed t = sealed s
      \<and> (\<exists>N. t_entitlements t = t_entitlements s @ N))"

text \<open>Primary and foreign keys of the database.\<close>

definition courses_ok :: "db \<Rightarrow> bool" where
  "courses_ok s =
     (distinct (map cm_pk (t_modules s)) \<and> distinct (map lm_pk (t_lessons s)) \<and> (\<forall>r \<in> set (t_modules s). cm_pk r < seq s)
      \<and> (\<forall>r \<in> set (t_lessons s). lm_pk r < seq s)
      \<and> (\<forall>r \<in> set (t_modules s). cm_product r \<in> pr_pk ` set (t_products s)) \<and> (\<forall>r \<in> set (t_lessons s). lm_module r \<in> cm_pk ` set (t_modules s))
      \<and> (\<forall>(c, k) \<in> set (t_progress s). k \<in> lm_pk ` set (t_lessons s)))"

definition catalog_ok :: "db \<Rightarrow> bool" where
  "catalog_ok s =
     (distinct (map pr_pk (t_products s)) \<and> distinct (map pl_pk (t_plans s)) \<and> distinct (map d_pk (t_deliverables s))
      \<and> distinct (map q_pk (t_questions s)) \<and> distinct (map cp_pk (t_coupons s)) \<and> distinct (map al_pk (t_affiliate_links s))
      \<and> distinct (map sub_pk (t_subs s)) \<and> distinct (map bl_pk (t_blocks s))
      \<and> (\<forall>r \<in> set (t_products s). pr_pk r < seq s) \<and> (\<forall>r \<in> set (t_plans s). pl_pk r < seq s)
      \<and> (\<forall>r \<in> set (t_plans s). pl_product r \<in> pr_pk ` set (t_products s)) \<and> (\<forall>r \<in> set (t_questions s). q_product r \<in> pr_pk ` set (t_products s))
      \<and> (\<forall>r \<in> set (t_deliverables s). d_plan r \<in> pl_pk ` set (t_plans s)) \<and> (\<forall>r \<in> set (t_subs s). sub_plan r \<in> pl_pk ` set (t_plans s))
      \<and> (\<forall>r \<in> set (t_blocks s). bl_page r \<in> sp_pk ` set (t_pages s)) \<and> courses_ok s)"

lemma courses_ok_writes [simp]:
  "courses_ok (s\<lparr>t_sellers := Se\<rparr>) = courses_ok s" "courses_ok (s\<lparr>t_plans := Pl\<rparr>) = courses_ok s" "courses_ok (s\<lparr>t_entitlements := En\<rparr>) = courses_ok s"
  by (simp_all add: courses_ok_def)

lemma courses_ok_seq [simp, intro]: "courses_ok s \<Longrightarrow> courses_ok (s\<lparr>seq := Suc (seq s)\<rparr>)"
  by (auto simp: courses_ok_def less_Suc_eq)

lemma store_kept_refl [simp]: "store_kept x s s"
  by (simp add: store_kept_def)

lemma store_kept_trans: "store_kept x s t \<Longrightarrow> store_kept x t v \<Longrightarrow> store_kept x s v"
  by (auto simp: store_kept_def)

section \<open>Who owns a row does not change\<close>

lemma product_seller_upd [simp]:
  "(\<And>r. pr_pk (f r) = pr_pk r \<and> pr_seller (f r) = pr_seller r) \<Longrightarrow> product_seller (upd_by pr_pk k f prods) = product_seller prods"
  by (rule ext) (auto simp: product_seller_def find_by_upd_by split: option.split)

lemma product_seller_append:
  "k \<in> pr_pk ` set prods \<Longrightarrow> product_seller (prods @ [pr]) k = product_seller prods k"
  by (auto simp: product_seller_def find_by_append find_by_None_iff split: option.split)

lemma plan_seller_upd [simp]:
  "(\<And>r. pl_pk (f r) = pl_pk r \<and> pl_product (f r) = pl_product r) \<Longrightarrow> plan_seller (upd_by pl_pk k f plans) = plan_seller plans"
  by (rule ext, rule ext) (auto simp: plan_seller_def find_by_upd_by split: option.split)

lemma plan_seller_upd_product [simp]:
  assumes "\<And>r. pr_pk (f r) = pr_pk r \<and> pr_seller (f r) = pr_seller r"
  shows "plan_seller plans (upd_by pr_pk k f prods) = plan_seller plans prods"
  using product_seller_upd [OF assms] by (intro ext) (simp add: plan_seller_def split: option.split)

lemma plan_seller_append:
  "k \<in> pl_pk ` set plans \<Longrightarrow> plan_seller (plans @ [pl]) prods k = plan_seller plans prods k"
  by (auto simp: plan_seller_def find_by_append find_by_None_iff split: option.split)

lemma plan_seller_append_product:
  "(\<And>r. r \<in> set plans \<Longrightarrow> pl_product r \<in> pr_pk ` set prods) \<Longrightarrow> plan_seller plans (prods @ [pr]) k = plan_seller plans prods k"
  by (auto simp: plan_seller_def product_seller_append split: option.split dest!: find_by_SomeD)

lemma plan_seller_new:
  "pl_pk q \<notin> pl_pk ` set plans \<Longrightarrow> plan_seller (plans @ [q]) prods (pl_pk q) = product_seller prods (pl_product q)"
  by (simp add: plan_seller_def find_by_append find_by_None_iff [THEN iffD2])

lemma module_seller_upd [simp]:
  assumes "\<And>r. pr_pk (f r) = pr_pk r \<and> pr_seller (f r) = pr_seller r"
  shows "module_seller mods (upd_by pr_pk k f prods) = module_seller mods prods"
  using product_seller_upd [OF assms] by (intro ext) (simp add: module_seller_def split: option.split)

lemma lesson_seller_modules:
  "module_seller mods prods' = module_seller mods prods \<Longrightarrow> lesson_seller ls mods prods' = lesson_seller ls mods prods"
  by (rule ext) (simp add: lesson_seller_def split: option.split)

lemma lesson_seller_upd [simp]:
  assumes "\<And>r. pr_pk (f r) = pr_pk r \<and> pr_seller (f r) = pr_seller r"
  shows "lesson_seller ls mods (upd_by pr_pk k f prods) = lesson_seller ls mods prods"
  by (rule lesson_seller_modules [OF module_seller_upd [OF assms]])

lemma module_seller_append_product:
  "\<forall>m \<in> set mods. cm_product m \<in> pr_pk ` set prods \<Longrightarrow> module_seller mods (prods @ [pr]) = module_seller mods prods"
  by (rule ext) (auto simp: module_seller_def product_seller_append dest!: find_by_SomeD split: option.split)

section \<open>What is the seller's own\<close>

lemma own_product:
  assumes "catalog_ok s" and "\<not> superuser_of x s" and "find_by pr_pk k (seller_products x s) = Some pr"
  shows "product_seller (t_products s) k = Some (sel_pk x)"
proof -
  have "pr \<in> set (t_products s)" "pr_pk pr = k" "pr_seller pr = Some (sel_pk x)"
    using assms(2) find_by_SomeD [OF assms(3)] by (auto simp: seller_products_def)
  then have "find_by pr_pk k (t_products s) = Some pr"
    using assms(1) find_by_distinct [of pr_pk "t_products s" pr] by (simp add: catalog_ok_def)
  with \<open>pr_seller pr = _\<close> show ?thesis by (simp add: product_seller_def)
qed

lemma own_plan_seller:
  assumes "catalog_ok s" and "find (\<lambda>r. pl_pk r = k \<and> pl_product r = p) (t_plans s) = Some pl" and "product_seller (t_products s) p = Some j"
  shows "plan_seller (t_plans s) (t_products s) k = Some j"
  using assms find_SomeD [OF assms(2)] find_by_distinct [of pl_pk "t_plans s" pl] by (auto simp: catalog_ok_def plan_seller_def)

lemma sells_own:
  assumes "catalog_ok s" and "\<not> superuser_of x s" and "sells x s p"
  shows "plan_seller (t_plans s) (t_products s) p = Some (sel_pk x)"
proof -
  obtain pl pr where pl: "find_by pl_pk p (t_plans s) = Some pl" and pr: "pr \<in> set (seller_products x s)" "pl_product pl = pr_pk pr"
    using assms(3) by (auto simp: sells_def split: option.splits)
  have "distinct (map pr_pk (seller_products x s))"
    using assms(1) by (auto simp: catalog_ok_def seller_products_def intro: distinct_map_filter)
  from own_product [OF assms(1,2), of "pr_pk pr" pr] find_by_distinct [OF this pr(1)] pl pr(2) show ?thesis
    by (simp add: plan_seller_def)
qed

section \<open>Each write keeps the others' rows\<close>

lemmas store_kept_defs = store_kept_def others_catalog_def others_courses_def others_store_def sealed_def page_key_def

lemma page_given_kept:
  assumes "stores_ok s" and "catalog_ok s" and "page_given x s t"
  shows "store_kept x s t"
proof -
  have "filter (\<lambda>r. Some (bl_page r) \<noteq> page_key x t) (t_blocks s) = filter (\<lambda>r. Some (bl_page r) \<noteq> page_key x s) (t_blocks s)"
  proof (rule filter_cong [OF refl])
    fix b assume "b \<in> set (t_blocks s)"
    then have "bl_page b < seq s" using assms(1,2) by (auto simp: catalog_ok_def stores_ok_def)
    then show "(Some (bl_page b) \<noteq> page_key x t) = (Some (bl_page b) \<noteq> page_key x s)"
      using assms(3) by (cases "page_of x s"; cases "page_of x t") (auto simp: page_key_def page_given_def)
  qed
  then show ?thesis
    using assms(3) by (auto simp: store_kept_def others_catalog_def others_courses_def others_store_def sealed_def page_given_def)
qed

lemma product_save_kept:
  assumes "catalog_ok s" and "product_seller (t_products s) k = Some (sel_pk x)"
    and "\<And>r. pr_pk (f r) = pr_pk r \<and> pr_seller (f r) = pr_seller r"
  shows "store_kept x s (s\<lparr>t_products := upd_by pr_pk k f (t_products s)\<rparr>)"
proof -
  have "pr_pk r \<noteq> k" if "r \<in> set (t_products s)" "pr_seller r \<noteq> Some (sel_pk x)" for r
    using that assms(1,2) find_by_distinct [of pr_pk "t_products s" r] by (auto simp: catalog_ok_def product_seller_def)
  then show ?thesis
    using assms(3) by (auto simp: store_kept_defs page_of_def intro!: upd_own)
qed

lemma plan_save_kept:
  assumes "catalog_ok s" and "plan_seller (t_plans s) (t_products s) k = Some (sel_pk x)"
    and "\<And>r. pl_pk (f r) = pl_pk r \<and> pl_product (f r) = pl_product r"
  shows "store_kept x s (s\<lparr>t_plans := upd_by pl_pk k f (t_plans s)\<rparr>)"
proof -
  have "pl_pk r \<noteq> k" if "r \<in> set (t_plans s)" "product_seller (t_products s) (pl_product r) \<noteq> Some (sel_pk x)" for r
    using that assms(1,2) find_by_distinct [of pl_pk "t_plans s" r] by (auto simp: catalog_ok_def plan_seller_def)
  then show ?thesis
    using assms(3) by (auto simp: store_kept_defs page_of_def intro!: upd_own)
qed

lemma sub_write_kept:
  assumes "catalog_ok s" and "find (\<lambda>r. sub_pk r = k \<and> sells x s (sub_plan r)) (t_subs s) = Some sub" and "\<not> superuser_of x s"
    and "\<And>r. sub_pk (f r) = sub_pk r \<and> sub_plan (f r) = sub_plan r"
  shows "store_kept x s (s\<lparr>t_subs := upd_by sub_pk k f (t_subs s)\<rparr>)"
proof -
  have "sub_pk r \<noteq> k" if "r \<in> set (t_subs s)" "plan_seller (t_plans s) (t_products s) (sub_plan r) \<noteq> Some (sel_pk x)" for r
    using that assms(1) find_SomeD [OF assms(2)] sells_own [OF assms(1,3)] by (auto simp: catalog_ok_def dest: distinct_key)
  then show ?thesis
    using assms(4) by (auto simp: store_kept_defs page_of_def intro!: upd_own)
qed

lemma product_row_kept:
  assumes "catalog_ok s" and "pr_seller pr = Some (sel_pk x)"
  shows "store_kept x s (s\<lparr>seq := n, t_products := t_products s @ [pr]\<rparr>)"
proof -
  have "filter (\<lambda>r. product_seller (t_products s @ [pr]) (pl_product r) \<noteq> j) (t_plans s)
      = filter (\<lambda>r. product_seller (t_products s) (pl_product r) \<noteq> j) (t_plans s)"
    "filter (\<lambda>r. product_seller (t_products s @ [pr]) (q_product r) \<noteq> j) (t_questions s)
      = filter (\<lambda>r. product_seller (t_products s) (q_product r) \<noteq> j) (t_questions s)" for j
    using assms(1) by (auto simp: catalog_ok_def product_seller_append cong: filter_cong)
  moreover have "plan_seller (t_plans s) (t_products s @ [pr]) = plan_seller (t_plans s) (t_products s)"
    using assms(1) by (intro ext plan_seller_append_product) (simp add: catalog_ok_def)
  moreover have mods: "module_seller (t_modules s) (t_products s @ [pr]) = module_seller (t_modules s) (t_products s)"
    using assms(1) by (intro module_seller_append_product) (simp add: catalog_ok_def courses_ok_def)
  moreover note lesson_seller_modules [OF mods]
  moreover have "filter (\<lambda>r. product_seller (t_products s @ [pr]) (cm_product r) \<noteq> j) (t_modules s)
      = filter (\<lambda>r. product_seller (t_products s) (cm_product r) \<noteq> j) (t_modules s)" for j
    using assms(1) by (auto simp: catalog_ok_def courses_ok_def product_seller_append cong: filter_cong)
  ultimately show ?thesis
    using assms(2) by (simp add: store_kept_defs page_of_def)
qed

lemma plan_row_kept:
  assumes "catalog_ok s" and "product_seller (t_products s) (pl_product q) = Some (sel_pk x)" and "d_plan d = pl_pk q" and "seq s \<le> pl_pk q"
  shows "store_kept x s (s\<lparr>t_plans := t_plans s @ [q], seq := n, t_deliverables := t_deliverables s @ [d]\<rparr>)"
proof -
  have "pl_pk q \<notin> pl_pk ` set (t_plans s)" using assms(1,4) by (auto simp: catalog_ok_def)
  then have new: "plan_seller (t_plans s @ [q]) (t_products s) (pl_pk q) = Some (sel_pk x)"
    using assms(2) by (simp add: plan_seller_new)
  have "filter (\<lambda>r. plan_seller (t_plans s @ [q]) (t_products s) (d_plan r) \<noteq> j) (t_deliverables s)
      = filter (\<lambda>r. plan_seller (t_plans s) (t_products s) (d_plan r) \<noteq> j) (t_deliverables s)"
    "filter (\<lambda>r. plan_seller (t_plans s @ [q]) (t_products s) (sub_plan r) \<noteq> j) (t_subs s)
      = filter (\<lambda>r. plan_seller (t_plans s) (t_products s) (sub_plan r) \<noteq> j) (t_subs s)" for j
    using assms(1) by (auto simp: catalog_ok_def plan_seller_append cong: filter_cong)
  then show ?thesis
    using assms(2,3) new by (auto simp: store_kept_defs page_of_def)
qed

lemma deliverable_row_kept:
  assumes "plan_seller (t_plans s) (t_products s) (d_plan d) = Some (sel_pk x)"
  shows "store_kept x s (s\<lparr>seq := n, t_deliverables := t_deliverables s @ [d]\<rparr>)"
  using assms by (simp add: store_kept_defs page_of_def)

lemma deliverable_save_kept:
  assumes "catalog_ok s" and "find_by d_plan k (t_deliverables s) = Some d" and "plan_seller (t_plans s) (t_products s) k = Some (sel_pk x)"
    and "\<And>r. d_pk (f r) = d_pk r \<and> d_plan (f r) = d_plan r"
  shows "store_kept x s (s\<lparr>t_deliverables := upd_by d_pk (d_pk d) f (t_deliverables s)\<rparr>)"
proof -
  have "d_pk r \<noteq> d_pk d" if "r \<in> set (t_deliverables s)" "plan_seller (t_plans s) (t_products s) (d_plan r) \<noteq> Some (sel_pk x)" for r
    using that assms(1,3) find_by_SomeD [OF assms(2)] by (auto simp: catalog_ok_def dest: distinct_key)
  then show ?thesis
    using assms(4) by (auto simp: store_kept_defs page_of_def intro!: upd_own)
qed

lemma entitlement_row_kept: "store_kept x s (s\<lparr>seq := n, t_entitlements := t_entitlements s @ [e]\<rparr>)"
  by (simp add: store_kept_defs page_of_def)

section \<open>Each request keeps them\<close>

text \<open>A seller who is let in, with the keys of the database.\<close>

definition at_desk :: "user \<Rightarrow> seller \<Rightarrow> db \<Rightarrow> bool" where
  "at_desk u x s =
     (find_by sel_user (Some (u_pk u)) (t_sellers s) = Some x \<and> sel_approved x \<and> sel_onboarded x \<and> \<not> u_superuser u
      \<and> \<not> superuser_of x s \<and> stores_ok s \<and> catalog_ok s)"

lemma desk_wp: "at_desk u x s \<Longrightarrow> wp (seller_required E (Some u) view) Q X s = wp (view x) Q X s"
  by (simp add: at_desk_def seller_required_wp)

lemma at_desk_keys:
  assumes "at_desk u x s"
  shows "stores_ok s" "catalog_ok s" "\<not> superuser_of x s" "x \<in> set (t_sellers s)"
  using assms by (auto simp: at_desk_def dest: find_by_SomeD)

lemma paged_kept:
  assumes desk: "at_desk u x s"
    and body: "\<And>p t. page_given x s t \<Longrightarrow> page_of x t = Some p \<Longrightarrow> wp (body p) (\<lambda>_. store_kept x t) (\<lambda>_. store_kept x t) t"
  shows "wp (bnd (get_or_create_store_page x) body) (\<lambda>_. store_kept x s) (\<lambda>_. store_kept x s) s"
  unfolding wp_bnd
proof (rule wp_mono [OF get_or_create_store_page_wp [OF at_desk_keys(1,4) [OF desk]]])
  fix p t assume "page_given x s t \<and> page_of x t = Some p \<and> sp_seller p = Some (sel_pk x)"
  then have "store_kept x s t" "wp (body p) (\<lambda>_. store_kept x t) (\<lambda>_. store_kept x t) t"
    using page_given_kept [OF at_desk_keys(1,2) [OF desk]] body by auto
  then show "wp (body p) (\<lambda>_. store_kept x s) (\<lambda>_. store_kept x s) t"
    by (auto intro: store_kept_trans elim!: wp_mono)
qed simp

lemma page_edit_kept:
  assumes "stores_ok s" and "page_of x s = Some p" and "\<And>r. sp_pk (f r) = sp_pk r \<and> sp_slug (f r) = sp_slug r"
  shows "store_kept x s (s\<lparr>t_pages := upd_by sp_pk (sp_pk p) f (t_pages s)\<rparr>)"
proof -
  have "sp_slug r \<noteq> sel_slug x \<Longrightarrow> sp_pk r \<noteq> sp_pk p" if "r \<in> set (t_pages s)" for r
    using that page_ofD [OF assms(2)] stores_okD(3) [OF assms(1), of r p] by auto
  moreover have "page_key x (s\<lparr>t_pages := upd_by sp_pk (sp_pk p) f (t_pages s)\<rparr>) = page_key x s"
    using assms(2,3) by (simp add: page_key_def page_of_def find_by_upd_by_other)
  ultimately show ?thesis
    using assms(3) by (auto simp: store_kept_def others_catalog_def others_courses_def others_store_def sealed_def intro!: upd_own)
qed

lemma blocks_kept:
  assumes "page_of x s = Some p" and "filter (\<lambda>b. bl_page b \<noteq> sp_pk p) B = filter (\<lambda>b. bl_page b \<noteq> sp_pk p) (t_blocks s)"
  shows "store_kept x s (s\<lparr>t_blocks := B\<rparr>)"
  using assms by (simp add: store_kept_defs page_of_def)

lemma seller_save_kept:
  assumes desk: "at_desk u x s" and f: "\<And>r. sel_pk (f r) = sel_pk r \<and> sel_slug (f r) = sel_slug r"
  shows "wp (seller_save x f) (\<lambda>_. store_kept x s) (\<lambda>_ _. False) s"
proof -
  let ?t = "s\<lparr>t_sellers := upd_by sel_pk (sel_pk x) f (t_sellers s)\<rparr>"
  have "store_kept x s ?t"
    using f by (auto simp: store_kept_defs page_of_def intro!: upd_own)
  moreover have "store_kept (f x) ?t v \<Longrightarrow> store_kept x ?t v" for v
    using f by (simp add: store_kept_defs page_of_def)
  moreover have "store_kept (f x) ?t v" if "page_given (f x) ?t v" for v
    using at_desk_keys(1,2) [OF desk] f that by (intro page_given_kept) (auto intro: stores_ok_seller simp: catalog_ok_def)
  ultimately show ?thesis
    using f by (intro wp_mono [OF seller_save_wp [OF at_desk_keys(1,4) [OF desk]]]) (auto intro: store_kept_trans)
qed

subsection \<open>Products and plans\<close>

lemma products_kept:
  assumes desk: "at_desk u x s"
  shows "wp (product_create E (Some u) pf) (\<lambda>_. store_kept x s) (\<lambda>_. store_kept x s) s"
    and "wp (product_edit E (Some u) k pf) (\<lambda>_. store_kept x s) (\<lambda>_. store_kept x s) s"
    and "wp (product_delete E (Some u) k b) (\<lambda>_. store_kept x s) (\<lambda>_. store_kept x s) s"
  using at_desk_keys [OF desk] own_product [of s x k]
  by (auto simp: product_create_def product_edit_def product_delete_def desk_wp [OF desk] seller_product_def product_create_row_def
      product_save_def wp_simps Let_def split: option.split intro!: product_save_kept product_row_kept)

lemma image_upd_by: "(\<And>r. g (f r) = g r) \<Longrightarrow> g ` set (upd_by key k f rows) = g ` set rows"
  by (metis list.set_map map_upd_by)

lemma in_upd_by: "r \<in> set (upd_by key k f rows) \<longleftrightarrow> (\<exists>q \<in> set rows. r = (if key q = k then f q else q))"
  unfolding upd_by_def list.set_map image_iff by (rule refl)

lemma catalog_ok_plan_save:
  "catalog_ok s \<Longrightarrow> (\<And>r. pl_pk (f r) = pl_pk r \<and> pl_product (f r) = pl_product r) \<Longrightarrow> catalog_ok (s\<lparr>t_plans := upd_by pl_pk k f (t_plans s)\<rparr>)"
  using image_upd_by [of pl_pk f pl_pk k "t_plans s"] by (auto simp: catalog_ok_def in_upd_by)

lemma catalog_ok_entitlement [simp]:
  "catalog_ok (s\<lparr>seq := Suc (seq s), t_entitlements := N\<rparr>) = catalog_ok (s\<lparr>seq := Suc (seq s)\<rparr>)"
  by (simp add: catalog_ok_def courses_ok_def)

lemma catalog_ok_seq: "catalog_ok s \<Longrightarrow> catalog_ok (s\<lparr>seq := Suc (seq s)\<rparr>)"
  by (auto simp: catalog_ok_def less_Suc_eq)

text \<open>A write followed by another one.\<close>

lemma store_kept_then:
  "store_kept x s t \<Longrightarrow> wp m (\<lambda>_. store_kept x t) (\<lambda>_. store_kept x t) t \<Longrightarrow> wp m (\<lambda>_. store_kept x s) (\<lambda>_. store_kept x s) t"
  by (auto intro: store_kept_trans elim!: wp_mono)

text \<open>A plan of the seller's: what comes after \<open>_seller_products\<close> and \<open>get_object_or_404\<close>.\<close>

lemma own_plan_kept:
  assumes desk: "at_desk u x s"
    and body: "\<And>pl. plan_seller (t_plans s) (t_products s) p = Some (sel_pk x) \<Longrightarrow> wp (body pl) (\<lambda>_. store_kept x s) (\<lambda>_. store_kept x s) s"
  shows "wp (seller_required E (Some u) (\<lambda>sel. bnd (seller_product sel k) (\<lambda>_. bnd (own_plan k p) body))) (\<lambda>_. store_kept x s) (\<lambda>_. store_kept x s) s"
  using at_desk_keys [OF desk] own_product [of s x k] own_plan_seller [of s p k]
  by (auto simp: desk_wp [OF desk] seller_product_def own_plan_def wp_simps split: option.split intro!: body)

lemma plans_kept:
  assumes desk: "at_desk u x s"
  shows "wp (plan_create E (Some u) k nf) (\<lambda>_. store_kept x s) (\<lambda>_. store_kept x s) s"
    and "wp (plan_edit E (Some u) k p nf) (\<lambda>_. store_kept x s) (\<lambda>_. store_kept x s) s"
proof -
  note keys = at_desk_keys [OF desk] own_product [of s x k]
  show "wp (plan_create E (Some u) k nf) (\<lambda>_. store_kept x s) (\<lambda>_. store_kept x s) s"
    using keys
    by (auto simp: plan_create_def desk_wp [OF desk] seller_product_def plan_create_row_def deliverable_create_def new_plan_def fill_plan_def
        wp_simps split: option.split prod.split intro!: plan_row_kept)
  show "wp (plan_edit E (Some u) k p nf) (\<lambda>_. store_kept x s) (\<lambda>_. store_kept x s) s"
    unfolding plan_edit_def
  proof (rule own_plan_kept [OF desk])
    fix pl assume own: "plan_seller (t_plans s) (t_products s) p = Some (sel_pk x)"
    have fill: "pl_pk (fill_plan f r) = pl_pk r \<and> pl_product (fill_plan f r) = pl_product r" for f r
      by (simp add: fill_plan_def)
    define P where "P f = upd_by pl_pk p (fill_plan f) (t_plans s)" for f
    have saved: "store_kept x s (s\<lparr>t_plans := P f\<rparr>)" and ok: "catalog_ok (s\<lparr>t_plans := P f\<rparr>)"
      and still: "plan_seller (P f) (t_products s) p = Some (sel_pk x)" for f
      using plan_save_kept [OF keys(2) own fill] catalog_ok_plan_save [OF keys(2) fill] own fill by (simp_all add: P_def)
    have row: "store_kept x s (s\<lparr>t_plans := P f, seq := n, t_deliverables := t_deliverables s @ [d]\<rparr>)" if "d_plan d = p" for f n d
      using store_kept_trans [OF saved deliverable_row_kept [of "s\<lparr>t_plans := P f\<rparr>" d x n]] still that by simp
    have old: "store_kept x s (s\<lparr>t_plans := P f, t_deliverables := upd_by d_pk (d_pk d) (\<lambda>r. r\<lparr>d_type := ty, d_config := c\<rparr>) (t_deliverables s)\<rparr>)"
      if "find_by d_plan p (t_deliverables s) = Some d" for f d ty c
      using store_kept_trans [OF saved deliverable_save_kept [OF ok, where k = p and d = d and x = x and f = "\<lambda>r. r\<lparr>d_type := ty, d_config := c\<rparr>"]] still that by simp
    show "wp (bnd (gets (\<lambda>s. find_by d_plan p (t_deliverables s))) (\<lambda>deliverable.
     case nf of
       None \<Rightarrow> ret (Page ''seller/plan_form.html'')
     | Some (f, (ty, config)) \<Rightarrow>
         bnd (plan_save p (fill_plan f)) (\<lambda>_.
         bnd (case deliverable of
                None \<Rightarrow> deliverable_create p (ty, config)
              | Some d \<Rightarrow> modify (\<lambda>s. s\<lparr>t_deliverables := upd_by d_pk (d_pk d) (\<lambda>r. r\<lparr>d_type := ty, d_config := config\<rparr>) (t_deliverables s)\<rparr>)) (\<lambda>_.
         ret (Redirect ''seller:product_edit''))))) (\<lambda>_. store_kept x s) (\<lambda>_. store_kept x s) s"
      using row old by (auto simp: P_def plan_save_def deliverable_create_def wp_simps split: option.split)
  qed
qed

lemma entitlements_kept:
  assumes desk: "at_desk u x s"
  shows "wp (entitlement_add E (Some u) k p ef) (\<lambda>_. store_kept x s) (\<lambda>_. store_kept x s) s"
    and "wp (entitlement_remove E (Some u) k p e) (\<lambda>_. store_kept x s) (\<lambda>_. store_kept x s) s"
proof -
  have linked: "wp (plan_save p f) (\<lambda>_. store_kept x t) (\<lambda>_. store_kept x t) t"
    if "catalog_ok t" "plan_seller (t_plans t) (t_products t) p = Some (sel_pk x)" "\<And>r. pl_pk (f r) = pl_pk r \<and> pl_product (f r) = pl_product r" for f t
    using plan_save_kept [OF that] by (simp add: plan_save_def wp_simps)
  show "wp (entitlement_remove E (Some u) k p e) (\<lambda>_. store_kept x s) (\<lambda>_. store_kept x s) s"
    unfolding entitlement_remove_def
    by (rule own_plan_kept [OF desk])
      (auto simp: wp_simps split: option.split intro!: linked at_desk_keys [OF desk])
  show "wp (entitlement_add E (Some u) k p ef) (\<lambda>_. store_kept x s) (\<lambda>_. store_kept x s) s"
    unfolding entitlement_add_def
    by (rule own_plan_kept [OF desk])
      (auto simp: entitlement_get_or_create_def wp_simps Let_def split: option.split
        intro!: linked store_kept_then [OF entitlement_row_kept] catalog_ok_seq at_desk_keys [OF desk])
qed

lemma questions_kept:
  assumes desk: "at_desk u x s"
  shows "wp (question_add E (Some u) k qf) (\<lambda>_. store_kept x s) (\<lambda>_. store_kept x s) s"
    and "wp (question_remove E (Some u) k q) (\<lambda>_. store_kept x s) (\<lambda>_. store_kept x s) s"
proof -
  note keys = at_desk_keys [OF desk] own_product [of s x k]
  have row: "store_kept x s (s\<lparr>seq := n, t_questions := t_questions s @ [r]\<rparr>)" if "product_seller (t_products s) (q_product r) = Some (sel_pk x)" for n r
    using that by (simp add: store_kept_defs page_of_def)
  have gone: "store_kept x s (s\<lparr>t_questions := filter (\<lambda>r. q_pk r \<noteq> q) (t_questions s)\<rparr>)"
    if "find (\<lambda>r. q_pk r = q \<and> q_product r = k) (t_questions s) = Some d" and "product_seller (t_products s) k = Some (sel_pk x)" for d
  proof -
    have "q_pk r \<noteq> q" if "r \<in> set (t_questions s)" "product_seller (t_products s) (q_product r) \<noteq> Some (sel_pk x)" for r
      using that keys(2) find_SomeD [OF \<open>find _ _ = _\<close>] \<open>product_seller _ k = _\<close> by (auto simp: catalog_ok_def dest: distinct_key)
    then show ?thesis
      by (auto simp: store_kept_defs page_of_def filter_filter intro!: filter_cong)
  qed
  show "wp (question_add E (Some u) k qf) (\<lambda>_. store_kept x s) (\<lambda>_. store_kept x s) s"
    using keys by (auto simp: question_add_def desk_wp [OF desk] seller_product_def wp_simps split: option.split intro!: row)
  show "wp (question_remove E (Some u) k q) (\<lambda>_. store_kept x s) (\<lambda>_. store_kept x s) s"
    using keys by (auto simp: question_remove_def desk_wp [OF desk] seller_product_def wp_simps split: option.split intro!: gone)
qed

subsection \<open>The store page and its blocks\<close>

lemma page_given_blocks: "page_given x s t \<Longrightarrow> t_blocks t = t_blocks s \<and> t_products t = t_products s"
  by (auto simp: page_given_def)

lemma block_saved_kept:
  assumes "distinct (map bl_pk (t_blocks s))" and "page_of x s = Some p"
    and "find (\<lambda>b. bl_pk b = k \<and> bl_page b = sp_pk p) (t_blocks s) = Some d"
  shows "store_kept x s (s\<lparr>t_blocks := filter (\<lambda>b. bl_pk b \<noteq> k) (t_blocks s)\<rparr>)"
    and "(\<And>b. bl_page (f b) = bl_page b) \<Longrightarrow> store_kept x s (s\<lparr>t_blocks := upd_by bl_pk k f (t_blocks s)\<rparr>)"
proof -
  have other: "bl_pk b \<noteq> k" if "b \<in> set (t_blocks s)" "bl_page b \<noteq> sp_pk p" for b
    using that assms(1) find_SomeD [OF assms(3)] by (auto dest: distinct_key)
  have "filter (\<lambda>b. bl_page b \<noteq> sp_pk p) (filter (\<lambda>b. bl_pk b \<noteq> k) (t_blocks s)) = filter (\<lambda>b. bl_page b \<noteq> sp_pk p) (t_blocks s)"
    unfolding filter_filter using other by (auto intro: filter_cong)
  then show "store_kept x s (s\<lparr>t_blocks := filter (\<lambda>b. bl_pk b \<noteq> k) (t_blocks s)\<rparr>)"
    by (rule blocks_kept [OF assms(2)])
  show "store_kept x s (s\<lparr>t_blocks := upd_by bl_pk k f (t_blocks s)\<rparr>)" if "\<And>b. bl_page (f b) = bl_page b"
    using that other by (auto intro!: blocks_kept [OF assms(2)] upd_own)
qed

lemma block_row_kept:
  "page_of x s = Some p \<Longrightarrow> bl_page b = sp_pk p \<Longrightarrow> store_kept x s (s\<lparr>seq := n, t_blocks := t_blocks s @ [b]\<rparr>)"
  by (simp add: store_kept_defs page_of_def)

lemma reordered_kept:
  assumes "page_of x s = Some p"
  shows "wp (for_each (block_set_position (sp_pk p)) ks) (\<lambda>_. store_kept x s) (\<lambda>_. store_kept x s) s"
  using assms
proof (induction ks arbitrary: s)
  case (Cons e ks)
  obtain position k where e: "e = (position, k)" by fastforce
  let ?t = "s\<lparr>t_blocks := upd_where (\<lambda>b. int (bl_pk b) = k \<and> bl_page b = sp_pk p) (\<lambda>b. b\<lparr>bl_position := position\<rparr>) (t_blocks s)\<rparr>"
  have "filter (\<lambda>b. bl_page b \<noteq> sp_pk p) (upd_where (\<lambda>b. int (bl_pk b) = k \<and> bl_page b = sp_pk p) (\<lambda>b. b\<lparr>bl_position := position\<rparr>) B)
      = filter (\<lambda>b. bl_page b \<noteq> sp_pk p) B" for B
    by (induction B) (auto simp: upd_where_def)
  then have "store_kept x s ?t" by (rule blocks_kept [OF Cons.prems])
  moreover have "page_of x ?t = Some p" using Cons.prems by (simp add: page_of_def)
  ultimately show ?case
    using Cons.IH [of ?t] by (auto simp: e block_set_position_def wp_simps intro!: store_kept_then)
qed (simp add: wp_simps)

lemma pages_kept:
  assumes desk: "at_desk u x s"
  shows "wp (store E (Some u) title) (\<lambda>_. store_kept x s) (\<lambda>_. store_kept x s) s"
    and "wp (store_publish_toggle E (Some u)) (\<lambda>_. store_kept x s) (\<lambda>_. store_kept x s) s"
proof -
  have saved: "wp (page_save (sp_pk p) f) (\<lambda>_. store_kept x t) (\<lambda>_. store_kept x t) t"
    if "page_given x s t" "page_of x t = Some p" "\<And>r. sp_pk (f r) = sp_pk r \<and> sp_slug (f r) = sp_slug r" for f p t
    using that page_edit_kept [OF _ that(2,3)] by (auto simp: page_save_def page_given_def wp_simps)
  show "wp (store E (Some u) title) (\<lambda>_. store_kept x s) (\<lambda>_. store_kept x s) s"
    unfolding store_def desk_wp [OF desk]
    by (rule paged_kept [OF desk]) (auto simp: wp_bnd wp_ret split: option.split intro!: saved)
  show "wp (store_publish_toggle E (Some u)) (\<lambda>_. store_kept x s) (\<lambda>_. store_kept x s) s"
    unfolding store_publish_toggle_def desk_wp [OF desk]
    by (rule paged_kept [OF desk]) (auto simp: wp_bnd wp_ret intro!: saved)
qed

lemma page_blocks_kept:
  assumes desk: "at_desk u x s"
  shows "wp (block_add E (Some u) f) (\<lambda>_. store_kept x s) (\<lambda>_. store_kept x s) s"
    and "wp (block_remove E (Some u) k) (\<lambda>_. store_kept x s) (\<lambda>_. store_kept x s) s"
    and "wp (block_toggle_visibility E (Some u) k) (\<lambda>_. store_kept x s) (\<lambda>_. store_kept x s) s"
    and "wp (block_reorder E (Some u) f) (\<lambda>_. store_kept x s) (\<lambda>_. store_kept x s) s"
proof -
  have keys: "distinct (map bl_pk (t_blocks t))" if "page_given x s t" for t
    using at_desk_keys(2) [OF desk] page_given_blocks [OF that] by (simp add: catalog_ok_def)
  note unfold = block_add_def block_remove_def block_toggle_visibility_def block_reorder_def desk_wp [OF desk]
  show "wp (block_remove E (Some u) k) (\<lambda>_. store_kept x s) (\<lambda>_. store_kept x s) s"
    unfolding unfold
    by (rule paged_kept [OF desk]) (auto simp: own_block_def wp_simps split: option.split intro!: block_saved_kept keys)
  show "wp (block_toggle_visibility E (Some u) k) (\<lambda>_. store_kept x s) (\<lambda>_. store_kept x s) s"
    unfolding unfold
    by (rule paged_kept [OF desk]) (auto simp: own_block_def block_save_def wp_simps split: option.split intro!: block_saved_kept keys)
  show "wp (block_add E (Some u) f) (\<lambda>_. store_kept x s) (\<lambda>_. store_kept x s) s"
    unfolding unfold
    by (rule paged_kept [OF desk])
      (auto simp: seller_product_def next_position_def block_create_def wp_simps Let_def split: option.split intro!: block_row_kept)
  show "wp (block_reorder E (Some u) f) (\<lambda>_. store_kept x s) (\<lambda>_. store_kept x s) s"
    unfolding unfold
    by (rule paged_kept [OF desk]) (auto simp: wp_simps split: option.split intro!: reordered_kept)
qed

subsection \<open>Vouchers, messages, settings, payouts, affiliates and subscriptions\<close>

lemma coupon_save_kept:
  assumes "distinct (map cp_pk (t_coupons s))" and "find (\<lambda>r. cp_pk r = k \<and> cp_seller r = Some (sel_pk x)) (t_coupons s) = Some c"
    and "\<And>r. cp_seller (f r) = cp_seller r"
  shows "store_kept x s (s\<lparr>t_coupons := upd_by cp_pk k f (t_coupons s)\<rparr>)"
proof -
  have "cp_pk r \<noteq> k" if "r \<in> set (t_coupons s)" "cp_seller r \<noteq> Some (sel_pk x)" for r
    using that assms(1) find_SomeD [OF assms(2)] by (auto dest: distinct_key)
  then show ?thesis
    using assms(3) by (auto simp: store_kept_defs page_of_def intro!: upd_own)
qed

lemma link_save_kept:
  assumes "distinct (map al_pk (t_affiliate_links s))" and "find (\<lambda>r. al_pk r = k \<and> al_seller r = sel_pk x) (t_affiliate_links s) = Some c"
    and "\<And>r. al_seller (f r) = al_seller r"
  shows "store_kept x s (s\<lparr>t_affiliate_links := upd_by al_pk k f (t_affiliate_links s)\<rparr>)"
proof -
  have "al_pk r \<noteq> k" if "r \<in> set (t_affiliate_links s)" "al_seller r \<noteq> sel_pk x" for r
    using that assms(1) find_SomeD [OF assms(2)] by (auto dest: distinct_key)
  then show ?thesis
    using assms(3) by (auto simp: store_kept_defs page_of_def intro!: upd_own)
qed

lemma own_rows_kept:
  "cp_seller c = Some (sel_pk x) \<Longrightarrow> store_kept x s (s\<lparr>seq := n, t_coupons := t_coupons s @ [c]\<rparr>)"
  "al_seller l = sel_pk x \<Longrightarrow> store_kept x s (s\<lparr>seq := n, t_affiliate_links := t_affiliate_links s @ [l]\<rparr>)"
  "po_seller w = sel_pk x \<Longrightarrow> store_kept x s (s\<lparr>seq := n, t_payouts := t_payouts s @ [w]\<rparr>)"
  by (simp_all add: store_kept_defs page_of_def)

lemma vouchers_kept:
  assumes desk: "at_desk u x s"
  shows "wp (voucher_create E (Some u) vf) (\<lambda>_. store_kept x s) (\<lambda>_. store_kept x s) s"
    and "wp (voucher_edit E (Some u) k vf) (\<lambda>_. store_kept x s) (\<lambda>_. store_kept x s) s"
    and "wp (voucher_toggle E (Some u) k b) (\<lambda>_. store_kept x s) (\<lambda>_. store_kept x s) s"
  using at_desk_keys(2) [OF desk]
  by (auto simp: voucher_create_def voucher_edit_def voucher_toggle_def desk_wp [OF desk] own_coupon_def coupon_save_def fill_coupon_def
      wp_simps Let_def catalog_ok_def split: option.split intro!: coupon_save_kept own_rows_kept)

lemma affiliates_kept:
  assumes desk: "at_desk u x s"
  shows "wp (affiliates E (Some u) af) (\<lambda>_. store_kept x s) (\<lambda>_. store_kept x s) s"
    and "wp (affiliate_toggle E (Some u) k) (\<lambda>_. store_kept x s) (\<lambda>_. store_kept x s) s"
  using at_desk_keys(2) [OF desk]
  by (auto simp: affiliates_def affiliate_toggle_def desk_wp [OF desk] wp_simps catalog_ok_def split: option.split prod.split
      intro!: link_save_kept own_rows_kept)

lemma subscriptions_kept:
  assumes desk: "at_desk u x s"
  shows "wp (subscription_cancel E (Some u) k) (\<lambda>_. store_kept x s) (\<lambda>_. store_kept x s) s"
    and "wp (subscription_toggle_suspend E (Some u) k) (\<lambda>_. store_kept x s) (\<lambda>_. store_kept x s) s"
    and "wp (subscription_toggle_renew E (Some u) k) (\<lambda>_. store_kept x s) (\<lambda>_. store_kept x s) s"
  using at_desk_keys(2,3) [OF desk]
  by (auto simp: subscription_cancel_def subscription_toggle_suspend_def subscription_toggle_renew_def desk_wp [OF desk]
      seller_subscription_def sub_write_def wp_simps split: option.split intro!: sub_write_kept)

lemma queued_kept:
  "wp (for_each (\<lambda>c. queue (g c)) cs) (\<lambda>_. store_kept x s) (\<lambda>_. store_kept x s) s"
proof (induction cs arbitrary: s)
  case (Cons c cs)
  have "store_kept x s (s\<lparr>outbox := outbox s @ [g c]\<rparr>)" by (simp add: store_kept_defs page_of_def)
  from store_kept_then [OF this Cons.IH] show ?case by (simp add: queue_def wp_simps)
qed (simp add: wp_simps)

lemma office_kept:
  assumes desk: "at_desk u x s"
  shows "wp (broadcast E (Some u) bf) (\<lambda>_. store_kept x s) (\<lambda>_. store_kept x s) s"
    and "wp (seller_settings E (Some u) sf) (\<lambda>_. store_kept x s) (\<lambda>_. store_kept x s) s"
    and "wp (payout_request E (Some u) f) (\<lambda>_. store_kept x s) (\<lambda>_. store_kept x s) s"
proof -
  show "wp (broadcast E (Some u) bf) (\<lambda>_. store_kept x s) (\<lambda>_. store_kept x s) s"
    unfolding broadcast_def desk_wp [OF desk] Let_def
    by (auto simp: wp_simps queued_kept split: option.split prod.split)
  show "wp (seller_settings E (Some u) sf) (\<lambda>_. store_kept x s) (\<lambda>_. store_kept x s) s"
    by (auto simp: seller_settings_def desk_wp [OF desk] wp_bnd wp_ret split: option.split
        intro!: wp_mono [OF seller_save_kept [OF desk]])
  show "wp (payout_request E (Some u) f) (\<lambda>_. store_kept x s) (\<lambda>_. store_kept x s) s"
    by (auto simp: payout_request_def desk_wp [OF desk] payout_create_def wp_simps split: option.split intro!: own_rows_kept)
qed

subsection \<open>Courses\<close>

lemma module_seller_append:
  "k \<in> cm_pk ` set mods \<Longrightarrow> module_seller (mods @ [m]) prods k = module_seller mods prods k"
  by (auto simp: module_seller_def find_by_append find_by_None_iff split: option.split)

lemma lesson_seller_append:
  "k \<in> lm_pk ` set ls \<Longrightarrow> lesson_seller (ls @ [l]) mods prods k = lesson_seller ls mods prods k"
  by (auto simp: lesson_seller_def find_by_append find_by_None_iff split: option.split)

lemma lesson_seller_append_module:
  "\<forall>l \<in> set ls. lm_module l \<in> cm_pk ` set mods \<Longrightarrow> lesson_seller ls (mods @ [m]) prods = lesson_seller ls mods prods"
  by (rule ext) (auto simp: lesson_seller_def module_seller_append dest!: find_by_SomeD split: option.split)

lemma module_row_kept:
  assumes "courses_ok s" and "product_seller (t_products s) (cm_product m) = Some (sel_pk x)"
  shows "store_kept x s (s\<lparr>seq := n, t_modules := t_modules s @ [m]\<rparr>)"
proof -
  have "filter (\<lambda>r. module_seller (t_modules s @ [m]) (t_products s) (lm_module r) \<noteq> j) (t_lessons s)
      = filter (\<lambda>r. module_seller (t_modules s) (t_products s) (lm_module r) \<noteq> j) (t_lessons s)" for j
    using assms(1) by (auto simp: courses_ok_def module_seller_append cong: filter_cong)
  then show ?thesis
    using assms by (simp add: store_kept_defs page_of_def lesson_seller_append_module courses_ok_def)
qed

lemma lesson_row_kept:
  assumes "courses_ok s" and "module_seller (t_modules s) (t_products s) (lm_module l) = Some (sel_pk x)"
  shows "store_kept x s (s\<lparr>seq := n, t_lessons := t_lessons s @ [l]\<rparr>)"
proof -
  have "filter (\<lambda>(c, k). lesson_seller (t_lessons s @ [l]) (t_modules s) (t_products s) k \<noteq> j) (t_progress s)
      = filter (\<lambda>(c, k). lesson_seller (t_lessons s) (t_modules s) (t_products s) k \<noteq> j) (t_progress s)" for j
    using assms(1) by (intro filter_cong) (auto simp: courses_ok_def lesson_seller_append)
  then show ?thesis
    using assms(2) by (simp add: store_kept_defs page_of_def)
qed

text \<open>Lessons of the seller's own modules go, with the progress made in them.\<close>

lemma find_by_filter: "(\<And>r. key r = k \<Longrightarrow> p r) \<Longrightarrow> find_by key k (filter p xs) = find_by key k xs"
  by (induction xs) auto

lemma lessons_delete_kept:
  assumes ok: "courses_ok s" and own: "\<forall>l \<in> set (t_lessons s). doomed l \<longrightarrow> module_seller (t_modules s) (t_products s) (lm_module l) = Some (sel_pk x)"
  shows "store_kept x s (lessons_delete doomed s)"
proof -
  let ?others = "\<lambda>ls (c, k). lesson_seller ls (t_modules s) (t_products s) k \<noteq> Some (sel_pk x)"
  let ?left = "filter (\<lambda>l. \<not> doomed l) (t_lessons s)"
  have row: "find_by lm_pk (lm_pk l) (t_lessons s) = Some l" if "l \<in> set (t_lessons s)" for l
    using that ok by (auto simp: courses_ok_def intro: find_by_distinct)
  have "(\<not> (\<exists>l \<in> set (t_lessons s). lm_pk l = k \<and> doomed l) \<and> ?others ?left (c, k)) = ?others (t_lessons s) (c, k)"
    if "(c, k) \<in> set (t_progress s)" for c k
  proof -
    from that ok have "k \<in> lm_pk ` set (t_lessons s)" unfolding courses_ok_def by blast
    then obtain l where l: "l \<in> set (t_lessons s)" "lm_pk l = k" by blast
    have one: "r = l" if "r \<in> set (t_lessons s)" "lm_pk r = k" for r
      using that l ok by (auto simp: courses_ok_def dest: distinct_key)
    show ?thesis
    proof (cases "doomed l")
      case True
      with own l have "module_seller (t_modules s) (t_products s) (lm_module l) = Some (sel_pk x)" by blast
      with True l row [OF l(1)] show ?thesis by (auto simp: lesson_seller_def)
    next
      case False
      have "distinct (map lm_pk ?left)" using ok by (auto simp: courses_ok_def intro: distinct_map_filter)
      then have "find_by lm_pk k ?left = Some l" using l False find_by_distinct [of lm_pk ?left l] by simp
      moreover have "\<not> (\<exists>r \<in> set (t_lessons s). lm_pk r = k \<and> doomed r)" using one False by blast
      ultimately show ?thesis using row [OF l(1)] l(2) by (simp add: lesson_seller_def)
    qed
  qed
  then have "filter (?others ?left) (filter (\<lambda>(c, k). \<not> (\<exists>l \<in> set (t_lessons s). lm_pk l = k \<and> doomed l)) (t_progress s))
      = filter (?others (t_lessons s)) (t_progress s)"
    unfolding filter_filter by (intro filter_cong) auto
  moreover have "filter (\<lambda>r. module_seller (t_modules s) (t_products s) (lm_module r) \<noteq> Some (sel_pk x)) ?left
      = filter (\<lambda>r. module_seller (t_modules s) (t_products s) (lm_module r) \<noteq> Some (sel_pk x)) (t_lessons s)"
    unfolding filter_filter using own by (intro filter_cong) auto
  ultimately show ?thesis
    by (simp add: lessons_delete_def store_kept_defs page_of_def)
qed

lemma module_gone_kept:
  assumes "courses_ok s" and "module_seller (t_modules s) (t_products s) k = Some (sel_pk x)" and "\<forall>l \<in> set (t_lessons s). lm_module l \<noteq> k"
  shows "store_kept x s (s\<lparr>t_modules := filter (\<lambda>m. cm_pk m \<noteq> k) (t_modules s)\<rparr>)"
proof -
  let ?left = "filter (\<lambda>m. cm_pk m \<noteq> k) (t_modules s)"
  have other: "module_seller ?left (t_products s) j = module_seller (t_modules s) (t_products s) j" if "j \<noteq> k" for j
    using that by (simp add: module_seller_def find_by_filter)
  then have lessons: "filter (\<lambda>r. module_seller ?left (t_products s) (lm_module r) \<noteq> i) (t_lessons s)
      = filter (\<lambda>r. module_seller (t_modules s) (t_products s) (lm_module r) \<noteq> i) (t_lessons s)" for i
    using assms(3) by (auto cong: filter_cong)
  moreover have "lesson_seller (t_lessons s) ?left (t_products s) = lesson_seller (t_lessons s) (t_modules s) (t_products s)"
    using assms(3) other by (intro ext) (auto simp: lesson_seller_def dest!: find_by_SomeD split: option.split)
  moreover have "cm_pk m \<noteq> k" if "m \<in> set (t_modules s)" "product_seller (t_products s) (cm_product m) \<noteq> Some (sel_pk x)" for m
    using that assms(1,2) find_by_distinct [of cm_pk "t_modules s" m] by (auto simp: courses_ok_def module_seller_def)
  then have "filter (\<lambda>m. product_seller (t_products s) (cm_product m) \<noteq> Some (sel_pk x)) ?left
      = filter (\<lambda>m. product_seller (t_products s) (cm_product m) \<noteq> Some (sel_pk x)) (t_modules s)"
    unfolding filter_filter by (intro filter_cong) auto
  ultimately show ?thesis by (simp add: store_kept_defs page_of_def)
qed

lemma own_module_seller:
  assumes "courses_ok s" and "find (\<lambda>m. cm_pk m = k \<and> cm_product m = p) (t_modules s) = Some m" and "product_seller (t_products s) p = j"
  shows "module_seller (t_modules s) (t_products s) k = j"
  using assms find_SomeD [OF assms(2)] find_by_distinct [of cm_pk "t_modules s" m] by (auto simp: courses_ok_def module_seller_def)

lemma lessons_delete_ok:
  assumes "courses_ok s"
  shows "courses_ok (lessons_delete doomed s)"
proof -
  have "k \<in> lm_pk ` set (filter (\<lambda>l. \<not> doomed l) (t_lessons s))"
    if "(c, k) \<in> set (t_progress s)" "\<not> (\<exists>l \<in> set (t_lessons s). lm_pk l = k \<and> doomed l)" for c k
  proof -
    from that(1) assms have "k \<in> lm_pk ` set (t_lessons s)" unfolding courses_ok_def by blast
    with that(2) show ?thesis by auto
  qed
  then show ?thesis
    using assms by (auto simp: courses_ok_def lessons_delete_def distinct_map_filter)
qed

lemma module_delete_kept:
  assumes ok: "courses_ok s" and own: "module_seller (t_modules s) (t_products s) k = Some (sel_pk x)"
  shows "store_kept x s ((lessons_delete (\<lambda>l. lm_module l = k) s)\<lparr>t_modules := filter (\<lambda>m. cm_pk m \<noteq> k) (t_modules s)\<rparr>)"
proof -
  let ?t = "lessons_delete (\<lambda>l. lm_module l = k) s"
  have "courses_ok ?t"
    by (rule lessons_delete_ok [OF ok])
  moreover have "module_seller (t_modules ?t) (t_products ?t) k = Some (sel_pk x)" using own by (simp add: lessons_delete_def)
  moreover have "\<forall>l \<in> set (t_lessons ?t). lm_module l \<noteq> k" by (simp add: lessons_delete_def)
  ultimately have "store_kept x ?t (?t\<lparr>t_modules := filter (\<lambda>m. cm_pk m \<noteq> k) (t_modules ?t)\<rparr>)"
    by (rule module_gone_kept)
  with lessons_delete_kept [OF ok, of "\<lambda>l. lm_module l = k" x] own show ?thesis
    by (auto intro: store_kept_trans simp: lessons_delete_def)
qed

text \<open>The common start of the three: the seller's product and its module, read without a write.\<close>

lemma course_wp:
  assumes desk: "at_desk u x s"
    and found: "module_seller (t_modules s) (t_products s) k = Some (sel_pk x) \<Longrightarrow> wp (body x) Q R s" and refused: "R Http404 s"
  shows "wp (seller_required E (Some u) (\<lambda>sel. bnd (seller_product sel p) (\<lambda>pr. bnd (own_module p k) (\<lambda>_. body sel)))) Q R s"
  using own_product [OF at_desk_keys(2,3) [OF desk], of p] own_module_seller [of s k p] at_desk_keys(2) [OF desk] found refused
  by (auto simp: desk_wp [OF desk] seller_product_def own_module_def wp_simps catalog_ok_def split: option.split)

lemma courses_kept:
  assumes desk: "at_desk u x s"
  shows "wp (course_modules E (Some u) p mf) (\<lambda>_. store_kept x s) (\<lambda>_. store_kept x s) s"
    and "wp (lesson_add E (Some u) p k lf) (\<lambda>_. store_kept x s) (\<lambda>_. store_kept x s) s"
    and "wp (module_delete E (Some u) p k) (\<lambda>_. store_kept x s) (\<lambda>_. store_kept x s) s"
    and "wp (lesson_delete E (Some u) p k l) (\<lambda>_. store_kept x s) (\<lambda>_. store_kept x s) s"
proof -
  note keys = at_desk_keys(2,3) [OF desk]
  have ok: "courses_ok s" using keys(1) by (simp add: catalog_ok_def)
  note own = own_product [OF keys]
  show "wp (course_modules E (Some u) p mf) (\<lambda>_. store_kept x s) (\<lambda>_. store_kept x s) s"
    using own ok by (auto simp: course_modules_def desk_wp [OF desk] seller_product_def wp_simps split: option.split intro!: module_row_kept)
  show "wp (lesson_add E (Some u) p k lf) (\<lambda>_. store_kept x s) (\<lambda>_. store_kept x s) s"
    using course_wp [OF desk] lesson_row_kept [OF ok] by (auto simp: lesson_add_def wp_simps split: option.split)
  show "wp (module_delete E (Some u) p k) (\<lambda>_. store_kept x s) (\<lambda>_. store_kept x s) s"
    using course_wp [OF desk] module_delete_kept [OF ok] by (auto simp: module_delete_def wp_simps split: option.split)
  have "store_kept x s (lessons_delete (\<lambda>r. lm_pk r = l) s)"
    if "find (\<lambda>r. lm_pk r = l \<and> lm_module r = k) (t_lessons s) = Some q" "module_seller (t_modules s) (t_products s) k = Some (sel_pk x)" for q
  proof (rule lessons_delete_kept [OF ok], safe)
    fix r assume r: "r \<in> set (t_lessons s)" "l = lm_pk r"
    have "r = q" by (rule distinct_key [of lm_pk "t_lessons s"]) (use r find_SomeD [OF that(1)] ok in \<open>simp_all add: courses_ok_def\<close>)
    then show "module_seller (t_modules s) (t_products s) (lm_module r) = Some (sel_pk x)" using find_SomeD [OF that(1)] that(2) by simp
  qed
  then show "wp (lesson_delete E (Some u) p k l) (\<lambda>_. store_kept x s) (\<lambda>_. store_kept x s) s"
    using course_wp [OF desk] by (auto simp: lesson_delete_def wp_simps split: option.split)
qed

lemmas desk_kept = courses_kept products_kept plans_kept entitlements_kept questions_kept pages_kept page_blocks_kept vouchers_kept
  affiliates_kept subscriptions_kept office_kept


section \<open>A shared database\<close>

text \<open>A second seller's product beside the first seller's store.\<close>

definition other_product :: product where
  "other_product = \<lparr>pr_pk = 9, pr_seller = Some 8, pr_name = ''Milik'', pr_slug = ''milik'', pr_type = Product_ONE_TIME,
     pr_visibility = Visibility_PUBLIC\<rparr>"

definition shared_db :: db where
  "shared_db = (wizard_db 4)\<lparr>seq := 10, t_products := t_products (wizard_db 4) @ [other_product]\<rparr>"

definition desk_seller :: seller where
  "desk_seller = example_seller\<lparr>sel_step := Onboarding_PUBLISH, sel_onboarded := True\<rparr>"

lemma shared_desk: "at_desk example_seller_user desk_seller shared_db"
  by (auto simp: at_desk_def stores_ok_def catalog_ok_def courses_ok_def superuser_of_def shared_db_def desk_seller_def other_product_def example_store_simps)


end
