(* ===== verification/Payouts.thy ===== *)
theory Payouts
  imports Seller_Isolation
begin

text \<open>
  What becomes of a payout a seller requested: the actions of the back office (\<open>SellerPayoutAdmin\<close> in
  \<open>billing/admin.py\<close>).  The admin site decides who may use them; \<open>keys\<close> are the rows that were selected.
\<close>

section \<open>The actions of the back office\<close>

definition payout_update :: "payout_status list \<Rightarrow> (seller_payout \<Rightarrow> seller_payout) \<Rightarrow> nat list \<Rightarrow> unit prog" where
  "payout_update from f keys =
     modify (\<lambda>s. s\<lparr>t_payouts := map (\<lambda>r. if po_pk r \<in> set keys \<and> po_status r \<in> set from then f r else r) (t_payouts s)\<rparr>)"

definition approve_payouts :: "nat list \<Rightarrow> unit prog" where
  "approve_payouts = payout_update [Payout_PENDING] (\<lambda>r. r\<lparr>po_status := Payout_APPROVED\<rparr>)"

definition complete_payouts :: "nat list \<Rightarrow> unit prog" where
  "complete_payouts keys =
     bnd now (\<lambda>t. payout_update [Payout_APPROVED] (\<lambda>r. r\<lparr>po_status := Payout_COMPLETED, po_processed := Some t\<rparr>) keys)"

definition reject_payouts :: "nat list \<Rightarrow> unit prog" where
  "reject_payouts = payout_update [Payout_PENDING, Payout_APPROVED] (\<lambda>r. r\<lparr>po_status := Payout_REJECTED\<rparr>)"

datatype payout_action = Approve_payouts "nat list" | Complete_payouts "nat list" | Reject_payouts "nat list"

fun back_office :: "payout_action \<Rightarrow> unit prog" where
  "back_office (Approve_payouts keys) = approve_payouts keys"
| "back_office (Complete_payouts keys) = complete_payouts keys"
| "back_office (Reject_payouts keys) = reject_payouts keys"

lemmas back_office_defs = approve_payouts_def complete_payouts_def reject_payouts_def payout_update_def

section \<open>The way of a payout\<close>

text \<open>What a payout may become, and how it moves there.\<close>

inductive payout_step :: "payout_status \<Rightarrow> payout_status \<Rightarrow> bool" where
  approved: "payout_step Payout_PENDING Payout_APPROVED"
| completed: "payout_step Payout_APPROVED Payout_COMPLETED"
| refused: "payout_step Payout_PENDING Payout_REJECTED"
| withdrawn: "payout_step Payout_APPROVED Payout_REJECTED"

inductive_cases payout_stepE: "payout_step st st'"

inductive_simps final_payout [simp]: "payout_step Payout_COMPLETED st" "payout_step Payout_REJECTED st"

text \<open>Seller, amount and bank account stay; the time is set on completion and never again.\<close>

definition payout_terms :: "seller_payout \<Rightarrow> nat \<times> nat \<times> int \<times> string \<times> string \<times> string" where
  "payout_terms r = (po_pk r, po_seller r, po_amount r, po_bank_name r, po_account_number r, po_account_name r)"

definition moved :: "seller_payout \<Rightarrow> seller_payout \<Rightarrow> bool" where
  "moved r r' =
     (payout_terms r' = payout_terms r \<and> payout_step\<^sup>*\<^sup>* (po_status r) (po_status r')
      \<and> (po_processed r' = po_processed r \<or> po_status r \<noteq> Payout_COMPLETED \<and> po_status r' = Payout_COMPLETED \<and> po_processed r' \<noteq> None))"

lemma final_stays:
  assumes "payout_step\<^sup>*\<^sup>* st st'" and "st \<in> {Payout_COMPLETED, Payout_REJECTED}"
  shows "st' = st"
  using assms by (induction rule: converse_rtranclp_induct) auto

lemma moved_refl [simp]: "moved r r"
  by (simp add: moved_def)

lemma moved_trans: "moved p q \<Longrightarrow> moved q r \<Longrightarrow> moved p r"
  unfolding moved_def by (auto dest: final_stays intro: rtranclp_trans)

text \<open>What a table of payouts has become: its rows have moved, and new ones came after them.\<close>

definition payouts_settled :: "seller_payout list \<Rightarrow> seller_payout list \<Rightarrow> bool" where
  "payouts_settled old new = (\<exists>N M. new = N @ M \<and> list_all2 moved old N)"

lemma settled_refl [simp]: "payouts_settled old old"
  unfolding payouts_settled_def by (intro exI [of _ old] exI [of _ "[]"]) (simp add: list.rel_refl)

lemma settled_append: "payouts_settled old new \<Longrightarrow> payouts_settled old (new @ xs)"
  unfolding payouts_settled_def by (metis append.assoc)

lemma settled_map:
  assumes "payouts_settled old new" and "\<And>r. moved r (f r)"
  shows "payouts_settled old (map f new)"
proof -
  obtain N M where new: "new = N @ M" and rows: "list_all2 moved old N"
    using assms(1) by (auto simp: payouts_settled_def)
  have "list_all2 moved old (map f N)"
    using rows by (auto simp: list_all2_conv_all_nth intro: moved_trans [OF _ assms(2)])
  then show ?thesis
    unfolding payouts_settled_def new by auto
qed

lemma back_office_settles: "pres (\<lambda>s. payouts_settled old (t_payouts s)) (back_office a)"
proof (cases a)
  case (Approve_payouts keys)
  then show ?thesis
    by (auto simp: back_office_defs moved_def payout_terms_def intro!: pres_modify settled_map payout_step.intros r_into_rtranclp)
next
  case (Complete_payouts keys)
  then show ?thesis
    by (auto simp: back_office_defs moved_def payout_terms_def now_def intro!: pres_intros pres_modify settled_map payout_step.intros r_into_rtranclp)
next
  case (Reject_payouts keys)
  then show ?thesis
    by (auto simp: back_office_defs moved_def payout_terms_def intro!: pres_modify settled_map payout_step.intros r_into_rtranclp)
qed

lemma payout_create_settles: "pres (\<lambda>s. payouts_settled old (t_payouts s)) (payout_create x n)"
  unfolding payout_create_def by (rule presI) (simp add: run_simps new_pk_def settled_append)

section \<open>Nothing is used up\<close>

text \<open>One round: the seller asks for the amount of the form, the back office approves and pays what came last.\<close>

definition payout_round :: "env \<Rightarrow> user \<Rightarrow> form \<Rightarrow> unit prog" where
  "payout_round E u f =
     bnd (payout_request E (Some u) f) (\<lambda>_.
     bnd (gets (\<lambda>s. [po_pk (last (t_payouts s))])) (\<lambda>keys.
     bnd (back_office (Approve_payouts keys)) (\<lambda>_. back_office (Complete_payouts keys))))"

definition paid_to :: "seller \<Rightarrow> db \<Rightarrow> int" where
  "paid_to x s = sum_list (map po_amount (filter (\<lambda>r. po_seller r = sel_pk x \<and> po_status r = Payout_COMPLETED) (t_payouts s)))"

text \<open>A seller with a bank account whose pending earnings cover the amount asked for.\<close>

definition may_ask :: "user \<Rightarrow> seller \<Rightarrow> int \<Rightarrow> db \<Rightarrow> bool" where
  "may_ask u x amount s =
     (find_by sel_user (Some (u_pk u)) (t_sellers s) = Some x \<and> sel_approved x \<and> sel_onboarded x \<and> \<not> u_superuser u
      \<and> sel_bank_name x \<noteq> [] \<and> sel_account_number x \<noteq> [] \<and> amount \<le> pending_net (sel_pk x) s \<and> (\<forall>r \<in> set (t_payouts s). po_pk r < seq s))"

lemma untouched: "(\<And>r. r \<in> set xs \<Longrightarrow> \<not> p r) \<Longrightarrow> map (\<lambda>r. if p r then f r else r) xs = xs"
  by (induction xs) auto

lemma payout_round_wp:
  assumes may: "may_ask u x a s" and "payout_amount f = Some a"
  shows "wp (payout_round E u f)
     (\<lambda>_ t. may_ask u x a t \<and> pending_net (sel_pk x) t = pending_net (sel_pk x) s \<and> paid_to x t = paid_to x s + a) (\<lambda>_ _. False) s"
proof -
  have keys: "po_pk r \<noteq> seq s" if "r \<in> set (t_payouts s)" for r
    using may that by (auto simp: may_ask_def)
  have net: "pending_net k (s\<lparr>seq := n, t_payouts := P\<rparr>) = pending_net k s" for k n P
    by (simp add: pending_net_def)
  have round: "wp (payout_round E u f) Q X s =
      Q () (s\<lparr>seq := Suc (seq s), t_payouts := t_payouts s @ [\<lparr>po_pk = seq s, po_seller = sel_pk x, po_amount = a, po_bank_name = sel_bank_name x,
        po_account_number = sel_account_number x, po_account_name = sel_account_name x, po_status = Payout_COMPLETED, po_processed = Some (clock s)\<rparr>]\<rparr>)" for Q X
    using assms by (simp add: payout_round_def payout_request_def wp_bnd seller_required_wp may_ask_def wp_simps payout_create_def
        back_office_defs untouched keys del: map_map)
  show ?thesis
    unfolding round using may by (auto simp: may_ask_def net paid_to_def)
qed

lemma payout_rounds_wp:
  assumes "may_ask u x a s" and "payout_amount f = Some a"
  shows "wp (for_each (\<lambda>_. payout_round E u f) rounds)
     (\<lambda>_ t. may_ask u x a t \<and> pending_net (sel_pk x) t = pending_net (sel_pk x) s \<and> paid_to x t = paid_to x s + int (length rounds) * a)
     (\<lambda>_ _. False) s"
  using assms(1)
proof (induction rounds arbitrary: s)
  case Nil
  then show ?case by (simp add: wp_simps)
next
  case (Cons r rs)
  show ?case
    unfolding for_each.simps wp_bnd [of "payout_round _ _ _"]
    by (rule wp_mono [OF payout_round_wp [OF Cons.prems assms(2)]], rule wp_mono [OF Cons.IH])
      (auto simp: algebra_simps)
qed

text \<open>
  The same earnings are paid out any number of times.  No code of the repository marks an earning as
  paid out, and a request only looks at the pending earnings: after \<open>n\<close> rounds of request, approval and
  completion the seller was paid \<open>n\<close> times the amount, and the pending earnings are what they were.
\<close>

theorem earnings_paid_again:
  assumes "may_ask u x a s" and "payout_amount f = Some a"
  shows "wp (for_each (\<lambda>_. payout_round E u f) [0..<n])
     (\<lambda>_ t. paid_to x t = paid_to x s + int n * a \<and> pending_net (sel_pk x) t = pending_net (sel_pk x) s) (\<lambda>_ _. False) s"
  by (rule wp_mono [OF payout_rounds_wp [OF assms]]) simp_all

text \<open>Earnings of 90000, three payouts of 90000.\<close>

definition earning_seller :: seller where
  "earning_seller = desk_seller\<lparr>sel_bank_name := ''B'', sel_account_number := ''1''\<rparr>"

definition earning_db :: db where
  "earning_db = empty_db\<lparr>seq := 30, t_sellers := [earning_seller],
     t_earnings := [\<lparr>ea_pk = 21, ea_seller = sel_pk earning_seller, ea_order = 22, ea_gross = 90000, ea_commission = 0, ea_net = 90000, ea_status = Earning_PENDING\<rparr>]\<rparr>"

theorem earnings_paid_again_witness:
  "wp (for_each (\<lambda>_. payout_round demo_env example_seller_user [(''amount'', ''90000'')]) [0..<3])
     (\<lambda>_ t. paid_to earning_seller t = 270000 \<and> pending_net (sel_pk earning_seller) t = 90000) (\<lambda>_ _. False) earning_db"
proof -
  have may: "may_ask example_seller_user earning_seller 90000 earning_db"
    by (simp add: may_ask_def earning_db_def earning_seller_def desk_seller_def pending_net_def example_store_simps)
  have amount: "payout_amount [(''amount'', ''90000'')] = Some 90000"
    by (simp add: payout_amount_def post_get_def parse_nat_def digit_val_def is_digit_def)
  have "paid_to earning_seller earning_db = 0" "pending_net (sel_pk earning_seller) earning_db = 90000"
    by (simp_all add: paid_to_def pending_net_def earning_db_def empty_db_def)
  then show ?thesis
    by (intro wp_mono [OF earnings_paid_again [OF may amount, of demo_env 3]]) simp_all
qed

end
