(* ===== verification/Console.thy ===== *)
theory Console
  imports Web Subscriptions
begin

text \<open>
  The operator console (\<open>console/views.py\<close>, \<open>console/decorators.py\<close>): the views that write, namely
  manual credits, extensions of subscriptions, refunds, leads and settings, behind their decorators.
  The pages and CSV files that only read are in \<open>Console_Pages\<close>.
\<close>

section \<open>Decorators (decorators.py)\<close>

definition is_operator :: "user \<Rightarrow> bool" where
  "is_operator u = (u_superuser u \<or> u_operator u)"

definition staff_required :: "user option \<Rightarrow> (user \<Rightarrow> response prog) \<Rightarrow> response prog" where
  "staff_required request_user view =
     (case request_user of
        None \<Rightarrow> ret (Redirect ''/admin/login/'')
      | Some u \<Rightarrow> if \<not> is_operator u then raise PermissionDenied else view u)"

definition superuser_required :: "user option \<Rightarrow> (user \<Rightarrow> response prog) \<Rightarrow> response prog" where
  "superuser_required request_user view =
     (case request_user of
        None \<Rightarrow> ret (Redirect ''/admin/login/'')
      | Some u \<Rightarrow> if \<not> u_superuser u then raise PermissionDenied else view u)"

section \<open>Manual credit and extension\<close>

text \<open>\<open>uuid.uuid4().hex[:16]\<close> is drawn as 16 hexadecimal digits.\<close>

definition manual_credit :: "env \<Rightarrow> user option \<Rightarrow> nat \<Rightarrow> form \<Rightarrow> response prog" where
  "manual_credit E request_user customer_pk f = superuser_required request_user (\<lambda>u.
     bnd (or_404 (\<lambda>s. find_by c_pk customer_pk (t_customers s))) (\<lambda>c.
     let amount = post_int f ''amount'' 0 0;
         reason = (case map_of f ''amount'' of
                     Some v \<Rightarrow> if py_int v = None then [] else strip (post_get f ''reason'' [])
                   | None \<Rightarrow> strip (post_get f ''reason'' []))
     in if amount \<le> 0 \<or> reason = [] then ret (Redirect ''console:customer_360'')
        else
          bnd (draw_string E ''0123456789abcdef'' 16) (\<lambda>hex.
          bnd (atomic (
            bnd (customer_wallet (c_pk c)) (\<lambda>w.
            bnd (credit (w_pk w) amount ''adjustment'' (''adj:'' @ hex) (''Manual credit by '' @ u_email u @ '': '' @ reason)) (\<lambda>_.
            log_action ''wallet.manual_credit'' (Some (u_pk u)) (Some (''Customer'', c_pk c))
              [(''amount'', JInt amount), (''reason'', JStr reason), (''ref'', JStr (''adj:'' @ hex))])))) (\<lambda>_.
          ret (Redirect ''console:customer_360'')))))"

text \<open>\<open>sub.save(update_fields=["current_period_end", "status", ...])\<close>\<close>

definition sub_save_extended :: "nat \<Rightarrow> int \<Rightarrow> sub_status \<Rightarrow> unit prog" where
  "sub_save_extended k period_end status =
     modify (\<lambda>s. s\<lparr>t_subs := upd_by sub_pk k (\<lambda>r. r\<lparr>sub_period_end := period_end, sub_status := status\<rparr>) (t_subs s)\<rparr>)"

definition extend_subscription :: "env \<Rightarrow> user option \<Rightarrow> nat \<Rightarrow> form \<Rightarrow> response prog" where
  "extend_subscription E request_user k f = staff_required request_user (\<lambda>u.
     bnd (or_404 (\<lambda>s. find_by sub_pk k (t_subs s))) (\<lambda>sub.
     let days = post_int f ''days'' 0 0
     in if days \<le> 0 \<or> 365 < days then ret (Redirect ''console:customer_360'')
        else
          bnd (atomic (
            let was_suspended = (sub_status sub = Sub_SUSPENDED);
                period_end = sub_period_end sub + days * us_day
            in bnd (sub_save_extended k period_end (if was_suspended then Sub_ACTIVE else sub_status sub)) (\<lambda>_.
               bnd (when_m was_suspended (
                 bnd (gets (\<lambda>s. rev (filter (\<lambda>g. g_sub g = Some k \<and> g_status g = Grant_SUSPENDED) (t_grants s))))
                   (for_each (\<lambda>g. try_except (bnd (registry_get (app_registry E) (g_type g)) (\<lambda>p. p_resume p g))
                                    (\<lambda>_. True) (\<lambda>_. ret ()) ret)))) (\<lambda>_.
               log_action ''subscription.extended'' (Some (u_pk u)) (Some (''Subscription'', k))
                 [(''days'', JInt days), (''new_period_end'', JStr (isoformat period_end))])))) (\<lambda>_.
          ret (Redirect ''console:customer_360''))))"

section \<open>Leads\<close>

definition lead_statuses :: "string list" where
  "lead_statuses = [''new'', ''in_progress'', ''closing'', ''won'', ''lost'']"

definition lead_save :: "nat \<Rightarrow> string \<Rightarrow> string \<Rightarrow> nat \<Rightarrow> unit prog" where
  "lead_save k status notes assigned =
     modify (\<lambda>s. s\<lparr>t_leads := upd_by ld_pk k (\<lambda>r. r\<lparr>ld_status := status, ld_notes := notes, ld_assigned := Some assigned\<rparr>) (t_leads s)\<rparr>)"

text \<open>\<open>None\<close>: a GET request.\<close>

definition lead_detail :: "user option \<Rightarrow> nat \<Rightarrow> form option \<Rightarrow> response prog" where
  "lead_detail request_user k post = staff_required request_user (\<lambda>u.
     bnd (or_404 (\<lambda>s. find_by ld_pk k (t_leads s))) (\<lambda>lead.
     case post of
       None \<Rightarrow> ret (Page ''console/lead_detail.html'')
     | Some f \<Rightarrow>
         let new_status = strip (post_get f ''status'' []); notes = strip (post_get f ''notes'' [])
         in if new_status \<in> set lead_statuses
            then bnd (lead_save k new_status notes (u_pk u)) (\<lambda>_.
                 bnd (log_action ''lead.updated'' (Some (u_pk u)) (Some (''Lead'', k)) [(''status'', JStr new_status)]) (\<lambda>_.
                 ret (Redirect ''console:cockpit'')))
            else ret (Page ''console/lead_detail.html'')))"

section \<open>Refunds\<close>

definition refund_get :: "nat \<Rightarrow> refund_request prog" where
  "refund_get k = bnd (gets (\<lambda>s. find_by rr_pk k (t_refunds s))) (\<lambda>v. or_raise v (DoesNotExist ''RefundRequest''))"

definition refund_save :: "nat \<Rightarrow> refund_status \<Rightarrow> string \<Rightarrow> unit prog" where
  "refund_save k status admin_note =
     modify (\<lambda>s. s\<lparr>t_refunds := upd_by rr_pk k (\<lambda>r. r\<lparr>rr_status := status, rr_admin_note := admin_note\<rparr>) (t_refunds s)\<rparr>)"

definition refund_ref :: "nat \<Rightarrow> string" where
  "refund_ref k = ''refund:'' @ str_nat k"

definition linked_order :: "refund_request \<Rightarrow> order option prog" where
  "linked_order r =
     (case rr_order r of None \<Rightarrow> ret None | Some o_k \<Rightarrow> gets (\<lambda>s. find_by o_pk o_k (t_orders s)))"

definition refund_approve :: "user option \<Rightarrow> nat \<Rightarrow> form \<Rightarrow> response prog" where
  "refund_approve request_user k f = superuser_required request_user (\<lambda>u.
     atomic (
       bnd (refund_get k) (\<lambda>r.
       if rr_status r \<noteq> Refund_PENDING then ret (Redirect ''console:refund_detail'')
       else
         bnd (linked_order r) (\<lambda>ord.
         let amount = (case ord of None \<Rightarrow> 0 | Some x \<Rightarrow> o_amount x)
         in if amount \<le> 0 then ret (Redirect ''console:refund_detail'')
            else
              bnd (customer_wallet (rr_customer r)) (\<lambda>w.
              bnd (credit (w_pk w) amount ''adjustment'' (refund_ref k) (''Refund approved by '' @ u_email u)) (\<lambda>_.
              bnd (case ord of None \<Rightarrow> ret () | Some x \<Rightarrow> order_save_status (o_pk x) Order_REFUNDED) (\<lambda>_.
              bnd (refund_save k Refund_APPROVED (strip (post_get f ''admin_note'' []))) (\<lambda>_.
              bnd (log_action ''refund.approved'' (Some (u_pk u)) (Some (''RefundRequest'', k))
                     [(''amount'', JInt amount), (''ref'', JStr (refund_ref k))]) (\<lambda>_.
              ret (Redirect ''console:cockpit''))))))))))"

definition refund_reject :: "user option \<Rightarrow> nat \<Rightarrow> form \<Rightarrow> response prog" where
  "refund_reject request_user k f = superuser_required request_user (\<lambda>u.
     let admin_note = strip (post_get f ''admin_note'' [])
     in if admin_note = [] then ret (Redirect ''console:refund_detail'')
        else
          atomic (
            bnd (refund_get k) (\<lambda>r.
            if rr_status r \<noteq> Refund_PENDING then ret (Redirect ''console:refund_detail'')
            else
              bnd (refund_save k Refund_REJECTED admin_note) (\<lambda>_.
              bnd (log_action ''refund.rejected'' (Some (u_pk u)) (Some (''RefundRequest'', k)) [(''admin_note'', JStr admin_note)]) (\<lambda>_.
              ret (Redirect ''console:cockpit''))))))"

section \<open>Settings\<close>

definition setting_keys :: "string list" where
  "setting_keys =
     [''ACTIVATION_TOKEN_TTL_DAYS'', ''ACTIVATION_GRACE_DAYS'', ''SUBSCRIPTION_GRACE_DAYS'', ''GLOBAL_GRACE_EXTENSION_DAYS'',
      ''MAINTENANCE_MODE'', ''RENEWAL_ADVANCE_HOURS'', ''DIRECT_PAY_ENABLED'', ''MIN_TOPUP'', ''MAX_TOPUP'',
      ''TOPUP_BONUS_PERCENT'', ''SUPPORT_WA_NUMBER'', ''INVOICE_NAME'', ''TAX_ID'']"

text \<open>\<open>Setting.objects.get_or_create(key=key)\<close>, then the value if it differs.\<close>

definition setting_put :: "string \<Rightarrow> string \<Rightarrow> unit prog" where
  "setting_put key v =
     modify (\<lambda>s. s\<lparr>t_settings := (if find_by st_key key (t_settings s) = None
                                  then t_settings s @ [\<lparr>st_key = key, st_value = v\<rparr>]
                                  else upd_by st_key key (\<lambda>r. r\<lparr>st_value := v\<rparr>) (t_settings s))\<rparr>)"

definition save_setting :: "user \<Rightarrow> form \<Rightarrow> string \<Rightarrow> unit prog" where
  "save_setting u f key =
     (let v = strip (post_get f key [])
      in when_m (v \<noteq> []) (
           bnd (setting_get key []) (\<lambda>old.
           when_m (old \<noteq> v) (
             bnd (setting_put key v) (\<lambda>_.
             log_action ''setting.changed'' (Some (u_pk u)) None
               [(''key'', JStr key), (''old'', JStr old), (''new'', JStr v)])))))"

definition settings_view :: "user option \<Rightarrow> form option \<Rightarrow> response prog" where
  "settings_view request_user post = superuser_required request_user (\<lambda>u.
     case post of
       None \<Rightarrow> ret (Page ''console/settings.html'')
     | Some f \<Rightarrow> bnd (for_each (save_setting u f) setting_keys) (\<lambda>_. ret (Redirect ''console:settings'')))"

section \<open>A refund\<close>

definition refund_entry :: "db \<Rightarrow> user \<Rightarrow> nat \<Rightarrow> wallet \<Rightarrow> int \<Rightarrow> ledger_entry" where
  "refund_entry s u k wal amount =
     ledger_entry_of s (w_pk wal) ''adjustment'' amount (w_balance wal + amount) (refund_ref k) (''Refund approved by '' @ u_email u)"

lemma refund_again:
  assumes "u_superuser u" and "find_by rr_pk k (t_refunds s) = Some r" and "rr_status r \<noteq> Refund_PENDING"
  shows "refund_approve (Some u) k f s = (Inr (Redirect ''console:refund_detail''), s)"
  using assms by (simp add: refund_approve_def superuser_required_def refund_get_def run_simps)


section \<open>A setting that is not a number\<close>

definition stored :: "string \<Rightarrow> db \<Rightarrow> string option" where
  "stored key s = map_option st_value (find_by st_key key (t_settings s))"

definition submitted :: "form \<Rightarrow> string \<Rightarrow> string" where
  "submitted f key = strip (post_get f key [])"

lemma save_setting_wp:
  "wp (save_setting u f key)
     (\<lambda>_ t. stored k t = (if key = k \<and> submitted f k \<noteq> [] then Some (submitted f k) else stored k s)) (\<lambda>_ _. False) s"
  by (auto simp: save_setting_def setting_put_def stored_def submitted_def wp_simps Let_def find_by_append find_by_upd_by
      split: option.split)

lemma save_settings_wp:
  "wp (for_each (save_setting u f) keys)
     (\<lambda>_ t. stored k t = (if k \<in> set keys \<and> submitted f k \<noteq> [] then Some (submitted f k) else stored k s)) (\<lambda>_ _. False) s"
proof (induction keys arbitrary: s)
  case Nil
  show ?case by (simp add: wp_simps)
next
  case (Cons key keys)
  show ?case
    unfolding for_each.simps wp_bnd
    by (rule wp_mono [OF save_setting_wp [of u f key k]], rule wp_mono [OF Cons.IH]) auto
qed

text \<open>
  The settings page stores any text.  A superuser who saves a text that is not a number as
  \<open>RENEWAL_ADVANCE_HOURS\<close> is redirected as after any other save, and from then on the renewal job
  raises \<open>ValueError\<close> before it looks at the first subscription: nothing is renewed or graced until
  the setting is corrected.
\<close>

theorem bad_setting_stops_renewals:
  assumes "u_superuser u" and "submitted f ''RENEWAL_ADVANCE_HOURS'' \<noteq> []" and "py_int (submitted f ''RENEWAL_ADVANCE_HOURS'') = None"
  shows "\<exists>t. settings_view (Some u) (Some f) s = (Inr (Redirect ''console:settings''), t)
     \<and> process_due_renewals E t = (Inl (ValueError ''RENEWAL_ADVANCE_HOURS''), t)"
proof -
  define key where "key = ''RENEWAL_ADVANCE_HOURS''"
  have "key \<in> set setting_keys" by (simp add: key_def setting_keys_def)
  then obtain t where t: "for_each (save_setting u f) setting_keys s = (Inr (), t)" "stored key t = Some (submitted f key)"
    using save_settings_wp [of u f setting_keys key s] assms(2)
    by (auto simp: wp_def key_def split: prod.splits sum.splits)
  then have "setting_get key ''3'' t = (Inr (submitted f key), t)"
    by (auto simp: stored_def run_simps)
  then have "process_due_renewals E t = (Inl (ValueError key), t)"
    using assms(3) by (simp add: process_due_renewals_def int_setting_def bnd_run or_raise_run key_def)
  moreover have "settings_view (Some u) (Some f) s = (Inr (Redirect ''console:settings''), t)"
    using assms(1) t(1) by (simp add: settings_view_def superuser_required_def run_simps)
  ultimately show ?thesis by (auto simp: key_def)
qed

definition example_admin :: user where
  "example_admin = \<lparr>u_pk = 1, u_email = ''a@b.c'', u_superuser = True, u_operator = False, u_verified = True\<rparr>"

theorem bad_setting_stops_renewals_witness:
  "\<exists>t. settings_view (Some example_admin) (Some [(''RENEWAL_ADVANCE_HOURS'', ''3h'')]) empty_db = (Inr (Redirect ''console:settings''), t)
     \<and> process_due_renewals demo_env t = (Inl (ValueError ''RENEWAL_ADVANCE_HOURS''), t)"
  by (rule bad_setting_stops_renewals)
    (simp_all add: example_admin_def submitted_def post_get_def strip_def is_space_def py_int_def is_digit_def Let_def)

definition example_refund_db :: db where
  "example_refund_db = example_wallet_db\<lparr>t_refunds := [\<lparr>rr_pk = 8, rr_customer = 1, rr_order = Some 7, rr_reason = ''late'',
       rr_status = Refund_PENDING, rr_admin_note = [], rr_created = 0\<rparr>],
     t_orders := [\<lparr>o_pk = 7, o_public_id = ''ord_1'', o_customer = 1, o_plan = 2, o_amount = 40, o_status = Order_PAID,
       o_ledger_entry = None, o_idem = None, o_subscription = None, o_coupon = None, o_discount = 0, o_invoice_number = None,
       o_custom_fields = [], o_multiplier = 1, o_cart_checkout = None, o_channel = Pay_QRIS_STATIC, o_proof = None, o_created = 0\<rparr>]\<rparr>"


section \<open>The interface to the rest of the program\<close>

locale console_base = subs_inv +
  assumes sub_save_extended_pres [pres_intros]: "pres I (sub_save_extended k pe sst)"
    and lead_save_pres [pres_intros]: "pres I (lead_save k st n a)"
    and refund_save_pres [pres_intros]: "pres I (refund_save k rst n)"
    and setting_put_pres [pres_intros]: "pres I (setting_put key v)"
begin

lemma draw_hex_pres [pres_intros]: "pres I (draw_string E ''0123456789abcdef'' n)"
  by (rule draws_pres [OF draws_draw_string]) simp

lemma save_setting_pres [pres_intros]: "pres I (save_setting u f key)"
  unfolding save_setting_def Let_def by (intro pres_intros)

lemma required_pres [pres_intros]:
  "(\<And>u. pres I (m u)) \<Longrightarrow> pres I (superuser_required who m)" "(\<And>u. pres I (m u)) \<Longrightarrow> pres I (staff_required who m)"
  unfolding superuser_required_def staff_required_def by (intro pres_intros; simp)+

lemma refund_reads_pres [pres_intros]: "pres I (refund_get k)" "pres I (linked_order r)"
  unfolding refund_get_def linked_order_def by (intro pres_intros)+

lemma console_pres [pres_intros]:
  "pres I (lead_detail who k post)" "pres I (refund_reject who k f)" "pres I (settings_view who post)"
  unfolding lead_detail_def refund_reject_def settings_view_def Let_def by (intro pres_intros)+

lemma extend_subscription_pres [pres_intros]: "pres I (extend_subscription E who k f)"
  unfolding extend_subscription_def Let_def by (intro pres_intros dispatch_pres lifecycle_pres)

end

text \<open>The two views that pay money out.\<close>

locale console_inv = console_base + wallet_inv
begin

lemma payout_pres [pres_intros]: "pres I (manual_credit E who k f)" "pres I (refund_approve who k f)"
  unfolding manual_credit_def refund_approve_def Let_def by (intro pres_intros)+

end

locale console_frame = subs_frame +
  assumes view_console: "view (s\<lparr>t_leads := Le\<rparr>) = view s" "view (s\<lparr>t_refunds := Re\<rparr>) = view s" "view (s\<lparr>t_settings := Se\<rparr>) = view s"

sublocale console_frame \<subseteq> console_base I
  by unfold_locales
    (auto simp: sub_save_extended_def lead_save_def refund_save_def setting_put_def view_console view_subs intro!: frame_modify)

interpretation ledger: console_frame ledger_ok "\<lambda>s. (t_wallets s, t_ledger s)"
  by unfold_locales auto
interpretation history: console_frame "\<lambda>s. \<exists>M. t_ledger s = L @ M" "\<lambda>s. (t_wallets s, t_ledger s)"
  by unfold_locales auto
interpretation sales: console_frame sales_ok "\<lambda>s. (t_orders s, t_coupons s, t_earnings s)"
  by unfold_locales auto

interpretation ledger: console_inv ledger_ok by unfold_locales
interpretation history: console_inv "\<lambda>s. \<exists>M. t_ledger s = L @ M" by unfold_locales
interpretation sales: console_inv sales_ok by unfold_locales

end
