(* ===== verification/Activation.thy ===== *)
theory Activation
  imports Licensing
begin

text \<open>
  What the activation service of \<open>Licensing\<close> promises: who is let in, what a seat costs, what a
  refusal tells, how long a token lives, and how the rate limiter counts.
\<close>

section \<open>Reads\<close>

lemma licensing_reads [pres_intros]:
  "pres I (license_by_key key)" "pres I (license_get k)" "pres I (license_grant l)" "pres I (license_subscription l)"
  "pres I (effective_access_status l)" "pres I (license_expires_at l)" "pres I (get_entitlements l)"
  "pres I (find_active k fp)" "pres I (find_policy k opn)" "pres I (int_setting a b)" "pres I (bool_setting a)"
  "pres I (issue_token E key fp)" "pres I (verify_token E tok key fp)" "pres I (sign_entitlement E ent)"
  "pres I (product_get p)" "pres I ttl_seconds" "pres I grace_seconds"
  unfolding license_by_key_def license_get_def license_grant_def license_subscription_def sub_get_def
    effective_access_status_def license_expires_at_def get_entitlements_def entitlements_of_plan_def
    find_active_def find_policy_def int_setting_def bool_setting_def setting_get_def product_get_def
    issue_token_def verify_token_def sign_entitlement_def ttl_seconds_def grace_seconds_def now_def Let_def
  by (intro pres_intros)+

lemma signed_reads [pres_intros]: "pres I (build_signed_entitlement E l fp st te le ent)"
  unfolding build_signed_entitlement_def product_slug_of_plan_def now_def Let_def by (intro pres_intros)

lemma granted_reads [pres_intros]: "pres I m \<Longrightarrow> pres I (access_granted E l key fp st m)"
  unfolding access_granted_def by (intro pres_intros)

lemma reads_wp: "(\<And>I. pres I m) \<Longrightarrow> wp m (\<lambda>_ t. t = s) (\<lambda>_ t. t = s) s"
  by (simp add: pres_wp)

lemma reads_value: "(\<And>I. pres I m) \<Longrightarrow> wp m (\<lambda>x t. t = s \<and> fst (m s) = Inr x) (\<lambda>_ t. t = s) s"
  using reads_wp [of m s] by (auto simp: wp_def split: prod.splits sum.splits)

section \<open>The rate limiter\<close>

text \<open>Two states that differ in the request counters only.\<close>

definition counted :: "db \<Rightarrow> db \<Rightarrow> bool" where
  "counted s t = (\<exists>C. t = s\<lparr>cache := C\<rparr>)"

lemma counted_refl [simp]: "counted s s"
  unfolding counted_def by (rule exI [of _ "cache s"]) simp

lemma counted_trans: "counted s t \<Longrightarrow> counted t u \<Longrightarrow> counted s u"
  by (auto simp: counted_def)

definition bucket :: "string \<Rightarrow> string" where
  "bucket identifier = ''rate:activation:'' @ identifier"

text \<open>The counter after one more request.\<close>

definition bumped :: "string \<Rightarrow> db \<Rightarrow> int" where
  "bumped key s = (case cache_value key s of None \<Rightarrow> 1 | Some v \<Rightarrow> v + 1)"

text \<open>A write to one key of the cache: the state after it, and what the cache then holds.\<close>

definition rewritten :: "string \<Rightarrow> int \<Rightarrow> db \<Rightarrow> db \<Rightarrow> bool" where
  "rewritten key v s t =
     (counted s t \<and> cache_value key t = Some v \<and> (\<forall>k. k \<noteq> key \<longrightarrow> cache_value k t = cache_value k s))"

lemma rewritten_counted: "rewritten key v s t \<Longrightarrow> counted s t"
  by (simp add: rewritten_def)

lemma rewritten_again: "rewritten key v s t \<Longrightarrow> rewritten key w t u \<Longrightarrow> rewritten key w s u"
  by (auto simp: rewritten_def intro: counted_trans)

lemma cache_set_wp: "wp (cache_set key v rate_window) (\<lambda>_. rewritten key v s) (\<lambda>_ _. False) s"
  by (auto simp: cache_set_def wp_simps rewritten_def counted_def cache_value_def update_conv' rate_window_def us_second_def
      split: option.split)

lemma cache_incr_wp:
  "cache_value key s = Some v \<Longrightarrow>
     wp (cache_incr key) (\<lambda>n t. n = v + 1 \<and> rewritten key (v + 1) s t) (\<lambda>_ _. False) s"
  by (auto simp: cache_incr_def wp_simps rewritten_def counted_def cache_value_def map_of_map_entry
      split: option.splits if_splits)

lemma cache_add_wp:
  "wp (cache_add key 0 rate_window)
     (\<lambda>_ t. \<exists>v. cache_value key t = Some v \<and> bumped key s = v + 1 \<and> (t = s \<or> rewritten key v s t)) (\<lambda>_ _. False) s"
proof (cases "cache_value key s")
  case None
  then show ?thesis
    by (simp add: cache_add_def wp_simps bumped_def) (rule wp_mono [OF cache_set_wp], auto simp: rewritten_def)
qed (simp add: cache_add_def wp_simps bumped_def)

lemma check_rate_limit_wp:
  "wp (check_rate_limit identifier limit)
     (\<lambda>limited t. limited = (limit < bumped (bucket identifier) s)
        \<and> rewritten (bucket identifier) (bumped (bucket identifier) s) s t) (\<lambda>_ _. False) s"
  unfolding check_rate_limit_def bucket_def [symmetric] Let_def wp_bnd [of "cache_add _ _ _"]
proof (rule wp_mono [OF cache_add_wp], goal_cases)
  case (1 _ u)
  then obtain v where v: "cache_value (bucket identifier) u = Some v" "bumped (bucket identifier) s = v + 1"
      "u = s \<or> rewritten (bucket identifier) v s u" by blast
  show ?case unfolding wp_bnd wp_try_except
    by (rule wp_mono [OF cache_incr_wp [OF v(1)]]) (use v in \<open>auto simp: wp_ret intro: rewritten_again\<close>)
qed

lemma rate_limited_wp:
  assumes "bucket (pre @ ip) \<noteq> bucket identifier"
  shows "wp (rate_limited identifier limit pre ip)
     (\<lambda>limited t. counted s t \<and> cache_value (bucket identifier) t = Some (bumped (bucket identifier) s)
        \<and> (limit < bumped (bucket identifier) s \<longrightarrow> limited)) (\<lambda>_ _. False) s"
  unfolding rate_limited_def wp_bnd [of "check_rate_limit identifier limit"]
proof (rule wp_mono [OF check_rate_limit_wp], goal_cases)
  case (1 limited t)
  then have t: "counted s t" "cache_value (bucket identifier) t = Some (bumped (bucket identifier) s)"
      "limited = (limit < bumped (bucket identifier) s)" by (auto simp: rewritten_def)
  have "wp (check_rate_limit (pre @ ip) rate_limit_ip)
      (\<lambda>_ u. counted t u \<and> cache_value (bucket identifier) u = cache_value (bucket identifier) t) (\<lambda>_ _. False) t"
    by (rule wp_mono [OF check_rate_limit_wp]) (use assms in \<open>auto simp: rewritten_def\<close>)
  then show ?case using t
    by (auto simp: wp_ret intro: counted_trans elim!: wp_mono)
qed


subsection \<open>The window\<close>

text \<open>The bucket is open at \<open>v\<close> requests until \<open>expiry\<close>.\<close>

definition window :: "string \<Rightarrow> int \<Rightarrow> int \<Rightarrow> db \<Rightarrow> bool" where
  "window identifier v expiry s = (map_of (cache s) (bucket identifier) = Some (v, expiry))"

text \<open>A sequence of requests; before each of them the given time passes.\<close>

definition request :: "string \<Rightarrow> int \<Rightarrow> int \<Rightarrow> bool prog" where
  "request identifier limit gap =
     bnd (modify (\<lambda>s. s\<lparr>clock := clock s + gap\<rparr>)) (\<lambda>_. check_rate_limit identifier limit)"

lemma check_rate_limit_bucket:
  "check_rate_limit identifier limit =
     bnd (cache_add (bucket identifier) 0 rate_window) (\<lambda>_.
     bnd (try_except (cache_incr (bucket identifier)) is_value_error
            (\<lambda>_. bnd (cache_set (bucket identifier) 1 rate_window) (\<lambda>_. ret 1)) ret) (\<lambda>count.
     ret (limit < count)))"
  by (simp add: check_rate_limit_def bucket_def Let_def)

lemma request_first:
  "(\<And>v e. map_of (cache s) (bucket identifier) = Some (v, e) \<Longrightarrow> e \<le> clock s + gap) \<Longrightarrow>
   \<exists>t. request identifier limit gap s = (Inr (limit < 1), t) \<and> clock t = clock s + gap
     \<and> window identifier 1 (clock s + gap + rate_window * us_second) t"
  by (force simp: request_def check_rate_limit_bucket cache_add_def cache_set_def cache_incr_def
      window_def run_simps cache_value_def update_conv' map_of_map_entry rate_window_def us_second_def split: option.splits)

lemma request_open:
  "window identifier v e s \<Longrightarrow> clock s + gap < e \<Longrightarrow>
   \<exists>t. request identifier limit gap s = (Inr (limit < v + 1), t) \<and> clock t = clock s + gap \<and> window identifier (v + 1) e t"
  by (auto simp: request_def check_rate_limit_bucket cache_add_def cache_incr_def
      window_def run_simps cache_value_def map_of_map_entry)

lemma requests_open:
  assumes "window identifier v e s" and "\<forall>d \<in> set gaps. 0 \<le> d" and "clock s + sum_list gaps < e"
  shows "\<exists>t. map_m (request identifier limit) gaps s = (Inr (map (\<lambda>i. limit < v + int i) [1..<Suc (length gaps)]), t)
     \<and> clock t = clock s + sum_list gaps \<and> window identifier (v + int (length gaps)) e t"
  using assms
proof (induction gaps arbitrary: v s)
  case Nil
  then show ?case by (simp add: run_simps)
next
  case (Cons d gaps)
  have "0 \<le> sum_list gaps" using Cons.prems(2) by (auto intro: sum_list_nonneg)
  then obtain t where t: "request identifier limit d s = (Inr (limit < v + 1), t)" "clock t = clock s + d"
      "window identifier (v + 1) e t"
    using request_open [OF Cons.prems(1), of d limit] Cons.prems(3) by auto
  obtain u where "map_m (request identifier limit) gaps t = (Inr (map (\<lambda>i. limit < v + 1 + int i) [1..<Suc (length gaps)]), u)"
      "clock u = clock t + sum_list gaps" "window identifier (v + 1 + int (length gaps)) e u"
    using Cons.IH [OF t(3)] Cons.prems t(2) by auto
  moreover have "map (\<lambda>i. limit < v + int i) [1..<Suc (Suc (length gaps))]
      = (limit < v + 1) # map (\<lambda>i. limit < v + 1 + int i) [1..<Suc (length gaps)]"
    by (simp add: upt_conv_Cons map_Suc_upt [symmetric] algebra_simps del: upt_Suc)
  ultimately show ?case using t
    by (simp add: run_simps add.assoc)
qed

lemma bnd_ret_right: "bnd m ret = m"
  by (rule ext) (simp add: bnd_def ret_def split: prod.split sum.split)

lemma map_m_append: "map_m f (xs @ ys) = bnd (map_m f xs) (\<lambda>us. bnd (map_m f ys) (\<lambda>vs. ret (us @ vs)))"
  by (induction xs) (simp_all add: bnd_assoc bnd_ret_right)

text \<open>
  C21.  The rate limiter is a fixed window of 60 seconds.  From a closed bucket, of the requests made
  less than 60 seconds after the first one exactly those beyond the limit are refused, whatever the
  gaps between them; the first request made 60 seconds or more after it opens a new window and
  counts as one again.
\<close>

theorem rate_limit_exact:
  assumes closed: "cache_value (bucket identifier) s = None"
    and gaps: "0 \<le> gap" "\<forall>d \<in> set gaps. 0 \<le> d" "sum_list gaps < 60 * us_second"
    and late: "60 * us_second \<le> sum_list gaps + wait"
  shows "fst (map_m (request identifier limit) (gap # gaps @ [wait]) s)
     = Inr (map (\<lambda>i. limit < int i) [1..<length gaps + 2] @ [limit < 1])"
proof -
  have "e \<le> clock s + gap" if "map_of (cache s) (bucket identifier) = Some (v, e)" for v e
    using closed gaps(1) that by (auto simp: cache_value_def split: if_splits)
  then obtain t where t: "request identifier limit gap s = (Inr (limit < 1), t)" "clock t = clock s + gap"
      "window identifier 1 (clock s + gap + rate_window * us_second) t"
    using request_first by blast
  obtain u where u: "map_m (request identifier limit) gaps t = (Inr (map (\<lambda>i. limit < 1 + int i) [1..<Suc (length gaps)]), u)"
      "clock u = clock t + sum_list gaps" "window identifier (1 + int (length gaps)) (clock s + gap + rate_window * us_second) u"
    using requests_open [OF t(3) gaps(2)] gaps(3) t(2) by (auto simp: rate_window_def)
  have "e \<le> clock u + wait" if "map_of (cache u) (bucket identifier) = Some (v, e)" for v e
    using that u(2,3) t(2) late by (auto simp: window_def rate_window_def)
  then obtain v where v: "request identifier limit wait u = (Inr (limit < 1), v)"
    using request_first by blast
  have "map (\<lambda>i. limit < int i) [1..<Suc (Suc (length gaps))] = (limit < 1) # map (\<lambda>i. limit < 1 + int i) [1..<Suc (length gaps)]"
    by (simp add: upt_conv_Cons map_Suc_upt [symmetric] del: upt_Suc)
  with t u v show ?thesis
    by (simp add: map_m_append run_simps del: upt_Suc)
qed

theorem rate_limit_exact_witness:
  "fst (map_m (request ''key:K'' 2) [0, us_second, us_second, 60 * us_second] empty_db)
     = Inr [False, False, True, False]"
  using rate_limit_exact [of "''key:K''" empty_db 0 "[us_second, us_second]" "60 * us_second" 2]
  by (simp add: cache_value_def empty_db_def us_second_def upt_rec)


section \<open>Who is let in\<close>

definition grant_of :: "license \<Rightarrow> db \<Rightarrow> grant option" where
  "grant_of l s = (case li_grant l of None \<Rightarrow> None | Some g \<Rightarrow> find_by g_pk g (t_grants s))"

definition sub_of :: "license \<Rightarrow> db \<Rightarrow> subscription option" where
  "sub_of l s = (case li_sub l of None \<Rightarrow> None | Some k \<Rightarrow> find_by sub_pk k (t_subs s))"

text \<open>The license, its grant and its subscription all give access.\<close>

definition license_live :: "license \<Rightarrow> db \<Rightarrow> bool" where
  "license_live l s =
     (li_status l = License_ACTIVE
      \<and> map_option g_status (grant_of l s) \<in> {None, Some Grant_ACTIVE}
      \<and> map_option sub_status (sub_of l s) \<in> {None, Some Sub_ACTIVE, Some Sub_GRACE})"

lemma access_status_live:
  "access_status ls gs ss \<in> {''active'', ''grace''} \<longleftrightarrow>
     ls = License_ACTIVE \<and> gs \<in> {None, Some Grant_ACTIVE} \<and> ss \<in> {None, Some Sub_ACTIVE, Some Sub_GRACE}"
  by (cases ls; cases gs; cases "the gs"; cases ss; cases "the ss"; auto simp: access_status_def)

definition status_of :: "license \<Rightarrow> db \<Rightarrow> string" where
  "status_of l s = access_status (li_status l) (map_option g_status (grant_of l s)) (map_option sub_status (sub_of l s))"

lemma status_of_live: "status_of l s \<in> {''active'', ''grace''} \<longleftrightarrow> license_live l s"
  unfolding status_of_def license_live_def by (rule access_status_live)

lemma status_of_values: "status_of l s \<in> {''revoked'', ''expired'', ''suspended'', ''grace'', ''active''}"
  by (simp add: status_of_def access_status_def)

lemma effective_access_status_wp:
  "wp (effective_access_status l) (\<lambda>st t. t = s \<and> st = status_of l s) (\<lambda>_ t. t = s) s"
  by (auto simp: effective_access_status_def license_grant_def license_subscription_def sub_get_def status_of_def
      grant_of_def sub_of_def wp_simps split: option.splits)

lemma access_check_wp:
  assumes "license_live l s \<Longrightarrow> wp (m (status_of l s)) Q X s" and "\<not> license_live l s \<Longrightarrow> wp (n (status_of l s)) Q X s"
    and "\<And>e. X e s"
  shows "wp (bnd (effective_access_status l)
      (\<lambda>status. if status \<notin> {''active'', ''grace''} then n status else m status)) Q X s"
  unfolding wp_bnd
  by (rule wp_mono [OF effective_access_status_wp]) (use assms in \<open>simp_all add: status_of_live del: insert_iff\<close>)

lemma counted_tables:
  "counted s t \<Longrightarrow> t_licenses t = t_licenses s" "counted s t \<Longrightarrow> t_installations t = t_installations s"
  "counted s t \<Longrightarrow> t_grants t = t_grants s" "counted s t \<Longrightarrow> t_subs t = t_subs s"
  "counted s t \<Longrightarrow> t_settings t = t_settings s" "counted s t \<Longrightarrow> clock t = clock s" "counted s t \<Longrightarrow> seq t = seq s"
  by (auto simp: counted_def)

lemma counted_access:
  assumes "counted s t"
  shows "status_of l t = status_of l s" "license_live l t = license_live l s"
  unfolding status_of_def license_live_def grant_of_def sub_of_def counted_tables(3,4) [OF assms] by (rule refl)+

text \<open>The signed answer of \<open>access_granted\<close>.\<close>

definition signed_answer :: "env \<Rightarrow> license \<Rightarrow> string \<Rightarrow> string \<Rightarrow> int \<Rightarrow> activation_response \<Rightarrow> bool" where
  "signed_answer E l fp status t r =
     (ar_status r = status \<and> ar_token r = ts_sign E (token_value (li_key l) fp) (t div us_second)
      \<and> json_get (ar_entitlement r) ''license_id'' JNull = JStr (li_key l)
      \<and> json_get (ar_entitlement r) ''fingerprint'' JNull = JStr fp
      \<and> json_get (ar_entitlement r) ''status'' JNull = JStr status
      \<and> json_get (ar_entitlement r) ''entitlements'' JNull = JObj (ar_entitlements r)
      \<and> (ed25519_sign E (canonical_json (ar_entitlement r)) = Some (ar_signature r) \<or> debug_mode E \<and> ar_signature r = []))"


lemma signed_entitlement_wp:
  "wp (build_signed_entitlement E l fp status token_expires license_expires ents)
     (\<lambda>(ent, sig) t. t = s \<and> json_get ent ''license_id'' JNull = JStr (li_key l)
        \<and> json_get ent ''fingerprint'' JNull = JStr fp \<and> json_get ent ''status'' JNull = JStr status
        \<and> json_get ent ''entitlements'' JNull = JObj ents
        \<and> (ed25519_sign E (canonical_json ent) = Some sig \<or> debug_mode E \<and> sig = []))
     (\<lambda>_ t. t = s) s"
  unfolding build_signed_entitlement_def
  by (auto simp: wp_simps Let_def product_slug_of_plan_def plan_get_def product_get_def sign_entitlement_def json_get_def
      split: option.splits)

lemma access_granted_wp:
  assumes "\<And>I. pres I grace"
  shows "wp (access_granted E l (li_key l) fp status grace) (\<lambda>r t. t = s \<and> signed_answer E l fp status (clock s) r) (\<lambda>_ t. t = s) s"
proof -
  have token: "wp (issue_token E (li_key l) fp)
      (\<lambda>(tok, exp) t. t = s \<and> tok = ts_sign E (token_value (li_key l) fp) (clock s div us_second)) (\<lambda>_ t. t = s) s"
    by (simp add: issue_token_def ttl_seconds_def int_setting_def wp_simps split: option.split)
  note reads = reads_wp [OF licensing_reads(6)] reads_wp [OF licensing_reads(7)] reads_wp [OF assms]
  show ?thesis
    unfolding access_granted_def wp_bnd
  proof (rule wp_mono [OF token], goal_cases)
    case (1 v t)
    then show ?case
      by (clarsimp simp: wp_bnd)
        (rule wp_mono [OF reads(1)], clarsimp simp: wp_bnd, rule wp_mono [OF reads(3)], clarsimp simp: wp_bnd,
          rule wp_mono [OF reads(2)], clarsimp simp: wp_bnd, rule wp_mono [OF signed_entitlement_wp], auto simp: wp_ret signed_answer_def)
  qed simp
qed

section \<open>Seats\<close>

definition holds_seat :: "nat \<Rightarrow> string \<Rightarrow> db \<Rightarrow> bool" where
  "holds_seat k fp s = (\<exists>r \<in> set (t_installations s). active_installation k fp r)"

text \<open>The device has a seat; it cost one seat unless the device had it before; nothing else changed.\<close>

definition took_seat :: "nat \<Rightarrow> string \<Rightarrow> db \<Rightarrow> db \<Rightarrow> bool" where
  "took_seat k fp s t =
     (holds_seat k fp t
      \<and> active_seat_count k t = active_seat_count k s + (if holds_seat k fp s then 0 else 1)
      \<and> (\<forall>j f. (j, f) \<noteq> (k, fp) \<longrightarrow> holds_seat j f t = holds_seat j f s)
      \<and> (\<exists>C n In. t = s\<lparr>cache := C, seq := n, t_installations := In\<rparr>))"

lemma seat_edits:
  "\<exists>C In. s\<lparr>t_installations := X\<rparr> = s\<lparr>cache := C, t_installations := In\<rparr>"
  by (rule exI [of _ "cache s"], rule exI [of _ X]) simp

lemma bex_upd_by: "(\<And>r. p (f r) = p r) \<Longrightarrow> (\<exists>r \<in> set (upd_by key k f rows). p r) = (\<exists>r \<in> set rows. p r)"
  by (induction rows) auto

lemma holds_seat_seen:
  "holds_seat k fp (s\<lparr>t_installations := upd_by in_pk j (\<lambda>r. r\<lparr>in_last_seen := v\<rparr>) (t_installations s)\<rparr>) = holds_seat k fp s"
  unfolding holds_seat_def by (simp, rule bex_upd_by, simp add: active_installation_def)

lemma seat_count_seen:
  "active_seat_count k (s\<lparr>t_installations := upd_by in_pk j (\<lambda>r. r\<lparr>in_last_seen := v\<rparr>) (t_installations s)\<rparr>) = active_seat_count k s"
  unfolding active_seat_count_def by (simp, rule length_filter_upd_by, simp)

lemma installation_seen_wp:
  "holds_seat k fp s \<Longrightarrow> wp (installation_seen j) (\<lambda>_. took_seat k fp s) (\<lambda>_ _. False) s"
  unfolding installation_seen_def wp_bnd now_wp wp_modify took_seat_def holds_seat_seen seat_count_seen
  by (auto intro!: exI [of _ "cache s"] exI [of _ "seq s"])

lemma installation_create_wp:
  "\<not> holds_seat k fp s \<Longrightarrow> wp (installation_create k fp name) (\<lambda>_. took_seat k fp s) (\<lambda>_ _. True) s"
  by (auto simp: installation_create_def wp_simps took_seat_def holds_seat_def active_installation_def active_seat_count_def
      intro!: exI [of _ "cache s"] exI [of _ "Suc (seq s)"])

lemma find_active_wp:
  "wp (find_active k fp)
     (\<lambda>v t. t = s \<and> (case v of None \<Rightarrow> \<not> holds_seat k fp s | Some r \<Rightarrow> r \<in> set (t_installations s) \<and> active_installation k fp r))
     (\<lambda>_ _. False) s"
  by (auto simp: find_active_def wp_simps holds_seat_def find_None_iff split: option.split dest!: find_SomeD)

lemma claim_seat_wp:
  assumes "find_by li_pk (li_pk l) (t_licenses s) = Some l"
  shows "wp (claim_seat l fp name)
     (\<lambda>ok t. if ok then took_seat (li_pk l) fp s t \<and> (holds_seat (li_pk l) fp s \<or> seats_available l s)
        else t = s \<and> \<not> holds_seat (li_pk l) fp s \<and> \<not> seats_available l s)
     (\<lambda>_ t. t = s) s"
  unfolding claim_seat_def wp_atomic license_get_def
proof (simp only: wp_bnd wp_gets wp_or_raise assms option.case, rule wp_mono [OF find_active_wp], goal_cases)
  case (1 v t)
  then show ?case
    by (cases v) (auto simp: wp_simps holds_seat_def
        intro!: wp_mono [OF installation_create_wp] wp_mono [OF installation_seen_wp])
qed simp


lemma took_seat_counted: "counted s t \<Longrightarrow> took_seat k fp t u \<Longrightarrow> took_seat k fp s u"
  unfolding took_seat_def counted_def holds_seat_def active_seat_count_def
  by (elim exE conjE, intro conjI) (simp_all, (intro exI, rule refl))

lemma counted_seats:
  assumes "counted s t"
  shows "holds_seat k fp t = holds_seat k fp s" "seats_available l t = seats_available l s"
  unfolding holds_seat_def seats_available_def active_seat_count_def counted_tables(2) [OF assms] by (rule refl)+

lemma seats_ok_license_row:
  "seats_ok s \<Longrightarrow> find_by li_key key (t_licenses s) = Some l \<Longrightarrow> find_by li_pk (li_pk l) (t_licenses s) = Some l \<and> li_key l = key"
  by (auto simp: seats_ok_def intro: find_by_distinct dest!: find_by_SomeD)

definition no_access :: "activation_response \<Rightarrow> bool" where
  "no_access r = (r = refused (ar_status r) \<and> ar_status r \<notin> {''active'', ''grace''})"

lemma no_access_refused: "no_access (refused st) \<longleftrightarrow> st \<notin> {''active'', ''grace''}"
  by (simp add: no_access_def refused_def)

text \<open>What an activation of key \<open>key\<close> on device \<open>fp\<close> may do.\<close>

definition activated :: "env \<Rightarrow> string \<Rightarrow> string \<Rightarrow> db \<Rightarrow> activation_response \<Rightarrow> db \<Rightarrow> bool" where
  "activated E key fp s r t =
     (\<exists>l. find_by li_key key (t_licenses s) = Some l \<and> license_live l s
        \<and> (holds_seat (li_pk l) fp s \<or> seats_available l s) \<and> took_seat (li_pk l) fp s t
        \<and> ar_status r = status_of l s \<and> signed_answer E l fp (status_of l s) (clock s) r)"

lemma grant_seat_wp:
  assumes row: "find_by li_pk (li_pk l) (t_licenses s) = Some l" "find_by li_key key (t_licenses s) = Some l" "li_key l = key"
    and live: "license_live l s" and grace: "\<And>I. pres I grace"
  shows "wp (bnd (claim_seat l fp name) (\<lambda>seated.
             if \<not> seated then ret (refused ''seat_full'') else access_granted E l key fp (status_of l s) grace))
     (\<lambda>r t. activated E key fp s r t
        \<or> t = s \<and> r = refused ''seat_full'' \<and> \<not> holds_seat (li_pk l) fp s \<and> \<not> seats_available l s)
     (\<lambda>_ t. t = s \<or> took_seat (li_pk l) fp s t) s"
  unfolding wp_bnd
proof (rule wp_mono [OF claim_seat_wp [OF row(1)]], goal_cases)
  case (1 seated t)
  show ?case
  proof (cases seated)
    case True
    then have took: "took_seat (li_pk l) fp s t" "holds_seat (li_pk l) fp s \<or> seats_available l s" "clock t = clock s"
      using 1 by (auto simp: took_seat_def)
    show ?thesis
      using True access_granted_wp [OF grace, of E l fp "status_of l s" t] row(2,3) live took
      by (auto simp: activated_def signed_answer_def elim!: wp_mono)
  qed (use 1 in \<open>simp add: wp_ret\<close>)
qed auto

definition activation_refused :: "string \<Rightarrow> string \<Rightarrow> db \<Rightarrow> activation_response \<Rightarrow> db \<Rightarrow> bool" where
  "activation_refused key fp s r t =
     (no_access r \<and> counted s t
      \<and> (ar_status r = ''seat_full'' \<longrightarrow> (\<exists>l. find_by li_key key (t_licenses s) = Some l
           \<and> \<not> holds_seat (li_pk l) fp s \<and> \<not> seats_available l s)))"

lemma activation_refused_status:
  "counted s t \<Longrightarrow> st \<notin> {''active'', ''grace'', ''seat_full''} \<Longrightarrow> activation_refused key fp s (refused st) t"
  by (simp add: activation_refused_def no_access_refused) (simp add: refused_def)

lemma activated_counted: "counted s t \<Longrightarrow> activated E key fp t r u \<Longrightarrow> activated E key fp s r u"
  by (auto simp: activated_def counted_seats counted_access counted_tables intro: took_seat_counted)

lemma activate_wp:
  assumes "seats_ok s"
  shows "wp (activate E key fp name ip)
     (\<lambda>r t. activated E key fp s r t \<or> activation_refused key fp s r t)
     (\<lambda>_ t. counted s t \<or> (\<exists>l. find_by li_key key (t_licenses s) = Some l \<and> took_seat (li_pk l) fp s t)) s"
proof -
  have "bucket (''ip:'' @ ip) \<noteq> bucket (''key:'' @ key)" by (simp add: bucket_def)
  then show ?thesis
    unfolding activate_def wp_bnd [of "rate_limited _ _ _ _"]
  proof (rule wp_mono [OF rate_limited_wp], goal_cases)
    case (1 limited t)
    then have c: "counted s t" by blast
    show ?case
    proof (cases "limited \<or> find_by li_key key (t_licenses t) = None")
      case True
      with c show ?thesis
        by (cases limited) (simp_all add: wp_ret activation_refused_status license_by_key_def wp_bnd wp_gets)
    next
      case False
      then obtain l where l: "find_by li_key key (t_licenses t) = Some l" and nl: "\<not> limited" by blast
      have row: "find_by li_pk (li_pk l) (t_licenses t) = Some l" "li_key l = key"
        using seats_ok_license_row [OF assms] l counted_tables [OF c] by auto
      have seat: "wp (bnd (claim_seat l fp name) (\<lambda>seated.
             if \<not> seated then ret (refused ''seat_full'')
             else access_granted E l key fp (status_of l t) (int_setting ''ACTIVATION_GRACE_DAYS'' ''3'')))
         (\<lambda>r u. activated E key fp s r u \<or> activation_refused key fp s r u)
         (\<lambda>_ u. counted s u \<or> (\<exists>l. find_by li_key key (t_licenses s) = Some l \<and> took_seat (li_pk l) fp s u)) t"
        if "license_live l t"
        by (rule wp_mono [OF grant_seat_wp [OF row(1) l row(2) that licensing_reads(10)]])
          (use l c in \<open>auto simp: activation_refused_def no_access_refused counted_seats [OF c] counted_tables [OF c]
             intro: activated_counted took_seat_counted\<close>)
      have "license_by_key key t = (Inr (Some l), t)" using l by (simp add: license_by_key_def run_simps)
      then have step: "wp (bnd (license_by_key key) f) Q X t = wp (f (Some l)) Q X t" for f :: "_ \<Rightarrow> activation_response prog" and Q X
        by (simp add: wp_def bnd_def)
      show ?thesis
        unfolding if_not_P [OF nl] step option.case
        by (rule access_check_wp)
          (use c seat status_of_values [of l t] status_of_live [of l t] in \<open>auto simp: wp_ret intro!: activation_refused_status\<close>)
    qed
  qed simp
qed

text \<open>
  C18.  Activation lets in exactly the devices of live licenses, one seat each.  Every answer is
  either the granted one or a refusal without token, entitlements or signature.  A granted answer
  belongs to a license with this key whose own status, grant and subscription all give access; it
  carries the token and the signed entitlement of this license and device; the device then holds a
  seat, which cost one of the free seats unless it already had one, and no other device's seat
  changed.  A refusal changes nothing but the request counters; \<open>seat_full\<close> means that the
  device had no seat and none was free.  The seat limit holds in every case.
\<close>

theorem activate_takes_one_seat:
  assumes "seats_ok s"
  shows "wp (activate E key fp name ip)
     (\<lambda>r t. seats_ok t \<and> (activated E key fp s r t \<or> activation_refused key fp s r t))
     (\<lambda>_ t. seats_ok t \<and> (counted s t \<or> (\<exists>l. find_by li_key key (t_licenses s) = Some l \<and> took_seat (li_pk l) fp s t))) s"
proof -
  have "wp (activate E key fp name ip) (\<lambda>_. seats_ok) (\<lambda>_. seats_ok) s"
    using seats.activate_pres assms by (simp add: pres_wp)
  from wp_both [OF this activate_wp [OF assms]] show ?thesis
    by (rule wp_mono) blast+
qed


definition example_license :: license where
  "example_license = \<lparr>li_pk = 40, li_key = ''OSS-A'', li_customer = 1, li_plan = 10, li_sub = None, li_grant = None,
     li_status = License_ACTIVE, li_seat_limit = 1\<rparr>"

definition example_seat_db :: db where
  "example_seat_db = empty_db\<lparr>seq := 50, t_licenses := [example_license],
     t_installations := [\<lparr>in_pk = 41, in_license = 40, in_fingerprint = ''laptop'', in_name = [],
       in_status = Installation_ACTIVE, in_last_seen = None\<rparr>]\<rparr>"

lemmas example_seat_simps = example_seat_db_def example_license_def empty_db_def

lemma example_seats: "seats_ok example_seat_db"
  by (simp add: seats_ok_def active_seat_count_def active_installation_def example_seat_simps)

theorem activate_takes_one_seat_witness:
  "wp (activate demo_env ''OSS-A'' ''desktop'' [] [])
     (\<lambda>r t. seats_ok t \<and> \<not> activated demo_env ''OSS-A'' ''desktop'' example_seat_db r t \<and> no_access r)
     (\<lambda>_ t. seats_ok t) example_seat_db"
proof -
  have "\<not> activated demo_env ''OSS-A'' ''desktop'' example_seat_db r t" for r t
    by (simp add: activated_def holds_seat_def seats_available_def active_seat_count_def active_installation_def example_seat_simps)
  then show ?thesis
    by (auto simp: activation_refused_def intro!: wp_mono [OF activate_takes_one_seat [OF example_seats]])
qed


subsection \<open>Giving a seat back\<close>

text \<open>The device has no seat any more; that freed its seat if it had one; no other seat changed.\<close>

definition freed_seat :: "nat \<Rightarrow> string \<Rightarrow> db \<Rightarrow> db \<Rightarrow> bool" where
  "freed_seat k fp s t =
     (\<not> holds_seat k fp t
      \<and> active_seat_count k s = active_seat_count k t + (if holds_seat k fp s then 1 else 0)
      \<and> (\<forall>j f. (j, f) \<noteq> (k, fp) \<longrightarrow> holds_seat j f t = holds_seat j f s)
      \<and> (\<exists>C In. t = s\<lparr>cache := C, t_installations := In\<rparr>))"

lemma deactivated_rows:
  fixes rows :: "installation list" and k :: nat and fp :: string
  defines "after \<equiv> upd_where (active_installation k fp) (\<lambda>r. r\<lparr>in_status := Installation_DEACTIVATED\<rparr>) rows"
  shows "length (filter (\<lambda>r. in_license r = k \<and> in_status r = Installation_ACTIVE) rows)
      = length (filter (\<lambda>r. in_license r = k \<and> in_status r = Installation_ACTIVE) after)
        + length (filter (active_installation k fp) rows)"
    and "\<not> (\<exists>r \<in> set after. active_installation k fp r)"
    and "(j, f) \<noteq> (k, fp) \<Longrightarrow> (\<exists>r \<in> set after. active_installation j f r) = (\<exists>r \<in> set rows. active_installation j f r)"
  unfolding after_def by (induction rows) (auto simp: active_installation_def)

lemma single_seat:
  assumes "seats_ok s"
  shows "length (filter (active_installation k fp) (t_installations s)) = (if holds_seat k fp s then 1 else 0)"
proof -
  have "length (filter (active_installation k fp) (t_installations s)) \<le> 1" using assms by (simp add: seats_ok_def)
  moreover have "holds_seat k fp s \<longleftrightarrow> filter (active_installation k fp) (t_installations s) \<noteq> []"
    by (auto simp: holds_seat_def filter_empty_conv)
  ultimately show ?thesis
    by (cases "filter (active_installation k fp) (t_installations s)") auto
qed

lemma installations_deactivate_wp:
  "seats_ok s \<Longrightarrow> wp (installations_deactivate k fp) (\<lambda>_. freed_seat k fp s) (\<lambda>_ _. False) s"
  using single_seat [of s k fp] deactivated_rows [where k = k and fp = fp and rows = "t_installations s"]
  by (auto simp: installations_deactivate_def wp_simps freed_seat_def holds_seat_def active_seat_count_def
      intro: seat_edits)

lemma freed_seat_counted: "counted s t \<Longrightarrow> freed_seat k fp t u \<Longrightarrow> freed_seat k fp s u"
  unfolding freed_seat_def counted_def holds_seat_def active_seat_count_def
  by (elim exE conjE, intro conjI) (simp_all, (intro exI, rule refl))

lemma seats_ok_counted: "counted s t \<Longrightarrow> seats_ok s \<Longrightarrow> seats_ok t"
  by (auto simp: counted_def elim: seats_ok_frame)

text \<open>
  Deactivation gives exactly one seat back.  It never raises.  When it answers
  \<open>deactivated\<close> the license exists, the device has no active seat any more, the license has one
  active seat less if the device had one (and as many as before if it had none), and no other
  device lost its seat; every other answer left the database as it was.  The answer never carries
  a token.
\<close>

theorem deactivate_frees_seat:
  assumes "seats_ok s"
  shows "wp (deactivate key fp)
     (\<lambda>r t. no_access r
        \<and> (if ar_status r = ''deactivated''
           then \<exists>l. find_by li_key key (t_licenses s) = Some l \<and> freed_seat (li_pk l) fp s t
           else counted s t))
     (\<lambda>_ _. False) s"
  unfolding deactivate_def wp_bnd [of "check_rate_limit _ _"]
proof (rule wp_mono [OF check_rate_limit_wp], goal_cases)
  case (1 limited t)
  then have c: "counted s t" and ok: "seats_ok t" using assms by (auto simp: rewritten_def intro: seats_ok_counted)
  have "wp (installations_deactivate k fp) (\<lambda>_. freed_seat k fp s) (\<lambda>_ _. False) t" for k
    by (rule wp_mono [OF installations_deactivate_wp [OF ok]]) (use freed_seat_counted [OF c] in auto)
  with c show ?case
    by (auto simp: license_by_key_def wp_simps no_access_def refused_def counted_tables split: option.split elim!: wp_mono)
qed simp

theorem deactivate_frees_seat_witness:
  "wp (deactivate ''OSS-A'' ''laptop'')
     (\<lambda>r t. ar_status r = ''deactivated'' \<longrightarrow> active_seat_count 40 t = 0) (\<lambda>_ _. False) example_seat_db"
proof -
  have "active_seat_count 40 example_seat_db = 1" "holds_seat 40 ''laptop'' example_seat_db"
    by (simp_all add: active_seat_count_def holds_seat_def active_installation_def example_seat_simps)
  moreover have "li_pk l = 40" if "find_by li_key ''OSS-A'' (t_licenses example_seat_db) = Some l" for l
    using that by (auto simp: example_seat_simps)
  ultimately show ?thesis
    by (intro wp_mono [OF deactivate_frees_seat [OF example_seats]]) (auto simp: freed_seat_def)
qed


section \<open>Heartbeats and operations\<close>

text \<open>A genuine token for this license and device, within its lifetime and the grace period.\<close>

definition token_accepted :: "env \<Rightarrow> db \<Rightarrow> string \<Rightarrow> string \<Rightarrow> string \<Rightarrow> bool" where
  "token_accepted E s tok key fp =
     (\<exists>signed_at ttl grace. ts_unsign E tok = Some (token_value key fp, signed_at)
        \<and> fst (ttl_seconds s) = Inr ttl \<and> fst (grace_seconds s) = Inr grace
        \<and> clock s - signed_at * us_second \<le> max ttl (ttl + grace) * us_second)"

lemma verify_token_wp:
  "wp (verify_token E tok key fp)
     (\<lambda>st t. t = s \<and> (st \<in> {''active'', ''grace''} \<longrightarrow> token_accepted E s tok key fp)) (\<lambda>_ t. t = s) s"
proof (cases "ts_unsign E tok")
  case (Some p)
  obtain v signed_at where p: "p = (v, signed_at)" by (cases p)
  note settings = reads_value [OF licensing_reads(16), of s] reads_value [OF licensing_reads(17), of s]
  show ?thesis
    unfolding verify_token_def Some option.case p prod.case
    by (cases "v = token_value key fp", simp_all add: wp_ret wp_bnd [of ttl_seconds] Let_def,
        rule wp_mono [OF settings(1)], clarsimp simp: wp_bnd [of grace_seconds], rule wp_mono [OF settings(2)])
      (auto simp: wp_simps token_accepted_def Some p max_def mult_le_cancel_right us_second_def)
qed (simp add: verify_token_def wp_ret)

lemma int_setting_counted: "counted s t \<Longrightarrow> fst (int_setting a b t) = fst (int_setting a b s)"
  by (auto simp: int_setting_def run_simps counted_def split: option.splits)

lemma bnd_fst: "(\<And>I. pres I m) \<Longrightarrow> fst (bnd m f s) = (case fst (m s) of Inl e \<Rightarrow> Inl e | Inr x \<Rightarrow> fst (f x s))"
  using reads_wp [of m s] by (auto simp: wp_def bnd_def split: prod.splits sum.splits)

lemma token_accepted_counted:
  assumes "counted s t" and "token_accepted E t tok key fp"
  shows "token_accepted E s tok key fp"
proof -
  have "fst (ttl_seconds t) = fst (ttl_seconds s)" "fst (grace_seconds t) = fst (grace_seconds s)"
    unfolding ttl_seconds_def grace_seconds_def bnd_fst [OF licensing_reads(10)] int_setting_counted [OF assms(1)]
    by (simp_all add: ret_run split: sum.split)
  with assms show ?thesis by (simp add: token_accepted_def counted_tables)
qed

definition maintenance :: "db \<Rightarrow> bool" where
  "maintenance s = (fst (bool_setting ''MAINTENANCE_MODE'' s) = Inr True)"

lemma maintenance_run: "bool_setting ''MAINTENANCE_MODE'' s = (Inr (maintenance s), s)"
  by (simp add: maintenance_def bool_setting_def run_simps)

lemma maintenance_step: "wp (bnd (bool_setting ''MAINTENANCE_MODE'') f) Q X s = wp (f (maintenance s)) Q X s"
  by (simp add: wp_def bnd_def maintenance_run)

lemma maintenance_counted: "counted s t \<Longrightarrow> maintenance t = maintenance s"
  by (simp add: maintenance_def bool_setting_def run_simps counted_tables)

text \<open>The installation of the request was seen; no seat changed.\<close>

definition seen :: "db \<Rightarrow> db \<Rightarrow> bool" where
  "seen s t = ((\<forall>j f. holds_seat j f t = holds_seat j f s) \<and> (\<exists>C In. t = s\<lparr>cache := C, t_installations := In\<rparr>))"

lemma seen_wp: "wp (installation_seen j) (\<lambda>_. seen s) (\<lambda>_ _. False) s"
  unfolding installation_seen_def wp_bnd now_wp wp_modify seen_def holds_seat_seen
  by (auto intro: seat_edits)

lemma seen_counted: "counted s t \<Longrightarrow> seen t u \<Longrightarrow> seen s u"
  unfolding seen_def counted_def holds_seat_def
  by (elim exE conjE, intro conjI) (simp_all, (intro exI, rule refl))


definition validated :: "env \<Rightarrow> string \<Rightarrow> string \<Rightarrow> string \<Rightarrow> db \<Rightarrow> activation_response \<Rightarrow> db \<Rightarrow> bool" where
  "validated E key fp tok s r t =
     (\<exists>l. find_by li_key key (t_licenses s) = Some l \<and> license_live l s \<and> holds_seat (li_pk l) fp s
        \<and> token_accepted E s tok key fp \<and> seen s t
        \<and> ar_status r = status_of l s \<and> signed_answer E l fp (status_of l s) (clock s) r)"

lemma validated_counted: "counted s t \<Longrightarrow> validated E key fp tok t r u \<Longrightarrow> validated E key fp tok s r u"
  by (auto simp: validated_def counted_seats counted_access counted_tables intro: seen_counted token_accepted_counted)

lemma license_by_key_step: "wp (bnd (license_by_key key) f) Q X s = wp (f (find_by li_key key (t_licenses s))) Q X s"
  by (simp add: license_by_key_def wp_simps)

lemma seen_access: "seen s t \<Longrightarrow> clock t = clock s"
  by (auto simp: seen_def)

text \<open>The end of \<open>validate\<close>: the device must still hold its seat.\<close>

lemma heartbeat_wp:
  assumes row: "find_by li_key key (t_licenses s) = Some l" and live: "license_live l s" and tok: "token_accepted E s tok key fp"
  shows "wp (bnd (find_active (li_pk l) fp) (\<lambda>installation.
                 case installation of
                   None \<Rightarrow> ret (refused ''deactivated'')
                 | Some r \<Rightarrow>
                     bnd (installation_seen (in_pk r)) (\<lambda>_.
                     access_granted E l key fp (status_of l s) (ret 0))))
     (\<lambda>r t. validated E key fp tok s r t \<or> t = s \<and> r = refused ''deactivated'')
     (\<lambda>_ t. t = s \<or> seen s t) s"
  unfolding wp_bnd [of "find_active _ _"]
proof (rule wp_mono [OF find_active_wp], goal_cases)
  case (1 v t)
  have key: "key = li_key l" using row by (auto dest: find_by_SomeD)
  show ?case
  proof (cases v)
    case (Some r)
    then have seat: "t = s" "holds_seat (li_pk l) fp s" using 1 by (auto simp: holds_seat_def)
    have "wp (access_granted E l key fp (status_of l s) (ret 0)) (\<lambda>r t. validated E key fp tok s r t) (\<lambda>_ t. seen s t) u"
      if "seen s u" for u
      unfolding key by (rule wp_mono [OF access_granted_wp [OF pres_ret]])
        (use row live tok seat that seen_access [OF that] in \<open>auto simp: validated_def key [symmetric] signed_answer_def\<close>)
    then have "wp (bnd (installation_seen (in_pk r)) (\<lambda>_. access_granted E l key fp (status_of l s) (ret 0)))
        (\<lambda>r t. validated E key fp tok s r t) (\<lambda>_ t. seen s t) s"
      unfolding wp_bnd by (rule wp_mono [OF seen_wp]) auto
    then show ?thesis using Some seat by (auto elim!: wp_mono)
  qed (use 1 in \<open>simp add: wp_ret\<close>)
qed simp



lemma example_no_seat: "\<not> maintenance example_seat_db" "\<not> holds_seat 40 ''desktop'' example_seat_db"
  by (simp_all add: maintenance_def bool_setting_def run_simps holds_seat_def active_installation_def strip_def lower_def is_space_def lower_char_def
      example_seat_simps)


subsection \<open>Operations\<close>

text \<open>The license, its plan's product and the active policy that an authorization rests on.\<close>

definition entitled :: "license \<Rightarrow> string \<Rightarrow> db \<Rightarrow> product \<Rightarrow> operation_policy \<Rightarrow> bool" where
  "entitled l operation s pr policy =
     (\<exists>pl entitlements. find_by pl_pk (li_plan l) (t_plans s) = Some pl \<and> find_by pr_pk (pl_product pl) (t_products s) = Some pr
        \<and> policy \<in> set (t_policies s) \<and> op_active policy \<and> op_product policy = pr_pk pr \<and> op_operation policy = operation
        \<and> fst (get_entitlements l s) = Inr entitlements
        \<and> lower (entitlement_text entitlements (op_entitlement_key policy)) = lower (op_required_value policy))"

definition authorized ::
  "env \<Rightarrow> string \<Rightarrow> string \<Rightarrow> string \<Rightarrow> string \<Rightarrow> string \<Rightarrow> db \<Rightarrow> authorization_response \<Rightarrow> db \<Rightarrow> bool" where
  "authorized E key fp tok operation request_hash s r t =
     (\<exists>l pr policy authorization signature.
        find_by li_key key (t_licenses s) = Some l \<and> license_live l s \<and> holds_seat (li_pk l) fp s
        \<and> token_accepted E s tok key fp \<and> entitled l operation s pr policy
        \<and> r = (''authorized'', authorization, signature)
        \<and> ed25519_sign E (canonical_json authorization) = Some signature
        \<and> authorization =
            [(''license_id'', JStr key), (''product_id'', JStr (pr_slug pr)), (''fingerprint'', JStr fp),
             (''operation'', JStr operation), (''request_hash'', JStr request_hash), (''issued_at'', JStr (isoformat (clock s))),
             (''expires_at'', JStr (isoformat (clock s + op_ttl policy * us_second)))]
        \<and> length (t_audit t) = Suc (length (t_audit s)))"

definition not_authorized :: "authorization_response \<Rightarrow> bool" where
  "not_authorized r = (fst r \<noteq> ''authorized'' \<and> snd r = ([], []))"

lemma not_authorized_status [simp]: "not_authorized (st, [], []) \<longleftrightarrow> st \<noteq> ''authorized''"
  by (simp add: not_authorized_def)

lemma grant_operation_wp:
  assumes "find_by li_key key (t_licenses s) = Some l" "license_live l s" "holds_seat (li_pk l) fp s"
    "token_accepted E s tok key fp" "entitled l operation s pr policy"
  shows "wp (grant_operation E l pr fp operation h policy j)
     (\<lambda>r t. authorized E key fp tok operation h s r t \<or> not_authorized r \<and> t = s) (\<lambda>_ t. t = s) s"
proof -
  have key: "li_key l = key" using assms(1) by (auto dest: find_by_SomeD)
  show ?thesis
    using assms key
    by (auto simp: grant_operation_def wp_simps Let_def sign_entitlement_def authorized_def installation_seen_def
        split: option.split)
qed

lemma operation_wp:
  assumes row: "find_by li_key key (t_licenses s) = Some l" "license_live l s" "token_accepted E s tok key fp"
  shows "wp (bnd (find_active (li_pk l) fp) (\<lambda>installation.
                       case installation of
                         None \<Rightarrow> ret (''deactivated'', [], [])
                       | Some r \<Rightarrow>
                           bnd (plan_get (li_plan l)) (\<lambda>pl.
                           bnd (product_get (pl_product pl)) (\<lambda>pr.
                           bnd (find_policy (pr_pk pr) operation) (\<lambda>p.
                           case p of
                             None \<Rightarrow> ret (''operation_unavailable'', [], [])
                           | Some policy \<Rightarrow>
                               bnd (get_entitlements l) (\<lambda>entitlements.
                               if lower (entitlement_text entitlements (op_entitlement_key policy))
                                    \<noteq> lower (op_required_value policy)
                               then ret (''not_entitled'', [], [])
                               else grant_operation E l pr fp operation h policy (in_pk r)))))))
     (\<lambda>r t. authorized E key fp tok operation h s r t \<or> not_authorized r \<and> t = s) (\<lambda>_ t. t = s) s"
  unfolding wp_bnd [of "find_active _ _"]
proof (rule wp_mono [OF find_active_wp], goal_cases)
  case (1 v t)
  show ?case
  proof (cases v)
    case (Some r)
    then have seat: "t = s" "holds_seat (li_pk l) fp s" using 1 by (auto simp: holds_seat_def)
    note grant = grant_operation_wp [OF row(1,2) seat(2) row(3)]
    note ents = reads_value [OF licensing_reads(7), of l s]
    have policy: "wp (bnd (get_entitlements l) (\<lambda>entitlements.
                       if lower (entitlement_text entitlements (op_entitlement_key policy)) \<noteq> lower (op_required_value policy)
                       then ret (''not_entitled'', [], [])
                       else grant_operation E l pr fp operation h policy (in_pk r)))
        (\<lambda>r t. authorized E key fp tok operation h s r t \<or> not_authorized r \<and> t = s) (\<lambda>_ t. t = s) s"
      if "find_by pl_pk (li_plan l) (t_plans s) = Some pl" "find_by pr_pk (pl_product pl) (t_products s) = Some pr"
        "find (\<lambda>p. op_product p = pr_pk pr \<and> op_operation p = operation \<and> op_active p) (t_policies s) = Some policy" for pl pr policy
      unfolding wp_bnd [of "get_entitlements l"]
      by (rule wp_mono [OF ents]) (use that find_SomeD [OF that(3)] in \<open>auto simp: wp_ret entitled_def intro!: grant\<close>)
    show ?thesis
      unfolding Some option.case seat(1) using policy
      by (auto simp: plan_get_def product_get_def find_policy_def bnd_assoc wp_bnd [of "gets _"] wp_bnd [of "or_raise _ _"] wp_gets
          wp_or_raise wp_ret split: option.split)
  qed (use 1 in \<open>simp add: wp_ret\<close>)
qed simp


lemma authorized_counted:
  assumes c: "counted s t" and a: "authorized E key fp tok operation h t r u"
  shows "authorized E key fp tok operation h s r u"
proof -
  have "fst (get_entitlements l t) = fst (get_entitlements l s)" for l
    using c by (auto simp: counted_def get_entitlements_def entitlements_of_plan_def plan_get_def run_simps split: option.splits)
  moreover have "t_plans t = t_plans s" "t_products t = t_products s" "t_policies t = t_policies s" "t_audit t = t_audit s"
    using c by (auto simp: counted_def)
  ultimately show ?thesis
    using a by (auto simp: authorized_def entitled_def counted_seats [OF c] counted_access [OF c] counted_tables [OF c]
        intro: token_accepted_counted [OF c])
qed


text \<open>
  C20.  Remote operations fail closed.  \<open>authorize_operation\<close> answers \<open>authorized\<close> only outside
  maintenance, for a genuine unexpired token of this license and device, a live license, a seated
  device, and an active policy of the license's product for this operation whose required value
  equals the license's entitlement; the authorization then names exactly this license, product,
  device, operation and request hash, expires after the policy's time to live, is signed, and is
  recorded in the audit log.  Every other answer has an empty authorization and an empty signature and
  changes nothing but the request counters.
\<close>

theorem authorize_fail_closed:
  "wp (authorize_operation E key fp tok raw_operation raw_hash ip)
     (\<lambda>r t. authorized E key fp tok (lower (strip raw_operation)) (strip raw_hash) s r t \<and> \<not> maintenance s
        \<or> not_authorized r \<and> counted s t)
     (\<lambda>_ t. counted s t) s"
proof (cases "lower (strip raw_operation) = [] \<or> 100 < length (lower (strip raw_operation)) \<or> 128 < length (strip raw_hash)")
  case True
  then show ?thesis by (simp add: authorize_operation_def Let_def wp_ret)
next
  case valid: False
  show ?thesis
    unfolding authorize_operation_def Let_def if_not_P [OF valid] wp_bnd [of "rate_limited _ _ _ _"]
  proof (rule wp_mono [OF rate_limited_wp], simp add: bucket_def, goal_cases)
    case (1 limited t)
    then have c: "counted s t" by blast
    note operation = operation_wp [of key t _ E tok fp "lower (strip raw_operation)" "strip raw_hash"]
    show ?case
    proof (cases "limited \<or> maintenance t")
      case False
      then have go: "\<not> limited" "\<not> maintenance t" "\<not> maintenance s" using maintenance_counted [OF c] by auto
      show ?thesis
        unfolding if_not_P [OF go(1)] maintenance_step if_not_P [OF go(2)] wp_bnd [of "verify_token _ _ _ _"]
      proof (rule wp_mono [OF verify_token_wp], goal_cases)
        case (1 token_status u)
        then have u: "u = t" and tok: "token_status \<in> {''active'', ''grace''} \<Longrightarrow> token_accepted E t tok key fp" by auto
        show ?case
        proof (cases "token_status \<notin> {''active'', ''grace''} \<or> find_by li_key key (t_licenses t) = None")
          case False
          then obtain l where l: "find_by li_key key (t_licenses t) = Some l" and st: "\<not> token_status \<notin> {''active'', ''grace''}" by blast
          show ?thesis
            unfolding u if_not_P [OF st] license_by_key_step l option.case
          proof (rule access_check_wp, goal_cases)
            case 1
            show ?case
              by (rule wp_mono [OF operation [OF l 1 tok]]) (use st c go(3) in \<open>auto intro: authorized_counted\<close>)
          qed (use c status_of_values [of l t] in \<open>auto simp: wp_ret\<close>)
        qed (use c u in \<open>cases "token_status \<in> {''active'', ''grace''}"; auto simp: wp_ret license_by_key_step\<close>)
      qed (use c in simp)
    qed (use c in \<open>cases limited; simp add: wp_ret maintenance_step\<close>)
  qed auto
qed


section \<open>Heartbeats and activation share a counter\<close>

text \<open>Requests to \<open>validate\<close> for one key, with any devices and tokens; each is answered or fails on its own.\<close>

definition heartbeats :: "env \<Rightarrow> string \<Rightarrow> (string \<times> string) list \<Rightarrow> string \<Rightarrow> db \<Rightarrow> db" where
  "heartbeats E key requests ip = fold (\<lambda>(fp, tok) s. snd (validate E key fp tok ip s)) requests"

lemma validate_counts:
  fixes key :: string
  assumes "\<not> maintenance s"
  defines "b \<equiv> bucket (''key:'' @ key)"
  defines "after \<equiv> \<lambda>t. cache_value b t = Some (bumped b s) \<and> \<not> maintenance t"
  shows "after (snd (validate E key fp tok ip s))"
proof -
  have seen: "pres after (installation_seen j)" for j
    unfolding installation_seen_def after_def
    by (intro pres_bnd pres_modify licensing_reads)
      (auto simp: now_def pres_gets cache_value_def maintenance_def bool_setting_def run_simps split: option.splits)
  have rest: "wp m (\<lambda>_. after) (\<lambda>_. after) t" if "pres after m" "after t" for m :: "activation_response prog" and t
    using that by (simp add: pres_wp)
  have "wp (validate E key fp tok ip) (\<lambda>_. after) (\<lambda>_. after) s"
    unfolding validate_def maintenance_step if_not_P [OF assms(1)] wp_bnd [of "rate_limited _ _ _ _"]
  proof (rule wp_mono [OF rate_limited_wp], simp add: bucket_def, goal_cases)
    case (1 limited t)
    then have "after t" using maintenance_counted assms(1) by (auto simp: after_def b_def)
    then show ?case by (intro rest) (intro pres_intros seen)+
  qed auto
  then show ?thesis by (simp add: wp_inv)
qed

lemma heartbeats_count:
  "\<not> maintenance s \<Longrightarrow> requests \<noteq> [] \<Longrightarrow>
   cache_value (bucket (''key:'' @ key)) (heartbeats E key requests ip s) =
     Some (bumped (bucket (''key:'' @ key)) s + int (length requests) - 1)"
proof (induction requests arbitrary: s)
  case (Cons r requests)
  obtain fp tok where r: "r = (fp, tok)" by (cases r)
  let ?t = "snd (validate E key fp tok ip s)"
  have t: "cache_value (bucket (''key:'' @ key)) ?t = Some (bumped (bucket (''key:'' @ key)) s)" "\<not> maintenance ?t"
    using validate_counts [OF Cons.prems(1), of key E fp tok ip] by simp_all
  show ?case
    using t Cons.IH [OF t(2)] by (cases "requests = []") (simp_all add: r heartbeats_def bumped_def)
qed simp

text \<open>
  Ten heartbeats block an activation.  The header of \<open>licensing/services.py\<close> gives each
  kind of request its own limit per key (10 activations, 60 validations a minute), but both count
  in one bucket: after ten requests to \<open>validate\<close> for a key within a window, with whatever devices
  and tokens, genuine or not, the next \<open>activate\<close> of the key is refused although nobody has
  activated it before.
\<close>

theorem heartbeats_block_activation:
  assumes "\<not> maintenance s" and "cache_value (bucket (''key:'' @ key)) s = None" and "10 \<le> length requests"
  shows "fst (activate E key fp name ip (heartbeats E key requests from_ip s)) = Inr (refused ''rate_limited'')"
proof -
  let ?t = "heartbeats E key requests from_ip s"
  have "requests \<noteq> []" using assms(3) by auto
  then have "bumped (bucket (''key:'' @ key)) ?t = int (length requests) + 1"
    using heartbeats_count [OF assms(1)] assms(2) by (simp add: bumped_def)
  then have "rate_limit_activate < bumped (bucket (''key:'' @ key)) ?t"
    using assms(3) by (simp add: rate_limit_activate_def)
  moreover have "bucket (''ip:'' @ ip) \<noteq> bucket (''key:'' @ key)" by (simp add: bucket_def)
  ultimately have "wp (rate_limited (''key:'' @ key) rate_limit_activate ''ip:'' ip) (\<lambda>limited _. limited) (\<lambda>_ _. False) ?t"
    by (intro wp_mono [OF rate_limited_wp]) auto
  then have "wp (activate E key fp name ip) (\<lambda>r _. r = refused ''rate_limited'') (\<lambda>_ _. False) ?t"
    unfolding activate_def wp_bnd [of "rate_limited _ _ _ _"] by (rule wp_mono) (simp_all add: wp_ret)
  then show ?thesis
    by (auto simp: wp_def split: prod.splits sum.splits)
qed

theorem heartbeats_block_activation_witness:
  "fst (activate demo_env ''OSS-A'' ''desktop'' [] []
     (heartbeats demo_env ''OSS-A'' (replicate 10 (''laptop'', ''junk'')) [] example_seat_db)) = Inr (refused ''rate_limited'')"
  using heartbeats_block_activation [OF example_no_seat(1), of "''OSS-A''" "replicate 10 (''laptop'', ''junk'')"]
  by (simp add: cache_value_def example_seat_simps)

section \<open>Tokens\<close>

lemma token_value_inject:
  assumes "CHR '':'' \<notin> set key" "CHR '':'' \<notin> set key'" "token_value key fp = token_value key' fp'"
  shows "key = key' \<and> fp = fp'"
proof -
  have "takeWhile (\<lambda>c. c \<noteq> CHR '':'') (token_value k f) = k" if "CHR '':'' \<notin> set k" for k f
    using that by (induction k) (auto simp: token_value_def)
  with assms have "key = key'" by metis
  with assms(3) show ?thesis by (simp add: token_value_def)
qed

text \<open>
  C23.  The life of a token.  With a signer whose \<open>unsign\<close> gives back what \<open>sign\<close> signed and when,
  a token issued at one moment is, at any later moment, read back for its own license and device as
  \<open>active\<close> until the time to live has passed, then as \<open>grace\<close> for the grace period (with the
  global extension), then as \<open>expired\<close>; for any other license or device it is \<open>invalid\<close> (keys
  contain no colon), at any moment.
\<close>

theorem token_round_trip:
  assumes signer: "\<And>v at. 0 \<le> at \<Longrightarrow> ts_unsign E (ts_sign E v at) = Some (v, at)"
    and issued: "issue_token E key fp s = (Inr (tok, expires), s)" "0 \<le> clock s"
    and settings: "fst (ttl_seconds t) = Inr ttl" "fst (grace_seconds t) = Inr grace"
    and keys: "CHR '':'' \<notin> set key" "CHR '':'' \<notin> set key'"
  shows "verify_token E tok key' fp' t =
     (Inr (if (key', fp') \<noteq> (key, fp) then ''invalid''
           else if clock t \<le> (clock s div us_second + ttl) * us_second then ''active''
           else if clock t \<le> (clock s div us_second + ttl + grace) * us_second then ''grace''
           else ''expired''), t)"
proof -
  have tok: "tok = ts_sign E (token_value key fp) (clock s div us_second)"
    using issued(1) by (auto simp: issue_token_def ttl_seconds_def int_setting_def run_simps split: option.splits)
  have unsigned: "ts_unsign E tok = Some (token_value key fp, clock s div us_second)"
    unfolding tok using issued(2) by (intro signer) (simp add: us_second_def pos_imp_zdiv_nonneg_iff)
  have reads: "ttl_seconds t = (Inr ttl, t)" "grace_seconds t = (Inr grace, t)"
    using reads_wp [OF licensing_reads(16), of t] reads_wp [OF licensing_reads(17), of t] settings
    by (auto simp: wp_def split: prod.splits)
  show ?thesis
  proof (cases "(key', fp') = (key, fp)")
    case True
    then show ?thesis
      using unsigned by (auto simp: verify_token_def run_simps reads Let_def algebra_simps)
  next
    case False
    then have "token_value key fp \<noteq> token_value key' fp'" using token_value_inject [OF keys] by blast
    with False show ?thesis using unsigned by (simp add: verify_token_def run_simps)
  qed
qed


text \<open>A signer that writes the time in unary before the value.\<close>

definition unary_env :: env where
  "unary_env = demo_env\<lparr>
     ts_sign := (\<lambda>v at. replicate (nat at) CHR ''|'' @ CHR ''.'' # v),
     ts_unsign := (\<lambda>tok. Some (drop 1 (dropWhile (\<lambda>c. c = CHR ''|'') tok), int (length (takeWhile (\<lambda>c. c = CHR ''|'') tok))))\<rparr>"

lemma unary_prefix:
  "dropWhile (\<lambda>c. c = CHR ''|'') (replicate n CHR ''|'' @ CHR ''.'' # v) = CHR ''.'' # v"
  "takeWhile (\<lambda>c. c = CHR ''|'') (replicate n CHR ''|'' @ CHR ''.'' # v) = replicate n CHR ''|''"
  by (induction n) simp_all

lemma unary_signer: "0 \<le> at \<Longrightarrow> ts_unsign unary_env (ts_sign unary_env v at) = Some (v, at)"
  by (simp add: unary_env_def unary_prefix)

theorem token_round_trip_witness:
  "verify_token unary_env ''.OSS-A:laptop'' ''OSS-A'' ''laptop'' (empty_db\<lparr>clock := us_day\<rparr>)
      = (Inr ''active'', empty_db\<lparr>clock := us_day\<rparr>)
   \<and> verify_token unary_env ''.OSS-A:laptop'' ''OSS-A'' ''desktop'' (empty_db\<lparr>clock := us_day\<rparr>)
      = (Inr ''invalid'', empty_db\<lparr>clock := us_day\<rparr>)"
proof -
  have ints: "py_int ''1'' = Some 1" "py_int ''3'' = Some 3" "py_int ''0'' = Some 0"
    by (simp_all add: py_int_def strip_def is_space_def is_digit_def Let_def parse_nat_def digit_val_def)
  have issued: "issue_token unary_env ''OSS-A'' ''laptop'' empty_db = (Inr (''.OSS-A:laptop'', isoformat us_day), empty_db)"
    by (simp add: issue_token_def ttl_seconds_def int_setting_def run_simps ints unary_env_def token_value_def empty_db_def us_day_def us_second_def)
  have settings: "fst (ttl_seconds t) = Inr 86400" "fst (grace_seconds t) = Inr 259200" if "t = empty_db\<lparr>clock := us_day\<rparr>" for t
    using that by (simp_all add: ttl_seconds_def grace_seconds_def int_setting_def run_simps ints empty_db_def)
  show ?thesis
    using token_round_trip [OF unary_signer issued _ settings [OF refl], of "''OSS-A''" "''laptop''"]
      token_round_trip [OF unary_signer issued _ settings [OF refl], of "''OSS-A''" "''desktop''"]
    by (simp add: empty_db_def us_day_def us_second_def)
qed

end
