(* ===== verification/Site.thy ===== *)
theory Site
  imports Shop Payouts Dashboard Console Handlers Activation
begin

text \<open>
  What every view of the site and of the seller desk leaves alone: the locales \<open>shop_frame\<close> and
  \<open>desk_frame\<close>, interpreted for the consistency and for the history of the ledger.
\<close>

section \<open>The shop\<close>

locale shop_frame = cart_inv I + dashboard_base I view for I view +
  assumes view_shop: "view (s\<lparr>t_users := Us\<rparr>) = view s" "view (s\<lparr>t_leads := Le\<rparr>) = view s" "view (s\<lparr>t_commissions := Co\<rparr>) = view s"
      "view (s\<lparr>t_page_events := Ev\<rparr>) = view s"
begin

lemma shop_writes [pres_intros]:
  "pres I (modify (\<lambda>s. s\<lparr>t_users := Uw s\<rparr>))" "pres I (modify (\<lambda>s. s\<lparr>t_leads := Lw s\<rparr>))"
  "pres I (modify (\<lambda>s. s\<lparr>t_commissions := Cw s\<rparr>))" "pres I (page_event name pr pl)"
  unfolding page_event_def by (auto intro!: frame_modify simp: view_shop)

lemma shop_reads [pres_intros]:
  "pres I (get_or_create_customer u)" "pres I (visitor_customer v)" "pres I (wallet_balance c)" "pres I (visible_product slug)" "pres I (valid_coupon pl f)"
  unfolding get_or_create_customer_def visitor_customer_def wallet_balance_def visible_product_def valid_coupon_def Let_def
  by (intro pres_intros)+

lemma commission_pres [pres_intros]: "pres I (record_affiliate_commission code ord)"
  unfolding record_affiliate_commission_def commission_get_or_create_def Let_def plan_get_def product_get_def by (intro pres_intros)

lemma pages_pres [pres_intros]: "pres I (store_page_view v slug p)" "pres I (product_detail v slug f)"
  unfolding store_page_view_def product_detail_def Let_def by (intro pres_intros)+

lemma with_guest_pres [pres_intros]: "(\<And>v. pres I (view' v)) \<Longrightarrow> pres I (with_guest E v post path view')"
  unfolding with_guest_def intercept_guest_checkout_def Let_def by (intro pres_intros)

lemma checkout_plan_pres [pres_intros]: "pres I (checkout_plan E v k post proof params path)"
  unfolding checkout_plan_def checkout_submit_def checkout_page_def checkout_done_def preview_def product_get_def Let_def
  by (intro pres_intros)

lemma receipts_pres [pres_intros]:
  "pres I (order_status_view E who token k)" "pres I (order_invoice_pdf E pdf who token k)" "pres I (order_pending who f)"
  unfolding order_status_view_def order_invoice_pdf_def order_pending_def resolve_receipt_order_def Let_def
  by (intro pres_intros)+

lemma topup_view_pres [pres_intros]: "pres I (topup_view E who post)"
  unfolding topup_view_def topup_form_def Let_def by (intro pres_intros)

lemma contact_pres [pres_intros]: "pres I (contact wa k post)"
  unfolding contact_def Let_def by (intro pres_intros)

lemma cart_views_pres [pres_intros]:
  "pres I (cart_view v)" "pres I (cart_add v k f)" "pres I (cart_remove v k)" "pres I (cart_update v k f)"
  "pres I (cart_checkout_view E v post proof params path)" "pres I (cart_checkout_receipt who key)"
  unfolding cart_view_def cart_add_def cart_remove_def cart_update_def cart_checkout_view_def cart_checkout_submit_def
    cart_checkout_receipt_def cart_lines_def visitor_cart_def Let_def
  by (intro pres_intros)+

end

interpretation history: dashboard_base "\<lambda>s. \<exists>M. t_ledger s = L @ M" "\<lambda>s. (t_wallets s, t_ledger s)"
  by unfold_locales auto
interpretation ledger: shop_frame ledger_ok "\<lambda>s. (t_wallets s, t_ledger s)"
  by unfold_locales auto
interpretation history: shop_frame "\<lambda>s. \<exists>M. t_ledger s = L @ M" "\<lambda>s. (t_wallets s, t_ledger s)"
  by unfold_locales auto

lemma refund_request_history: "pres (\<lambda>s. \<exists>M. t_ledger s = L @ M) (refund_request_view who p post)"
  unfolding refund_request_view_def my_paid_order_def refund_create_def Let_def
  by (intro pres_intros history.frame_modify; simp)

interpretation history: dashboard_frame "\<lambda>s. \<exists>M. t_ledger s = L @ M" "\<lambda>s. (t_wallets s, t_ledger s)"
  by unfold_locales (simp_all add: refund_request_history history.deactivate_keeps)

section \<open>The seller desk\<close>

lemma pres_case_step [pres_intros]:
  assumes "pres I a" "pres I b" "pres I c"
  shows "pres I (case st of Onboarding_IDENTITY \<Rightarrow> a | Onboarding_PRODUCT \<Rightarrow> b | Onboarding_PUBLISH \<Rightarrow> c)"
  using assms by (cases st) simp_all

lemma pres_case_form [pres_intros]:
  assumes "\<And>a. pres I (f a)" "\<And>a b. pres I (g a b)" "pres I m"
  shows "pres I (case w of Wizard_identity a \<Rightarrow> f a | Wizard_product a b \<Rightarrow> g a b | Wizard_publish \<Rightarrow> m)"
  using assms by (cases w) simp_all

text \<open>Payouts are a table of their own: what does not look at it is kept by every write to it.\<close>

context frame_inv
begin

lemma payouts_kept:
  assumes "\<And>s P. view (s\<lparr>t_payouts := P\<rparr>) = view s"
  shows "pres I (payout_create x n)" "pres I (back_office a)"
proof -
  show "pres I (payout_create x n)"
    unfolding payout_create_def by (intro pres_intros frame_modify) (simp_all add: assms)
  show "pres I (back_office a)"
    by (cases a) (simp_all add: back_office_defs, (intro pres_intros frame_modify; simp add: assms)+)
qed

end

locale desk_frame = shop_frame +
  assumes view_desk: "view (s\<lparr>t_sellers := Se\<rparr>) = view s" "view (s\<lparr>t_pages := Pa\<rparr>) = view s" "view (s\<lparr>t_blocks := Bl\<rparr>) = view s"
      "view (s\<lparr>t_products := Pr\<rparr>) = view s" "view (s\<lparr>t_plans := Pl\<rparr>) = view s" "view (s\<lparr>t_deliverables := De\<rparr>) = view s"
      "view (s\<lparr>t_entitlements := En\<rparr>) = view s" "view (s\<lparr>t_questions := Qu\<rparr>) = view s" "view (s\<lparr>t_coupons := Cp\<rparr>) = view s"
      "view (s\<lparr>t_affiliate_links := Al\<rparr>) = view s" "view (s\<lparr>t_modules := Mo\<rparr>) = view s"
      "view (s\<lparr>t_lessons := Le\<rparr>) = view s" "view (s\<lparr>t_progress := Lp\<rparr>) = view s"
    and payouts_pres [pres_intros]: "pres I (payout_create x n)" "pres I (back_office a)"
begin

lemma desk_writes [pres_intros]:
  "pres I (modify (\<lambda>s. s\<lparr>t_sellers := Sw s\<rparr>))" "pres I (modify (\<lambda>s. s\<lparr>t_pages := Pw s\<rparr>))" "pres I (modify (\<lambda>s. s\<lparr>t_blocks := Bw s\<rparr>))"
  "pres I (modify (\<lambda>s. s\<lparr>t_products := Rw s\<rparr>))" "pres I (modify (\<lambda>s. s\<lparr>t_plans := Lw s\<rparr>))" "pres I (modify (\<lambda>s. s\<lparr>t_deliverables := Dw s\<rparr>))"
  "pres I (modify (\<lambda>s. s\<lparr>t_entitlements := Ew s\<rparr>))" "pres I (modify (\<lambda>s. s\<lparr>t_questions := Qw s\<rparr>))" "pres I (modify (\<lambda>s. s\<lparr>t_coupons := Cw s\<rparr>))"
  "pres I (modify (\<lambda>s. s\<lparr>t_affiliate_links := Aw s\<rparr>))"
  "pres I (modify (\<lambda>s. s\<lparr>t_modules := Mw s\<rparr>))" "pres I (modify (\<lambda>s. s\<lparr>t_lessons := Kw s\<rparr>))" "pres I (modify (lessons_delete d))"
  "pres I (modify (\<lambda>s. (lessons_delete d s)\<lparr>t_modules := Nw s\<rparr>))"
  by (auto intro!: frame_modify simp: view_desk lessons_delete_def)

lemma desk_saves [pres_intros]:
  "pres I (page_save k f)" "pres I (block_save k g)" "pres I (product_save k h)" "pres I (plan_save k i)" "pres I (coupon_save k j)" "pres I (sub_write k m)"
  "pres I (block_set_position page kp)" "pres I (deliverable_create k d)" "pres I (entitlement_get_or_create a b)"
  unfolding page_save_def block_save_def product_save_def plan_save_def coupon_save_def sub_write_def block_set_position_def
    deliverable_create_def entitlement_get_or_create_def Let_def
  by (intro pres_intros | cases d)+

lemma store_pres [pres_intros]:
  "pres I (create_store_page_for_seller x)" "pres I (seller_save x f)" "pres I (seller_create u a b c)" "pres I (get_or_create_store_page x)"
  unfolding create_store_page_for_seller_def seller_save_def seller_create_def get_or_create_store_page_def page_create_def Let_def
  by (intro pres_intros)+

lemma seller_required_pres [pres_intros]: "(\<And>x. pres I (body x)) \<Longrightarrow> pres I (seller_required E who body)"
  unfolding seller_required_def superuser_seller_def auto_create_seller_def Let_def by (intro pres_intros)

lemma desk_reads [pres_intros]:
  "pres I (seller_product x k)" "pres I (own_plan k j)" "pres I (own_block p k)" "pres I (own_coupon x k)" "pres I (seller_subscription x k)"
  "pres I (seller_manual_order x k)" "pres I (next_position k)" "pres I (profile_of u)" "pres I wizard_page"
  unfolding seller_product_def own_plan_def own_block_def own_coupon_def seller_subscription_def seller_manual_order_def
    next_position_def profile_of_def wizard_page_def Let_def
  by (intro pres_intros)+

lemma desk_rows [pres_intros]:
  "pres I (product_create_row E x name ty vis)" "pres I (plan_create_row pl)" "pres I (block_create p k n)"
  unfolding product_create_row_def plan_create_row_def block_create_def Let_def by (intro pres_intros)+

lemma catalog_pres:
  "pres I (product_create E who pf)" "pres I (product_edit E who k pf)" "pres I (product_delete E who k b)"
  "pres I (plan_create E who k df)" "pres I (plan_edit E who k j df)"
  "pres I (entitlement_add E who k j ef)" "pres I (entitlement_remove E who k j i)"
  "pres I (question_add E who k qf)" "pres I (question_remove E who k j)"
  unfolding product_create_def product_edit_def product_delete_def plan_create_def plan_edit_def entitlement_add_def
    entitlement_remove_def question_add_def question_remove_def Let_def
  by (intro pres_intros)+

lemma page_pres:
  "pres I (store E who pf)" "pres I (store_publish_toggle E who)" "pres I (block_add E who f)" "pres I (block_remove E who k)"
  "pres I (block_toggle_visibility E who k)" "pres I (block_reorder E who f)"
  unfolding store_def store_publish_toggle_def block_add_def block_remove_def block_toggle_visibility_def block_reorder_def Let_def
  by (intro pres_intros)+

lemma selling_pres:
  "pres I (voucher_create E who cf)" "pres I (voucher_edit E who k cf)" "pres I (voucher_toggle E who k b)" "pres I (broadcast E who bf)"
  "pres I (seller_settings E who sf)" "pres I (payout_request E who f)" "pres I (affiliates E who af)" "pres I (affiliate_toggle E who k)"
  "pres I (subscription_cancel E who k)" "pres I (subscription_toggle_suspend E who k)" "pres I (subscription_toggle_renew E who k)"
  unfolding voucher_create_def voucher_edit_def voucher_toggle_def broadcast_def seller_settings_def payout_request_def affiliates_def
    affiliate_toggle_def subscription_cancel_def subscription_toggle_suspend_def subscription_toggle_renew_def Let_def
  by (intro pres_intros)+

lemma courses_pres:
  "pres I (course_modules E who k mf)" "pres I (lesson_add E who k m lf)" "pres I (module_delete E who k m)" "pres I (lesson_delete E who k m l)"
  unfolding course_modules_def lesson_add_def module_delete_def lesson_delete_def own_module_def Let_def
  by (intro pres_intros)+

lemma desk_pres [pres_intros]: "pres I (desk E who req)"
  by (cases req) (simp_all add: catalog_pres page_pres selling_pres courses_pres)

lemma onboarding_pres [pres_intros]: "pres I (onboarding E who zf)"
  unfolding onboarding_def onboarding_product_def Let_def
  by (intro pres_intros)

lemma seller_pres [pres_intros]:
  "pres I (apply_view E who af)" "pres I (order_confirm_payment E who k)" "pres I (order_reject_payment E who k f)"
  unfolding apply_view_def order_confirm_payment_def order_reject_payment_def Let_def
  by (intro pres_intros)+

end

interpretation ledger: desk_frame ledger_ok "\<lambda>s. (t_wallets s, t_ledger s)"
  by unfold_locales (auto intro!: ledger.payouts_kept)
interpretation history: desk_frame "\<lambda>s. \<exists>M. t_ledger s = L @ M" "\<lambda>s. (t_wallets s, t_ledger s)"
  by unfold_locales (auto intro!: history.payouts_kept)

section \<open>The site\<close>

text \<open>
  An invariant of all that brings no money in, if its tables are written by the money and licence
  services only; and one of the whole site.
\<close>

locale public_frame = desk_frame I view + dashboard_frame I view + console_frame I view + reminders_frame I view + topup_frame I view + licensing_inv I for I view +
  assumes view_suppressions: "view (s\<lparr>t_wa_suppressions := Ws\<rparr>) = view s"
begin

lemma suppressions_pres [pres_intros]: "pres I (modify (\<lambda>s. s\<lparr>t_wa_suppressions := Ww s\<rparr>))"
  by (rule frame_modify) (simp_all add: view_suppressions)

lemma json_text_pres [pres_intros]: "pres I (json_text j)"
  by (cases j) (simp_all add: pres_intros)

lemma process_event_pres [pres_intros]: "pres I (process_event ev d)"
proof -
  have [pres_intros]: "pres I (handle_inbound x)" "pres I (handle_status st x)" for st x
    unfolding handle_inbound_def handle_status_def Let_def by (intro pres_intros)+
  show ?thesis
    unfolding process_event_def by (cases ev) (auto intro!: pres_intros)
qed

lemma poll_pres [pres_intros]: "pres I poll_pending_topups"
  unfolding poll_pending_topups_def poll_step_def recheck_topup_status_def topup_get_def topup_close_pending_def
  by (intro pres_intros frame_modify) (simp_all add: view_topups)

lemma messaging_views_pres [pres_intros]: "pres I (kirimchat_webhook E headers raw)" "pres I (unsubscribe E token sc)"
  unfolding kirimchat_webhook_def verify_signature_def compare_digest_def unsubscribe_def read_token_def Let_def
  by (intro pres_intros)+

end

locale site_frame = public_frame I view + payments_frame I view + console_inv I for I view

section \<open>Invariants of the site\<close>

text \<open>Spending alone.\<close>

interpretation spent: provision_frame "only_spent L" t_ledger by unfold_locales auto
interpretation spent: order_frame "only_spent L" t_ledger by unfold_locales auto
interpretation spent: subs_frame "only_spent L" t_ledger by unfold_locales auto
interpretation spent: topup_frame "only_spent L" t_ledger by unfold_locales auto
interpretation spent: completion_frame "only_spent L" t_ledger by unfold_locales auto
interpretation spent: checkout_frame "only_spent L" t_ledger by unfold_locales auto
interpretation spent: cart_frame "only_spent L" t_ledger by unfold_locales auto
interpretation spent: messaging_frame "only_spent L" t_ledger by unfold_locales auto
interpretation spent: dashboard_base "only_spent L" t_ledger by unfold_locales auto
interpretation spent: licensing_frame "only_spent L" t_ledger by unfold_locales auto
interpretation spent_mail: reminders_frame "only_spent L" t_ledger by unfold_locales auto

lemma refund_request_spent: "pres (only_spent L) (refund_request_view who p post)"
  unfolding refund_request_view_def my_paid_order_def refund_create_def Let_def
  by (intro pres_intros spent.frame_modify; simp)

interpretation spent: public_frame "only_spent L" t_ledger
  by unfold_locales (auto intro!: refund_request_spent spent.deactivate_keeps spent.payouts_kept)

text \<open>The ledger.\<close>

interpretation ledger: site_frame ledger_ok "\<lambda>s. (t_wallets s, t_ledger s)"
  by unfold_locales auto
interpretation history: site_frame "\<lambda>s. \<exists>M. t_ledger s = L @ M" "\<lambda>s. (t_wallets s, t_ledger s)"
  by unfold_locales auto

text \<open>The seats of licences: a customer's request may free one.\<close>

interpretation seats: order_frame seats_ok "\<lambda>s. (t_licenses s, t_installations s)" by unfold_locales auto
interpretation seats: subs_frame seats_ok "\<lambda>s. (t_licenses s, t_installations s)" by unfold_locales auto
interpretation seats: topup_frame seats_ok "\<lambda>s. (t_licenses s, t_installations s)" by unfold_locales auto
interpretation seats: completion_frame seats_ok "\<lambda>s. (t_licenses s, t_installations s)" by unfold_locales auto
interpretation seats: checkout_frame seats_ok "\<lambda>s. (t_licenses s, t_installations s)" by unfold_locales auto
interpretation seats: cart_frame seats_ok "\<lambda>s. (t_licenses s, t_installations s)" by unfold_locales auto
interpretation seats: payments_frame seats_ok "\<lambda>s. (t_licenses s, t_installations s)" by unfold_locales auto
interpretation seats: messaging_frame seats_ok "\<lambda>s. (t_licenses s, t_installations s)" by unfold_locales auto
interpretation seats: dashboard_base seats_ok "\<lambda>s. (t_licenses s, t_installations s)" by unfold_locales auto

lemma deactivate_seats: "pres seats_ok (modify (\<lambda>s. s\<lparr>t_installations := upd_by in_pk k
   (\<lambda>r. r\<lparr>in_status := Installation_DEACTIVATED\<rparr>) (t_installations s)\<rparr>))"
  by (rule presI) (simp add: run_simps upd_by_where seats_ok_deactivate)

lemma dashboard_seats: "pres seats_ok (refund_request_view who p post)" "pres seats_ok (deactivate_device who k)"
  unfolding refund_request_view_def my_paid_order_def refund_create_def deactivate_device_def Let_def
  by (intro pres_intros deactivate_seats seats.frame_modify; simp)+

interpretation seats: public_frame seats_ok "\<lambda>s. (t_licenses s, t_installations s)"
  by unfold_locales (auto intro!: dashboard_seats seats.payouts_kept)
interpretation seats: site_frame seats_ok "\<lambda>s. (t_licenses s, t_installations s)" by unfold_locales

interpretation lines: messaging_frame carts_ok "\<lambda>s. (t_carts s, t_cart_items s)" by unfold_locales auto
interpretation lines: dashboard_base carts_ok "\<lambda>s. (t_carts s, t_cart_items s)" by unfold_locales auto

lemma refund_request_lines: "pres carts_ok (refund_request_view who p post)"
  unfolding refund_request_view_def my_paid_order_def refund_create_def Let_def
  by (intro pres_intros lines.frame_modify; simp)

interpretation lines: public_frame carts_ok "\<lambda>s. (t_carts s, t_cart_items s)"
  by unfold_locales (auto intro!: refund_request_lines lines.deactivate_keeps lines.payouts_kept)
interpretation lines: site_frame carts_ok "\<lambda>s. (t_carts s, t_cart_items s)" by unfold_locales

text \<open>The payouts: a seller adds one, the back office moves them.\<close>

interpretation payouts: wallet_frame "\<lambda>s. payouts_settled old (t_payouts s)" t_payouts by unfold_locales auto
interpretation payouts: provision_frame "\<lambda>s. payouts_settled old (t_payouts s)" t_payouts by unfold_locales auto
interpretation payouts: order_frame "\<lambda>s. payouts_settled old (t_payouts s)" t_payouts by unfold_locales auto
interpretation payouts: subs_frame "\<lambda>s. payouts_settled old (t_payouts s)" t_payouts by unfold_locales auto
interpretation payouts: topup_frame "\<lambda>s. payouts_settled old (t_payouts s)" t_payouts by unfold_locales auto
interpretation payouts: completion_frame "\<lambda>s. payouts_settled old (t_payouts s)" t_payouts by unfold_locales auto
interpretation payouts: checkout_frame "\<lambda>s. payouts_settled old (t_payouts s)" t_payouts by unfold_locales auto
interpretation payouts: cart_frame "\<lambda>s. payouts_settled old (t_payouts s)" t_payouts by unfold_locales auto
interpretation payouts: payments_frame "\<lambda>s. payouts_settled old (t_payouts s)" t_payouts by unfold_locales auto
interpretation payouts: messaging_frame "\<lambda>s. payouts_settled old (t_payouts s)" t_payouts by unfold_locales auto
interpretation payouts: dashboard_base "\<lambda>s. payouts_settled old (t_payouts s)" t_payouts by unfold_locales auto
interpretation payouts: licensing_frame "\<lambda>s. payouts_settled old (t_payouts s)" t_payouts by unfold_locales auto
interpretation payouts_mail: reminders_frame "\<lambda>s. payouts_settled old (t_payouts s)" t_payouts by unfold_locales auto

lemma refund_request_settled: "pres (\<lambda>s. payouts_settled old (t_payouts s)) (refund_request_view who p post)"
  unfolding refund_request_view_def my_paid_order_def refund_create_def Let_def
  by (intro pres_intros payouts.frame_modify; simp)

interpretation payouts: public_frame "\<lambda>s. payouts_settled old (t_payouts s)" t_payouts
  by unfold_locales (auto intro!: refund_request_settled payouts.deactivate_keeps payout_create_settles back_office_settles)
interpretation payouts: site_frame "\<lambda>s. payouts_settled old (t_payouts s)" t_payouts by unfold_locales

end
