(* ===== verification/Tasks.thy ===== *)
theory Tasks
  imports Storefront Reminders
begin

text \<open>
  The Celery tasks around the services: the three subscription jobs (\<open>billing/tasks.py\<close>) and the two mails
  in HTML (\<open>notifications/tasks.py\<close>).  A task that fails asks for a retry; \<open>n\<close> counts those it had.
\<close>

section \<open>Subscription jobs\<close>

definition renew_subscriptions :: "env \<Rightarrow> nat \<Rightarrow> unit prog" where
  "renew_subscriptions E n = try_except (process_due_renewals E) (\<lambda>_. True) (retry E n) (\<lambda>_. ret ())"

definition cancel_expired_subscriptions :: "env \<Rightarrow> nat \<Rightarrow> unit prog" where
  "cancel_expired_subscriptions E n = try_except (process_expired_non_renewal_subs E) (\<lambda>_. True) (retry E n) (\<lambda>_. ret ())"

definition expire_grace_subscriptions :: "env \<Rightarrow> nat \<Rightarrow> unit prog" where
  "expire_grace_subscriptions E n = try_except (process_grace_expirations E) (\<lambda>_. True) (retry E n) (\<lambda>_. ret ())"

section \<open>Mails\<close>

text \<open>
  The values the templates show: the order with the link to its receipt, and its grants; the invoice
  attached to the mail when it can be rendered is left out.
\<close>

definition mail_or_raise :: "env \<Rightarrow> string \<Rightarrow> wording \<Rightarrow> unit prog" where
  "mail_or_raise E to_email text = check (send_mail E to_email text) (SendError ''smtp'')"

definition deliver_order_confirmation_email :: "env \<Rightarrow> nat \<Rightarrow> string \<Rightarrow> nat \<Rightarrow> unit prog" where
  "deliver_order_confirmation_email E n to_email order_id =
     bnd (is_suppressed to_email) (\<lambda>suppressed.
     if suppressed then ret ()
     else
       try_except
         (bnd (order_get order_id) (\<lambda>ord.
          bnd (grants_of_order (o_pk ord)) (\<lambda>grants.
          bnd (build_order_receipt_token E ord) (\<lambda>token.
          mail_or_raise E to_email (''emails/order_confirmation.html'',
            [o_public_id ord, ''/orders/'' @ o_public_id ord @ ''/?token='' @ token] @ map (\<lambda>g. str_nat (g_pk g)) grants)))))
         (\<lambda>_. True) (retry E n) ret)"

definition deliver_topup_confirmation_email :: "env \<Rightarrow> nat \<Rightarrow> string \<Rightarrow> int \<Rightarrow> int \<Rightarrow> nat \<Rightarrow> unit prog" where
  "deliver_topup_confirmation_email E n to_email amount bonus customer_id =
     bnd (is_suppressed to_email) (\<lambda>suppressed.
     if suppressed then ret ()
     else
       try_except
         (bnd (gets (\<lambda>s. find_by c_pk customer_id (t_customers s))) (\<lambda>customer.
          bnd (case customer of
                 None \<Rightarrow> ret []
               | Some c \<Rightarrow> bnd (customer_wallet (c_pk c)) (\<lambda>w. ret [str_int (w_balance w)])) (\<lambda>balance_after.
          mail_or_raise E to_email (''emails/topup_confirmation.html'', [str_int amount, str_int bonus] @ balance_after))))
         (\<lambda>_. True) (retry E n) ret)"

section \<open>The queue\<close>

text \<open>A worker takes an entry of the queue; the delay of a WhatsApp message is the broker's.\<close>

fun run_queued :: "env \<Rightarrow> nat \<Rightarrow> queued \<Rightarrow> unit prog" where
  "run_queued E n (Deliver_whatsapp to_number text delivery_id template delay) = deliver_whatsapp E n to_number text delivery_id template"
| "run_queued E n (Deliver_email to_email text) = deliver_email E n to_email text"
| "run_queued E n (Deliver_order_confirmation_email to_email order_id) = deliver_order_confirmation_email E n to_email order_id"
| "run_queued E n (Deliver_topup_confirmation_email to_email amount bonus cust) = deliver_topup_confirmation_email E n to_email amount bonus cust"

end
