(* ===== verification/Listing.thy ===== *)
theory Listing
  imports Web "HOL-Library.Sublist"
begin

text \<open>
  What the listing pages share: query sets newest first, their first row, the case-insensitive filter,
  and Django's \<open>Paginator\<close> as its documentation describes it.  Rows are in order of creation, so rows
  shown newest first are reversed.
\<close>

section \<open>Queries\<close>

definition newest_first :: "('a \<Rightarrow> bool) \<Rightarrow> 'a list \<Rightarrow> 'a list" where
  "newest_first p rows = rev (filter p rows)"

text \<open>\<open>.first()\<close>\<close>

definition first_of :: "'a list \<Rightarrow> 'a option" where
  "first_of xs = (case xs of [] \<Rightarrow> None | x # _ \<Rightarrow> Some x)"

text \<open>\<open>__icontains\<close>: the text contains the query, whatever the case.\<close>

definition icontains :: "string \<Rightarrow> string \<Rightarrow> bool" where
  "icontains query text = sublist (lower query) (lower text)"

section \<open>Values of columns\<close>

definition order_status_value :: "order_status \<Rightarrow> string" where
  "order_status_value st = (case st of Order_PENDING \<Rightarrow> ''pending'' | Order_PAID \<Rightarrow> ''paid'' | Order_FAILED \<Rightarrow> ''failed'' | Order_REFUNDED \<Rightarrow> ''refunded'')"

definition topup_status_value :: "topup_status \<Rightarrow> string" where
  "topup_status_value st = (case st of TopUp_PENDING \<Rightarrow> ''pending'' | TopUp_PAID \<Rightarrow> ''paid'' | TopUp_EXPIRED \<Rightarrow> ''expired'' | TopUp_FAILED \<Rightarrow> ''failed'')"

definition customer_email :: "nat \<Rightarrow> db \<Rightarrow> string" where
  "customer_email k s = (case find_by c_pk k (t_customers s) of None \<Rightarrow> [] | Some c \<Rightarrow> c_email c)"

text \<open>\<open>str(plan)\<close>\<close>

definition plan_label :: "nat \<Rightarrow> db \<Rightarrow> string" where
  "plan_label k s =
     (case find_by pl_pk k (t_plans s) of
        None \<Rightarrow> []
      | Some pl \<Rightarrow> (case find_by pr_pk (pl_product pl) (t_products s) of None \<Rightarrow> [] | Some pr \<Rightarrow> pr_name pr) @ '' / '' @ pl_name pl)"

definition sub_status_value :: "sub_status \<Rightarrow> string" where
  "sub_status_value st = (case st of Sub_ACTIVE \<Rightarrow> ''active'' | Sub_GRACE \<Rightarrow> ''grace'' | Sub_SUSPENDED \<Rightarrow> ''suspended'' | Sub_CANCELLED \<Rightarrow> ''cancelled'')"

section \<open>Pages of a list\<close>

text \<open>
  \<open>Paginator(rows, per).get_page(number)\<close>: the first page for what is not a number, the last page
  for a number out of range.  \<open>given\<close> is \<open>request.GET.get("page")\<close>.
\<close>

record 'a paged =
  pg_rows :: "'a list"
  pg_number :: int
  pg_total :: int

definition num_pages :: "nat \<Rightarrow> 'a list \<Rightarrow> int" where
  "num_pages per rows = int ((max 1 (length rows) + per - 1) div per)"

definition page_number :: "int \<Rightarrow> string option \<Rightarrow> int" where
  "page_number last_page given =
     (case given of
        None \<Rightarrow> 1
      | Some t \<Rightarrow> (case py_int t of None \<Rightarrow> 1 | Some n \<Rightarrow> if n < 1 \<or> last_page < n then last_page else n))"

definition get_page :: "nat \<Rightarrow> 'a list \<Rightarrow> string option \<Rightarrow> 'a paged" where
  "get_page per rows given =
     (let last_page = num_pages per rows; n = page_number last_page given
      in \<lparr>pg_rows = take per (drop (nat (n - 1) * per) rows), pg_number = n, pg_total = last_page\<rparr>)"

section \<open>Rows of one owner\<close>

lemma filter_agree:
  assumes "filter a xs = filter b ys" and "\<And>r. r \<in> set xs \<Longrightarrow> p r \<Longrightarrow> a r" and "\<And>r. r \<in> set ys \<Longrightarrow> p r \<Longrightarrow> b r"
  shows "filter p xs = filter p ys"
proof -
  have "filter p xs = filter p (filter a xs)" using assms(2) by (auto simp: filter_filter intro!: filter_cong)
  also have "\<dots> = filter p ys" using assms(1,3) by (auto simp: filter_filter intro!: filter_cong)
  finally show ?thesis .
qed

lemma find_filter: "find p xs = first_of (filter p xs)"
  by (induction xs) (auto simp: first_of_def)

lemma find_agree:
  assumes "filter a xs = filter b ys" and "\<And>r. r \<in> set xs \<Longrightarrow> p r \<Longrightarrow> a r" and "\<And>r. r \<in> set ys \<Longrightarrow> p r \<Longrightarrow> b r"
  shows "find p xs = find p ys"
  using filter_agree [OF assms] by (simp add: find_filter)

lemma ex_agree:
  assumes "filter a xs = filter b ys" and "\<And>r. p r \<Longrightarrow> a r" and "\<And>r. p r \<Longrightarrow> b r"
  shows "(\<exists>r \<in> set xs. p r) = (\<exists>r \<in> set ys. p r)"
  using arg_cong [OF assms(1), of set] assms(2,3) by (auto simp: set_eq_iff)

section \<open>Databases a page cannot tell apart\<close>

text \<open>An action sees two databases alike: it gives the same result and writes neither.\<close>

definition seen_alike :: "db \<Rightarrow> db \<Rightarrow> 'a prog \<Rightarrow> bool" where
  "seen_alike s t m = (fst (m s) = fst (m t) \<and> snd (m s) = s \<and> snd (m t) = t)"

lemma seen_alike_basic [intro, simp]: "seen_alike s t (ret x)" "seen_alike s t (raise e)" "seen_alike s t (or_raise v e)"
  by (simp_all add: seen_alike_def run_simps split: option.split)

lemma seen_alike_gets: "f s = f t \<Longrightarrow> seen_alike s t (gets f)"
  by (simp add: seen_alike_def run_simps)

lemma seen_alike_bnd: "seen_alike s t m \<Longrightarrow> (\<And>x. fst (m t) = Inr x \<Longrightarrow> seen_alike s t (f x)) \<Longrightarrow> seen_alike s t (bnd m f)"
  by (cases "m s"; cases "m t") (auto simp: seen_alike_def run_simps split: sum.split)

lemma seen_alike_map_m: "(\<And>x. x \<in> set xs \<Longrightarrow> seen_alike s t (f x)) \<Longrightarrow> seen_alike s t (map_m f xs)"
  by (induction xs) (auto intro!: seen_alike_bnd)

section \<open>All pages together\<close>

lemma digits_fixed:
  assumes "ds \<noteq> []" and "\<forall>c \<in> set ds. is_digit c"
  shows "strip ds = ds" "digit_groups ds" "filter is_digit ds = ds" "take 1 ds \<noteq> ''-''" "take 1 ds \<noteq> ''+''"
proof -
  have space: "\<not> is_space c" if "is_digit c" for c using that by (auto simp: is_space_def is_digit_def)
  then have "dropWhile is_space ds = ds" "dropWhile is_space (rev ds) = rev ds"
    using assms by (auto simp: dropWhile_eq_self_iff hd_rev space)
  then show "strip ds = ds" by (simp add: strip_def)
  show "digit_groups ds" using assms by (induction ds rule: digit_groups.induct) (auto simp: is_digit_def)
  show "filter is_digit ds = ds" using assms(2) by (simp add: filter_id_conv)
  show "take 1 ds \<noteq> ''-''" "take 1 ds \<noteq> ''+''" using assms by (cases ds; auto simp: is_digit_def)+
qed

lemma py_int_str_nat: "py_int (str_nat n) = Some (int n)"
proof -
  have ds: "str_nat n \<noteq> []" "\<forall>c \<in> set (str_nat n). is_digit c" by (auto dest: str_nat_digits)
  show ?thesis unfolding py_int_def Let_def using digits_fixed [OF ds] by simp
qed

lemma pages_partition:
  assumes "0 < per"
  shows "concat (map (\<lambda>i. take per (drop (i * per) xs)) [0..<n]) = take (n * per) xs"
  by (induction n) (auto simp: take_add add.commute [of per])

lemma all_pages:
  assumes "0 < per"
  shows "concat (map (\<lambda>i. pg_rows (get_page per xs (Some (str_nat i)))) [1..<Suc (nat (num_pages per xs))]) = xs"
proof -
  let ?n = "nat (num_pages per xs)"
  have n: "?n = (max 1 (length xs) + per - 1) div per" by (simp add: num_pages_def)
  have "length xs \<le> ?n * per"
    using div_mult_mod_eq [of "max 1 (length xs) + per - 1" per] mod_less_divisor [OF assms, of "max 1 (length xs) + per - 1"] assms
    unfolding n by linarith
  have page: "pg_rows (get_page per xs (Some (str_nat (Suc i)))) = take per (drop (i * per) xs)" if "i < ?n" for i
  proof -
    have "1 + int i \<le> num_pages per xs" using that by linarith
    then show ?thesis by (simp add: get_page_def page_number_def py_int_str_nat Let_def)
  qed
  have "map (\<lambda>i. pg_rows (get_page per xs (Some (str_nat i)))) [1..<Suc ?n] = map (\<lambda>i. take per (drop (i * per) xs)) [0..<?n]"
    by (rule nth_equalityI) (simp_all add: page del: upt_Suc)
  with pages_partition [OF assms, of xs ?n] \<open>length xs \<le> ?n * per\<close> show ?thesis by simp
qed

end
