(* ===== verification/Market.thy ===== *)
theory Market
  imports Storefront Listing
begin

text \<open>
  What the public shop shows (\<open>storefront/views.py\<close>, \<open>catalog/api.py\<close>, \<open>core/templatetags/money.py\<close>): the
  marketplace, the contents of store and product pages, the receipt, the plans of the API and what the
  frame of every page shows.  Pages that record an event are the model of \<open>Storefront\<close>; here are their
  contents.  \<open>description\<close> gives the text of a product, a column the model leaves out.
\<close>

section \<open>Discovery\<close>

text \<open>\<open>seller__is_active=True, seller__is_approved=True\<close>\<close>

definition trading :: "seller \<Rightarrow> bool" where
  "trading x = (sel_active x \<and> sel_approved x)"

definition seller_of :: "product \<Rightarrow> db \<Rightarrow> seller option" where
  "seller_of pr s = (case pr_seller pr of None \<Rightarrow> None | Some k \<Rightarrow> find_by sel_pk k (t_sellers s))"

definition offered :: "product \<Rightarrow> db \<Rightarrow> bool" where
  "offered pr s = (pr_visibility pr = Visibility_PUBLIC \<and> (case seller_of pr s of None \<Rightarrow> False | Some x \<Rightarrow> trading x))"

text \<open>The prefetched plans of a card, cheapest first.\<close>

definition card_plans :: "product \<Rightarrow> db \<Rightarrow> plan list" where
  "card_plans pr s = sort_key pl_price (filter (\<lambda>pl. pl_product pl = pr_pk pr \<and> pl_active pl) (t_plans s))"

definition paid_orders_of :: "nat \<Rightarrow> db \<Rightarrow> nat" where
  "paid_orders_of k s =
     length (filter (\<lambda>r. o_status r = Order_PAID \<and> (\<exists>pl \<in> set (t_plans s). pl_pk pl = o_plan r \<and> pl_product pl = k)) (t_orders s))"

definition public_products :: "seller \<Rightarrow> db \<Rightarrow> nat" where
  "public_products x s = length (filter (\<lambda>pr. pr_seller pr = Some (sel_pk x) \<and> pr_visibility pr = Visibility_PUBLIC) (t_products s))"

record landing_context =
  lc_trending :: "(product \<times> plan list) list"
  lc_sellers :: "(seller \<times> nat) list"
  lc_testimonials :: "review list"

definition trending_products :: "db \<Rightarrow> product list" where
  "trending_products s = take 8 (sort_key (\<lambda>pr. - int (paid_orders_of (pr_pk pr) s)) (newest_first (\<lambda>pr. offered pr s) (t_products s)))"

definition featured_sellers :: "db \<Rightarrow> (seller \<times> nat) list" where
  "featured_sellers s = take 8 (sort_key (\<lambda>(_, n). - int n)
     (filter (\<lambda>(_, n). 0 < n) (map (\<lambda>x. (x, public_products x s)) (newest_first trading (t_sellers s)))))"

definition testimonials :: "db \<Rightarrow> review list" where
  "testimonials s = take 6 (newest_first (\<lambda>r. rv_published r \<and> 4 \<le> rv_rating r
     \<and> (case find_by pr_pk (rv_product r) (t_products s) of None \<Rightarrow> False | Some pr \<Rightarrow> pr_visibility pr = Visibility_PUBLIC)) (t_reviews s))"

definition landing :: "landing_context prog" where
  "landing =
     bnd (gets (\<lambda>s. \<lparr>lc_trending = map (\<lambda>pr. (pr, card_plans pr s)) (trending_products s),
        lc_sellers = featured_sellers s, lc_testimonials = testimonials s\<rparr>)) (\<lambda>c.
     bnd (page_event ''page_view'' None None) (\<lambda>_. ret c))"

definition search_matches :: "(product \<Rightarrow> string) \<Rightarrow> string \<Rightarrow> product \<Rightarrow> db \<Rightarrow> bool" where
  "search_matches description query pr s =
     (icontains query (pr_name pr) \<or> icontains query (description pr)
      \<or> (case seller_of pr s of None \<Rightarrow> False | Some x \<Rightarrow> icontains query (sel_name x)))"

definition search :: "(product \<Rightarrow> string) \<Rightarrow> string \<Rightarrow> (product \<times> plan list) list prog" where
  "search description q =
     (let query = strip q
      in gets (\<lambda>s. if query = [] then []
           else map (\<lambda>pr. (pr, card_plans pr s)) (newest_first (\<lambda>pr. offered pr s \<and> search_matches description query pr s) (t_products s))))"

section \<open>Store and product pages\<close>

text \<open>The visible blocks of a store page in their order, and the paid orders of the products on them.\<close>

definition store_blocks :: "nat \<Rightarrow> db \<Rightarrow> block list" where
  "store_blocks page s = sort_key bl_position (filter (\<lambda>b. bl_page b = page \<and> bl_visible b) (t_blocks s))"

definition sold_counts :: "block list \<Rightarrow> db \<Rightarrow> (nat \<times> nat) list" where
  "sold_counts blocks s =
     filter (\<lambda>(_, n). 0 < n) (map (\<lambda>k. (k, paid_orders_of k s)) (remdups (concat (map (\<lambda>b. case bl_product b of None \<Rightarrow> [] | Some k \<Rightarrow> [k]) blocks))))"

record product_context =
  pc_product :: product
  pc_plans :: "plan list"
  pc_sold :: nat
  pc_reviews :: "review list"
  pc_single :: "plan option"
  pc_cheapest :: int

definition shown_plans :: "product \<Rightarrow> db \<Rightarrow> plan list" where
  "shown_plans pr s = sort_key pl_sort (sort_key pl_price (filter (\<lambda>pl. pl_product pl = pr_pk pr \<and> pl_active pl) (t_plans s)))"

definition product_context_of :: "product \<Rightarrow> db \<Rightarrow> product_context" where
  "product_context_of pr s =
     (let plans = shown_plans pr s
      in \<lparr>pc_product = pr, pc_plans = plans, pc_sold = paid_orders_of (pr_pk pr) s,
          pc_reviews = take 10 (newest_first (\<lambda>r. rv_product r = pr_pk pr \<and> rv_published r) (t_reviews s)),
          pc_single = (case plans of [pl] \<Rightarrow> Some pl | _ \<Rightarrow> None),
          pc_cheapest = (if plans = [] then 0 else Min (pl_price ` set plans))\<rparr>)"

text \<open>\<open>render_product_quotation_pdf\<close>: \<open>pdf\<close> stands for the template and the PDF library.\<close>

definition product_quotation_pdf :: "(product \<Rightarrow> plan list \<Rightarrow> string option) \<Rightarrow> string \<Rightarrow> string prog" where
  "product_quotation_pdf pdf slug =
     bnd (visible_product slug) (\<lambda>pr.
     bnd (gets (shown_plans pr)) (\<lambda>plans.
     or_raise (pdf pr plans) Http404))"

text \<open>\<open>png\<close> reads the stored image and writes it as PNG, \<open>None\<close> where it cannot be read.\<close>

definition qris_download :: "(string \<Rightarrow> string option) \<Rightarrow> string \<Rightarrow> string prog" where
  "qris_download png slug =
     bnd (or_404 (\<lambda>s. find_by sel_slug slug (t_sellers s))) (\<lambda>x.
     bnd (check (qris_ready x) Http404) (\<lambda>_.
     or_raise (case sel_qris_image x of None \<Rightarrow> None | Some f \<Rightarrow> png f) Http404))"

section \<open>The receipt\<close>

record receipt_context =
  rc_order :: order
  rc_grants :: "grant list"
  rc_dm :: int
  rc_subtotal :: int
  rc_pct :: int
  rc_discount :: int

definition receipt_of :: "order \<Rightarrow> receipt_context prog" where
  "receipt_of ord =
     bnd (gets (\<lambda>s. if o_status ord = Order_PAID then newest_first (\<lambda>g. g_order g = Some (o_pk ord)) (t_grants s) else [])) (\<lambda>grants.
     bnd (plan_get (o_plan ord)) (\<lambda>pl.
     let dm = (if o_multiplier ord = 0 then 1 else o_multiplier ord);
         subtotal = pl_price pl * dm;
         pct = (if dm > 1 then (case map_of (pl_durations pl) (str_int dm) of None \<Rightarrow> 0 | Some d \<Rightarrow> d) else 0)
     in ret \<lparr>rc_order = ord, rc_grants = grants, rc_dm = dm, rc_subtotal = subtotal, rc_pct = pct, rc_discount = subtotal * pct div 100\<rparr>))"

text \<open>\<open>None\<close>: the redirect to the login page.\<close>

definition order_status_page :: "env \<Rightarrow> user option \<Rightarrow> string \<Rightarrow> string \<Rightarrow> receipt_context option prog" where
  "order_status_page E who public_id token =
     bnd (resolve_receipt_order E who public_id token) (\<lambda>found.
     case found of None \<Rightarrow> ret None | Some ord \<Rightarrow> bnd (receipt_of ord) (\<lambda>c. ret (Some c)))"

section \<open>The catalog API\<close>

record api_plan =
  ap_id :: nat
  ap_name :: string
  ap_price :: string
  ap_interval :: string
  ap_seat_limit :: int
  ap_sort_order :: int
  ap_entitlements :: "(string \<times> string) list"
  ap_checkout_url :: string

definition interval_value :: "interval \<Rightarrow> string" where
  "interval_value i = (case i of Interval_NONE \<Rightarrow> ''none'' | Interval_MONTHLY \<Rightarrow> ''monthly'' | Interval_YEARLY \<Rightarrow> ''yearly'')"

text \<open>\<open>{e.key: e.value for e in plan.entitlements.all()}\<close>: by key, the last row of a key counts.\<close>

definition entitlement_dict :: "plan \<Rightarrow> db \<Rightarrow> (string \<times> string) list" where
  "entitlement_dict pl s =
     (let rows = map (\<lambda>e. (en_key e, en_value e)) (filter (\<lambda>e. en_pk e \<in> set (pl_entitlements pl)) (t_entitlements s))
      in map (\<lambda>k. (k, the (map_of (rev rows) k))) (remdups (map fst rows)))"

definition get_product_plans :: "string \<Rightarrow> api_plan list prog" where
  "get_product_plans slug =
     bnd (or_404 (\<lambda>s. find (\<lambda>p. pr_slug p = slug \<and> pr_visibility p = Visibility_PUBLIC) (t_products s))) (\<lambda>pr.
     gets (\<lambda>s. map (\<lambda>pl. \<lparr>ap_id = pl_pk pl, ap_name = pl_name pl, ap_price = str_int (pl_price pl), ap_interval = interval_value (pl_interval pl),
         ap_seat_limit = pl_seat_limit pl, ap_sort_order = pl_sort pl, ap_entitlements = entitlement_dict pl s,
         ap_checkout_url = ''/checkout/'' @ str_nat (pl_pk pl) @ ''/''\<rparr>)
       (sort_key pl_sort (filter (\<lambda>pl. pl_product pl = pr_pk pr) (t_plans s)))))"

section \<open>The frame of every page\<close>

text \<open>Any exception shows a balance of zero.\<close>

definition wallet_balance_tag :: "user option \<Rightarrow> int prog" where
  "wallet_balance_tag who =
     gets (\<lambda>s. case who of None \<Rightarrow> 0
       | Some u \<Rightarrow> (case find_by c_user (u_pk u) (t_customers s) of None \<Rightarrow> 0
           | Some c \<Rightarrow> (case find_by w_customer (c_pk c) (t_wallets s) of None \<Rightarrow> 0 | Some w \<Rightarrow> w_balance w)))"

record surfaces =
  sf_dashboard :: bool
  sf_console :: bool
  sf_seller :: bool
  sf_store_url :: string

text \<open>The link of a store that is not published is its preview, of none the page editor.\<close>

definition user_surfaces :: "user option \<Rightarrow> surfaces option prog" where
  "user_surfaces who =
     (case who of
        None \<Rightarrow> ret None
      | Some u \<Rightarrow>
          gets (\<lambda>s.
            let seller = find (\<lambda>x. sel_user x = Some (u_pk u) \<and> sel_approved x) (t_sellers s);
                url = (case seller of None \<Rightarrow> []
                       | Some x \<Rightarrow> (case find_by sp_seller (Some (sel_pk x)) (t_pages s) of
                             None \<Rightarrow> ''seller:store''
                           | Some p \<Rightarrow> ''/'' @ sp_slug p @ (if sp_published p then ''/'' else ''/?preview=1'')))
            in Some \<lparr>sf_dashboard = (find_by c_user (u_pk u) (t_customers s) \<noteq> None), sf_console = (u_superuser u \<or> u_operator u),
                     sf_seller = (seller \<noteq> None), sf_store_url = url\<rparr>))"

text \<open>The cart of a visitor: the customer's, or the guest's by the session key.\<close>

definition frame_cart :: "visitor \<Rightarrow> db \<Rightarrow> cart option" where
  "frame_cart v s =
     (case vs_user v of
        Some u \<Rightarrow> (case find_by c_user (u_pk u) (t_customers s) of None \<Rightarrow> None | Some c \<Rightarrow> find_by ca_customer (Some (c_pk c)) (t_carts s))
      | None \<Rightarrow>
          (case ss_key (vs_cart v) of
             None \<Rightarrow> None
           | Some key \<Rightarrow> if key = [] then None else find (\<lambda>c. ca_session_key c = key \<and> ca_customer c = None) (t_carts s)))"

definition cart_item_count :: "visitor \<Rightarrow> nat prog" where
  "cart_item_count v = gets (\<lambda>s. case frame_cart v s of None \<Rightarrow> 0 | Some c \<Rightarrow> length (filter (\<lambda>i. ci_cart i = ca_pk c) (t_cart_items s)))"

definition cart_drawer_content :: "visitor \<Rightarrow> (cart_line list \<times> int) prog" where
  "cart_drawer_content v =
     bnd (gets (frame_cart v)) (\<lambda>cart.
     case cart of
       None \<Rightarrow> ret ([], 0)
     | Some c \<Rightarrow>
         try_except (bnd (cart_items_of (ca_pk c)) (map_m compute_cart_line)) (\<lambda>_. True) (\<lambda>_. ret ([], 0))
           (\<lambda>lines. ret (lines, sum_prices lines)))"

section \<open>Only what is offered is found\<close>

lemma set_newest_first [simp]: "set (newest_first p rows) = {r \<in> set rows. p r}"
  by (auto simp: newest_first_def)

lemma set_card_plans: "pl \<in> set (card_plans pr s) \<longleftrightarrow> pl \<in> set (t_plans s) \<and> pl_product pl = pr_pk pr \<and> pl_active pl"
  by (auto simp: card_plans_def)

lemma sorted_take_sort_key: "sorted (map f (take n (sort_key f xs)))"
  unfolding take_map [symmetric] by (intro sorted_wrt_take) simp

lemma trending_offered:
  "length (trending_products s) \<le> 8" "sorted (map (\<lambda>pr. - int (paid_orders_of (pr_pk pr) s)) (trending_products s))"
  "pr \<in> set (trending_products s) \<Longrightarrow> pr \<in> set (t_products s) \<and> offered pr s"
  unfolding trending_products_def by (simp, rule sorted_take_sort_key) (auto dest: in_set_takeD)

lemma featured_trading:
  "length (featured_sellers s) \<le> 8" "t \<in> set (featured_sellers s) \<Longrightarrow> trading (fst t) \<and> snd t = public_products (fst t) s \<and> 0 < snd t"
  unfolding featured_sellers_def by (auto dest!: in_set_takeD)

lemma testimonials_published:
  "r \<in> set (testimonials s) \<Longrightarrow> rv_published r \<and> 4 \<le> rv_rating r
     \<and> (\<exists>pr \<in> set (t_products s). pr_pk pr = rv_product r \<and> pr_visibility pr = Visibility_PUBLIC)"
  unfolding testimonials_def by (drule in_set_takeD) (auto split: option.splits dest: find_by_SomeD)

lemma landing_run: "fst (landing s) = Inr \<lparr>lc_trending = map (\<lambda>pr. (pr, card_plans pr s)) (trending_products s),
    lc_sellers = featured_sellers s, lc_testimonials = testimonials s\<rparr>"
  by (simp add: landing_def page_event_def run_simps)

lemma search_run: "\<exists>found. fst (search description q s) = Inr found \<and> set (map fst found) =
    (if strip q = [] then {} else {pr \<in> set (t_products s). offered pr s \<and> search_matches description (strip q) pr s})"
  by (auto simp: search_def run_simps Let_def image_image)

text \<open>What may be on the marketplace: a public product of a seller who is active and approved.\<close>

definition open_offer :: "product \<Rightarrow> db \<Rightarrow> bool" where
  "open_offer pr s = (pr_visibility pr = Visibility_PUBLIC \<and> (\<exists>x. seller_of pr s = Some x \<and> sel_active x \<and> sel_approved x))"

lemma offered_iff: "offered pr s = open_offer pr s"
  by (simp add: offered_def open_offer_def trading_def split: option.split)


definition market_book :: product where
  "market_book = \<lparr>pr_pk = 3, pr_seller = Some 1, pr_name = ''Buku'', pr_slug = ''buku'', pr_type = Product_ONE_TIME, pr_visibility = Visibility_PUBLIC\<rparr>"

definition market_db :: db where
  "market_db = empty_db\<lparr>
     t_sellers := [\<lparr>sel_pk = 1, sel_user = Some 3, sel_name = ''Toko'', sel_slug = ''toko'', sel_active = True, sel_approved = True,
       sel_onboarded = True, sel_step = Onboarding_PUBLISH, sel_commission_rate = 0, sel_bank_name = [], sel_account_number = [],
       sel_account_name = [], sel_qris_enabled = False, sel_qris_image = None\<rparr>],
     t_products := [market_book, market_book\<lparr>pr_pk := 4, pr_slug := ''buku-2'', pr_visibility := Visibility_DRAFT\<rparr>]\<rparr>"


section \<open>The API names retired plans\<close>

text \<open>
  The plans of the API are all plans of a public product, those no longer sold included; the checkout
  link of such a plan is not found.
\<close>

lemma api_offers_retired_plans:
  assumes "find (\<lambda>p. pr_slug p = slug \<and> pr_visibility p = Visibility_PUBLIC) (t_products s) = Some pr"
    and "pl \<in> set (t_plans s)" and "pl_product pl = pr_pk pr" and "\<not> pl_active pl" and "distinct (map pl_pk (t_plans s))"
  shows "\<exists>plans. get_product_plans slug s = (Inr plans, s) \<and> (''/checkout/'' @ str_nat (pl_pk pl) @ ''/'') \<in> ap_checkout_url ` set plans"
    and "checkout_plan E v (pl_pk pl) post proof_file params path s = (Inl Http404, s)"
proof -
  show "\<exists>plans. get_product_plans slug s = (Inr plans, s) \<and> (''/checkout/'' @ str_nat (pl_pk pl) @ ''/'') \<in> ap_checkout_url ` set plans"
    using assms(1-3) by (auto simp: get_product_plans_def run_simps image_image)
  have "find (\<lambda>r. pl_pk r = pl_pk pl \<and> pl_active r) (t_plans s) = None"
    using assms(2,4,5) by (auto simp: find_None_iff dest: distinct_key)
  then show "checkout_plan E v (pl_pk pl) post proof_file params path s = (Inl Http404, s)"
    by (simp add: checkout_plan_def run_simps)
qed

end
