(* ===== verification/Account_Pages.thy ===== *)
theory Account_Pages
  imports Dashboard Listing
begin

text \<open>
  What the customer dashboard shows (\<open>dashboard/views.py\<close>): each listing page as the context it hands
  to its template.  Rows shown newest first are in reverse order of creation.  A page of a signed-in
  user is \<open>Some\<close> of its context, \<open>None\<close> is the redirect to the login page.
\<close>

section \<open>Helpers\<close>

definition account_page :: "user option \<Rightarrow> (user \<Rightarrow> customer \<Rightarrow> 'a prog) \<Rightarrow> 'a option prog" where
  "account_page request_user view =
     (case request_user of
        None \<Rightarrow> ret None
      | Some u \<Rightarrow> bnd (get_or_create_customer u) (\<lambda>c. bnd (view u c) (\<lambda>x. ret (Some x))))"

definition ledger_page_size :: nat where
  "ledger_page_size = 20"

section \<open>The pages\<close>

datatype account_context =
    Home_page wallet "(subscription \<times> int \<times> int) option" "subscription list" "grant list" "order list"
  | Wallet_page wallet "ledger_entry paged" "topup list" "int option"
  | Ledger_rows "ledger_entry paged"
  | Products_page "license list" "grant list"
  | Devices_page "installation list"
  | Subscriptions_page wallet "(subscription \<times> int \<times> order option \<times> license option) list"
  | Invoices_page "order list" "topup list"
  | Invoice_page order string string "license option"
  | Invoice_file string
  | Support_page string
  | Profile_page bool string
  | Course_page product "(course_module \<times> lesson list) list" "nat list" nat nat
  | Moved string

definition home :: "customer \<Rightarrow> account_context prog" where
  "home c =
     bnd (customer_wallet (c_pk c)) (\<lambda>w.
     bnd (renewal_forecast (c_pk c)) (\<lambda>forecast.
     gets (\<lambda>s. Home_page w forecast
       (take 5 (sort_key sub_period_end (filter (\<lambda>r. sub_customer r = c_pk c \<and> sub_status r \<noteq> Sub_CANCELLED) (t_subs s))))
       (take 5 (newest_first (\<lambda>g. g_customer g = c_pk c) (t_grants s)))
       (newest_first (\<lambda>r. o_customer r = c_pk c \<and> o_status r = Order_PENDING) (t_orders s)))))"

definition ledger_rows :: "wallet \<Rightarrow> db \<Rightarrow> ledger_entry list" where
  "ledger_rows w s = newest_first (\<lambda>e. le_wallet e = w_pk w) (t_ledger s)"

definition ledger_partial :: "string option \<Rightarrow> customer \<Rightarrow> account_context prog" where
  "ledger_partial given c =
     bnd (customer_wallet (c_pk c)) (\<lambda>w.
     gets (\<lambda>s. Ledger_rows (get_page ledger_page_size (ledger_rows w s) given)))"

text \<open>\<open>hx\<close>: the request asks for the rows only (header \<open>HX-Request\<close>).\<close>

definition wallet_view :: "bool \<Rightarrow> string option \<Rightarrow> customer \<Rightarrow> account_context prog" where
  "wallet_view hx given c =
     bnd (customer_wallet (c_pk c)) (\<lambda>w.
     bnd (gets (\<lambda>s. get_page ledger_page_size (ledger_rows w s) given)) (\<lambda>page.
     if hx then ret (Ledger_rows page)
     else
       bnd (gets (\<lambda>s. newest_first (\<lambda>r. tu_customer r = c_pk c \<and> tu_status r = TopUp_PENDING) (t_topups s))) (\<lambda>pending.
       bnd (renewal_forecast (c_pk c)) (\<lambda>forecast.
       ret (Wallet_page w page pending (map_option (\<lambda>(_, _, shortfall). shortfall) forecast))))))"

definition products :: "customer \<Rightarrow> account_context prog" where
  "products c = gets (\<lambda>s. Products_page
     (newest_first (\<lambda>l. li_customer l = c_pk c) (t_licenses s))
     (newest_first (\<lambda>g. g_customer g = c_pk c \<and> g_type g \<noteq> ''license_key'') (t_grants s)))"

definition devices :: "customer \<Rightarrow> account_context prog" where
  "devices c = gets (\<lambda>s. Devices_page (newest_first (\<lambda>i. license_owner (in_license i) s = Some (c_pk c)) (t_installations s)))"

text \<open>One row: the missing balance of an active subscription, its latest paid order and its licence.\<close>

definition subscription_row :: "int \<Rightarrow> subscription \<Rightarrow> (subscription \<times> int \<times> order option \<times> license option) prog" where
  "subscription_row balance sub =
     bnd (if sub_status sub = Sub_ACTIVE then bnd (plan_get (sub_plan sub)) (\<lambda>pl. ret (max 0 (pl_price pl - balance))) else ret 0) (\<lambda>shortfall.
     gets (\<lambda>s. (sub, shortfall,
       first_of (newest_first (\<lambda>r. o_subscription r = Some (sub_pk sub) \<and> o_status r = Order_PAID) (t_orders s)),
       first_of (newest_first (\<lambda>l. li_sub l = Some (sub_pk sub)) (t_licenses s)))))"

definition subscriptions :: "customer \<Rightarrow> account_context prog" where
  "subscriptions c =
     bnd (customer_wallet (c_pk c)) (\<lambda>w.
     bnd (gets (\<lambda>s. sort_key (\<lambda>r. - sub_period_end r) (filter (\<lambda>r. sub_customer r = c_pk c) (t_subs s)))) (\<lambda>subs.
     bnd (map_m (subscription_row (w_balance w)) subs) (\<lambda>rows.
     ret (Subscriptions_page w rows))))"

definition invoices :: "customer \<Rightarrow> account_context prog" where
  "invoices c = gets (\<lambda>s. Invoices_page
     (newest_first (\<lambda>r. o_customer r = c_pk c \<and> o_status r = Order_PAID) (t_orders s))
     (newest_first (\<lambda>r. tu_customer r = c_pk c \<and> tu_status r = TopUp_PAID) (t_topups s)))"

text \<open>The licence whose grant is of the order\<close>

definition order_license :: "nat \<Rightarrow> nat \<Rightarrow> db \<Rightarrow> license option" where
  "order_license cust ord s = first_of (newest_first (\<lambda>l. li_customer l = cust
      \<and> (\<exists>g \<in> set (t_grants s). li_grant l = Some (g_pk g) \<and> g_order g = Some ord)) (t_licenses s))"

definition invoice_detail :: "string \<Rightarrow> customer \<Rightarrow> account_context prog" where
  "invoice_detail public_id c =
     bnd (my_paid_order public_id c) (\<lambda>ord.
     bnd (setting_get ''INVOICE_NAME'' []) (\<lambda>invoice_name.
     bnd (setting_get ''TAX_ID'' []) (\<lambda>tax_id.
     gets (\<lambda>s. Invoice_page ord invoice_name tax_id (order_license (c_pk c) (o_pk ord) s)))))"

text \<open>
  \<open>render_invoice_pdf\<close>: \<open>pdf\<close> stands for the template and the PDF library; it is \<open>None\<close> where either
  fails.
\<close>

definition render_invoice_pdf :: "(order \<Rightarrow> grant list \<Rightarrow> string option) \<Rightarrow> order \<Rightarrow> grant list option \<Rightarrow> string option prog" where
  "render_invoice_pdf pdf ord given =
     bnd (case given of Some gs \<Rightarrow> ret gs | None \<Rightarrow> gets (\<lambda>s. newest_first (\<lambda>g. g_order g = Some (o_pk ord)) (t_grants s))) (\<lambda>gs.
     ret (pdf ord gs))"

definition invoice_pdf_download :: "(order \<Rightarrow> grant list \<Rightarrow> string option) \<Rightarrow> string \<Rightarrow> customer \<Rightarrow> account_context prog" where
  "invoice_pdf_download pdf public_id c =
     bnd (my_paid_order public_id c) (\<lambda>ord.
     bnd (render_invoice_pdf pdf ord None) (\<lambda>file.
     case file of None \<Rightarrow> raise Http404 | Some bytes \<Rightarrow> if bytes = [] then raise Http404 else ret (Invoice_file bytes)))"

definition support :: "account_context prog" where
  "support = bnd (setting_get ''SUPPORT_WA_NUMBER'' []) (\<lambda>n. ret (Support_page n))"

text \<open>The profile page: is the address verified, and the number a code is out for.\<close>

definition profile_page :: "user \<Rightarrow> customer \<Rightarrow> account_context prog" where
  "profile_page u c = gets (\<lambda>s. Profile_page (u_verified u)
     (case first_of (newest_first (\<lambda>r. ot_customer r = c_pk c \<and> ot_consumed r = None \<and> clock s < ot_expires r) (t_otps s)) of
        None \<Rightarrow> [] | Some r \<Rightarrow> ot_number r))"

section \<open>The course player\<close>

definition product_modules :: "nat \<Rightarrow> db \<Rightarrow> course_module list" where
  "product_modules product_pk s = sort_key cm_sort (filter (\<lambda>m. cm_product m = product_pk) (t_modules s))"

definition module_lessons :: "nat \<Rightarrow> db \<Rightarrow> lesson list" where
  "module_lessons module_pk s = sort_key lm_sort (filter (\<lambda>l. lm_module l = module_pk) (t_lessons s))"

text \<open>The lessons of the product the customer has completed, each once: a Python set.\<close>

definition completed_ids :: "nat \<Rightarrow> nat \<Rightarrow> db \<Rightarrow> nat list" where
  "completed_ids cust product_pk s =
     remdups (map snd (filter (\<lambda>(c, k). c = cust \<and> course_lesson product_pk k s \<noteq> None) (t_progress s)))"

definition course_access :: "nat \<Rightarrow> customer \<Rightarrow> product option prog" where
  "course_access product_pk c =
     bnd (or_404 (\<lambda>s. find_by pr_pk product_pk (t_products s))) (\<lambda>pr.
     gets (\<lambda>s. if \<exists>g \<in> set (t_grants s). g_customer g = c_pk c \<and> g_type g = ''course'' \<and> g_status g = Grant_ACTIVE
            \<and> json_get (g_payload g) ''product_id'' JNull = JInt (int product_pk) then Some pr else None))"

definition course_page :: "nat \<Rightarrow> customer \<Rightarrow> account_context prog" where
  "course_page product_pk c =
     bnd (course_access product_pk c) (\<lambda>access.
     case access of
       None \<Rightarrow> ret (Moved ''dashboard:products'')
     | Some pr \<Rightarrow>
         gets (\<lambda>s.
           let modules = map (\<lambda>m. (m, module_lessons (cm_pk m) s)) (product_modules product_pk s);
               completed = completed_ids (c_pk c) product_pk s
           in Course_page pr modules completed (sum_list (map (length \<circ> snd) modules)) (length completed)))"

section \<open>The pages as a whole\<close>

datatype account_request =
    See_home
  | See_wallet bool "string option"
  | See_ledger "string option"
  | See_products
  | See_devices
  | See_subscriptions
  | See_invoices
  | See_invoice string
  | See_invoice_pdf string
  | See_support
  | See_profile
  | See_course nat

fun account_view :: "(order \<Rightarrow> grant list \<Rightarrow> string option) \<Rightarrow> account_request \<Rightarrow> user \<Rightarrow> customer \<Rightarrow> account_context prog" where
  "account_view pdf See_home u c = home c"
| "account_view pdf (See_wallet hx page) u c = wallet_view hx page c"
| "account_view pdf (See_ledger page) u c = ledger_partial page c"
| "account_view pdf See_products u c = products c"
| "account_view pdf See_devices u c = devices c"
| "account_view pdf See_subscriptions u c = subscriptions c"
| "account_view pdf See_invoices u c = invoices c"
| "account_view pdf (See_invoice k) u c = invoice_detail k c"
| "account_view pdf (See_invoice_pdf k) u c = invoice_pdf_download pdf k c"
| "account_view pdf See_support u c = support"
| "account_view pdf See_profile u c = profile_page u c"
| "account_view pdf (See_course k) u c = course_page k c"

definition account :: "(order \<Rightarrow> grant list \<Rightarrow> string option) \<Rightarrow> user option \<Rightarrow> account_request \<Rightarrow> account_context option prog" where
  "account pdf who req = account_page who (account_view pdf req)"

section \<open>What the pages of a customer depend on\<close>

definition order_of :: "nat \<Rightarrow> db \<Rightarrow> order \<Rightarrow> bool" where
  "order_of c s r = (o_customer r = c \<or> (\<exists>u \<in> set (t_subs s). sub_customer u = c \<and> o_subscription r = Some (sub_pk u)))"

definition license_of :: "nat \<Rightarrow> db \<Rightarrow> license \<Rightarrow> bool" where
  "license_of c s l = (li_customer l = c \<or> (\<exists>u \<in> set (t_subs s). sub_customer u = c \<and> li_sub l = Some (sub_pk u)))"

definition grant_among :: "nat \<Rightarrow> db \<Rightarrow> grant \<Rightarrow> bool" where
  "grant_among c s g = (g_customer g = c \<or> (\<exists>r \<in> set (t_orders s). o_customer r = c \<and> g_order g = Some (o_pk r)))"

text \<open>The rows of one customer.\<close>

definition rows_of :: "nat \<Rightarrow> db \<Rightarrow> _" where
  "rows_of c s =
     (filter (\<lambda>w. w_customer w = c) (t_wallets s),
      filter (\<lambda>e. \<exists>w \<in> set (t_wallets s). w_customer w = c \<and> le_wallet e = w_pk w) (t_ledger s),
      filter (\<lambda>r. sub_customer r = c) (t_subs s), filter (order_of c s) (t_orders s), filter (license_of c s) (t_licenses s),
      filter (grant_among c s) (t_grants s), filter (\<lambda>r. tu_customer r = c) (t_topups s),
      filter (\<lambda>i. license_owner (in_license i) s = Some c) (t_installations s),
      filter (\<lambda>r. ot_customer r = c) (t_otps s), filter (\<lambda>r. fst r = c) (t_progress s))"

text \<open>What everybody sees.\<close>

definition common :: "db \<Rightarrow> _" where
  "common s = (clock s, t_products s, t_plans s, t_settings s, t_modules s, t_lessons s)"

section \<open>Own rows only\<close>

definition same_rows :: "nat \<Rightarrow> db \<Rightarrow> db \<Rightarrow> bool" where
  "same_rows c s t = (rows_of c s = rows_of c t \<and> common s = common t)"

lemma same_rowsD:
  assumes "same_rows c s t"
  shows "clock s = clock t" "t_products s = t_products t" "t_plans s = t_plans t" "t_settings s = t_settings t"
    "t_modules s = t_modules t" "t_lessons s = t_lessons t"
  using assms by (simp_all add: same_rows_def common_def)

lemma same_rows_find:
  assumes "same_rows c s t"
  shows "find_by w_customer c (t_wallets s) = find_by w_customer c (t_wallets t)"
    "find (\<lambda>r. o_public_id r = k \<and> o_customer r = c \<and> o_status r = Order_PAID) (t_orders s)
      = find (\<lambda>r. o_public_id r = k \<and> o_customer r = c \<and> o_status r = Order_PAID) (t_orders t)"
  using assms unfolding same_rows_def rows_of_def find_by_def
  by (auto intro!: find_agree simp: order_of_def)

lemma same_rows_filter:
  assumes "same_rows c s t"
  shows "filter (\<lambda>r. sub_customer r = c) (t_subs s) = filter (\<lambda>r. sub_customer r = c) (t_subs t)"
    "filter (\<lambda>r. sub_customer r = c \<and> ps r) (t_subs s) = filter (\<lambda>r. sub_customer r = c \<and> ps r) (t_subs t)"
    "filter (\<lambda>g. g_customer g = c) (t_grants s) = filter (\<lambda>g. g_customer g = c) (t_grants t)"
    "filter (\<lambda>g. g_customer g = c \<and> pg g) (t_grants s) = filter (\<lambda>g. g_customer g = c \<and> pg g) (t_grants t)"
    "filter (\<lambda>r. o_customer r = c \<and> po r) (t_orders s) = filter (\<lambda>r. o_customer r = c \<and> po r) (t_orders t)"
    "filter (\<lambda>l. li_customer l = c) (t_licenses s) = filter (\<lambda>l. li_customer l = c) (t_licenses t)"
    "filter (\<lambda>l. li_customer l = c \<and> pl l) (t_licenses s) = filter (\<lambda>l. li_customer l = c \<and> pl l) (t_licenses t)"
    "filter (\<lambda>r. tu_customer r = c \<and> pt r) (t_topups s) = filter (\<lambda>r. tu_customer r = c \<and> pt r) (t_topups t)"
    "filter (\<lambda>r. ot_customer r = c \<and> pc r) (t_otps s) = filter (\<lambda>r. ot_customer r = c \<and> pc r) (t_otps t)"
    "filter (\<lambda>i. license_owner (in_license i) s = Some c) (t_installations s) = filter (\<lambda>i. license_owner (in_license i) t = Some c) (t_installations t)"
    "filter (\<lambda>(k, l). k = c \<and> pr l) (t_progress s) = filter (\<lambda>(k, l). k = c \<and> pr l) (t_progress t)"
  using assms unfolding same_rows_def rows_of_def
  by (auto elim!: filter_agree simp: order_of_def license_of_def grant_among_def)

lemma map_m_reads:
  assumes "\<And>x. x \<in> set xs \<Longrightarrow> f x s = (r x, s)" and "\<And>x. x \<in> set xs \<Longrightarrow> f x t = (r x, t)"
  shows "fst (map_m f xs s) = fst (map_m f xs t) \<and> snd (map_m f xs s) = s \<and> snd (map_m f xs t) = t"
  using assms
proof (induction xs)
  case (Cons x xs)
  then show ?case
    by (cases "map_m f xs s"; cases "map_m f xs t"; cases "r x") (auto simp: run_simps split: sum.splits)
qed (simp add: run_simps)

lemma same_rows_ledger:
  assumes "same_rows c s t" and "find_by w_customer c (t_wallets t) = Some w"
  shows "filter (\<lambda>e. le_wallet e = w_pk w) (t_ledger s) = filter (\<lambda>e. le_wallet e = w_pk w) (t_ledger t)"
proof -
  have "find_by w_customer c (t_wallets s) = Some w" using same_rows_find(1) [OF assms(1)] assms(2) by simp
  then show ?thesis
    using assms find_by_SomeD [OF assms(2)] find_by_SomeD [of w_customer c "t_wallets s" w]
    unfolding same_rows_def rows_of_def by (auto elim!: filter_agree)
qed

text \<open>Which rows a row belongs to: through the subscription and through the order.\<close>

lemma same_rows_linked:
  assumes same: "same_rows c s t"
  shows "sub \<in> set (t_subs t) \<Longrightarrow> sub_customer sub = c \<Longrightarrow>
      filter (\<lambda>r. o_subscription r = Some (sub_pk sub) \<and> po r) (t_orders s) = filter (\<lambda>r. o_subscription r = Some (sub_pk sub) \<and> po r) (t_orders t)"
    "sub \<in> set (t_subs t) \<Longrightarrow> sub_customer sub = c \<Longrightarrow>
      filter (\<lambda>l. li_sub l = Some (sub_pk sub)) (t_licenses s) = filter (\<lambda>l. li_sub l = Some (sub_pk sub)) (t_licenses t)"
    "ord \<in> set (t_orders t) \<Longrightarrow> o_customer ord = c \<Longrightarrow>
      filter (\<lambda>g. g_order g = Some (o_pk ord)) (t_grants s) = filter (\<lambda>g. g_order g = Some (o_pk ord)) (t_grants t)"
    "ord \<in> set (t_orders t) \<Longrightarrow> o_customer ord = c \<Longrightarrow>
      (\<exists>g \<in> set (t_grants s). pg g \<and> g_order g = Some (o_pk ord)) = (\<exists>g \<in> set (t_grants t). pg g \<and> g_order g = Some (o_pk ord))"
    "(\<exists>g \<in> set (t_grants s). g_customer g = c \<and> qg g) = (\<exists>g \<in> set (t_grants t). g_customer g = c \<and> qg g)"
proof -
  have subs: "sub \<in> set (t_subs s)" if "sub \<in> set (t_subs t)" "sub_customer sub = c" for sub
    using that arg_cong [OF same_rows_filter(1) [OF same], of set] by auto
  have orders: "ord \<in> set (t_orders s)" if "ord \<in> set (t_orders t)" "o_customer ord = c" for ord
    using that arg_cong [OF same_rows_filter(5) [OF same, of "\<lambda>_. True"], of set] by auto
  have own: "filter (order_of c s) (t_orders s) = filter (order_of c t) (t_orders t)"
    "filter (license_of c s) (t_licenses s) = filter (license_of c t) (t_licenses t)"
    "filter (grant_among c s) (t_grants s) = filter (grant_among c t) (t_grants t)"
    using same by (simp_all add: same_rows_def rows_of_def)
  show "filter (\<lambda>r. o_subscription r = Some (sub_pk sub) \<and> po r) (t_orders s) = filter (\<lambda>r. o_subscription r = Some (sub_pk sub) \<and> po r) (t_orders t)"
    if "sub \<in> set (t_subs t)" "sub_customer sub = c"
    by (rule filter_agree [OF own(1)]) (use that subs in \<open>auto simp: order_of_def\<close>)
  show "filter (\<lambda>l. li_sub l = Some (sub_pk sub)) (t_licenses s) = filter (\<lambda>l. li_sub l = Some (sub_pk sub)) (t_licenses t)"
    if "sub \<in> set (t_subs t)" "sub_customer sub = c"
    by (rule filter_agree [OF own(2)]) (use that subs in \<open>auto simp: license_of_def\<close>)
  show "filter (\<lambda>g. g_order g = Some (o_pk ord)) (t_grants s) = filter (\<lambda>g. g_order g = Some (o_pk ord)) (t_grants t)"
    if "ord \<in> set (t_orders t)" "o_customer ord = c"
    by (rule filter_agree [OF own(3)]) (use that orders in \<open>auto simp: grant_among_def\<close>)
  show "(\<exists>g \<in> set (t_grants s). pg g \<and> g_order g = Some (o_pk ord)) = (\<exists>g \<in> set (t_grants t). pg g \<and> g_order g = Some (o_pk ord))"
    if "ord \<in> set (t_orders t)" "o_customer ord = c"
    by (rule ex_agree [OF own(3)]) (use that orders in \<open>auto simp: grant_among_def\<close>)
  show "(\<exists>g \<in> set (t_grants s). g_customer g = c \<and> qg g) = (\<exists>g \<in> set (t_grants t). g_customer g = c \<and> qg g)"
    by (rule ex_agree [OF own(3)]) (auto simp: grant_among_def)
qed

lemma seen_alike_rows:
  assumes same: "same_rows c s t"
  shows "seen_alike s t (customer_wallet c)" "seen_alike s t (renewal_forecast c)" "seen_alike s t (plan_get k)" "seen_alike s t (setting_get key d)"
    "c_pk x = c \<Longrightarrow> seen_alike s t (my_paid_order p x)"
proof -
  show wallet: "seen_alike s t (customer_wallet c)"
    unfolding customer_wallet_def by (intro seen_alike_bnd seen_alike_gets same_rows_find(1) [OF same] seen_alike_basic)
  show plan: "seen_alike s t (plan_get k)" for k
    unfolding plan_get_def by (intro seen_alike_bnd seen_alike_gets seen_alike_basic) (simp add: same_rowsD [OF same])
  show "seen_alike s t (setting_get key d)"
    unfolding setting_get_def by (intro seen_alike_gets) (simp add: same_rowsD [OF same])
  show "seen_alike s t (my_paid_order p x)" if "c_pk x = c"
    unfolding my_paid_order_def or_404_def that by (intro seen_alike_bnd seen_alike_gets same_rows_find(2) [OF same] seen_alike_basic)
  have subs: "seen_alike s t (gets (\<lambda>s. sort_key sub_period_end (filter (\<lambda>r. sub_customer r = c \<and> sub_status r = Sub_ACTIVE \<and> sub_auto_renew r) (t_subs s))))"
    by (rule seen_alike_gets) (simp add: same_rows_filter(2) [OF same])
  have "seen_alike s t now" unfolding now_def by (intro seen_alike_gets same_rowsD(1) [OF same])
  then show "seen_alike s t (renewal_forecast c)"
    unfolding renewal_forecast_def
    by (intro seen_alike_bnd [OF subs]) (auto split: list.split intro!: seen_alike_bnd plan wallet)
qed

lemma customer_wallet_result: "fst (customer_wallet c t) = Inr w \<Longrightarrow> find_by w_customer c (t_wallets t) = Some w"
  by (auto simp: customer_wallet_def run_simps split: option.splits)

lemma my_paid_order_result: "fst (my_paid_order p c t) = Inr r \<Longrightarrow> r \<in> set (t_orders t) \<and> o_customer r = c_pk c"
  by (auto simp: my_paid_order_def run_simps dest!: find_SomeD split: option.splits)

lemma subscription_row_alike:
  assumes same: "same_rows c s t" and "sub \<in> set (t_subs t)" "sub_customer sub = c"
  shows "seen_alike s t (subscription_row b sub)"
  unfolding subscription_row_def newest_first_def
  by (intro seen_alike_bnd seen_alike_gets)
    (auto simp: same_rows_linked(1,2) [OF assms] intro!: seen_alike_bnd seen_alike_rows [OF same])

lemma wallet_pages_alike:
  assumes same: "same_rows (c_pk c) s t"
  shows "seen_alike s t (home c)" "seen_alike s t (ledger_partial page c)" "seen_alike s t (wallet_view hx page c)"
proof -
  note rows = seen_alike_rows [OF same] and filters = same_rows_filter [OF same]
  have ledger: "seen_alike s t (gets (\<lambda>s. get_page ledger_page_size (ledger_rows w s) page))"
    if "fst (customer_wallet (c_pk c) t) = Inr w" for w
    using same_rows_ledger [OF same customer_wallet_result [OF that]] by (intro seen_alike_gets) (simp add: ledger_rows_def newest_first_def)
  show "seen_alike s t (home c)"
    unfolding home_def newest_first_def by (intro seen_alike_bnd rows seen_alike_gets) (simp add: filters)
  show "seen_alike s t (ledger_partial page c)"
    unfolding ledger_partial_def
    by (intro seen_alike_bnd rows seen_alike_gets)
      (use same_rows_ledger [OF same customer_wallet_result] in \<open>simp add: ledger_rows_def newest_first_def\<close>)
  have "seen_alike s t (gets (\<lambda>s. newest_first (\<lambda>r. tu_customer r = c_pk c \<and> tu_status r = TopUp_PENDING) (t_topups s)))"
    by (rule seen_alike_gets) (simp add: newest_first_def filters)
  then show "seen_alike s t (wallet_view hx page c)"
    unfolding wallet_view_def by (intro seen_alike_bnd rows) (auto intro!: seen_alike_bnd ledger rows)
qed

lemma list_pages_alike:
  assumes same: "same_rows (c_pk c) s t"
  shows "seen_alike s t (products c)" "seen_alike s t (devices c)" "seen_alike s t (invoices c)" "seen_alike s t (profile_page u c)"
    "seen_alike s t support" "seen_alike s t (subscriptions c)"
proof -
  note rows = seen_alike_rows [OF same] and filters = same_rows_filter [OF same]
  show "seen_alike s t (products c)" "seen_alike s t (devices c)" "seen_alike s t (invoices c)"
    unfolding products_def devices_def invoices_def newest_first_def by (intro seen_alike_gets; simp add: filters)+
  show "seen_alike s t (profile_page u c)"
    unfolding profile_page_def newest_first_def by (intro seen_alike_gets) (simp add: filters same_rowsD(1) [OF same])
  show "seen_alike s t support"
    unfolding support_def by (intro seen_alike_bnd rows seen_alike_basic)
  have list: "seen_alike s t (gets (\<lambda>s. sort_key (\<lambda>r. - sub_period_end r) (filter (\<lambda>r. sub_customer r = c_pk c) (t_subs s))))"
    by (rule seen_alike_gets) (simp add: filters)
  have "seen_alike s t (map_m (subscription_row b) subs)"
    if "fst (gets (\<lambda>s. sort_key (\<lambda>r. - sub_period_end r) (filter (\<lambda>r. sub_customer r = c_pk c) (t_subs s))) t) = (Inr subs :: exn + _)" for b subs
    using that by (intro seen_alike_map_m subscription_row_alike [OF same]) (auto simp: run_simps)
  then show "seen_alike s t (subscriptions c)"
    unfolding subscriptions_def by (intro seen_alike_bnd rows list seen_alike_basic)
qed

lemma invoice_pages_alike:
  assumes same: "same_rows (c_pk c) s t"
  shows "seen_alike s t (invoice_detail k c)" "seen_alike s t (invoice_pdf_download pdf k c)" "seen_alike s t (course_page p c)"
proof -
  note rows = seen_alike_rows [OF same] and filters = same_rows_filter [OF same] and linked = same_rows_linked [OF same]
  have license: "order_license (c_pk c) (o_pk r) s = order_license (c_pk c) (o_pk r) t" if "r \<in> set (t_orders t)" "o_customer r = c_pk c" for r
    unfolding order_license_def newest_first_def using linked(4) [OF that] by (simp add: filters)
  show "seen_alike s t (invoice_detail k c)"
    unfolding invoice_detail_def
    by (intro seen_alike_bnd rows refl seen_alike_gets) (simp add: license my_paid_order_result)
  have "seen_alike s t (render_invoice_pdf pdf r None)" if "fst (my_paid_order k c t) = Inr r" for r
    unfolding render_invoice_pdf_def newest_first_def option.case
    using my_paid_order_result [OF that] by (intro seen_alike_bnd seen_alike_gets seen_alike_basic) (simp add: linked(3))
  then show "seen_alike s t (invoice_pdf_download pdf k c)"
    unfolding invoice_pdf_download_def
    by (intro seen_alike_bnd rows refl) (auto split: option.split)
  have "seen_alike s t (course_access p c)"
    unfolding course_access_def or_404_def
    by (intro seen_alike_bnd seen_alike_gets seen_alike_basic) (simp_all add: linked(5) same_rowsD [OF same])
  moreover have "completed_ids (c_pk c) p s = completed_ids (c_pk c) p t"
    by (simp add: completed_ids_def course_lesson_def filters same_rowsD [OF same])
  ultimately show "seen_alike s t (course_page p c)"
    unfolding course_page_def
    by (intro seen_alike_bnd) (auto split: option.split intro!: seen_alike_gets simp: Let_def module_lessons_def product_modules_def same_rowsD [OF same])
qed

lemma account_view_alike:
  assumes "same_rows (c_pk c) s t"
  shows "seen_alike s t (account_view pdf req u c)"
  by (cases req) (simp_all add: wallet_pages_alike [OF assms] list_pages_alike [OF assms] invoice_pages_alike [OF assms])

text \<open>
  C35.  The pages of a customer's dashboard show nothing of anybody else's and write nothing.  Two
  databases that agree on the customer's own rows (the wallet and its ledger, the subscriptions, the
  orders, licences and grants that are the customer's or hang on the customer's subscriptions and
  orders, top-ups, devices, codes, lesson marks) and on what everybody sees (catalog, settings, the
  clock) give the same page or the same refusal, however much the rows of all others differ; and
  the database is the same afterwards.
\<close>

theorem account_pages_own_rows:
  assumes "find_by c_user (u_pk u) (t_customers s) = Some c" and "find_by c_user (u_pk u) (t_customers t) = Some c"
    and "rows_of (c_pk c) s = rows_of (c_pk c) t" and "common s = common t"
  shows "fst (account pdf (Some u) req s) = fst (account pdf (Some u) req t) \<and> snd (account pdf (Some u) req s) = s"
proof -
  have "seen_alike s t (account_view pdf req u c)"
    using assms(3,4) by (intro account_view_alike) (simp add: same_rows_def)
  then have "seen_alike s t (bnd (account_view pdf req u c) (\<lambda>x. ret (Some x)))"
    by (intro seen_alike_bnd seen_alike_basic)
  then show ?thesis
    using assms(1,2) by (simp add: account_def account_page_def get_or_create_customer_def seen_alike_def run_simps)
qed

definition quiet_db :: db where
  "quiet_db = example_dash_db\<lparr>t_wallets := [\<lparr>w_pk = 4, w_customer = 1, w_balance = 500\<rparr>]\<rparr>"

text \<open>The same with the wallet and the money of another customer.\<close>

definition crowded_db :: db where
  "crowded_db = quiet_db\<lparr>t_wallets := t_wallets quiet_db @ [\<lparr>w_pk = 8, w_customer = 2, w_balance = 70000\<rparr>],
     t_ledger := [\<lparr>le_pk = 9, le_wallet = 8, le_type = ''topup'', le_amount = 70000, le_balance_after = 70000, le_ref = ''topup:1'', le_note = [], le_created = 0\<rparr>],
     t_licenses := []\<rparr>"

theorem account_pages_own_rows_witness:
  "fst (account (\<lambda>_ _. None) (Some example_dash_user) (See_wallet False None) quiet_db)
     = fst (account (\<lambda>_ _. None) (Some example_dash_user) (See_wallet False None) crowded_db)
   \<and> snd (account (\<lambda>_ _. None) (Some example_dash_user) (See_wallet False None) quiet_db) = quiet_db"
  by (rule account_pages_own_rows [where c = example_dash_customer])
    (simp_all add: crowded_db_def quiet_db_def example_dash_db_def example_dash_user_def example_dash_customer_def empty_db_def
      rows_of_def common_def license_of_def order_of_def grant_among_def license_owner_def find_by_def)

section \<open>The wallet page adds up\<close>

lemma wallet_sum_filter: "wallet_sum w L = sum_list (map le_amount (filter (\<lambda>e. le_wallet e = w) L))"
  by (simp add: wallet_sum_def)

text \<open>The entries of one wallet, oldest first: each balance is the one before plus its amount.\<close>

lemma trail_of_wallet:
  assumes "trail_ok L" and "E = filter (\<lambda>e. le_wallet e = w) L" and "k < length E"
  shows "le_balance_after (E ! k) = sum_list (map le_amount (take (Suc k) E))"
  using assms
proof (induction L arbitrary: E rule: rev_induct)
  case (snoc e L)
  show ?case
  proof (cases "k < length (filter (\<lambda>e. le_wallet e = w) L)")
    case True
    with snoc.IH [OF _ refl] snoc.prems show ?thesis by (simp add: trail_ok_append nth_append)
  next
    case False
    with snoc.prems have k: "le_wallet e = w" "k = length (filter (\<lambda>e. le_wallet e = w) L)" by (auto split: if_splits)
    then show ?thesis using snoc.prems by (simp add: trail_ok_append wallet_sum_filter)
  qed
qed simp

text \<open>The entries the ledger pages 1, 2, ... of a signed-in user show, in that order.\<close>

definition shown_entries :: "user \<Rightarrow> nat \<Rightarrow> db \<Rightarrow> ledger_entry list" where
  "shown_entries u last_page s = concat (map (\<lambda>i.
     case fst (account (\<lambda>_ _. None) (Some u) (See_ledger (Some (str_nat i))) s) of
       Inr (Some (Ledger_rows page)) \<Rightarrow> pg_rows page | _ \<Rightarrow> []) [1..<Suc last_page])"

lemma shown_entries_eq:
  assumes "find_by c_user (u_pk u) (t_customers s) = Some c" and "find_by w_customer (c_pk c) (t_wallets s) = Some w"
  shows "shown_entries u (nat (num_pages ledger_page_size (ledger_rows w s))) s = ledger_rows w s"
  using assms all_pages [of ledger_page_size "ledger_rows w s"]
  by (simp add: shown_entries_def account_def account_page_def get_or_create_customer_def ledger_partial_def customer_wallet_def run_simps
      ledger_page_size_def del: upt_Suc)

text \<open>
  C36.  The wallet page adds up.  With a sound ledger, the pages 1 to the last of a customer's ledger
  together show every entry of the customer's wallet, newest first and none of another wallet; the
  balance after the newest is the balance the page shows, the balance after each entry is the one
  after the entry below it plus its amount, and the last one starts from zero.
\<close>

theorem wallet_page_adds_up:
  assumes "ledger_ok s" and "find_by c_user (u_pk u) (t_customers s) = Some c" and "find_by w_customer (c_pk c) (t_wallets s) = Some w"
  shows "let rows = shown_entries u (nat (num_pages ledger_page_size (ledger_rows w s))) s in
     rev rows = filter (\<lambda>e. le_wallet e = w_pk w) (t_ledger s)
     \<and> w_balance w = (if rows = [] then 0 else le_balance_after (hd rows))
     \<and> (\<forall>i < length rows. le_balance_after (rows ! i) = (if Suc i < length rows then le_balance_after (rows ! Suc i) else 0) + le_amount (rows ! i))"
proof -
  define E where "E = filter (\<lambda>e. le_wallet e = w_pk w) (t_ledger s)"
  have rows: "shown_entries u (nat (num_pages ledger_page_size (ledger_rows w s))) s = rev E"
    using shown_entries_eq [OF assms(2,3)] by (simp add: ledger_rows_def newest_first_def E_def)
  have after: "le_balance_after (E ! k) = sum_list (map le_amount (take (Suc k) E))" if "k < length E" for k
    using trail_of_wallet [OF _ E_def that] assms(1) by (simp add: ledger_ok_def)
  have "w_balance w = sum_list (map le_amount E)"
    using assms(1) find_by_SomeD [OF assms(3)] by (auto simp: ledger_ok_def wallet_sum_filter E_def)
  then have "w_balance w = (if E = [] then 0 else le_balance_after (last E))"
    using after [of "length E - 1"] by (simp add: last_conv_nth)
  moreover have "le_balance_after (rev E ! i) = (if Suc i < length E then le_balance_after (rev E ! Suc i) else 0) + le_amount (rev E ! i)"
    if i: "i < length E" for i
  proof (cases "Suc i < length E")
    case True
    then obtain k where k: "length E - Suc i = Suc k" by (metis Suc_diff_Suc diff_is_0_eq not_less)
    with True have "length E - Suc (Suc i) = k" "Suc k < length E" by simp_all
    then show ?thesis using True i k after [of "Suc k"] after [of k] by (simp add: rev_nth take_Suc_conv_app_nth)
  next
    case False
    with i have "length E - Suc i = 0" "E \<noteq> []" by auto
    then show ?thesis using False i after [of 0] by (simp add: rev_nth take_Suc_conv_app_nth)
  qed
  ultimately show ?thesis
    unfolding rows Let_def by (simp add: E_def [symmetric] hd_rev)
qed

text \<open>A top-up of 100 and a purchase of 30.\<close>

definition spent_db :: db where
  "spent_db = example_dash_db\<lparr>seq := 10, t_wallets := [\<lparr>w_pk = 4, w_customer = 1, w_balance = 70\<rparr>],
     t_ledger := [\<lparr>le_pk = 8, le_wallet = 4, le_type = ''topup'', le_amount = 100, le_balance_after = 100, le_ref = ''topup:1'', le_note = [], le_created = 0\<rparr>,
       \<lparr>le_pk = 9, le_wallet = 4, le_type = ''purchase'', le_amount = - 30, le_balance_after = 70, le_ref = ''order:1'', le_note = [], le_created = 0\<rparr>]\<rparr>"

theorem wallet_page_adds_up_witness:
  "rev (shown_entries example_dash_user 1 spent_db) = t_ledger spent_db"
proof -
  let ?w = "\<lparr>w_pk = 4, w_customer = 1, w_balance = 70\<rparr> :: wallet"
  have ok: "ledger_ok spent_db"
    by (simp add: ledger_ok_def spent_db_def trail_ok_def wallet_sum_def bigint_max_def ledger_types_def less_Suc_eq)
  have c: "find_by c_user (u_pk example_dash_user) (t_customers spent_db) = Some example_dash_customer"
    and w: "find_by w_customer (c_pk example_dash_customer) (t_wallets spent_db) = Some ?w"
    by (simp_all add: spent_db_def example_dash_db_def example_dash_user_def example_dash_customer_def)
  have "nat (num_pages ledger_page_size (ledger_rows ?w spent_db)) = 1"
    by (simp add: num_pages_def ledger_page_size_def ledger_rows_def newest_first_def spent_db_def)
  with wallet_page_adds_up [OF ok c w] have "rev (shown_entries example_dash_user 1 spent_db) = filter (\<lambda>e. le_wallet e = w_pk ?w) (t_ledger spent_db)"
    unfolding Let_def by simp
  then show ?thesis by (simp add: spent_db_def)
qed

section \<open>Progress in a course\<close>

lemma course_lesson_in:
  "course_lesson p k s \<noteq> None \<Longrightarrow> \<exists>m \<in> set (product_modules p s). \<exists>l \<in> set (module_lessons (cm_pk m) s). lm_pk l = k"
  by (auto simp: course_lesson_def product_modules_def module_lessons_def dest!: find_SomeD) metis

text \<open>
  The course player never counts more completed lessons than the course has: each lesson counts
  once, and only lessons of modules of this product.
\<close>

theorem course_progress_bounded:
  "case fst (course_page p c s) of
     Inr (Course_page pr modules completed n done) \<Rightarrow>
       done \<le> n \<and> distinct completed \<and> set completed \<subseteq> lm_pk ` set (concat (map snd modules)) \<and> n = length (concat (map snd modules))
   | _ \<Rightarrow> True"
proof -
  define modules where "modules = map (\<lambda>m. (m, module_lessons (cm_pk m) s)) (product_modules p s)"
  have sub: "set (completed_ids (c_pk c) p s) \<subseteq> lm_pk ` set (concat (map snd modules))"
    using course_lesson_in [of p _ s] by (auto simp: completed_ids_def modules_def image_iff) blast
  have "length (completed_ids (c_pk c) p s) = card (set (completed_ids (c_pk c) p s))"
    by (simp add: completed_ids_def distinct_card [symmetric])
  also have "\<dots> \<le> card (lm_pk ` set (concat (map snd modules)))" by (rule card_mono [OF _ sub]) simp
  also have "\<dots> \<le> length (concat (map snd modules))" by (metis card_image_le card_length finite_set le_trans)
  finally show ?thesis
    using sub by (auto simp: course_page_def course_access_def run_simps Let_def modules_def completed_ids_def length_concat comp_def
        split: option.splits)
qed

end
