(* ===== verification/Console_Pages.thy ===== *)
theory Console_Pages
  imports Console Listing Json_Text
begin

text \<open>
  What the operator console shows (\<open>console/views.py\<close>): the set-up checklist, the cockpit, the customer
  pages, the audit log and the CSV exports, each as the context or the file it answers with.  \<open>None\<close> is
  the redirect to the login page.
\<close>

section \<open>Decorators\<close>

definition staff_page :: "user option \<Rightarrow> (user \<Rightarrow> 'a prog) \<Rightarrow> 'a option prog" where
  "staff_page request_user view =
     (case request_user of
        None \<Rightarrow> ret None
      | Some u \<Rightarrow> if \<not> is_operator u then raise PermissionDenied else bnd (view u) (\<lambda>x. ret (Some x)))"

definition superuser_page :: "user option \<Rightarrow> (user \<Rightarrow> 'a prog) \<Rightarrow> 'a option prog" where
  "superuser_page request_user view =
     (case request_user of
        None \<Rightarrow> ret None
      | Some u \<Rightarrow> if \<not> u_superuser u then raise PermissionDenied else bnd (view u) (\<lambda>x. ret (Some x)))"

section \<open>The set-up checklist\<close>

text \<open>\<open>environ\<close> is \<open>os.environ\<close>; a setting that is not there is no setting.\<close>

definition setup_view :: "(string \<Rightarrow> string option) \<Rightarrow> user option \<Rightarrow> ((string \<times> bool) list \<times> bool) option prog" where
  "setup_view environ who = superuser_page who (\<lambda>u.
     gets (\<lambda>s.
       let env_set = (\<lambda>k. environ k \<noteq> None \<and> environ k \<noteq> Some []);
           setting = (\<lambda>k. case find_by st_key k (t_settings s) of None \<Rightarrow> False | Some r \<Rightarrow> st_value r \<noteq> []);
           checks = [(''SUMOPOD_API_KEY env'', env_set ''SUMOPOD_API_KEY''),
             (''SUMOPOD_WEBHOOK_SECRET env'', env_set ''SUMOPOD_WEBHOOK_SECRET''),
             (''SUMOPOD_WEBHOOK_TOKEN env'', env_set ''SUMOPOD_WEBHOOK_TOKEN''),
             (''Ed25519 signing key env'', env_set ''MARKETPLACE_ED25519_PRIVATE_KEY_B64''),
             (''WA_TOKEN env'', env_set ''WA_TOKEN''),
             (''ACTIVATION_TOKEN_TTL_DAYS'', setting ''ACTIVATION_TOKEN_TTL_DAYS''),
             (''ACTIVATION_GRACE_DAYS'', setting ''ACTIVATION_GRACE_DAYS''),
             (''MIN_TOPUP setting'', setting ''MIN_TOPUP''),
             (''StorePage created'', t_pages s \<noteq> []),
             (''Product published'', \<exists>pr \<in> set (t_products s). pr_visibility pr = Visibility_PUBLIC)]
       in (checks, list_all snd checks)))"

section \<open>The cockpit\<close>

record kpi =
  k_balance_liability :: int
  k_revenue :: int
  k_active_grants :: nat
  k_failed_renewals :: nat
  k_pending_topups :: nat
  k_new_orders_7d :: nat
  k_open_leads :: nat
  k_open_refunds :: nat

definition count_of :: "('a \<Rightarrow> bool) \<Rightarrow> 'a list \<Rightarrow> nat" where
  "count_of p rows = length (filter p rows)"

definition active_grant_count :: "db \<Rightarrow> nat" where
  "active_grant_count s = count_of (\<lambda>g. g_status g = Grant_ACTIVE) (t_grants s)"

definition cockpit_kpi :: "db \<Rightarrow> kpi" where
  "cockpit_kpi s =
     \<lparr>k_balance_liability = sum_list (map w_balance (t_wallets s)),
      k_revenue = sum_list (map o_amount (filter (\<lambda>r. o_status r = Order_PAID) (t_orders s))),
      k_active_grants = active_grant_count s,
      k_failed_renewals = count_of (\<lambda>r. sub_status r \<in> {Sub_GRACE, Sub_SUSPENDED}) (t_subs s),
      k_pending_topups = count_of (\<lambda>r. tu_status r = TopUp_PENDING) (t_topups s),
      k_new_orders_7d = count_of (\<lambda>r. o_status r = Order_PAID \<and> clock s - 7 * us_day \<le> o_created r) (t_orders s),
      k_open_leads = count_of (\<lambda>r. ld_status r = ''new'') (t_leads s),
      k_open_refunds = count_of (\<lambda>r. rr_status r = Refund_PENDING) (t_refunds s)\<rparr>"

text \<open>An item of the work queue; the texts put on it are not modelled.\<close>

record queue_item =
  qi_type :: string
  qi_url :: string
  qi_created :: int

definition cockpit_queue :: "db \<Rightarrow> queue_item list" where
  "cockpit_queue s =
     map (\<lambda>r. \<lparr>qi_type = ''lead'', qi_url = ''/console/leads/'' @ str_nat (ld_pk r) @ ''/'', qi_created = ld_created r\<rparr>)
       (take 20 (newest_first (\<lambda>r. ld_status r = ''new'') (t_leads s)))
     @ map (\<lambda>r. \<lparr>qi_type = ''refund'', qi_url = ''/console/refund/'' @ str_nat (rr_pk r) @ ''/'', qi_created = rr_created r\<rparr>)
       (take 20 (newest_first (\<lambda>r. rr_status r = Refund_PENDING) (t_refunds s)))
     @ map (\<lambda>r. \<lparr>qi_type = ''stuck_topup'', qi_url = ''/console/customers/'' @ str_nat (tu_customer r) @ ''/'', qi_created = tu_created r\<rparr>)
       (take 20 (newest_first (\<lambda>r. tu_status r = TopUp_PENDING \<and> tu_created r < clock s - 2 * us_hour) (t_topups s)))
     @ map (\<lambda>r. \<lparr>qi_type = ''renewal'', qi_url = ''/console/customers/'' @ str_nat (sub_customer r) @ ''/'', qi_created = sub_created r\<rparr>)
       (take 20 (newest_first (\<lambda>r. sub_status r \<in> {Sub_GRACE, Sub_SUSPENDED}) (t_subs s)))"

definition cockpit :: "user option \<Rightarrow> (kpi \<times> queue_item list) option prog" where
  "cockpit who = staff_page who (\<lambda>u.
     gets (\<lambda>s. (cockpit_kpi s, take 50 (sort_key (\<lambda>q. - qi_created q) (cockpit_queue s)))))"

section \<open>Customers\<close>

definition customer_list :: "user option \<Rightarrow> string option \<Rightarrow> customer list option prog" where
  "customer_list who given = staff_page who (\<lambda>u.
     let q = strip (case given of None \<Rightarrow> [] | Some t \<Rightarrow> t)
     in gets (\<lambda>s. take 100 (newest_first (\<lambda>c. q = [] \<or> icontains q (c_email c)) (t_customers s))))"

record customer_file =
  cf_customer :: customer
  cf_orders :: "order list"
  cf_ledger :: "ledger_entry list"
  cf_grants :: "grant list"
  cf_subs :: "subscription list"
  cf_refunds :: "refund_request list"
  cf_audit :: "audit_entry list"

text \<open>The devices are queried too but shown nowhere; the query is never run.\<close>

definition customer_360 :: "user option \<Rightarrow> nat \<Rightarrow> customer_file option prog" where
  "customer_360 who k = staff_page who (\<lambda>u.
     bnd (or_404 (\<lambda>s. find_by c_pk k (t_customers s))) (\<lambda>c.
     bnd (customer_wallet k) (\<lambda>w.
     gets (\<lambda>s.
       \<lparr>cf_customer = c,
        cf_orders = take 20 (newest_first (\<lambda>r. o_customer r = k) (t_orders s)),
        cf_ledger = take 30 (newest_first (\<lambda>e. le_wallet e = w_pk w) (t_ledger s)),
        cf_grants = take 20 (newest_first (\<lambda>g. g_customer g = k) (t_grants s)),
        cf_subs = newest_first (\<lambda>r. sub_customer r = k) (t_subs s),
        cf_refunds = take 10 (newest_first (\<lambda>r. rr_customer r = k) (t_refunds s)),
        cf_audit = take 30 (newest_first (\<lambda>a. au_target_type a = ''Customer'' \<and> au_target_id a = str_nat k) (t_audit s))\<rparr>))))"

definition refund_detail :: "user option \<Rightarrow> nat \<Rightarrow> refund_request option prog" where
  "refund_detail who k = superuser_page who (\<lambda>u. or_404 (\<lambda>s. find_by rr_pk k (t_refunds s)))"

section \<open>The audit log\<close>

definition actor_email :: "audit_entry \<Rightarrow> db \<Rightarrow> string option" where
  "actor_email a s = (case au_actor a of None \<Rightarrow> None | Some k \<Rightarrow> map_option u_email (find_by u_pk k (t_users s)))"

text \<open>A filter on the actor leaves out the entries without one, as the join does.\<close>

definition audit_log_view :: "user option \<Rightarrow> string \<Rightarrow> string \<Rightarrow> audit_entry list option prog" where
  "audit_log_view who action actor = staff_page who (\<lambda>u.
     let action_filter = strip action; actor_filter = strip actor
     in gets (\<lambda>s. take 200 (newest_first (\<lambda>a.
          (action_filter = [] \<or> icontains action_filter (au_action a))
          \<and> (actor_filter = [] \<or> (case actor_email a s of None \<Rightarrow> False | Some e \<Rightarrow> icontains actor_filter e))) (t_audit s))))"

section \<open>CSV files\<close>

text \<open>
  \<open>csv.writer\<close> with its defaults: commas, \<open>"\<close> around a field that needs it and doubled in it, \<open>\r\n\<close>
  after each row.
\<close>

definition csv_special :: "char \<Rightarrow> bool" where
  "csv_special c = (c = CHR '','' \<or> c = CHR 0x22 \<or> c = CHR 0x0D \<or> c = CHR 0x0A)"

definition csv_double :: "string \<Rightarrow> string" where
  "csv_double f = concat (map (\<lambda>c. if c = CHR 0x22 then [c, c] else [c]) f)"

definition csv_field :: "string \<Rightarrow> string" where
  "csv_field f = (if list_ex csv_special f then CHR 0x22 # csv_double f @ [CHR 0x22] else f)"

fun csv_join :: "string list \<Rightarrow> string" where
  "csv_join [] = []"
| "csv_join [f] = csv_field f"
| "csv_join (f # fs) = csv_field f @ CHR '','' # csv_join fs"

definition writerow :: "string list \<Rightarrow> string" where
  "writerow fs = (if fs = [[]] then [CHR 0x22, CHR 0x22] else csv_join fs) @ [CHR 0x0D, CHR 0x0A]"

text \<open>A reader of such files, as \<open>csv.reader\<close>: the field and the row read so far, and where it is.\<close>

datatype csv_mode = Start | Plain | Quoted | Closed | Line_end

fun csv_read :: "csv_mode \<Rightarrow> string \<Rightarrow> string list \<Rightarrow> string \<Rightarrow> string list list" where
  "csv_read m f r [] = (if m = Line_end \<or> (m = Start \<and> r = []) then [] else [r @ [f]])"
| "csv_read m f r (c # cs) =
     (if m = Quoted then (if c = CHR 0x22 then csv_read Closed f r cs else csv_read Quoted (f @ [c]) r cs)
      else if m = Closed \<and> c = CHR 0x22 then csv_read Quoted (f @ [c]) r cs
      else if m = Line_end \<and> c = CHR 0x0A then csv_read Start [] [] cs
      else if c = CHR '','' then csv_read Start [] (r @ [f]) cs
      else if c = CHR 0x0D then (r @ [f]) # csv_read Line_end [] [] cs
      else if c = CHR 0x0A then (r @ [f]) # csv_read Start [] [] cs
      else if c = CHR 0x22 \<and> m \<noteq> Plain then csv_read Quoted f r cs
      else csv_read Plain (f @ [c]) r cs)"

definition csv_parse :: "string \<Rightarrow> string list list" where
  "csv_parse = csv_read Start [] []"

section \<open>Exports\<close>

definition order_rows :: "db \<Rightarrow> string list list" where
  "order_rows s = [''public_id'', ''customer'', ''plan'', ''amount'', ''status'', ''created_at'']
     # map (\<lambda>r. [o_public_id r, customer_email (o_customer r) s, plan_label (o_plan r) s, str_int (o_amount r),
                 order_status_value (o_status r), isoformat (o_created r)]) (rev (t_orders s))"

definition topup_rows :: "db \<Rightarrow> string list list" where
  "topup_rows s = [''public_id'', ''customer'', ''amount'', ''bonus'', ''status'', ''gateway_ref'', ''created_at'']
     # map (\<lambda>r. [tu_public_id r, customer_email (tu_customer r) s, str_int (tu_amount r), str_int (tu_bonus r),
                 topup_status_value (tu_status r), tu_gateway_ref r, isoformat (tu_created r)]) (rev (t_topups s))"

definition ledger_file_rows :: "db \<Rightarrow> string list list" where
  "ledger_file_rows s = [''ref'', ''wallet'', ''type'', ''amount'', ''balance_after'', ''note'', ''created_at'']
     # map (\<lambda>e. [le_ref e, (case find_by w_pk (le_wallet e) (t_wallets s) of None \<Rightarrow> [] | Some w \<Rightarrow> customer_email (w_customer w) s),
                 le_type e, str_int (le_amount e), str_int (le_balance_after e), le_note e, isoformat (le_created e)]) (rev (t_ledger s))"

definition export_rows :: "string \<Rightarrow> db \<Rightarrow> string list list" where
  "export_rows model_name s =
     (if model_name = ''orders'' then order_rows s
      else if model_name = ''topups'' then topup_rows s
      else if model_name = ''ledger'' then ledger_file_rows s else [])"

datatype export = No_such_file | Csv_file string

definition export_csv :: "user option \<Rightarrow> string \<Rightarrow> export option prog" where
  "export_csv who model_name = staff_page who (\<lambda>u.
     if model_name \<notin> {''orders'', ''topups'', ''ledger''} then ret No_such_file
     else
       bnd (gets (\<lambda>s. concat (map writerow (export_rows model_name s)))) (\<lambda>file.
       bnd (log_action ''export.csv'' (Some (u_pk u)) None [(''model'', JStr model_name)]) (\<lambda>_.
       ret (Csv_file file))))"

section \<open>An export reads back\<close>

lemma csv_read_plain:
  "\<not> list_ex csv_special f \<Longrightarrow> csv_read Plain g r (f @ cs) = csv_read Plain (g @ f) r cs"
  by (induction f arbitrary: g) (auto simp: csv_special_def)

lemma csv_read_quoted:
  "csv_read Quoted g r (csv_double f @ CHR 0x22 # cs) = csv_read Closed (g @ f) r cs"
  by (induction f arbitrary: g) (auto simp: csv_double_def)

text \<open>After a field comes a comma or the end of the row, whatever the field holds.\<close>

definition read_end :: "string list \<Rightarrow> string \<Rightarrow> string \<Rightarrow> string list list" where
  "read_end r f cs = (if hd cs = CHR '','' then csv_read Start [] (r @ [f]) (tl cs) else (r @ [f]) # csv_read Line_end [] [] (tl cs))"

lemma csv_read_field:
  assumes "m = Start \<or> m = Line_end" and "cs \<noteq> []" and "hd cs = CHR '','' \<or> hd cs = CHR 0x0D"
  shows "csv_read m [] r (csv_field f @ cs) = read_end r f cs"
proof -
  obtain c cs' where cs: "cs = c # cs'" "c = CHR '','' \<or> c = CHR 0x0D" using assms(2,3) by (cases cs) auto
  show ?thesis
  proof (cases "list_ex csv_special f")
    case True
    have "csv_read m [] r (csv_field f @ cs) = csv_read Closed f r cs"
      using assms(1) True csv_read_quoted [of "[]" r f cs] by (auto simp: csv_field_def)
    then show ?thesis using cs by (auto simp: read_end_def)
  next
    case False
    show ?thesis
    proof (cases f)
      case Nil
      then show ?thesis using assms(1) cs by (auto simp: csv_field_def read_end_def)
    next
      case (Cons a as)
      with False have "csv_read m [] r (csv_field f @ cs) = csv_read Plain f r cs"
        using assms(1) csv_read_plain [of as "[a]" r cs] by (auto simp: csv_field_def csv_special_def)
      then show ?thesis using cs by (auto simp: read_end_def)
    qed
  qed
qed

lemma csv_read_row:
  "fs \<noteq> [] \<Longrightarrow> csv_read Start [] r (csv_join fs @ CHR 0x0D # CHR 0x0A # cs) = (r @ fs) # csv_read Start [] [] cs"
proof (induction fs arbitrary: r rule: csv_join.induct)
  case (2 f)
  then show ?case by (simp add: csv_read_field read_end_def)
next
  case (3 f g fs)
  then show ?case by (simp add: csv_read_field read_end_def)
qed simp

lemma csv_read_writerow: "fs \<noteq> [] \<Longrightarrow> csv_read Start [] [] (writerow fs @ cs) = fs # csv_read Start [] [] cs"
  using csv_read_row [of fs "[]" cs] by (cases "fs = [[]]") (simp_all add: writerow_def)

lemma csv_parse_rows: "[] \<notin> set rows \<Longrightarrow> csv_parse (concat (map writerow rows)) = rows"
proof (induction rows)
  case (Cons fs rows)
  then show ?case
    using csv_read_writerow [of fs "concat (map writerow rows)"] by (auto simp: csv_parse_def)
qed (simp add: csv_parse_def)


section \<open>The cockpit agrees with the ledger\<close>

lemma wallet_sum_total:
  assumes "distinct (map w_pk W)" and "\<forall>e \<in> set L. le_wallet e \<in> w_pk ` set W"
  shows "sum_list (map (\<lambda>w. wallet_sum (w_pk w) L) W) = sum_list (map le_amount L)"
  using assms(2)
proof (induction L rule: rev_induct)
  case Nil
  then show ?case by (simp add: wallet_sum_def)
next
  case (snoc e L)
  have "sum_list (map (\<lambda>w. if le_wallet e = w_pk w then le_amount e else 0) W) = (if le_wallet e \<in> w_pk ` set W then le_amount e else 0)"
    using assms(1) by (induction W) auto
  then show ?case using snoc by (simp add: sum_list_addf)
qed

text \<open>
  C38.  The cockpit's balance liability is what the ledger says: with a sound ledger, the sum of the
  wallet balances an operator sees is the sum of all ledger amounts, no entry left out or counted
  twice.  The work queue has at most 50 items, newest first; and with at most 20 pending refunds and
  at most 50 items in all, every pending refund is on it.
\<close>

theorem cockpit_agrees_with_ledger:
  assumes "ledger_ok s" and "is_operator u"
  shows "\<exists>kpi queue. cockpit (Some u) s = (Inr (Some (kpi, queue)), s)
     \<and> k_balance_liability kpi = sum_list (map le_amount (t_ledger s))
     \<and> length queue \<le> 50 \<and> sorted (map (\<lambda>q. - qi_created q) queue)
     \<and> (k_open_refunds kpi \<le> 20 \<and> length (cockpit_queue s) \<le> 50 \<longrightarrow>
          (\<forall>r \<in> set (t_refunds s). rr_status r = Refund_PENDING \<longrightarrow> (''/console/refund/'' @ str_nat (rr_pk r) @ ''/'') \<in> qi_url ` set queue))"
proof -
  let ?queue = "take 50 (sort_key (\<lambda>q. - qi_created q) (cockpit_queue s))"
  have "map w_balance (t_wallets s) = map (\<lambda>w. wallet_sum (w_pk w) (t_ledger s)) (t_wallets s)"
    using assms(1) by (auto simp: ledger_ok_def)
  then have "sum_list (map w_balance (t_wallets s)) = sum_list (map (\<lambda>w. wallet_sum (w_pk w) (t_ledger s)) (t_wallets s))"
    by (rule arg_cong)
  then have "k_balance_liability (cockpit_kpi s) = sum_list (map le_amount (t_ledger s))"
    using assms(1) wallet_sum_total [of "t_wallets s" "t_ledger s"] by (simp add: cockpit_kpi_def ledger_ok_def)
  moreover have "sorted (map (\<lambda>q. - qi_created q) ?queue)"
    unfolding take_map [symmetric] by (intro sorted_wrt_take) simp
  moreover have "(''/console/refund/'' @ str_nat (rr_pk r) @ ''/'') \<in> qi_url ` set ?queue"
    if "k_open_refunds (cockpit_kpi s) \<le> 20" "length (cockpit_queue s) \<le> 50" "r \<in> set (t_refunds s)" "rr_status r = Refund_PENDING" for r
  proof -
    let ?item = "\<lparr>qi_type = ''refund'', qi_url = ''/console/refund/'' @ str_nat (rr_pk r) @ ''/'', qi_created = rr_created r\<rparr>"
    have "r \<in> set (take 20 (newest_first (\<lambda>r. rr_status r = Refund_PENDING) (t_refunds s)))"
      using that by (simp add: newest_first_def cockpit_kpi_def count_of_def)
    then have "?item \<in> set (cockpit_queue s)" by (auto simp: cockpit_queue_def)
    moreover have "set ?queue = set (cockpit_queue s)" using that(2) by simp
    ultimately show ?thesis by (intro image_eqI [of _ _ ?item]) simp_all
  qed
  ultimately show ?thesis
    using assms(2) by (auto simp: cockpit_def staff_page_def run_simps)
qed

definition cockpit_db :: db where
  "cockpit_db = example_wallet_db\<lparr>t_refunds := [\<lparr>rr_pk = 8, rr_customer = 1, rr_order = None, rr_reason = ''late'',
     rr_status = Refund_PENDING, rr_admin_note = [], rr_created = 0\<rparr>]\<rparr>"

theorem cockpit_agrees_with_ledger_witness:
  "\<exists>kpi queue. cockpit (Some example_admin) cockpit_db = (Inr (Some (kpi, queue)), cockpit_db)
     \<and> k_balance_liability kpi = 100 \<and> (''/console/refund/'' @ str_nat 8 @ ''/'') \<in> qi_url ` set queue"
proof -
  have ok: "ledger_ok cockpit_db" 
    by (simp add: ledger_ok_def cockpit_db_def example_wallet_db_def empty_db_def trail_ok_def wallet_sum_def bigint_max_def ledger_types_def)
  have op: "is_operator example_admin" by (simp add: is_operator_def example_admin_def)
  from cockpit_agrees_with_ledger [OF ok op] obtain kpi queue where
    k: "cockpit (Some example_admin) cockpit_db = (Inr (Some (kpi, queue)), cockpit_db)"
      "k_balance_liability kpi = sum_list (map le_amount (t_ledger cockpit_db))"
      "k_open_refunds kpi \<le> 20 \<and> length (cockpit_queue cockpit_db) \<le> 50 \<longrightarrow>
        (\<forall>r \<in> set (t_refunds cockpit_db). rr_status r = Refund_PENDING \<longrightarrow> (''/console/refund/'' @ str_nat (rr_pk r) @ ''/'') \<in> qi_url ` set queue)"
    by blast
  have "kpi = cockpit_kpi cockpit_db"
    using k(1) op by (simp add: cockpit_def staff_page_def run_simps)
  then have "k_open_refunds kpi \<le> 20" "length (cockpit_queue cockpit_db) \<le> 50"
    by (simp_all add: cockpit_kpi_def count_of_def cockpit_queue_def newest_first_def cockpit_db_def example_wallet_db_def empty_db_def)
  with k(3) have "\<forall>r \<in> set (t_refunds cockpit_db). rr_status r = Refund_PENDING \<longrightarrow> (''/console/refund/'' @ str_nat (rr_pk r) @ ''/'') \<in> qi_url ` set queue"
    by blast
  then have "(''/console/refund/'' @ str_nat 8 @ ''/'') \<in> qi_url ` set queue"
    by (simp add: cockpit_db_def)
  moreover have "k_balance_liability kpi = 100" using k(2) by (simp add: cockpit_db_def example_wallet_db_def)
  ultimately show ?thesis using k(1) by blast
qed

end
