(* ===== verification/Desk_Pages.thy ===== *)
theory Desk_Pages
  imports Seller_Isolation Listing
begin

text \<open>
  What the seller desk shows (\<open>seller/views.py\<close>): each page as the context it hands to its template.
  \<open>Inl\<close> is a redirect.  Not modelled: the labels of the chart days, the order of the product list by
  name (the collation of the database), and the instructions of a deliverable.
\<close>

section \<open>Helpers\<close>

text \<open>The decorator \<open>seller_required\<close> around a view that renders a page.\<close>

definition desk_page :: "env \<Rightarrow> user option \<Rightarrow> (seller \<Rightarrow> 'a prog) \<Rightarrow> (string + 'a) prog" where
  "desk_page E request_user view =
     (let shown = (\<lambda>sel. bnd (view sel) (\<lambda>x. ret (Inr x)))
      in case request_user of
           None \<Rightarrow> ret (Inl ''/accounts/login/'')
         | Some u \<Rightarrow>
             if u_superuser u then bnd (superuser_seller E u) shown
             else
               bnd (gets (\<lambda>s. find_by sel_user (Some (u_pk u)) (t_sellers s))) (\<lambda>v.
               case v of
                 None \<Rightarrow> ret (Inl ''seller:apply'')
               | Some sel \<Rightarrow>
                   if \<not> sel_approved sel then ret (Inl ''seller:apply'')
                   else if \<not> sel_onboarded sel then ret (Inl ''seller:onboarding'')
                   else shown sel))"

definition seller_orders :: "seller \<Rightarrow> db \<Rightarrow> order list" where
  "seller_orders sel s = filter (\<lambda>r. sells sel s (o_plan r)) (t_orders s)"

definition seller_subscriptions :: "seller \<Rightarrow> db \<Rightarrow> subscription list" where
  "seller_subscriptions sel s = filter (\<lambda>r. sells sel s (sub_plan r)) (t_subs s)"

definition is_paid :: "order \<Rightarrow> bool" where
  "is_paid r = (o_status r = Order_PAID)"

definition revenue_of :: "order list \<Rightarrow> int" where
  "revenue_of rows = sum_list (map o_amount (filter is_paid rows))"

definition with_status :: "order_status \<Rightarrow> order list \<Rightarrow> nat" where
  "with_status st rows = length (filter (\<lambda>r. o_status r = st) rows)"

text \<open>
  Days since the epoch: \<open>timezone.now().date()\<close> is the date in UTC, \<open>TruncDate\<close> and \<open>__date\<close> give the
  date in the zone of the settings, \<open>Asia/Jakarta\<close>, seven hours ahead all year.
\<close>

definition utc_day :: "int \<Rightarrow> int" where
  "utc_day t = t div us_day"

definition local_day :: "int \<Rightarrow> int" where
  "local_day t = (t + 7 * us_hour) div us_day"

section \<open>Home\<close>

record desk_home_context =
  dh_revenue :: int
  dh_orders_count :: nat
  dh_active_subs :: nat
  dh_pending_orders :: nat
  dh_recent_orders :: "order list"
  dh_products_count :: nat
  dh_chart_days :: "(int \<times> int) list"
  dh_chart_max :: int
  dh_week_total :: int

text \<open>\<open>max(..., default=1) or 1\<close>\<close>

definition chart_max :: "int list \<Rightarrow> int" where
  "chart_max totals = (let m = foldr max (tl totals) (if totals = [] then 1 else hd totals) in if m = 0 then 1 else m)"

definition daily_totals :: "seller \<Rightarrow> int \<Rightarrow> db \<Rightarrow> (int \<times> int) list" where
  "daily_totals sel week_ago s = map (\<lambda>i.
     let d = week_ago + int i
     in (d, sum_list (map o_amount (filter (\<lambda>r. is_paid r \<and> week_ago \<le> local_day (o_created r) \<and> local_day (o_created r) = d)
              (seller_orders sel s))))) [0..<7]"

definition desk_home :: "env \<Rightarrow> user option \<Rightarrow> (string + desk_home_context) prog" where
  "desk_home E who = desk_page E who (\<lambda>sel.
     gets (\<lambda>s.
       let rows = seller_orders sel s;
           days = daily_totals sel (utc_day (clock s) - 6) s
       in \<lparr>dh_revenue = revenue_of rows,
           dh_orders_count = with_status Order_PAID rows,
           dh_active_subs = length (filter (\<lambda>r. sub_status r = Sub_ACTIVE) (seller_subscriptions sel s)),
           dh_pending_orders = with_status Order_PENDING rows,
           dh_recent_orders = take 8 (rev rows),
           dh_products_count = length (seller_products sel s),
           dh_chart_days = days,
           dh_chart_max = chart_max (map snd days),
           dh_week_total = sum_list (map snd days)\<rparr>))"

section \<open>Products and orders\<close>

text \<open>Orders and revenue of each product that has a paid order.\<close>

definition product_stats :: "product list \<Rightarrow> db \<Rightarrow> (nat \<times> nat \<times> int) list" where
  "product_stats rows s =
     concat (map (\<lambda>pr.
       let paid = filter (\<lambda>r. is_paid r \<and> (\<exists>pl \<in> set (t_plans s). pl_pk pl = o_plan r \<and> pl_product pl = pr_pk pr)) (t_orders s)
       in if paid = [] then [] else [(pr_pk pr, length paid, sum_list (map o_amount paid))]) rows)"

definition desk_products :: "env \<Rightarrow> user option \<Rightarrow> (string + product list \<times> (nat \<times> nat \<times> int) list) prog" where
  "desk_products E who = desk_page E who (\<lambda>sel.
     gets (\<lambda>s. (seller_products sel s, product_stats (seller_products sel s) s)))"

text \<open>\<open>Q(customer email) | Q(product name) | Q(plan name)\<close>\<close>

definition sale_matches :: "string \<Rightarrow> nat \<Rightarrow> nat \<Rightarrow> db \<Rightarrow> bool" where
  "sale_matches search cust p s =
     (icontains search (customer_email cust s)
      \<or> (case find_by pl_pk p (t_plans s) of
           None \<Rightarrow> False
         | Some pl \<Rightarrow> icontains search (pl_name pl)
             \<or> (case find_by pr_pk (pl_product pl) (t_products s) of None \<Rightarrow> False | Some pr \<Rightarrow> icontains search (pr_name pr))))"

record desk_orders_context =
  do_orders :: "order list"
  do_paid :: nat
  do_revenue :: int
  do_pending :: nat
  do_refunded :: nat

definition desk_orders :: "env \<Rightarrow> user option \<Rightarrow> string \<Rightarrow> string \<Rightarrow> (string + desk_orders_context) prog" where
  "desk_orders E who status_filter q = desk_page E who (\<lambda>sel.
     let search = strip q
     in gets (\<lambda>s.
          let rows = seller_orders sel s
          in \<lparr>do_orders = take 200 (newest_first (\<lambda>r. (status_filter = [] \<or> order_status_value (o_status r) = status_filter)
                 \<and> (search = [] \<or> sale_matches search (o_customer r) (o_plan r) s)) rows),
              do_paid = with_status Order_PAID rows, do_revenue = revenue_of rows,
              do_pending = with_status Order_PENDING rows, do_refunded = with_status Order_REFUNDED rows\<rparr>))"

text \<open>An order, its subtotal, the duration discount, and the balance of the buyer's wallet.\<close>

definition price_breakdown :: "plan \<Rightarrow> int \<Rightarrow> int \<times> int \<times> int" where
  "price_breakdown pl dm =
     (let subtotal = pl_price pl * dm;
          pct = (if dm > 1 then (case map_of (pl_durations pl) (str_int dm) of None \<Rightarrow> 0 | Some d \<Rightarrow> d) else 0)
      in (subtotal, pct, subtotal * pct div 100))"

definition desk_order_detail :: "env \<Rightarrow> user option \<Rightarrow> nat \<Rightarrow> (string + order \<times> (int \<times> int \<times> int) \<times> int option) prog" where
  "desk_order_detail E who k = desk_page E who (\<lambda>sel.
     bnd (or_404 (\<lambda>s. find (\<lambda>r. o_pk r = k \<and> sells sel s (o_plan r)) (t_orders s))) (\<lambda>ord.
     bnd (plan_get (o_plan ord)) (\<lambda>pl.
     gets (\<lambda>s. (ord, price_breakdown pl (o_multiplier ord), map_option w_balance (find_by w_customer (o_customer ord) (t_wallets s)))))))"

definition desk_vouchers :: "env \<Rightarrow> user option \<Rightarrow> (string + coupon list) prog" where
  "desk_vouchers E who = desk_page E who (\<lambda>sel. gets (\<lambda>s. newest_first (\<lambda>r. cp_seller r = Some (sel_pk sel)) (t_coupons s)))"

section \<open>Analytics\<close>

record analytics_context =
  an_days :: int
  an_page_views :: nat
  an_product_views :: nat
  an_checkout_starts :: nat
  an_orders_paid :: nat
  an_chart_days :: "(int \<times> nat) list"
  an_top_products :: "(string \<times> nat) list"

text \<open>The events of one kind about the seller's products.\<close>

definition own_events :: "seller \<Rightarrow> string \<Rightarrow> int \<Rightarrow> db \<Rightarrow> page_event_row list" where
  "own_events sel ev since s =
     filter (\<lambda>r. since \<le> pe_created r \<and> pe_event r = ev \<and> (\<exists>pr \<in> set (seller_products sel s). pe_product r = Some (pr_pk pr))) (t_page_events s)"

definition event_product_name :: "page_event_row \<Rightarrow> db \<Rightarrow> string" where
  "event_product_name r s =
     (case pe_product r of None \<Rightarrow> [] | Some k \<Rightarrow> (case find_by pr_pk k (t_products s) of None \<Rightarrow> [] | Some pr \<Rightarrow> pr_name pr))"

definition top_products :: "page_event_row list \<Rightarrow> db \<Rightarrow> (string \<times> nat) list" where
  "top_products paid s =
     (let names = map (\<lambda>r. event_product_name r s) paid
      in take 10 (sort_key (\<lambda>(_, n). - int n) (map (\<lambda>name. (name, length (filter (\<lambda>x. x = name) names))) (remdups names))))"

text \<open>\<open>int(request.GET.get("days", 30))\<close> raises for what is not a number.\<close>

definition analytics :: "env \<Rightarrow> user option \<Rightarrow> string option \<Rightarrow> (string + analytics_context) prog" where
  "analytics E who given = desk_page E who (\<lambda>sel.
     bnd (case given of None \<Rightarrow> ret 30 | Some t \<Rightarrow> or_raise (py_int t) (ValueError ''days'')) (\<lambda>n.
     let days = max 7 (min n 90)
     in gets (\<lambda>s.
          let since = clock s - days * us_day;
              paid = own_events sel ''order_paid'' since s;
              span = nat (min days 30)
          in \<lparr>an_days = days,
              an_page_views = length (filter (\<lambda>r. since \<le> pe_created r \<and> pe_event r = ''page_view'') (t_page_events s)),
              an_product_views = length (own_events sel ''product_view'' since s),
              an_checkout_starts = length (own_events sel ''checkout_start'' since s),
              an_orders_paid = length paid,
              an_chart_days = map (\<lambda>i. let d = utc_day (clock s) - int (span - 1 - i)
                                       in (d, length (filter (\<lambda>r. local_day (pe_created r) = d) paid))) [0..<span],
              an_top_products = top_products paid s\<rparr>)))"

section \<open>Earnings\<close>

record earnings_context =
  ec_earnings :: "seller_earning list"
  ec_total_gross :: int
  ec_total_net :: int
  ec_total_commission :: int
  ec_paid_out :: int
  ec_recent_payouts :: "seller_payout list"

definition earnings :: "env \<Rightarrow> user option \<Rightarrow> (string + earnings_context) prog" where
  "earnings E who = desk_page E who (\<lambda>sel.
     gets (\<lambda>s.
       let own = filter (\<lambda>r. ea_seller r = sel_pk sel) (t_earnings s);
           pending = filter (\<lambda>r. ea_status r = Earning_PENDING) own
       in \<lparr>ec_earnings = take 50 (rev own),
           ec_total_gross = sum_list (map ea_gross pending), ec_total_net = sum_list (map ea_net pending),
           ec_total_commission = sum_list (map ea_commission pending),
           ec_paid_out = sum_list (map ea_net (filter (\<lambda>r. ea_status r = Earning_PAID_OUT) own)),
           ec_recent_payouts = take 10 (newest_first (\<lambda>r. po_seller r = sel_pk sel) (t_payouts s))\<rparr>))"

section \<open>Subscriptions\<close>

record desk_subs_context =
  ds_subs :: "subscription list"
  ds_active :: nat
  ds_grace :: nat
  ds_suspended :: nat
  ds_cancelled :: nat

definition subs_with_status :: "sub_status \<Rightarrow> subscription list \<Rightarrow> nat" where
  "subs_with_status st rows = length (filter (\<lambda>r. sub_status r = st) rows)"

definition desk_subscriptions :: "env \<Rightarrow> user option \<Rightarrow> string \<Rightarrow> string \<Rightarrow> (string + desk_subs_context) prog" where
  "desk_subscriptions E who status_filter q = desk_page E who (\<lambda>sel.
     let search = strip q
     in gets (\<lambda>s.
          let rows = seller_subscriptions sel s
          in \<lparr>ds_subs = take 200 (newest_first (\<lambda>r. (status_filter = [] \<or> sub_status_value (sub_status r) = status_filter)
                 \<and> (search = [] \<or> sale_matches search (sub_customer r) (sub_plan r) s)) rows),
              ds_active = subs_with_status Sub_ACTIVE rows, ds_grace = subs_with_status Sub_GRACE rows,
              ds_suspended = subs_with_status Sub_SUSPENDED rows, ds_cancelled = subs_with_status Sub_CANCELLED rows\<rparr>))"

subsection \<open>The data of the grants\<close>

definition sensitive_payload_keys :: "string list" where
  "sensitive_payload_keys = [''download_url'', ''access_url'', ''password'', ''api_key'', ''key'', ''token'', ''secret'', ''license_key'']"

definition field_labels :: "(string \<times> string) list" where
  "field_labels = [(''download_url'', ''Download URL''), (''access_url'', ''Access URL''), (''username'', ''Username''),
     (''password'', ''Password''), (''api_key'', ''API Key''), (''key'', ''Key''), (''token'', ''Token''), (''secret'', ''Secret''),
     (''license_key'', ''License Key''), (''license_id'', ''License ID''), (''product_name'', ''Course''), (''product_id'', ''Course ID'')]"

text \<open>\<open>k.replace("_", " ").title()\<close>: a letter is upper case after what is not a letter.\<close>

fun title_case :: "bool \<Rightarrow> string \<Rightarrow> string" where
  "title_case after [] = []"
| "title_case after (c # cs) =
     (let letter = (upper_char c \<noteq> lower_char c)
      in (if after then lower_char c else upper_char c) # title_case letter cs)"

definition field_label :: "string \<Rightarrow> string" where
  "field_label k = (case map_of field_labels k of
     Some l \<Rightarrow> l | None \<Rightarrow> title_case False (map (\<lambda>c. if c = CHR ''_'' then CHR '' '' else c) k))"

fun add_secrets :: "(string \<times> json) list \<Rightarrow> (string \<times> string) list \<Rightarrow> (string \<times> string) list" where
  "add_secrets [] secrets = secrets"
| "add_secrets ((k, v) # kvs) secrets =
     add_secrets kvs (if field_label k \<in> set (map fst secrets) then secrets else secrets @ [(field_label k, py_str v)])"

record grant_data =
  gd_grant :: grant
  gd_visible :: "(string \<times> string) list"
  gd_secrets :: "(string \<times> string) list"

text \<open>
  A secret that cannot be decrypted or is not a JSON object is passed over, as any exception there is.
\<close>

definition build_grant_data :: "env \<Rightarrow> db \<Rightarrow> grant \<Rightarrow> grant_data" where
  "build_grant_data E s g =
     (let shown = (\<lambda>kvs. map (\<lambda>(k, v). (field_label k, py_str v)) kvs);
          sensitive = filter (\<lambda>(k, v). k \<in> set sensitive_payload_keys) (g_payload g);
          stored = (case find_by se_grant (g_pk g) (t_secrets s) of
                      None \<Rightarrow> []
                    | Some secret \<Rightarrow>
                        (case fernet_decrypt E (se_ciphertext secret) of
                           None \<Rightarrow> []
                         | Some plain \<Rightarrow> (case json_loads E plain of Some (JObj kvs) \<Rightarrow> kvs | _ \<Rightarrow> [])))
      in \<lparr>gd_grant = g,
          gd_visible = shown (filter (\<lambda>(k, v). k \<notin> set sensitive_payload_keys) (g_payload g)),
          gd_secrets = add_secrets stored (shown sensitive)\<rparr>)"

record sub_detail_context =
  sd_sub :: subscription
  sd_orders :: "order list"
  sd_total_revenue :: int
  sd_days_remaining :: int
  sd_expired :: bool
  sd_grants :: "grant_data list"

definition subscription_detail :: "env \<Rightarrow> user option \<Rightarrow> nat \<Rightarrow> (string + sub_detail_context) prog" where
  "subscription_detail E who k = desk_page E who (\<lambda>sel.
     bnd (seller_subscription sel k) (\<lambda>sub.
     gets (\<lambda>s.
       let related = filter (\<lambda>r. o_subscription r = Some k) (t_orders s)
       in \<lparr>sd_sub = sub, sd_orders = related, sd_total_revenue = revenue_of related,
           sd_days_remaining = (sub_period_end sub - clock s) div us_day, sd_expired = (sub_period_end sub < clock s),
           sd_grants = map (build_grant_data E s) (filter (\<lambda>g. g_sub g = Some k) (t_grants s))\<rparr>)))"

section \<open>The pages as a whole\<close>

datatype desk_view =
    View_home | View_products | View_orders string string | View_order nat | View_vouchers | View_analytics "string option"
  | View_earnings | View_subscriptions string string | View_subscription nat

datatype desk_context =
    Home_shown desk_home_context
  | Products_shown "product list \<times> (nat \<times> nat \<times> int) list"
  | Orders_shown desk_orders_context
  | Order_shown "order \<times> (int \<times> int \<times> int) \<times> int option"
  | Vouchers_shown "coupon list"
  | Analytics_shown analytics_context
  | Earnings_shown earnings_context
  | Subscriptions_shown desk_subs_context
  | Subscription_shown sub_detail_context

definition shown_as :: "('a \<Rightarrow> desk_context) \<Rightarrow> (string + 'a) prog \<Rightarrow> (string + desk_context) prog" where
  "shown_as f m = bnd m (\<lambda>x. ret (case x of Inl target \<Rightarrow> Inl target | Inr c \<Rightarrow> Inr (f c)))"

fun desk_show :: "env \<Rightarrow> user option \<Rightarrow> desk_view \<Rightarrow> (string + desk_context) prog" where
  "desk_show E who View_home = shown_as Home_shown (desk_home E who)"
| "desk_show E who View_products = shown_as Products_shown (desk_products E who)"
| "desk_show E who (View_orders st q) = shown_as Orders_shown (desk_orders E who st q)"
| "desk_show E who (View_order k) = shown_as Order_shown (desk_order_detail E who k)"
| "desk_show E who View_vouchers = shown_as Vouchers_shown (desk_vouchers E who)"
| "desk_show E who (View_analytics days) = shown_as Analytics_shown (analytics E who days)"
| "desk_show E who View_earnings = shown_as Earnings_shown (earnings E who)"
| "desk_show E who (View_subscriptions st q) = shown_as Subscriptions_shown (desk_subscriptions E who st q)"
| "desk_show E who (View_subscription k) = shown_as Subscription_shown (subscription_detail E who k)"

section \<open>What the pages of a seller depend on\<close>

definition own_plans :: "seller \<Rightarrow> db \<Rightarrow> plan list" where
  "own_plans x s = filter (\<lambda>pl. pl_product pl \<in> pr_pk ` set (seller_products x s)) (t_plans s)"

definition buyer :: "seller \<Rightarrow> db \<Rightarrow> nat \<Rightarrow> bool" where
  "buyer x s k = ((\<exists>r \<in> set (seller_orders x s). o_customer r = k) \<or> (\<exists>r \<in> set (seller_subscriptions x s). sub_customer r = k))"

definition sold_grants :: "seller \<Rightarrow> db \<Rightarrow> grant list" where
  "sold_grants x s = filter (\<lambda>g. \<exists>r \<in> set (seller_subscriptions x s). g_sub g = Some (sub_pk r)) (t_grants s)"

text \<open>
  The seller's products, plans, sales, coupons, earnings and payouts; of the buyers their addresses and
  wallets, of the subscriptions sold their orders, grants and secrets; the events about the products.
\<close>

definition sales_of :: "seller \<Rightarrow> db \<Rightarrow> _" where
  "sales_of x s =
     (seller_products x s, own_plans x s, {k. sells x s k}, seller_orders x s, seller_subscriptions x s,
      filter (\<lambda>r. cp_seller r = Some (sel_pk x)) (t_coupons s), filter (\<lambda>r. ea_seller r = sel_pk x) (t_earnings s),
      filter (\<lambda>r. po_seller r = sel_pk x) (t_payouts s))"

definition buyers_of :: "seller \<Rightarrow> db \<Rightarrow> _" where
  "buyers_of x s =
     (filter (\<lambda>c. buyer x s (c_pk c)) (t_customers s), filter (\<lambda>w. buyer x s (w_customer w)) (t_wallets s),
      filter (\<lambda>r. \<exists>u \<in> set (seller_subscriptions x s). o_subscription r = Some (sub_pk u)) (t_orders s),
      sold_grants x s, filter (\<lambda>v. \<exists>g \<in> set (sold_grants x s). se_grant v = g_pk g) (t_secrets s))"

text \<open>The page views of the whole platform are counted for every seller.\<close>

definition traffic_of :: "seller \<Rightarrow> db \<Rightarrow> _" where
  "traffic_of x s =
     (clock s, filter (\<lambda>r. pe_event r = ''page_view'') (t_page_events s),
      filter (\<lambda>r. \<exists>pr \<in> set (seller_products x s). pe_product r = Some (pr_pk pr)) (t_page_events s))"

definition same_sales :: "seller \<Rightarrow> db \<Rightarrow> db \<Rightarrow> bool" where
  "same_sales x s t = (sales_of x s = sales_of x t \<and> buyers_of x s = buyers_of x t \<and> traffic_of x s = traffic_of x t)"

lemma same_salesD:
  assumes "same_sales x s t"
  shows "seller_products x s = seller_products x t" "own_plans x s = own_plans x t" "sells x s = sells x t"
    "seller_orders x s = seller_orders x t" "seller_subscriptions x s = seller_subscriptions x t"
    "filter (\<lambda>r. cp_seller r = Some (sel_pk x)) (t_coupons s) = filter (\<lambda>r. cp_seller r = Some (sel_pk x)) (t_coupons t)"
    "filter (\<lambda>r. ea_seller r = sel_pk x) (t_earnings s) = filter (\<lambda>r. ea_seller r = sel_pk x) (t_earnings t)"
    "filter (\<lambda>r. po_seller r = sel_pk x) (t_payouts s) = filter (\<lambda>r. po_seller r = sel_pk x) (t_payouts t)"
    "buyer x s = buyer x t" "sold_grants x s = sold_grants x t" "clock s = clock t"
  using assms by (auto simp: same_sales_def sales_of_def buyers_of_def traffic_of_def buyer_def [abs_def] set_eq_iff fun_eq_iff)

lemma same_sales_find:
  assumes same: "same_sales x s t"
  shows "buyer x t k \<Longrightarrow> find_by c_pk k (t_customers s) = find_by c_pk k (t_customers t)"
    "buyer x t k \<Longrightarrow> find_by w_customer k (t_wallets s) = find_by w_customer k (t_wallets t)"
    "g \<in> set (sold_grants x t) \<Longrightarrow> find_by se_grant (g_pk g) (t_secrets s) = find_by se_grant (g_pk g) (t_secrets t)"
    "r \<in> set (seller_subscriptions x t) \<Longrightarrow> filter (\<lambda>q. o_subscription q = Some (sub_pk r)) (t_orders s) = filter (\<lambda>q. o_subscription q = Some (sub_pk r)) (t_orders t)"
    "r \<in> set (seller_subscriptions x t) \<Longrightarrow> filter (\<lambda>g. g_sub g = Some (sub_pk r)) (t_grants s) = filter (\<lambda>g. g_sub g = Some (sub_pk r)) (t_grants t)"
proof -
  note own = same_salesD [OF same]
  have rows: "filter (\<lambda>c. buyer x t (c_pk c)) (t_customers s) = filter (\<lambda>c. buyer x t (c_pk c)) (t_customers t)"
    "filter (\<lambda>w. buyer x t (w_customer w)) (t_wallets s) = filter (\<lambda>w. buyer x t (w_customer w)) (t_wallets t)"
    "filter (\<lambda>v. \<exists>g \<in> set (sold_grants x t). se_grant v = g_pk g) (t_secrets s) = filter (\<lambda>v. \<exists>g \<in> set (sold_grants x t). se_grant v = g_pk g) (t_secrets t)"
    "filter (\<lambda>r. \<exists>u \<in> set (seller_subscriptions x t). o_subscription r = Some (sub_pk u)) (t_orders s)
      = filter (\<lambda>r. \<exists>u \<in> set (seller_subscriptions x t). o_subscription r = Some (sub_pk u)) (t_orders t)"
    using same by (simp_all add: same_sales_def buyers_of_def own)
  have grants: "filter (\<lambda>g. \<exists>u \<in> set (seller_subscriptions x t). g_sub g = Some (sub_pk u)) (t_grants s)
      = filter (\<lambda>g. \<exists>u \<in> set (seller_subscriptions x t). g_sub g = Some (sub_pk u)) (t_grants t)"
    using own(10) by (simp add: own(5) sold_grants_def)
  show "buyer x t k \<Longrightarrow> find_by c_pk k (t_customers s) = find_by c_pk k (t_customers t)"
    unfolding find_by_def by (rule find_agree [OF rows(1)]) auto
  show "buyer x t k \<Longrightarrow> find_by w_customer k (t_wallets s) = find_by w_customer k (t_wallets t)"
    unfolding find_by_def by (rule find_agree [OF rows(2)]) auto
  show "g \<in> set (sold_grants x t) \<Longrightarrow> find_by se_grant (g_pk g) (t_secrets s) = find_by se_grant (g_pk g) (t_secrets t)"
    unfolding find_by_def by (rule find_agree [OF rows(3)]) auto
  show "r \<in> set (seller_subscriptions x t) \<Longrightarrow> filter (\<lambda>q. o_subscription q = Some (sub_pk r)) (t_orders s) = filter (\<lambda>q. o_subscription q = Some (sub_pk r)) (t_orders t)"
    by (rule filter_agree [OF rows(4)]) auto
  show "r \<in> set (seller_subscriptions x t) \<Longrightarrow> filter (\<lambda>g. g_sub g = Some (sub_pk r)) (t_grants s) = filter (\<lambda>g. g_sub g = Some (sub_pk r)) (t_grants t)"
    by (rule filter_agree [OF grants]) auto
qed

lemma own_find:
  assumes "catalog_ok s" and "\<not> superuser_of x s" and "k \<in> pr_pk ` set (seller_products x s)"
  shows "find_by pr_pk k (t_products s) = find_by pr_pk k (seller_products x s)"
proof -
  obtain pr where pr: "pr \<in> set (seller_products x s)" "pr_pk pr = k" using assms(3) by auto
  have "distinct (map pr_pk (t_products s))" "distinct (map pr_pk (seller_products x s))"
    using assms(1) by (auto simp: catalog_ok_def seller_products_def intro: distinct_map_filter)
  moreover have "pr \<in> set (t_products s)" using pr(1) by (auto simp: seller_products_def split: if_splits)
  ultimately show ?thesis
    using pr find_by_distinct [of pr_pk "t_products s" pr] find_by_distinct [of pr_pk "seller_products x s" pr] by simp
qed

lemma own_plan_find:
  "sells x s k \<Longrightarrow> find_by pl_pk k (t_plans s) = find_by pl_pk k (own_plans x s)"
proof -
  have "find_by pl_pk k rows = Some pl \<Longrightarrow> P pl \<Longrightarrow> find_by pl_pk k (filter P rows) = Some pl" for P rows and pl :: plan
    by (induction rows) auto
  moreover assume "sells x s k"
  ultimately show ?thesis
    by (auto simp: sells_def own_plans_def split: option.splits)
qed

lemma sale_matches_alike:
  assumes same: "same_sales x s t" and ok: "catalog_ok s" "\<not> superuser_of x s" "catalog_ok t" "\<not> superuser_of x t"
    and sold: "sells x t p" "buyer x t cust"
  shows "sale_matches q cust p s = sale_matches q cust p t"
proof -
  note own = same_salesD [OF same]
  have plan: "find_by pl_pk p (t_plans s) = find_by pl_pk p (t_plans t)"
    using own_plan_find [of x s p] own_plan_find [of x t p] sold(1) by (simp add: own)
  have "find_by pr_pk (pl_product pl) (t_products s) = find_by pr_pk (pl_product pl) (t_products t)" if "find_by pl_pk p (t_plans t) = Some pl" for pl
    using own_find [OF ok(1,2)] own_find [OF ok(3,4)] sold(1) that by (auto simp: own sells_def)
  then show ?thesis
    using plan same_sales_find(1) [OF same sold(2)] by (auto simp: sale_matches_def customer_email_def split: option.split)
qed

lemma desk_page_alike:
  assumes "at_desk u x s" and "at_desk u x t" and "seen_alike s t (view x)"
  shows "seen_alike s t (desk_page E (Some u) view)"
proof -
  have "seen_alike s t (bnd (view x) (\<lambda>c. ret (Inr c)))" using assms(3) by (intro seen_alike_bnd seen_alike_basic)
  then show ?thesis
    using assms(1,2) by (simp add: desk_page_def at_desk_def seen_alike_def run_simps)
qed

lemma sold_rows:
  "r \<in> set (seller_orders x s) \<Longrightarrow> sells x s (o_plan r) \<and> buyer x s (o_customer r)"
  "u \<in> set (seller_subscriptions x s) \<Longrightarrow> sells x s (sub_plan u) \<and> buyer x s (sub_customer u)"
  by (auto simp: seller_orders_def seller_subscriptions_def buyer_def)

lemma newest_alike: "filter p xs = filter q xs \<Longrightarrow> newest_first p xs = newest_first q xs"
  by (simp add: newest_first_def)

lemma product_stats_alike:
  assumes same: "same_sales x s t" and ok: "catalog_ok s" "catalog_ok t"
  shows "product_stats (seller_products x t) s = product_stats (seller_products x t) t"
proof -
  note own = same_salesD [OF same]
  define paid_of where "paid_of pr v = filter (\<lambda>r. is_paid r \<and> (\<exists>pl \<in> set (t_plans v). pl_pk pl = o_plan r \<and> pl_product pl = pr_pk pr)) (t_orders v)" for pr :: product and v :: db
  have sold: "sells x v (o_plan r)" if "catalog_ok v" "pl \<in> set (t_plans v)" "pl_pk pl = o_plan r" "pl_product pl = pr_pk pr"
      "pr \<in> set (seller_products x v)" for v r pl pr
    using that find_by_distinct [of pl_pk "t_plans v" pl] by (auto simp: catalog_ok_def sells_def)
  have plan: "(\<exists>pl \<in> set (t_plans v). pl_pk pl = k \<and> pl_product pl = pr_pk pr) = (\<exists>pl \<in> set (own_plans x v). pl_pk pl = k \<and> pl_product pl = pr_pk pr)"
    if "pr \<in> set (seller_products x v)" for v k pr
    using that by (auto simp: own_plans_def)
  have "paid_of pr s = paid_of pr t" if pr: "pr \<in> set (seller_products x t)" for pr
  proof -
    have "filter (\<lambda>r. sells x s (o_plan r)) (t_orders s) = filter (\<lambda>r. sells x t (o_plan r)) (t_orders t)"
      using own(4) by (simp add: seller_orders_def)
    then have "filter (\<lambda>r. is_paid r \<and> (\<exists>pl \<in> set (own_plans x t). pl_pk pl = o_plan r \<and> pl_product pl = pr_pk pr)) (t_orders s)
        = filter (\<lambda>r. is_paid r \<and> (\<exists>pl \<in> set (own_plans x t). pl_pk pl = o_plan r \<and> pl_product pl = pr_pk pr)) (t_orders t)"
      by (rule filter_agree)
        (use pr sold [OF ok(2)] in \<open>auto simp: own(3) own_plans_def\<close>)
    then show ?thesis
      using pr plan [of pr s] plan [of pr t] by (simp add: paid_of_def own(1,2))
  qed
  then show ?thesis
    unfolding product_stats_def paid_of_def by (intro arg_cong [of _ _ concat] map_cong) (simp_all add: Let_def)
qed

lemma counting_pages_alike:
  assumes s: "at_desk u x s" and t: "at_desk u x t" and same: "same_sales x s t"
  shows "seen_alike s t (desk_home E (Some u))" "seen_alike s t (desk_products E (Some u))" "seen_alike s t (desk_vouchers E (Some u))"
    "seen_alike s t (earnings E (Some u))"
proof -
  note own = same_salesD [OF same]
  show "seen_alike s t (desk_home E (Some u))"
    unfolding desk_home_def
    by (intro desk_page_alike [OF s t] seen_alike_gets) (simp add: daily_totals_def own Let_def)
  show "seen_alike s t (desk_products E (Some u))"
    unfolding desk_products_def
    by (intro desk_page_alike [OF s t] seen_alike_gets) (simp add: own product_stats_alike [OF same at_desk_keys(2) [OF s] at_desk_keys(2) [OF t]])
  show "seen_alike s t (desk_vouchers E (Some u))" "seen_alike s t (earnings E (Some u))"
    unfolding desk_vouchers_def earnings_def newest_first_def
    by (intro desk_page_alike [OF s t] seen_alike_gets; simp add: own Let_def)+
qed

lemma searching_pages_alike:
  assumes s: "at_desk u x s" and t: "at_desk u x t" and same: "same_sales x s t"
  shows "seen_alike s t (desk_orders E (Some u) st q)" "seen_alike s t (desk_subscriptions E (Some u) st q)"
proof -
  note own = same_salesD [OF same] and matches = sale_matches_alike [OF same at_desk_keys(2,3) [OF s] at_desk_keys(2,3) [OF t]]
  have orders: "filter (\<lambda>r. a r \<and> (b \<or> sale_matches k (o_customer r) (o_plan r) s)) (seller_orders x t)
      = filter (\<lambda>r. a r \<and> (b \<or> sale_matches k (o_customer r) (o_plan r) t)) (seller_orders x t)" for a b k
    by (rule filter_cong [OF refl]) (use sold_rows(1) [of _ x t] matches in auto)
  have subs: "filter (\<lambda>r. a r \<and> (b \<or> sale_matches k (sub_customer r) (sub_plan r) s)) (seller_subscriptions x t)
      = filter (\<lambda>r. a r \<and> (b \<or> sale_matches k (sub_customer r) (sub_plan r) t)) (seller_subscriptions x t)" for a b k
    by (rule filter_cong [OF refl]) (use sold_rows(2) [of _ x t] matches in auto)
  show "seen_alike s t (desk_orders E (Some u) st q)"
    unfolding desk_orders_def newest_first_def Let_def by (intro desk_page_alike [OF s t] seen_alike_gets) (simp only: own orders)
  show "seen_alike s t (desk_subscriptions E (Some u) st q)"
    unfolding desk_subscriptions_def newest_first_def Let_def by (intro desk_page_alike [OF s t] seen_alike_gets) (simp only: own subs)
qed

lemma own_events_alike:
  assumes "same_sales x s t"
  shows "own_events x ev since s = own_events x ev since t"
proof -
  have "filter (\<lambda>r. \<exists>pr \<in> set (seller_products x s). pe_product r = Some (pr_pk pr)) (t_page_events s)
      = filter (\<lambda>r. \<exists>pr \<in> set (seller_products x t). pe_product r = Some (pr_pk pr)) (t_page_events t)"
    using assms by (simp add: same_sales_def traffic_of_def)
  then show ?thesis
    unfolding own_events_def same_salesD(1) [OF assms] by (rule filter_agree) auto
qed

lemma page_views_alike:
  assumes "same_sales x s t"
  shows "filter (\<lambda>r. since \<le> pe_created r \<and> pe_event r = ''page_view'') (t_page_events s)
    = filter (\<lambda>r. since \<le> pe_created r \<and> pe_event r = ''page_view'') (t_page_events t)"
proof (rule filter_agree)
  show "filter (\<lambda>r. pe_event r = ''page_view'') (t_page_events s) = filter (\<lambda>r. pe_event r = ''page_view'') (t_page_events t)"
    using assms by (simp add: same_sales_def traffic_of_def)
qed auto

lemma detail_pages_alike:
  assumes s: "at_desk u x s" and t: "at_desk u x t" and same: "same_sales x s t"
  shows "seen_alike s t (analytics E (Some u) days)" "seen_alike s t (desk_order_detail E (Some u) k)"
    "seen_alike s t (subscription_detail E (Some u) k)"
proof -
  note own = same_salesD [OF same] and finds = same_sales_find [OF same]
  have "event_product_name r s = event_product_name r t" if "r \<in> set (own_events x ev since t)" for r ev since
    using that own_find [OF at_desk_keys(2,3) [OF s]] own_find [OF at_desk_keys(2,3) [OF t]]
    by (auto simp: own_events_def event_product_name_def own(1))
  then have top: "top_products (own_events x ev since t) s = top_products (own_events x ev since t) t" for ev since
    by (simp add: top_products_def cong: map_cong)
  show "seen_alike s t (analytics E (Some u) days)"
    unfolding analytics_def
    by (intro desk_page_alike [OF s t] seen_alike_bnd)
      (auto split: option.split intro!: seen_alike_gets simp: Let_def own(11) own_events_alike [OF same] page_views_alike [OF same] top)
  have find: "find (\<lambda>r. o_pk r = k \<and> sells x s (o_plan r)) (t_orders s) = find (\<lambda>r. o_pk r = k \<and> sells x t (o_plan r)) (t_orders t)"
    unfolding own(3) by (rule find_agree [OF own(4) [unfolded seller_orders_def]]) (simp_all add: own(3))
  have plan: "seen_alike s t (plan_get (o_plan r))" if "sells x t (o_plan r)" for r :: order
    using own_plan_find [of x s "o_plan r"] own_plan_find [of x t "o_plan r"] that own(2,3)
    unfolding plan_get_def by (intro seen_alike_bnd seen_alike_gets seen_alike_basic) simp
  have wallet: "find_by w_customer (o_customer r) (t_wallets s) = find_by w_customer (o_customer r) (t_wallets t)"
    if "r \<in> set (t_orders t)" "sells x t (o_plan r)" for r
    using that by (intro finds(2)) (auto simp: buyer_def seller_orders_def)
  show "seen_alike s t (desk_order_detail E (Some u) k)"
    unfolding desk_order_detail_def or_404_def
    by (intro desk_page_alike [OF s t] seen_alike_bnd seen_alike_gets find seen_alike_basic)
      (auto simp: run_simps wallet split: option.splits dest!: find_SomeD intro!: plan)
  have sub: "find (\<lambda>r. sub_pk r = k \<and> sells x s (sub_plan r)) (t_subs s) = find (\<lambda>r. sub_pk r = k \<and> sells x t (sub_plan r)) (t_subs t)"
    unfolding own(3) by (rule find_agree [OF own(5) [unfolded seller_subscriptions_def]]) (simp_all add: own(3))
  have data: "map (build_grant_data E s) (filter (\<lambda>g. g_sub g = Some (sub_pk r)) (t_grants s))
      = map (build_grant_data E t) (filter (\<lambda>g. g_sub g = Some (sub_pk r)) (t_grants t))" if "r \<in> set (seller_subscriptions x t)" for r
  proof -
    have "build_grant_data E s g = build_grant_data E t g" if g: "g \<in> set (t_grants t)" "g_sub g = Some (sub_pk r)" for g
    proof -
      have "g \<in> set (sold_grants x t)" using g \<open>r \<in> _\<close> by (auto simp: sold_grants_def)
      from finds(3) [OF this] show ?thesis unfolding build_grant_data_def by (simp only:)
    qed
    then show ?thesis using finds(5) [OF that] by simp
  qed
  have row: "r \<in> set (seller_subscriptions x t) \<and> sub_pk r = k"
    if "fst (or_raise (find (\<lambda>r. sub_pk r = k \<and> sells x t (sub_plan r)) (t_subs t)) Http404 t) = Inr r" for r
    using that by (auto simp: run_simps seller_subscriptions_def split: option.splits dest!: find_SomeD)
  have "(let related = filter (\<lambda>r. o_subscription r = Some k) (t_orders s)
       in \<lparr>sd_sub = r, sd_orders = related, sd_total_revenue = revenue_of related,
           sd_days_remaining = (sub_period_end r - clock s) div us_day, sd_expired = (sub_period_end r < clock s),
           sd_grants = map (build_grant_data E s) (filter (\<lambda>g. g_sub g = Some k) (t_grants s))\<rparr>)
    = (let related = filter (\<lambda>r. o_subscription r = Some k) (t_orders t)
       in \<lparr>sd_sub = r, sd_orders = related, sd_total_revenue = revenue_of related,
           sd_days_remaining = (sub_period_end r - clock t) div us_day, sd_expired = (sub_period_end r < clock t),
           sd_grants = map (build_grant_data E t) (filter (\<lambda>g. g_sub g = Some k) (t_grants t))\<rparr>)"
    if "fst (or_raise (find (\<lambda>r. sub_pk r = k \<and> sells x t (sub_plan r)) (t_subs t)) Http404 t) = Inr r" for r
    using row [OF that] finds(4) [of r] data [of r] by (simp add: own(11))
  then show "seen_alike s t (subscription_detail E (Some u) k)"
    unfolding subscription_detail_def seller_subscription_def or_404_def
    by (intro desk_page_alike [OF s t] seen_alike_bnd [OF seen_alike_bnd] seen_alike_gets sub seen_alike_basic) (simp add: run_simps)
qed


text \<open>The other seller of the shared database earns and is paid out; the page of the first is the same.\<close>

definition busy_db :: db where
  "busy_db = shared_db\<lparr>t_wallets := [\<lparr>w_pk = 20, w_customer = 77, w_balance = 500000\<rparr>],
     t_earnings := [\<lparr>ea_pk = 21, ea_seller = 8, ea_order = 22, ea_gross = 90000, ea_commission = 0, ea_net = 90000, ea_status = Earning_PENDING\<rparr>],
     t_payouts := [\<lparr>po_pk = 23, po_seller = 8, po_amount = 90000, po_bank_name = ''B'', po_account_number = ''1'', po_account_name = ''X'',
       po_status = Payout_PENDING, po_processed = None\<rparr>]\<rparr>"

lemma busy_desk: "at_desk example_seller_user desk_seller busy_db"
  by (auto simp: at_desk_def stores_ok_def catalog_ok_def courses_ok_def superuser_of_def busy_db_def shared_db_def desk_seller_def
      other_product_def example_store_simps)


section \<open>The days of the chart\<close>

lemma sum_days:
  "sum_list (map (\<lambda>i. sum_list (map h (filter (\<lambda>r. p r \<and> w \<le> f r \<and> f r = w + int i) rows))) [0..<n])
     = sum_list (map h (filter (\<lambda>r. p r \<and> w \<le> f r \<and> f r < w + int n) rows))" for h :: "'a \<Rightarrow> int"
proof (induction n)
  case 0
  have "filter (\<lambda>r. p r \<and> w \<le> f r \<and> f r < w) rows = []" by (simp add: filter_empty_conv)
  then show ?case by simp
next
  case (Suc n)
  have "sum_list (map h (filter (\<lambda>r. p r \<and> w \<le> f r \<and> f r < w + int n) rows)) + sum_list (map h (filter (\<lambda>r. p r \<and> w \<le> f r \<and> f r = w + int n) rows))
      = sum_list (map h (filter (\<lambda>r. p r \<and> w \<le> f r \<and> f r < w + int (Suc n)) rows))"
    by (induction rows) auto
  with Suc show ?case by simp
qed

text \<open>
  What the seven days of the seller's chart count.  The week's total is the sum of the paid orders
  whose date in Jakarta is one of the seven days that end with today's date in UTC.  From midnight to
  seven in the morning in Jakarta that date is yesterday's: the sales made since midnight are then in
  none of the days, however many there are.
\<close>

theorem home_chart_days:
  assumes "at_desk u x s"
  shows "\<exists>c. desk_home E (Some u) s = (Inr (Inr c), s)
     \<and> map fst (dh_chart_days c) = map (\<lambda>i. utc_day (clock s) - 6 + int i) [0..<7]
     \<and> dh_week_total c = sum_list (map o_amount (filter (\<lambda>r. is_paid r \<and> utc_day (clock s) - 6 \<le> local_day (o_created r)
          \<and> local_day (o_created r) \<le> utc_day (clock s)) (seller_orders x s)))
     \<and> (local_day (clock s) \<noteq> utc_day (clock s) \<longrightarrow> local_day (clock s) \<notin> fst ` set (dh_chart_days c))"
proof -
  let ?w = "utc_day (clock s) - 6"
  have days: "map fst (daily_totals x ?w s) = map (\<lambda>i. ?w + int i) [0..<7]"
    by (simp add: daily_totals_def Let_def comp_def)
  have "utc_day (clock s) \<le> local_day (clock s)"
    unfolding utc_day_def local_day_def by (rule zdiv_mono1) (simp_all add: us_hour_def us_day_def us_second_def)
  moreover have "fst ` set (daily_totals x ?w s) = (\<lambda>i. ?w + int i) ` {0..<7}"
    using arg_cong [OF days, of set] by (simp only: set_map set_upt)
  ultimately have "local_day (clock s) \<noteq> utc_day (clock s) \<Longrightarrow> local_day (clock s) \<notin> fst ` set (daily_totals x ?w s)"
    by auto
  moreover have "sum_list (map snd (daily_totals x ?w s)) = sum_list (map o_amount (filter (\<lambda>r. is_paid r \<and> ?w \<le> local_day (o_created r)
      \<and> local_day (o_created r) < ?w + int 7) (seller_orders x s)))"
    using sum_days [where f = "\<lambda>r. local_day (o_created r)" and p = is_paid and h = o_amount and w = ?w and n = 7 and rows = "seller_orders x s"]
    by (simp add: daily_totals_def Let_def comp_def)
  moreover have "local_day t < ?w + int 7 \<longleftrightarrow> local_day t \<le> utc_day (clock s)" for t by auto
  ultimately show ?thesis
    using assms days by (simp add: desk_home_def desk_page_def at_desk_def run_simps Let_def)
qed

theorem home_chart_days_witness:
  "\<exists>c. desk_home demo_env (Some example_seller_user) (shared_db\<lparr>clock := 18 * us_hour\<rparr>) = (Inr (Inr c), shared_db\<lparr>clock := 18 * us_hour\<rparr>)
     \<and> 1 \<notin> fst ` set (dh_chart_days c)"
proof -
  have desk: "at_desk example_seller_user desk_seller (shared_db\<lparr>clock := 18 * us_hour\<rparr>)"
    by (auto simp: at_desk_def stores_ok_def catalog_ok_def courses_ok_def superuser_of_def shared_db_def desk_seller_def
        other_product_def example_store_simps)
  have "local_day (18 * us_hour) = 1" "utc_day (18 * us_hour) = 0"
    by (simp_all add: local_day_def utc_day_def us_hour_def us_day_def us_second_def)
  with home_chart_days [OF desk, of demo_env] show ?thesis by auto
qed

end
