(* ===== verification/System.thy ===== *)
theory System
  imports Site Tasks Market Account_Pages Console_Pages Desk_Pages
begin

text \<open>
  The whole site as a transition system: whoever sends whatever request, the webhooks of the gateway and
  of the WhatsApp provider, the activation API, the scheduled jobs, the workers and the payout actions of
  the back office, in any order.  Pages that neither write nor log anything (search, the receipt, the lists of
  the console) are left out; so are the row editors of the Django admin and the management commands.
\<close>

section \<open>Every way into the program\<close>

datatype shop_request =
    Shop_landing
  | Shop_page string bool
  | Shop_product string form
  | Shop_checkout nat "form option" "string option" form string
  | Shop_receipt string string
  | Shop_invoice string string
  | Shop_pending form
  | Shop_topup "form option"
  | Shop_contact nat "form option"
  | Shop_cart
  | Shop_cart_add nat form
  | Shop_cart_remove nat
  | Shop_cart_update nat form
  | Shop_cart_checkout "form option" "string option" form string
  | Shop_cart_receipt string

text \<open>\<open>pdf\<close> renders invoices and \<open>wa\<close> is the column of WhatsApp numbers of products, as in \<open>Storefront\<close>.\<close>

fun shop :: "env \<Rightarrow> (order \<Rightarrow> string option) \<Rightarrow> (nat \<Rightarrow> string) \<Rightarrow> visitor \<Rightarrow> shop_request \<Rightarrow> reply prog" where
  "shop E pdf wa v Shop_landing = bnd landing (\<lambda>_. ret (Page ''storefront/landing.html'', v))"
| "shop E pdf wa v (Shop_page slug preview_wanted) = store_page_view v slug preview_wanted"
| "shop E pdf wa v (Shop_product slug f) = product_detail v slug f"
| "shop E pdf wa v (Shop_checkout k post proof params path) = checkout_plan E v k post proof params path"
| "shop E pdf wa v (Shop_receipt token key) = bnd (order_status_view E (vs_user v) token key) (\<lambda>r. ret (r, v))"
| "shop E pdf wa v (Shop_invoice token key) = bnd (order_invoice_pdf E pdf (vs_user v) token key) (\<lambda>r. ret (r, v))"
| "shop E pdf wa v (Shop_pending f) = bnd (order_pending (vs_user v) f) (\<lambda>r. ret (r, v))"
| "shop E pdf wa v (Shop_topup post) = bnd (topup_view E (vs_user v) post) (\<lambda>r. ret (r, v))"
| "shop E pdf wa v (Shop_contact k post) = bnd (contact wa k post) (\<lambda>r. ret (r, v))"
| "shop E pdf wa v Shop_cart = cart_view v"
| "shop E pdf wa v (Shop_cart_add k f) = cart_add v k f"
| "shop E pdf wa v (Shop_cart_remove k) = cart_remove v k"
| "shop E pdf wa v (Shop_cart_update k f) = cart_update v k f"
| "shop E pdf wa v (Shop_cart_checkout post proof params path) = cart_checkout_view E v post proof params path"
| "shop E pdf wa v (Shop_cart_receipt key) = bnd (cart_checkout_receipt (vs_user v) key) (\<lambda>r. ret (r, v))"

datatype console_request =
    Console_credit nat form
  | Console_extend nat form
  | Console_lead nat "form option"
  | Console_refund_approve nat form
  | Console_refund_reject nat form
  | Console_settings "form option"

fun console :: "env \<Rightarrow> user option \<Rightarrow> console_request \<Rightarrow> response prog" where
  "console E who (Console_credit k f) = manual_credit E who k f"
| "console E who (Console_extend k f) = extend_subscription E who k f"
| "console E who (Console_lead k post) = lead_detail who k post"
| "console E who (Console_refund_approve k f) = refund_approve who k f"
| "console E who (Console_refund_reject k f) = refund_reject who k f"
| "console E who (Console_settings post) = settings_view who post"

datatype api_request =
    Api_activate string string string
  | Api_validate string string string
  | Api_deactivate string string
  | Api_authorize string string string string string

fun api :: "env \<Rightarrow> string option \<Rightarrow> (string \<times> string) list \<Rightarrow> api_request \<Rightarrow> unit prog" where
  "api E secret meta (Api_activate key fp name) = bnd (api_activate E secret meta key fp name) (\<lambda>_. ret ())"
| "api E secret meta (Api_validate key fp token) = bnd (api_validate E secret meta key fp token) (\<lambda>_. ret ())"
| "api E secret meta (Api_deactivate key fp) = bnd (api_deactivate secret key fp) (\<lambda>_. ret ())"
| "api E secret meta (Api_authorize key fp token operation h) = bnd (api_operation_authorize E secret meta key fp token operation h) (\<lambda>_. ret ())"

datatype job =
    Job_renewals nat
  | Job_grace nat
  | Job_expirations nat
  | Job_poll
  | Job_reminders nat
  | Job_handlers "event list"
  | Job_task nat queued
  | Job_promo wording

text \<open>Handlers run after a commit, each in its own \<open>try\<close>; \<open>nat\<close> counts the retries of a task.\<close>

fun run_job :: "env \<Rightarrow> job \<Rightarrow> unit prog" where
  "run_job E (Job_renewals n) = renew_subscriptions E n"
| "run_job E (Job_grace n) = expire_grace_subscriptions E n"
| "run_job E (Job_expirations n) = cancel_expired_subscriptions E n"
| "run_job E Job_poll = bnd poll_pending_topups (\<lambda>_. ret ())"
| "run_job E (Job_reminders n) = send_renewal_reminders E n"
| "run_job E (Job_handlers evs) = run_handlers E evs"
| "run_job E (Job_task n task) = run_queued E n task"
| "run_job E (Job_promo text) = bnd (broadcast_promo E text) (\<lambda>_. ret ())"

datatype action =
    Visit visitor shop_request
  | Account "user option" dash_request
  | See_account "user option" account_request
  | Desk "user option" desk_request
  | See_desk "user option" desk_view
  | Apply "user option" "form option"
  | Onboard "user option" "wizard_form option"
  | Confirm_payment "user option" nat
  | Reject_payment "user option" nat form
  | Operate "user option" console_request
  | Export "user option" string
  | Back_office payout_action
  | Sumopod "(string \<times> string) list" string
  | Kirimchat "(string \<times> string) list" string
  | Unsubscribe string "string option"
  | Api "string option" "(string \<times> string) list" api_request
  | Job job

fun perform :: "env \<Rightarrow> (order \<Rightarrow> string option) \<Rightarrow> (nat \<Rightarrow> string) \<Rightarrow> action \<Rightarrow> unit prog" where
  "perform E pdf wa (Visit v req) = bnd (shop E pdf wa v req) (\<lambda>_. ret ())"
| "perform E pdf wa (Account who req) = bnd (dashboard E who req) (\<lambda>_. ret ())"
| "perform E pdf wa (See_account who req) = bnd (account (\<lambda>ord _. pdf ord) who req) (\<lambda>_. ret ())"
| "perform E pdf wa (See_desk who req) = bnd (desk_show E who req) (\<lambda>_. ret ())"
| "perform E pdf wa (Export who name) = bnd (export_csv who name) (\<lambda>_. ret ())"
| "perform E pdf wa (Back_office a) = back_office a"
| "perform E pdf wa (Desk who req) = bnd (desk E who req) (\<lambda>_. ret ())"
| "perform E pdf wa (Apply who post) = bnd (apply_view E who post) (\<lambda>_. ret ())"
| "perform E pdf wa (Onboard who post) = bnd (onboarding E who post) (\<lambda>_. ret ())"
| "perform E pdf wa (Confirm_payment who k) = bnd (order_confirm_payment E who k) (\<lambda>_. ret ())"
| "perform E pdf wa (Reject_payment who k f) = bnd (order_reject_payment E who k f) (\<lambda>_. ret ())"
| "perform E pdf wa (Operate who req) = bnd (console E who req) (\<lambda>_. ret ())"
| "perform E pdf wa (Sumopod headers body) = bnd (sumopod_webhook E headers body) (\<lambda>_. ret ())"
| "perform E pdf wa (Kirimchat headers raw) = bnd (kirimchat_webhook E headers raw) (\<lambda>_. ret ())"
| "perform E pdf wa (Unsubscribe token scope) = bnd (unsubscribe E token scope) (\<lambda>_. ret ())"
| "perform E pdf wa (Api secret meta req) = api E secret meta req"
| "perform E pdf wa (Job j) = run_job E j"

text \<open>
  One step: an allowed action runs to its end, or an exception ends it and what it committed before
  stays; or time passes.
\<close>

inductive step :: "(db \<Rightarrow> action \<Rightarrow> bool) \<Rightarrow> env \<Rightarrow> (order \<Rightarrow> string option) \<Rightarrow> (nat \<Rightarrow> string) \<Rightarrow> db \<Rightarrow> db \<Rightarrow> bool"
  for allowed E pdf wa where
  act: "allowed s a \<Longrightarrow> step allowed E pdf wa s (snd (perform E pdf wa a s))"
| tick: "0 \<le> d \<Longrightarrow> step allowed E pdf wa s (s\<lparr>clock := clock s + d\<rparr>)"

text \<open>What may bring money in: a delivery of the gateway, a credit or a refund by an operator.\<close>

fun pays_in :: "action \<Rightarrow> bool" where
  "pays_in (Sumopod headers body) = True"
| "pays_in (Operate who (Console_credit k f)) = True"
| "pays_in (Operate who (Console_refund_approve k f)) = True"
| "pays_in a = False"

inductive_cases stepE: "step allowed E pdf wa s t"

lemma one_step: "allowed s a \<Longrightarrow> (step allowed E pdf wa)\<^sup>*\<^sup>* s (snd (perform E pdf wa a s))"
  by (rule r_into_rtranclp) (rule step.act)

section \<open>Invariants of every run\<close>

context public_frame
begin

lemma landing_pres [pres_intros]: "pres I landing"
  unfolding landing_def by (intro pres_intros)

lemma account_view_pres: "pres I (account_view pdf see u c)"
  by (cases see) (auto simp: home_def wallet_view_def ledger_partial_def products_def devices_def subscriptions_def subscription_row_def
      invoices_def invoice_detail_def invoice_pdf_download_def render_invoice_pdf_def support_def profile_page_def course_page_def
      course_access_def renewal_forecast_def my_paid_order_def intro!: pres_intros)

lemma account_pres [pres_intros]: "pres I (account pdf who see)"
  unfolding account_def account_page_def get_or_create_customer_def Let_def by (intro pres_intros account_view_pres)

lemma desk_page_pres: "(\<And>x. pres I (body x)) \<Longrightarrow> pres I (shown_as f (desk_page E who body))"
  unfolding shown_as_def desk_page_def superuser_seller_def auto_create_seller_def Let_def by (intro pres_intros)

lemma desk_show_pres [pres_intros]: "pres I (desk_show E who see)"
  by (cases see) (auto simp: desk_home_def desk_products_def desk_orders_def desk_order_detail_def desk_vouchers_def analytics_def
      earnings_def desk_subscriptions_def subscription_detail_def seller_subscription_def Let_def intro!: desk_page_pres pres_intros)

lemma export_pres [pres_intros]: "pres I (export_csv who name)"
  unfolding export_csv_def staff_page_def by (intro pres_intros)

lemma shop_pres [pres_intros]: "pres I (shop E pdf wa v req)"
  by (cases req) (simp_all, (intro pres_intros)+)

lemma api_request_pres [pres_intros]: "pres I (api E secret meta areq)"
  by (cases areq) (simp_all, (intro pres_intros)+)

lemma send_whatsapp_pres [pres_intros]: "pres I (send_whatsapp E number text tpl)"
proof -
  have "pres I (console_send number text tpl)" "pres I (fonnte_send E number text tpl)" "pres I (kirimchat_send E number text tpl)" for number
    unfolding console_send_def fonnte_send_def kirimchat_send_def Let_def by (intro pres_intros)+
  then have "pres I ((case map_of (backends E) key of None \<Rightarrow> console_send | Some b \<Rightarrow> b) number text tpl)" for key number
    by (simp add: backends_def)
  then show ?thesis
    unfolding send_whatsapp_def get_backend_def bnd_assoc bnd_ret by (intro pres_intros)
qed

lemma retry_pres [pres_intros]: "pres I (retry E n e)"
  unfolding retry_def by (intro pres_intros)

lemma deliveries_pres [pres_intros]:
  "pres I (deliver_whatsapp E n to_number text k tpl)" "pres I (deliver_email E n to_email text)"
  "pres I (deliver_order_confirmation_email E n to_email ord)" "pres I (deliver_topup_confirmation_email E n to_email amount bonus cust)"
  "pres I (broadcast_promo E text)"
  unfolding deliver_whatsapp_def deliver_email_def deliver_order_confirmation_email_def deliver_topup_confirmation_email_def
    broadcast_promo_def order_get_def grants_of_order_def build_order_receipt_token_def mail_or_raise_def finish_wa_delivery_def Let_def
  by (intro pres_intros)+

lemma run_queued_pres [pres_intros]: "pres I (run_queued E n task)"
  by (cases task) (simp_all add: deliveries_pres)

lemma job_wrappers_pres [pres_intros]:
  "pres I (renew_subscriptions E n)" "pres I (cancel_expired_subscriptions E n)" "pres I (expire_grace_subscriptions E n)"
  unfolding renew_subscriptions_def cancel_expired_subscriptions_def expire_grace_subscriptions_def by (intro pres_intros)+

lemma run_job_pres [pres_intros]: "pres I (run_job E j)"
  by (cases j) (simp_all, (intro pres_intros)+)

lemma perform_public: "\<not> pays_in a \<Longrightarrow> pres I (perform E pdf wa a)"
  by (cases a rule: pays_in.cases) (simp_all, (intro pres_intros)+)

end

context site_frame
begin

lemma perform_pres: "pres I (perform E pdf wa a)"
proof (cases "pays_in a")
  case True
  then show ?thesis by (cases a rule: pays_in.cases) (simp_all, (intro pres_intros)+)
next
  case False
  then show ?thesis by (rule perform_public)
qed

lemma step_pres: "step allowed E pdf wa s t \<Longrightarrow> I s \<Longrightarrow> I t"
  by (erule stepE) (auto intro: presD [OF perform_pres] frame simp: view_core)

lemma run_pres: "(step allowed E pdf wa)\<^sup>*\<^sup>* s t \<Longrightarrow> I s \<Longrightarrow> I t"
  by (induction rule: rtranclp_induct) (auto intro: step_pres)

end

text \<open>
  C1.  The ledger is sound whatever happens.  From a consistent database, no sequence of requests,
  webhooks, API calls, jobs and handlers, by whomever and with whatever input, leads to a wallet
  whose balance is negative or not the sum of its entries, to two entries with one reference, or to
  a ledger in which an entry was changed or removed.
\<close>

theorem ledger_always_sound:
  assumes "ledger_ok s" and "(step (\<lambda>_ _. True) E pdf wa)\<^sup>*\<^sup>* s t"
  shows "ledger_ok t \<and> (\<exists>M. t_ledger t = t_ledger s @ M)"
  using ledger.run_pres [OF assms(2,1)] history.run_pres [OF assms(2), of "t_ledger s"] by simp

theorem ledger_always_sound_witness:
  "\<forall>a. ledger_ok (snd (perform demo_env (\<lambda>_. None) (\<lambda>_. []) a example_wallet_db))"
  using ledger_always_sound [OF example_wallet_ok one_step] by blast





section \<open>Where money comes from\<close>

text \<open>A delivery the gateway signed, and a superuser's credit or refund.\<close>

fun authorised :: "env \<Rightarrow> int \<Rightarrow> action \<Rightarrow> bool" where
  "authorised E t (Sumopod headers body) = accepted E headers body t"
| "authorised E t (Operate who req) = (case who of None \<Rightarrow> False | Some u \<Rightarrow> u_superuser u)"
| "authorised E t a = False"

lemma unauthorised_keeps:
  assumes "\<not> authorised E (clock s) a" and "pays_in a"
  shows "snd (perform E pdf wa a s) = s"
proof (cases a rule: pays_in.cases)
  case (1 headers body)
  have "wp (sumopod_webhook E headers body) (\<lambda>_ t. t = s) (\<lambda>_ t. t = s) s"
    by (rule wp_mono [OF sumopod_webhook_wp]) (use assms(1) 1 in auto)
  then show ?thesis
    by (simp add: 1 wp_def run_simps split: prod.splits sum.splits)
next
  case (2 who k f)
  with assms(1) show ?thesis
    by (cases who) (simp_all add: manual_credit_def superuser_required_def run_simps)
next
  case (3 who k f)
  with assms(1) show ?thesis
    by (cases who) (simp_all add: refund_approve_def superuser_required_def run_simps)
qed (use assms(2) in simp_all)

lemma unauthorised_spends:
  assumes "\<not> authorised E (clock s) a" and "only_spent L s"
  shows "only_spent L (snd (perform E pdf wa a s))"
  using unauthorised_keeps [OF assms(1)] assms(2) presD [OF spent.perform_public] by (cases "pays_in a") auto

lemma unauthorised_run:
  assumes "(step (\<lambda>s a. \<not> authorised E (clock s) a) E pdf wa)\<^sup>*\<^sup>* s t" and "only_spent L s"
  shows "only_spent L t"
  using assms
  by (induction rule: rtranclp_induct) (auto elim!: stepE intro: unauthorised_spends only_spent_same)

lemma wallet_sum_concat: "wallet_sum w (L @ M) = wallet_sum w L + wallet_sum w M"
  by (simp add: wallet_sum_def)

lemma wallet_sum_negative: "\<forall>e \<in> set M. le_amount e < 0 \<Longrightarrow> wallet_sum w M \<le> 0"
  by (induction M) (auto simp: wallet_sum_def)

lemma balance_of_sum: "ledger_ok s \<Longrightarrow> balance_of k s = Some b \<Longrightarrow> b = wallet_sum k (t_ledger s)"
  by (auto simp: ledger_ok_def balance_of_def dest!: find_by_SomeD)

text \<open>
  C2.  Money comes from the gateway or a superuser.  As long as no delivery that passes the signature
  checks reaches the webhook and no superuser uses the console, every run, whatever customers,
  sellers, operators, strangers, jobs and the rest of the world send, only adds negative entries to the
  ledger and leaves no wallet with more than it had.
\<close>

theorem money_needs_authority:
  assumes "ledger_ok s" and "(step (\<lambda>s a. \<not> authorised E (clock s) a) E pdf wa)\<^sup>*\<^sup>* s t"
  shows "\<exists>M. t_ledger t = t_ledger s @ M \<and> (\<forall>e \<in> set M. le_amount e < 0)
     \<and> (\<forall>k b b'. balance_of k s = Some b \<and> balance_of k t = Some b' \<longrightarrow> b' \<le> b)"
proof -
  obtain M where M: "t_ledger t = t_ledger s @ M" "\<forall>e \<in> set M. le_amount e < 0"
    using unauthorised_run [OF assms(2), of "t_ledger s"] by (auto simp: only_spent_def)
  have "ledger_ok t"
    by (rule ledger.run_pres [OF assms(2,1)])
  then have "b' \<le> b" if "balance_of k s = Some b" "balance_of k t = Some b'" for k b b'
    using balance_of_sum [OF assms(1) that(1)] balance_of_sum [OF _ that(2)] wallet_sum_negative [OF M(2), of k]
    by (simp add: M(1) wallet_sum_concat)
  with M show ?thesis by blast
qed

theorem money_needs_authority_witness:
  "\<forall>v req. (case balance_of 1 (snd (perform demo_env (\<lambda>_. None) (\<lambda>_. []) (Visit v req) example_wallet_db)) of
     None \<Rightarrow> True | Some b \<Rightarrow> b \<le> 100)"
proof (intro allI)
  fix v req
  let ?t = "snd (perform demo_env (\<lambda>_. None) (\<lambda>_. []) (Visit v req) example_wallet_db)"
  have "balance_of 1 example_wallet_db = Some 100"
    by (simp add: balance_of_def example_wallet_db_def)
  moreover have "(step (\<lambda>s a. \<not> authorised demo_env (clock s) a) demo_env (\<lambda>_. None) (\<lambda>_. []))\<^sup>*\<^sup>* example_wallet_db ?t"
    by (rule one_step) simp
  ultimately have "\<And>b. balance_of 1 ?t = Some b \<Longrightarrow> b \<le> 100"
    using money_needs_authority [OF example_wallet_ok] by blast
  then show "case balance_of 1 ?t of None \<Rightarrow> True | Some b \<Rightarrow> b \<le> 100"
    by (simp split: option.split)
qed

end
