(* ===== verification/Bank.thy ===== *)
theory Bank
  imports Wallet
begin

text \<open>
  The contract of the wallet service (\<open>wallet/services.py\<close>), stated without rows, keys or locks: a
  bank has the funds of each account and remembers each reference with what it posted.  The two
  operations of the code refine the one operation of the bank.
\<close>

record bank =
  funds :: "nat \<Rightarrow> int option"
  postings :: "string \<Rightarrow> (nat \<times> string \<times> int) option"

text \<open>
  Post the signed \<open>amount\<close> under \<open>ref\<close>: a reference known for the same account, type and direction
  is the posting of before, one known for anything else is an error, and a new one moves the funds
  if they stay between 0 and the largest balance.
\<close>

definition bank_post :: "nat \<Rightarrow> string \<Rightarrow> int \<Rightarrow> string \<Rightarrow> bank \<Rightarrow> (exn + int) \<times> bank" where
  "bank_post account ty amount ref b =
     (if ty \<notin> set ledger_types then (Inl (ValueError ''entry_type''), b)
      else case postings b ref of
        Some (account', ty', amount') \<Rightarrow>
          (if account' \<noteq> account then Inl (ValueError ''ref wallet'')
           else if ty' \<noteq> ty then Inl (ValueError ''ref type'')
           else if (0 < amount') \<noteq> (0 < amount) then Inl (ValueError ''ref direction'')
           else Inr amount', b)
      | None \<Rightarrow>
          (case funds b account of
             None \<Rightarrow> (Inl (DoesNotExist ''Wallet''), b)
           | Some f \<Rightarrow>
               if f + amount < 0 then (Inl InsufficientBalance, b)
               else if bigint_max < f + amount then (Inl (DataError ''bigint''), b)
               else (Inr amount, b\<lparr>funds := (funds b)(account \<mapsto> f + amount),
                                   postings := (postings b)(ref \<mapsto> (account, ty, amount))\<rparr>)))"

definition bank_of :: "db \<Rightarrow> bank" where
  "bank_of s = \<lparr>funds = (\<lambda>w. map_option w_balance (find_by w_pk w (t_wallets s))),
     postings = (\<lambda>r. map_option (\<lambda>e. (le_wallet e, le_type e, le_amount e)) (find_by le_ref r (t_ledger s)))\<rparr>"

definition seen_as :: "(exn + ledger_entry) \<times> db \<Rightarrow> (exn + int) \<times> bank" where
  "seen_as = (\<lambda>(r, t). (map_sum id le_amount r, bank_of t))"

lemma bank_of_post:
  assumes "find_by w_pk (le_wallet e) (t_wallets s) = Some wal" and "find_by le_ref (le_ref e) (t_ledger s) = None"
  shows "bank_of (post_entry s e) = (bank_of s)\<lparr>
    funds := (funds (bank_of s))(le_wallet e \<mapsto> le_balance_after e),
    postings := (postings (bank_of s))(le_ref e \<mapsto> (le_wallet e, le_type e, le_amount e))\<rparr>"
  using assms by (auto simp: bank_of_def post_entry_def find_by_upd_by find_by_append fun_eq_iff split: option.splits)

lemma stored_balance:
  assumes "ledger_ok s" and "find_by w_pk w (t_wallets s) = Some wal"
  shows "0 \<le> w_balance wal" "w_balance wal \<le> bigint_max" "w_pk wal = w"
  using assms find_by_SomeD [OF assms(2)] by (auto simp: ledger_ok_def)

lemma stored_amount:
  assumes "ledger_ok s" and "find_by le_ref ref (t_ledger s) = Some e"
  shows "le_amount e \<noteq> 0"
  using assms find_by_SomeD [OF assms(2)] by (auto simp: ledger_ok_def)

lemma credit_refines:
  assumes ok: "ledger_ok s" and good: "0 < amount" "ty \<in> set ledger_types"
    and new: "find_by le_ref ref (t_ledger s) = None" and wal: "find_by w_pk w (t_wallets s) = Some wal"
  shows "seen_as (credit w amount ty ref nt s) = bank_post w ty amount ref (bank_of s)"
proof -
  have "postings (bank_of s) ref = None" "funds (bank_of s) w = Some (w_balance wal)"
    using new wal by (simp_all add: bank_of_def)
  note facts = good new wal this stored_balance [OF ok wal]
    bank_of_post [of "ledger_entry_of s w ty amount (w_balance wal + amount) ref nt" s wal]
  show ?thesis
  proof (cases "w_balance wal + amount \<le> bigint_max")
    case True
    with facts show ?thesis by (simp add: credit_new seen_as_def bank_post_def ledger_entry_of_def)
  next
    case False
    with facts show ?thesis by (simp add: credit_def wallet_defs run_simps Let_def seen_as_def bank_post_def)
  qed
qed

lemma debit_refines:
  assumes ok: "ledger_ok s" and good: "0 < amount" "ty \<in> set ledger_types"
    and new: "find_by le_ref ref (t_ledger s) = None" and wal: "find_by w_pk w (t_wallets s) = Some wal"
  shows "seen_as (debit w amount ty ref nt s) = bank_post w ty (- amount) ref (bank_of s)"
proof -
  have "postings (bank_of s) ref = None" "funds (bank_of s) w = Some (w_balance wal)"
    using new wal by (simp_all add: bank_of_def)
  note facts = good new wal this stored_balance [OF ok wal]
    bank_of_post [of "ledger_entry_of s w ty (- amount) (w_balance wal - amount) ref nt" s wal]
  show ?thesis
    by (cases "amount \<le> w_balance wal")
      (use facts in \<open>simp_all add: debit_new debit_insufficient seen_as_def bank_post_def ledger_entry_of_def\<close>)
qed

text \<open>
  C7.  The wallet service is a bank.  On every consistent ledger, \<open>credit\<close> and \<open>debit\<close> do what the one
  operation of the bank does, seen through the abstraction: they answer the same value or the same
  error and leave the bank the operation leaves, for every wallet, amount, type and reference.
\<close>

theorem wallet_refines_bank:
  assumes ok: "ledger_ok s"
  shows "seen_as (credit w amount ty ref nt s) =
      (if amount \<le> 0 then (Inl (ValueError ''credit amount''), bank_of s) else bank_post w ty amount ref (bank_of s))
    \<and> seen_as (debit w amount ty ref nt s) =
      (if amount \<le> 0 then (Inl (ValueError ''debit amount''), bank_of s) else bank_post w ty (- amount) ref (bank_of s))"
proof (cases "0 < amount \<and> ty \<in> set ledger_types")
  case False
  then show ?thesis
    by (auto simp: credit_def debit_def validate_entry_type_def run_simps seen_as_def bank_post_def)
next
  case good: True
  show ?thesis
  proof (cases "find_by le_ref ref (t_ledger s)")
    case (Some e)
    then have "postings (bank_of s) ref = Some (le_wallet e, le_type e, le_amount e)"
      by (simp add: bank_of_def)
    then show ?thesis
      using good credit_seen [OF _ _ Some, of amount ty w nt] debit_seen [OF _ _ Some, of amount ty w nt] stored_amount [OF ok Some]
      by (auto simp: seen_as_def bank_post_def)
  next
    case new: None
    then show ?thesis
      using good credit_refines [OF ok _ _ new] debit_refines [OF ok _ _ new]
      by (cases "find_by w_pk w (t_wallets s)")
        (simp_all add: credit_def debit_def wallet_defs run_simps seen_as_def bank_post_def bank_of_def)
  qed
qed

theorem wallet_refines_bank_witness:
  "seen_as (debit 1 101 ''purchase'' ''order:1'' [] example_wallet_db) = (Inl InsufficientBalance, bank_of example_wallet_db)"
  using wallet_refines_bank [OF example_wallet_ok, of 1 101 "''purchase''" "''order:1''" "[]"]
  by (simp add: bank_post_def bank_of_def example_wallet_db_def ledger_types_def)

end
