(* ===== verification/Images.thy ===== *)
theory Images
  imports Models
begin

text \<open>
  Uploaded images (\<open>core/images.py\<close>, the clean method of \<open>core/forms.py\<close>).  Pillow is a parameter: what
  it decodes, its thumbnails and its encoders.  A file is its bytes; a name is the random part and the
  extension.
\<close>

record image =
  im_width :: nat
  im_height :: nat
  im_mode :: string
  im_transparency :: bool
  im_animated :: bool

text \<open>
  \<open>decode\<close>: \<open>Image.open\<close> and \<open>load\<close>, \<open>None\<close> for what is no image; \<open>first_frame\<close>: \<open>seek(0)\<close>; \<open>exif_transpose\<close>;
  \<open>convert\<close>; \<open>crop\<close> left, top, width and height; \<open>thumbnail n\<close>: shrunk to fit a square of side \<open>n\<close>; the
  encoders: \<open>save\<close> as PNG and as WebP, with or without alpha, at a quality.
\<close>

record pillow =
  decode :: "string \<Rightarrow> image option"
  first_frame :: "image \<Rightarrow> image"
  exif_transpose :: "image \<Rightarrow> image"
  convert :: "string \<Rightarrow> image \<Rightarrow> image"
  crop :: "nat \<Rightarrow> nat \<Rightarrow> nat \<Rightarrow> nat \<Rightarrow> image \<Rightarrow> image"
  thumbnail :: "nat \<Rightarrow> image \<Rightarrow> image"
  encode_png :: "image \<Rightarrow> string"
  encode_webp :: "bool \<Rightarrow> nat \<Rightarrow> image \<Rightarrow> string"

definition max_upload_mb :: nat where "max_upload_mb = 10"
definition min_side :: nat where "min_side = 200"
definition max_side :: nat where "max_side = 2048"
definition target_bytes :: nat where "target_bytes = 900 * 1024"
definition quality_steps :: "nat list" where "quality_steps = [85, 78, 70, 62, 55]"

datatype upload_error = Too_heavy | Not_an_image | Too_small

definition longest :: "image \<Rightarrow> nat" where
  "longest img = max (im_width img) (im_height img)"

text \<open>Colour mode: alpha is kept, all else becomes RGB; the flag says which.\<close>

definition normalise_mode :: "pillow \<Rightarrow> image \<Rightarrow> image \<times> bool" where
  "normalise_mode P img =
     (if im_mode img \<in> {''RGBA'', ''LA''} \<or> (im_mode img = ''P'' \<and> im_transparency img)
      then (convert P ''RGBA'' img, True) else (convert P ''RGB'' img, False))"

text \<open>The quality is stepped down until the file fits the target.\<close>

fun step_down :: "pillow \<Rightarrow> bool \<Rightarrow> image \<Rightarrow> string \<Rightarrow> nat list \<Rightarrow> string" where
  "step_down P alpha img data [] = data"
| "step_down P alpha img data (q # qs) =
     (if length data \<le> target_bytes then data else step_down P alpha img (encode_webp P alpha q img) qs)"

definition encode_upload :: "pillow \<Rightarrow> string \<Rightarrow> bool \<Rightarrow> image \<Rightarrow> string \<times> string" where
  "encode_upload P fmt alpha img =
     (if fmt = ''png'' then
        (let data = encode_png P img
         in (if target_bytes * 2 < length data \<and> 1024 < longest img then encode_png P (thumbnail P 1024 img) else data, ''.png''))
      else (step_down P alpha img (encode_webp P alpha (hd quality_steps) img) (tl quality_steps), ''.webp''))"

text \<open>A centred square of side \<open>side\<close> where one is asked for, then shrunk.\<close>

definition fit :: "pillow \<Rightarrow> bool \<Rightarrow> nat \<Rightarrow> image \<Rightarrow> image" where
  "fit P square side img =
     (let cropped = (if square then crop P ((im_width img - side) div 2) ((im_height img - side) div 2) side side img else img)
      in if max_side < longest cropped then thumbnail P max_side cropped else cropped)"

text \<open>\<open>upload_size\<close> is that of the upload, where the storage knows it.\<close>

definition process_upload :: "pillow \<Rightarrow> bool \<Rightarrow> string \<Rightarrow> nat option \<Rightarrow> string \<Rightarrow> upload_error + string \<times> string" where
  "process_upload P square fmt upload_size file =
     (if (case upload_size of None \<Rightarrow> False | Some n \<Rightarrow> max_upload_mb * 1024 * 1024 < n) then Inl Too_heavy
      else case decode P file of
        None \<Rightarrow> Inl Not_an_image
      | Some opened \<Rightarrow>
          let framed = (if im_animated opened then first_frame P opened else opened);
              (img, alpha) = normalise_mode P (exif_transpose P framed);
              side = min (im_width img) (im_height img)
          in if side < min_side then Inl Too_small else Inr (encode_upload P fmt alpha (fit P square side img)))"

text \<open>\<open>ImageUploadField.clean\<close>: no new file passes through.\<close>

definition clean_upload :: "pillow \<Rightarrow> bool \<Rightarrow> string \<Rightarrow> (nat option \<times> string) option \<Rightarrow> upload_error + (string \<times> string) option" where
  "clean_upload P square fmt new_file =
     (case new_file of
        None \<Rightarrow> Inr None
      | Some (upload_size, file) \<Rightarrow> (case process_upload P square fmt upload_size file of Inl e \<Rightarrow> Inl e | Inr x \<Rightarrow> Inr (Some x)))"

section \<open>What is stored\<close>

text \<open>What Pillow documents of \<open>thumbnail\<close> (it fits the box and keeps the shape) and \<open>crop\<close>.\<close>

definition pillow_ok :: "pillow \<Rightarrow> bool" where
  "pillow_ok P =
     ((\<forall>n img. longest (thumbnail P n img) \<le> n)
      \<and> (\<forall>n img. im_width img = im_height img \<longrightarrow> im_width (thumbnail P n img) = im_height (thumbnail P n img))
      \<and> (\<forall>x y w h img. im_width (crop P x y w h img) = w \<and> im_height (crop P x y w h img) = h))"

lemma step_down_quality:
  assumes "data = encode_webp P alpha q img"
  shows "\<exists>r. step_down P alpha img data qs = encode_webp P alpha r img \<and> r \<in> set (q # qs)
     \<and> (length (step_down P alpha img data qs) \<le> target_bytes \<or> r = last (q # qs))"
  using assms
proof (induction qs arbitrary: data q)
  case (Cons p qs)
  from Cons.IH [OF refl, of p] Cons.prems show ?case
    by (cases "length data \<le> target_bytes") (auto split: if_splits)
qed auto

text \<open>
  Every stored image is at most 2048 pixels wide and high, square where a square is asked for, and a
  WebP file fits the target size unless even the last quality step does not; and what is refused is a
  file over ten megabytes, one that is no image, or one less than 200 pixels on a side.
\<close>

lemma upload_fits:
  assumes "pillow_ok P" and "process_upload P square fmt upload_size file = Inr (data, ext)"
  shows "\<exists>img alpha. longest img \<le> max_side \<and> (square \<longrightarrow> im_width img = im_height img)
     \<and> (ext = ''.png'' \<longrightarrow> data = encode_png P img)
     \<and> (ext = ''.webp'' \<longrightarrow> (\<exists>q. data = encode_webp P alpha q img \<and> q \<in> set quality_steps \<and> (length data \<le> target_bytes \<or> q = 55)))"
proof -
  obtain src side alpha where made: "encode_upload P fmt alpha (fit P square side src) = (data, ext)"
    using assms(2) by (auto simp: process_upload_def Let_def split: option.splits if_splits prod.splits)
  define img where "img = fit P square side src"
  have img: "longest img \<le> max_side" "square \<longrightarrow> im_width img = im_height img" "encode_upload P fmt alpha img = (data, ext)"
    using assms(1) made by (auto simp: img_def fit_def pillow_ok_def Let_def)
  show ?thesis
  proof (cases "fmt = ''png''")
    case True
    define out where "out = (if target_bytes * 2 < length (encode_png P img) \<and> 1024 < longest img then thumbnail P 1024 img else img)"
    have "longest (thumbnail P 1024 img) \<le> 1024" using assms(1) by (auto simp: pillow_ok_def)
    then have "longest out \<le> max_side" using img(1) by (simp add: out_def max_side_def)
    moreover have "square \<longrightarrow> im_width out = im_height out" using img(2) assms(1) by (simp add: out_def pillow_ok_def)
    moreover have "data = encode_png P out" "ext = ''.png''"
      using True img(3) by (auto simp: encode_upload_def Let_def out_def split: if_splits)
    ultimately show ?thesis by auto
  next
    case False
    obtain q where "data = encode_webp P alpha q img" "q \<in> set quality_steps" "length data \<le> target_bytes \<or> q = 55"
      using img(3) False step_down_quality [OF refl, where P = P and alpha = alpha and img = img and q = 85 and qs = "[78, 70, 62, 55]"] by (auto simp: encode_upload_def quality_steps_def)
    with img(1,2) img(3) False show ?thesis by (auto simp: encode_upload_def)
  qed
qed

end
