(* ===== verification/Spec2Isabelle.thy ===== *)
theory Spec2Isabelle
  imports System Bank Images
begin

text \<open>
  A model of the server side of a shop for digital goods (the Django project under \<open>src/apps\<close>): customers
  keep a prepaid wallet, buy plans of sellers from it or through the Sumopod gateway or a seller's static
  QRIS code, and get licences, files, credentials and courses in return.

  \<^bold>\<open>How the program is modelled.\<close>  The database is the record \<open>db\<close> of \<open>Models\<close>: one list of rows per table, in
  order of creation.  A function of the program is an action on it (\<open>Prelude\<close>): it returns a value or raises
  an exception, and what it wrote before an exception stays unless an \<open>atomic\<close> block undoes it, as
  \<open>transaction.atomic()\<close> does.  Requests of different users run one after the other; where the code
  guards against a race (\<open>select_for_update\<close>, unique keys, \<open>get_or_create\<close>) the guard is in the model as
  the code has it.  Money is whole rupiah (\<open>int\<close>, with the 64-bit bound of the column written out where
  a balance is stored), time is microseconds, Python's \<open>//\<close> is \<open>div\<close>.  What is not code of the repository
  is a parameter, the record \<open>env\<close> of \<open>Core_Services\<close>: HTTP, Fernet, HMAC, Ed25519, Django's signers and password
  hashes, JSON parsing, calendar arithmetic, random draws, Celery's retry, templates and mail.  \<open>demo_env\<close> is
  a concrete one.

  \<^bold>\<open>Theories and the code they model.\<close>
  \<^item> \<open>Text_Formats\<close>, \<open>Core_Services\<close>, \<open>Json_Text\<close>, \<open>Cache\<close>: \<open>core/formatting.py\<close>, \<open>core/validators.py\<close>, \<open>core/utils.py\<close>,
    \<open>core/audit.py\<close>, \<open>core/events.py\<close>, \<open>json.dumps\<close> and Django's cache; \<open>Images\<close>: \<open>core/images.py\<close>.
  \<^item> \<open>Wallet\<close>: \<open>wallet/services.py\<close>; \<open>Bank\<close> is its contract without rows, which it refines.
  \<^item> \<open>Provisioning\<close>, \<open>Orders\<close>, \<open>Subscriptions\<close>, \<open>Gateway\<close>, \<open>Checkout\<close>, \<open>Cart\<close>, \<open>Payments\<close>: \<open>provisioning/\<close>,
    \<open>licensing/provisioner.py\<close> and \<open>billing/\<close> (\<open>subscription_service\<close>, \<open>sumopod\<close>, \<open>checkout\<close>, \<open>cart_service\<close>, \<open>services\<close>, \<open>views\<close>).
  \<^item> \<open>Licensing\<close>, \<open>Activation\<close>: \<open>licensing/services.py\<close>, its tokens, signed entitlements, rate limits and API.
  \<^item> \<open>Messaging\<close>, \<open>Otp\<close>, \<open>Reminders\<close>, \<open>Handlers\<close>, \<open>Tasks\<close>: \<open>notifications/\<close> and the Celery tasks.
  \<^item> \<open>Web\<close>, \<open>Listing\<close>: what the views share; \<open>Storefront\<close>, \<open>Shop\<close>, \<open>Market\<close>: \<open>storefront/views.py\<close>, the catalog API
    and the template tags; \<open>Dashboard\<close>, \<open>Account_Pages\<close>: \<open>dashboard/views.py\<close>; \<open>Console\<close>, \<open>Console_Pages\<close>: \<open>console/\<close>;
    \<open>Sellers\<close>, \<open>Seller_Desk\<close>, \<open>Courses\<close>, \<open>Seller_Isolation\<close>, \<open>Desk_Pages\<close>: \<open>seller/\<close>; \<open>Payouts\<close>: the payout actions of
    \<open>billing/admin.py\<close>.
  \<^item> \<open>Site\<close>, \<open>System\<close>: every request, webhook, API call, task and job as the steps of one transition system.

  \<^bold>\<open>How the parts interact.\<close>  Views call services; every service that moves money calls \<open>credit\<close> or \<open>debit\<close>, the only
  writers of a balance.  A paid order is provisioned by the registry, which makes grants and licences; a
  subscription renews from the wallet and suspends or resumes what it gave.  A paid top-up completes the
  order or cart it was for.  Services emit events; their handlers queue messages; a task delivers
  them, and the provider's webhook moves the deliveries on.

  \<^bold>\<open>What the lemmas show.\<close>
  \<^item> Money: credits and debits are exact, idempotent and never overdraw, and refine the bank; purchases, carts,
    renewals, top-ups and refunds move exactly their price once; the page shows the price that is
    charged; on the whole site the ledger stays sound and money comes only from signed deliveries or a superuser.
  \<^item> Access: seats stay within limits; tokens round-trip and are refused when stale or foreign; remote operations fail
    closed; suspension cuts access and a cancelled subscription is final.
  \<^item> Separation: what a customer or a seller sees and changes depends on their own rows only.  For pages
    this is noninterference: two databases that agree on one's own rows give the same page.
  \<^item> Messages: one channel per notification, deliveries never move back, each reminder goes out once and arrives.
  \<^item> The back office: exports read back, the cockpit's figure is the ledger's, payouts only move forward.
  \<^item> Locales: a component states what it needs of an invariant as a locale (\<open>core_inv\<close>, \<open>wallet_inv\<close>, \<open>checkout_inv\<close>,
    ..., \<open>site_frame\<close>) and what its operations leave alone as a frame (\<open>frame_inv\<close> and its extensions); the
    invariants of the model interpret them, so that an operation is shown to keep them all at once.

  \<^bold>\<open>Bounds.\<close>  Nothing runs on fuel.  Loops over query sets are recursions over lists; the search for a free slug
  ends because finitely many are taken (\<open>free_slug\<close>); drawing a public id or a licence key tries five times as
  the code does and then raises.  The poll job and the batch jobs are folds over the rows selected at their start.

  \<^bold>\<open>Not modelled.\<close>  The management commands and seed scripts (they fill a database for demonstrations), the settings,
  the migrations (the tables are those of the models), the row editors of the Django admin and sign-in (Django and
  allauth), the templates, and the branding and rendering of mails and PDF files.  Of the views: flash messages,
  the fragments that answer HTMX and fetch requests, the estimate of the gateway fee (binary floating point,
  only shown), labels, and the theme of a store page.  Text is ASCII; the collation of the database and the
  interleaving of two open transactions are outside.
\<close>

end
